(* ===== verification/Prelude.thy ===== *)
theory Prelude
  imports Main "HOL-Library.Char_ord" "HOL-Library.List_Lexorder" "HOL-Library.Sublist"
begin

text \<open>
  What every component shares: the parts of Go's \<^verbatim>\<open>strings\<close> and \<^verbatim>\<open>fmt\<close> packages the source
  uses, on byte strings (a Go string is a sequence of bytes, so a \<^typ>\<open>string\<close> here is the
  UTF-8 text); 64-bit wrap-around of \<^verbatim>\<open>int\<close>; time stamps; the sequencing of fallible
  operations on a state; and generic lemmas on lists.

  \<^item> \<open>trim_space\<close> and \<open>fields\<close> treat exactly the byte sequences that encode Go's
    \<^verbatim>\<open>unicode.IsSpace\<close> characters as space (the ASCII ones, U+0085, U+00A0, U+1680,
    U+2000 to U+200A, U+2028, U+2029, U+202F, U+205F, U+3000).
  \<^item> \<open>to_lower\<close> is \<^verbatim>\<open>strings.ToLower\<close> on ASCII text; bytes of other characters are left
    as they are.
  \<^item> A time is a number of nanoseconds since the Unix epoch; the text the code stores in
    RFC 3339 form in UTC is represented by the whole seconds it denotes (for years of four
    digits the order of the texts is the order of these numbers).
\<close>

named_theorems frame_simps \<open>fields an operation leaves alone\<close>
named_theorems wf_intros \<open>operations keep the well-formedness of their state\<close>

section \<open>Fallible operations on a state\<close>

type_synonym ('e, 'a, 's) outcome = "('e + 'a) \<times> 's"

definition bind_res :: "('e, 'a, 's) outcome \<Rightarrow> ('a \<Rightarrow> 's \<Rightarrow> ('e, 'b, 's) outcome) \<Rightarrow> ('e, 'b, 's) outcome" where
  "bind_res m k = (case m of (Inl e, s) \<Rightarrow> (Inl e, s) | (Inr a, s) \<Rightarrow> k a s)"

lemma bind_res_Inl [simp]: "bind_res (Inl e, s) k = (Inl e, s)"
  by (simp add: bind_res_def)

lemma bind_res_Inr [simp]: "bind_res (Inr a, s) k = k a s"
  by (simp add: bind_res_def)

lemma bind_res_eq_Inr:
  "bind_res m k = (Inr b, t) \<longleftrightarrow> (\<exists>a s. m = (Inr a, s) \<and> k a s = (Inr b, t))"
  by (auto simp: bind_res_def split: prod.splits sum.splits)

lemma bind_res_cases:
  assumes "\<And>e s. m = (Inl e, s) \<Longrightarrow> P (Inl e, s)"
    and "\<And>a s. m = (Inr a, s) \<Longrightarrow> P (k a s)"
  shows "P (bind_res m k)"
  using assms by (auto simp: bind_res_def split: prod.splits sum.splits)

text \<open>A property of states kept by both halves is kept by the sequence.\<close>

lemma bind_res_keeps:
  assumes "P (snd m)" and "\<And>a s. m = (Inr a, s) \<Longrightarrow> P s \<Longrightarrow> P (snd (k a s))"
  shows "P (snd (bind_res m k))"
  using assms by (cases m; cases "fst m") (auto simp: bind_res_def)

definition is_ok :: "('e + 'a) \<times> 's \<Rightarrow> bool" where
  "is_ok r = (case fst r of Inl _ \<Rightarrow> False | Inr _ \<Rightarrow> True)"

lemma is_ok_simps [simp]: "is_ok (Inr a, s)" "\<not> is_ok (Inl e, s)"
  by (simp_all add: is_ok_def)

lemma is_okE:
  assumes "is_ok m"
  obtains a s where "m = (Inr a, s)"
  using assms by (cases m; cases "fst m") (auto simp: is_ok_def)

section \<open>Strings\<close>

definition has_prefix :: "string \<Rightarrow> string \<Rightarrow> bool" where
  "has_prefix p s = (take (length p) s = p)"

definition has_suffix :: "string \<Rightarrow> string \<Rightarrow> bool" where
  "has_suffix p s = has_prefix (rev p) (rev s)"

definition trim_prefix :: "string \<Rightarrow> string \<Rightarrow> string" where
  "trim_prefix p s = (if has_prefix p s then drop (length p) s else s)"

definition trim_suffix :: "string \<Rightarrow> string \<Rightarrow> string" where
  "trim_suffix p s = (if has_suffix p s then take (length s - length p) s else s)"

fun contains :: "string \<Rightarrow> string \<Rightarrow> bool" where
  "contains sub [] = (sub = [])"
| "contains sub (c # s) = (has_prefix sub (c # s) \<or> contains sub s)"

fun index_of :: "string \<Rightarrow> string \<Rightarrow> nat option" where
  "index_of sub [] = (if sub = [] then Some 0 else None)"
| "index_of sub (c # s) =
     (if has_prefix sub (c # s) then Some 0 else map_option Suc (index_of sub s))"

definition contains_any :: "string \<Rightarrow> string \<Rightarrow> bool" where
  "contains_any s chars = list_ex (\<lambda>c. c \<in> set chars) s"

fun join :: "string \<Rightarrow> string list \<Rightarrow> string" where
  "join sep [] = []"
| "join sep [x] = x"
| "join sep (x # y # xs) = x @ sep @ join sep (y # xs)"

lemma has_prefix_append [simp]: "has_prefix p (p @ s)"
  by (simp add: has_prefix_def)

lemma has_prefix_Nil [simp]: "has_prefix [] s"
  by (simp add: has_prefix_def)

lemma has_prefix_iff: "has_prefix p s \<longleftrightarrow> (\<exists>t. s = p @ t)"
proof
  assume "has_prefix p s"
  then have "s = p @ drop (length p) s"
    by (metis append_take_drop_id has_prefix_def)
  then show "\<exists>t. s = p @ t" ..
qed auto

lemma has_prefix_length: "has_prefix p s \<Longrightarrow> length p \<le> length s"
  by (auto simp: has_prefix_iff)

lemma contains_iff: "contains sub s \<longleftrightarrow> (\<exists>a b. s = a @ sub @ b)"
proof (induction s)
  case Nil
  then show ?case by auto
next
  case (Cons c s)
  show ?case
  proof
    assume "contains sub (c # s)"
    then consider "has_prefix sub (c # s)" | "contains sub s" by auto
    then show "\<exists>a b. c # s = a @ sub @ b"
    proof cases
      case 1
      then show ?thesis by (metis append_Nil has_prefix_iff)
    next
      case 2
      then show ?thesis using Cons.IH by (metis append_Cons)
    qed
  next
    assume "\<exists>a b. c # s = a @ sub @ b"
    then obtain a b where ab: "c # s = a @ sub @ b" by blast
    show "contains sub (c # s)"
    proof (cases a)
      case Nil
      with ab have "has_prefix sub (c # s)" by simp
      then show ?thesis by simp
    next
      case (Cons d a')
      with ab have "s = a' @ sub @ b" by simp
      then show ?thesis using Cons.IH by auto
    qed
  qed
qed

lemma contains_any_iff: "contains_any s cs \<longleftrightarrow> set s \<inter> set cs \<noteq> {}"
  by (auto simp: contains_any_def list_ex_iff)

lemma index_of_Some:
  "index_of sub s = Some i \<Longrightarrow> i + length sub \<le> length s \<and> has_prefix sub (drop i s)"
proof (induction s arbitrary: i)
  case Nil
  then show ?case by (auto split: if_splits)
next
  case (Cons c s)
  show ?case
  proof (cases "has_prefix sub (c # s)")
    case True
    with Cons.prems show ?thesis by (auto dest: has_prefix_length)
  next
    case False
    with Cons.prems obtain j where "index_of sub s = Some j" "i = Suc j" by auto
    with Cons.IH show ?thesis by auto
  qed
qed

lemma index_of_None: "index_of sub s = None \<longleftrightarrow> \<not> contains sub s"
  by (induction s) auto

text \<open>\<^verbatim>\<open>strings.Split\<close> with a non-empty separator.\<close>

function split_on :: "string \<Rightarrow> string \<Rightarrow> string list" where
  "split_on sep s =
     (case index_of sep s of
        None \<Rightarrow> [s]
      | Some i \<Rightarrow>
          if sep = [] then [s]
          else take i s # split_on sep (drop (i + length sep) s))"
  by pat_completeness auto
termination
proof (relation "measure (\<lambda>(sep, s). length s)")
  fix sep s :: string and i
  assume "index_of sep s = Some i" "sep \<noteq> []"
  then have "i + length sep \<le> length s" "0 < length sep"
    using index_of_Some by auto
  then have "length s - (i + length sep) < length s" by linarith
  then show "((sep, drop (i + length sep) s), sep, s) \<in> measure (\<lambda>(sep, s). length s)"
    by simp
qed simp

declare split_on.simps [simp del]

subsection \<open>White space\<close>

definition sp1 :: "char \<Rightarrow> bool" where
  "sp1 c = (c \<in> set [CHR 0x09, CHR 0x0A, CHR 0x0B, CHR 0x0C, CHR 0x0D, CHR 0x20])"

definition sp2 :: "char \<Rightarrow> char \<Rightarrow> bool" where
  "sp2 a b = (a = CHR 0xC2 \<and> (b = CHR 0x85 \<or> b = CHR 0xA0))"

definition sp3 :: "char \<Rightarrow> char \<Rightarrow> char \<Rightarrow> bool" where
  "sp3 a b c =
     (a = CHR 0xE1 \<and> b = CHR 0x9A \<and> c = CHR 0x80
      \<or> a = CHR 0xE2 \<and> b = CHR 0x80 \<and>
          c \<in> set [CHR 0x80, CHR 0x81, CHR 0x82, CHR 0x83, CHR 0x84, CHR 0x85, CHR 0x86,
                   CHR 0x87, CHR 0x88, CHR 0x89, CHR 0x8A, CHR 0xA8, CHR 0xA9, CHR 0xAF]
      \<or> a = CHR 0xE2 \<and> b = CHR 0x81 \<and> c = CHR 0x9F
      \<or> a = CHR 0xE3 \<and> b = CHR 0x80 \<and> c = CHR 0x80)"

text \<open>The length of the space that opens a string, 0 when there is none; the two classifiers
  are parameters, so that the same function serves the reversed string.\<close>

definition space_len :: "(char \<Rightarrow> char \<Rightarrow> bool) \<Rightarrow> (char \<Rightarrow> char \<Rightarrow> char \<Rightarrow> bool) \<Rightarrow> string \<Rightarrow> nat" where
  "space_len p2 p3 s =
     (case s of
        [] \<Rightarrow> 0
      | a # r \<Rightarrow>
          if sp1 a then 1
          else (case r of
                  [] \<Rightarrow> 0
                | b # r' \<Rightarrow>
                    if p2 a b then 2
                    else (case r' of [] \<Rightarrow> 0 | c # _ \<Rightarrow> if p3 a b c then 3 else 0)))"

function drop_space :: "(char \<Rightarrow> char \<Rightarrow> bool) \<Rightarrow> (char \<Rightarrow> char \<Rightarrow> char \<Rightarrow> bool) \<Rightarrow> string \<Rightarrow> string" where
  "drop_space p2 p3 s =
     (if space_len p2 p3 s = 0 then s else drop_space p2 p3 (drop (space_len p2 p3 s) s))"
  by pat_completeness auto
termination
  by (relation "measure (\<lambda>(p2, p3, s). length s)")
     (auto simp: space_len_def split: list.splits if_splits)

declare drop_space.simps [simp del]

definition trim_left :: "string \<Rightarrow> string" where
  "trim_left s = drop_space sp2 sp3 s"

definition trim_right :: "string \<Rightarrow> string" where
  "trim_right s = rev (drop_space (\<lambda>b a. sp2 a b) (\<lambda>c b a. sp3 a b c) (rev s))"

definition trim_space :: "string \<Rightarrow> string" where
  "trim_space s = trim_right (trim_left s)"

lemma space_len_le: "space_len p2 p3 s \<le> length s"
  by (auto simp: space_len_def split: list.splits)

lemma space_len_prefix: "space_len p2 p3 t \<noteq> 0 \<Longrightarrow> space_len p2 p3 (t @ u) \<noteq> 0"
  by (auto simp: space_len_def split: list.splits if_splits)

lemma drop_space_done: "space_len p2 p3 s = 0 \<Longrightarrow> drop_space p2 p3 s = s"
  by (subst drop_space.simps) simp

lemma drop_space_len: "space_len p2 p3 (drop_space p2 p3 s) = 0"
proof (induction p2 p3 s rule: drop_space.induct)
  case (1 p2 p3 s)
  then show ?case
    by (cases "space_len p2 p3 s = 0") (simp_all add: drop_space.simps [of p2 p3 s])
qed

lemma drop_space_suffix: "\<exists>t. s = t @ drop_space p2 p3 s"
proof (induction p2 p3 s rule: drop_space.induct)
  case (1 p2 p3 s)
  show ?case
  proof (cases "space_len p2 p3 s = 0")
    case True
    then show ?thesis by (simp add: drop_space_done)
  next
    case False
    then obtain t where "drop (space_len p2 p3 s) s = t @ drop_space p2 p3 (drop (space_len p2 p3 s) s)"
      using "1.IH" by blast
    then have "s = (take (space_len p2 p3 s) s @ t) @ drop_space p2 p3 (drop (space_len p2 p3 s) s)"
      by (metis append.assoc append_take_drop_id)
    then show ?thesis
      using False by (metis drop_space.simps)
  qed
qed

definition trimmed :: "string \<Rightarrow> bool" where
  "trimmed s \<longleftrightarrow> space_len sp2 sp3 s = 0
     \<and> space_len (\<lambda>b a. sp2 a b) (\<lambda>c b a. sp3 a b c) (rev s) = 0"

lemma trim_space_trimmed_id: "trimmed s \<Longrightarrow> trim_space s = s"
  by (simp add: trimmed_def trim_space_def trim_left_def trim_right_def drop_space_done)

lemma trimmed_trim_space: "trimmed (trim_space s)"
proof -
  let ?l = "trim_left s"
  let ?d = "drop_space (\<lambda>b a. sp2 a b) (\<lambda>c b a. sp3 a b c) (rev ?l)"
  obtain t where "rev ?l = t @ ?d" using drop_space_suffix by blast
  then have l: "?l = rev ?d @ rev t" by (metis rev_append rev_rev_ident)
  have "space_len sp2 sp3 ?l = 0" by (simp add: trim_left_def drop_space_len)
  then have "space_len sp2 sp3 (rev ?d) = 0" using space_len_prefix l by metis
  then show ?thesis
    by (simp add: trimmed_def trim_space_def trim_right_def drop_space_len)
qed

lemma trim_space_idem [simp]: "trim_space (trim_space s) = trim_space s"
  by (rule trim_space_trimmed_id [OF trimmed_trim_space])

lemma trimmed_Nil [simp]: "trimmed []"
  by (simp add: trimmed_def space_len_def)

lemma trim_space_Nil [simp]: "trim_space [] = []"
  by (rule trim_space_trimmed_id) simp

lemma trim_space_infix: "\<exists>a b. s = a @ trim_space s @ b"
proof -
  obtain a where a: "s = a @ trim_left s"
    unfolding trim_left_def using drop_space_suffix by blast
  let ?d = "drop_space (\<lambda>b a. sp2 a b) (\<lambda>c b a. sp3 a b c) (rev (trim_left s))"
  obtain t where "rev (trim_left s) = t @ ?d" using drop_space_suffix by blast
  then have "trim_left s = rev ?d @ rev t" by (metis rev_append rev_rev_ident)
  then have "s = a @ trim_space s @ rev t"
    using a by (simp add: trim_space_def trim_right_def)
  then show ?thesis by blast
qed

lemma trim_space_length: "length (trim_space s) \<le> length s"
proof -
  obtain a b where "s = a @ trim_space s @ b" using trim_space_infix by blast
  then have "length s = length a + (length (trim_space s) + length b)"
    by (metis length_append)
  then show ?thesis by simp
qed

lemma set_trim_space: "set (trim_space s) \<subseteq> set s"
proof -
  obtain a b where "s = a @ trim_space s @ b" using trim_space_infix by blast
  then have "set s = set a \<union> (set (trim_space s) \<union> set b)"
    by (metis set_append)
  then show ?thesis by blast
qed

text \<open>\<^verbatim>\<open>strings.Fields\<close>: the maximal runs of bytes that are no space.\<close>

function fields_from :: "string \<Rightarrow> string \<Rightarrow> string list" where
  "fields_from cur s =
     (case s of
        [] \<Rightarrow> (if cur = [] then [] else [rev cur])
      | c # r \<Rightarrow>
          if space_len sp2 sp3 s = 0 then fields_from (c # cur) r
          else (if cur = [] then [] else [rev cur])
               @ fields_from [] (drop (space_len sp2 sp3 s) s))"
  by pat_completeness auto
termination
  by (relation "measure (\<lambda>(cur, s). length s)") (auto simp: space_len_le)

declare fields_from.simps [simp del]

definition fields :: "string \<Rightarrow> string list" where
  "fields s = fields_from [] s"

subsection \<open>Case, numbers, the first non-blank value\<close>

definition lower_char :: "char \<Rightarrow> char" where
  "lower_char c = (if CHR ''A'' \<le> c \<and> c \<le> CHR ''Z'' then char_of (of_char c + 32 :: nat) else c)"

definition to_lower :: "string \<Rightarrow> string" where
  "to_lower s = map lower_char s"

definition is_lower_alpha :: "char \<Rightarrow> bool" where
  "is_lower_alpha c = (CHR ''a'' \<le> c \<and> c \<le> CHR ''z'')"

definition is_upper_alpha :: "char \<Rightarrow> bool" where
  "is_upper_alpha c = (CHR ''A'' \<le> c \<and> c \<le> CHR ''Z'')"

definition is_digit :: "char \<Rightarrow> bool" where
  "is_digit c = (CHR ''0'' \<le> c \<and> c \<le> CHR ''9'')"

lemma length_to_lower [simp]: "length (to_lower s) = length s"
  by (simp add: to_lower_def)

fun show_nat :: "nat \<Rightarrow> string" where
  "show_nat n = (if n < 10 then [char_of (48 + n)] else show_nat (n div 10) @ [char_of (48 + n mod 10)])"

declare show_nat.simps [simp del]

definition show_int :: "int \<Rightarrow> string" where
  "show_int i = (if i < 0 then CHR ''-'' # show_nat (nat (- i)) else show_nat (nat i))"

fun digits_value :: "nat \<Rightarrow> string \<Rightarrow> nat option" where
  "digits_value acc [] = Some acc"
| "digits_value acc (c # s) =
     (if is_digit c then digits_value (acc * 10 + (of_char c - 48)) s else None)"

section \<open>Machine integers\<close>

text \<open>Go's \<^verbatim>\<open>int\<close> and \<^verbatim>\<open>int64\<close> on the supported platforms: 64 bits, two's complement.\<close>

definition wrap64 :: "int \<Rightarrow> int" where
  "wrap64 i = (i + 2 ^ 63) mod 2 ^ 64 - 2 ^ 63"

lemma wrap64_id: "- (2 ^ 63) \<le> i \<Longrightarrow> i < 2 ^ 63 \<Longrightarrow> wrap64 i = i"
  by (simp add: wrap64_def)

lemma wrap64_range: "- (2 ^ 63) \<le> wrap64 i \<and> wrap64 i < 2 ^ 63"
proof -
  have "0 \<le> (i + 2 ^ 63) mod (2 ^ 64 :: int)" "(i + 2 ^ 63) mod (2 ^ 64 :: int) < 2 ^ 64"
    by simp_all
  then show ?thesis unfolding wrap64_def by simp
qed

text \<open>\<^verbatim>\<open>strconv.Atoi\<close> and \<^verbatim>\<open>strconv.ParseInt(s, 10, 64)\<close>: an optional sign, then at least one
  decimal digit, and a value that fits in 64 bits; anything else is an error.\<close>

definition parse_int64 :: "string \<Rightarrow> int option" where
  "parse_int64 s =
     (let neg = has_prefix ''-'' s;
          ds = (if has_prefix ''-'' s \<or> has_prefix ''+'' s then drop 1 s else s)
      in if ds = [] then None
         else (case digits_value 0 ds of
                 None \<Rightarrow> None
               | Some v \<Rightarrow>
                   (let i = (if neg then - int v else int v)
                    in if - (2 ^ 63) \<le> i \<and> i < 2 ^ 63 then Some i else None)))"

section \<open>Time\<close>

type_synonym time = int \<comment> \<open>nanoseconds since the Unix epoch\<close>
type_synonym stamp = int \<comment> \<open>an RFC 3339 text in UTC, as the seconds it denotes\<close>

definition nanos_per_second :: int where "nanos_per_second = 1000000000"
definition nanos_per_minute :: int where "nanos_per_minute = 60000000000"

definition to_stamp :: "time \<Rightarrow> stamp" where
  "to_stamp t = t div nanos_per_second"

definition of_stamp :: "stamp \<Rightarrow> time" where
  "of_stamp s = s * nanos_per_second"

lemma of_stamp_to_stamp_le: "of_stamp (to_stamp t) \<le> t"
  unfolding of_stamp_def to_stamp_def nanos_per_second_def by presburger

lemma to_stamp_of_stamp [simp]: "to_stamp (of_stamp s) = s"
  by (simp add: of_stamp_def to_stamp_def nanos_per_second_def)

lemma to_stamp_mono: "a \<le> b \<Longrightarrow> to_stamp a \<le> to_stamp b"
  by (simp add: to_stamp_def nanos_per_second_def zdiv_mono1)

section \<open>Pages of a query result\<close>

text \<open>\<^verbatim>\<open>LIMIT ? OFFSET ?\<close> with a positive limit and an offset that is not negative.\<close>

definition page :: "int \<Rightarrow> int \<Rightarrow> 'a list \<Rightarrow> 'a list" where
  "page limit offset xs = take (nat limit) (drop (nat offset) xs)"

lemma set_page: "set (page l ofs xs) \<subseteq> set xs"
  by (auto simp: page_def dest: in_set_takeD in_set_dropD)

lemma length_page: "length (page l ofs xs) \<le> nat l"
  by (simp add: page_def)

lemma page_all: "int (length xs) \<le> l \<Longrightarrow> page l 0 xs = xs"
  by (simp add: page_def)

text \<open>Two consecutive pages are one page of the total size.\<close>

lemma page_append:
  "0 \<le> l \<Longrightarrow> 0 \<le> m \<Longrightarrow> 0 \<le> ofs \<Longrightarrow>
   page l ofs xs @ page m (ofs + l) xs = page (l + m) ofs xs"
proof -
  assume "0 \<le> l" "0 \<le> m" "0 \<le> ofs"
  then have n: "nat (ofs + l) = nat l + nat ofs" "nat (l + m) = nat l + nat m"
    by (simp_all add: nat_add_distrib)
  show ?thesis
    unfolding page_def n by (simp add: take_add)
qed

lemma page_rev_suffix: "rev (page l 0 (rev xs)) = drop (length xs - nat l) xs"
  by (simp add: page_def take_rev)

section \<open>Lists\<close>

lemma sorted_map_append_last:
  "sorted (map f xs) \<Longrightarrow> (\<And>x. x \<in> set xs \<Longrightarrow> f x \<le> f y) \<Longrightarrow> sorted (map f (xs @ [y]))"
  by (auto simp: sorted_append)

text \<open>\<^verbatim>\<open>ORDER BY key DESC\<close> on rows with distinct keys in ascending order is the reversal.\<close>

definition order_desc :: "('a \<Rightarrow> int) \<Rightarrow> 'a list \<Rightarrow> 'a list" where
  "order_desc key rows = rev (sort_key key rows)"

lemma set_order_desc [simp]: "set (order_desc key rows) = set rows"
  by (simp add: order_desc_def)

lemma length_order_desc [simp]: "length (order_desc key rows) = length rows"
  by (simp add: order_desc_def)

lemma order_desc_sorted: "sorted (map key rows) \<Longrightarrow> order_desc key rows = rev rows"
  by (simp add: order_desc_def sort_key_id_if_sorted)

lemma sorted_map_filter_key: "sorted (map f xs) \<Longrightarrow> sorted (map f (filter P xs))"
  by (induction xs) auto

lemma distinct_map_filter_key: "distinct (map f xs) \<Longrightarrow> distinct (map f (filter P xs))"
  by (induction xs) auto

end
