(* ===== verification/Store.thy ===== *)
theory Store
  imports Prelude "HOL-Library.Product_Lexorder"
begin

text \<open>
  The SQLite store, \<^verbatim>\<open>internal/store/sqlite.go\<close>. A table is the list of its rows in insertion
  order, together with the last row id that \<^verbatim>\<open>AUTOINCREMENT\<close> handed out; a SQL statement of the
  source is its documented meaning on these lists. Foreign keys are not enforced, since the source
  never turns the pragma on. Every statement may fail in the engine (a locked or busy database, an
  I/O error): \<open>faults\<close> holds the engine's answers to the statements to come, \<open>None\<close> or an absent
  entry for a statement that runs, \<open>Some e\<close> for one that is refused with the message \<open>e\<close> and
  changes nothing. A transaction that does not commit leaves the tables as they were.
\<close>

section \<open>Rows\<close>

record User =
  user_id :: int
  user_name :: string
  user_hash :: string
  user_role :: string
  user_created :: stamp
  user_locked :: "stamp option"
  user_failed :: int

record Session =
  sess_id :: int
  sess_user :: string
  sess_model :: string
  sess_prompt :: string
  sess_response :: string
  sess_kind :: string
  sess_task :: string
  sess_parent :: "int option"
  sess_created :: stamp

record Message =
  msg_id :: int
  msg_session :: int
  msg_user :: string
  msg_role :: string
  msg_content :: string
  msg_created :: stamp

record FtsRow =
  fts_content :: string
  fts_user :: string
  fts_model :: string
  fts_role :: string
  fts_session :: int
  fts_message :: int
  fts_created :: stamp

record SearchResult =
  res_session :: int
  res_message :: int
  res_user :: string
  res_model :: string
  res_role :: string
  res_content :: string
  res_created :: stamp
  res_session_time :: stamp

record SearchFilters =
  sf_user :: string
  sf_query :: string
  sf_role :: string
  sf_session :: int
  sf_from :: "time option"
  sf_to :: "time option"
  sf_limit :: int

record AuditRecord =
  audit_id :: int
  audit_user :: string
  audit_action :: string
  audit_detail :: string
  audit_created :: stamp

record AuditFilters =
  af_user :: string
  af_action :: string
  af_from :: "time option"
  af_to :: "time option"
  af_limit :: int
  af_offset :: int

record ExtensionState =
  es_kind :: string
  es_name :: string
  es_enabled :: bool
  es_hash :: string
  es_updated :: stamp

record ExtensionHookRecord =
  hook_id :: int
  hook_user :: string
  hook_kind :: string
  hook_ext :: string
  hook_phase :: string
  hook_hook :: string
  hook_status :: string
  hook_output :: string
  hook_error :: string
  hook_created :: stamp

record ExtensionHookFilters =
  hf_user :: string
  hf_kind :: string
  hf_name :: string
  hf_phase :: string
  hf_limit :: int
  hf_offset :: int

record ContextSummary =
  cs_user :: string
  cs_summary :: string
  cs_strategy :: string
  cs_updated :: stamp

record MultiAgentTraceRecord =
  tr_id :: int
  tr_user :: string
  tr_parent :: int
  tr_child :: int
  tr_task :: string
  tr_iteration :: int
  tr_type :: string
  tr_tool :: string
  tr_input :: string
  tr_output :: string
  tr_snapshot :: string
  tr_verified :: bool
  tr_verifier :: string
  tr_class :: string
  tr_error :: string
  tr_note :: string
  tr_created :: stamp

record MultiAgentTraceFilters =
  tf_user :: string
  tf_parent :: int
  tf_child :: int
  tf_task :: string
  tf_from :: "time option"
  tf_to :: "time option"
  tf_limit :: int
  tf_offset :: int

record MultiAgentTraceSummary =
  ts_tool :: string
  ts_type :: string
  ts_total :: int
  ts_failures :: int
  ts_last_error :: string
  ts_last_seen :: stamp

record MultiAgentTraceHotspot =
  th_parent :: int
  th_child :: int
  th_task :: string
  th_total :: int
  th_failures :: int

record MultiAgentVerifierSummary =
  vs_tool :: string
  vs_verifier :: string
  vs_class :: string
  vs_verified :: int
  vs_failed :: int
  vs_total :: int

record AuditActionSummary =
  aas_action :: string
  aas_total :: int

record UserInsights =
  ui_user :: string
  ui_since :: "time option"
  ui_sessions :: int
  ui_chat :: int
  ui_parent :: int
  ui_child :: int
  ui_messages :: int
  ui_audits :: int
  ui_actions :: "AuditActionSummary list"
  ui_latest :: stamp

record GatewayUpdate =
  gu_provider :: string
  gu_external :: string
  gu_created :: stamp

record Store =
  users :: "User list"
  users_seq :: int
  sessions :: "Session list"
  sessions_seq :: int
  messages :: "Message list"
  messages_seq :: int
  messages_fts :: "FtsRow list"
  audit_log :: "AuditRecord list"
  audit_seq :: int
  processed_gateway_updates :: "GatewayUpdate list"
  extension_states :: "ExtensionState list"
  extension_hook_runs :: "ExtensionHookRecord list"
  hooks_seq :: int
  context_summaries :: "ContextSummary list"
  multiagent_traces :: "MultiAgentTraceRecord list"
  traces_seq :: int
  faults :: "string option list"

text \<open>The database that \<^verbatim>\<open>Open\<close> creates: every table of the schema, empty.\<close>

definition Open :: Store where
  "Open = \<lparr>users = [], users_seq = 0, sessions = [], sessions_seq = 0, messages = [],
     messages_seq = 0, messages_fts = [], audit_log = [], audit_seq = 0,
     processed_gateway_updates = [], extension_states = [], extension_hook_runs = [],
     hooks_seq = 0, context_summaries = [], multiagent_traces = [], traces_seq = 0, faults = []\<rparr>"

section \<open>Statements and transactions\<close>

datatype db_error =
    UniqueViolation string
  | NoRows
  | ScanNull string
  | EngineError string
  | NoFullTurn int
  | NotATurnPair int

fun db_error_text :: "db_error \<Rightarrow> string" where
  "db_error_text (UniqueViolation c) = ''constraint failed: UNIQUE constraint failed: '' @ c"
| "db_error_text NoRows = ''sql: no rows in result set''"
| "db_error_text (ScanNull c) = ''sql: Scan error on column '' @ c @ '': converting NULL is unsupported''"
| "db_error_text (EngineError e) = e"
| "db_error_text (NoFullTurn i) = ''session '' @ show_int i @ '' does not have a full turn to delete''"
| "db_error_text (NotATurnPair i) = ''session '' @ show_int i @ '' last turn is not a user/assistant pair''"

type_synonym 'a db_result = "(db_error, 'a, Store) outcome"

definition stmt :: "(Store \<Rightarrow> 'a db_result) \<Rightarrow> Store \<Rightarrow> 'a db_result" where
  "stmt f d =
     (case faults d of
        [] \<Rightarrow> f d
      | None # fs \<Rightarrow> f (d\<lparr>faults := fs\<rparr>)
      | Some e # fs \<Rightarrow> (Inl (EngineError e), d\<lparr>faults := fs\<rparr>))"

definition exec :: "(Store \<Rightarrow> Store) \<Rightarrow> Store \<Rightarrow> unit db_result" where
  "exec f d = stmt (\<lambda>d. (Inr (), f d)) d"

definition query :: "(Store \<Rightarrow> 'a) \<Rightarrow> Store \<Rightarrow> 'a db_result" where
  "query f d = stmt (\<lambda>d. (Inr (f d), d)) d"

definition in_tx :: "(Store \<Rightarrow> 'a db_result) \<Rightarrow> Store \<Rightarrow> 'a db_result" where
  "in_tx body d =
     bind_res (exec (\<lambda>d. d) d) (\<lambda>_ d0.
       case body d0 of
         (Inl e, d1) \<Rightarrow> (Inl e, d0\<lparr>faults := faults d1\<rparr>)
       | (Inr a, d1) \<Rightarrow>
           (case exec (\<lambda>d. d) d1 of
              (Inl e, d2) \<Rightarrow> (Inl e, d0\<lparr>faults := faults d2\<rparr>)
            | (Inr _, d2) \<Rightarrow> (Inr a, d2)))"

text \<open>The tables alone, to say that an operation changed none of them.\<close>

definition tables :: "Store \<Rightarrow> Store" where
  "tables d = d\<lparr>faults := []\<rparr>"

lemma tables_faults [simp]: "tables (d\<lparr>faults := fs\<rparr>) = tables d"
  by (simp add: tables_def)

lemma stmt_cases:
  obtains e fs where "stmt f d = (Inl (EngineError e), d\<lparr>faults := fs\<rparr>)"
  | fs where "stmt f d = f (d\<lparr>faults := fs\<rparr>)"
proof (cases "faults d")
  case Nil
  then have d: "d\<lparr>faults := []\<rparr> = d" by (cases d) simp
  have "stmt f d = f (d\<lparr>faults := []\<rparr>)" by (simp only: stmt_def Nil list.case d)
  then show ?thesis by (rule that(2))
next
  case (Cons x fs)
  show ?thesis
  proof (cases x)
    case None
    then have "stmt f d = f (d\<lparr>faults := fs\<rparr>)" by (simp add: stmt_def Cons)
    then show ?thesis by (rule that(2))
  next
    case (Some e)
    then have "stmt f d = (Inl (EngineError e), d\<lparr>faults := fs\<rparr>)" by (simp add: stmt_def Cons)
    then show ?thesis by (rule that(1))
  qed
qed

lemma query_tables: "tables (snd (query f d)) = tables d"
  unfolding query_def by (rule stmt_cases [of "\<lambda>d. (Inr (f d), d)" d]) auto

lemma stmt_no_fault: "faults d = [] \<Longrightarrow> stmt f d = f d"
  by (simp add: stmt_def)

lemma exec_no_fault: "faults d = [] \<Longrightarrow> exec f d = (Inr (), f d)"
  by (simp add: exec_def stmt_def)

lemma query_no_fault: "faults d = [] \<Longrightarrow> query f d = (Inr (f d), d)"
  by (simp add: query_def stmt_def)

text \<open>A transaction is all or nothing.\<close>

lemma in_tx_error: "in_tx body d = (Inl e, d') \<Longrightarrow> tables d' = tables d"
  unfolding in_tx_def exec_def
  by (rule stmt_cases [of "\<lambda>d. (Inr (), d)" d])
     (auto split: prod.splits sum.splits)

section \<open>Predicates of the WHERE clauses\<close>

definition sel_str :: "string \<Rightarrow> string \<Rightarrow> bool" where
  "sel_str f v = (f = [] \<or> v = f)"

definition sel_id :: "int \<Rightarrow> int \<Rightarrow> bool" where
  "sel_id f v = (f \<le> 0 \<or> v = f)"

definition sel_from :: "time option \<Rightarrow> stamp \<Rightarrow> bool" where
  "sel_from f v = (case f of None \<Rightarrow> True | Some t \<Rightarrow> to_stamp t \<le> v)"

definition sel_to :: "time option \<Rightarrow> stamp \<Rightarrow> bool" where
  "sel_to f v = (case f of None \<Rightarrow> True | Some t \<Rightarrow> v \<le> to_stamp t)"

text \<open>SQLite's \<^verbatim>\<open>LIKE\<close> without an escape character, on ASCII text.\<close>

fun sql_like :: "string \<Rightarrow> string \<Rightarrow> bool" where
  "sql_like [] s = (s = [])"
| "sql_like (p # ps) [] = (p = CHR ''%'' \<and> sql_like ps [])"
| "sql_like (p # ps) (c # s) =
     (if p = CHR ''%'' then sql_like ps (c # s) \<or> sql_like (p # ps) s
      else (p = CHR ''_'' \<or> lower_char p = lower_char c) \<and> sql_like ps s)"

definition default_limit :: "int \<Rightarrow> int \<Rightarrow> int" where
  "default_limit d l = (if l \<le> 0 then d else l)"

definition default_offset :: "int \<Rightarrow> int" where
  "default_offset ofs = (if ofs < 0 then 0 else ofs)"

end
