(* ===== verification/StoreOps.thy ===== *)
theory StoreOps
  imports Store
begin

text \<open>
  The methods of \<^verbatim>\<open>*Store\<close>, one definition each, in the order of the source. \<open>now\<close> is the
  clock reading \<^verbatim>\<open>time.Now()\<close> of the call.
\<close>

section \<open>Accounts\<close>

definition CreateUser :: "time \<Rightarrow> string \<Rightarrow> string \<Rightarrow> string \<Rightarrow> Store \<Rightarrow> unit db_result" where
  "CreateUser now username passwordHash role =
     stmt (\<lambda>d.
       if list_ex (\<lambda>u. user_name u = username) (users d)
       then (Inl (UniqueViolation ''users.username''), d)
       else (Inr (), d\<lparr>users := users d @
               [\<lparr>user_id = users_seq d + 1, user_name = username, user_hash = passwordHash,
                 user_role = role, user_created = to_stamp now, user_locked = None,
                 user_failed = 0\<rparr>],
              users_seq := users_seq d + 1\<rparr>))"

definition find_user :: "string \<Rightarrow> Store \<Rightarrow> User option" where
  "find_user username d = find (\<lambda>u. user_name u = username) (users d)"

definition GetUser :: "string \<Rightarrow> Store \<Rightarrow> User db_result" where
  "GetUser username =
     stmt (\<lambda>d. case find_user username d of None \<Rightarrow> (Inl NoRows, d) | Some u \<Rightarrow> (Inr u, d))"

definition update_user :: "string \<Rightarrow> (User \<Rightarrow> User) \<Rightarrow> Store \<Rightarrow> Store" where
  "update_user username f d =
     d\<lparr>users := map (\<lambda>u. if user_name u = username then f u else u) (users d)\<rparr>"

definition UpdateLoginFailure :: "string \<Rightarrow> int \<Rightarrow> time option \<Rightarrow> Store \<Rightarrow> unit db_result" where
  "UpdateLoginFailure username failedAttempts lockedUntil =
     exec (update_user username
       (\<lambda>u. u\<lparr>user_failed := failedAttempts, user_locked := map_option to_stamp lockedUntil\<rparr>))"

definition ResetLoginFailures :: "string \<Rightarrow> Store \<Rightarrow> unit db_result" where
  "ResetLoginFailures username =
     exec (update_user username (\<lambda>u. u\<lparr>user_failed := 0, user_locked := None\<rparr>))"

section \<open>Audit rows\<close>

definition WriteAudit :: "time \<Rightarrow> string \<Rightarrow> string \<Rightarrow> string \<Rightarrow> Store \<Rightarrow> unit db_result" where
  "WriteAudit now username action detail =
     exec (\<lambda>d. d\<lparr>audit_log := audit_log d @
       [\<lparr>audit_id = audit_seq d + 1, audit_user = username, audit_action = action,
         audit_detail = detail, audit_created = to_stamp now\<rparr>],
       audit_seq := audit_seq d + 1\<rparr>)"

definition audit_action_sel :: "string \<Rightarrow> string \<Rightarrow> bool" where
  "audit_action_sel f v =
     (f = [] \<or> (if contains ''%'' f \<or> contains ''_'' f then sql_like f v else v = f))"

definition ListAuditFiltered :: "AuditFilters \<Rightarrow> Store \<Rightarrow> AuditRecord list db_result" where
  "ListAuditFiltered filters =
     query (\<lambda>d. page (default_limit 50 (af_limit filters)) (default_offset (af_offset filters))
       (order_desc audit_id (filter
          (\<lambda>r. sel_str (af_user filters) (audit_user r)
             \<and> audit_action_sel (af_action filters) (audit_action r)
             \<and> sel_from (af_from filters) (audit_created r)
             \<and> sel_to (af_to filters) (audit_created r)) (audit_log d))))"

definition ListAudit :: "string \<Rightarrow> string \<Rightarrow> int \<Rightarrow> Store \<Rightarrow> AuditRecord list db_result" where
  "ListAudit username action limit =
     ListAuditFiltered \<lparr>af_user = username, af_action = action, af_from = None, af_to = None,
       af_limit = limit, af_offset = 0\<rparr>"

text \<open>\<^verbatim>\<open>GROUP BY key\<close>: one group per key that occurs.\<close>

definition group_by :: "('a \<Rightarrow> 'k) \<Rightarrow> 'a list \<Rightarrow> ('k \<times> 'a list) list" where
  "group_by key rows = map (\<lambda>k. (k, filter (\<lambda>r. key r = k) rows)) (remdups (map key rows))"

definition audit_summary_rows :: "AuditFilters \<Rightarrow> Store \<Rightarrow> AuditRecord list" where
  "audit_summary_rows filters d =
     filter (\<lambda>r. sel_str (af_user filters) (audit_user r)
        \<and> (af_action filters = [] \<or> sql_like (af_action filters) (audit_action r))
        \<and> sel_from (af_from filters) (audit_created r)
        \<and> sel_to (af_to filters) (audit_created r)) (audit_log d)"

definition SummarizeAuditActions :: "AuditFilters \<Rightarrow> Store \<Rightarrow> AuditActionSummary list db_result" where
  "SummarizeAuditActions filters =
     query (\<lambda>d. sort_key (\<lambda>s. (- aas_total s, aas_action s))
       (map (\<lambda>(k, rows). \<lparr>aas_action = k, aas_total = int (length rows)\<rparr>)
         (group_by audit_action (audit_summary_rows filters d))))"

section \<open>Extension states and hook runs\<close>

definition UpsertExtensionState :: "time \<Rightarrow> string \<Rightarrow> string \<Rightarrow> bool \<Rightarrow> string \<Rightarrow> Store \<Rightarrow> unit db_result" where
  "UpsertExtensionState now kind name enabled hash =
     exec (\<lambda>d. d\<lparr>extension_states :=
       (if list_ex (\<lambda>s. es_kind s = kind \<and> es_name s = name) (extension_states d)
        then map (\<lambda>s. if es_kind s = kind \<and> es_name s = name
                      then s\<lparr>es_enabled := enabled, es_hash := hash, es_updated := to_stamp now\<rparr>
                      else s) (extension_states d)
        else extension_states d @
          [\<lparr>es_kind = kind, es_name = name, es_enabled = enabled, es_hash = hash,
            es_updated = to_stamp now\<rparr>])\<rparr>)"

definition ListExtensionStates :: "Store \<Rightarrow> ExtensionState list db_result" where
  "ListExtensionStates = query (\<lambda>d. sort_key (\<lambda>s. (es_kind s, es_name s)) (extension_states d))"

definition InsertExtensionHookRun :: "time \<Rightarrow> ExtensionHookRecord \<Rightarrow> Store \<Rightarrow> unit db_result" where
  "InsertExtensionHookRun now r =
     exec (\<lambda>d. d\<lparr>extension_hook_runs := extension_hook_runs d @
       [r\<lparr>hook_id := hooks_seq d + 1, hook_created := to_stamp now\<rparr>],
       hooks_seq := hooks_seq d + 1\<rparr>)"

definition ListExtensionHookRuns :: "ExtensionHookFilters \<Rightarrow> Store \<Rightarrow> ExtensionHookRecord list db_result" where
  "ListExtensionHookRuns filters =
     query (\<lambda>d. page (default_limit 50 (hf_limit filters)) (default_offset (hf_offset filters))
       (order_desc hook_id (filter
          (\<lambda>r. sel_str (hf_user filters) (hook_user r) \<and> sel_str (hf_kind filters) (hook_kind r)
             \<and> sel_str (hf_name filters) (hook_ext r) \<and> sel_str (hf_phase filters) (hook_phase r))
          (extension_hook_runs d))))"

section \<open>Context summaries\<close>

definition no_summary :: ContextSummary where
  "no_summary = \<lparr>cs_user = [], cs_summary = [], cs_strategy = [], cs_updated = 0\<rparr>"

definition GetContextSummary :: "string \<Rightarrow> Store \<Rightarrow> ContextSummary db_result" where
  "GetContextSummary username =
     query (\<lambda>d. case find (\<lambda>c. cs_user c = username) (context_summaries d) of
       None \<Rightarrow> no_summary | Some c \<Rightarrow> c)"

definition UpsertContextSummary :: "time \<Rightarrow> string \<Rightarrow> string \<Rightarrow> string \<Rightarrow> Store \<Rightarrow> unit db_result" where
  "UpsertContextSummary now username summary strategy =
     exec (\<lambda>d. d\<lparr>context_summaries :=
       (if list_ex (\<lambda>c. cs_user c = username) (context_summaries d)
        then map (\<lambda>c. if cs_user c = username
                      then c\<lparr>cs_summary := summary, cs_strategy := strategy, cs_updated := to_stamp now\<rparr>
                      else c) (context_summaries d)
        else context_summaries d @
          [\<lparr>cs_user = username, cs_summary = summary, cs_strategy = strategy,
            cs_updated = to_stamp now\<rparr>])\<rparr>)"

section \<open>Sessions and messages\<close>

record CreateSessionOptions =
  opt_kind :: string
  opt_task :: string
  opt_parent :: int

definition CreateSessionWithOptions :: "time \<Rightarrow> string \<Rightarrow> string \<Rightarrow> string \<Rightarrow> string \<Rightarrow> CreateSessionOptions \<Rightarrow> Store \<Rightarrow> int db_result" where
  "CreateSessionWithOptions now username model prompt response opts =
     stmt (\<lambda>d.
       let sid = sessions_seq d + 1
       in (Inr sid, d\<lparr>sessions := sessions d @
             [\<lparr>sess_id = sid, sess_user = username, sess_model = model, sess_prompt = prompt,
               sess_response = response,
               sess_kind = (if opt_kind opts = [] then ''chat'' else opt_kind opts),
               sess_task = opt_task opts,
               sess_parent = (if 0 < opt_parent opts then Some (opt_parent opts) else None),
               sess_created = to_stamp now\<rparr>],
            sessions_seq := sid\<rparr>))"

definition CreateSession :: "time \<Rightarrow> string \<Rightarrow> string \<Rightarrow> string \<Rightarrow> string \<Rightarrow> Store \<Rightarrow> int db_result" where
  "CreateSession now username model prompt response =
     CreateSessionWithOptions now username model prompt response
       \<lparr>opt_kind = [], opt_task = [], opt_parent = 0\<rparr>"

definition ListSessionsPage :: "string \<Rightarrow> int \<Rightarrow> int \<Rightarrow> Store \<Rightarrow> Session list db_result" where
  "ListSessionsPage username limit offset =
     query (\<lambda>d. page (default_limit 20 limit) (default_offset offset)
       (order_desc sess_id (filter (\<lambda>s. sess_user s = username) (sessions d))))"

definition ListSessions :: "string \<Rightarrow> int \<Rightarrow> Store \<Rightarrow> Session list db_result" where
  "ListSessions username limit = ListSessionsPage username limit 0"

definition find_session :: "int \<Rightarrow> Store \<Rightarrow> Session option" where
  "find_session sid d = find (\<lambda>s. sess_id s = sid) (sessions d)"

definition GetSession :: "int \<Rightarrow> Store \<Rightarrow> Session db_result" where
  "GetSession sid =
     stmt (\<lambda>d. case find_session sid d of None \<Rightarrow> (Inl NoRows, d) | Some s \<Rightarrow> (Inr s, d))"

text \<open>The trigger \<^verbatim>\<open>messages_ai\<close> copies a new message into the search index when its session
  exists, \<^verbatim>\<open>messages_ad\<close> removes the copies of a deleted message.\<close>

definition fts_of :: "Session \<Rightarrow> Message \<Rightarrow> FtsRow" where
  "fts_of s m =
     \<lparr>fts_content = msg_content m, fts_user = sess_user s, fts_model = sess_model s,
      fts_role = msg_role m, fts_session = msg_session m, fts_message = msg_id m,
      fts_created = msg_created m\<rparr>"

definition messages_ai :: "Message \<Rightarrow> Store \<Rightarrow> Store" where
  "messages_ai m d =
     d\<lparr>messages_fts := messages_fts d @
        map (\<lambda>s. fts_of s m) (filter (\<lambda>s. sess_id s = msg_session m) (sessions d))\<rparr>"

definition delete_messages :: "(Message \<Rightarrow> bool) \<Rightarrow> Store \<Rightarrow> Store" where
  "delete_messages P d =
     d\<lparr>messages := filter (\<lambda>m. \<not> P m) (messages d),
       messages_fts := filter
         (\<lambda>f. \<not> list_ex (\<lambda>m. P m \<and> msg_id m = fts_message f) (messages d)) (messages_fts d)\<rparr>"

definition new_message :: "time \<Rightarrow> int \<Rightarrow> string \<Rightarrow> string \<Rightarrow> Store \<Rightarrow> Message" where
  "new_message now sid role content d =
     \<lparr>msg_id = messages_seq d + 1, msg_session = sid, msg_user = [], msg_role = role,
      msg_content = content, msg_created = to_stamp now\<rparr>"

definition AddMessage :: "time \<Rightarrow> int \<Rightarrow> string \<Rightarrow> string \<Rightarrow> Store \<Rightarrow> unit db_result" where
  "AddMessage now sid role content =
     exec (\<lambda>d. let m = new_message now sid role content d
       in messages_ai m (d\<lparr>messages := messages d @ [m], messages_seq := messages_seq d + 1\<rparr>))"

definition update_session :: "int \<Rightarrow> (Session \<Rightarrow> Session) \<Rightarrow> Store \<Rightarrow> Store" where
  "update_session sid f d =
     d\<lparr>sessions := map (\<lambda>s. if sess_id s = sid then f s else s) (sessions d)\<rparr>"

definition UpdateSessionResponse :: "int \<Rightarrow> string \<Rightarrow> Store \<Rightarrow> unit db_result" where
  "UpdateSessionResponse sid response = exec (update_session sid (\<lambda>s. s\<lparr>sess_response := response\<rparr>))"

definition DeleteSession :: "int \<Rightarrow> Store \<Rightarrow> unit db_result" where
  "DeleteSession sid =
     in_tx (\<lambda>d. bind_res (exec (delete_messages (\<lambda>m. msg_session m = sid)) d)
       (\<lambda>_ d. exec (\<lambda>d. d\<lparr>sessions := filter (\<lambda>s. sess_id s \<noteq> sid) (sessions d)\<rparr>) d))"

text \<open>The latest content of a role in a session, the empty string when there is none.\<close>

definition session_messages :: "int \<Rightarrow> Store \<Rightarrow> Message list" where
  "session_messages sid d = filter (\<lambda>m. msg_session m = sid) (messages d)"

definition latest_content :: "int \<Rightarrow> string \<Rightarrow> Store \<Rightarrow> string" where
  "latest_content sid role d =
     (case order_desc msg_id (filter (\<lambda>m. msg_role m = role) (session_messages sid d)) of
        [] \<Rightarrow> [] | m # _ \<Rightarrow> msg_content m)"

text \<open>The session row takes the latest user and assistant contents that are left.\<close>

definition refresh_snapshot :: "int \<Rightarrow> Store \<Rightarrow> unit db_result" where
  "refresh_snapshot sid d =
     bind_res (query (\<lambda>d. (latest_content sid ''user'' d, latest_content sid ''assistant'' d)) d)
       (\<lambda>(prompt, response) d.
          exec (update_session sid (\<lambda>s. s\<lparr>sess_prompt := prompt, sess_response := response\<rparr>)) d)"

definition delete_turn :: "int \<Rightarrow> Message list \<Rightarrow> Store \<Rightarrow> unit db_result" where
  "delete_turn sid rows d =
     (case rows of
        m0 # m1 # _ \<Rightarrow>
          if msg_role m0 \<noteq> ''assistant'' \<or> msg_role m1 \<noteq> ''user''
          then (Inl (NotATurnPair sid), d)
          else bind_res (exec (delete_messages (\<lambda>m. msg_id m \<in> {msg_id m0, msg_id m1})) d)
                 (\<lambda>_. refresh_snapshot sid)
      | _ \<Rightarrow> (Inl (NoFullTurn sid), d))"

definition DeleteLastTurn :: "int \<Rightarrow> Store \<Rightarrow> unit db_result" where
  "DeleteLastTurn sid =
     in_tx (\<lambda>d. bind_res (query (\<lambda>d. take 2 (order_desc msg_id (session_messages sid d))) d)
       (delete_turn sid))"

definition GetMessagesPage :: "int \<Rightarrow> int \<Rightarrow> int \<Rightarrow> Store \<Rightarrow> Message list db_result" where
  "GetMessagesPage sid limit offset =
     query (\<lambda>d. let rows = sort_key msg_id (session_messages sid d)
       in if 0 < limit then page limit (default_offset offset) rows else rows)"

definition GetMessages :: "int \<Rightarrow> Store \<Rightarrow> Message list db_result" where
  "GetMessages sid = GetMessagesPage sid 0 0"

text \<open>\<^verbatim>\<open>messages JOIN sessions\<close>: a message with the name of its session's user.\<close>

definition joined_messages :: "Store \<Rightarrow> Message list" where
  "joined_messages d =
     concat (map (\<lambda>m. map (\<lambda>s. m\<lparr>msg_user := sess_user s\<rparr>)
       (filter (\<lambda>s. sess_id s = msg_session m) (sessions d))) (messages d))"

definition ListRecentMessagesByUsername :: "string \<Rightarrow> int \<Rightarrow> Store \<Rightarrow> Message list db_result" where
  "ListRecentMessagesByUsername username limit d =
     (if limit \<le> 0 then (Inr [], d)
      else query (\<lambda>d. rev (page limit 0
             (order_desc msg_id (filter (\<lambda>m. msg_user m = username) (joined_messages d))))) d)"

definition ListRecentMessagesBySession :: "int \<Rightarrow> int \<Rightarrow> Store \<Rightarrow> Message list db_result" where
  "ListRecentMessagesBySession sid limit d =
     (if limit \<le> 0 then (Inr [], d)
      else query (\<lambda>d. rev (page limit 0 (order_desc msg_id (session_messages sid d)))) d)"

section \<open>Insights\<close>

definition count_kind :: "string \<Rightarrow> Session list \<Rightarrow> int" where
  "count_kind kind rows = int (length (filter (\<lambda>s. sess_kind s = kind) rows))"

definition insight_sessions :: "string \<Rightarrow> time option \<Rightarrow> Store \<Rightarrow> Session list" where
  "insight_sessions username since d =
     filter (\<lambda>s. sess_user s = username \<and> sel_from since (sess_created s)) (sessions d)"

text \<open>\<^verbatim>\<open>SUM\<close> over no rows is \<^verbatim>\<open>NULL\<close>, and \<^verbatim>\<open>Scan\<close> into an \<^verbatim>\<open>*int\<close> refuses it; the source guards
  only the \<^verbatim>\<open>MAX\<close> with \<^verbatim>\<open>COALESCE\<close>.\<close>

definition BuildUserInsights :: "string \<Rightarrow> time option \<Rightarrow> Store \<Rightarrow> UserInsights db_result" where
  "BuildUserInsights username since d =
     bind_res (stmt (\<lambda>d. let rows = insight_sessions username since d
         in if rows = [] then (Inl (ScanNull ''chat_sessions''), d)
            else (Inr (int (length rows), count_kind ''chat'' rows,
                    count_kind ''multiagent_parent'' rows, count_kind ''multiagent_child'' rows,
                    Max (set (map sess_created rows))), d)) d)
     (\<lambda>(total, chat, parent, child, latest) d.
     bind_res (query (\<lambda>d. int (length (filter
         (\<lambda>m. msg_user m = username \<and> sel_from since (msg_created m)) (joined_messages d)))) d)
     (\<lambda>msgs d.
     bind_res (query (\<lambda>d. int (length (filter
         (\<lambda>r. audit_user r = username \<and> sel_from since (audit_created r)) (audit_log d)))) d)
     (\<lambda>audits d.
     bind_res (SummarizeAuditActions \<lparr>af_user = username, af_action = [], af_from = since,
         af_to = None, af_limit = 10, af_offset = 0\<rparr> d)
     (\<lambda>actions d. (Inr \<lparr>ui_user = username, ui_since = since, ui_sessions = total, ui_chat = chat,
         ui_parent = parent, ui_child = child, ui_messages = msgs, ui_audits = audits,
         ui_actions = actions, ui_latest = latest\<rparr>, d)))))"

section \<open>Multi-agent traces\<close>

definition InsertMultiAgentTrace :: "time \<Rightarrow> MultiAgentTraceRecord \<Rightarrow> Store \<Rightarrow> unit db_result" where
  "InsertMultiAgentTrace now r =
     exec (\<lambda>d. d\<lparr>multiagent_traces := multiagent_traces d @
       [r\<lparr>tr_id := traces_seq d + 1, tr_created := to_stamp now\<rparr>],
       traces_seq := traces_seq d + 1\<rparr>)"

definition trace_sel :: "MultiAgentTraceFilters \<Rightarrow> MultiAgentTraceRecord \<Rightarrow> bool" where
  "trace_sel filters r =
     (sel_str (tf_user filters) (tr_user r) \<and> sel_id (tf_parent filters) (tr_parent r)
      \<and> sel_id (tf_child filters) (tr_child r) \<and> sel_str (tf_task filters) (tr_task r)
      \<and> sel_from (tf_from filters) (tr_created r) \<and> sel_to (tf_to filters) (tr_created r))"

definition ListMultiAgentTraces :: "MultiAgentTraceFilters \<Rightarrow> Store \<Rightarrow> MultiAgentTraceRecord list db_result" where
  "ListMultiAgentTraces filters =
     query (\<lambda>d. page (default_limit 50 (tf_limit filters)) (default_offset (tf_offset filters))
       (sort_key tr_id (filter (trace_sel filters) (multiagent_traces d))))"

definition ListMultiAgentTraceFailures :: "MultiAgentTraceFilters \<Rightarrow> Store \<Rightarrow> MultiAgentTraceRecord list db_result" where
  "ListMultiAgentTraceFailures filters =
     query (\<lambda>d. page (default_limit 50 (tf_limit filters)) (default_offset (tf_offset filters))
       (order_desc tr_id (filter (\<lambda>r. tr_error r \<noteq> [] \<and> trace_sel filters r) (multiagent_traces d))))"

definition count_failures :: "MultiAgentTraceRecord list \<Rightarrow> int" where
  "count_failures rows = int (length (filter (\<lambda>r. tr_error r \<noteq> []) rows))"

definition SummarizeMultiAgentTraces :: "MultiAgentTraceFilters \<Rightarrow> Store \<Rightarrow> MultiAgentTraceSummary list db_result" where
  "SummarizeMultiAgentTraces filters =
     query (\<lambda>d. sort_key (\<lambda>s. (- ts_failures s, - ts_total s, ts_tool s, ts_type s))
       (map (\<lambda>((tool, typ), rows).
           \<lparr>ts_tool = tool, ts_type = typ, ts_total = int (length rows),
            ts_failures = count_failures rows,
            ts_last_error = fold max (map tr_error rows) [],
            ts_last_seen = Max (set (map tr_created rows))\<rparr>)
         (group_by (\<lambda>r. (tr_tool r, tr_type r)) (filter (trace_sel filters) (multiagent_traces d)))))"

definition ListMultiAgentTraceHotspots :: "MultiAgentTraceFilters \<Rightarrow> Store \<Rightarrow> MultiAgentTraceHotspot list db_result" where
  "ListMultiAgentTraceHotspots filters =
     query (\<lambda>d.
       let groups = sort_key (\<lambda>h. (- th_failures h, - th_total h, - th_child h))
         (map (\<lambda>((p, c, t), rows).
             \<lparr>th_parent = p, th_child = c, th_task = t, th_total = int (length rows),
              th_failures = count_failures rows\<rparr>)
           (group_by (\<lambda>r. (tr_parent r, tr_child r, tr_task r))
             (filter (trace_sel filters) (multiagent_traces d))))
       in if 0 < tf_limit filters
          then page (tf_limit filters) (default_offset (tf_offset filters)) groups
          else groups)"

definition SummarizeMultiAgentVerifierResults :: "MultiAgentTraceFilters \<Rightarrow> Store \<Rightarrow> MultiAgentVerifierSummary list db_result" where
  "SummarizeMultiAgentVerifierResults filters =
     query (\<lambda>d. sort_key (\<lambda>s. (- vs_failed s, - vs_total s, vs_tool s, vs_class s))
       (map (\<lambda>((tool, verifier, cls), rows).
           \<lparr>vs_tool = tool, vs_verifier = verifier, vs_class = cls,
            vs_verified = int (length (filter tr_verified rows)),
            vs_failed = int (length (filter (\<lambda>r. \<not> tr_verified r \<and> tr_verifier r \<noteq> []) rows)),
            vs_total = int (length rows)\<rparr>)
         (group_by (\<lambda>r. (tr_tool r, tr_verifier r, tr_class r))
           (filter (\<lambda>r. tr_verifier r \<noteq> [] \<and> trace_sel filters r) (multiagent_traces d)))))"

section \<open>Search\<close>

text \<open>The FTS5 engine's \<^verbatim>\<open>MATCH\<close> and \<^verbatim>\<open>snippet\<close> are code outside the repository: \<open>fts_match q\<close> is
  the predicate of a query, \<open>None\<close> for a query the engine refuses.\<close>

definition search_hits :: "(string \<Rightarrow> (string \<Rightarrow> bool) option) \<Rightarrow> SearchFilters \<Rightarrow> Store \<Rightarrow> string \<Rightarrow> FtsRow list option" where
  "search_hits fts_match filters d q =
     map_option (\<lambda>hit. take (nat (default_limit 20 (sf_limit filters)))
       (order_desc fts_message (filter
         (\<lambda>f. hit (fts_content f) \<and> fts_user f = sf_user filters \<and> sel_str (sf_role filters) (fts_role f)
            \<and> sel_id (sf_session filters) (fts_session f) \<and> sel_from (sf_from filters) (fts_created f)
            \<and> sel_to (sf_to filters) (fts_created f)) (messages_fts d)))) (fts_match q)"

fun is_fts_char :: "char \<Rightarrow> bool" where
  "is_fts_char c = (is_lower_alpha c \<or> is_upper_alpha c \<or> is_digit c \<or> c = CHR ''_'' \<or> c = CHR ''-'')"

fun fts_parts :: "string \<Rightarrow> string \<Rightarrow> string list" where
  "fts_parts cur [] = (if cur = [] then [] else [rev cur @ ''*''])"
| "fts_parts cur (c # s) =
     (if is_fts_char c then fts_parts (c # cur) s
      else (if cur = [] then [] else [rev cur @ ''*'']) @ fts_parts [] s)"

definition normalizeFTSQuery :: "string \<Rightarrow> string" where
  "normalizeFTSQuery q =
     (let parts = fts_parts [] q
      in if parts = [] then [CHR 0x22, CHR 0x22] else join '' AND '' parts)"

fun session_times :: "(string \<Rightarrow> string) \<Rightarrow> FtsRow list \<Rightarrow> Store \<Rightarrow> db_error + SearchResult list" where
  "session_times snippet [] d = Inr []"
| "session_times snippet (f # fs) d =
     (case find_session (fts_session f) d of
        None \<Rightarrow> Inl (ScanNull ''created_at'')
      | Some s \<Rightarrow>
          (case session_times snippet fs d of
             Inl e \<Rightarrow> Inl e
           | Inr rs \<Rightarrow> Inr (\<lparr>res_session = fts_session f, res_message = fts_message f,
               res_user = fts_user f, res_model = fts_model f, res_role = fts_role f,
               res_content = snippet (fts_content f), res_created = fts_created f,
               res_session_time = sess_created s\<rparr> # rs)))"

definition SearchMessages :: "(string \<Rightarrow> (string \<Rightarrow> bool) option) \<Rightarrow> (string \<Rightarrow> string \<Rightarrow> string) \<Rightarrow> SearchFilters \<Rightarrow> Store \<Rightarrow> SearchResult list db_result" where
  "SearchMessages fts_match snippet filters =
     stmt (\<lambda>d.
       let q = normalizeFTSQuery (sf_query filters)
       in case search_hits fts_match filters d q of
            None \<Rightarrow> (Inl (EngineError ''fts5: syntax error''), d)
          | Some hits \<Rightarrow> (session_times (snippet q) hits d, d))"

section \<open>Gateway updates\<close>

definition update_seen :: "string \<Rightarrow> string \<Rightarrow> Store \<Rightarrow> bool" where
  "update_seen provider externalID d =
     list_ex (\<lambda>g. gu_provider g = provider \<and> gu_external g = externalID) (processed_gateway_updates d)"

definition MarkGatewayUpdateProcessed :: "time \<Rightarrow> string \<Rightarrow> string \<Rightarrow> Store \<Rightarrow> bool db_result" where
  "MarkGatewayUpdateProcessed now provider externalID =
     stmt (\<lambda>d.
       if update_seen provider externalID d then (Inr False, d)
       else (Inr True, d\<lparr>processed_gateway_updates := processed_gateway_updates d @
              [\<lparr>gu_provider = provider, gu_external = externalID, gu_created = to_stamp now\<rparr>]\<rparr>))"

end
