(* ===== verification/StoreInv.thy ===== *)
theory StoreInv
  imports StoreOps
begin

text \<open>
  The invariant of the store: row ids strictly increase and never pass the table's
  \<^verbatim>\<open>AUTOINCREMENT\<close> counter, account names and the primary keys are unique, and every row of the
  search index is the copy of one stored message, under the name of the user who owns the session.
  Every method keeps it, whatever the engine answers.
\<close>

section \<open>Row ids\<close>

definition ids_ok :: "int list \<Rightarrow> int \<Rightarrow> bool" where
  "ids_ok ids n \<longleftrightarrow> sorted_wrt (<) ids \<and> 0 \<le> n \<and> (\<forall>i\<in>set ids. 0 < i \<and> i \<le> n)"

lemma ids_ok_Nil [simp]: "ids_ok [] n \<longleftrightarrow> 0 \<le> n"
  by (simp add: ids_ok_def)

lemma ids_ok_snoc [wf_intros]: "ids_ok ids n \<Longrightarrow> ids_ok (ids @ [n + 1]) (n + 1)"
  by (force simp: ids_ok_def sorted_wrt_append)

lemma ids_ok_filter [wf_intros]: "ids_ok (map f xs) n \<Longrightarrow> ids_ok (map f (filter P xs)) n"
  by (induction xs) (auto simp: ids_ok_def)

lemma ids_ok_distinct: "ids_ok ids n \<Longrightarrow> distinct ids"
  by (auto simp: ids_ok_def strict_sorted_iff)

lemma ids_ok_sorted: "ids_ok ids n \<Longrightarrow> sorted ids"
  by (auto simp: ids_ok_def strict_sorted_iff)

lemma ids_ok_le: "ids_ok ids n \<Longrightarrow> i \<in> set ids \<Longrightarrow> i \<le> n"
  by (simp add: ids_ok_def)

lemma filter_eq_single:
  "distinct (map f xs) \<Longrightarrow> x \<in> set xs \<Longrightarrow> filter (\<lambda>y. f y = f x) xs = [x]"
  by (induction xs) (auto simp: filter_empty_conv image_iff)

section \<open>The invariant\<close>

definition fts_rows_ok :: "FtsRow list \<Rightarrow> Message list \<Rightarrow> Session list \<Rightarrow> bool" where
  "fts_rows_ok fts ms ss \<longleftrightarrow> distinct (map fts_message fts)
     \<and> (\<forall>f\<in>set fts. \<exists>m\<in>set ms. \<exists>s\<in>set ss. sess_id s = msg_session m \<and> f = fts_of s m)"

definition fts_ok :: "Store \<Rightarrow> bool" where
  "fts_ok d \<longleftrightarrow> fts_rows_ok (messages_fts d) (messages d) (sessions d)"

lemmas fts_ok_iff = fts_ok_def fts_rows_ok_def

definition store_wf :: "Store \<Rightarrow> bool" where
  "store_wf d \<longleftrightarrow>
     ids_ok (map user_id (users d)) (users_seq d)
     \<and> ids_ok (map sess_id (sessions d)) (sessions_seq d)
     \<and> ids_ok (map msg_id (messages d)) (messages_seq d)
     \<and> ids_ok (map audit_id (audit_log d)) (audit_seq d)
     \<and> ids_ok (map hook_id (extension_hook_runs d)) (hooks_seq d)
     \<and> ids_ok (map tr_id (multiagent_traces d)) (traces_seq d)
     \<and> distinct (map user_name (users d))
     \<and> distinct (map (\<lambda>s. (es_kind s, es_name s)) (extension_states d))
     \<and> distinct (map cs_user (context_summaries d))
     \<and> distinct (map (\<lambda>g. (gu_provider g, gu_external g)) (processed_gateway_updates d))
     \<and> fts_ok d"

lemma fts_ok_more:
  "fts_ok d \<Longrightarrow> messages_fts d' = messages_fts d \<Longrightarrow> set (messages d) \<subseteq> set (messages d') \<Longrightarrow>
   set (sessions d) \<subseteq> set (sessions d') \<Longrightarrow> fts_ok d'"
  unfolding fts_ok_iff by (metis subsetD)

lemma store_wf_faults [simp]: "store_wf (d\<lparr>faults := fs\<rparr>) = store_wf d"
  by (simp add: store_wf_def fts_ok_iff)

lemma store_wf_Open: "store_wf Open"
  by (simp add: store_wf_def fts_ok_iff Open_def)

lemma stmt_wf:
  assumes "store_wf d" and "\<And>d. store_wf d \<Longrightarrow> store_wf (snd (f d))"
  shows "store_wf (snd (stmt f d))"
  using assms by (cases rule: stmt_cases [of f d]) auto

lemma exec_wf:
  assumes "store_wf d" and "\<And>d. store_wf d \<Longrightarrow> store_wf (f d)"
  shows "store_wf (snd (exec f d))"
  unfolding exec_def using assms by (auto intro: stmt_wf)

lemma query_wf [wf_intros]: "store_wf d \<Longrightarrow> store_wf (snd (query f d))"
  unfolding query_def by (auto intro: stmt_wf)

text \<open>What a statement can do to the tables: nothing, or its effect.\<close>

lemma exec_state_ex:
  "(\<exists>fs. snd (exec f d) = d\<lparr>faults := fs\<rparr>) \<or> (\<exists>fs. exec f d = (Inr (), f (d\<lparr>faults := fs\<rparr>)))"
  unfolding exec_def by (cases rule: stmt_cases [of "\<lambda>d. (Inr (), f d)" d]) auto

lemma exec_state:
  obtains fs where "snd (exec f d) = d\<lparr>faults := fs\<rparr>"
  | fs where "snd (exec f d) = f (d\<lparr>faults := fs\<rparr>)"
  using exec_state_ex [of f d] by fastforce

lemma exec_Inr:
  assumes "exec f d = (Inr a, d')"
  shows "\<exists>fs. d' = f (d\<lparr>faults := fs\<rparr>)"
  using assms unfolding exec_def by (cases rule: stmt_cases [of "\<lambda>d. (Inr (), f d)" d]) auto

lemma exec_skip: "\<exists>fs. snd (exec (\<lambda>d. d) d) = d\<lparr>faults := fs\<rparr>"
  by (cases rule: exec_state [of "\<lambda>d. d" d]) auto

lemma bind_wf:
  "store_wf (snd m) \<Longrightarrow> (\<And>a s. m = (Inr a, s) \<Longrightarrow> store_wf s \<Longrightarrow> store_wf (snd (k a s))) \<Longrightarrow>
   store_wf (snd (bind_res m k))"
  by (rule bind_res_keeps)

text \<open>What a transaction can do: nothing, or the effect of its whole body.\<close>

lemma in_tx_state:
  obtains fs where "snd (in_tx body d) = d\<lparr>faults := fs\<rparr>"
  | fs gs a d1 where "body (d\<lparr>faults := fs\<rparr>) = (Inr a, d1)" "in_tx body d = (Inr a, d1\<lparr>faults := gs\<rparr>)"
proof -
  obtain fs where begin_state: "snd (exec (\<lambda>d. d) d) = d\<lparr>faults := fs\<rparr>"
    using exec_skip by blast
  show ?thesis
  proof (cases "fst (exec (\<lambda>d. d) d)")
    case (Inl e)
    then have "in_tx body d = (Inl e, d\<lparr>faults := fs\<rparr>)"
      using begin_state by (cases "exec (\<lambda>d. d) d") (simp add: in_tx_def)
    then show ?thesis using that(1) by simp
  next
    case (Inr u)
    then have b: "exec (\<lambda>d. d) d = (Inr u, d\<lparr>faults := fs\<rparr>)"
      using begin_state by (cases "exec (\<lambda>d. d) d") simp
    obtain r d1 where body: "body (d\<lparr>faults := fs\<rparr>) = (r, d1)" by force
    obtain gs where c: "snd (exec (\<lambda>d. d) d1) = d1\<lparr>faults := gs\<rparr>"
      using exec_skip by blast
    obtain r' where c': "exec (\<lambda>d. d) d1 = (r', d1\<lparr>faults := gs\<rparr>)"
      using c by (metis prod.collapse)
    show ?thesis
    proof (cases r)
      case (Inl e)
      then show ?thesis using that(1) [of "faults d1"] by (simp add: in_tx_def b body)
    next
      case (Inr a)
      note ra = this
      show ?thesis
      proof (cases r')
        case (Inl e)
        then show ?thesis using that(1) [of gs] by (simp add: in_tx_def b body ra c')
      next
        case (Inr v)
        then show ?thesis using that(2) [of fs a d1 gs] by (simp add: in_tx_def b body ra c')
      qed
    qed
  qed
qed

lemma in_tx_Inr:
  assumes "in_tx body d = (Inr a, d')"
  shows "\<exists>fs gs d1. body (d\<lparr>faults := fs\<rparr>) = (Inr a, d1) \<and> d' = d1\<lparr>faults := gs\<rparr>"
proof -
  from assms obtain u d0 where b: "exec (\<lambda>d. d) d = (Inr u, d0)"
    and c: "(case body d0 of (Inl e, d1) \<Rightarrow> (Inl e, d0\<lparr>faults := faults d1\<rparr>)
       | (Inr a, d1) \<Rightarrow> (case exec (\<lambda>d. d) d1 of
              (Inl e, d2) \<Rightarrow> (Inl e, d0\<lparr>faults := faults d2\<rparr>)
            | (Inr _, d2) \<Rightarrow> (Inr a, d2))) = (Inr a, d')"
    unfolding in_tx_def bind_res_eq_Inr by blast
  obtain fs where d0: "d0 = d\<lparr>faults := fs\<rparr>" using exec_Inr [OF b] by blast
  from c obtain d1 v where "body d0 = (Inr a, d1)" "exec (\<lambda>d. d) d1 = (Inr v, d')"
    by (auto split: prod.splits sum.splits)
  then show ?thesis using d0 exec_Inr by blast
qed

lemma in_tx_wf:
  assumes wf: "store_wf d" and body: "\<And>d. store_wf d \<Longrightarrow> store_wf (snd (body d))"
  shows "store_wf (snd (in_tx body d))"
proof (cases rule: in_tx_state [of body d])
  case (1 fs)
  then show ?thesis using wf by simp
next
  case (2 fs gs a d1)
  then show ?thesis using wf body [of "d\<lparr>faults := fs\<rparr>"] by simp
qed

section \<open>Every method keeps it\<close>

lemma CreateUser_wf: "store_wf d \<Longrightarrow> store_wf (snd (CreateUser now u h r d))"
  unfolding CreateUser_def
  by (rule stmt_wf) (auto simp: store_wf_def list_ex_iff intro: ids_ok_snoc fts_ok_more)

lemma GetUser_wf: "store_wf d \<Longrightarrow> store_wf (snd (GetUser u d))"
  unfolding GetUser_def by (rule stmt_wf) (auto split: option.splits)

lemma update_user_wf:
  assumes "\<And>u. user_id (f u) = user_id u" "\<And>u. user_name (f u) = user_name u"
  shows "store_wf d \<Longrightarrow> store_wf (update_user n f d)"
proof -
  have "map user_id (map (\<lambda>u. if user_name u = n then f u else u) us) = map user_id us"
    "map user_name (map (\<lambda>u. if user_name u = n then f u else u) us) = map user_name us" for us
    using assms by simp_all
  then show "store_wf d \<Longrightarrow> store_wf (update_user n f d)"
    by (auto simp: store_wf_def update_user_def simp del: map_map list.map_comp intro: fts_ok_more)
qed

lemma UpdateLoginFailure_wf: "store_wf d \<Longrightarrow> store_wf (snd (UpdateLoginFailure u n l d))"
  unfolding UpdateLoginFailure_def by (rule exec_wf) (auto intro: update_user_wf)

lemma ResetLoginFailures_wf: "store_wf d \<Longrightarrow> store_wf (snd (ResetLoginFailures u d))"
  unfolding ResetLoginFailures_def by (rule exec_wf) (auto intro: update_user_wf)

lemma WriteAudit_wf: "store_wf d \<Longrightarrow> store_wf (snd (WriteAudit now u a t d))"
  unfolding WriteAudit_def
  by (rule exec_wf) (auto simp: store_wf_def intro: ids_ok_snoc fts_ok_more)

lemma UpsertExtensionState_wf: "store_wf d \<Longrightarrow> store_wf (snd (UpsertExtensionState now k n e h d))"
proof -
  have m: "map (\<lambda>s. (es_kind s, es_name s)) (map (\<lambda>s. if es_kind s = k \<and> es_name s = n
        then s\<lparr>es_enabled := e, es_hash := h, es_updated := u\<rparr> else s) xs)
      = map (\<lambda>s. (es_kind s, es_name s)) xs" for xs :: "ExtensionState list" and u
    by simp
  show "store_wf d \<Longrightarrow> store_wf (snd (UpsertExtensionState now k n e h d))"
    unfolding UpsertExtensionState_def
    by (rule exec_wf) (auto simp: store_wf_def list_ex_iff m simp del: map_map intro: fts_ok_more)
qed

lemma InsertExtensionHookRun_wf: "store_wf d \<Longrightarrow> store_wf (snd (InsertExtensionHookRun now r d))"
  unfolding InsertExtensionHookRun_def
  by (rule exec_wf) (auto simp: store_wf_def intro: ids_ok_snoc fts_ok_more)

lemma UpsertContextSummary_wf: "store_wf d \<Longrightarrow> store_wf (snd (UpsertContextSummary now u s t d))"
proof -
  have m: "map cs_user (map (\<lambda>c. if cs_user c = u
        then c\<lparr>cs_summary := s, cs_strategy := t, cs_updated := w\<rparr> else c) xs)
      = map cs_user xs" for xs :: "ContextSummary list" and w
    by simp
  show "store_wf d \<Longrightarrow> store_wf (snd (UpsertContextSummary now u s t d))"
    unfolding UpsertContextSummary_def
    by (rule exec_wf) (auto simp: store_wf_def list_ex_iff m simp del: map_map intro: fts_ok_more)
qed

lemma InsertMultiAgentTrace_wf: "store_wf d \<Longrightarrow> store_wf (snd (InsertMultiAgentTrace now r d))"
  unfolding InsertMultiAgentTrace_def
  by (rule exec_wf) (auto simp: store_wf_def intro: ids_ok_snoc fts_ok_more)

lemma MarkGatewayUpdateProcessed_wf:
  "store_wf d \<Longrightarrow> store_wf (snd (MarkGatewayUpdateProcessed now p e d))"
  unfolding MarkGatewayUpdateProcessed_def
  by (rule stmt_wf) (auto simp: store_wf_def update_seen_def list_ex_iff intro: fts_ok_more)

lemma CreateSessionWithOptions_wf:
  "store_wf d \<Longrightarrow> store_wf (snd (CreateSessionWithOptions now u m p r opts d))"
  unfolding CreateSessionWithOptions_def
  by (rule stmt_wf) (auto simp: store_wf_def Let_def intro: ids_ok_snoc fts_ok_more)

lemma GetSession_wf: "store_wf d \<Longrightarrow> store_wf (snd (GetSession sid d))"
  unfolding GetSession_def by (rule stmt_wf) (auto split: option.splits)

lemma update_session_wf:
  assumes f: "\<And>s. sess_id (f s) = sess_id s" "\<And>s. sess_user (f s) = sess_user s"
    "\<And>s. sess_model (f s) = sess_model s" and wf: "store_wf d"
  shows "store_wf (update_session sid f d)"
proof -
  let ?g = "\<lambda>s. if sess_id s = sid then f s else s"
  have ids: "map sess_id (map ?g (sessions d)) = map sess_id (sessions d)"
    using f(1) by simp
  have g: "sess_id (?g s) = sess_id s" "fts_of (?g s) m = fts_of s m" for s m
    using f by (simp_all add: fts_of_def)
  have "\<exists>m\<in>set (messages d). \<exists>s\<in>set (map ?g (sessions d)). sess_id s = msg_session m \<and> x = fts_of s m"
    if x: "x \<in> set (messages_fts d)" for x
  proof -
    have "fts_ok d" using wf by (simp add: store_wf_def)
    then obtain m s where ms: "m \<in> set (messages d)" "s \<in> set (sessions d)"
      "sess_id s = msg_session m" "x = fts_of s m"
      using x unfolding fts_ok_iff by blast
    have "?g s \<in> set (map ?g (sessions d))"
      unfolding set_map using ms(2) by (rule imageI)
    moreover have "sess_id (?g s) = msg_session m"
      using g(1) ms(3) by (rule trans)
    moreover have "x = fts_of (?g s) m"
      using ms(4) g(2) [symmetric] by (rule trans)
    ultimately show ?thesis using ms(1) by (intro bexI conjI)
  qed
  moreover have "distinct (map fts_message (messages_fts d))"
    using wf by (simp add: store_wf_def fts_ok_iff)
  ultimately have "fts_rows_ok (messages_fts d) (messages d) (map ?g (sessions d))"
    unfolding fts_rows_ok_def by (intro conjI ballI)
  then have "fts_ok (update_session sid f d)"
    by (simp add: fts_ok_def update_session_def del: set_map)
  then show ?thesis
    unfolding store_wf_def update_session_def using wf ids
    by (simp add: store_wf_def del: map_map list.map_comp)
qed

lemma UpdateSessionResponse_wf: "store_wf d \<Longrightarrow> store_wf (snd (UpdateSessionResponse sid r d))"
  unfolding UpdateSessionResponse_def by (rule exec_wf) (auto intro: update_session_wf)

lemma AddMessage_wf: "store_wf d \<Longrightarrow> store_wf (snd (AddMessage now sid role content d))"
  unfolding AddMessage_def
proof (rule exec_wf)
  fix d assume wf: "store_wf d"
  let ?m = "new_message now sid role content d"
  let ?d = "d\<lparr>messages := messages d @ [?m], messages_seq := messages_seq d + 1\<rparr>"
  have dist: "distinct (map sess_id (sessions d))"
    using wf by (auto simp: store_wf_def dest: ids_ok_distinct)
  have fresh: "f \<in> set (messages_fts d) \<Longrightarrow> fts_message f \<le> messages_seq d" for f
    using wf by (fastforce simp: store_wf_def fts_ok_iff fts_of_def dest: ids_ok_le)
  have new: "filter (\<lambda>s. sess_id s = msg_session ?m) (sessions d) = []
    \<or> (\<exists>s\<in>set (sessions d). sess_id s = msg_session ?m
          \<and> filter (\<lambda>s. sess_id s = msg_session ?m) (sessions d) = [s])"
  proof (cases "\<exists>s\<in>set (sessions d). sess_id s = msg_session ?m")
    case True
    then obtain s where s: "s \<in> set (sessions d)" "sess_id s = msg_session ?m" by blast
    from filter_eq_single [OF dist s(1)] have "filter (\<lambda>s. sess_id s = msg_session ?m) (sessions d) = [s]"
      by (simp add: s(2))
    with s show ?thesis by blast
  next
    case False
    then show ?thesis by (simp add: filter_empty_conv)
  qed
  have old: "\<exists>m\<in>set (messages d @ [?m]). \<exists>s\<in>set (sessions d). sess_id s = msg_session m \<and> f = fts_of s m"
    if "f \<in> set (messages_fts d)" for f
    using that wf by (auto simp: store_wf_def fts_ok_iff)
  have fts: "fts_ok (messages_ai ?m ?d)"
    using new
  proof
    assume "filter (\<lambda>s. sess_id s = msg_session ?m) (sessions d) = []"
    then show ?thesis
      using wf old by (simp add: fts_ok_iff messages_ai_def store_wf_def)
  next
    assume "\<exists>s\<in>set (sessions d). sess_id s = msg_session ?m
          \<and> filter (\<lambda>s. sess_id s = msg_session ?m) (sessions d) = [s]"
    then obtain s where s: "s \<in> set (sessions d)" "sess_id s = msg_session ?m"
      "filter (\<lambda>s. sess_id s = msg_session ?m) (sessions d) = [s]" by blast
    have "fts_message (fts_of s ?m) \<notin> fts_message ` set (messages_fts d)"
      using fresh by (force simp: fts_of_def new_message_def)
    then show ?thesis
      using wf old s by (auto simp: fts_ok_iff messages_ai_def store_wf_def)
  qed
  have "ids_ok (map msg_id (messages d @ [?m])) (messages_seq d + 1)"
    using wf by (auto simp: store_wf_def new_message_def intro: ids_ok_snoc)
  then show "store_wf (let m = ?m in messages_ai m
      (d\<lparr>messages := messages d @ [m], messages_seq := messages_seq d + 1\<rparr>))"
    using wf fts by (simp add: store_wf_def messages_ai_def Let_def)
qed

lemma delete_messages_wf: "store_wf d \<Longrightarrow> store_wf (delete_messages P d)"
proof -
  assume wf: "store_wf d"
  have dist: "distinct (map msg_id (messages d))"
    using wf by (auto simp: store_wf_def dest: ids_ok_distinct)
  have "fts_ok (delete_messages P d)"
    using wf dist
    by (fastforce simp: store_wf_def fts_ok_iff delete_messages_def distinct_map_filter_key
        list_ex_iff fts_of_def)
  then show ?thesis
    using wf by (simp add: store_wf_def delete_messages_def ids_ok_filter)
qed

lemma drop_session_wf:
  assumes wf: "store_wf d" and none: "\<And>f. f \<in> set (messages_fts d) \<Longrightarrow> fts_session f \<noteq> sid"
  shows "store_wf (d\<lparr>sessions := filter (\<lambda>s. sess_id s \<noteq> sid) (sessions d)\<rparr>)"
proof -
  have "fts_ok (d\<lparr>sessions := filter (\<lambda>s. sess_id s \<noteq> sid) (sessions d)\<rparr>)"
    using wf none by (fastforce simp: store_wf_def fts_ok_iff fts_of_def)
  then show ?thesis
    using wf by (simp add: store_wf_def ids_ok_filter)
qed

lemma delete_messages_fts:
  assumes "store_wf d" "f \<in> set (messages_fts (delete_messages (\<lambda>m. msg_session m = sid) d))"
  shows "fts_session f \<noteq> sid"
  using assms by (fastforce simp: store_wf_def fts_ok_iff delete_messages_def list_ex_iff fts_of_def)

lemma DeleteSession_wf: "store_wf d \<Longrightarrow> store_wf (snd (DeleteSession sid d))"
  unfolding DeleteSession_def
proof (rule in_tx_wf)
  fix d assume wf: "store_wf d"
  show "store_wf (snd (bind_res (exec (delete_messages (\<lambda>m. msg_session m = sid)) d)
       (\<lambda>_ d. exec (\<lambda>d. d\<lparr>sessions := filter (\<lambda>s. sess_id s \<noteq> sid) (sessions d)\<rparr>) d)))"
  proof (rule bind_wf)
    show "store_wf (snd (exec (delete_messages (\<lambda>m. msg_session m = sid)) d))"
      using wf by (rule exec_wf) (rule delete_messages_wf)
    fix a d1 assume ex: "exec (delete_messages (\<lambda>m. msg_session m = sid)) d = (Inr a, d1)" and wf1: "store_wf d1"
    obtain fs where d1: "d1 = delete_messages (\<lambda>m. msg_session m = sid) (d\<lparr>faults := fs\<rparr>)"
      using exec_Inr [OF ex] by blast
    have none: "f \<in> set (messages_fts d1) \<Longrightarrow> fts_session f \<noteq> sid" for f
      using delete_messages_fts [of "d\<lparr>faults := fs\<rparr>" f sid] wf by (simp add: d1)
    show "store_wf (snd (exec (\<lambda>d. d\<lparr>sessions := filter (\<lambda>s. sess_id s \<noteq> sid) (sessions d)\<rparr>) d1))"
      using wf1 none drop_session_wf [of "d1\<lparr>faults := _\<rparr>" sid]
      by (cases rule: exec_state [of "\<lambda>d. d\<lparr>sessions := filter (\<lambda>s. sess_id s \<noteq> sid) (sessions d)\<rparr>" d1])
        simp_all
  qed
qed

lemma refresh_snapshot_wf: "store_wf d \<Longrightarrow> store_wf (snd (refresh_snapshot sid d))"
  unfolding refresh_snapshot_def
  by (intro bind_wf query_wf) (auto split: prod.splits intro!: exec_wf update_session_wf)

lemma delete_turn_wf: "store_wf d \<Longrightarrow> store_wf (snd (delete_turn sid rows d))"
proof -
  assume wf: "store_wf d"
  have "store_wf (snd (bind_res (exec (delete_messages P) d) (\<lambda>_. refresh_snapshot sid)))" for P
    using wf by (intro bind_wf exec_wf delete_messages_wf refresh_snapshot_wf)
  then show ?thesis
    using wf by (simp add: delete_turn_def split: list.split)
qed

lemma DeleteLastTurn_wf: "store_wf d \<Longrightarrow> store_wf (snd (DeleteLastTurn sid d))"
  unfolding DeleteLastTurn_def
  by (rule in_tx_wf) (auto intro!: bind_wf query_wf delete_turn_wf)

lemmas store_op_wf = CreateUser_wf GetUser_wf UpdateLoginFailure_wf ResetLoginFailures_wf
  WriteAudit_wf UpsertExtensionState_wf InsertExtensionHookRun_wf UpsertContextSummary_wf
  InsertMultiAgentTrace_wf MarkGatewayUpdateProcessed_wf CreateSessionWithOptions_wf
  GetSession_wf UpdateSessionResponse_wf AddMessage_wf DeleteSession_wf DeleteLastTurn_wf

end
