(* ===== verification/StoreIndex.thy ===== *)
theory StoreIndex
  imports StoreInv
begin

text \<open>
  The search index against the messages: the index is computed from the messages and the sessions, but for
  the strays, messages that were stored for a session that did not exist then (the engine checks no foreign
  key). Which messages are strays is a matter of the history, so it is kept beside the store as a set of ids.
\<close>

section \<open>The index the triggers build\<close>

definition index_rows :: "Message list \<Rightarrow> Session list \<Rightarrow> FtsRow list" where
  "index_rows ms ss = concat (map (\<lambda>m. map (\<lambda>s. fts_of s m) (filter (\<lambda>s. sess_id s = msg_session m) ss)) ms)"

definition has_session :: "Session list \<Rightarrow> Message \<Rightarrow> bool" where
  "has_session ss m \<longleftrightarrow> msg_session m \<in> sess_id ` set ss"

text \<open>The messages a step adds for a session that is not there.\<close>

definition new_strays :: "Store \<Rightarrow> Store \<Rightarrow> int set" where
  "new_strays d d' = msg_id ` {m \<in> set (messages d'). m \<notin> set (messages d) \<and> \<not> has_session (sessions d) m}"

definition mirrored :: "int set \<Rightarrow> Store \<Rightarrow> bool" where
  "mirrored strays d \<longleftrightarrow>
     messages_fts d = index_rows (filter (\<lambda>m. msg_id m \<notin> strays) (messages d)) (sessions d)
     \<and> (\<forall>m\<in>set (messages d). msg_id m \<notin> strays \<longrightarrow> has_session (sessions d) m)
     \<and> (\<forall>i\<in>strays. i \<le> messages_seq d)"

lemma index_rows_simps [simp]:
  "index_rows [] ss = []"
  "index_rows (m # ms) ss = map (\<lambda>s. fts_of s m) (filter (\<lambda>s. sess_id s = msg_session m) ss) @ index_rows ms ss"
  "index_rows (ms @ ms') ss = index_rows ms ss @ index_rows ms' ss"
  by (simp_all add: index_rows_def)

lemma index_rows_cong:
  "(\<And>m. m \<in> set ms \<Longrightarrow> map (\<lambda>s. fts_of s m) (filter (\<lambda>s. sess_id s = msg_session m) ss)
      = map (\<lambda>s. fts_of s m) (filter (\<lambda>s. sess_id s = msg_session m) ss')) \<Longrightarrow> index_rows ms ss = index_rows ms ss'"
  by (induction ms) auto

lemma index_rows_filter:
  "(\<And>m s. m \<in> set ms \<Longrightarrow> Q (fts_of s m) \<longleftrightarrow> R m) \<Longrightarrow> filter Q (index_rows ms ss) = index_rows (filter R ms) ss"
  by (induction ms) (auto simp: filter_map o_def filter_empty_conv)

lemma no_strays_without_new [simp]: "set (messages d') \<subseteq> set (messages d) \<Longrightarrow> new_strays d d' = {}"
  by (auto simp: new_strays_def)

section \<open>Steps that add\<close>

definition logs :: "Store \<Rightarrow> Message list \<times> int \<times> FtsRow list \<times> Session list" where
  "logs d = (messages d, messages_seq d, messages_fts d, sessions d)"

lemma logs_faults [simp]: "logs (d\<lparr>faults := fs\<rparr>) = logs d"
  by (simp add: logs_def)

text \<open>What a step has to keep: the strays of before and those it adds are all there are.\<close>

definition mirrors :: "int set \<Rightarrow> Store \<Rightarrow> Store \<Rightarrow> bool" where
  "mirrors strays d d' \<longleftrightarrow> (store_wf d \<longrightarrow> mirrored strays d \<longrightarrow> mirrored (strays \<union> new_strays d d') d')"

lemma mirrors_logs: "logs d' = logs d \<Longrightarrow> mirrors strays d d'"
  by (simp add: mirrors_def mirrored_def logs_def)

lemma mirrors_faults [simp]:
  "mirrors strays (d\<lparr>faults := fs\<rparr>) d' = mirrors strays d d'" "mirrors strays d (d'\<lparr>faults := fs\<rparr>) = mirrors strays d d'"
  by (simp_all add: mirrors_def mirrored_def new_strays_def)

lemma stmt_mirrors:
  assumes "\<And>d. mirrors strays d (snd (f d))"
  shows "mirrors strays d (snd (stmt f d))"
proof (cases rule: stmt_cases [of f d])
  case (1 e fs)
  then show ?thesis by (simp add: mirrors_logs)
next
  case (2 fs)
  then show ?thesis using assms [of "d\<lparr>faults := fs\<rparr>"] by (simp only: mirrors_faults)
qed

lemma exec_mirrors: "(\<And>d. mirrors strays d (f d)) \<Longrightarrow> mirrors strays d (snd (exec f d))"
  unfolding exec_def by (rule stmt_mirrors) simp

lemma tables_mirror:
  "mirrors strays d (snd (CreateUser now u h r d))" "mirrors strays d (snd (UpdateLoginFailure u n l d))"
  "mirrors strays d (snd (ResetLoginFailures u d))" "mirrors strays d (snd (WriteAudit now u a t d))"
  "mirrors strays d (snd (UpsertExtensionState now k nm e h d))" "mirrors strays d (snd (InsertExtensionHookRun now hr d))"
  "mirrors strays d (snd (UpsertContextSummary now u s t d))" "mirrors strays d (snd (InsertMultiAgentTrace now tr d))"
  "mirrors strays d (snd (MarkGatewayUpdateProcessed now p x d))"
proof -
  show "mirrors strays d (snd (CreateUser now u h r d))"
    unfolding CreateUser_def by (rule stmt_mirrors, rule mirrors_logs) (simp add: logs_def)
  show "mirrors strays d (snd (MarkGatewayUpdateProcessed now p x d))"
    unfolding MarkGatewayUpdateProcessed_def by (rule stmt_mirrors, rule mirrors_logs) (simp add: logs_def)
qed (unfold UpdateLoginFailure_def ResetLoginFailures_def WriteAudit_def UpsertExtensionState_def
    InsertExtensionHookRun_def UpsertContextSummary_def InsertMultiAgentTrace_def,
    (rule exec_mirrors, rule mirrors_logs, simp add: logs_def update_user_def)+)

lemma session_mirrors: "mirrors strays d (snd (CreateSessionWithOptions now u m p r opts d))"
  unfolding CreateSessionWithOptions_def
proof (rule stmt_mirrors)
  fix d :: Store
  have late: "sess_id s \<noteq> sessions_seq d + 1" if "store_wf d" "s \<in> set (sessions d)" for s
  proof -
    have "ids_ok (map sess_id (sessions d)) (sessions_seq d)" using that(1) by (simp add: store_wf_def)
    from ids_ok_le [OF this, of "sess_id s"] show ?thesis using that(2) by simp
  qed
  show "mirrors strays d (snd (let sid = sessions_seq d + 1
       in (Inr sid, d\<lparr>sessions := sessions d @
             [\<lparr>sess_id = sid, sess_user = u, sess_model = m, sess_prompt = p, sess_response = r,
               sess_kind = (if opt_kind opts = [] then ''chat'' else opt_kind opts), sess_task = opt_task opts,
               sess_parent = (if 0 < opt_parent opts then Some (opt_parent opts) else None),
               sess_created = to_stamp now\<rparr>], sessions_seq := sid\<rparr>)))"
    (is "mirrors strays d ?d")
    unfolding mirrors_def
  proof (intro impI)
    assume wf: "store_wf d" and mir: "mirrored strays d"
    have ss: "\<exists>s. sessions ?d = sessions d @ [s] \<and> sess_id s = sessions_seq d + 1" by (simp add: Let_def)
    have same: "messages ?d = messages d" "messages_fts ?d = messages_fts d" "messages_seq ?d = messages_seq d"
      by (simp_all add: Let_def)
    obtain s where s: "sessions ?d = sessions d @ [s]" "sess_id s = sessions_seq d + 1" using ss by blast
    have "sess_id s \<noteq> msg_session x" if "has_session (sessions d) x" for x
      using that late [OF wf] s(2) unfolding has_session_def by (metis imageE)
    then have "index_rows (filter (\<lambda>m. msg_id m \<notin> strays) (messages d)) (sessions d @ [s])
        = index_rows (filter (\<lambda>m. msg_id m \<notin> strays) (messages d)) (sessions d)"
      using mir by (intro index_rows_cong) (auto simp: mirrored_def)
    then have "mirrored strays ?d"
      using mir unfolding mirrored_def same s(1) by (auto simp: has_session_def)
    then show "mirrored (strays \<union> new_strays d ?d) ?d" by (simp add: same del: snd_conv)
  qed
qed

lemma message_mirrors: "mirrors strays d (snd (AddMessage now sid role content d))"
  unfolding AddMessage_def
proof (rule exec_mirrors)
  fix d :: Store
  define m where "m = new_message now sid role content d"
  let ?d = "messages_ai m (d\<lparr>messages := messages d @ [m], messages_seq := messages_seq d + 1\<rparr>)"
  have id: "msg_id m = messages_seq d + 1" by (simp add: m_def new_message_def)
  have "mirrored (strays \<union> new_strays d ?d) ?d" if wf: "store_wf d" and mir: "mirrored strays d"
  proof -
    have old: "msg_id x \<noteq> msg_id m" if "x \<in> set (messages d)" for x
    proof -
      have "ids_ok (map msg_id (messages d)) (messages_seq d)" using wf by (simp add: store_wf_def)
      from ids_ok_le [OF this, of "msg_id x"] show ?thesis using that id by simp
    qed
    then have fresh: "m \<notin> set (messages d)" by blast
    have ns: "new_strays d ?d = (if has_session (sessions d) m then {} else {msg_id m})"
      using fresh by (auto simp: new_strays_def messages_ai_def)
    have f: "filter (\<lambda>x. x \<noteq> msg_id m \<and> x \<notin> strays) (map msg_id ms) = filter (\<lambda>x. x \<notin> strays) (map msg_id ms)"
      if "set ms \<subseteq> set (messages d)" for ms
      using that old by (intro filter_cong) auto
    have fm: "filter (\<lambda>x. msg_id x \<notin> insert (msg_id m) strays) (messages d) = filter (\<lambda>x. msg_id x \<notin> strays) (messages d)"
      using old by (intro filter_cong) auto
    have ms: "msg_id m \<notin> strays" using mir id by (auto simp: mirrored_def)
    show ?thesis
    proof (cases "has_session (sessions d) m")
      case True
      then show ?thesis
        using mir ms ns id by (auto simp: mirrored_def messages_ai_def)
    next
      case False
      then have e: "filter (\<lambda>s. sess_id s = msg_session m) (sessions d) = []"
        unfolding has_session_def filter_empty_conv by (metis imageI)
      show ?thesis
        using mir ns fm e False id unfolding mirrored_def by (auto simp: messages_ai_def)
    qed
  qed
  then show "mirrors strays d (let m = new_message now sid role content d
      in messages_ai m (d\<lparr>messages := messages d @ [m], messages_seq := messages_seq d + 1\<rparr>))"
    by (simp add: mirrors_def m_def [symmetric])
qed

section \<open>Steps that take away\<close>

text \<open>These add no message, so no stray; they compose.\<close>

definition trims :: "int set \<Rightarrow> Store \<Rightarrow> Store \<Rightarrow> bool" where
  "trims strays d d' \<longleftrightarrow> set (messages d') \<subseteq> set (messages d)
     \<and> (store_wf d \<longrightarrow> mirrored strays d \<longrightarrow> store_wf d' \<and> mirrored strays d')"

lemma trims_mirrors: "trims strays d d' \<Longrightarrow> mirrors strays d d'"
  by (simp add: trims_def mirrors_def)

lemma trims_faults [simp]:
  "trims strays (d\<lparr>faults := fs\<rparr>) d' = trims strays d d'" "trims strays d (d'\<lparr>faults := fs\<rparr>) = trims strays d d'"
  by (simp_all add: trims_def mirrored_def)

lemma trims_refl [simp]: "trims strays d d"
  by (simp add: trims_def)

lemma trims_trans: "trims strays d d1 \<Longrightarrow> trims strays d1 d2 \<Longrightarrow> trims strays d d2"
  by (auto simp: trims_def)

lemma exec_trims: "(\<And>d. trims strays d (f d)) \<Longrightarrow> trims strays d (snd (exec f d))"
  by (cases rule: exec_state [of f d]) (auto, metis trims_faults(1))

lemma query_trims: "trims strays d (snd (query f d))"
  unfolding query_def by (cases rule: stmt_cases [of "\<lambda>d. (Inr (f d), d)" d]) auto

lemma bind_trims:
  "trims strays d (snd m) \<Longrightarrow> (\<And>a d1. trims strays d1 (snd (k a d1))) \<Longrightarrow> trims strays d (snd (bind_res m k))"
  by (rule bind_res_keeps [where P = "trims strays d"]) (auto intro: trims_trans)

lemma in_tx_trims: "(\<And>d. trims strays d (snd (body d))) \<Longrightarrow> trims strays d (snd (in_tx body d))"
  by (cases rule: in_tx_state [of body d]) (auto, metis snd_conv trims_faults(1))

lemma delete_messages_trims: "trims strays d (delete_messages P d)"
proof -
  have "mirrored strays (delete_messages P d)" if wf: "store_wf d" and mir: "mirrored strays d"
  proof -
    have dist: "distinct (map msg_id (messages d))" using wf by (auto simp: store_wf_def dest: ids_ok_distinct)
    have "(\<not> list_ex (\<lambda>m. P m \<and> msg_id m = fts_message (fts_of s x)) (messages d)) \<longleftrightarrow> \<not> P x" if "x \<in> set (messages d)" for s x
      using that dist by (auto simp: list_ex_iff fts_of_def distinct_map inj_on_def)
    then have "filter (\<lambda>f. \<not> list_ex (\<lambda>m. P m \<and> msg_id m = fts_message f) (messages d))
        (index_rows (filter (\<lambda>m. msg_id m \<notin> strays) (messages d)) (sessions d))
      = index_rows (filter (\<lambda>m. \<not> P m) (filter (\<lambda>m. msg_id m \<notin> strays) (messages d))) (sessions d)"
      by (intro index_rows_filter) auto
    moreover have "filter (\<lambda>m. \<not> P m) (filter (\<lambda>m. msg_id m \<notin> strays) (messages d))
      = filter (\<lambda>m. msg_id m \<notin> strays) (filter (\<lambda>m. \<not> P m) (messages d))"
      by (simp add: conj_commute)
    ultimately show ?thesis using mir by (auto simp: mirrored_def delete_messages_def)
  qed
  then show ?thesis by (auto simp: trims_def delete_messages_wf) (simp add: delete_messages_def)
qed

lemma update_session_trims:
  assumes "\<And>s. sess_id (f s) = sess_id s" "\<And>s. sess_user (f s) = sess_user s" "\<And>s. sess_model (f s) = sess_model s"
  shows "trims strays d (update_session sid f d)"
proof -
  let ?g = "\<lambda>s. if sess_id s = sid then f s else s"
  have g: "sess_id (?g s) = sess_id s" "fts_of (?g s) m = fts_of s m" for s m
    using assms by (simp_all add: fts_of_def)
  have "index_rows ms (map ?g ss) = index_rows ms ss" for ms ss
    by (induction ms) (simp_all add: filter_map o_def g cong: filter_cong)
  moreover have "has_session (map ?g ss) m = has_session ss m" for ss and m :: Message
  proof -
    have "sess_id ` set (map ?g ss) = sess_id ` set ss" by (simp only: set_map image_image g)
    then show ?thesis by (simp only: has_session_def)
  qed
  ultimately show ?thesis
    using update_session_wf [where f = f and sid = sid and d = d] assms by (auto simp: trims_def mirrored_def update_session_def)
qed

lemma response_trims: "trims strays d (snd (UpdateSessionResponse sid r d))"
  unfolding UpdateSessionResponse_def by (intro exec_trims update_session_trims) simp_all

lemma undo_trims: "trims strays d (snd (DeleteLastTurn sid d))"
proof -
  have "trims strays d (snd (refresh_snapshot sid d))" for d
    unfolding refresh_snapshot_def
    by (intro bind_trims query_trims) (auto split: prod.split intro!: exec_trims update_session_trims)
  then have "trims strays d (snd (delete_turn sid rows d))" for rows d
    by (auto simp: delete_turn_def intro!: bind_trims exec_trims delete_messages_trims split: list.split)
  then show ?thesis
    unfolding DeleteLastTurn_def by (intro in_tx_trims bind_trims query_trims)
qed

lemma delete_session_trims: "trims strays d (snd (DeleteSession sid d))"
  unfolding DeleteSession_def
proof (rule in_tx_trims)
  fix d :: Store
  let ?del = "delete_messages (\<lambda>m. msg_session m = sid)" and ?drop = "\<lambda>d. d\<lparr>sessions := filter (\<lambda>s. sess_id s \<noteq> sid) (sessions d)\<rparr>"
  have drop: "trims strays d (?drop (?del d))" for d
  proof -
    have t: "trims strays d (?del d)" by (rule delete_messages_trims)
    have none: "m \<in> set (messages (?del d)) \<Longrightarrow> msg_session m \<noteq> sid" for m by (auto simp: delete_messages_def)
    have wf: "store_wf d \<Longrightarrow> store_wf (?drop (?del d))"
      using delete_messages_fts by (intro drop_session_wf delete_messages_wf) blast+
    have "mirrored strays (?drop d1)" if "mirrored strays d1" "\<And>m. m \<in> set (messages d1) \<Longrightarrow> msg_session m \<noteq> sid" for d1
    proof -
      have "filter (\<lambda>s. sess_id s = msg_session m \<and> sess_id s \<noteq> sid) (sessions d1) = filter (\<lambda>s. sess_id s = msg_session m) (sessions d1)"
        if "m \<in> set (messages d1)" for m
        using \<open>\<And>m. m \<in> set (messages d1) \<Longrightarrow> msg_session m \<noteq> sid\<close> [OF that] by (intro filter_cong) auto
      then have "index_rows (filter (\<lambda>m. msg_id m \<notin> strays) (messages d1)) (filter (\<lambda>s. sess_id s \<noteq> sid) (sessions d1))
        = index_rows (filter (\<lambda>m. msg_id m \<notin> strays) (messages d1)) (sessions d1)"
        by (intro index_rows_cong) (simp add: conj_commute)
      moreover have "has_session (filter (\<lambda>s. sess_id s \<noteq> sid) (sessions d1)) m = has_session (sessions d1) m"
        if "m \<in> set (messages d1)" for m
        using \<open>\<And>m. m \<in> set (messages d1) \<Longrightarrow> msg_session m \<noteq> sid\<close> [OF that] by (auto simp: has_session_def image_iff)
      ultimately show ?thesis using that(1) by (auto simp: mirrored_def)
    qed
    then show ?thesis using t none wf by (auto simp: trims_def)
  qed
  have e: "trims strays d (snd (exec ?del d))" by (intro exec_trims delete_messages_trims)
  show "trims strays d (snd (bind_res (exec ?del d) (\<lambda>_. exec ?drop)))"
  proof (cases "exec ?del d")
    case (Pair r d1)
    show ?thesis
    proof (cases r)
      case (Inl e)
      then show ?thesis using e Pair by simp
    next
      case (Inr u)
      then obtain fs where d1: "d1 = ?del (d\<lparr>faults := fs\<rparr>)" using Pair exec_Inr by blast
      have "trims strays d d1" using delete_messages_trims [of strays "d\<lparr>faults := fs\<rparr>"] by (simp add: d1)
      then have 1: "trims strays d (d1\<lparr>faults := gs\<rparr>)" for gs by simp
      have g: "?del (d\<lparr>faults := gs\<rparr>) = d1\<lparr>faults := gs\<rparr>" for gs by (simp add: d1 delete_messages_def)
      have 2: "trims strays d (?drop (d1\<lparr>faults := gs\<rparr>))" for gs
        using drop [of "d\<lparr>faults := gs\<rparr>"] unfolding g trims_faults .
      show ?thesis
        using Pair Inr by (cases rule: exec_state [of ?drop d1]) (use 1 2 in \<open>simp_all del: trims_faults(2)\<close>)
    qed
  qed
qed

end
