(* ===== verification/StoreProps.thy ===== *)
theory StoreProps
  imports StoreInv StoreIndex
begin

text \<open>
  What the store promises its callers. Three interfaces are stated as locales and interpreted on
  the methods of \<^verbatim>\<open>*Store\<close>: the transcript of a session (\<open>session_log\<close>), the once-only marks of the
  gateways (\<open>dedup_marks\<close>) and the tables written by \<^verbatim>\<open>ON CONFLICT DO UPDATE\<close> (\<open>keyed_table\<close>).
  The properties below them: the invariant over every run, transactions, pages and suffixes of the
  transcript, the aggregates.
\<close>

section \<open>The transcript of a session\<close>

locale session_log =
  fixes log :: "int \<Rightarrow> 's \<Rightarrow> (string \<times> string) list"
    and append :: "time \<Rightarrow> int \<Rightarrow> string \<Rightarrow> string \<Rightarrow> 's \<Rightarrow> ('e, unit, 's) outcome"
  assumes append_ok: "append now sid role content s = (Inr u, s') \<Longrightarrow>
      log sid' s' = (if sid' = sid then log sid s @ [(role, content)] else log sid' s)"
    and append_err: "append now sid role content s = (Inl e, s') \<Longrightarrow> log sid' s' = log sid' s"
begin

text \<open>A transcript only grows, and appending touches no other session.\<close>

lemma append_grows: "\<exists>t. log sid' (snd (append now sid role content s)) = log sid' s @ t"
proof (cases "append now sid role content s")
  case (Pair r s')
  then show ?thesis
    by (cases r) (use append_ok append_err in fastforce)+
qed

lemma append_frame: "sid' \<noteq> sid \<Longrightarrow> log sid' (snd (append now sid role content s)) = log sid' s"
proof (cases "append now sid role content s")
  case (Pair r s')
  assume "sid' \<noteq> sid"
  then show ?thesis
    using Pair by (cases r) (use append_ok append_err in fastforce)+
qed

text \<open>A turn is two rows, the user's before the assistant's.\<close>

lemma append_turn:
  assumes "bind_res (append now sid r1 c1 s) (\<lambda>_. append now sid r2 c2) = (Inr u, s')"
  shows "log sid s' = log sid s @ [(r1, c1), (r2, c2)]"
    and "sid' \<noteq> sid \<Longrightarrow> log sid' s' = log sid' s"
  using assms append_ok unfolding bind_res_eq_Inr by fastforce+

end

definition log_rows :: "int \<Rightarrow> Store \<Rightarrow> (string \<times> string) list" where
  "log_rows sid d = map (\<lambda>m. (msg_role m, msg_content m)) (session_messages sid d)"

lemma log_rows_faults [simp]: "log_rows sid (d\<lparr>faults := fs\<rparr>) = log_rows sid d"
  by (simp add: log_rows_def session_messages_def)

interpretation slog: session_log log_rows AddMessage
proof
  fix now sid role content d u d' sid'
  assume "AddMessage now sid role content d = (Inr u, d')"
  from exec_Inr [OF this [unfolded AddMessage_def]]
  obtain fs where "d' = (let m = new_message now sid role content (d\<lparr>faults := fs\<rparr>)
      in messages_ai m (d\<lparr>faults := fs, messages := messages d @ [m], messages_seq := messages_seq d + 1\<rparr>))"
    by auto
  then show "log_rows sid' d' = (if sid' = sid then log_rows sid d @ [(role, content)] else log_rows sid' d)"
    by (simp add: Let_def log_rows_def session_messages_def messages_ai_def new_message_def)
next
  fix now sid role content d e d' sid'
  assume "AddMessage now sid role content d = (Inl e, d')"
  then have "\<exists>fs. d' = d\<lparr>faults := fs\<rparr>"
    unfolding AddMessage_def exec_def
    by (cases rule: stmt_cases [of "\<lambda>d. (Inr (), let m = new_message now sid role content d
       in messages_ai m (d\<lparr>messages := messages d @ [m], messages_seq := messages_seq d + 1\<rparr>))" d]) auto
  then show "log_rows sid' d' = log_rows sid' d" by auto
qed

section \<open>Once-only marks\<close>

text \<open>The keys a sequence of deliveries is accepted for, in order.\<close>

fun mark_all :: "('k \<Rightarrow> 's \<Rightarrow> ('e, bool, 's) outcome) \<Rightarrow> 'k list \<Rightarrow> 's \<Rightarrow> 'k list \<times> 's" where
  "mark_all mark [] s = ([], s)"
| "mark_all mark (k # ks) s =
     (case mark k s of
        (Inr True, s') \<Rightarrow> (k # fst (mark_all mark ks s'), snd (mark_all mark ks s'))
      | (_, s') \<Rightarrow> mark_all mark ks s')"

locale dedup_marks =
  fixes seen :: "'k \<Rightarrow> 's \<Rightarrow> bool"
    and mark :: "'k \<Rightarrow> 's \<Rightarrow> ('e, bool, 's) outcome"
  assumes mark_ok: "mark k s = (Inr b, s') \<Longrightarrow> (b \<longleftrightarrow> \<not> seen k s) \<and> (seen k' s' \<longleftrightarrow> k' = k \<or> seen k' s)"
    and mark_err: "mark k s = (Inl e, s') \<Longrightarrow> seen k' s' \<longleftrightarrow> seen k' s"
begin

text \<open>In any sequence of deliveries each key is accepted at most once, and a key that was
  seen before is never accepted.\<close>

lemma marks_once:
  "distinct (fst (mark_all mark ks s)) \<and> (\<forall>k\<in>set (fst (mark_all mark ks s)). \<not> seen k s)"
proof (induction ks arbitrary: s)
  case Nil
  then show ?case by simp
next
  case (Cons k ks)
  obtain r s' where m: "mark k s = (r, s')" by force
  show ?case
  proof (cases r)
    case (Inl e)
    then show ?thesis using m Cons.IH [of s'] mark_err [of k s e s'] by simp
  next
    case (Inr b)
    then show ?thesis
      using m Cons.IH [of s'] mark_ok [of k s b s']
      by (cases b) auto
  qed
qed

end

interpretation gw_marks: dedup_marks "\<lambda>(p, x). update_seen p x" "\<lambda>(p, x). MarkGatewayUpdateProcessed now p x"
  for now
proof
  fix k :: "string \<times> string" and s :: Store and b s' and k' :: "string \<times> string"
  obtain p x p' x' where k: "k = (p, x)" "k' = (p', x')" by force
  assume "(case k of (p, x) \<Rightarrow> MarkGatewayUpdateProcessed now p x) s = (Inr b, s')"
  then show "(b \<longleftrightarrow> \<not> (case k of (p, x) \<Rightarrow> update_seen p x) s)
      \<and> ((case k' of (p, x) \<Rightarrow> update_seen p x) s' \<longleftrightarrow> k' = k \<or> (case k' of (p, x) \<Rightarrow> update_seen p x) s)"
    unfolding MarkGatewayUpdateProcessed_def k
    by (cases rule: stmt_cases [of "\<lambda>d. if update_seen p x d then (Inr False, d)
       else (Inr True, d\<lparr>processed_gateway_updates := processed_gateway_updates d @
              [\<lparr>gu_provider = p, gu_external = x, gu_created = to_stamp now\<rparr>]\<rparr>)" s])
       (auto simp: update_seen_def split: if_splits)
next
  fix k :: "string \<times> string" and s :: Store and e s' and k' :: "string \<times> string"
  obtain p x p' x' where k: "k = (p, x)" "k' = (p', x')" by force
  assume "(case k of (p, x) \<Rightarrow> MarkGatewayUpdateProcessed now p x) s = (Inl e, s')"
  then show "(case k' of (p, x) \<Rightarrow> update_seen p x) s' \<longleftrightarrow> (case k' of (p, x) \<Rightarrow> update_seen p x) s"
    unfolding MarkGatewayUpdateProcessed_def k
    by (cases rule: stmt_cases [of "\<lambda>d. if update_seen p x d then (Inr False, d)
       else (Inr True, d\<lparr>processed_gateway_updates := processed_gateway_updates d @
              [\<lparr>gu_provider = p, gu_external = x, gu_created = to_stamp now\<rparr>]\<rparr>)" s])
       (auto simp: update_seen_def split: if_splits)
qed

section \<open>Tables written by upsert\<close>

locale keyed_table =
  fixes lookup :: "'k \<Rightarrow> 's \<Rightarrow> 'v option"
    and upsert :: "'k \<Rightarrow> 'v \<Rightarrow> 's \<Rightarrow> ('e, unit, 's) outcome"
  assumes upsert_ok: "upsert k v s = (Inr u, s') \<Longrightarrow> lookup k' s' = (if k' = k then Some v else lookup k' s)"
    and upsert_err: "upsert k v s = (Inl e, s') \<Longrightarrow> lookup k' s' = lookup k' s"
begin

text \<open>Of two writes to one key the last one counts.\<close>

lemma upsert_last:
  assumes "bind_res (upsert k v s) (\<lambda>_. upsert k w) = (Inr u, s')"
  shows "lookup k s' = Some w" and "k' \<noteq> k \<Longrightarrow> lookup k' s' = lookup k' s"
  using assms upsert_ok unfolding bind_res_eq_Inr by fastforce+

lemma upsert_frame: "k' \<noteq> k \<Longrightarrow> lookup k' (snd (upsert k v s)) = lookup k' s"
proof (cases "upsert k v s")
  case (Pair r s')
  assume "k' \<noteq> k"
  then show ?thesis
    using Pair by (cases r) (use upsert_ok upsert_err in fastforce)+
qed

end

definition extension_entry :: "string \<times> string \<Rightarrow> Store \<Rightarrow> (bool \<times> string) option" where
  "extension_entry k d = map_option (\<lambda>s. (es_enabled s, es_hash s))
     (find (\<lambda>s. es_kind s = fst k \<and> es_name s = snd k) (extension_states d))"

definition summary_entry :: "string \<Rightarrow> Store \<Rightarrow> (string \<times> string) option" where
  "summary_entry k d = map_option (\<lambda>c. (cs_summary c, cs_strategy c))
     (find (\<lambda>c. cs_user c = k) (context_summaries d))"

lemma find_map_upsert:
  assumes "\<And>x. key (f x) = key x"
  shows "find (\<lambda>x. key x = k') (map (\<lambda>x. if key x = k then f x else x) xs) =
    (if k' = k then map_option f (find (\<lambda>x. key x = k) xs) else find (\<lambda>x. key x = k') xs)"
  using assms by (induction xs) auto

lemma find_snoc: "find P (xs @ [x]) = (case find P xs of None \<Rightarrow> if P x then Some x else None | Some y \<Rightarrow> Some y)"
  by (induction xs) auto

lemma find_None_list_ex: "find P xs = None \<longleftrightarrow> \<not> list_ex P xs"
  by (auto simp: find_None_iff list_ex_iff)

lemma exec_Inl: "exec f d = (Inl e, d') \<Longrightarrow> tables d' = tables d"
  unfolding exec_def by (cases rule: stmt_cases [of "\<lambda>d. (Inr (), f d)" d]) auto

lemma extension_entry_tables: "tables d' = tables d \<Longrightarrow> extension_entry k d' = extension_entry k d"
  by (auto simp: extension_entry_def tables_def dest: arg_cong [where f = extension_states])

lemma summary_entry_tables: "tables d' = tables d \<Longrightarrow> summary_entry k d' = summary_entry k d"
  by (auto simp: summary_entry_def tables_def dest: arg_cong [where f = context_summaries])

interpretation ext_table: keyed_table extension_entry
  "\<lambda>(k, n) (e, h). UpsertExtensionState now k n e h" for now
proof
  fix k :: "string \<times> string" and v :: "bool \<times> string" and d :: Store and u d' and k' :: "string \<times> string"
  obtain kd nm e h where kv: "k = (kd, nm)" "v = (e, h)" by (metis prod.collapse)
  assume "(case k of (k, n) \<Rightarrow> \<lambda>(e, h). UpsertExtensionState now k n e h) v d = (Inr u, d')"
  then have "UpsertExtensionState now kd nm e h d = (Inr u, d')" by (simp add: kv)
  from exec_Inr [OF this [unfolded UpsertExtensionState_def]]
  have "extension_states d' =
      (if list_ex (\<lambda>s. es_kind s = kd \<and> es_name s = nm) (extension_states d)
        then map (\<lambda>s. if es_kind s = kd \<and> es_name s = nm
                      then s\<lparr>es_enabled := e, es_hash := h, es_updated := to_stamp now\<rparr>
                      else s) (extension_states d)
        else extension_states d @ [\<lparr>es_kind = kd, es_name = nm, es_enabled = e, es_hash = h,
            es_updated = to_stamp now\<rparr>])" by auto
  then show "extension_entry k' d' = (if k' = k then Some v else extension_entry k' d)"
    using find_map_upsert [of "\<lambda>s. (es_kind s, es_name s)"
        "\<lambda>s. s\<lparr>es_enabled := e, es_hash := h, es_updated := to_stamp now\<rparr>" k' k "extension_states d"]
      find_None_list_ex [of "\<lambda>s. es_kind s = kd \<and> es_name s = nm" "extension_states d"]
    by (cases k') (auto simp: extension_entry_def kv find_snoc split: option.splits)
next
  fix k :: "string \<times> string" and v :: "bool \<times> string" and d :: Store and e d' and k' :: "string \<times> string"
  assume "(case k of (k, n) \<Rightarrow> \<lambda>(e, h). UpsertExtensionState now k n e h) v d = (Inl e, d')"
  then show "extension_entry k' d' = extension_entry k' d"
    by (auto simp: UpsertExtensionState_def split: prod.splits intro!: extension_entry_tables dest: exec_Inl)
qed

interpretation sum_table: keyed_table summary_entry
  "\<lambda>k (s, t). UpsertContextSummary now k s t" for now
proof
  fix k :: string and v :: "string \<times> string" and d :: Store and u d' and k' :: string
  obtain s t where kv: "v = (s, t)" by force
  assume "(case v of (s, t) \<Rightarrow> UpsertContextSummary now k s t) d = (Inr u, d')"
  then have "UpsertContextSummary now k s t d = (Inr u, d')" by (simp add: kv)
  from exec_Inr [OF this [unfolded UpsertContextSummary_def]]
  have "context_summaries d' =
      (if list_ex (\<lambda>c. cs_user c = k) (context_summaries d)
        then map (\<lambda>c. if cs_user c = k
                      then c\<lparr>cs_summary := s, cs_strategy := t, cs_updated := to_stamp now\<rparr>
                      else c) (context_summaries d)
        else context_summaries d @ [\<lparr>cs_user = k, cs_summary = s, cs_strategy = t,
            cs_updated = to_stamp now\<rparr>])" by auto
  then show "summary_entry k' d' = (if k' = k then Some v else summary_entry k' d)"
    using find_map_upsert [of cs_user
        "\<lambda>c. c\<lparr>cs_summary := s, cs_strategy := t, cs_updated := to_stamp now\<rparr>" k' k "context_summaries d"]
      find_None_list_ex [of "\<lambda>c. cs_user c = k" "context_summaries d"]
    by (auto simp: summary_entry_def kv find_snoc split: option.splits)
next
  fix k :: string and v :: "string \<times> string" and d :: Store and e d' and k' :: string
  assume "(case v of (s, t) \<Rightarrow> UpsertContextSummary now k s t) d = (Inl e, d')"
  then show "summary_entry k' d' = summary_entry k' d"
    by (auto simp: UpsertContextSummary_def split: prod.splits intro!: summary_entry_tables dest: exec_Inl)
qed

section \<open>Every run of the store\<close>

text \<open>A step is one method call, at any clock reading and with any arguments, or the engine
  deciding what it answers next.\<close>

inductive store_step :: "Store \<Rightarrow> Store \<Rightarrow> bool" where
  st_engine: "store_step d (d\<lparr>faults := fs\<rparr>)"
| st_user: "store_step d (snd (CreateUser now u h r d))"
| st_failure: "store_step d (snd (UpdateLoginFailure u n l d))"
| st_reset: "store_step d (snd (ResetLoginFailures u d))"
| st_audit: "store_step d (snd (WriteAudit now u a t d))"
| st_extension: "store_step d (snd (UpsertExtensionState now k n e h d))"
| st_hook: "store_step d (snd (InsertExtensionHookRun now hr d))"
| st_summary: "store_step d (snd (UpsertContextSummary now u s t d))"
| st_session: "store_step d (snd (CreateSessionWithOptions now u m p r opts d))"
| st_message: "store_step d (snd (AddMessage now sid role content d))"
| st_response: "store_step d (snd (UpdateSessionResponse sid r d))"
| st_delete: "store_step d (snd (DeleteSession sid d))"
| st_undo: "store_step d (snd (DeleteLastTurn sid d))"
| st_trace: "store_step d (snd (InsertMultiAgentTrace now tr d))"
| st_mark: "store_step d (snd (MarkGatewayUpdateProcessed now p e d))"

inductive store_reachable :: "Store \<Rightarrow> bool" where
  sr_open: "store_reachable Open"
| sr_step: "store_reachable d \<Longrightarrow> store_step d d' \<Longrightarrow> store_reachable d'"

lemma store_step_wf: "store_step d d' \<Longrightarrow> store_wf d \<Longrightarrow> store_wf d'"
  by (induction rule: store_step.induct) (simp_all add: store_op_wf)

text \<open>The same runs with the ids of the strays: the messages stored for a session that was not there.\<close>

inductive store_history :: "int set \<Rightarrow> Store \<Rightarrow> bool" where
  sh_open: "store_history {} Open"
| sh_step: "store_history strays d \<Longrightarrow> store_step d d' \<Longrightarrow> store_history (strays \<union> new_strays d d') d'"

lemma history_exists: "store_reachable d \<Longrightarrow> \<exists>strays. store_history strays d"
  by (induction rule: store_reachable.induct) (blast intro: store_history.intros)+

lemma history_reachable: "store_history strays d \<Longrightarrow> store_reachable d"
  by (induction rule: store_history.induct) (blast intro: store_reachable.intros)+

lemma reachable_wf: "store_reachable d \<Longrightarrow> store_wf d"
  by (induction rule: store_reachable.induct) (auto intro: store_wf_Open store_step_wf)

lemma step_mirrors: "store_step d d' \<Longrightarrow> mirrors strays d d'"
  by (induction rule: store_step.induct)
     (auto intro: tables_mirror session_mirrors message_mirrors trims_mirrors response_trims undo_trims delete_session_trims mirrors_logs)

lemma history_mirrored: "store_history strays d \<Longrightarrow> mirrored strays d"
proof (induction rule: store_history.induct)
  case sh_open
  then show ?case by (simp add: mirrored_def Open_def)
next
  case (sh_step strays d d')
  then show ?case using step_mirrors [of d d' strays] reachable_wf [OF history_reachable] by (simp add: mirrors_def)
qed

text \<open>C1. In every state the store can reach, row ids are unique and below the counter of their table, and account
  names and primary keys are unique. The search index mirrors the messages: read in order it is one row for
  each message, under the owner and the model of its session, but for the messages that were stored while
  their session did not exist, which are never found.\<close>

theorem store_reachable_wf:
  "store_reachable d \<Longrightarrow> store_wf d \<and> (\<exists>strays. store_history strays d)
     \<and> (\<forall>strays. store_history strays d \<longrightarrow>
          messages_fts d = index_rows (filter (\<lambda>m. msg_id m \<notin> strays) (messages d)) (sessions d)
          \<and> (\<forall>m\<in>set (messages d). msg_id m \<notin> strays \<longrightarrow> has_session (sessions d) m))"
  using history_mirrored history_exists reachable_wf by (auto simp: mirrored_def)

theorem store_reachable_wf_witness:
  "store_wf (snd (AddMessage 0 1 ''user'' ''hi'' (snd (CreateSession 0 ''u'' ''m'' ''p'' ''r'' Open))))
   \<and> map fts_content (messages_fts (snd (AddMessage 0 1 ''user'' ''hi'' (snd (CreateSession 0 ''u'' ''m'' ''p'' ''r'' Open))))) = [''hi'']"
proof -
  let ?c = "snd (CreateSession 0 ''u'' ''m'' ''p'' ''r'' Open)"
  let ?d = "snd (AddMessage 0 1 ''user'' ''hi'' ?c)"
  have "store_history ({} \<union> new_strays Open ?c) ?c"
    unfolding CreateSession_def by (rule sh_step [OF sh_open st_session])
  from sh_step [OF this st_message] have "store_history ({} \<union> new_strays Open ?c \<union> new_strays ?c ?d) ?d" .
  moreover have "new_strays Open ?c = {}" "new_strays ?c ?d = {}"
    by (auto simp: new_strays_def has_session_def CreateSession_def CreateSessionWithOptions_def AddMessage_def exec_def stmt_def Open_def
        messages_ai_def new_message_def Let_def)
  ultimately have h: "store_history {} ?d" by simp
  note r = store_reachable_wf [OF history_reachable [OF h]]
  then have "messages_fts ?d = index_rows (filter (\<lambda>m. msg_id m \<notin> {}) (messages ?d)) (sessions ?d)" using h by blast
  moreover have "map msg_content (messages ?d) = [''hi'']" "map sess_id (sessions ?d) = [1]" "map msg_session (messages ?d) = [1]"
    by (simp_all add: CreateSession_def CreateSessionWithOptions_def AddMessage_def exec_def stmt_def Open_def
        messages_ai_def new_message_def Let_def)
  then obtain m s where "messages ?d = [m]" "sessions ?d = [s]" "msg_content m = ''hi''" "sess_id s = msg_session m" by auto
  ultimately show ?thesis using r by (simp add: fts_of_def)
qed

section \<open>Transcripts\<close>

lemma session_messages_sorted: "store_wf d \<Longrightarrow> sorted (map msg_id (session_messages sid d))"
  by (auto simp: store_wf_def session_messages_def intro: ids_ok_sorted ids_ok_filter)

lemma session_messages_distinct: "store_wf d \<Longrightarrow> distinct (map msg_id (messages d))"
  by (auto simp: store_wf_def intro: ids_ok_distinct)

text \<open>The recent messages of a session are the last \<open>limit\<close> rows of its full transcript, oldest
  first, and pages of the transcript taken one after the other are the transcript.\<close>

lemma recent_messages_suffix:
  assumes "store_wf d" "faults d = []"
  shows "fst (ListRecentMessagesBySession sid limit d) =
      Inr (drop (length (session_messages sid d) - nat limit) (session_messages sid d))
    \<and> fst (GetMessages sid d) = Inr (session_messages sid d)"
proof (rule conjI)
  note s = session_messages_sorted [OF assms(1), of sid]
  show "fst (ListRecentMessagesBySession sid limit d) =
      Inr (drop (length (session_messages sid d) - nat limit) (session_messages sid d))"
    using s assms(2)
    by (simp add: ListRecentMessagesBySession_def query_no_fault order_desc_sorted page_rev_suffix)
  show "fst (GetMessages sid d) = Inr (session_messages sid d)"
    using s assms(2)
    by (simp add: GetMessages_def GetMessagesPage_def query_no_fault sort_key_id_if_sorted)
qed

definition demo_store :: Store where
  "demo_store = snd (AddMessage 5 1 ''assistant'' ''yes'' (snd (AddMessage 4 1 ''user'' ''more''
     (snd (AddMessage 3 1 ''assistant'' ''hello'' (snd (AddMessage 2 1 ''user'' ''hi''
     (snd (CreateSession 0 ''u'' ''m'' ''more'' ''yes'' Open)))))))))"

lemma demo_store_wf: "store_wf demo_store"
  unfolding demo_store_def CreateSession_def by (intro store_op_wf store_wf_Open)

lemma demo_store_faults [simp]: "faults demo_store = []"
  by (simp add: demo_store_def CreateSession_def CreateSessionWithOptions_def AddMessage_def
      exec_def stmt_def Open_def messages_ai_def Let_def)

lemma demo_store_log: "log_rows 1 demo_store =
  [(''user'', ''hi''), (''assistant'', ''hello''), (''user'', ''more''), (''assistant'', ''yes'')]"
  by (simp add: demo_store_def CreateSession_def CreateSessionWithOptions_def AddMessage_def
      exec_def stmt_def Open_def messages_ai_def Let_def log_rows_def session_messages_def new_message_def)

lemma recent_messages_suffix_witness:
  "fst (ListRecentMessagesBySession 1 2 demo_store)
     = Inr (drop 2 (session_messages 1 demo_store)) \<and> length (session_messages 1 demo_store) = 4"
proof -
  have l: "length (session_messages 1 demo_store) = 4"
    using arg_cong [OF demo_store_log, where f = length] by (simp add: log_rows_def)
  show ?thesis
    using recent_messages_suffix [OF demo_store_wf demo_store_faults, of 1 2] l by simp
qed

text \<open>Reading a transcript page by page loses and repeats nothing.\<close>

lemma message_pages_concat:
  assumes "store_wf d" "faults d = []" "0 < l" "0 < m" "0 \<le> ofs"
  shows "\<exists>p q. fst (GetMessagesPage sid l ofs d) = Inr p \<and> fst (GetMessagesPage sid m (ofs + l) d) = Inr q
    \<and> fst (GetMessagesPage sid (l + m) ofs d) = Inr (p @ q)"
  using assms page_append [of l m ofs "sort_key msg_id (session_messages sid d)"]
  by (simp add: GetMessagesPage_def query_no_fault default_offset_def)

lemma message_pages_concat_witness:
  "\<exists>p q. fst (GetMessagesPage 1 1 1 demo_store) = Inr p \<and> fst (GetMessagesPage 1 2 (1 + 1) demo_store) = Inr q
    \<and> fst (GetMessagesPage 1 (1 + 2) 1 demo_store) = Inr (p @ q)"
  by (rule message_pages_concat [OF demo_store_wf demo_store_faults]) simp_all

section \<open>Undoing a turn\<close>

lemma bind_query_cases:
  assumes "bind_res (query f d) k = (Inr b, d')"
  shows "\<exists>fs. k (f (d\<lparr>faults := fs\<rparr>)) (d\<lparr>faults := fs\<rparr>) = (Inr b, d')"
  using assms unfolding query_def
  by (cases rule: stmt_cases [of "\<lambda>d. (Inr (f d), d)" d]) auto

definition last_of_role :: "string \<Rightarrow> (string \<times> string) list \<Rightarrow> string" where
  "last_of_role role log = (case filter (\<lambda>p. fst p = role) (rev log) of [] \<Rightarrow> [] | p # _ \<Rightarrow> snd p)"

lemma latest_content_log:
  assumes "sorted (map msg_id (session_messages sid d))"
  shows "latest_content sid role d = last_of_role role (log_rows sid d)"
proof -
  have "order_desc msg_id (filter (\<lambda>m. msg_role m = role) (session_messages sid d))
      = rev (filter (\<lambda>m. msg_role m = role) (session_messages sid d))"
    by (intro order_desc_sorted sorted_map_filter_key assms)
  then show ?thesis
    by (simp add: latest_content_def last_of_role_def log_rows_def rev_map filter_map o_def rev_filter
        split: list.splits)
qed

lemma session_messages_update [simp]:
  "session_messages sid (update_session i f d) = session_messages sid d"
  "session_messages sid (d\<lparr>faults := fs\<rparr>) = session_messages sid d"
  by (simp_all add: session_messages_def update_session_def)

lemma find_session_update:
  "(\<And>s. sess_id (f s) = sess_id s) \<Longrightarrow>
   find_session j (update_session i f d) = (if j = i then map_option f (find_session i d) else find_session j d)"
  unfolding find_session_def update_session_def
  using find_map_upsert [of sess_id f j i "sessions d"] by simp

lemma find_session_faults [simp]: "find_session i (d\<lparr>faults := fs\<rparr>) = find_session i d"
  by (simp add: find_session_def)

lemma find_session_delete [simp]: "find_session i (delete_messages P d) = find_session i d"
  by (simp add: find_session_def delete_messages_def)

lemma delete_last_two:
  assumes dist: "distinct (map msg_id (messages d))"
    and ms: "session_messages sid d = pre @ [m1, m0]"
  shows "session_messages sid (delete_messages (\<lambda>m. msg_id m \<in> {msg_id m0, msg_id m1}) d) = pre"
    and "sid' \<noteq> sid \<Longrightarrow>
      session_messages sid' (delete_messages (\<lambda>m. msg_id m \<in> {msg_id m0, msg_id m1}) d) = session_messages sid' d"
proof -
  have mem: "m0 \<in> set (messages d)" "m1 \<in> set (messages d)" "msg_session m0 = sid" "msg_session m1 = sid"
    using arg_cong [OF ms, where f = set] by (auto simp: session_messages_def)
  have dd: "distinct (map msg_id (pre @ [m1, m0]))"
    using dist ms by (metis distinct_map_filter_key session_messages_def)
  have comm: "session_messages s (delete_messages P d) = filter (\<lambda>m. \<not> P m) (session_messages s d)" for s P
    by (simp add: session_messages_def delete_messages_def conj_commute)
  show "session_messages sid (delete_messages (\<lambda>m. msg_id m \<in> {msg_id m0, msg_id m1}) d) = pre"
    unfolding comm ms using dd by (auto simp: filter_id_conv image_iff)
  have "msg_id m \<notin> {msg_id m0, msg_id m1}" if "m \<in> set (session_messages sid' d)" "sid' \<noteq> sid" for m
  proof -
    have "m \<in> set (messages d)" "msg_session m = sid'"
      using that by (auto simp: session_messages_def)
    then show ?thesis
      using dist mem that(2) by (auto simp: distinct_map inj_on_def)
  qed
  then show "sid' \<noteq> sid \<Longrightarrow>
      session_messages sid' (delete_messages (\<lambda>m. msg_id m \<in> {msg_id m0, msg_id m1}) d) = session_messages sid' d"
    unfolding comm by (auto simp: filter_id_conv)
qed

text \<open>The effect of an undo that commits, on the transcript and on the session's snapshot.\<close>

definition turn_undone :: "int \<Rightarrow> Store \<Rightarrow> Store \<Rightarrow> bool" where
  "turn_undone sid d d' \<longleftrightarrow>
     (\<exists>p r. log_rows sid d = log_rows sid d' @ [(''user'', p), (''assistant'', r)])
     \<and> (\<forall>sid'. sid' \<noteq> sid \<longrightarrow> log_rows sid' d' = log_rows sid' d)
     \<and> find_session sid d' = map_option (\<lambda>s. s\<lparr>sess_prompt := last_of_role ''user'' (log_rows sid d'),
          sess_response := last_of_role ''assistant'' (log_rows sid d')\<rparr>) (find_session sid d)"

lemma refresh_snapshot_ok:
  assumes "refresh_snapshot sid d = (Inr (), d')" "sorted (map msg_id (session_messages sid d))"
  shows "\<forall>j. log_rows j d' = log_rows j d"
    and "find_session sid d' = map_option (\<lambda>s. s\<lparr>sess_prompt := last_of_role ''user'' (log_rows sid d),
          sess_response := last_of_role ''assistant'' (log_rows sid d)\<rparr>) (find_session sid d)"
proof -
  obtain fs where "exec (update_session sid (\<lambda>s. s\<lparr>sess_prompt := latest_content sid ''user'' (d\<lparr>faults := fs\<rparr>),
      sess_response := latest_content sid ''assistant'' (d\<lparr>faults := fs\<rparr>)\<rparr>)) (d\<lparr>faults := fs\<rparr>) = (Inr (), d')"
    using bind_query_cases [OF assms(1) [unfolded refresh_snapshot_def]] by auto
  from exec_Inr [OF this] obtain gs where d':
    "d' = update_session sid (\<lambda>s. s\<lparr>sess_prompt := latest_content sid ''user'' (d\<lparr>faults := fs\<rparr>),
      sess_response := latest_content sid ''assistant'' (d\<lparr>faults := fs\<rparr>)\<rparr>) (d\<lparr>faults := gs\<rparr>)"
    by auto
  show "\<forall>j. log_rows j d' = log_rows j d"
    by (simp add: d' log_rows_def)
  show "find_session sid d' = map_option (\<lambda>s. s\<lparr>sess_prompt := last_of_role ''user'' (log_rows sid d),
          sess_response := last_of_role ''assistant'' (log_rows sid d)\<rparr>) (find_session sid d)"
    using assms(2) by (simp add: d' find_session_update latest_content_log)
qed

lemma take_two: "take 2 xs = (case xs of a # b # _ \<Rightarrow> [a, b] | _ \<Rightarrow> xs)"
  by (auto simp: numeral_2_eq_2 split: list.splits)

lemma delete_turn_ok:
  assumes wf: "store_wf d" and ok: "delete_turn sid (take 2 (rev (session_messages sid d))) d = (Inr (), d')"
  shows "turn_undone sid d d'"
proof -
  obtain m0 m1 rest where rows: "rev (session_messages sid d) = m0 # m1 # rest"
    and roles: "msg_role m0 = ''assistant''" "msg_role m1 = ''user''"
    and b: "bind_res (exec (delete_messages (\<lambda>m. msg_id m \<in> {msg_id m0, msg_id m1})) d) (\<lambda>_. refresh_snapshot sid) = (Inr (), d')"
    using ok by (auto simp: delete_turn_def take_two split: list.splits if_splits)
  let ?D = "delete_messages (\<lambda>m. msg_id m \<in> {msg_id m0, msg_id m1})"
  have ms: "session_messages sid d = rev rest @ [m1, m0]"
    using arg_cong [OF rows, where f = rev] by simp
  from b obtain d1 where ex: "exec ?D d = (Inr (), d1)" and rs: "refresh_snapshot sid d1 = (Inr (), d')"
    by (auto simp: bind_res_eq_Inr)
  from exec_Inr [OF ex] obtain fs where d1: "d1 = ?D (d\<lparr>faults := fs\<rparr>)" by blast
  have wfs: "store_wf (d\<lparr>faults := fs\<rparr>)" using wf by simp
  note dl = delete_last_two [OF session_messages_distinct [OF wfs], of sid "rev rest" m1 m0]
  have s1: "session_messages sid d1 = rev rest"
    "sid' \<noteq> sid \<Longrightarrow> session_messages sid' d1 = session_messages sid' d" for sid'
    using dl ms by (simp_all add: d1)
  have "store_wf d1" unfolding d1 by (rule delete_messages_wf [OF wfs])
  note ref = refresh_snapshot_ok [OF rs session_messages_sorted [OF this]]
  have "find_session sid d1 = find_session sid d" by (simp add: d1)
  then show ?thesis
    using ref s1 ms roles by (simp add: turn_undone_def log_rows_def)
qed

lemma delete_last_turn_cases:
  assumes "store_wf d"
  shows "case DeleteLastTurn sid d of
      (Inr _, d') \<Rightarrow> turn_undone sid d d'
    | (Inl e, d') \<Rightarrow> tables d' = tables d"
proof (cases "DeleteLastTurn sid d")
  case (Pair r d')
  show ?thesis
  proof (cases r)
    case (Inl e)
    then show ?thesis using Pair in_tx_error [of _ d e d'] by (simp add: DeleteLastTurn_def)
  next
    case (Inr u)
    let ?body = "\<lambda>d. bind_res (query (\<lambda>d. take 2 (order_desc msg_id (session_messages sid d))) d) (delete_turn sid)"
    have ok: "in_tx ?body d = (Inr (), d')"
      using Pair Inr by (simp add: DeleteLastTurn_def)
    obtain fs gs d1 where b: "?body (d\<lparr>faults := fs\<rparr>) = (Inr (), d1)" and d': "d' = d1\<lparr>faults := gs\<rparr>"
      using in_tx_Inr [OF ok] by blast
    obtain hs where dt: "delete_turn sid (take 2 (order_desc msg_id (session_messages sid d))) (d\<lparr>faults := hs\<rparr>) = (Inr (), d1)"
      using bind_query_cases [OF b] by auto
    have "order_desc msg_id (session_messages sid d) = rev (session_messages sid d)"
      by (rule order_desc_sorted [OF session_messages_sorted [OF assms]])
    then have "turn_undone sid (d\<lparr>faults := hs\<rparr>) d1"
      using dt assms by (intro delete_turn_ok) simp_all
    then show ?thesis using Pair Inr by (simp add: turn_undone_def d')
  qed
qed

text \<open>C17. \<^verbatim>\<open>DeleteLastTurn\<close> is all or nothing: when it succeeds, the transcript loses exactly its
  last user and assistant rows, other sessions keep theirs, and the session's prompt and response
  are the last ones that remain; when it reports an error (no full turn, a tail that is not a
  user/assistant pair, a refused statement or commit), no table has changed.\<close>

theorem delete_last_turn_atomic:
  assumes "store_wf d"
  shows "case DeleteLastTurn sid d of
      (Inr _, d') \<Rightarrow> turn_undone sid d d'
    | (Inl e, d') \<Rightarrow> tables d' = tables d"
  using assms by (rule delete_last_turn_cases)

theorem delete_last_turn_atomic_witness:
  "case DeleteLastTurn 1 demo_store of
      (Inr _, d') \<Rightarrow> turn_undone 1 demo_store d'
    | (Inl e, d') \<Rightarrow> tables d' = tables demo_store"
  by (rule delete_last_turn_atomic [OF demo_store_wf])

end
