(* ===== verification/StoreReads.thy ===== *)
theory StoreReads
  imports StoreProps "HOL-Library.Multiset"
begin

text \<open>
  The read side of the store: what a search of the history may return, the text handed to the
  full-text engine, the once-only marks of the gateways, and the per-user aggregates.
\<close>

section \<open>The text of a search\<close>

lemma fts_parts_shape:
  "w \<in> set (fts_parts cur q) \<Longrightarrow> \<forall>c\<in>set cur. is_fts_char c \<Longrightarrow>
   \<exists>v. w = v @ ''*'' \<and> v \<noteq> [] \<and> (\<forall>c\<in>set v. is_fts_char c)"
proof (induction cur q rule: fts_parts.induct)
  case (1 cur)
  then show ?case by (intro exI [of _ "rev cur"]) (auto split: if_splits)
next
  case (2 cur c s)
  show ?case
  proof (cases "is_fts_char c")
    case True
    then show ?thesis using 2 by (simp del: is_fts_char.simps)
  next
    case False
    then consider "w = rev cur @ ''*''" "cur \<noteq> []" | "w \<in> set (fts_parts [] s)"
      using "2.prems"(1) by (auto split: if_splits simp del: is_fts_char.simps)
    then show ?thesis
    proof cases
      case 1
      then show ?thesis using "2.prems"(2) by (intro exI [of _ "rev cur"]) auto
    next
      case 2
      then show ?thesis using "2.IH"(2) [OF False 2] by (simp del: is_fts_char.simps)
    qed
  qed
qed

lemma fts_parts_nonempty: "c \<in> set q \<Longrightarrow> is_fts_char c \<Longrightarrow> fts_parts cur q \<noteq> []"
proof (induction cur q rule: fts_parts.induct)
  case (2 cur d s)
  then show ?case
  proof (cases "c \<in> set s")
    case True
    then show ?thesis using 2 by (cases "is_fts_char d") (simp_all del: is_fts_char.simps)
  next
    case False
    then have "is_fts_char d" using "2.prems" by (auto simp del: is_fts_char.simps)
    moreover have "fts_parts (d # cur) s \<noteq> []" for s
      by (induction s arbitrary: d cur) (auto simp del: is_fts_char.simps)
    ultimately show ?thesis by (simp del: is_fts_char.simps)
  qed
qed simp

lemma fts_parts_empty: "\<forall>c\<in>set q. \<not> is_fts_char c \<Longrightarrow> fts_parts [] q = []"
  by (induction q) (auto simp del: is_fts_char.simps)

text \<open>The text \<^verbatim>\<open>normalizeFTSQuery\<close> gives the engine is the empty phrase exactly when the
  user's text has no search character, and otherwise a conjunction of prefix terms made of the
  search characters alone: no quote, bracket, colon or caret of the user's text reaches the engine.\<close>

lemma normalize_fts_query_shape:
  "(if \<forall>c\<in>set q. \<not> is_fts_char c then normalizeFTSQuery q = [CHR 0x22, CHR 0x22]
    else \<exists>ws. ws \<noteq> [] \<and> normalizeFTSQuery q = join '' AND '' (map (\<lambda>w. w @ ''*'') ws)
           \<and> list_all (\<lambda>w. w \<noteq> [] \<and> list_all is_fts_char w) ws)"
proof (cases "\<forall>c\<in>set q. \<not> is_fts_char c")
  case True
  then show ?thesis by (simp add: normalizeFTSQuery_def fts_parts_empty del: is_fts_char.simps)
next
  case False
  then have ne: "fts_parts [] q \<noteq> []" using fts_parts_nonempty by blast
  let ?ws = "map butlast (fts_parts [] q)"
  have sh: "w = butlast w @ ''*'' \<and> butlast w \<noteq> [] \<and> (\<forall>c\<in>set (butlast w). is_fts_char c)"
    if "w \<in> set (fts_parts [] q)" for w
    using fts_parts_shape [OF that] by (auto simp del: is_fts_char.simps)
  have "map (\<lambda>w. w @ ''*'') ?ws = fts_parts [] q"
    using sh by (auto simp: o_def intro!: map_idI simp del: is_fts_char.simps)
  moreover have "list_all (\<lambda>w. w \<noteq> [] \<and> list_all is_fts_char w) ?ws"
    using sh by (simp add: list_all_iff del: is_fts_char.simps)
  ultimately show ?thesis
    using ne False by (auto simp: normalizeFTSQuery_def simp del: is_fts_char.simps intro!: exI [of _ ?ws])
qed

lemma normalize_fts_query_shape_witness:
  "normalizeFTSQuery ''a b'' = ''a* AND b*'' \<and>
   (\<exists>ws. ws \<noteq> [] \<and> normalizeFTSQuery ''a b'' = join '' AND '' (map (\<lambda>w. w @ ''*'') ws)
      \<and> list_all (\<lambda>w. w \<noteq> [] \<and> list_all is_fts_char w) ws)"
proof
  show "normalizeFTSQuery ''a b'' = ''a* AND b*''" by code_simp
  have "\<not> (\<forall>c\<in>set ''a b''. \<not> is_fts_char c)" by code_simp
  then show "\<exists>ws. ws \<noteq> [] \<and> normalizeFTSQuery ''a b'' = join '' AND '' (map (\<lambda>w. w @ ''*'') ws)
      \<and> list_all (\<lambda>w. w \<noteq> [] \<and> list_all is_fts_char w) ws"
    using normalize_fts_query_shape [of "''a b''"] by (simp only: if_False)
qed

section \<open>What a search returns\<close>

lemma find_session_mem: "find_session i d = Some s \<Longrightarrow> s \<in> set (sessions d) \<and> sess_id s = i"
  by (auto simp: find_session_def find_Some_iff)

lemma find_session_unique:
  assumes "store_wf d" "s \<in> set (sessions d)"
  shows "find_session (sess_id s) d = Some s"
proof -
  have "distinct (map sess_id (sessions d))"
    using assms(1) by (auto simp: store_wf_def intro: ids_ok_distinct)
  then show ?thesis using assms(2)
    by (auto simp: find_session_def find_Some_iff in_set_conv_nth distinct_conv_nth)
qed

text \<open>A result row shows a stored message of a session its user owns.\<close>

definition result_of :: "Store \<Rightarrow> (string \<Rightarrow> string) \<Rightarrow> string \<Rightarrow> SearchResult \<Rightarrow> bool" where
  "result_of d snippet user r \<longleftrightarrow>
     (\<exists>m\<in>set (messages d). \<exists>s\<in>set (sessions d).
        msg_session m = sess_id s \<and> sess_user s = user
        \<and> r = \<lparr>res_session = sess_id s, res_message = msg_id m, res_user = user, res_model = sess_model s,
             res_role = msg_role m, res_content = snippet (msg_content m), res_created = msg_created m,
             res_session_time = sess_created s\<rparr>)"

lemma session_times_ok:
  assumes "store_wf d" "set hits \<subseteq> set (messages_fts d)" "\<forall>f\<in>set hits. fts_user f = user"
  shows "\<exists>rs. session_times snip hits d = Inr rs \<and> map res_message rs = map fts_message hits
    \<and> (\<forall>r\<in>set rs. result_of d snip user r)"
  using assms(2,3)
proof (induction hits)
  case Nil
  then show ?case by simp
next
  case (Cons f fs)
  then obtain rs where rs: "session_times snip fs d = Inr rs" "map res_message rs = map fts_message fs"
    "\<forall>r\<in>set rs. result_of d snip user r" by auto
  from Cons.prems(1) assms(1) obtain m s where ms: "m \<in> set (messages d)" "s \<in> set (sessions d)"
    "sess_id s = msg_session m" "f = fts_of s m"
    by (auto simp: store_wf_def fts_ok_iff)
  have fs': "find_session (fts_session f) d = Some s"
    using find_session_unique [OF assms(1) ms(2)] ms by (simp add: fts_of_def)
  have "result_of d snip user \<lparr>res_session = fts_session f, res_message = fts_message f,
               res_user = fts_user f, res_model = fts_model f, res_role = fts_role f,
               res_content = snip (fts_content f), res_created = fts_created f,
               res_session_time = sess_created s\<rparr>"
    using ms Cons.prems(2) unfolding result_of_def by (force simp: fts_of_def)
  then show ?case using rs fs' by simp
qed

text \<open>C18. Whatever the full-text engine matches, a search returns at most the asked number of rows,
  newest first, each of them the copy of a stored message in a session of the searching user; it
  fails only when the engine refuses the text.\<close>

theorem search_messages_isolated:
  assumes wf: "store_wf d" and nf: "faults d = []"
  shows "case fst (SearchMessages fts_match snippet flt d) of
      Inl e \<Rightarrow> fts_match (normalizeFTSQuery (sf_query flt)) = None
    | Inr rs \<Rightarrow> length rs \<le> nat (default_limit 20 (sf_limit flt))
        \<and> sorted_wrt (>) (map res_message rs)
        \<and> list_all (result_of d (snippet (normalizeFTSQuery (sf_query flt))) (sf_user flt)) rs"
proof (cases "search_hits fts_match flt d (normalizeFTSQuery (sf_query flt))")
  case None
  then show ?thesis
    using nf by (simp add: SearchMessages_def stmt_no_fault Let_def search_hits_def)
next
  case (Some hits)
  let ?q = "normalizeFTSQuery (sf_query flt)"
  obtain P where hits: "hits = take (nat (default_limit 20 (sf_limit flt)))
      (order_desc fts_message (filter P (messages_fts d)))"
    and P: "\<And>f. P f \<Longrightarrow> fts_user f = sf_user flt"
    using Some by (auto simp: search_hits_def)
  have sub: "set hits \<subseteq> set (messages_fts d)" and own: "\<forall>f\<in>set hits. fts_user f = sf_user flt"
    using P by (auto simp: hits dest!: in_set_takeD)
  obtain rs where rs: "session_times (snippet ?q) hits d = Inr rs" "map res_message rs = map fts_message hits"
    "\<forall>r\<in>set rs. result_of d (snippet ?q) (sf_user flt) r"
    using session_times_ok [OF wf sub own] by blast
  have "distinct (map fts_message (messages_fts d))"
    using wf by (simp add: store_wf_def fts_ok_iff)
  then have "sorted_wrt (<) (map fts_message (sort_key fts_message (filter P (messages_fts d))))"
    by (simp add: strict_sorted_iff distinct_map_filter_key distinct_map inj_on_def)
  then have "sorted_wrt (>) (map fts_message (order_desc fts_message (filter P (messages_fts d))))"
    by (simp add: order_desc_def rev_map [symmetric] sorted_wrt_rev)
  then have "sorted_wrt (>) (map res_message rs)"
    by (simp add: rs(2) hits take_map [symmetric] sorted_wrt_take)
  moreover have "length rs \<le> nat (default_limit 20 (sf_limit flt))"
    using arg_cong [OF rs(2), where f = length] by (simp add: hits)
  ultimately show ?thesis
    using rs nf Some by (simp add: SearchMessages_def stmt_no_fault Let_def list_all_iff)
qed

theorem search_messages_isolated_witness:
  "case fst (SearchMessages (\<lambda>q. Some (\<lambda>c. True)) (\<lambda>q c. c)
       \<lparr>sf_user = ''u'', sf_query = ''hi'', sf_role = [], sf_session = 0, sf_from = None, sf_to = None, sf_limit = 2\<rparr>
       demo_store) of
      Inl e \<Rightarrow> False
    | Inr rs \<Rightarrow> list_all (result_of demo_store (\<lambda>c. c) ''u'') rs"
  using search_messages_isolated [OF demo_store_wf demo_store_faults,
      where fts_match = "\<lambda>q. Some (\<lambda>c. True)" and snippet = "\<lambda>q c. c" and flt =
         "\<lparr>sf_user = ''u'', sf_query = ''hi'', sf_role = [], sf_session = 0, sf_from = None, sf_to = None, sf_limit = 2\<rparr>"]
  by (simp split: sum.splits)

section \<open>Gateway marks\<close>

text \<open>However often a gateway delivers its updates, and whichever of the inserts the engine
  refuses, an update is accepted at most once, and one that was accepted before is never accepted
  again.\<close>

lemma gateway_updates_once:
  "distinct (fst (mark_all (\<lambda>(p, x). MarkGatewayUpdateProcessed now p x) ks d))
   \<and> list_all (\<lambda>(p, x). \<not> update_seen p x d) (fst (mark_all (\<lambda>(p, x). MarkGatewayUpdateProcessed now p x) ks d))"
  using gw_marks.marks_once [of now ks d] by (auto simp: list_all_iff)

section \<open>Insights\<close>

lemma count_kinds_le:
  "count_kind ''chat'' xs + count_kind ''multiagent_parent'' xs + count_kind ''multiagent_child'' xs
   \<le> int (length xs)"
  by (induction xs) (auto simp: count_kind_def)

lemma group_sizes:
  assumes "distinct ks"
  shows "set (map key xs) \<subseteq> set ks \<Longrightarrow>
    sum_list (map (\<lambda>k. int (length (filter (\<lambda>r. key r = k) xs))) ks) = int (length xs)"
proof (induction xs)
  case (Cons x xs)
  have "sum_list (map (\<lambda>k. int (length (filter (\<lambda>r. key r = k) (x # xs)))) ks)
      = sum_list (map (\<lambda>k. int (length (filter (\<lambda>r. key r = k) xs)) + (if k = key x then 1 else 0)) ks)"
    by (intro arg_cong [where f = sum_list] map_cong) auto
  also have "\<dots> = int (length xs) + sum_list (map (\<lambda>k. if k = key x then 1 else 0) ks)"
    using Cons by (simp add: sum_list_addf)
  also have "sum_list (map (\<lambda>k. if k = key x then 1 else (0::int)) ks) = 1"
    using Cons.prems assms by (simp add: sum_list_distinct_conv_sum_set)
  finally show ?case by simp
qed simp

lemma sum_list_sort_key: "sum_list (map (f :: 'a \<Rightarrow> int) (sort_key g xs)) = sum_list (map f xs)"
  by (metis mset_map mset_sort sum_mset_sum_list)

text \<open>The totals of the action summary add up to the rows it was taken from.\<close>

lemma audit_groups_total:
  "sum_list (map aas_total (sort_key g (map (\<lambda>(k, rows). \<lparr>aas_action = k, aas_total = int (length rows)\<rparr>)
     (group_by audit_action rows)))) = int (length rows)"
  using group_sizes [of "remdups (map audit_action rows)" audit_action rows]
  by (simp add: sum_list_sort_key group_by_def o_def)

text \<open>C40. \<^verbatim>\<open>BuildUserInsights\<close> counts what the tables hold for a user with a session in the period;
  for a user with none it reports a scan error instead of zeros, because \<^verbatim>\<open>SUM\<close> over no rows is
  \<^verbatim>\<open>NULL\<close>.\<close>

theorem insights_need_a_session:
  assumes "faults d = []" "u \<noteq> []"
  shows "case fst (BuildUserInsights u since d) of
      Inl e \<Rightarrow> e = ScanNull ''chat_sessions'' \<and> insight_sessions u since d = []
    | Inr r \<Rightarrow> ui_sessions r = int (length (insight_sessions u since d)) \<and> 0 < ui_sessions r
        \<and> ui_chat r + ui_parent r + ui_child r \<le> ui_sessions r
        \<and> ui_audits r = sum_list (map aas_total (ui_actions r))"
  using assms count_kinds_le [of "insight_sessions u since d"]
  by (simp add: BuildUserInsights_def SummarizeAuditActions_def stmt_no_fault query_no_fault Let_def
      audit_groups_total audit_summary_rows_def sel_str_def sel_to_def)

theorem insights_need_a_session_witness:
  "fst (BuildUserInsights ''u'' None demo_store) \<noteq> Inl (ScanNull ''chat_sessions'')
   \<and> fst (BuildUserInsights ''new'' None Open) = Inl (ScanNull ''chat_sessions'')"
proof
  have "insight_sessions ''u'' None demo_store \<noteq> []"
    by (simp add: demo_store_def CreateSession_def CreateSessionWithOptions_def AddMessage_def exec_def
        stmt_def Open_def messages_ai_def Let_def insight_sessions_def sel_from_def)
  then show "fst (BuildUserInsights ''u'' None demo_store) \<noteq> Inl (ScanNull ''chat_sessions'')"
    using insights_need_a_session [OF demo_store_faults, of "''u''" None] by auto
  show "fst (BuildUserInsights ''new'' None Open) = Inl (ScanNull ''chat_sessions'')"
    using insights_need_a_session [of Open "''new''" None]
    by (auto simp: Open_def insight_sessions_def split: sum.splits)
qed

end
