(* ===== verification/GoText.thy ===== *)
theory GoText
  imports Prelude "HOL-Library.AList"
begin

text \<open>
  More of Go's standard library that several components use: \<^verbatim>\<open>%q\<close> quoting, \<^verbatim>\<open>filepath.Join\<close>
  on Unix, the helper \<^verbatim>\<open>firstNonEmpty\<close> that four packages of the source declare, single
  placeholders \<^verbatim>\<open>{{name}}\<close>, and maps. A Go map is an association list without repeated keys, in
  the order one iteration would visit it; nothing proved depends on that order.
\<close>

section \<open>Maps\<close>

type_synonym ('k, 'v) gomap = "('k \<times> 'v) list"

definition get :: "('k, 'v) gomap \<Rightarrow> 'k \<Rightarrow> 'v option" where
  "get m k = map_of m k"

definition put :: "'k \<Rightarrow> 'v \<Rightarrow> ('k, 'v) gomap \<Rightarrow> ('k, 'v) gomap" where
  "put k v m = AList.update k v m"

definition remove_key :: "'k \<Rightarrow> ('k, 'v) gomap \<Rightarrow> ('k, 'v) gomap" where
  "remove_key k m = filter (\<lambda>p. fst p \<noteq> k) m"

definition has_key :: "'k \<Rightarrow> ('k, 'v) gomap \<Rightarrow> bool" where
  "has_key k m = list_ex (\<lambda>p. fst p = k) m"

text \<open>A map whose absent keys read as the zero value \<^verbatim>\<open>""\<close>.\<close>

definition get_str :: "(string, string) gomap \<Rightarrow> string \<Rightarrow> string" where
  "get_str m k = (case get m k of None \<Rightarrow> [] | Some v \<Rightarrow> v)"

lemma get_put [simp]: "get (put k v m) k' = (if k' = k then Some v else get m k')"
  by (simp add: get_def put_def update_conv')

lemma get_remove_key [simp]: "get (remove_key k m) k' = (if k' = k then None else get m k')"
  by (induction m) (auto simp: get_def remove_key_def)

lemma has_key_get: "has_key k m \<longleftrightarrow> get m k \<noteq> None"
  by (induction m) (auto simp: has_key_def get_def)

lemma distinct_put: "distinct (map fst m) \<Longrightarrow> distinct (map fst (put k v m))"
  by (simp add: put_def distinct_update)

lemma distinct_remove_key: "distinct (map fst m) \<Longrightarrow> distinct (map fst (remove_key k m))"
  by (simp add: remove_key_def distinct_map_filter_key)

lemma get_Nil [simp]: "get [] k = None"
  by (simp add: get_def)

lemma get_Cons: "get ((a, v) # m) k = (if k = a then Some v else get m k)"
  by (simp add: get_def)

lemma get_mem: "get m k = Some v \<Longrightarrow> (k, v) \<in> set m"
  by (simp add: get_def map_of_SomeD)

section \<open>Quoting\<close>

definition hex_digit :: "nat \<Rightarrow> char" where
  "hex_digit n = (if n < 10 then char_of (48 + n) else char_of (87 + n))"

text \<open>\<^verbatim>\<open>strconv.Quote\<close>; bytes of printable characters outside ASCII stay as they are.\<close>

definition quote_char :: "char \<Rightarrow> string" where
  "quote_char c =
     (if c = CHR 0x22 then [CHR 0x5C, CHR 0x22]
      else if c = CHR 0x5C then [CHR 0x5C, CHR 0x5C]
      else if c = CHR 0x07 then [CHR 0x5C, CHR ''a'']
      else if c = CHR 0x08 then [CHR 0x5C, CHR ''b'']
      else if c = CHR 0x0C then [CHR 0x5C, CHR ''f'']
      else if c = CHR 0x0A then [CHR 0x5C, CHR ''n'']
      else if c = CHR 0x0D then [CHR 0x5C, CHR ''r'']
      else if c = CHR 0x09 then [CHR 0x5C, CHR ''t'']
      else if c = CHR 0x0B then [CHR 0x5C, CHR ''v'']
      else if c < CHR 0x20 \<or> c = CHR 0x7F
      then [CHR 0x5C, CHR ''x'', hex_digit (of_char c div 16), hex_digit (of_char c mod 16)]
      else [c])"

definition go_quote :: "string \<Rightarrow> string" where
  "go_quote s = [CHR 0x22] @ concat (map quote_char s) @ [CHR 0x22]"

section \<open>Paths\<close>

fun clean_parts :: "bool \<Rightarrow> string list \<Rightarrow> string list \<Rightarrow> string list" where
  "clean_parts rooted acc [] = rev acc"
| "clean_parts rooted acc (p # ps) =
     (if p = [] \<or> p = ''.'' then clean_parts rooted acc ps
      else if p = ''..''
      then (case acc of
              [] \<Rightarrow> clean_parts rooted (if rooted then [] else [p]) ps
            | a # as \<Rightarrow> clean_parts rooted (if a = ''..'' then p # acc else as) ps)
      else clean_parts rooted (p # acc) ps)"

definition path_clean :: "string \<Rightarrow> string" where
  "path_clean p =
     (let rooted = has_prefix ''/'' p;
          body = join ''/'' (clean_parts rooted [] (split_on ''/'' p))
      in if rooted then CHR ''/'' # body else if body = [] then ''.'' else body)"

definition path_join :: "string list \<Rightarrow> string" where
  "path_join ps =
     (let qs = filter (\<lambda>p. p \<noteq> []) ps in if qs = [] then [] else path_clean (join ''/'' qs))"

section \<open>Small helpers of the source\<close>

fun firstNonEmpty :: "string list \<Rightarrow> string" where
  "firstNonEmpty [] = []"
| "firstNonEmpty (v # vs) = (if trim_space v \<noteq> [] then trim_space v else firstNonEmpty vs)"

lemma firstNonEmpty_trimmed: "trimmed (firstNonEmpty vs)"
  by (induction vs) (auto simp: trimmed_trim_space)

lemma firstNonEmpty_eq_Nil: "firstNonEmpty vs = [] \<longleftrightarrow> (\<forall>v\<in>set vs. trim_space v = [])"
  by (induction vs) auto

text \<open>The name inside a text that is one placeholder, as the pattern
  \<^verbatim>\<open>^\{\{([a-zA-Z0-9_\-]+)\}\}$\<close> finds it.\<close>

definition is_name_char :: "char \<Rightarrow> bool" where
  "is_name_char c = (is_lower_alpha c \<or> is_upper_alpha c \<or> is_digit c \<or> c = CHR ''_'' \<or> c = CHR ''-'')"

definition placeholder :: "string \<Rightarrow> string option" where
  "placeholder s =
     (let n = take (length s - 4) (drop 2 s)
      in if has_prefix ''{{'' s \<and> has_suffix ''}}'' s \<and> 4 < length s \<and> list_all is_name_char n
         then Some n else None)"

text \<open>The first error of a list of checks.\<close>

fun first_error :: "('a \<Rightarrow> 'e option) \<Rightarrow> 'a list \<Rightarrow> 'e option" where
  "first_error f [] = None"
| "first_error f (x # xs) = (case f x of Some e \<Rightarrow> Some e | None \<Rightarrow> first_error f xs)"

lemma first_error_None: "first_error f xs = None \<longleftrightarrow> (\<forall>x\<in>set xs. f x = None)"
  by (induction xs) (auto split: option.splits)

lemma check_None [simp]: "(if b then Some e else r) = None \<longleftrightarrow> \<not> b \<and> r = None"
  by simp

end
