(* ===== verification/Config.thy ===== *)
theory Config
  imports GoText
begin

text \<open>
  \<^verbatim>\<open>internal/config/config.go\<close>: the typed configuration, its defaults and validation, and the model
  profiles. Parsing and printing YAML and the file system are parameters (\<^verbatim>\<open>gopkg.in/yaml.v3\<close> is no
  code of the repository).
\<close>

section \<open>The configuration types\<close>

record LLMConfig =
  llm_Provider :: string
  llm_Model :: string
  llm_BaseURL :: string
  llm_APIKey :: string
  llm_TimeoutSeconds :: int
  llm_DisplayName :: string
  llm_Local :: bool

record SecurityConfig =
  sec_RequireAuth :: bool
  sec_AllowRegistration :: bool
  sec_MinPasswordLength :: int
  sec_MaxLoginAttempts :: int
  sec_LoginWindowMinute :: int

record MemoryConfig =
  memc_Enabled :: bool
  memc_MemoryCharLimit :: int
  memc_UserCharLimit :: int
  memc_RecallLimit :: int

record ContextConfig =
  ctx_HistoryWindowMessages :: int
  ctx_MaxPromptChars :: int
  ctx_CompressionEnabled :: bool
  ctx_CompressThresholdMessages :: int
  ctx_ProtectLastMessages :: int
  ctx_SummaryMaxChars :: int
  ctx_SummaryStrategy :: string

record PromptingConfig =
  prm_CacheEnabled :: bool
  prm_CacheTTLMinutes :: int

record AuxiliaryConfig =
  aux_Enabled :: bool
  aux_Profile :: string
  aux_SummaryProfile :: string
  aux_CompressionProfile :: string

record ServerConfig =
  srv_ReadTimeoutSeconds :: int
  srv_WriteTimeoutSeconds :: int
  srv_IdleTimeoutSeconds :: int

record CronConfig =
  crn_Enabled :: bool
  crn_TickSeconds :: int

record TelegramGatewayConfig =
  tg_Enabled :: bool
  tg_BotTokenEnv :: string
  tg_Secret :: string

record SlackGatewayConfig =
  sl_Enabled :: bool
  sl_SigningSecretEnv :: string
  sl_BotTokenEnv :: string

record WeixinGatewayConfig =
  wx_Enabled :: bool
  wx_Token :: string

record GatewayConfig =
  gw_Enabled :: bool
  gw_Token :: string
  gw_AllowedPlatforms :: "string list"
  gw_Telegram :: TelegramGatewayConfig
  gw_Slack :: SlackGatewayConfig
  gw_Weixin :: WeixinGatewayConfig

record CommandRule =
  rule_MaxArgs :: int
  rule_MaxArgLength :: int
  rule_MaxOutputBytes :: int
  rule_AllowedArgPrefixes :: "string list"
  rule_DeniedSubstrings :: "string list"

record ExecutionStep =
  step_Name :: string
  step_Command :: string
  step_ArgsTemplate :: "string list"

record ExecutionProfile =
  prof_ContinueOnError :: bool
  prof_RequireApproval :: bool
  prof_CapabilityToken :: string
  prof_RollbackProfile :: string
  prof_Steps :: "ExecutionStep list"

record ExecutionConfig =
  exe_Enabled :: bool
  exe_TimeoutSeconds :: int
  exe_AllowedCommands :: "string list"
  exe_MaxArgs :: int
  exe_MaxArgLength :: int
  exe_MaxOutputBytes :: int
  exe_CommandRules :: "(string, CommandRule) gomap"
  exe_Profiles :: "(string, ExecutionProfile) gomap"

record ExtensionConfig =
  ext_PluginsDir :: string
  ext_SkillsDirs :: "string list"

record MCPServerConfig =
  mcp_Transport :: string
  mcp_URL :: string
  mcp_Enabled :: bool
  mcp_Command :: string
  mcp_Args :: "string list"
  mcp_Env :: "(string, string) gomap"
  mcp_TimeoutSeconds :: int
  mcp_IncludeTools :: "string list"
  mcp_ExcludeTools :: "string list"

record Config =
  cfg_AppName :: string
  cfg_ListenAddr :: string
  cfg_DataDir :: string
  cfg_JWTIssuer :: string
  cfg_JWTExpiryMinutes :: int
  cfg_LLM :: LLMConfig
  cfg_CurrentModelProfile :: string
  cfg_ModelProfiles :: "(string, LLMConfig) gomap"
  cfg_Memory :: MemoryConfig
  cfg_Context :: ContextConfig
  cfg_Prompting :: PromptingConfig
  cfg_Auxiliary :: AuxiliaryConfig
  cfg_Security :: SecurityConfig
  cfg_Server :: ServerConfig
  cfg_Cron :: CronConfig
  cfg_Gateway :: GatewayConfig
  cfg_Execution :: ExecutionConfig
  cfg_Extensions :: ExtensionConfig
  cfg_MCPServers :: "(string, MCPServerConfig) gomap"

section \<open>Defaults\<close>

definition default_llm :: LLMConfig where
  "default_llm = \<lparr>llm_Provider = ''openai-compatible'', llm_Model = ''gpt-4.1-mini'',
     llm_BaseURL = ''https://api.openai.com/v1'', llm_APIKey = ''OPENAI_API_KEY'',
     llm_TimeoutSeconds = 60, llm_DisplayName = ''OpenAI GPT-4.1 Mini'', llm_Local = False\<rparr>"

definition default_profiles :: "(string, LLMConfig) gomap" where
  "default_profiles =
     [(''openai-gpt41-mini'', default_llm),
      (''openrouter-claude-sonnet'',
        \<lparr>llm_Provider = ''openai-compatible'', llm_Model = ''anthropic/claude-sonnet-4.6'',
         llm_BaseURL = ''https://openrouter.ai/api/v1'', llm_APIKey = ''OPENROUTER_API_KEY'',
         llm_TimeoutSeconds = 60, llm_DisplayName = ''OpenRouter Claude Sonnet 4.6'', llm_Local = False\<rparr>),
      (''ollama-qwen3'',
        \<lparr>llm_Provider = ''openai-compatible'', llm_Model = ''qwen3:14b'',
         llm_BaseURL = ''http://127.0.0.1:11434/v1'', llm_APIKey = [],
         llm_TimeoutSeconds = 60, llm_DisplayName = ''Ollama Qwen3 14B'', llm_Local = True\<rparr>),
      (''lmstudio-local'',
        \<lparr>llm_Provider = ''openai-compatible'', llm_Model = ''local-model'',
         llm_BaseURL = ''http://127.0.0.1:1234/v1'', llm_APIKey = [],
         llm_TimeoutSeconds = 60, llm_DisplayName = ''LM Studio Local Model'', llm_Local = True\<rparr>)]"

definition default_execution :: ExecutionConfig where
  "default_execution =
     \<lparr>exe_Enabled = False, exe_TimeoutSeconds = 10, exe_AllowedCommands = [''echo'', ''date''],
      exe_MaxArgs = 8, exe_MaxArgLength = 256, exe_MaxOutputBytes = 4096,
      exe_CommandRules =
        [(''echo'', \<lparr>rule_MaxArgs = 8, rule_MaxArgLength = 256, rule_MaxOutputBytes = 4096,
            rule_AllowedArgPrefixes = [], rule_DeniedSubstrings = []\<rparr>),
         (''date'', \<lparr>rule_MaxArgs = 4, rule_MaxArgLength = 64, rule_MaxOutputBytes = 512,
            rule_AllowedArgPrefixes = [''+'', ''--iso''], rule_DeniedSubstrings = []\<rparr>)],
      exe_Profiles =
        [(''system-health'', \<lparr>prof_ContinueOnError = False, prof_RequireApproval = False,
            prof_CapabilityToken = [], prof_RollbackProfile = [],
            prof_Steps =
              [\<lparr>step_Name = ''echo'', step_Command = ''echo'', step_ArgsTemplate = [''system health check'']\<rparr>,
               \<lparr>step_Name = ''date'', step_Command = ''date'', step_ArgsTemplate = [''+%Y-%m-%dT%H:%M:%SZ'']\<rparr>]\<rparr>)]\<rparr>"

definition default_gateway :: GatewayConfig where
  "default_gateway =
     \<lparr>gw_Enabled = True, gw_Token = ''change-this-gateway-token'', gw_AllowedPlatforms = [''webhook''],
      gw_Telegram = \<lparr>tg_Enabled = False, tg_BotTokenEnv = ''TELEGRAM_BOT_TOKEN'',
        tg_Secret = ''change-this-telegram-secret''\<rparr>,
      gw_Slack = \<lparr>sl_Enabled = False, sl_SigningSecretEnv = ''SLACK_SIGNING_SECRET'',
        sl_BotTokenEnv = ''SLACK_BOT_TOKEN''\<rparr>,
      gw_Weixin = \<lparr>wx_Enabled = False, wx_Token = ''change-this-weixin-token''\<rparr>\<rparr>"

definition Default :: Config where
  "Default =
     \<lparr>cfg_AppName = ''hermes-go'', cfg_ListenAddr = ''127.0.0.1:8080'', cfg_DataDir = ''./data'',
      cfg_JWTIssuer = ''hermes-go'', cfg_JWTExpiryMinutes = 720, cfg_LLM = default_llm,
      cfg_CurrentModelProfile = ''openai-gpt41-mini'', cfg_ModelProfiles = default_profiles,
      cfg_Memory = \<lparr>memc_Enabled = True, memc_MemoryCharLimit = 2200, memc_UserCharLimit = 1375,
        memc_RecallLimit = 3\<rparr>,
      cfg_Context = \<lparr>ctx_HistoryWindowMessages = 8, ctx_MaxPromptChars = 24000,
        ctx_CompressionEnabled = True, ctx_CompressThresholdMessages = 6,
        ctx_ProtectLastMessages = 4, ctx_SummaryMaxChars = 900, ctx_SummaryStrategy = ''rule''\<rparr>,
      cfg_Prompting = \<lparr>prm_CacheEnabled = True, prm_CacheTTLMinutes = 5\<rparr>,
      cfg_Auxiliary = \<lparr>aux_Enabled = True, aux_Profile = [], aux_SummaryProfile = [],
        aux_CompressionProfile = []\<rparr>,
      cfg_Security = \<lparr>sec_RequireAuth = True, sec_AllowRegistration = False,
        sec_MinPasswordLength = 12, sec_MaxLoginAttempts = 5, sec_LoginWindowMinute = 15\<rparr>,
      cfg_Server = \<lparr>srv_ReadTimeoutSeconds = 15, srv_WriteTimeoutSeconds = 60,
        srv_IdleTimeoutSeconds = 60\<rparr>,
      cfg_Cron = \<lparr>crn_Enabled = False, crn_TickSeconds = 60\<rparr>,
      cfg_Gateway = default_gateway, cfg_Execution = default_execution,
      cfg_Extensions = \<lparr>ext_PluginsDir = ''./plugins'', ext_SkillsDirs = [''./skills'']\<rparr>,
      cfg_MCPServers = []\<rparr>"

section \<open>Validation\<close>

text \<open>The steps of an execution profile, numbered from \<open>i\<close>.\<close>

fun check_steps :: "string \<Rightarrow> nat \<Rightarrow> ExecutionStep list \<Rightarrow> string option" where
  "check_steps name i [] = None"
| "check_steps name i (s # ss) =
     (if trim_space (step_Command s) = []
      then Some (''execution.profiles.'' @ name @ ''.steps.'' @ show_nat i @ ''.command is required'')
      else check_steps name (i + 1) ss)"

fun check_profile :: "string \<times> ExecutionProfile \<Rightarrow> string option" where
  "check_profile (name, p) =
     (if prof_Steps p = [] then Some (''execution.profiles.'' @ name @ ''.steps must not be empty'')
      else if prof_RollbackProfile p \<noteq> [] \<and> prof_RollbackProfile p = name
      then Some (''execution.profiles.'' @ name @ ''.rollback_profile must not reference itself'')
      else check_steps name 0 (prof_Steps p))"

definition mcp_transport :: "MCPServerConfig \<Rightarrow> string" where
  "mcp_transport s =
     (let t = to_lower (trim_space (mcp_Transport s)) in if t = [] then ''stdio'' else t)"

fun check_mcp :: "string \<times> MCPServerConfig \<Rightarrow> string option" where
  "check_mcp (name, s) =
     (if \<not> mcp_Enabled s then None
      else if mcp_transport s = ''stdio'' \<and> mcp_Command s = []
      then Some (''mcp_servers.'' @ name @ ''.command is required'')
      else if mcp_transport s = ''http'' \<and> trim_space (mcp_URL s) = []
      then Some (''mcp_servers.'' @ name @ ''.url is required'')
      else if mcp_transport s \<noteq> ''stdio'' \<and> mcp_transport s \<noteq> ''http''
      then Some (''mcp_servers.'' @ name @ ''.transport must be stdio or http'')
      else if mcp_TimeoutSeconds s \<le> 0
      then Some (''mcp_servers.'' @ name @ ''.timeout_seconds must be > 0'')
      else None)"

text \<open>\<^verbatim>\<open>Validate\<close> has a value receiver: the default \<open>''rule''\<close> it assigns for an empty summary
  strategy is seen by the next check alone.\<close>

definition Validate :: "Config \<Rightarrow> string option" where
  "Validate c =
     (if cfg_ListenAddr c = [] then Some ''listen_addr is required''
      else if cfg_DataDir c = [] then Some ''data_dir is required''
      else if cfg_JWTIssuer c = [] then Some ''jwt_issuer is required''
      else if cfg_JWTExpiryMinutes c \<le> 0 then Some ''jwt_expiry_minutes must be > 0''
      else if llm_Model (cfg_LLM c) = [] then Some ''llm.model is required''
      else if llm_BaseURL (cfg_LLM c) = [] then Some ''llm.base_url is required''
      else if sec_MinPasswordLength (cfg_Security c) < 10 then Some ''min_password_length must be >= 10''
      else if sec_MaxLoginAttempts (cfg_Security c) \<le> 0 then Some ''max_login_attempts must be > 0''
      else if sec_LoginWindowMinute (cfg_Security c) \<le> 0 then Some ''login_window_minutes must be > 0''
      else if memc_MemoryCharLimit (cfg_Memory c) \<le> 0 then Some ''memory.memory_char_limit must be > 0''
      else if memc_UserCharLimit (cfg_Memory c) \<le> 0 then Some ''memory.user_char_limit must be > 0''
      else if memc_RecallLimit (cfg_Memory c) \<le> 0 then Some ''memory.recall_limit must be > 0''
      else if ctx_HistoryWindowMessages (cfg_Context c) < 0
      then Some ''context.history_window_messages must be >= 0''
      else if ctx_MaxPromptChars (cfg_Context c) \<le> 0 then Some ''context.max_prompt_chars must be > 0''
      else if ctx_CompressThresholdMessages (cfg_Context c) < 0
      then Some ''context.compress_threshold_messages must be >= 0''
      else if ctx_ProtectLastMessages (cfg_Context c) < 0
      then Some ''context.protect_last_messages must be >= 0''
      else if ctx_SummaryMaxChars (cfg_Context c) \<le> 0 then Some ''context.summary_max_chars must be > 0''
      else if (let s = (if ctx_SummaryStrategy (cfg_Context c) = [] then ''rule''
                        else ctx_SummaryStrategy (cfg_Context c))
               in s \<noteq> ''rule'' \<and> s \<noteq> ''llm'')
      then Some ''context.summary_strategy must be one of: rule, llm''
      else if prm_CacheTTLMinutes (cfg_Prompting c) \<le> 0 then Some ''prompting.cache_ttl_minutes must be > 0''
      else if crn_TickSeconds (cfg_Cron c) \<le> 0 then Some ''cron.tick_seconds must be > 0''
      else if exe_TimeoutSeconds (cfg_Execution c) \<le> 0 then Some ''execution.timeout_seconds must be > 0''
      else if exe_MaxArgs (cfg_Execution c) \<le> 0 then Some ''execution.max_args must be > 0''
      else if exe_MaxArgLength (cfg_Execution c) \<le> 0 then Some ''execution.max_arg_length must be > 0''
      else if exe_MaxOutputBytes (cfg_Execution c) \<le> 0 then Some ''execution.max_output_bytes must be > 0''
      else (case first_error check_profile (exe_Profiles (cfg_Execution c)) of
              Some e \<Rightarrow> Some e
            | None \<Rightarrow>
                (case first_error check_mcp (cfg_MCPServers c) of
                   Some e \<Rightarrow> Some e
                 | None \<Rightarrow>
                     if cfg_CurrentModelProfile c \<noteq> []
                        \<and> get (cfg_ModelProfiles c) (cfg_CurrentModelProfile c) = None
                     then Some (''current_model_profile '' @ go_quote (cfg_CurrentModelProfile c)
                                @ '' is not defined'')
                     else None)))"

text \<open>\<^verbatim>\<open>Load\<close>: the file's bytes or the error of reading them, and the YAML decoder, which starts
  from the defaults.\<close>

definition Load :: "(string + string) \<Rightarrow> (string \<Rightarrow> Config \<Rightarrow> string + Config) \<Rightarrow> string option \<times> Config" where
  "Load file unmarshal =
     (case file of
        Inl e \<Rightarrow> (Some (''read config: '' @ e), Default)
      | Inr raw \<Rightarrow>
          (case unmarshal raw Default of
             Inl e \<Rightarrow> (Some (''parse config: '' @ e), Default)
           | Inr c \<Rightarrow> (Validate c, c)))"

section \<open>Derived values and model profiles\<close>

definition DBPath :: "Config \<Rightarrow> string" where
  "DBPath c = path_join [cfg_DataDir c, ''hermes-go.db'']"

definition JWTSecretPath :: "Config \<Rightarrow> string" where
  "JWTSecretPath c = path_join [cfg_DataDir c, ''jwt.secret'']"

definition Timeout :: "Config \<Rightarrow> int" where
  "Timeout c = wrap64 (llm_TimeoutSeconds (cfg_LLM c) * nanos_per_second)"

definition JWTExpiry :: "Config \<Rightarrow> int" where
  "JWTExpiry c = wrap64 (cfg_JWTExpiryMinutes c * nanos_per_minute)"

definition mergeLLMConfig :: "LLMConfig \<Rightarrow> LLMConfig \<Rightarrow> LLMConfig" where
  "mergeLLMConfig base override =
     \<lparr>llm_Provider = (if llm_Provider override \<noteq> [] then llm_Provider override else llm_Provider base),
      llm_Model = (if llm_Model override \<noteq> [] then llm_Model override else llm_Model base),
      llm_BaseURL = (if llm_BaseURL override \<noteq> [] then llm_BaseURL override else llm_BaseURL base),
      llm_APIKey = llm_APIKey override,
      llm_TimeoutSeconds = (if 0 < llm_TimeoutSeconds override then llm_TimeoutSeconds override
                            else llm_TimeoutSeconds base),
      llm_DisplayName = (if llm_DisplayName override \<noteq> [] then llm_DisplayName override
                         else llm_DisplayName base),
      llm_Local = llm_Local override\<rparr>"

definition ResolvedLLM :: "Config \<Rightarrow> LLMConfig" where
  "ResolvedLLM c =
     (if cfg_CurrentModelProfile c = [] then cfg_LLM c
      else (case get (cfg_ModelProfiles c) (cfg_CurrentModelProfile c) of
              Some p \<Rightarrow> mergeLLMConfig (cfg_LLM c) p
            | None \<Rightarrow> cfg_LLM c))"

definition ListModelProfiles :: "Config \<Rightarrow> (string, LLMConfig) gomap" where
  "ListModelProfiles c = map (\<lambda>(n, p). (n, mergeLLMConfig (cfg_LLM c) p)) (cfg_ModelProfiles c)"

definition UseModelProfile :: "string \<Rightarrow> Config \<Rightarrow> (string, unit, Config) outcome" where
  "UseModelProfile name0 c =
     (let name = trim_space name0
      in if name = [] then (Inl ''model profile is required'', c)
         else (case get (cfg_ModelProfiles c) name of
                 None \<Rightarrow> (Inl (''unknown model profile '' @ go_quote name), c)
               | Some p \<Rightarrow> (Inr (), c\<lparr>cfg_CurrentModelProfile := name,
                                    cfg_LLM := mergeLLMConfig (cfg_LLM c) p\<rparr>)))"

definition UpsertModelProfile :: "string \<Rightarrow> LLMConfig \<Rightarrow> Config \<Rightarrow> (string, unit, Config) outcome" where
  "UpsertModelProfile name0 p c =
     (let name = trim_space name0
      in if name = [] then (Inl ''model profile is required'', c)
         else UseModelProfile name (c\<lparr>cfg_ModelProfiles := put name p (cfg_ModelProfiles c)\<rparr>))"

section \<open>What a valid configuration guarantees\<close>

lemma mergeLLMConfig_idem [simp]: "mergeLLMConfig (mergeLLMConfig b o1) o1 = mergeLLMConfig b o1"
  by (simp add: mergeLLMConfig_def)

lemma mergeLLMConfig_model: "llm_Model b \<noteq> [] \<Longrightarrow> llm_Model (mergeLLMConfig b o1) \<noteq> []"
  by (simp add: mergeLLMConfig_def)

lemma mergeLLMConfig_url: "llm_BaseURL b \<noteq> [] \<Longrightarrow> llm_BaseURL (mergeLLMConfig b o1) \<noteq> []"
  by (simp add: mergeLLMConfig_def)

lemma option_case_None: "(case x of Some e \<Rightarrow> Some e | None \<Rightarrow> r) = None \<longleftrightarrow> x = None \<and> r = None"
  by (simp split: option.splits)

text \<open>The part of validation that does not look at the model profiles.\<close>

lemma Validate_None:
  "Validate c = None \<longleftrightarrow>
     Validate (c\<lparr>cfg_CurrentModelProfile := [], cfg_LLM := default_llm\<rparr>) = None
     \<and> llm_Model (cfg_LLM c) \<noteq> [] \<and> llm_BaseURL (cfg_LLM c) \<noteq> []
     \<and> (cfg_CurrentModelProfile c \<noteq> [] \<longrightarrow> get (cfg_ModelProfiles c) (cfg_CurrentModelProfile c) \<noteq> None)"
  unfolding Validate_def
  by (simp add: option_case_None default_llm_def) blast

lemma Validate_profiles:
  "Validate (c\<lparr>cfg_ModelProfiles := ps, cfg_CurrentModelProfile := [], cfg_LLM := l\<rparr>)
   = Validate (c\<lparr>cfg_CurrentModelProfile := [], cfg_LLM := l\<rparr>)"
  by (simp add: Validate_def cong: if_cong option.case_cong)

lemma check_steps_None: "check_steps name i ss = None \<longleftrightarrow> list_all (\<lambda>s. trim_space (step_Command s) \<noteq> []) ss"
  by (induction ss arbitrary: i) auto

text \<open>C24. The defaults are valid, and switching to a profile or storing one keeps a valid
  configuration valid; after a switch the endpoint in use is exactly the merge of the old endpoint
  with the profile, resolving it again changes nothing, and a failed switch changes nothing.\<close>

theorem model_profile_switch:
  assumes "Validate c = None"
  shows "(case UseModelProfile name c of
       (Inl e, c') \<Rightarrow> c' = c
     | (Inr _, c') \<Rightarrow> Validate c' = None \<and> ResolvedLLM c' = cfg_LLM c'
         \<and> Some (cfg_LLM c') = map_option (mergeLLMConfig (cfg_LLM c)) (get (cfg_ModelProfiles c) (trim_space name)))
   \<and> (case UpsertModelProfile name p c of
       (Inl e, c') \<Rightarrow> c' = c \<and> trim_space name = []
     | (Inr _, c') \<Rightarrow> Validate c' = None \<and> ResolvedLLM c' = mergeLLMConfig (cfg_LLM c) p)"
proof -
  note v = assms [unfolded Validate_None [of c]]
  have use: "Validate (c\<lparr>cfg_ModelProfiles := ps, cfg_CurrentModelProfile := n,
      cfg_LLM := mergeLLMConfig (cfg_LLM c) q\<rparr>) = None" if "get ps n = Some q" for ps n q
    using v that Validate_profiles [where c = c and l = default_llm and ps = ps]
    by (subst Validate_None) (simp add: mergeLLMConfig_model mergeLLMConfig_url)
  moreover have "Validate (c\<lparr>cfg_CurrentModelProfile := n, cfg_LLM := mergeLLMConfig (cfg_LLM c) q\<rparr>) = None"
    if "get (cfg_ModelProfiles c) n = Some q" for n q
    using use [OF that] by simp
  ultimately show ?thesis
    by (auto simp: UseModelProfile_def UpsertModelProfile_def ResolvedLLM_def Let_def split: option.splits)
qed

lemma Default_valid: "Validate Default = None"
  by code_simp

theorem model_profile_switch_witness:
  "Validate (snd (UseModelProfile '' ollama-qwen3 '' Default)) = None
   \<and> llm_Model (ResolvedLLM (snd (UseModelProfile '' ollama-qwen3 '' Default))) = ''qwen3:14b''"
proof -
  have "fst (UseModelProfile '' ollama-qwen3 '' Default) = Inr ()" by code_simp
  moreover have "llm_Model (ResolvedLLM (snd (UseModelProfile '' ollama-qwen3 '' Default))) = ''qwen3:14b''"
    by code_simp
  ultimately show ?thesis
    using model_profile_switch [OF Default_valid, of "'' ollama-qwen3 ''" default_llm]
    by (cases "UseModelProfile '' ollama-qwen3 '' Default") simp
qed

end
