(* ===== verification/Auth.thy ===== *)
theory Auth
  imports StoreProps Config
begin

text \<open>
  \<^verbatim>\<open>internal/auth/service.go\<close> with \<^verbatim>\<open>internal/security\<close>: the first administrator, password login
  with its lock-out, and the claims of the tokens. Hashing (bcrypt), signing and verifying (JWT
  library), the random source and the file system are parameters: \<open>check hash pw\<close> says whether a
  password matches, \<open>sign\<close> turns a secret and claims into a token.
\<close>

section \<open>State, claims and errors\<close>

record Service =
  svc_cfg :: Config
  svc_secret :: string

record Claims =
  cl_Username :: string
  cl_Role :: string
  cl_Issuer :: string
  cl_Subject :: string
  cl_IssuedAt :: stamp
  cl_ExpiresAt :: stamp

datatype auth_error =
    PasswordTooShort int
  | HashFailed string
  | InvalidCredentials
  | LockedUntil stamp
  | SignFailed string
  | StoreFailed db_error

type_synonym 'a auth_result = "(auth_error, 'a, Store) outcome"

definition lift_db :: "'a db_result \<Rightarrow> 'a auth_result" where
  "lift_db r = (case r of (Inl e, d) \<Rightarrow> (Inl (StoreFailed e), d) | (Inr a, d) \<Rightarrow> (Inr a, d))"

section \<open>Start-up\<close>

text \<open>The signing secret: the bytes of the file when it can be read and is not empty, otherwise a
  fresh random text, when the random source and the write succeed.\<close>

definition loadOrCreateSecret :: "string option \<Rightarrow> (string + string) \<Rightarrow> string option \<Rightarrow> string + string" where
  "loadOrCreateSecret file random write_error =
     (case file of
        Some raw \<Rightarrow> if raw \<noteq> [] then Inr raw
          else (case random of Inl e \<Rightarrow> Inl e
                | Inr s \<Rightarrow> (case write_error of Some e \<Rightarrow> Inl e | None \<Rightarrow> Inr s))
      | None \<Rightarrow>
          (case random of Inl e \<Rightarrow> Inl e
           | Inr s \<Rightarrow> (case write_error of Some e \<Rightarrow> Inl e | None \<Rightarrow> Inr s)))"

definition NewService :: "Config \<Rightarrow> (string + string) \<Rightarrow> string + Service" where
  "NewService c secret =
     (case secret of Inl e \<Rightarrow> Inl e | Inr s \<Rightarrow> Inr \<lparr>svc_cfg = c, svc_secret = s\<rparr>)"

definition InitAdmin :: "(string \<Rightarrow> string + string) \<Rightarrow> Service \<Rightarrow> time \<Rightarrow> string \<Rightarrow> string \<Rightarrow> Store \<Rightarrow> unit auth_result" where
  "InitAdmin hash s now username password d =
     (if int (length password) < sec_MinPasswordLength (cfg_Security (svc_cfg s))
      then (Inl (PasswordTooShort (sec_MinPasswordLength (cfg_Security (svc_cfg s)))), d)
      else (case hash password of
              Inl e \<Rightarrow> (Inl (HashFailed e), d)
            | Inr h \<Rightarrow>
                bind_res (lift_db (CreateUser now username h ''admin'' d))
                  (\<lambda>_ d. lift_db (WriteAudit now username ''init_admin'' ''administrator created'' d))))"

section \<open>Tokens\<close>

definition SignJWT :: "(string \<Rightarrow> Claims \<Rightarrow> string + string) \<Rightarrow> string \<Rightarrow> string \<Rightarrow> string \<Rightarrow> string \<Rightarrow> int \<Rightarrow> time \<Rightarrow> string + string" where
  "SignJWT sign secret issuer username role expiry now =
     sign secret \<lparr>cl_Username = username, cl_Role = role, cl_Issuer = issuer, cl_Subject = username,
       cl_IssuedAt = to_stamp now, cl_ExpiresAt = to_stamp (now + expiry)\<rparr>"

text \<open>The library's answer to a token is an error or claims with their validity.\<close>

definition ParseJWT :: "(string \<Rightarrow> string \<Rightarrow> string + (Claims option \<times> bool)) \<Rightarrow> string \<Rightarrow> string \<Rightarrow> string + Claims" where
  "ParseJWT parse secret token =
     (case parse secret token of
        Inl e \<Rightarrow> Inl e
      | Inr (None, _) \<Rightarrow> Inl ''token has invalid claims''
      | Inr (Some c, valid) \<Rightarrow> if valid then Inr c else Inl ''token has invalid claims'')"

definition ParseToken :: "(string \<Rightarrow> string \<Rightarrow> string + (Claims option \<times> bool)) \<Rightarrow> Service \<Rightarrow> string \<Rightarrow> string + Claims" where
  "ParseToken parse s token = ParseJWT parse (svc_secret s) token"

section \<open>Login\<close>

definition account_locked :: "time \<Rightarrow> User \<Rightarrow> bool" where
  "account_locked now u = (case user_locked u of None \<Rightarrow> False | Some l \<Rightarrow> now < of_stamp l)"

text \<open>What a wrong password leaves: one more failed attempt, or, at the limit, a fresh lock and
  the count at zero. Neither write's error is looked at.\<close>

definition login_failed :: "Service \<Rightarrow> time \<Rightarrow> string \<Rightarrow> User \<Rightarrow> Store \<Rightarrow> Store" where
  "login_failed s now username u d =
     (let sec = cfg_Security (svc_cfg s);
          n = user_failed u + 1;
          lock = sec_MaxLoginAttempts sec \<le> n;
          until = now + wrap64 (sec_LoginWindowMinute sec * nanos_per_minute);
          d1 = snd (UpdateLoginFailure username (if lock then 0 else n)
                      (if lock then Some until else None) d)
      in snd (WriteAudit now username ''login_failed'' ''invalid credentials'' d1))"

definition Login :: "(string \<Rightarrow> string \<Rightarrow> bool) \<Rightarrow> (string \<Rightarrow> Claims \<Rightarrow> string + string) \<Rightarrow> Service \<Rightarrow> time \<Rightarrow> string \<Rightarrow> string \<Rightarrow> Store \<Rightarrow> string auth_result" where
  "Login check sign s now username password d =
     (case GetUser username d of
        (Inl e, d) \<Rightarrow> (Inl (if e = NoRows then InvalidCredentials else StoreFailed e), d)
      | (Inr u, d) \<Rightarrow>
          if account_locked now u then (Inl (LockedUntil (the (user_locked u))), d)
          else if \<not> check (user_hash u) password
          then (Inl InvalidCredentials, login_failed s now username u d)
          else bind_res (lift_db (ResetLoginFailures username d))
                 (\<lambda>_ d. case SignJWT sign (svc_secret s) (cfg_JWTIssuer (svc_cfg s)) (user_name u)
                             (user_role u) (JWTExpiry (svc_cfg s)) now of
                          Inl e \<Rightarrow> (Inl (SignFailed e), d)
                        | Inr t \<Rightarrow> (Inr t, snd (WriteAudit now username ''login_success'' ''token issued'' d))))"

section \<open>Login keeps the accounts in order\<close>

lemma lift_db_snd [simp]: "snd (lift_db r) = snd r"
  by (auto simp: lift_db_def split: prod.splits sum.splits)

lemma lift_db_Inr: "lift_db r = (Inr a, d) \<longleftrightarrow> r = (Inr a, d)"
  by (auto simp: lift_db_def split: prod.splits sum.splits)

lemma InitAdmin_wf: "store_wf d \<Longrightarrow> store_wf (snd (InitAdmin hash s now u p d))"
  unfolding InitAdmin_def
  by (auto split: sum.split intro!: bind_wf simp: store_op_wf)

lemma Login_wf: "store_wf d \<Longrightarrow> store_wf (snd (Login check sign s now u p d))"
proof -
  assume wf: "store_wf d"
  then have g: "store_wf (snd (GetUser u d))" by (rule GetUser_wf)
  have f: "store_wf e \<Longrightarrow> store_wf (login_failed s now u x e)" for x e
    unfolding login_failed_def Let_def by (intro store_op_wf)
  show ?thesis
    using g unfolding Login_def
    by (auto split: prod.splits sum.split simp: store_op_wf f intro!: bind_wf)
qed

text \<open>C8. A token is handed out only for an account that exists, is not locked and whose stored hash
  accepts the password, and it carries that account's name and role, the configured issuer and
  expiry, whatever the database answers.\<close>

theorem login_sound:
  assumes "Login check sign s now username password d = (Inr tok, d')"
  shows "\<exists>u. find_user username d = Some u \<and> \<not> account_locked now u \<and> check (user_hash u) password
    \<and> sign (svc_secret s) \<lparr>cl_Username = username, cl_Role = user_role u,
        cl_Issuer = cfg_JWTIssuer (svc_cfg s), cl_Subject = username, cl_IssuedAt = to_stamp now,
        cl_ExpiresAt = to_stamp (now + JWTExpiry (svc_cfg s))\<rparr> = Inr tok"
proof -
  obtain r d1 where g: "GetUser username d = (r, d1)" by force
  then obtain u where r: "r = Inr u"
    using assms by (cases r) (auto simp: Login_def)
  have fu: "find_user username d = Some u"
    using g unfolding r GetUser_def
    by (cases rule: stmt_cases [of "\<lambda>d. case find_user username d of None \<Rightarrow> (Inl NoRows, d) | Some u \<Rightarrow> (Inr u, d)" d])
       (auto simp: find_user_def split: option.splits)
  then have "user_name u = username" by (auto simp: find_user_def find_Some_iff)
  moreover have "SignJWT sign (svc_secret s) (cfg_JWTIssuer (svc_cfg s)) (user_name u) (user_role u)
      (JWTExpiry (svc_cfg s)) now = Inr tok \<and> \<not> account_locked now u \<and> check (user_hash u) password"
    using assms by (cases "SignJWT sign (svc_secret s) (cfg_JWTIssuer (svc_cfg s)) (user_name u) (user_role u)
      (JWTExpiry (svc_cfg s)) now") (auto simp: Login_def g r bind_res_eq_Inr split: if_splits)
  ultimately show ?thesis
    using fu by (simp add: SignJWT_def)
qed

definition demo_service :: Service where
  "demo_service = \<lparr>svc_cfg = Default, svc_secret = ''k''\<rparr>"

definition demo_sign :: "string \<Rightarrow> Claims \<Rightarrow> string + string" where
  "demo_sign secret c = Inr (secret @ ''.'' @ cl_Username c)"

definition demo_accounts :: Store where
  "demo_accounts = snd (InitAdmin Inr demo_service 0 ''root'' ''long password'' Open)"

lemma demo_accounts_simps [simp]:
  "faults demo_accounts = []"
  "find_user ''root'' demo_accounts = Some \<lparr>user_id = 1, user_name = ''root'',
     user_hash = ''long password'', user_role = ''admin'', user_created = 0, user_locked = None, user_failed = 0\<rparr>"
  by (simp_all add: demo_accounts_def InitAdmin_def demo_service_def Default_def CreateUser_def
      WriteAudit_def lift_db_def stmt_def exec_def Open_def find_user_def to_stamp_def)

theorem login_sound_witness:
  "\<exists>u. find_user ''root'' demo_accounts = Some u \<and> \<not> account_locked 5 u \<and> user_hash u = ''long password''"
proof -
  have "\<exists>t d'. Login (=) demo_sign demo_service 5 ''root'' ''long password'' demo_accounts = (Inr t, d')"
    by (simp add: Login_def GetUser_def stmt_no_fault account_locked_def ResetLoginFailures_def exec_no_fault
        lift_db_def SignJWT_def demo_sign_def)
  then obtain t d' where "Login (=) demo_sign demo_service 5 ''root'' ''long password'' demo_accounts = (Inr t, d')"
    by blast
  from login_sound [OF this] show ?thesis by auto
qed

section \<open>The lock-out\<close>

fun login_run :: "(string \<Rightarrow> string \<Rightarrow> bool) \<Rightarrow> (string \<Rightarrow> Claims \<Rightarrow> string + string) \<Rightarrow> Service \<Rightarrow> string \<Rightarrow> (time \<times> string) list \<Rightarrow> Store \<Rightarrow> (auth_error + string) list \<times> Store" where
  "login_run check sign s username [] d = ([], d)"
| "login_run check sign s username ((now, password) # as) d =
     (case Login check sign s now username password d of
        (r, d') \<Rightarrow> (case login_run check sign s username as d' of (rs, d'') \<Rightarrow> (r # rs, d'')))"

lemma login_run_append:
  "login_run check sign s u (as @ bs) d =
     (case login_run check sign s u as d of (rs, d') \<Rightarrow>
        (case login_run check sign s u bs d' of (rs', d'') \<Rightarrow> (rs @ rs', d'')))"
  by (induction as arbitrary: d) (auto split: prod.splits)

lemma login_run_length: "length (fst (login_run check sign s u as d)) = length as"
  by (induction as arbitrary: d) (auto split: prod.splits, metis fst_conv)

lemma find_user_update:
  "(\<And>x. user_name (f x) = user_name x) \<Longrightarrow>
   find_user u (update_user u f d) = map_option f (find_user u d)"
  unfolding find_user_def update_user_def using find_map_upsert [of user_name f u u "users d"] by simp

lemma find_user_audit [simp]: "find_user u (d\<lparr>audit_log := a, audit_seq := n\<rparr>) = find_user u d"
  by (simp add: find_user_def)

lemma Login_wrong:
  assumes "faults d = []" "find_user u d = Some x" "\<not> account_locked now x" "\<not> check (user_hash x) p"
    and sec: "sec = cfg_Security (svc_cfg s)"
    and lock: "lock \<longleftrightarrow> sec_MaxLoginAttempts sec \<le> user_failed x + 1"
  shows "\<exists>d'. Login check sign s now u p d = (Inl InvalidCredentials, d') \<and> faults d' = []
    \<and> find_user u d' = Some (x\<lparr>user_failed := (if lock then 0 else user_failed x + 1),
      user_locked := (if lock then Some (to_stamp (now + wrap64 (sec_LoginWindowMinute sec * nanos_per_minute)))
                      else None)\<rparr>)"
proof -
  have f: "faults (update_user u f d) = []" for f
    using assms(1) by (simp add: update_user_def)
  show ?thesis
    using assms(1-4) f
    by (simp add: Login_def GetUser_def stmt_no_fault login_failed_def Let_def UpdateLoginFailure_def WriteAudit_def
        exec_no_fault lock sec find_user_update)
qed

lemma Login_locked:
  assumes "faults d = []" "find_user u d = Some x" "account_locked now x"
  shows "Login check sign s now u p d = (Inl (LockedUntil (the (user_locked x))), d)"
  using assms by (simp add: Login_def GetUser_def stmt_no_fault)

lemma to_stamp_next: "t - nanos_per_second < of_stamp (to_stamp t)"
  unfolding of_stamp_def to_stamp_def nanos_per_second_def by presburger

lemma wrong_run:
  assumes "list_all (\<lambda>(t, p). start \<le> t \<and> \<not> check h p) as" "faults d = []" "find_user u d = Some x"
    "user_locked x = None" "user_hash x = h" "0 < length as"
    "user_failed x + int (length as) = sec_MaxLoginAttempts (cfg_Security (svc_cfg s))"
  shows "\<exists>rs d' x' l. login_run check sign s u as d = (rs, d') \<and> list_all (\<lambda>r. r = Inl InvalidCredentials) rs
    \<and> faults d' = [] \<and> find_user u d' = Some x' \<and> user_locked x' = Some l
    \<and> start + wrap64 (sec_LoginWindowMinute (cfg_Security (svc_cfg s)) * nanos_per_minute) - nanos_per_second < of_stamp l"
  using assms
proof (induction as arbitrary: d x)
  case Nil
  then show ?case by simp
next
  case (Cons a as)
  obtain t p where a: "a = (t, p)" by force
  let ?sec = "cfg_Security (svc_cfg s)"
  have nl: "\<not> account_locked t x" using Cons.prems(4) by (simp add: account_locked_def)
  have wr: "\<not> check (user_hash x) p" "start \<le> t" using Cons.prems(1,5) a by auto
  from Login_wrong [where check = check and s = s and sign = sign, OF Cons.prems(2,3) nl wr(1) refl refl]
  obtain d' where L: "Login check sign s t u p d = (Inl InvalidCredentials, d')" "faults d' = []"
    "find_user u d' = Some (x\<lparr>user_failed := (if sec_MaxLoginAttempts ?sec \<le> user_failed x + 1 then 0 else user_failed x + 1),
      user_locked := (if sec_MaxLoginAttempts ?sec \<le> user_failed x + 1
        then Some (to_stamp (t + wrap64 (sec_LoginWindowMinute ?sec * nanos_per_minute))) else None)\<rparr>)"
    by blast
  show ?case
  proof (cases "as = []")
    case True
    then have "sec_MaxLoginAttempts ?sec \<le> user_failed x + 1" using Cons.prems(7) by simp
    then show ?thesis
      using L True a wr(2) to_stamp_next [of "t + wrap64 (sec_LoginWindowMinute ?sec * nanos_per_minute)"] by simp
  next
    case False
    then have nl: "\<not> sec_MaxLoginAttempts ?sec \<le> user_failed x + 1" using Cons.prems(7) by (cases as) auto
    have "\<exists>rs d'' x' l. login_run check sign s u as d' = (rs, d'') \<and> list_all (\<lambda>r. r = Inl InvalidCredentials) rs
      \<and> faults d'' = [] \<and> find_user u d'' = Some x' \<and> user_locked x' = Some l
      \<and> start + wrap64 (sec_LoginWindowMinute ?sec * nanos_per_minute) - nanos_per_second < of_stamp l"
      by (rule Cons.IH [OF _ L(2,3)]) (use Cons.prems nl False in auto)
    then show ?thesis using L(1) a by auto
  qed
qed

lemma locked_run:
  assumes "faults d = []" "find_user u d = Some x" "user_locked x = Some l" "list_all (\<lambda>(t, p). t < of_stamp l) as"
  shows "login_run check sign s u as d = (replicate (length as) (Inl (LockedUntil l)), d)"
  using assms(4)
proof (induction as)
  case Nil
  then show ?case by simp
next
  case (Cons a as)
  obtain t p where a: "a = (t, p)" by force
  have "account_locked t x" using Cons.prems assms(3) a by (simp add: account_locked_def)
  from Login_locked [where check = check and sign = sign and s = s and p = p, OF assms(1,2) this] show ?case
    using Cons a assms(3) by simp
qed

text \<open>C7. After as many wrong passwords as the account has attempts left, every attempt in the rest
  of the window (less the second that time stamps round away) is refused as locked, even one with
  the right password: within a window a password is tested at most \<^verbatim>\<open>max_login_attempts\<close> times.\<close>

theorem login_lockout:
  assumes "faults d = []" "find_user u d = Some x" "user_locked x = None"
    and left: "user_failed x + int (length wrong) = sec_MaxLoginAttempts (cfg_Security (svc_cfg s))" "wrong \<noteq> []"
    and wrong: "list_all (\<lambda>(t, p). start \<le> t \<and> \<not> check (user_hash x) p) wrong"
    and later: "list_all (\<lambda>(t, p). t < start
        + wrap64 (sec_LoginWindowMinute (cfg_Security (svc_cfg s)) * nanos_per_minute) - nanos_per_second) later"
  shows "\<exists>l. fst (login_run check sign s u (wrong @ later) d) =
      replicate (length wrong) (Inl InvalidCredentials) @ replicate (length later) (Inl (LockedUntil l))"
proof -
  have "0 < length wrong" using left(2) by simp
  from wrong_run [where sign = sign and check = check and h = "user_hash x", OF wrong assms(1,2,3) refl this left(1)]
  obtain rs d' x' l where w: "login_run check sign s u wrong d = (rs, d')" "list_all (\<lambda>r. r = Inl InvalidCredentials) rs"
    "faults d' = []" "find_user u d' = Some x'" "user_locked x' = Some l"
    "start + wrap64 (sec_LoginWindowMinute (cfg_Security (svc_cfg s)) * nanos_per_minute) - nanos_per_second < of_stamp l"
    by blast
  have "length rs = length wrong"
    using login_run_length [of check sign s u wrong d] w(1) by simp
  then have rs: "rs = replicate (length wrong) (Inl InvalidCredentials)"
    using w(2) by (intro replicate_eqI) (auto simp: list_all_iff)
  have "list_all (\<lambda>(t, p). t < of_stamp l) later"
    using later by (rule list.pred_mono_strong) (use w(6) in auto)
  from locked_run [where check = check and sign = sign and s = s, OF w(3,4,5) this]
  show ?thesis
    using w(1) rs by (simp add: login_run_append)
qed

theorem login_lockout_witness:
  "\<exists>l. fst (login_run (=) demo_sign demo_service ''root''
        (replicate 5 (10, ''guess'') @ [(800000000000, ''long password'')]) demo_accounts) =
      replicate (length (replicate 5 (10::int, ''guess''))) (Inl InvalidCredentials)
      @ replicate (length [(800000000000::int, ''long password'')]) (Inl (LockedUntil l))"
  by (rule login_lockout [where start = 10 and check = "(=)" and s = demo_service and sign = demo_sign, OF demo_accounts_simps])
     (simp_all add: eval_nat_numeral demo_service_def Default_def nanos_per_minute_def nanos_per_second_def wrap64_def)

end
