(* ===== verification/JsonVal.thy ===== *)
theory JsonVal
  imports GoText Complex_Main
begin

text \<open>
  Values of Go's \<^verbatim>\<open>any\<close> as the source uses them: what \<^verbatim>\<open>encoding/json\<close> decodes, the integers and
  strings the code puts into its maps itself, and the helpers that read such maps. A \<^verbatim>\<open>float64\<close> is the
  rational number it denotes. \<open>JOther j\<close> is a Go value of any other type (a struct, a slice of
  structs or of strings) that is encoded as \<open>j\<close>: a type assertion to \<^verbatim>\<open>map[string]any\<close> or \<^verbatim>\<open>[]any\<close>
  fails on it.
\<close>

datatype json =
    JNull
  | JBool bool
  | JInt int
  | JFloat rat
  | JStr string
  | JArr "json list"
  | JObj "(string \<times> json) list"
  | JOther json

type_synonym jmap = "(string, json) gomap"

definition jget :: "jmap \<Rightarrow> string \<Rightarrow> json" where
  "jget m k = (case get m k of None \<Rightarrow> JNull | Some v \<Rightarrow> v)"

lemma jget_put [simp]: "jget (put k v m) k' = (if k' = k then v else jget m k')"
  by (simp add: jget_def)

text \<open>\<^verbatim>\<open>v, _ := m[k].(string)\<close>\<close>

fun jstr :: "json \<Rightarrow> string" where
  "jstr (JStr s) = s"
| "jstr _ = []"

definition jget_str :: "jmap \<Rightarrow> string \<Rightarrow> string" where
  "jget_str m k = jstr (jget m k)"

text \<open>\<^verbatim>\<open>_, ok := m[k]\<close>\<close>

definition jhas :: "jmap \<Rightarrow> string \<Rightarrow> bool" where
  "jhas m k = (get m k \<noteq> None)"

definition jstrings :: "string list \<Rightarrow> json" where
  "jstrings xs = JOther (JArr (map JStr xs))"

text \<open>\<^verbatim>\<open>int(f)\<close> of a \<^verbatim>\<open>float64\<close> truncates towards zero.\<close>

definition trunc_rat :: "rat \<Rightarrow> int" where
  "trunc_rat r = (if 0 \<le> r then \<lfloor>r\<rfloor> else - \<lfloor>- r\<rfloor>)"

lemma trunc_rat_of_int [simp]: "trunc_rat (of_int i) = i"
  by (simp add: trunc_rat_def)

end
