(* ===== verification/Llm.thy ===== *)
theory Llm
  imports JsonVal Config
begin

text \<open>
  \<^verbatim>\<open>internal/llm\<close>: messages, the chat-completions client and the router of side tasks. The network
  is the parameter \<open>net\<close>: from the requests sent so far and the next one it gives a transport error
  or a status and the decoded body; the state is the log of requests.
\<close>

section \<open>Messages and tools\<close>

record ToolFunctionDefinition =
  fd_Name :: string
  fd_Description :: string
  fd_Parameters :: jmap

record ToolDefinition =
  td_Type :: string
  td_Function :: ToolFunctionDefinition

record ToolFunctionCall =
  fc_Name :: string
  fc_Arguments :: string

record ToolCall =
  tc_ID :: string
  tc_Type :: string
  tc_Function :: ToolFunctionCall

record LMessage =
  lm_Role :: string
  lm_Content :: string
  lm_Name :: string
  lm_ToolCallID :: string
  lm_ToolCalls :: "ToolCall list"

definition NewMessage :: "string \<Rightarrow> string \<Rightarrow> LMessage" where
  "NewMessage role content = \<lparr>lm_Role = role, lm_Content = content, lm_Name = [], lm_ToolCallID = [], lm_ToolCalls = []\<rparr>"

record chatRequest =
  rq_Model :: string
  rq_Messages :: "LMessage list"
  rq_Tools :: "ToolDefinition list"
  rq_ToolChoice :: string

record ChatCompletion =
  cc_Message :: LMessage
  cc_FinishReason :: string

section \<open>The content of an answer\<close>

text \<open>\<^verbatim>\<open>encoding/json\<close> matches field names without regard to case; of several the last counts.\<close>

definition field :: "string \<Rightarrow> (string \<times> json) list \<Rightarrow> json" where
  "field name m = (case filter (\<lambda>p. to_lower (fst p) = name) (rev m) of [] \<Rightarrow> JNull | p # _ \<Rightarrow> snd p)"

fun part_text :: "json \<Rightarrow> string option" where
  "part_text JNull = Some []"
| "part_text (JObj m) = (case field ''text'' m of JNull \<Rightarrow> Some [] | JStr s \<Rightarrow> Some s | _ \<Rightarrow> None)"
| "part_text _ = None"

fun parts_text :: "json list \<Rightarrow> string option" where
  "parts_text [] = Some []"
| "parts_text (j # js) =
     (case part_text j of None \<Rightarrow> None
      | Some s \<Rightarrow> (case parts_text js of None \<Rightarrow> None | Some r \<Rightarrow> Some (s @ r)))"

fun raw_content :: "json \<Rightarrow> string + string" where
  "raw_content JNull = Inr []"
| "raw_content (JStr s) = Inr s"
| "raw_content (JArr js) =
     (case parts_text js of Some s \<Rightarrow> Inr s | None \<Rightarrow> Inl ''unsupported message content format'')"
| "raw_content _ = Inl ''unsupported message content format''"

record raw_choice =
  ch_Role :: string
  ch_Content :: json
  ch_ToolCalls :: "ToolCall list"
  ch_FinishReason :: string

section \<open>The client\<close>

record http_request =
  hr_URL :: string
  hr_Authorization :: "string option"
  hr_Body :: chatRequest

record http_response =
  hs_Code :: int
  hs_Status :: string
  hs_Body :: "string + raw_choice list"

type_synonym net_fun = "http_request list \<Rightarrow> http_request \<Rightarrow> string + http_response"
type_synonym 'a llm_result = "(string, 'a, http_request list) outcome"

definition trim_right_slashes :: "string \<Rightarrow> string" where
  "trim_right_slashes s = rev (dropWhile (\<lambda>c. c = CHR ''/'') (rev s))"

definition keeps_message :: "LMessage \<Rightarrow> bool" where
  "keeps_message m =
     (trim_space (lm_Role m) \<noteq> []
      \<and> \<not> (trim_space (lm_Content m) = [] \<and> lm_ToolCalls m = [] \<and> lm_Role m \<noteq> ''tool''))"

definition request_messages :: "string list \<Rightarrow> LMessage list \<Rightarrow> string \<Rightarrow> LMessage list" where
  "request_messages systemBlocks history prompt =
     [NewMessage ''system'' ''You are a secure, concise assistant.'']
     @ map (NewMessage ''system'') (filter (\<lambda>b. b \<noteq> []) (map trim_space systemBlocks))
     @ filter keeps_message history
     @ (if trim_space prompt \<noteq> [] then [NewMessage ''user'' prompt] else [])"

definition chat_request :: "LLMConfig \<Rightarrow> string list \<Rightarrow> LMessage list \<Rightarrow> string \<Rightarrow> ToolDefinition list \<Rightarrow> http_request" where
  "chat_request cfg systemBlocks history prompt toolDefs =
     (let key = trim_space (llm_APIKey cfg)
      in \<lparr>hr_URL = trim_right_slashes (llm_BaseURL cfg) @ ''/chat/completions'',
          hr_Authorization = (if key \<noteq> [] then Some (''Bearer '' @ key) else None),
          hr_Body = \<lparr>rq_Model = llm_Model cfg, rq_Messages = request_messages systemBlocks history prompt,
            rq_Tools = toolDefs, rq_ToolChoice = (if toolDefs \<noteq> [] then ''auto'' else [])\<rparr>\<rparr>)"

fun completion_of :: "raw_choice list \<Rightarrow> string + ChatCompletion" where
  "completion_of [] = Inl ''empty llm response''"
| "completion_of (c # cs) =
     (case raw_content (ch_Content c) of
        Inl e \<Rightarrow> Inl e
      | Inr content \<Rightarrow>
          Inr \<lparr>cc_Message = \<lparr>lm_Role = ch_Role c, lm_Content = trim_space content, lm_Name = [],
                 lm_ToolCallID = [], lm_ToolCalls = ch_ToolCalls c\<rparr>,
               cc_FinishReason = ch_FinishReason c\<rparr>)"

text \<open>Every choice of the body is decoded, so the content of a later choice can fail the call.\<close>

definition decode_choices :: "raw_choice list \<Rightarrow> string + ChatCompletion" where
  "decode_choices cs =
     (case first_error (\<lambda>c. case raw_content (ch_Content c) of Inl e \<Rightarrow> Some e | Inr _ \<Rightarrow> None) cs of
        Some e \<Rightarrow> Inl e | None \<Rightarrow> completion_of cs)"

definition do_chat_completion :: "net_fun \<Rightarrow> LLMConfig \<Rightarrow> string list \<Rightarrow> LMessage list \<Rightarrow> string \<Rightarrow> ToolDefinition list \<Rightarrow> http_request list \<Rightarrow> ChatCompletion llm_result" where
  "do_chat_completion net cfg systemBlocks history prompt toolDefs sent =
     (let rq = chat_request cfg systemBlocks history prompt toolDefs
      in (case net sent rq of
            Inl e \<Rightarrow> Inl e
          | Inr rs \<Rightarrow>
              if 300 \<le> hs_Code rs then Inl (''llm request failed with status '' @ hs_Status rs)
              else (case hs_Body rs of Inl e \<Rightarrow> Inl e | Inr cs \<Rightarrow> decode_choices cs),
          sent @ [rq]))"

definition ChatWithMessages :: "net_fun \<Rightarrow> LLMConfig \<Rightarrow> string list \<Rightarrow> LMessage list \<Rightarrow> string \<Rightarrow> http_request list \<Rightarrow> string llm_result" where
  "ChatWithMessages net cfg systemBlocks history prompt sent =
     (case do_chat_completion net cfg systemBlocks history prompt [] sent of
        (Inl e, sent') \<Rightarrow> (Inl e, sent')
      | (Inr c, sent') \<Rightarrow> (Inr (lm_Content (cc_Message c)), sent'))"

definition ChatWithContext :: "net_fun \<Rightarrow> LLMConfig \<Rightarrow> string list \<Rightarrow> string \<Rightarrow> http_request list \<Rightarrow> string llm_result" where
  "ChatWithContext net cfg systemBlocks prompt = ChatWithMessages net cfg systemBlocks [] prompt"

definition Chat :: "net_fun \<Rightarrow> LLMConfig \<Rightarrow> string \<Rightarrow> http_request list \<Rightarrow> string llm_result" where
  "Chat net cfg prompt = ChatWithContext net cfg [] prompt"

section \<open>Side tasks\<close>

record AuxiliaryResolution =
  ar_Task :: string
  ar_Profile :: string
  ar_Source :: string
  ar_Config :: LLMConfig

definition aux_selection :: "AuxiliaryConfig \<Rightarrow> string \<Rightarrow> string \<times> string" where
  "aux_selection a task =
     (let t = to_lower (trim_space task)
      in if t = ''summary'' \<and> trim_space (aux_SummaryProfile a) \<noteq> []
         then (trim_space (aux_SummaryProfile a), ''auxiliary.summary_profile'')
         else if t = ''compression'' \<and> trim_space (aux_CompressionProfile a) \<noteq> []
         then (trim_space (aux_CompressionProfile a), ''auxiliary.compression_profile'')
         else (trim_space (aux_Profile a), ''auxiliary.profile''))"

definition ResolveAux :: "Config \<Rightarrow> string \<Rightarrow> string + AuxiliaryResolution" where
  "ResolveAux c task =
     (let main = \<lparr>ar_Task = task, ar_Profile = cfg_CurrentModelProfile c, ar_Source = ''main'', ar_Config = ResolvedLLM c\<rparr>
      in if \<not> aux_Enabled (cfg_Auxiliary c) then Inr main
         else (case aux_selection (cfg_Auxiliary c) task of
                 (selected, source) \<Rightarrow>
                   if selected = [] then Inr main
                   else (case get (cfg_ModelProfiles c) selected of
                           None \<Rightarrow> Inl (''auxiliary profile '' @ go_quote selected @ '' is not defined'')
                         | Some p \<Rightarrow> Inr \<lparr>ar_Task = task, ar_Profile = selected, ar_Source = source, ar_Config = p\<rparr>)))"

definition AuxChat :: "net_fun \<Rightarrow> Config \<Rightarrow> string \<Rightarrow> string list \<Rightarrow> string \<Rightarrow> http_request list \<Rightarrow> (string \<times> AuxiliaryResolution) llm_result" where
  "AuxChat net c task systemBlocks prompt sent =
     (case ResolveAux c task of
        Inl e \<Rightarrow> (Inl e, sent)
      | Inr r \<Rightarrow>
          (case ChatWithContext net (ar_Config r) systemBlocks prompt sent of
             (Inl e, sent') \<Rightarrow> (Inl e, sent')
           | (Inr s, sent') \<Rightarrow> (Inr (s, r), sent')))"

end
