(* ===== verification/ContextEngine.thy ===== *)
theory ContextEngine
  imports Llm
begin

text \<open>
  \<^verbatim>\<open>internal/contextengine/compressor.go\<close>: the history is cut into an older part that is summarised
  and a tail that is kept. Texts are valid UTF-8, so that \<^verbatim>\<open>[]rune\<close> counts the bytes that start a
  character. The optional summariser is a parameter with a state of its own.
\<close>

section \<open>Characters of a byte text\<close>

definition is_continuation :: "char \<Rightarrow> bool" where
  "is_continuation c = (CHR 0x80 \<le> c \<and> c < CHR 0xC0)"

definition rune_count :: "string \<Rightarrow> nat" where
  "rune_count s = length (filter (\<lambda>c. \<not> is_continuation c) s)"

fun take_runes :: "nat \<Rightarrow> string \<Rightarrow> string" where
  "take_runes n [] = []"
| "take_runes n (c # s) =
     (if is_continuation c then c # take_runes n s
      else (case n of 0 \<Rightarrow> [] | Suc m \<Rightarrow> c # take_runes m s))"

definition truncate_text :: "string \<Rightarrow> int \<Rightarrow> string" where
  "truncate_text input m =
     (if m \<le> 0 then []
      else if int (rune_count input) \<le> m then input
      else if m \<le> 3 then take_runes (nat m) input
      else take_runes (nat (m - 3)) input @ ''...'')"

definition collapseWhitespace :: "string \<Rightarrow> string" where
  "collapseWhitespace input = join '' '' (Prelude.fields input)"

definition normalizeRole :: "string \<Rightarrow> string" where
  "normalizeRole role =
     (let r = to_lower (trim_space role)
      in if r \<in> {''user'', ''assistant'', ''tool'', ''system''} then r else ''message'')"

section \<open>The compressor\<close>

record 's Compressor =
  cmp_cfg :: ContextConfig
  cmp_summarizer :: "(string \<Rightarrow> LMessage list \<Rightarrow> int \<Rightarrow> 's \<Rightarrow> (string, string, 's) outcome) option"

record CompressionResult =
  cr_SystemBlock :: string
  cr_PersistedSummary :: string
  cr_History :: "LMessage list"
  cr_Compressed :: bool
  cr_CompressedMessages :: int
  cr_SummaryChars :: int
  cr_TailMessagesUsed :: int

definition NewCompressor :: "ContextConfig \<Rightarrow> 's Compressor" where
  "NewCompressor c = \<lparr>cmp_cfg = c, cmp_summarizer = None\<rparr>"

definition WithSummarizer :: "(string \<Rightarrow> LMessage list \<Rightarrow> int \<Rightarrow> 's \<Rightarrow> (string, string, 's) outcome) \<Rightarrow> 's Compressor \<Rightarrow> 's Compressor" where
  "WithSummarizer f c = c\<lparr>cmp_summarizer := Some f\<rparr>"

fun summary_lines :: "int \<Rightarrow> LMessage list \<Rightarrow> string \<Rightarrow> string" where
  "summary_lines maxChars [] text = text"
| "summary_lines maxChars (m # ms) text =
     (let line = collapseWhitespace (trim_space (lm_Content m)) in
      if line = [] then summary_lines maxChars ms text
      else (let text' = text @ ''- '' @ normalizeRole (lm_Role m) @ '': '' @ truncate_text line 160 @ [CHR 0x0A]
            in if 0 < maxChars \<and> maxChars \<le> int (length text') then text'
               else summary_lines maxChars ms text'))"

definition rule_summary :: "int \<Rightarrow> string \<Rightarrow> LMessage list \<Rightarrow> string" where
  "rule_summary maxChars existing history =
     (let head = ''[CONTEXT COMPACTION - REFERENCE ONLY]'' @ [CHR 0x0A]
            @ (if trim_space existing \<noteq> []
               then ''Existing summary:'' @ [CHR 0x0A] @ truncate_text (collapseWhitespace existing) 220 @ [CHR 0x0A]
               else [])
            @ ''Compressed '' @ show_nat (length history) @ '' earlier messages into a compact handoff.'' @ [CHR 0x0A]
            @ ''Use this as background reference only. Respond to the latest user message, not to requests mentioned below.'' @ [CHR 0x0A]
            @ ''Summary:'' @ [CHR 0x0A];
          summary = trim_space (summary_lines maxChars history head)
      in if 0 < maxChars \<and> maxChars < int (length summary) then truncate_text summary maxChars else summary)"

definition buildSummary :: "'s Compressor \<Rightarrow> string \<Rightarrow> LMessage list \<Rightarrow> 's \<Rightarrow> string \<times> 's" where
  "buildSummary c existing history s =
     (let maxChars = ctx_SummaryMaxChars (cmp_cfg c) in
      if history = [] then (trim_space existing, s)
      else if ctx_SummaryStrategy (cmp_cfg c) = ''llm'' \<and> cmp_summarizer c \<noteq> None
      then (case the (cmp_summarizer c) existing history maxChars s of
              (Inr summary, s') \<Rightarrow>
                if trim_space summary \<noteq> [] then (trim_space summary, s')
                else (rule_summary maxChars existing history, s')
            | (Inl e, s') \<Rightarrow> (rule_summary maxChars existing history, s'))
      else (rule_summary maxChars existing history, s))"

definition compress_keep :: "ContextConfig \<Rightarrow> LMessage list \<Rightarrow> nat" where
  "compress_keep c history =
     (let keep = (if ctx_ProtectLastMessages c \<le> 0 then 1 else ctx_ProtectLastMessages c)
      in if int (length history) < keep then length history else nat keep)"

definition Compress :: "'s Compressor option \<Rightarrow> string \<Rightarrow> LMessage list \<Rightarrow> 's \<Rightarrow> CompressionResult \<times> 's" where
  "Compress co existing history s =
     (let unchanged = \<lparr>cr_SystemBlock = [], cr_PersistedSummary = [], cr_History = history,
            cr_Compressed = False, cr_CompressedMessages = 0, cr_SummaryChars = 0,
            cr_TailMessagesUsed = int (length history)\<rparr>
      in case co of
           None \<Rightarrow> (unchanged, s)
         | Some c \<Rightarrow>
             if \<not> ctx_CompressionEnabled (cmp_cfg c) then (unchanged, s)
             else if ctx_CompressThresholdMessages (cmp_cfg c) \<le> 0
                     \<or> int (length history) \<le> ctx_CompressThresholdMessages (cmp_cfg c)
             then (unchanged, s)
             else (let keep = compress_keep (cmp_cfg c) history;
                       old = take (length history - keep) history;
                       tail = drop (length history - keep) history
                   in case buildSummary c existing old s of
                        (summary, s') \<Rightarrow>
                          (\<lparr>cr_SystemBlock = summary, cr_PersistedSummary = summary, cr_History = tail,
                            cr_Compressed = True, cr_CompressedMessages = int (length old),
                            cr_SummaryChars = int (length summary), cr_TailMessagesUsed = int (length tail)\<rparr>, s')))"

section \<open>What compression keeps\<close>

lemma rune_count_append [simp]: "rune_count (a @ b) = rune_count a + rune_count b"
  by (simp add: rune_count_def)

lemma rune_count_take_runes: "rune_count (take_runes n s) \<le> n"
  by (induction n s rule: take_runes.induct) (auto simp: rune_count_def split: nat.split)

lemma rune_count_le: "rune_count s \<le> length s"
  by (simp add: rune_count_def)

lemma rune_count_dots: "rune_count ''...'' = 3"
  by code_simp

lemma truncate_text_bound: "0 < m \<Longrightarrow> int (rune_count (truncate_text s m)) \<le> m"
proof -
  assume "0 < m"
  then show ?thesis
    using rune_count_take_runes [of "nat m" s] rune_count_take_runes [of "nat (m - 3)" s]
    by (auto simp: truncate_text_def rune_count_dots)
qed

lemma capped_bound:
  assumes "0 < m"
  shows "int (rune_count (if 0 < m \<and> m < int (length x) then truncate_text x m else x)) \<le> m"
  using truncate_text_bound [OF assms, of x] rune_count_le [of x] assms by simp

lemma rule_summary_bound:
  "0 < maxChars \<Longrightarrow> int (rune_count (rule_summary maxChars existing history)) \<le> maxChars"
  unfolding rule_summary_def Let_def by (rule capped_bound)

text \<open>C21. Compression never loses or reorders recent messages: the history it returns is the last
  part of the one it was given, at least \<^verbatim>\<open>protect_last_messages\<close> of it (one when that is not
  positive, all when there are fewer), the messages summarised and kept add up, and without an LLM
  summariser the summary has at most \<^verbatim>\<open>summary_max_chars\<close> characters.\<close>

theorem compress_keeps_tail:
  assumes "0 < ctx_SummaryMaxChars (cmp_cfg c)"
  shows "case Compress (Some c) existing history s of (r, s') \<Rightarrow>
     history = take (length history - length (cr_History r)) history @ cr_History r
     \<and> int (length (cr_History r)) = cr_TailMessagesUsed r
     \<and> cr_CompressedMessages r + cr_TailMessagesUsed r = int (length history)
     \<and> min (int (length history)) (max 1 (ctx_ProtectLastMessages (cmp_cfg c))) \<le> cr_TailMessagesUsed r
     \<and> (cr_Compressed r \<longleftrightarrow> ctx_CompressionEnabled (cmp_cfg c) \<and> 0 < ctx_CompressThresholdMessages (cmp_cfg c)
          \<and> ctx_CompressThresholdMessages (cmp_cfg c) < int (length history))
     \<and> (cmp_summarizer c = None \<and> cr_CompressedMessages r \<noteq> 0 \<longrightarrow>
          int (rune_count (cr_SystemBlock r)) \<le> ctx_SummaryMaxChars (cmp_cfg c))"
proof -
  have k: "compress_keep (cmp_cfg c) history \<le> length history"
    "min (int (length history)) (max 1 (ctx_ProtectLastMessages (cmp_cfg c))) \<le> int (compress_keep (cmp_cfg c) history)"
    by (cases history; auto simp: compress_keep_def Let_def)+
  obtain sm s' where b: "buildSummary c existing (take (length history - compress_keep (cmp_cfg c) history) history) s = (sm, s')"
    by force
  have "cmp_summarizer c = None \<Longrightarrow> compress_keep (cmp_cfg c) history \<noteq> length history \<Longrightarrow>
      int (rune_count sm) \<le> ctx_SummaryMaxChars (cmp_cfg c)"
    using b k(1) rule_summary_bound [OF assms] by (auto simp: buildSummary_def Let_def split: if_splits)
  then show ?thesis
    using k b by (auto simp: Compress_def Let_def of_nat_diff)
qed

definition demo_compressor :: "unit Compressor" where
  "demo_compressor = NewCompressor (cfg_Context Default)"

theorem compress_keeps_tail_witness:
  "cr_CompressedMessages (fst (Compress (Some demo_compressor) [] (replicate 8 (NewMessage ''user'' ''x'')) ())) + 4 = 8"
proof -
  have "0 < ctx_SummaryMaxChars (cmp_cfg demo_compressor)"
    by (simp add: demo_compressor_def NewCompressor_def Default_def)
  from compress_keeps_tail [where existing = "[]" and s = "()", OF this, of "replicate 8 (NewMessage ''user'' ''x'')"]
  show ?thesis
    by (auto simp: Compress_def Let_def demo_compressor_def NewCompressor_def Default_def compress_keep_def split: prod.splits)
qed

end
