(* ===== verification/Execution.thy ===== *)
theory Execution
  imports Config
begin

text \<open>
  \<^verbatim>\<open>internal/execution\<close>: the executor of allow-listed commands and its profiles. The operating
  system is the parameter \<open>os\<close>: given the processes started so far, a command and its arguments it
  answers whether the deadline passed, what was written and the error of the wait. The state is the
  log of the processes started, oldest first.
\<close>

section \<open>Types\<close>

record Executor =
  ex_enabled :: bool
  ex_timeout :: int
  ex_allowed :: "string list"
  ex_maxArgs :: int
  ex_maxArgLength :: int
  ex_maxOutputBytes :: int
  ex_rules :: "(string, CommandRule) gomap"
  ex_profiles :: "(string, ExecutionProfile) gomap"

record StepResult =
  sr_Name :: string
  sr_Command :: string
  sr_Output :: string
  sr_Error :: string

record ProfileRunResult =
  pr_Profile :: string
  pr_Approved :: bool
  pr_CapabilityScoped :: bool
  pr_Steps :: "StepResult list"
  pr_Rollback :: "StepResult list"

record Policy =
  pol_Enabled :: bool
  pol_Reason :: string

type_synonym spawn = "string \<times> string list"

record proc =
  proc_deadline :: bool
  proc_output :: string
  proc_error :: "string option"

type_synonym os_fun = "spawn list \<Rightarrow> string \<Rightarrow> string list \<Rightarrow> proc"
type_synonym 'a exec_result = "(string, 'a, spawn list) outcome"

definition DefaultPolicy :: Policy where
  "DefaultPolicy = \<lparr>pol_Enabled = False, pol_Reason =
     ''high-risk dynamic execution is disabled by default pending sandboxing and manual review''\<rparr>"

definition Check :: "Policy \<Rightarrow> string option" where
  "Check p = (if pol_Enabled p then None else Some (pol_Reason p))"

definition NewExecutor :: "ExecutionConfig \<Rightarrow> Executor" where
  "NewExecutor c =
     \<lparr>ex_enabled = exe_Enabled c, ex_timeout = wrap64 (exe_TimeoutSeconds c * nanos_per_second),
      ex_allowed = filter (\<lambda>s. s \<noteq> []) (map trim_space (exe_AllowedCommands c)),
      ex_maxArgs = exe_MaxArgs c, ex_maxArgLength = exe_MaxArgLength c,
      ex_maxOutputBytes = exe_MaxOutputBytes c, ex_rules = exe_CommandRules c,
      ex_profiles = exe_Profiles c\<rparr>"

section \<open>One command\<close>

record limits =
  lim_args :: int
  lim_length :: int
  lim_output :: int
  lim_prefixes :: "string list"
  lim_denied :: "string list"

text \<open>The limits of a command: the executor's, each replaced by the command's rule when that is
  positive.\<close>

definition command_limits :: "Executor \<Rightarrow> string \<Rightarrow> limits" where
  "command_limits e command =
     (case get (ex_rules e) command of
        None \<Rightarrow> \<lparr>lim_args = ex_maxArgs e, lim_length = ex_maxArgLength e,
                 lim_output = ex_maxOutputBytes e, lim_prefixes = [], lim_denied = []\<rparr>
      | Some r \<Rightarrow>
          \<lparr>lim_args = (if 0 < rule_MaxArgs r then rule_MaxArgs r else ex_maxArgs e),
           lim_length = (if 0 < rule_MaxArgLength r then rule_MaxArgLength r else ex_maxArgLength e),
           lim_output = (if 0 < rule_MaxOutputBytes r then rule_MaxOutputBytes r else ex_maxOutputBytes e),
           lim_prefixes = rule_AllowedArgPrefixes r, lim_denied = rule_DeniedSubstrings r\<rparr>)"

definition shell_metachars :: string where
  "shell_metachars = [CHR 0x0A, CHR 0x0D, CHR '';'', CHR ''&'', CHR ''|'', CHR 0x60, CHR ''$'', CHR ''>'', CHR ''<'']"

definition check_arg :: "limits \<Rightarrow> string \<Rightarrow> string option" where
  "check_arg l arg =
     (if lim_length l < int (length arg) then Some ''arg too long''
      else if contains_any arg shell_metachars then Some ''arg contains forbidden shell metacharacters''
      else if list_ex (\<lambda>denied. denied \<noteq> [] \<and> contains denied arg) (lim_denied l)
      then Some ''arg contains denied substring''
      else if lim_prefixes l \<noteq> [] \<and> has_prefix ''-'' arg \<and> \<not> list_ex (\<lambda>p. has_prefix p arg) (lim_prefixes l)
      then Some ''arg prefix is not allowed''
      else None)"

definition check_command :: "Executor \<Rightarrow> string \<Rightarrow> string list \<Rightarrow> string option" where
  "check_command e command args =
     (if command \<notin> set (ex_allowed e)
      then Some (''command '' @ go_quote command @ '' is not in the allowlist'')
      else if lim_args (command_limits e command) < int (length args)
      then Some (''too many args: '' @ show_nat (length args) @ '' > ''
                 @ show_int (lim_args (command_limits e command)))
      else first_error (check_arg (command_limits e command)) args)"

definition executeValidated :: "os_fun \<Rightarrow> Executor \<Rightarrow> string \<Rightarrow> string list \<Rightarrow> spawn list \<Rightarrow> string exec_result" where
  "executeValidated os e command args log =
     (case check_command e command args of
        Some err \<Rightarrow> (Inl err, log)
      | None \<Rightarrow>
          (let p = os log command args;
               log' = log @ [(command, args)];
               out = proc_output p
           in if proc_deadline p then (Inl ''command timed out'', log')
              else (case proc_error p of
                      Some err \<Rightarrow> (Inl (''command failed: '' @ err @ '': '' @ trim_space out), log')
                    | None \<Rightarrow>
                        (Inr (trim_space (if lim_output (command_limits e command) < int (length out)
                                          then take (nat (lim_output (command_limits e command))) out
                                          else out)), log'))))"

definition Execute :: "os_fun \<Rightarrow> Executor \<Rightarrow> string \<Rightarrow> string list \<Rightarrow> spawn list \<Rightarrow> string exec_result" where
  "Execute os e command args log =
     (if \<not> ex_enabled e then (Inl ''dynamic execution is disabled'', log)
      else executeValidated os e command args log)"

section \<open>Profiles\<close>

fun renderExecutionArgs :: "string list \<Rightarrow> (string, string) gomap \<Rightarrow> string + string list" where
  "renderExecutionArgs [] vars = Inr []"
| "renderExecutionArgs (t # ts) vars =
     (case placeholder (trim_space t) of
        Some name \<Rightarrow>
          (let v = trim_space (get_str vars name)
           in if v = [] then Inl (''missing profile variable '' @ go_quote name)
              else (case renderExecutionArgs ts vars of Inl e \<Rightarrow> Inl e | Inr as \<Rightarrow> Inr (v # as)))
      | None \<Rightarrow> (case renderExecutionArgs ts vars of Inl e \<Rightarrow> Inl e | Inr as \<Rightarrow> Inr (t # as)))"

definition step_result :: "string \<Rightarrow> nat \<Rightarrow> ExecutionStep \<Rightarrow> string + string \<Rightarrow> StepResult" where
  "step_result label index s r =
     \<lparr>sr_Name = firstNonEmpty [step_Name s, label @ show_nat (index + 1)], sr_Command = step_Command s,
      sr_Output = (case r of Inl _ \<Rightarrow> [] | Inr out \<Rightarrow> out),
      sr_Error = (case r of Inl e \<Rightarrow> e | Inr _ \<Rightarrow> [])\<rparr>"

text \<open>Rollback: the results so far and the error that stopped it, if one did.\<close>

fun rollback_steps :: "os_fun \<Rightarrow> Executor \<Rightarrow> (string, string) gomap \<Rightarrow> nat \<Rightarrow> ExecutionStep list \<Rightarrow> spawn list \<Rightarrow> (StepResult list \<times> string option) \<times> spawn list" where
  "rollback_steps os e vars i [] log = (([], None), log)"
| "rollback_steps os e vars i (s # ss) log =
     (case renderExecutionArgs (step_ArgsTemplate s) vars of
        Inl err \<Rightarrow> (([], Some err), log)
      | Inr args \<Rightarrow>
          (case executeValidated os e (step_Command s) args log of
             (Inl err, log') \<Rightarrow> (([step_result ''rollback-'' i s (Inl err)], Some err), log')
           | (Inr out, log') \<Rightarrow>
               (case rollback_steps os e vars (i + 1) ss log' of
                  ((rs, err), log'') \<Rightarrow> ((step_result ''rollback-'' i s (Inr out) # rs, err), log''))))"

definition executeRollbackProfile :: "os_fun \<Rightarrow> Executor \<Rightarrow> string \<Rightarrow> (string, string) gomap \<Rightarrow> spawn list \<Rightarrow> (StepResult list \<times> string option) \<times> spawn list" where
  "executeRollbackProfile os e name vars log =
     (case get (ex_profiles e) (trim_space name) of
        None \<Rightarrow> (([], Some (''rollback profile '' @ go_quote name @ '' is not defined'')), log)
      | Some p \<Rightarrow> rollback_steps os e vars 0 (prof_Steps p) log)"

text \<open>The loop over a profile's steps, with the result built so far.\<close>

fun profile_steps :: "os_fun \<Rightarrow> Executor \<Rightarrow> string \<Rightarrow> ExecutionProfile \<Rightarrow> (string, string) gomap \<Rightarrow> nat \<Rightarrow> ExecutionStep list \<Rightarrow> ProfileRunResult \<Rightarrow> spawn list \<Rightarrow> (ProfileRunResult \<times> string option) \<times> spawn list" where
  "profile_steps os e name p vars i [] res log = ((res, None), log)"
| "profile_steps os e name p vars i (s # ss) res log =
     (case renderExecutionArgs (step_ArgsTemplate s) vars of
        Inl err \<Rightarrow> ((res, Some (''profile '' @ name @ '' step '' @ show_nat i @ '': '' @ err)), log)
      | Inr args \<Rightarrow>
          (case executeValidated os e (step_Command s) args log of
             (Inr out, log1) \<Rightarrow>
               profile_steps os e name p vars (i + 1) ss
                 (res\<lparr>pr_Steps := pr_Steps res @ [step_result ''step-'' i s (Inr out)]\<rparr>) log1
           | (Inl err, log1) \<Rightarrow>
               (let res1 = res\<lparr>pr_Steps := pr_Steps res @ [step_result ''step-'' i s (Inl err)]\<rparr>;
                    (res2, log2) =
                      (if prof_RollbackProfile p \<noteq> []
                       then (case executeRollbackProfile os e (prof_RollbackProfile p) vars log1 of
                               ((rb, _), l) \<Rightarrow> (res1\<lparr>pr_Rollback := rb\<rparr>, l))
                       else (res1, log1))
                in if \<not> prof_ContinueOnError p then ((res2, Some err), log2)
                   else profile_steps os e name p vars (i + 1) ss res2 log2)))"

definition no_run :: ProfileRunResult where
  "no_run = \<lparr>pr_Profile = [], pr_Approved = False, pr_CapabilityScoped = False, pr_Steps = [], pr_Rollback = []\<rparr>"

definition ExecuteProfile :: "os_fun \<Rightarrow> Executor \<Rightarrow> string \<Rightarrow> (string, string) gomap \<Rightarrow> bool \<Rightarrow> string \<Rightarrow> spawn list \<Rightarrow> (ProfileRunResult \<times> string option) \<times> spawn list" where
  "ExecuteProfile os e name vars approved token log =
     (if \<not> ex_enabled e then ((no_run, Some ''dynamic execution is disabled''), log)
      else (case get (ex_profiles e) (trim_space name) of
              None \<Rightarrow> ((no_run, Some (''execution profile '' @ go_quote name @ '' is not defined'')), log)
            | Some p \<Rightarrow>
                if prof_RequireApproval p \<and> \<not> approved
                then ((no_run, Some (''execution profile '' @ go_quote name @ '' requires approval'')), log)
                else if trim_space (prof_CapabilityToken p) \<noteq> [] \<and> trim_space (prof_CapabilityToken p) \<noteq> trim_space token
                then ((no_run, Some (''execution profile '' @ go_quote name @ '' requires a valid capability token'')), log)
                else profile_steps os e name p vars 0 (prof_Steps p)
                       \<lparr>pr_Profile = name, pr_Approved = approved,
                        pr_CapabilityScoped = (trim_space (prof_CapabilityToken p) \<noteq> []),
                        pr_Steps = [], pr_Rollback = []\<rparr> log))"

section \<open>Only checked commands run\<close>

text \<open>What a started process satisfies, said without the code's order of checks.\<close>

definition arg_ok :: "limits \<Rightarrow> string \<Rightarrow> bool" where
  "arg_ok l a \<longleftrightarrow> int (length a) \<le> lim_length l \<and> set a \<inter> set shell_metachars = {}
     \<and> (\<forall>d\<in>set (lim_denied l). d \<noteq> [] \<longrightarrow> (\<nexists>x y. a = x @ d @ y))
     \<and> (lim_prefixes l \<noteq> [] \<and> (\<exists>t. a = ''-'' @ t) \<longrightarrow> (\<exists>p\<in>set (lim_prefixes l). \<exists>t. a = p @ t))"

definition spawn_ok :: "Executor \<Rightarrow> spawn \<Rightarrow> bool" where
  "spawn_ok e sp \<longleftrightarrow>
     fst sp \<in> set (ex_allowed e)
     \<and> int (length (snd sp)) \<le> lim_args (command_limits e (fst sp))
     \<and> list_all (arg_ok (command_limits e (fst sp))) (snd sp)"

lemma check_arg_None: "check_arg l a = None \<longleftrightarrow> arg_ok l a"
proof -
  define D where "D \<longleftrightarrow> (\<forall>d\<in>set (lim_denied l). d \<noteq> [] \<longrightarrow> (\<nexists>x y. a = x @ d @ y))"
  define P where "P \<longleftrightarrow> (\<exists>p\<in>set (lim_prefixes l). \<exists>t. a = p @ t)"
  have d: "list_ex (\<lambda>d. d \<noteq> [] \<and> contains d a) (lim_denied l) \<longleftrightarrow> \<not> D"
    by (auto simp only: list_ex_iff contains_iff D_def)
  have p: "list_ex (\<lambda>p. has_prefix p a) (lim_prefixes l) \<longleftrightarrow> P"
    by (simp only: list_ex_iff has_prefix_iff P_def)
  show ?thesis
    unfolding check_arg_def arg_ok_def contains_any_iff d p has_prefix_iff [of "''-''"] D_def [symmetric] P_def [symmetric]
    by (simp only: check_None not_less not_not) argo
qed

lemma check_command_None: "check_command e c args = None \<longleftrightarrow> spawn_ok e (c, args)"
  by (simp add: check_command_def spawn_ok_def first_error_None check_arg_None list_all_iff not_less)

definition safe_growth :: "Executor \<Rightarrow> spawn list \<Rightarrow> spawn list \<Rightarrow> bool" where
  "safe_growth e log log' \<longleftrightarrow> (\<exists>new. log' = log @ new \<and> list_all (spawn_ok e) new)"

lemma safe_growth_refl [simp, intro]: "safe_growth e log log"
  by (simp add: safe_growth_def)

lemma safe_growth_trans [trans]: "safe_growth e a b \<Longrightarrow> safe_growth e b c \<Longrightarrow> safe_growth e a c"
  unfolding safe_growth_def by (metis append.assoc list_all_append)

lemma executeValidated_safe: "safe_growth e log (snd (executeValidated os e c args log))"
  using check_command_None [of e c args]
  by (auto simp: executeValidated_def safe_growth_def Let_def split: option.splits)

lemma rollback_steps_safe: "safe_growth e log (snd (rollback_steps os e vars i ss log))"
proof (induction os e vars i ss log rule: rollback_steps.induct)
  case (2 os e vars i s ss log)
  show ?case
  proof (cases "renderExecutionArgs (step_ArgsTemplate s) vars")
    case (Inr args)
    obtain r log1 where ev: "executeValidated os e (step_Command s) args log = (r, log1)" by force
    then have g1: "safe_growth e log log1"
      using executeValidated_safe [of e log os "step_Command s" args] by simp
    show ?thesis
    proof (cases r)
      case r: (Inr out)
      show ?thesis
        using "2.IH" [OF Inr ev [symmetric] r] g1 Inr ev r
        by (simp add: split_beta) (rule safe_growth_trans)
    qed (use g1 Inr ev in simp)
  qed simp
qed simp

lemma executeRollbackProfile_safe: "safe_growth e log (snd (executeRollbackProfile os e name vars log))"
  by (simp add: executeRollbackProfile_def rollback_steps_safe split: option.split)

lemma profile_steps_safe: "safe_growth e log (snd (profile_steps os e name p vars i ss res log))"
proof (induction os e name p vars i ss res log rule: profile_steps.induct)
  case (2 os e name p vars i s ss res log)
  show ?case
  proof (cases "renderExecutionArgs (step_ArgsTemplate s) vars")
    case (Inr args)
    obtain r log1 where ev: "executeValidated os e (step_Command s) args log = (r, log1)" by force
    then have g1: "safe_growth e log log1"
      using executeValidated_safe [of e log os "step_Command s" args] by simp
    show ?thesis
    proof (cases r)
      case r: (Inr out)
      show ?thesis using "2.IH"(2) [OF Inr ev [symmetric] r] g1 Inr ev r by (auto intro: safe_growth_trans)
    next
      case r: (Inl err)
      let ?res1 = "res\<lparr>pr_Steps := pr_Steps res @ [step_result ''step-'' i s (Inl err)]\<rparr>"
      let ?pair = "if prof_RollbackProfile p \<noteq> []
                       then (case executeRollbackProfile os e (prof_RollbackProfile p) vars log1 of
                               ((rb, _), l) \<Rightarrow> (?res1\<lparr>pr_Rollback := rb\<rparr>, l))
                       else (?res1, log1)"
      obtain res2 log2 where pr: "?pair = (res2, log2)" by force
      have "safe_growth e log1 log2"
        using pr executeRollbackProfile_safe [of e log1 os "prof_RollbackProfile p" vars]
        by (auto split: if_splits prod.splits)
      then have "safe_growth e log log2" by (rule safe_growth_trans [OF g1])
      then show ?thesis
        using "2.IH"(1) [OF Inr ev [symmetric] r refl pr [symmetric] refl] Inr ev r pr
        by (auto simp: Let_def intro: safe_growth_trans)
    qed
  qed simp
qed simp

text \<open>C5. Every process that \<^verbatim>\<open>Execute\<close> or \<^verbatim>\<open>ExecuteProfile\<close> starts, rollbacks included, is an
  allow-listed command within its limits and without shell metacharacters, denied substrings or
  forbidden options; a profile starts one only when execution is enabled, the profile exists, it is
  approved if it must be, and the capability token matches.\<close>

theorem execution_confined:
  "safe_growth e log (snd (Execute os e c args log))
   \<and> safe_growth e log (snd (ExecuteProfile os e name vars approved token log))
   \<and> (\<not> ex_enabled e \<longrightarrow> snd (Execute os e c args log) = log)
   \<and> (snd (ExecuteProfile os e name vars approved token log) \<noteq> log \<longrightarrow>
        ex_enabled e \<and> (\<exists>p. get (ex_profiles e) (trim_space name) = Some p
          \<and> (prof_RequireApproval p \<longrightarrow> approved)
          \<and> (trim_space (prof_CapabilityToken p) \<noteq> [] \<longrightarrow> trim_space token = trim_space (prof_CapabilityToken p))))"
  by (auto simp: Execute_def ExecuteProfile_def executeValidated_safe profile_steps_safe split: option.splits if_splits)

section \<open>What a profile reports\<close>

definition steps_report :: "Executor \<Rightarrow> bool \<Rightarrow> ExecutionStep list \<Rightarrow> StepResult list \<Rightarrow> string option \<Rightarrow> bool" where
  "steps_report e continue ss rs err \<longleftrightarrow>
     map sr_Command rs = map step_Command (take (length rs) ss)
     \<and> (err = None \<longrightarrow> length rs = length ss)
     \<and> (\<not> continue \<longrightarrow> list_all (\<lambda>r. sr_Error r = []) (butlast rs)
           \<and> (err = None \<longrightarrow> list_all (\<lambda>r. sr_Error r = []) rs))
     \<and> list_all (\<lambda>r. int (length (sr_Output r)) \<le> max 0 (lim_output (command_limits e (sr_Command r)))) rs"

lemma executeValidated_output:
  assumes "executeValidated os e c args log = (Inr out, log')"
  shows "int (length out) \<le> max 0 (lim_output (command_limits e c))"
proof -
  let ?m = "lim_output (command_limits e c)"
  let ?x = "proc_output (os log c args)"
  have out: "out = trim_space (if ?m < int (length ?x) then take (nat ?m) ?x else ?x)"
    using assms by (simp add: executeValidated_def Let_def split: option.splits if_split_asm)
  have "length out \<le> length (if ?m < int (length ?x) then take (nat ?m) ?x else ?x)"
    unfolding out by (rule trim_space_length)
  moreover have "int (length (if ?m < int (length ?x) then take (nat ?m) ?x else ?x)) \<le> max 0 ?m"
    by auto
  ultimately show ?thesis by linarith
qed

lemma first_error_Some: "first_error f xs = Some e \<Longrightarrow> \<exists>x\<in>set xs. f x = Some e"
  by (induction xs) (auto split: option.splits)

lemma executeValidated_error:
  assumes "executeValidated os e c args log = (Inl err, log')"
  shows "err \<noteq> []"
proof -
  have "x \<noteq> []" if "check_command e c args = Some x" for x
    using that by (auto simp: check_command_def check_arg_def dest!: first_error_Some split: if_split_asm)
  then show ?thesis
    using assms by (auto simp: executeValidated_def Let_def split: option.splits if_split_asm)
qed

lemma step_result_simps [simp]:
  "sr_Command (step_result l i s r) = step_Command s"
  "sr_Error (step_result l i s (Inr out)) = []" "sr_Error (step_result l i s (Inl err)) = err"
  "sr_Output (step_result l i s (Inr out)) = out" "sr_Output (step_result l i s (Inl err)) = []"
  by (simp_all add: step_result_def)

lemma steps_report_Cons:
  "steps_report e cont ss rs err \<Longrightarrow> sr_Command r = step_Command s \<Longrightarrow> (\<not> cont \<longrightarrow> sr_Error r = []) \<Longrightarrow>
   int (length (sr_Output r)) \<le> max 0 (lim_output (command_limits e (sr_Command r))) \<Longrightarrow>
   steps_report e cont (s # ss) (r # rs) err"
  by (auto simp: steps_report_def)

lemma profile_steps_report:
  "case profile_steps os e name p vars i ss res log of ((r, err), log') \<Rightarrow>
    \<exists>new. pr_Steps r = pr_Steps res @ new \<and> steps_report e (prof_ContinueOnError p) ss new err
      \<and> (pr_Rollback r = pr_Rollback res \<or> list_ex (\<lambda>s. sr_Error s \<noteq> []) new)"
proof (induction os e name p vars i ss res log rule: profile_steps.induct)
  case (1 os e name p vars i res log)
  then show ?case by (simp add: steps_report_def)
next
  case (2 os e name p vars i s ss res log)
  show ?case
  proof (cases "renderExecutionArgs (step_ArgsTemplate s) vars")
    case (Inl err)
    then show ?thesis by (simp add: steps_report_def)
  next
    case (Inr args)
    obtain r log1 where ev: "executeValidated os e (step_Command s) args log = (r, log1)" by force
    show ?thesis
    proof (cases r)
      case r: (Inr out)
      let ?st = "step_result ''step-'' i s (Inr out)"
      obtain r' err log' where t: "profile_steps os e name p vars (i + 1) ss
          (res\<lparr>pr_Steps := pr_Steps res @ [?st]\<rparr>) log1 = ((r', err), log')" by (metis prod.collapse)
      obtain new where "pr_Steps r' = pr_Steps res @ ?st # new" "steps_report e (prof_ContinueOnError p) ss new err"
        "pr_Rollback r' = pr_Rollback res \<or> list_ex (\<lambda>s. sr_Error s \<noteq> []) new"
        using "2.IH"(2) [OF Inr ev [symmetric] r] t by auto
      moreover have "steps_report e (prof_ContinueOnError p) (s # ss) (?st # new) err"
        using calculation(2) executeValidated_output [of os e "step_Command s" args log out log1] ev r
        by (intro steps_report_Cons) simp_all
      ultimately show ?thesis
        using Inr ev r t by (simp add: exI [of _ "?st # new"])
    next
      case r: (Inl err)
      have ne: "err \<noteq> []" using executeValidated_error ev r by blast
      let ?st = "step_result ''step-'' i s (Inl err)"
      let ?res1 = "res\<lparr>pr_Steps := pr_Steps res @ [?st]\<rparr>"
      let ?pair = "if prof_RollbackProfile p \<noteq> []
                       then (case executeRollbackProfile os e (prof_RollbackProfile p) vars log1 of
                               ((rb, _), l) \<Rightarrow> (?res1\<lparr>pr_Rollback := rb\<rparr>, l))
                       else (?res1, log1)"
      obtain res2 log2 where pr: "?pair = (res2, log2)" by force
      have s2: "pr_Steps res2 = pr_Steps res @ [?st]" using pr by (auto split: if_splits prod.splits)
      show ?thesis
      proof (cases "prof_ContinueOnError p")
        case False
        then show ?thesis
          using Inr ev r pr s2 ne by (simp add: steps_report_def Let_def)
      next
        case True
        obtain r' err' log' where t: "profile_steps os e name p vars (i + 1) ss res2 log2 = ((r', err'), log')"
          by (metis prod.collapse)
        obtain new where "pr_Steps r' = pr_Steps res @ ?st # new" "steps_report e (prof_ContinueOnError p) ss new err'"
          using "2.IH"(1) [OF Inr ev [symmetric] r refl pr [symmetric] refl] t True s2 by auto
        moreover have "steps_report e (prof_ContinueOnError p) (s # ss) (?st # new) err'"
          using calculation(2) True by (intro steps_report_Cons) simp_all
        ultimately show ?thesis
          using Inr ev r t pr True ne by (simp add: Let_def exI [of _ "?st # new"])
      qed
    qed
  qed
qed

text \<open>C20. The report of a profile follows its steps in order: the commands are those of the profile's
  first steps, every output is within the limit of its command, no step follows a failed one unless
  the profile continues on errors, no error is returned only after the last step, and a rollback is
  reported only when some step failed.\<close>

theorem profile_report:
  assumes "get (ex_profiles e) (trim_space name) = Some p"
    and "ExecuteProfile os e name vars approved token log = ((r, err), log')"
  shows "steps_report e (prof_ContinueOnError p) (prof_Steps p) (pr_Steps r) err
    \<and> (pr_Rollback r = [] \<or> list_ex (\<lambda>s. sr_Error s \<noteq> []) (pr_Steps r))"
  using assms profile_steps_report [where os = os and e = e and name = name and p = p and vars = vars and i = 0
      and ss = "prof_Steps p" and log = log and res = "\<lparr>pr_Profile = name, pr_Approved = approved, pr_CapabilityScoped = (trim_space (prof_CapabilityToken p) \<noteq> []),
        pr_Steps = [], pr_Rollback = []\<rparr>"]
  by (auto simp: ExecuteProfile_def steps_report_def no_run_def split: if_split_asm)

definition demo_executor :: Executor where
  "demo_executor = (NewExecutor default_execution)\<lparr>ex_enabled := True\<rparr>"

definition demo_os :: os_fun where
  "demo_os log c args = \<lparr>proc_deadline = False, proc_output = c, proc_error = None\<rparr>"

theorem execution_confined_witness:
  "snd (ExecuteProfile demo_os demo_executor ''system-health'' [] False [] [])
     = [(''echo'', [''system health check'']), (''date'', [''+%Y-%m-%dT%H:%M:%SZ''])]
   \<and> (\<exists>p. get (ex_profiles demo_executor) ''system-health'' = Some p \<and> \<not> prof_RequireApproval p)"
proof -
  have r: "snd (ExecuteProfile demo_os demo_executor ''system-health'' [] False [] [])
     = [(''echo'', [''system health check'']), (''date'', [''+%Y-%m-%dT%H:%M:%SZ''])]"
    by code_simp
  have t: "trim_space ''system-health'' = ''system-health''" by code_simp
  show ?thesis
    using execution_confined [of demo_executor "[]" demo_os "[]" "[]" "''system-health''" "[]" False "[]"] r t by auto
qed

theorem profile_report_witness:
  "\<exists>r log'. ExecuteProfile demo_os demo_executor ''system-health'' [] False [] [] = ((r, None), log')
    \<and> map sr_Command (pr_Steps r) = [''echo'', ''date'']"
proof -
  have e: "snd (fst (ExecuteProfile demo_os demo_executor ''system-health'' [] False [] [])) = None"
    by code_simp
  have t: "trim_space ''system-health'' = ''system-health''" by code_simp
  obtain p where p: "get (ex_profiles demo_executor) ''system-health'' = Some p"
    "map step_Command (prof_Steps p) = [''echo'', ''date'']"
    by (simp add: demo_executor_def NewExecutor_def default_execution_def get_def)
  obtain r log' where x: "ExecuteProfile demo_os demo_executor ''system-health'' [] False [] [] = ((r, None), log')"
    using e by (metis prod.collapse)
  have "steps_report demo_executor (prof_ContinueOnError p) (prof_Steps p) (pr_Steps r) None"
    using profile_report [OF _ x] p(1) t by auto
  then show ?thesis using x p(2) by (auto simp: steps_report_def)
qed

end
