(* ===== verification/FileSys.thy ===== *)
theory FileSys
  imports GoText
begin

text \<open>
  The file system as the source uses it through \<^verbatim>\<open>os\<close>: whole files read and written by path. The
  answers of the operating system to the calls to come are part of the state, as the engine's are
  for the store: \<open>Fine\<close>, \<open>Refused e\<close> (nothing changes), or \<open>Torn e n\<close>, a write that stops with an
  error after truncating the file and writing \<open>n\<close> bytes. Directories are not modelled; making one
  only asks for an answer.
\<close>

datatype fs_answer = Fine | Refused string | Torn string nat

record FS =
  files :: "(string, string) gomap"
  answers :: "fs_answer list"

type_synonym 'a fs_result = "(string, 'a, FS) outcome"

definition next_answer :: "FS \<Rightarrow> fs_answer \<times> FS" where
  "next_answer s = (case answers s of [] \<Rightarrow> (Fine, s) | a # as \<Rightarrow> (a, s\<lparr>answers := as\<rparr>))"

definition read_file :: "string \<Rightarrow> FS \<Rightarrow> string fs_result" where
  "read_file path s =
     (case next_answer s of
        (Fine, s') \<Rightarrow> (case get (files s') path of
                         None \<Rightarrow> (Inl (''open '' @ path @ '': no such file or directory''), s')
                       | Some c \<Rightarrow> (Inr c, s'))
      | (Refused e, s') \<Rightarrow> (Inl e, s')
      | (Torn e n, s') \<Rightarrow> (Inl e, s'))"

definition write_file :: "string \<Rightarrow> string \<Rightarrow> FS \<Rightarrow> unit fs_result" where
  "write_file path content s =
     (case next_answer s of
        (Fine, s') \<Rightarrow> (Inr (), s'\<lparr>files := put path content (files s')\<rparr>)
      | (Refused e, s') \<Rightarrow> (Inl e, s')
      | (Torn e n, s') \<Rightarrow> (Inl e, s'\<lparr>files := put path (take n content) (files s')\<rparr>))"

definition mkdir_all :: "string \<Rightarrow> FS \<Rightarrow> unit fs_result" where
  "mkdir_all path s =
     (case next_answer s of
        (Fine, s') \<Rightarrow> (Inr (), s') | (Refused e, s') \<Rightarrow> (Inl e, s') | (Torn e n, s') \<Rightarrow> (Inl e, s'))"

lemma next_answer_files [simp]: "next_answer s = (a, s') \<Longrightarrow> files s' = files s"
  by (auto simp: next_answer_def split: list.splits)

lemma next_answer_fine [simp]: "answers s = [] \<Longrightarrow> next_answer s = (Fine, s)"
  by (simp add: next_answer_def)

lemma read_file_files [simp, frame_simps]: "files (snd (read_file p s)) = files s"
  by (cases "next_answer s") (auto simp: read_file_def split: fs_answer.splits option.splits)

lemma mkdir_all_files [simp, frame_simps]: "files (snd (mkdir_all p s)) = files s"
  by (cases "next_answer s") (auto simp: mkdir_all_def split: fs_answer.splits)

lemma read_file_filesD: "read_file p s = (r, s') \<Longrightarrow> files s' = files s"
  using read_file_files [of p s] by simp

lemma mkdir_all_filesD: "mkdir_all p s = (r, s') \<Longrightarrow> files s' = files s"
  using mkdir_all_files [of p s] by simp

lemma write_file_other [frame_simps]:
  "p' \<noteq> p \<Longrightarrow> get (files (snd (write_file p c s))) p' = get (files s) p'"
  by (cases "next_answer s") (auto simp: write_file_def split: fs_answer.splits)

lemma write_file_ok: "write_file p c s = (Inr u, s') \<Longrightarrow> get (files s') p = Some c"
  by (cases "next_answer s") (auto simp: write_file_def split: fs_answer.splits)

lemma read_file_ok: "read_file p s = (Inr c, s') \<Longrightarrow> get (files s) p = Some c \<and> files s' = files s"
  by (cases "next_answer s") (auto simp: read_file_def split: fs_answer.splits option.splits)

lemma fs_fine:
  "answers s = [] \<Longrightarrow> mkdir_all p s = (Inr (), s)"
  "answers s = [] \<Longrightarrow> write_file p c s = (Inr (), s\<lparr>files := put p c (files s)\<rparr>)"
  "answers s = [] \<Longrightarrow> get (files s) p = Some c \<Longrightarrow> read_file p s = (Inr c, s)"
  "answers s = [] \<Longrightarrow> get (files s) p = None \<Longrightarrow>
     read_file p s = (Inl (''open '' @ p @ '': no such file or directory''), s)"
  by (simp_all add: mkdir_all_def write_file_def read_file_def)

section \<open>Splitting what was joined\<close>

lemma index_of_at:
  assumes "sep \<noteq> []" "\<not> contains sep (e @ butlast sep)"
  shows "index_of sep (e @ sep @ r) = Some (length e)"
  using assms(2)
proof (induction e)
  case Nil
  obtain c s where "sep = c # s" using assms(1) by (cases sep) auto
  then show ?case using has_prefix_append [of sep r] by simp
next
  case (Cons c e)
  have "\<not> has_prefix sep (c # e @ sep @ r)"
  proof
    assume "has_prefix sep (c # e @ sep @ r)"
    then have "take (length sep) (c # e @ sep @ r) = sep" by (simp add: has_prefix_def)
    moreover have "take (length sep) (c # e @ sep @ r) = take (length sep) (c # e @ butlast sep)"
    proof -
      have "sep = butlast sep @ [last sep]" using assms(1) by simp
      then have "take (length sep) (c # e @ sep @ r) = take (length sep) ((c # e @ butlast sep) @ [last sep] @ r)"
        by (metis append.assoc append_Cons)
      moreover have "take (length sep) ((c # e @ butlast sep) @ [last sep] @ r) = take (length sep) (c # e @ butlast sep)"
        by (subst take_append) (use assms(1) in \<open>cases sep; simp\<close>)
      ultimately show ?thesis by simp
    qed
    ultimately have "has_prefix sep (c # e @ butlast sep)" by (simp add: has_prefix_def)
    then show False using Cons.prems by simp
  qed
  moreover have "\<not> contains sep (e @ butlast sep)" using Cons.prems by simp
  ultimately show ?case using Cons.IH by simp
qed

lemma contains_append: "contains sep e \<Longrightarrow> contains sep (e @ t)"
  unfolding contains_iff by (metis append.assoc)

text \<open>Pieces that neither hold the separator nor could complete one at their end come back.\<close>

lemma split_join:
  assumes "sep \<noteq> []" "es \<noteq> []" "\<forall>e\<in>set es. \<not> contains sep (e @ butlast sep)"
  shows "split_on sep (join sep es) = es"
  using assms(2,3)
proof (induction es)
  case (Cons e es)
  show ?case
  proof (cases es)
    case Nil
    have "index_of sep e = None"
      using Cons.prems(2) contains_append [of sep e "butlast sep"] by (auto simp: index_of_None)
    then show ?thesis using Nil by (simp add: split_on.simps)
  next
    case (Cons e2 es2)
    have "index_of sep (e @ sep @ join sep es) = Some (length e)"
      by (rule index_of_at [OF assms(1)]) (use \<open>\<forall>x\<in>set (e # es). _ x\<close> in simp)
    then show ?thesis
      using Cons.IH Cons \<open>\<forall>x\<in>set (e # es). _ x\<close> assms(1)
      by (subst split_on.simps) simp
  qed
qed simp

end
