(* ===== verification/Memory.thy ===== *)
theory Memory
  imports FileSys Config "HOL-Library.Product_Lexorder"
begin

text \<open>
  \<^verbatim>\<open>internal/memory\<close>: the provider contract (a Go interface, here a record of its functions and a
  locale of the laws callers rely on), the file-backed provider, and the manager. The digest of a
  user's name is the parameter \<open>hash\<close> (SHA-256 in hexadecimal, cut to 16 digits, in the source).
\<close>

section \<open>The contract\<close>

record Snapshot =
  MemoryEntries :: "string list"
  UserEntries :: "string list"

record 's Provider =
  prov_Name :: string
  prov_Prefetch :: "string \<Rightarrow> string \<Rightarrow> 's \<Rightarrow> (string, string, 's) outcome"
  prov_SyncTurn :: "string \<Rightarrow> string \<Rightarrow> string \<Rightarrow> 's \<Rightarrow> (string, unit, 's) outcome"
  prov_Read :: "string \<Rightarrow> 's \<Rightarrow> (string, Snapshot, 's) outcome"
  prov_Write :: "string \<Rightarrow> string \<Rightarrow> string \<Rightarrow> string \<Rightarrow> string \<Rightarrow> 's \<Rightarrow> (string, Snapshot, 's) outcome"

section \<open>The file-backed provider\<close>

record FileProvider =
  fp_root :: string
  fp_memoryCharLimit :: int
  fp_userCharLimit :: int
  fp_recallLimit :: int

definition NewFileProvider :: "Config \<Rightarrow> FileProvider" where
  "NewFileProvider c =
     \<lparr>fp_root = path_join [cfg_DataDir c, ''memories''],
      fp_memoryCharLimit = memc_MemoryCharLimit (cfg_Memory c),
      fp_userCharLimit = memc_UserCharLimit (cfg_Memory c),
      fp_recallLimit = memc_RecallLimit (cfg_Memory c)\<rparr>"

text \<open>A newline, a section sign (two bytes) and a newline.\<close>

definition entryDelimiter :: string where
  "entryDelimiter = [CHR 0x0A, CHR 0xC2, CHR 0xA7, CHR 0x0A]"

definition hashUsername :: "(string \<Rightarrow> string) \<Rightarrow> string \<Rightarrow> string" where
  "hashUsername hash username = hash (trim_space username)"

definition userDir :: "(string \<Rightarrow> string) \<Rightarrow> FileProvider \<Rightarrow> string \<Rightarrow> string" where
  "userDir hash p username = path_join [fp_root p, hashUsername hash username]"

definition memoryPath :: "(string \<Rightarrow> string) \<Rightarrow> FileProvider \<Rightarrow> string \<Rightarrow> string" where
  "memoryPath hash p username = path_join [userDir hash p username, ''MEMORY.md'']"

definition userPath :: "(string \<Rightarrow> string) \<Rightarrow> FileProvider \<Rightarrow> string \<Rightarrow> string" where
  "userPath hash p username = path_join [userDir hash p username, ''USER.md'']"

text \<open>The entries in a file's text.\<close>

definition entries_of :: "string \<Rightarrow> string list" where
  "entries_of raw =
     (let text = trim_space raw
      in if text = [] then []
         else filter (\<lambda>part. part \<noteq> []) (map trim_space (split_on entryDelimiter text)))"

definition readEntries :: "string \<Rightarrow> FS \<Rightarrow> string list \<times> FS" where
  "readEntries path s =
     (case read_file path s of (Inl e, s') \<Rightarrow> ([], s') | (Inr raw, s') \<Rightarrow> (entries_of raw, s'))"

text \<open>\<open>dir\<close> is the directory of the path.\<close>

definition writeEntries :: "string \<Rightarrow> string \<Rightarrow> string list \<Rightarrow> FS \<Rightarrow> unit fs_result" where
  "writeEntries dir path entries s =
     bind_res (mkdir_all dir s) (\<lambda>_. write_file path (join entryDelimiter entries))"

definition Read :: "(string \<Rightarrow> string) \<Rightarrow> FileProvider \<Rightarrow> string \<Rightarrow> FS \<Rightarrow> Snapshot fs_result" where
  "Read hash p username s =
     bind_res (mkdir_all (userDir hash p username) s)
       (\<lambda>_ s. case readEntries (memoryPath hash p username) s of
          (ms, s) \<Rightarrow> (case readEntries (userPath hash p username) s of
             (us, s) \<Rightarrow> (Inr \<lparr>MemoryEntries = ms, UserEntries = us\<rparr>, s)))"

fun fields_func :: "(char \<Rightarrow> bool) \<Rightarrow> string \<Rightarrow> string \<Rightarrow> string list" where
  "fields_func keep cur [] = (if cur = [] then [] else [rev cur])"
| "fields_func keep cur (c # s) =
     (if keep c then fields_func keep (c # cur) s
      else (if cur = [] then [] else [rev cur]) @ fields_func keep [] s)"

definition recallScore :: "string \<Rightarrow> string \<Rightarrow> int" where
  "recallScore query0 candidate0 =
     (let query = to_lower (trim_space query0); candidate = to_lower (trim_space candidate0)
      in if query = [] \<or> candidate = [] then 0
         else int (length (filter (\<lambda>token. 2 \<le> length token \<and> contains token candidate)
                (fields_func (\<lambda>c. is_lower_alpha c \<or> is_digit c) [] query))))"

definition scored_entries :: "string \<Rightarrow> string \<Rightarrow> string list \<Rightarrow> (string \<times> int \<times> string) list" where
  "scored_entries query label entries =
     map (\<lambda>e. (e, recallScore query e, label)) (filter (\<lambda>e. 0 < recallScore query e) entries)"

definition recalled :: "int \<Rightarrow> string \<Rightarrow> Snapshot \<Rightarrow> (string \<times> int \<times> string) list" where
  "recalled limit query snap =
     (let scores = sort_key (\<lambda>(text, score, label). (- score, text))
            (scored_entries query ''memory'' (MemoryEntries snap) @ scored_entries query ''user'' (UserEntries snap))
      in if limit < int (length scores) then take (nat limit) scores else scores)"

definition Prefetch :: "(string \<Rightarrow> string) \<Rightarrow> FileProvider \<Rightarrow> string \<Rightarrow> string \<Rightarrow> FS \<Rightarrow> string fs_result" where
  "Prefetch hash p username query s =
     bind_res (Read hash p username s)
       (\<lambda>snap s.
          if scored_entries query ''memory'' (MemoryEntries snap) @ scored_entries query ''user'' (UserEntries snap) = []
          then (Inr [], s)
          else (Inr (join [CHR 0x0A]
                  ([''<memory-context>'',
                    ''[System note: The following is recalled memory context, not new user input.]'']
                   @ map (\<lambda>(text, score, label). ''['' @ label @ ''] '' @ text)
                       (recalled (fp_recallLimit p) query snap)
                   @ [''</memory-context>''])), s))"

definition SyncTurn :: "string \<Rightarrow> string \<Rightarrow> string \<Rightarrow> FS \<Rightarrow> unit fs_result" where
  "SyncTurn username userContent assistantContent s = (Inr (), s)"

datatype target = TMemory | TUser

definition resolveTarget :: "string \<Rightarrow> string + target" where
  "resolveTarget t =
     (let t' = to_lower (trim_space t)
      in if t' = ''memory'' then Inr TMemory
         else if t' = ''user'' then Inr TUser
         else Inl ''target must be memory or user'')"

definition target_path :: "(string \<Rightarrow> string) \<Rightarrow> FileProvider \<Rightarrow> string \<Rightarrow> target \<Rightarrow> string" where
  "target_path hash p username t =
     (case t of TMemory \<Rightarrow> memoryPath hash p username | TUser \<Rightarrow> userPath hash p username)"

definition target_limit :: "FileProvider \<Rightarrow> target \<Rightarrow> int" where
  "target_limit p t = (case t of TMemory \<Rightarrow> fp_memoryCharLimit p | TUser \<Rightarrow> fp_userCharLimit p)"

fun indexContaining :: "string list \<Rightarrow> string \<Rightarrow> nat option" where
  "indexContaining [] m = None"
| "indexContaining (v # vs) m = (if contains m v then Some 0 else map_option Suc (indexContaining vs m))"

text \<open>What an action makes of the entries: an error, \<open>None\<close> for an action that only reads, or the
  entries to write.\<close>

definition next_entries :: "int \<Rightarrow> string \<Rightarrow> string \<Rightarrow> string \<Rightarrow> string list \<Rightarrow> string + string list option" where
  "next_entries limit action content0 match0 entries =
     (let content = trim_space content0; mtch = trim_space match0
      in if action = ''add''
         then if content = [] then Inl ''content is required''
              else if content \<in> set entries then Inr None
              else if limit < int (length (join entryDelimiter (entries @ [content])))
              then Inl ''memory limit exceeded''
              else Inr (Some (entries @ [content]))
         else if action = ''replace''
         then if mtch = [] \<or> content = [] then Inl ''match and content are required''
              else (case indexContaining entries mtch of
                      None \<Rightarrow> Inl (''no entry matched '' @ go_quote mtch)
                    | Some i \<Rightarrow>
                        if limit < int (length (join entryDelimiter (entries[i := content])))
                        then Inl ''memory limit exceeded''
                        else Inr (Some (entries[i := content])))
         else if action = ''remove''
         then if mtch = [] then Inl ''match is required''
              else (case indexContaining entries mtch of
                      None \<Rightarrow> Inl (''no entry matched '' @ go_quote mtch)
                    | Some i \<Rightarrow> Inr (Some (take i entries @ drop (i + 1) entries)))
         else if action = ''read'' then Inr None
         else Inl (''unsupported memory action '' @ go_quote action))"

definition Write :: "(string \<Rightarrow> string) \<Rightarrow> FileProvider \<Rightarrow> string \<Rightarrow> string \<Rightarrow> string \<Rightarrow> string \<Rightarrow> string \<Rightarrow> FS \<Rightarrow> Snapshot fs_result" where
  "Write hash p username tgt action content mtch s =
     (case resolveTarget tgt of
        Inl e \<Rightarrow> (Inl e, s)
      | Inr t \<Rightarrow>
          (case readEntries (target_path hash p username t) s of
             (entries, s) \<Rightarrow>
               (case next_entries (target_limit p t) action content mtch entries of
                  Inl e \<Rightarrow> (Inl e, s)
                | Inr None \<Rightarrow> Read hash p username s
                | Inr (Some es) \<Rightarrow>
                    bind_res (writeEntries (userDir hash p username) (target_path hash p username t) es s)
                      (\<lambda>_. Read hash p username))))"

definition file_provider :: "(string \<Rightarrow> string) \<Rightarrow> FileProvider \<Rightarrow> FS Provider" where
  "file_provider hash p =
     \<lparr>prov_Name = ''builtin'', prov_Prefetch = Prefetch hash p, prov_SyncTurn = SyncTurn,
      prov_Read = Read hash p, prov_Write = Write hash p\<rparr>"

section \<open>The manager\<close>

record 's Manager =
  mgr_provider :: "'s Provider option"
  mgr_enabled :: bool

definition NewManager :: "'s Provider option \<Rightarrow> bool \<Rightarrow> 's Manager" where
  "NewManager prov enabled = \<lparr>mgr_provider = prov, mgr_enabled = enabled\<rparr>"

definition Enabled :: "'s Manager option \<Rightarrow> bool" where
  "Enabled m = (case m of None \<Rightarrow> False | Some m \<Rightarrow> mgr_enabled m \<and> mgr_provider m \<noteq> None)"

definition with_provider :: "'s Manager option \<Rightarrow> 'a \<Rightarrow> ('s Provider \<Rightarrow> 's \<Rightarrow> (string, 'a, 's) outcome) \<Rightarrow> 's \<Rightarrow> (string, 'a, 's) outcome" where
  "with_provider m zero f s = (if \<not> Enabled m then (Inr zero, s) else f (the (mgr_provider (the m))) s)"

definition empty_snapshot :: Snapshot where
  "empty_snapshot = \<lparr>MemoryEntries = [], UserEntries = []\<rparr>"

definition MgrPrefetch :: "'s Manager option \<Rightarrow> string \<Rightarrow> string \<Rightarrow> 's \<Rightarrow> (string, string, 's) outcome" where
  "MgrPrefetch m u q = with_provider m [] (\<lambda>p. prov_Prefetch p u q)"

definition MgrSyncTurn :: "'s Manager option \<Rightarrow> string \<Rightarrow> string \<Rightarrow> string \<Rightarrow> 's \<Rightarrow> (string, unit, 's) outcome" where
  "MgrSyncTurn m u uc ac = with_provider m () (\<lambda>p. prov_SyncTurn p u uc ac)"

definition MgrRead :: "'s Manager option \<Rightarrow> string \<Rightarrow> 's \<Rightarrow> (string, Snapshot, 's) outcome" where
  "MgrRead m u = with_provider m empty_snapshot (\<lambda>p. prov_Read p u)"

definition MgrWrite :: "'s Manager option \<Rightarrow> string \<Rightarrow> string \<Rightarrow> string \<Rightarrow> string \<Rightarrow> string \<Rightarrow> 's \<Rightarrow> (string, Snapshot, 's) outcome" where
  "MgrWrite m u t a c mt = with_provider m empty_snapshot (\<lambda>p. prov_Write p u t a c mt)"

end
