(* ===== verification/MemoryProps.thy ===== *)
theory MemoryProps
  imports Memory
begin

text \<open>
  What the memory promises: entries come back as they were written, the file provider refines
  editing a list, a write touches one file only, and the manager inherits the contract.
\<close>

section \<open>Entries survive the file\<close>

definition clean_entry :: "string \<Rightarrow> bool" where
  "clean_entry e \<longleftrightarrow> e \<noteq> [] \<and> trimmed e \<and> \<not> contains entryDelimiter (e @ butlast entryDelimiter)"

lemma space_len_newline:
  assumes "space_len p2 p3 s = 0" "s \<noteq> []"
    and "\<And>x. \<not> p2 x (CHR 0x0A)" "\<And>x y. \<not> p3 x (CHR 0x0A) y" "\<And>x y. \<not> p3 x y (CHR 0x0A)"
  shows "space_len p2 p3 (s @ CHR 0x0A # t) = 0"
  using assms by (auto simp: space_len_def split: list.splits if_splits)

lemma join_Cons: "es \<noteq> [] \<Longrightarrow> join sep (e # es) = e @ sep @ join sep es"
  by (cases es) auto

lemma join_clean_Nil: "list_all clean_entry es \<Longrightarrow> join sep es = [] \<longleftrightarrow> es = []"
  by (cases es; cases "tl es") (auto simp: clean_entry_def join_Cons)

lemma trimmed_join:
  assumes "es \<noteq> []" "list_all clean_entry es"
  shows "trimmed (join entryDelimiter es)"
proof -
  have front: "space_len sp2 sp3 (join entryDelimiter es) = 0"
  proof (cases es)
    case (Cons e es')
    then have e: "space_len sp2 sp3 e = 0" "e \<noteq> []" using assms(2) by (auto simp: clean_entry_def trimmed_def)
    show ?thesis
    proof (cases "es' = []")
      case False
      then show ?thesis
        using space_len_newline [OF e] Cons by (simp add: join_Cons entryDelimiter_def sp2_def sp3_def)
    qed (simp add: Cons e)
  qed (use assms in simp)
  have rear: "space_len (\<lambda>b a. sp2 a b) (\<lambda>c b a. sp3 a b c) (rev (join entryDelimiter es)) = 0"
    using assms
  proof (induction es)
    case (Cons e es)
    show ?case
    proof (cases "es = []")
      case True
      then show ?thesis using Cons.prems by (simp add: clean_entry_def trimmed_def)
    next
      case False
      then have "join entryDelimiter es \<noteq> []"
        using Cons.prems by (simp add: join_clean_Nil)
      then show ?thesis
        using Cons False space_len_newline [of "\<lambda>b a. sp2 a b" "\<lambda>c b a. sp3 a b c" "rev (join entryDelimiter es)"]
        by (simp add: join_Cons entryDelimiter_def sp2_def sp3_def)
    qed
  qed simp
  show ?thesis using front rear by (simp add: trimmed_def)
qed

lemma entries_of_join: "list_all clean_entry es \<Longrightarrow> entries_of (join entryDelimiter es) = es"
proof (cases "es = []")
  case True
  then show ?thesis by (simp add: entries_of_def)
next
  case False
  assume c: "list_all clean_entry es"
  then have "trim_space (join entryDelimiter es) = join entryDelimiter es"
    using False by (intro trim_space_trimmed_id trimmed_join)
  moreover have "split_on entryDelimiter (join entryDelimiter es) = es"
    using c False by (intro split_join) (auto simp: entryDelimiter_def list_all_iff clean_entry_def)
  moreover have "join entryDelimiter es \<noteq> []"
    using c False by (simp add: join_clean_Nil)
  moreover have "map trim_space es = es" "filter (\<lambda>p. p \<noteq> []) es = es"
    using c by (auto simp: list_all_iff clean_entry_def trim_space_trimmed_id filter_id_conv intro!: map_idI)
  ultimately show ?thesis by (simp add: entries_of_def)
qed

section \<open>The contract as a locale\<close>

locale memory_provider =
  fixes mem :: "string \<Rightarrow> 's \<Rightarrow> Snapshot"
    and ok :: "'s \<Rightarrow> bool"
    and prov :: "'s Provider"
  assumes read_mem: "ok s \<Longrightarrow> prov_Read prov u s = (Inr (mem u s), s)"
    and write_mem: "ok s \<Longrightarrow> prov_Write prov u t a c m s = (Inr sn, s') \<Longrightarrow> sn = mem u s' \<and> ok s'"
    and write_err: "ok s \<Longrightarrow> prov_Write prov u t a c m s = (Inl e, s') \<Longrightarrow> s' = s"
    and sync_keeps: "ok s \<Longrightarrow> prov_SyncTurn prov u x y s = (Inr (), s)"
begin

text \<open>What a write of the manager returned is what its next read returns, also after the turn is
  synchronised; a failed write leaves what was there.\<close>

lemma write_then_read:
  assumes "ok s" "MgrWrite (Some (NewManager (Some prov) True)) u t a c m s = (Inr sn, s')"
  shows "MgrRead (Some (NewManager (Some prov) True)) u
      (snd (MgrSyncTurn (Some (NewManager (Some prov) True)) u x y s')) = (Inr sn, s')"
  using assms read_mem write_mem sync_keeps
  by (simp add: MgrWrite_def MgrRead_def MgrSyncTurn_def with_provider_def Enabled_def NewManager_def)

lemma failed_write_keeps:
  assumes "ok s" "MgrWrite (Some (NewManager (Some prov) True)) u t a c m s = (Inl e, s')"
  shows "MgrRead (Some (NewManager (Some prov) True)) u s' = (Inr (mem u s), s)"
  using assms read_mem [OF assms(1)] write_err [OF assms(1)]
  by (fastforce simp: MgrWrite_def MgrRead_def with_provider_def Enabled_def NewManager_def)

end

definition file_mem :: "(string \<Rightarrow> string) \<Rightarrow> FileProvider \<Rightarrow> string \<Rightarrow> FS \<Rightarrow> Snapshot" where
  "file_mem hash p u s =
     \<lparr>MemoryEntries = (case get (files s) (memoryPath hash p u) of None \<Rightarrow> [] | Some c \<Rightarrow> entries_of c),
      UserEntries = (case get (files s) (userPath hash p u) of None \<Rightarrow> [] | Some c \<Rightarrow> entries_of c)\<rparr>"

lemma readEntries_files [simp]: "files (snd (readEntries path s)) = files s"
  by (auto simp: readEntries_def dest: read_file_filesD split: prod.splits sum.splits)

lemma readEntries_filesD: "readEntries path s = (r, s') \<Longrightarrow> files s' = files s"
  using readEntries_files [of path s] by simp

lemma Read_files [simp]: "files (snd (Read hash p u s)) = files s"
  by (cases "mkdir_all (userDir hash p u) s"; cases "fst (mkdir_all (userDir hash p u) s)")
     (auto simp: Read_def dest!: mkdir_all_filesD readEntries_filesD split: prod.splits)

text \<open>A file that cannot be read counts as empty, so the laws hold for the runs in which the system
  refuses no read.\<close>

lemma readEntries_fine:
  "answers s = [] \<Longrightarrow>
   readEntries path s = (case get (files s) path of None \<Rightarrow> [] | Some c \<Rightarrow> entries_of c, s)"
  by (cases "get (files s) path") (simp_all add: readEntries_def fs_fine)

lemma Read_fine: "answers s = [] \<Longrightarrow> Read hash p u s = (Inr (file_mem hash p u s), s)"
  by (simp add: Read_def fs_fine readEntries_fine file_mem_def)

lemma Write_fine:
  assumes "answers s = []" "resolveTarget tgt = Inr t"
    and "es0 = (case get (files s) (target_path hash p u t) of None \<Rightarrow> [] | Some c \<Rightarrow> entries_of c)"
  shows "Write hash p u tgt a c m s =
    (case next_entries (target_limit p t) a c m es0 of
       Inl e \<Rightarrow> (Inl e, s)
     | Inr None \<Rightarrow> (Inr (file_mem hash p u s), s)
     | Inr (Some es) \<Rightarrow>
         (let s' = s\<lparr>files := put (target_path hash p u t) (join entryDelimiter es) (files s)\<rparr>
          in (Inr (file_mem hash p u s'), s')))"
  using assms
  by (auto simp: Write_def readEntries_fine Read_fine writeEntries_def fs_fine Let_def
      split: sum.split option.split)

lemma Write_outcome:
  assumes "answers s = []"
  shows "case Write hash p u t a c m s of
      (Inl e, s') \<Rightarrow> s' = s
    | (Inr sn, s') \<Rightarrow> sn = file_mem hash p u s' \<and> answers s' = []"
proof (cases "resolveTarget t")
  case (Inl e)
  then show ?thesis by (simp add: Write_def)
next
  case (Inr b)
  show ?thesis
    unfolding Write_fine [OF assms Inr refl] using assms by (simp add: Let_def split: sum.split option.split)
qed

interpretation file_prov: memory_provider "file_mem hash p" "\<lambda>s. answers s = []" "file_provider hash p"
  for hash p
proof
  fix s :: FS and u
  assume "answers s = []"
  then show "prov_Read (file_provider hash p) u s = (Inr (file_mem hash p u s), s)"
    by (simp add: file_provider_def Read_fine)
next
  fix s :: FS and u t a c m sn s'
  assume "answers s = []" "prov_Write (file_provider hash p) u t a c m s = (Inr sn, s')"
  then show "sn = file_mem hash p u s' \<and> answers s' = []"
    using Write_outcome [of s hash p u t a c m] by (simp add: file_provider_def)
next
  fix s :: FS and u t a c m e s'
  assume "answers s = []" "prov_Write (file_provider hash p) u t a c m s = (Inl e, s')"
  then show "s' = s"
    using Write_outcome [of s hash p u t a c m] by (simp add: file_provider_def)
next
  fix s :: FS and u x y
  show "prov_SyncTurn (file_provider hash p) u x y s = (Inr (), s)"
    by (simp add: file_provider_def SyncTurn_def)
qed

section \<open>Editing a list\<close>

text \<open>The list operation an action stands for, on the entries of one target: an entry is added behind the
  others unless it is there, and the first entry that contains the match is replaced or removed.\<close>

fun replace_first :: "string \<Rightarrow> string list \<Rightarrow> string list \<Rightarrow> string list" where
  "replace_first m new [] = []"
| "replace_first m new (e # es) = (if contains m e then new @ es else e # replace_first m new es)"

definition edited :: "string \<Rightarrow> string \<Rightarrow> string \<Rightarrow> string list \<Rightarrow> string list" where
  "edited action content mtch es =
     (if action = ''add'' then (if trim_space content \<in> set es then es else es @ [trim_space content])
      else if action = ''replace'' then replace_first (trim_space mtch) [trim_space content] es
      else if action = ''remove'' then replace_first (trim_space mtch) [] es
      else es)"

lemma index_replace:
  "indexContaining es m = Some i \<Longrightarrow> es[i := c] = replace_first m [c] es \<and> take i es @ drop (Suc i) es = replace_first m [] es"
  by (induction es arbitrary: i) (auto split: if_splits)

lemma index_none: "indexContaining es m = None \<longleftrightarrow> (\<forall>e\<in>set es. \<not> contains m e)"
  by (induction es) auto

lemma replace_first_set: "set (replace_first m new es) \<subseteq> set new \<union> set es"
  by (induction es) auto

lemma next_entries_edited:
  "next_entries limit a c m es = Inr r \<Longrightarrow> edited a c m es = (case r of None \<Rightarrow> es | Some es' \<Rightarrow> es')"
  by (auto simp: next_entries_def edited_def Let_def index_replace split: if_split_asm option.split_asm)

lemma edited_clean:
  assumes "list_all clean_entry es" "a \<in> {''add'', ''replace''} \<Longrightarrow> clean_entry (trim_space c)"
  shows "list_all clean_entry (edited a c m es)"
  using assms replace_first_set [of "trim_space m" "[trim_space c]" es] replace_first_set [of "trim_space m" "[]" es]
  by (auto simp: edited_def list_all_iff)

text \<open>When an action is refused.\<close>

definition refused_edit :: "int \<Rightarrow> string \<Rightarrow> string \<Rightarrow> string \<Rightarrow> string list \<Rightarrow> bool" where
  "refused_edit limit action content mtch es \<longleftrightarrow>
     (let c = trim_space content; m = trim_space mtch; too_long = (\<lambda>es'. limit < int (length (join entryDelimiter es'))) in
      if action = ''add'' then c = [] \<or> c \<notin> set es \<and> too_long (edited action content mtch es)
      else if action = ''replace''
      then c = [] \<or> m = [] \<or> (\<forall>e\<in>set es. \<not> contains m e) \<or> too_long (edited action content mtch es)
      else if action = ''remove'' then m = [] \<or> (\<forall>e\<in>set es. \<not> contains m e)
      else action \<noteq> ''read'')"

lemma next_entries_refused: "(\<exists>e. next_entries limit a c m es = Inl e) \<longleftrightarrow> refused_edit limit a c m es"
  using index_none [of es "trim_space m"]
  by (auto simp: next_entries_def refused_edit_def edited_def Let_def index_replace split: option.split)

definition no_delimiter :: "string \<Rightarrow> bool" where
  "no_delimiter c \<longleftrightarrow> \<not> contains entryDelimiter (trim_space c @ butlast entryDelimiter)"

lemma no_delimiter_clean: "no_delimiter c \<Longrightarrow> trim_space c \<noteq> [] \<Longrightarrow> clean_entry (trim_space c)"
  by (simp add: no_delimiter_def clean_entry_def trimmed_trim_space)

definition mem_list :: "target \<Rightarrow> Snapshot \<Rightarrow> string list" where
  "mem_list t sn = (case t of TMemory \<Rightarrow> MemoryEntries sn | TUser \<Rightarrow> UserEntries sn)"

lemma mem_list_file:
  "mem_list t (file_mem hash p u s) =
     (case get (files s) (target_path hash p u t) of None \<Rightarrow> [] | Some c \<Rightarrow> entries_of c)"
  by (cases t) (simp_all add: mem_list_def file_mem_def target_path_def)

text \<open>C15. A write to the memory refines the list operation it names, while the system refuses no file
  operation, the stored entries are free of the delimiter, and so is the content that an add or a replace
  brings (a removal and a read bring none): it is refused, and nothing changed, exactly when the content
  or the match it needs is missing, no entry contains the match, or an add or a replace would pass the
  limit; otherwise the returned snapshot holds exactly the edited list under the target and the old list
  under the other one, the entries stay free of the delimiter, and what is read back later is what was
  returned.\<close>

theorem memory_write_refines_list:
  assumes "answers s = []" "resolveTarget tgt = Inr t"
    and clean: "list_all clean_entry (mem_list t (file_mem hash p u s))" "a \<in> {''add'', ''replace''} \<Longrightarrow> no_delimiter c"
    and paths: "memoryPath hash p u \<noteq> userPath hash p u"
  shows "case Write hash p u tgt a c m s of
      (Inl e, s') \<Rightarrow> refused_edit (target_limit p t) a c m (mem_list t (file_mem hash p u s)) \<and> s' = s
    | (Inr sn, s') \<Rightarrow> \<not> refused_edit (target_limit p t) a c m (mem_list t (file_mem hash p u s))
        \<and> mem_list t sn = edited a c m (mem_list t (file_mem hash p u s))
        \<and> (\<forall>t'. t' \<noteq> t \<longrightarrow> mem_list t' sn = mem_list t' (file_mem hash p u s))
        \<and> list_all clean_entry (mem_list t sn) \<and> Read hash p u s' = (Inr sn, s')"
proof -
  let ?es = "mem_list t (file_mem hash p u s)"
  note w = Write_fine [where a = a and c = c and m = m and hash = hash and p = p and u = u, OF assms(1,2) mem_list_file]
  note out = Write_outcome [OF assms(1), of hash p u tgt a c m]
  show ?thesis
  proof (cases "next_entries (target_limit p t) a c m ?es")
    case (Inl e)
    then show ?thesis using w next_entries_refused [of "target_limit p t" a c m ?es] by simp
  next
    case (Inr r)
    then have nr: "\<not> refused_edit (target_limit p t) a c m ?es" by (metis next_entries_refused sum.distinct(1))
    have e: "edited a c m ?es = (case r of None \<Rightarrow> ?es | Some es' \<Rightarrow> es')" by (rule next_entries_edited [OF Inr])
    show ?thesis
    proof (cases r)
      case None
      then show ?thesis using w Inr nr e clean Read_fine [OF assms(1)] by simp
    next
      case (Some es)
      let ?s = "s\<lparr>files := put (target_path hash p u t) (join entryDelimiter es) (files s)\<rparr>"
      have wr: "Write hash p u tgt a c m s = (Inr (file_mem hash p u ?s), ?s)" using w Inr Some by (simp add: Let_def)
      have "a \<in> {''add'', ''replace''} \<Longrightarrow> trim_space c \<noteq> []" using nr by (auto simp: refused_edit_def Let_def)
      then have c: "list_all clean_entry es"
        using edited_clean [where m = m, OF clean(1), of a c] clean(2) no_delimiter_clean e Some by auto
      have t: "mem_list t (file_mem hash p u ?s) = es" by (simp add: mem_list_file entries_of_join [OF c])
      have "target_path hash p u t' \<noteq> target_path hash p u t" if "t' \<noteq> t" for t'
        using that paths by (cases t; cases t') (auto simp: target_path_def)
      then have "mem_list t' (file_mem hash p u ?s) = mem_list t' (file_mem hash p u s)" if "t' \<noteq> t" for t'
        using that by (simp add: mem_list_file)
      then show ?thesis
        unfolding wr using nr e Some t c Read_fine [of ?s hash p u] assms(1) by simp
    qed
  qed
qed

text \<open>Whatever the operating system answers, a memory write changes no file but the one of its
  target and user, and a read changes none.\<close>

lemma memory_write_one_file:
  "(case resolveTarget tgt of Inl _ \<Rightarrow> True | Inr t \<Rightarrow> q \<noteq> target_path hash p u t) \<Longrightarrow>
     get (files (snd (Write hash p u tgt a c m s))) q = get (files s) q"
proof (cases "resolveTarget tgt")
  case (Inr t)
  assume "case resolveTarget tgt of Inl _ \<Rightarrow> True | Inr t \<Rightarrow> q \<noteq> target_path hash p u t"
  then have q: "q \<noteq> target_path hash p u t" using Inr by simp
  have we: "get (files (snd (bind_res (writeEntries d (target_path hash p u t) es s1) (\<lambda>_. Read hash p u)))) q
      = get (files s1) q" for d es s1
  proof -
    have "get (files (snd (writeEntries d (target_path hash p u t) es s1))) q = get (files s1) q"
      unfolding writeEntries_def
      by (cases "mkdir_all d s1"; cases "fst (mkdir_all d s1)")
         (auto simp: write_file_other [OF q] dest: mkdir_all_filesD)
    then show ?thesis
      by (cases "writeEntries d (target_path hash p u t) es s1";
          cases "fst (writeEntries d (target_path hash p u t) es s1)") auto
  qed
  show ?thesis
    using Inr by (auto simp: Write_def we dest: readEntries_filesD split: prod.split sum.split option.split)
qed (simp add: Write_def)

definition demo_hash :: "string \<Rightarrow> string" where
  "demo_hash u = ''h'' @ u"

definition demo_fp :: FileProvider where
  "demo_fp = \<lparr>fp_root = ''data'', fp_memoryCharLimit = 20, fp_userCharLimit = 20, fp_recallLimit = 3\<rparr>"

definition demo_fs :: FS where
  "demo_fs = \<lparr>files = [(''data/hann/MEMORY.md'', ''likes tea'')], answers = []\<rparr>"

lemma demo_paths:
  "memoryPath demo_hash demo_fp ''ann'' = ''data/hann/MEMORY.md''"
  "userPath demo_hash demo_fp ''ann'' = ''data/hann/USER.md''"
  "userPath demo_hash demo_fp ''bob'' = ''data/hbob/USER.md''"
  by code_simp+

theorem memory_write_refines_list_witness:
  "(case Write demo_hash demo_fp ''ann'' ''memory'' ''add'' '' runs '' [] demo_fs of
      (Inr sn, s') \<Rightarrow> mem_list TMemory sn = [''likes tea'', ''runs''] \<and> mem_list TUser sn = [] | _ \<Rightarrow> False)
   \<and> (case Write demo_hash demo_fp ''ann'' ''memory'' ''remove'' [] ''tea'' demo_fs of
      (Inr sn, s') \<Rightarrow> mem_list TMemory sn = [] \<and> mem_list TUser sn = [] | _ \<Rightarrow> False)"
proof -
  have t: "resolveTarget ''memory'' = Inr TMemory" by code_simp
  have m: "mem_list TMemory (file_mem demo_hash demo_fp ''ann'' demo_fs) = [''likes tea'']"
    "mem_list TUser (file_mem demo_hash demo_fp ''ann'' demo_fs) = []"
    unfolding mem_list_def file_mem_def demo_paths by code_simp+
  have c: "list_all clean_entry (mem_list TMemory (file_mem demo_hash demo_fp ''ann'' demo_fs))" "no_delimiter '' runs ''"
    unfolding m by code_simp+
  have a: "answers demo_fs = []" by (simp add: demo_fs_def)
  have ne: "memoryPath demo_hash demo_fp ''ann'' \<noteq> userPath demo_hash demo_fp ''ann''"
    unfolding demo_paths by simp
  have e: "edited ''add'' '' runs '' [] [''likes tea''] = [''likes tea'', ''runs'']"
    "edited ''remove'' [] ''tea'' [''likes tea''] = []"
    "\<not> refused_edit (target_limit demo_fp TMemory) ''add'' '' runs '' [] [''likes tea'']"
    "\<not> refused_edit (target_limit demo_fp TMemory) ''remove'' [] ''tea'' [''likes tea'']"
    by code_simp+
  note w = memory_write_refines_list [OF a t c(1) _ ne]
  show ?thesis
    using w [of "''add''" "'' runs ''" "[]"] w [of "''remove''" "[]" "''tea''"] c(2) e m
    by (auto split: prod.splits sum.splits)
qed

lemma memory_write_one_file_witness:
  "get (files (snd (Write demo_hash demo_fp ''bob'' ''user'' ''add'' ''x'' [] demo_fs))) ''data/hann/MEMORY.md''
     = Some ''likes tea''"
proof -
  have t: "resolveTarget ''user'' = Inr TUser" by code_simp
  show ?thesis
    by (subst memory_write_one_file) (simp_all add: t target_path_def demo_paths demo_fs_def get_def)
qed

end
