(* ===== verification/MultiAgent.thy ===== *)
theory MultiAgent
  imports JsonVal
begin

text \<open>
  \<^verbatim>\<open>internal/multiagent\<close>: plans, the safety policy, the planner, the orchestrator and the aggregator.
  The concurrent run is a machine whose events are the steps of the goroutines (take a slot of the
  semaphore, run the task and send its result, give the slot back) and of the collector (receive a
  result, see the cancelled context); every interleaving is a sequence of events.
\<close>

section \<open>Types\<close>

type_synonym TaskMode = string
type_synonym ResultStatus = string

definition TaskModeSequential :: TaskMode where "TaskModeSequential = ''sequential''"
definition TaskModeParallel :: TaskMode where "TaskModeParallel = ''parallel''"
definition ResultCompleted :: ResultStatus where "ResultCompleted = ''completed''"
definition ResultFailed :: ResultStatus where "ResultFailed = ''failed''"
definition ResultSkipped :: ResultStatus where "ResultSkipped = ''skipped''"

record Task =
  task_ID :: string
  task_Title :: string
  task_Goal :: string
  task_Context :: string
  task_HistoryWindow :: int
  task_AllowedTools :: "string list"
  task_AllowedPrefixes :: "string list"
  task_WriteScopes :: "string list"

record Plan =
  plan_Objective :: string
  plan_Mode :: TaskMode
  plan_MaxConcurrent :: int
  plan_ParentSessionID :: int
  plan_Tasks :: "Task list"

record TraceStep =
  ts_Iteration :: int
  ts_Type :: string
  ts_Tool :: string
  ts_Input :: "jmap option"
  ts_Output :: "jmap option"
  ts_Snapshot :: "jmap option"
  ts_Verified :: bool
  ts_Verifier :: string
  ts_VerificationClass :: string
  ts_Error :: string
  ts_Note :: string

record Result =
  res_TaskID :: string
  res_ChildSessionID :: int
  res_Status :: ResultStatus
  res_Summary :: string
  res_Trace :: "TraceStep list"
  res_FilesChanged :: "string list"
  res_Risks :: "string list"
  res_NextActions :: "string list"

record Aggregate =
  agg_ParentSessionID :: int
  agg_Completed :: int
  agg_Failed :: int
  agg_Skipped :: int
  agg_Summaries :: "string list"
  agg_Risks :: "string list"
  agg_NextActions :: "string list"
  agg_FilesChanged :: "string list"

record MAPolicy =
  map_MaxConcurrent :: int

section \<open>The policy\<close>

definition blockedTools :: "string list" where
  "blockedTools = [''delegate_task'', ''system.exec'', ''browser.navigate'', ''browser.click'', ''memory.write'']"

definition DefaultMAPolicy :: MAPolicy where
  "DefaultMAPolicy = \<lparr>map_MaxConcurrent = 3\<rparr>"

text \<open>The write scopes of one task against the owners so far: the first conflict, or the owners
  with this task's scopes added.\<close>

fun claim_scopes :: "string \<Rightarrow> string list \<Rightarrow> (string, string) gomap \<Rightarrow> string + (string, string) gomap" where
  "claim_scopes tid [] owners = Inr owners"
| "claim_scopes tid (s # ss) owners =
     (let scope = trim_space s in
      if scope = [] then claim_scopes tid ss owners
      else (case get owners scope of
              Some owner \<Rightarrow>
                if owner \<noteq> tid
                then Inl (''write scope '' @ go_quote scope @ '' is owned by both '' @ go_quote owner
                          @ '' and '' @ go_quote tid)
                else claim_scopes tid ss (put scope tid owners)
            | None \<Rightarrow> claim_scopes tid ss (put scope tid owners)))"

fun validate_tasks :: "Task list \<Rightarrow> string list \<Rightarrow> (string, string) gomap \<Rightarrow> string option" where
  "validate_tasks [] seen owners = None"
| "validate_tasks (t # ts) seen owners =
     (if trim_space (task_ID t) = [] then Some ''task id is required''
      else if task_ID t \<in> set seen then Some (''duplicate task id '' @ go_quote (task_ID t))
      else if trim_space (task_Goal t) = [] then Some (''task '' @ go_quote (task_ID t) @ '' goal is required'')
      else (case find (\<lambda>tool. tool \<in> set blockedTools) (task_AllowedTools t) of
              Some tool \<Rightarrow> Some (''task '' @ go_quote (task_ID t) @ '' uses blocked tool '' @ go_quote tool)
            | None \<Rightarrow>
                (case claim_scopes (task_ID t) (task_WriteScopes t) owners of
                   Inl e \<Rightarrow> Some e
                 | Inr owners' \<Rightarrow> validate_tasks ts (task_ID t # seen) owners')))"

text \<open>The plan is passed by value: the \<open>1\<close> that \<^verbatim>\<open>Validate\<close> assigns to a bound that is not positive
  stays in its copy.\<close>

definition ValidatePlan :: "MAPolicy \<Rightarrow> Plan \<Rightarrow> string option" where
  "ValidatePlan p plan =
     (let limit = (if map_MaxConcurrent p \<le> 0 then 3 else map_MaxConcurrent p);
          bound = (if plan_MaxConcurrent plan \<le> 0 then 1 else plan_MaxConcurrent plan)
      in if trim_space (plan_Objective plan) = [] then Some ''objective is required''
         else if plan_Tasks plan = [] then Some ''at least one task is required''
         else if plan_Mode plan \<noteq> TaskModeSequential \<and> plan_Mode plan \<noteq> TaskModeParallel
         then Some (''invalid mode '' @ go_quote (plan_Mode plan))
         else if limit < bound then Some ''max_concurrent exceeds policy limit''
         else validate_tasks (plan_Tasks plan) [] [])"

section \<open>The planner\<close>

definition canRunParallel :: "Task list \<Rightarrow> bool" where
  "canRunParallel tasks = (1 < length tasks \<and> list_all (\<lambda>t. task_WriteScopes t = []) tasks)"

definition BuildPlan :: "MAPolicy \<Rightarrow> string \<Rightarrow> Task list \<Rightarrow> Plan \<times> string option" where
  "BuildPlan p objective tasks =
     (let mode = (if canRunParallel tasks then TaskModeParallel else TaskModeSequential);
          bound = (if mode = TaskModeParallel then min (max 1 (int (length tasks))) (map_MaxConcurrent p) else 1);
          plan = \<lparr>plan_Objective = trim_space objective, plan_Mode = mode, plan_MaxConcurrent = bound,
                  plan_ParentSessionID = 0, plan_Tasks = tasks\<rparr>
      in (plan, ValidatePlan p plan))"

section \<open>The aggregator\<close>

definition add_new :: "string list \<Rightarrow> string list \<Rightarrow> string list" where
  "add_new acc xs = foldl (\<lambda>a x. if x \<in> set a then a else a @ [x]) acc xs"

definition aggregate_one :: "Aggregate \<Rightarrow> Result \<Rightarrow> Aggregate" where
  "aggregate_one a r = a\<lparr>
     agg_Completed := agg_Completed a + (if res_Status r = ResultCompleted then 1 else 0),
     agg_Failed := agg_Failed a + (if res_Status r = ResultFailed then 1 else 0),
     agg_Skipped := agg_Skipped a + (if res_Status r = ResultSkipped then 1 else 0),
     agg_Summaries := agg_Summaries a @ (if res_Summary r \<noteq> [] then [res_Summary r] else []),
     agg_Risks := add_new (agg_Risks a) (res_Risks r),
     agg_NextActions := add_new (agg_NextActions a) (res_NextActions r),
     agg_FilesChanged := add_new (agg_FilesChanged a) (res_FilesChanged r)\<rparr>"

definition no_aggregate :: Aggregate where
  "no_aggregate = \<lparr>agg_ParentSessionID = 0, agg_Completed = 0, agg_Failed = 0, agg_Skipped = 0,
     agg_Summaries = [], agg_Risks = [], agg_NextActions = [], agg_FilesChanged = []\<rparr>"

definition AggregateResults :: "Result list \<Rightarrow> Aggregate" where
  "AggregateResults rs = foldl aggregate_one no_aggregate rs"

section \<open>Sequential runs\<close>

text \<open>\<open>runner\<close> runs one task on a world of type \<open>'w\<close>; \<open>cancelled w\<close> says that the context is done.\<close>

fun run_sequential :: "(Task \<Rightarrow> 'w \<Rightarrow> Result \<times> 'w) \<Rightarrow> ('w \<Rightarrow> bool) \<Rightarrow> Task list \<Rightarrow> Result list \<Rightarrow> 'w \<Rightarrow> Result list option \<times> 'w" where
  "run_sequential runner cancelled [] acc w = (Some acc, w)"
| "run_sequential runner cancelled (t # ts) acc w =
     (if cancelled w then (None, w)
      else (case runner t w of (r, w') \<Rightarrow> run_sequential runner cancelled ts (acc @ [r]) w'))"

section \<open>Parallel runs\<close>

datatype phase = Waiting | Running | Sent | Released

datatype run_status = Collecting | Finished | Cancelled

record 'w par_state =
  ps_phase :: "phase list"
  ps_chan :: "(nat \<times> Result) list"
  ps_results :: "Result option list"
  ps_received :: nat
  ps_status :: run_status
  ps_world :: 'w

datatype par_event = Acquire nat | Work nat | Release nat | Receive | Cancel

definition slots_used :: "'w par_state \<Rightarrow> nat" where
  "slots_used s = length (filter (\<lambda>p. p = Running \<or> p = Sent) (ps_phase s))"

definition par_start :: "Plan \<Rightarrow> 'w \<Rightarrow> 'w par_state" where
  "par_start plan w =
     \<lparr>ps_phase = replicate (length (plan_Tasks plan)) Waiting, ps_chan = [],
      ps_results = replicate (length (plan_Tasks plan)) None, ps_received = 0,
      ps_status = Collecting, ps_world = w\<rparr>"

text \<open>One event, \<open>None\<close> when it is not enabled. A send on the semaphore is possible while fewer than
  its capacity hold it; with capacity 0 it needs a receiver, and the only receivers are goroutines
  that hold a slot. The result channel has room for every task, so sending a result never blocks.\<close>

fun par_step :: "(Task \<Rightarrow> 'w \<Rightarrow> Result \<times> 'w) \<Rightarrow> ('w \<Rightarrow> bool) \<Rightarrow> Plan \<Rightarrow> par_event \<Rightarrow> 'w par_state \<Rightarrow> 'w par_state option" where
  "par_step runner cancelled plan (Acquire i) s =
     (if i < length (ps_phase s) \<and> ps_phase s ! i = Waiting \<and> int (slots_used s) < plan_MaxConcurrent plan
      then Some (s\<lparr>ps_phase := (ps_phase s)[i := Running]\<rparr>) else None)"
| "par_step runner cancelled plan (Work i) s =
     (if i < length (ps_phase s) \<and> ps_phase s ! i = Running
      then (case runner (plan_Tasks plan ! i) (ps_world s) of
              (r, w) \<Rightarrow> Some (s\<lparr>ps_phase := (ps_phase s)[i := Sent], ps_chan := ps_chan s @ [(i, r)], ps_world := w\<rparr>))
      else None)"
| "par_step runner cancelled plan (Release i) s =
     (if i < length (ps_phase s) \<and> ps_phase s ! i = Sent
      then Some (s\<lparr>ps_phase := (ps_phase s)[i := Released]\<rparr>) else None)"
| "par_step runner cancelled plan Receive s =
     (case ps_chan s of
        (i, r) # rest \<Rightarrow>
          if ps_status s = Collecting
          then Some (s\<lparr>ps_chan := rest, ps_results := (ps_results s)[i := Some r],
                      ps_received := ps_received s + 1,
                      ps_status := (if ps_received s + 1 = length (plan_Tasks plan) then Finished else Collecting)\<rparr>)
          else None
      | [] \<Rightarrow> None)"
| "par_step runner cancelled plan Cancel s =
     (if ps_status s = Collecting \<and> cancelled (ps_world s) then Some (s\<lparr>ps_status := Cancelled\<rparr>) else None)"

fun par_exec :: "(Task \<Rightarrow> 'w \<Rightarrow> Result \<times> 'w) \<Rightarrow> ('w \<Rightarrow> bool) \<Rightarrow> Plan \<Rightarrow> par_event list \<Rightarrow> 'w par_state \<Rightarrow> 'w par_state option" where
  "par_exec runner cancelled plan [] s = Some s"
| "par_exec runner cancelled plan (e # es) s =
     (case par_step runner cancelled plan e s of
        None \<Rightarrow> None | Some s' \<Rightarrow> par_exec runner cancelled plan es s')"

text \<open>What \<^verbatim>\<open>Run\<close> gives its caller. The schedule decides a parallel run; a schedule that is not
  enabled or ends before the collector returns leaves the call waiting. A negative bound makes the
  semaphore's creation panic.\<close>

datatype run_outcome =
    RunError string
  | RunCancelled
  | RunPanic
  | RunBlocked
  | RunDone "Result list" Aggregate

definition RunPlan :: "MAPolicy \<Rightarrow> (Task \<Rightarrow> 'w \<Rightarrow> Result \<times> 'w) \<Rightarrow> ('w \<Rightarrow> bool) \<Rightarrow> par_event list \<Rightarrow> Plan \<Rightarrow> 'w \<Rightarrow> run_outcome \<times> 'w" where
  "RunPlan p runner cancelled schedule plan w =
     (case ValidatePlan p plan of
        Some e \<Rightarrow> (RunError e, w)
      | None \<Rightarrow>
          if plan_Mode plan = TaskModeParallel
          then if plan_MaxConcurrent plan < 0 then (RunPanic, w)
               else (case par_exec runner cancelled plan schedule (par_start plan w) of
                       None \<Rightarrow> (RunBlocked, w)
                     | Some s \<Rightarrow>
                         (case ps_status s of
                            Collecting \<Rightarrow> (RunBlocked, ps_world s)
                          | Cancelled \<Rightarrow> (RunCancelled, ps_world s)
                          | Finished \<Rightarrow> (let rs = map the (ps_results s)
                                         in (RunDone rs (AggregateResults rs), ps_world s))))
          else (case run_sequential runner cancelled (plan_Tasks plan) [] w of
                  (None, w') \<Rightarrow> (RunCancelled, w')
                | (Some rs, w') \<Rightarrow> (RunDone rs (AggregateResults rs), w')))"

end
