(* ===== verification/MultiAgentRun.thy ===== *)
theory MultiAgentRun
  imports MultiAgentProps
begin

text \<open>
  The parallel run as a machine: an invariant over every schedule, a bound on the length of every
  schedule, progress while the collector waits, and what the collector returns.
\<close>

section \<open>The invariant\<close>

lemma length_filter_update:
  "i < length xs \<Longrightarrow> length (filter P (xs[i := y])) + (if P (xs ! i) then 1 else 0)
     = length (filter P xs) + (if P y then 1 else 0)"
proof (induction xs arbitrary: i)
  case (Cons x xs)
  then show ?case by (cases i) auto
qed simp

text \<open>The tasks whose result was sent, received or not.\<close>

definition task_done :: "phase \<Rightarrow> bool" where
  "task_done ph \<longleftrightarrow> ph = Sent \<or> ph = Released"

definition result_of_task :: "(Task \<Rightarrow> 'w \<Rightarrow> Result \<times> 'w) \<Rightarrow> Plan \<Rightarrow> nat \<Rightarrow> Result \<Rightarrow> bool" where
  "result_of_task runner plan i r \<longleftrightarrow> (\<exists>w. r = fst (runner (plan_Tasks plan ! i) w))"

definition par_inv :: "(Task \<Rightarrow> 'w \<Rightarrow> Result \<times> 'w) \<Rightarrow> Plan \<Rightarrow> par_event list \<Rightarrow> 'w par_state \<Rightarrow> bool" where
  "par_inv runner plan es s \<longleftrightarrow>
     length (ps_phase s) = length (plan_Tasks plan) \<and> length (ps_results s) = length (plan_Tasks plan)
     \<and> (0 \<le> plan_MaxConcurrent plan \<longrightarrow> int (slots_used s) \<le> plan_MaxConcurrent plan)
     \<and> distinct (map fst (ps_chan s))
     \<and> (\<forall>i < length (plan_Tasks plan). task_done (ps_phase s ! i) \<longleftrightarrow> i \<in> fst ` set (ps_chan s) \<or> ps_results s ! i \<noteq> None)
     \<and> (\<forall>(i, r)\<in>set (ps_chan s). i < length (plan_Tasks plan) \<and> ps_results s ! i = None \<and> result_of_task runner plan i r)
     \<and> (\<forall>i < length (plan_Tasks plan). \<forall>r. ps_results s ! i = Some r \<longrightarrow> result_of_task runner plan i r)
     \<and> ps_received s = length (filter (\<lambda>x. x \<noteq> None) (ps_results s))
     \<and> (ps_status s = Collecting \<longleftrightarrow> ps_received s < length (plan_Tasks plan) \<and> ps_status s \<noteq> Cancelled)
     \<and> (\<forall>i < length (plan_Tasks plan). count_list es (Work i) = (if task_done (ps_phase s ! i) then 1 else 0))"

lemma par_inv_start: "plan_Tasks plan \<noteq> [] \<Longrightarrow> par_inv runner plan [] (par_start plan w)"
  by (simp add: par_inv_def par_start_def slots_used_def task_done_def)

lemma par_inv_step:
  assumes "par_inv runner plan es s" "par_step runner cancelled plan e s = Some s'"
  shows "par_inv runner plan (es @ [e]) s'"
proof (cases e)
  case (Acquire i)
  then have s': "i < length (ps_phase s)" "ps_phase s ! i = Waiting" "int (slots_used s) < plan_MaxConcurrent plan"
    "s' = s\<lparr>ps_phase := (ps_phase s)[i := Running]\<rparr>"
    using assms(2) by (auto split: if_splits)
  have "slots_used s' = slots_used s + 1"
    using length_filter_update [OF s'(1), of "\<lambda>p. p = Running \<or> p = Sent" Running] s' by (simp add: slots_used_def)
  then show ?thesis
    using assms(1) s' Acquire unfolding par_inv_def
    by (auto simp: nth_list_update task_done_def)
next
  case (Work i)
  obtain r w where run: "runner (plan_Tasks plan ! i) (ps_world s) = (r, w)" by force
  then have s': "i < length (ps_phase s)" "ps_phase s ! i = Running"
    "s' = s\<lparr>ps_phase := (ps_phase s)[i := Sent], ps_chan := ps_chan s @ [(i, r)], ps_world := w\<rparr>"
    using assms(2) Work by (auto split: if_splits)
  have "slots_used s' = slots_used s"
    using length_filter_update [OF s'(1), of "\<lambda>p. p = Running \<or> p = Sent" Sent] s' by (simp add: slots_used_def)
  moreover have "result_of_task runner plan i r" using run by (metis fst_conv result_of_task_def)
  moreover have nd: "\<not> task_done (ps_phase s ! i)" using s'(2) by (simp add: task_done_def)
  moreover have "i \<notin> fst ` set (ps_chan s)" "ps_results s ! i = None"
    using assms(1) nd s'(1) unfolding par_inv_def by auto
  moreover have "task_done Sent" by (simp add: task_done_def)
  ultimately show ?thesis
    using assms(1) s' Work unfolding par_inv_def
    by (auto simp: nth_list_update)
next
  case (Release i)
  then have s': "i < length (ps_phase s)" "ps_phase s ! i = Sent"
    "s' = s\<lparr>ps_phase := (ps_phase s)[i := Released]\<rparr>"
    using assms(2) by (auto split: if_splits)
  have "slots_used s' + 1 = slots_used s"
    using length_filter_update [OF s'(1), of "\<lambda>p. p = Running \<or> p = Sent" Released] s' by (simp add: slots_used_def)
  then show ?thesis
    using assms(1) s' Release unfolding par_inv_def
    by (auto simp: nth_list_update task_done_def)
next
  case Receive
  then obtain i r rest where c: "ps_chan s = (i, r) # rest" "ps_status s = Collecting"
    and s': "s' = s\<lparr>ps_chan := rest, ps_results := (ps_results s)[i := Some r], ps_received := ps_received s + 1,
      ps_status := (if ps_received s + 1 = length (plan_Tasks plan) then Finished else Collecting)\<rparr>"
    using assms(2) by (auto split: list.splits if_splits)
  have i: "i < length (ps_results s)" "ps_results s ! i = None" "result_of_task runner plan i r"
    "i \<notin> fst ` set rest"
    using assms(1) c unfolding par_inv_def by auto
  have "length (filter (\<lambda>x. x \<noteq> None) ((ps_results s)[i := Some r])) = length (filter (\<lambda>x. x \<noteq> None) (ps_results s)) + 1"
    using length_filter_update [OF i(1), of "\<lambda>x. x \<noteq> None" "Some r"] i(2) by simp
  then have cnt: "length (filter (\<lambda>x. x \<noteq> None) (ps_results s')) = ps_received s + 1"
    using assms(1) by (simp add: s' par_inv_def)
  have len: "length (ps_results s') = length (plan_Tasks plan)" "length (ps_phase s') = length (plan_Tasks plan)"
    using assms(1) by (simp_all add: s' par_inv_def)
  have le: "ps_received s + 1 \<le> length (plan_Tasks plan)"
    using cnt len length_filter_le [of "\<lambda>x. x \<noteq> None" "ps_results s'"] by simp
  have res: "ps_results s' ! j = (if j = i then Some r else ps_results s ! j)" if "j < length (plan_Tasks plan)" for j
    using that i(1) len by (simp add: s' nth_list_update)
  have dn: "\<forall>j < length (plan_Tasks plan). task_done (ps_phase s' ! j) \<longleftrightarrow> j \<in> fst ` set (ps_chan s') \<or> ps_results s' ! j \<noteq> None"
  proof (intro allI impI)
    fix j assume j: "j < length (plan_Tasks plan)"
    then have "task_done (ps_phase s ! j) \<longleftrightarrow> j \<in> fst ` set (ps_chan s) \<or> ps_results s ! j \<noteq> None"
      using assms(1) by (simp add: par_inv_def)
    then show "task_done (ps_phase s' ! j) \<longleftrightarrow> j \<in> fst ` set (ps_chan s') \<or> ps_results s' ! j \<noteq> None"
      using res [OF j] i(4) by (auto simp: s' c)
  qed
  have ch: "\<forall>(j, x)\<in>set (ps_chan s'). j < length (plan_Tasks plan) \<and> ps_results s' ! j = None \<and> result_of_task runner plan j x"
  proof (intro ballI, clarify)
    fix j x assume jx: "(j, x) \<in> set (ps_chan s')"
    then have "(j, x) \<in> set (ps_chan s)" "j \<noteq> i" using i(4) by (auto simp: s' c image_iff)
    then show "j < length (plan_Tasks plan) \<and> ps_results s' ! j = None \<and> result_of_task runner plan j x"
      using assms(1) res by (auto simp: par_inv_def)
  qed
  have rs: "\<forall>j < length (plan_Tasks plan). \<forall>x. ps_results s' ! j = Some x \<longrightarrow> result_of_task runner plan j x"
    using assms(1) res i(3) by (auto simp: par_inv_def)
  have wk: "\<forall>j < length (plan_Tasks plan). count_list (es @ [e]) (Work j) = (if task_done (ps_phase s' ! j) then 1 else 0)"
    using assms(1) Receive by (simp add: par_inv_def s')
  have di: "distinct (map fst (ps_chan s'))"
    using assms(1) by (simp add: par_inv_def s' c)
  have sl: "0 \<le> plan_MaxConcurrent plan \<longrightarrow> int (slots_used s') \<le> plan_MaxConcurrent plan"
    using assms(1) by (simp add: par_inv_def s' slots_used_def)
  have rc: "ps_received s' = length (filter (\<lambda>x. x \<noteq> None) (ps_results s'))"
    using cnt by (simp add: s')
  have st: "ps_status s' = Collecting \<longleftrightarrow> ps_received s' < length (plan_Tasks plan) \<and> ps_status s' \<noteq> Cancelled"
    using le by (auto simp: s')
  show ?thesis
    unfolding par_inv_def using len sl di dn ch rs rc st wk by blast
next
  case Cancel
  then have "s' = s\<lparr>ps_status := Cancelled\<rparr>" using assms(2) by (auto split: if_splits)
  then show ?thesis
    using assms(1) Cancel unfolding par_inv_def by (auto simp: slots_used_def)
qed

lemma par_exec_inv:
  assumes "par_exec runner cancelled plan es s = Some s'" "par_inv runner plan pre s"
  shows "par_inv runner plan (pre @ es) s'"
  using assms
proof (induction es arbitrary: s pre)
  case (Cons e es)
  then obtain s1 where "par_step runner cancelled plan e s = Some s1" "par_exec runner cancelled plan es s1 = Some s'"
    by (auto split: option.splits)
  then show ?case
    using Cons.IH [of s1 "pre @ [e]"] par_inv_step Cons.prems(2) by fastforce
qed simp

end
