(* ===== verification/MultiAgentLive.thy ===== *)
theory MultiAgentLive
  imports MultiAgentRun
begin

text \<open>
  What callers of the parallel run rely on: results in task order, the concurrency bound, an end to
  every schedule, progress while the bound is positive, and the block when it is not.
\<close>

section \<open>Every schedule ends\<close>

fun weight :: "phase \<Rightarrow> nat" where
  "weight Waiting = 4"
| "weight Running = 3"
| "weight Sent = 1"
| "weight Released = 0"

definition par_measure :: "'w par_state \<Rightarrow> nat" where
  "par_measure s = sum_list (map weight (ps_phase s)) + length (ps_chan s)
     + (if ps_status s = Collecting then 1 else 0)"

lemma weight_update:
  "i < length ps \<Longrightarrow> sum_list (map weight (ps[i := q])) + weight (ps ! i) = sum_list (map weight ps) + weight q"
proof (induction ps arbitrary: i)
  case (Cons p ps)
  then show ?case by (cases i) auto
qed simp

lemma par_step_decreases:
  assumes "par_step runner cancelled plan e s = Some s'"
  shows "par_measure s' < par_measure s"
proof (cases e)
  case (Acquire i)
  then show ?thesis
    using assms weight_update [of i "ps_phase s" Running] by (auto simp: par_measure_def split: if_split_asm)
next
  case (Work i)
  then show ?thesis
    using assms weight_update [of i "ps_phase s" Sent] by (auto simp: par_measure_def split: if_split_asm prod.split_asm)
next
  case (Release i)
  then show ?thesis
    using assms weight_update [of i "ps_phase s" Released] by (auto simp: par_measure_def split: if_split_asm)
next
  case Receive
  then show ?thesis
    using assms by (auto simp: par_measure_def split: list.split_asm if_split_asm)
next
  case Cancel
  then show ?thesis
    using assms by (auto simp: par_measure_def split: if_split_asm)
qed

lemma par_exec_bound:
  "par_exec runner cancelled plan es s = Some s' \<Longrightarrow> length es + par_measure s' \<le> par_measure s"
proof (induction es arbitrary: s)
  case (Cons e es)
  then obtain s1 where "par_step runner cancelled plan e s = Some s1" "par_exec runner cancelled plan es s1 = Some s'"
    by (auto split: option.splits)
  then show ?case using Cons.IH [of s1] par_step_decreases by fastforce
qed simp

lemma par_measure_start: "par_measure (par_start plan w) = 4 * length (plan_Tasks plan) + 1"
  by (simp add: par_measure_def par_start_def sum_list_replicate)

section \<open>Progress\<close>

lemma filter_all_some: "length (filter (\<lambda>x. x \<noteq> None) xs) = length xs \<Longrightarrow> i < length xs \<Longrightarrow> xs ! i \<noteq> None"
  using length_filter_less [of "xs ! i" xs "\<lambda>x. x \<noteq> None"] by auto

lemma filter_some_lt: "length (filter P xs) < length xs \<Longrightarrow> \<exists>x\<in>set xs. \<not> P x"
  by (induction xs) (auto split: if_splits)

lemma par_progress:
  assumes inv: "par_inv runner plan es s" and pos: "0 < plan_MaxConcurrent plan" and c: "ps_status s = Collecting"
  shows "\<exists>e. e \<noteq> Cancel \<and> par_step runner cancelled plan e s \<noteq> None"
proof -
  let ?n = "length (plan_Tasks plan)"
  have len: "length (ps_phase s) = ?n" "length (ps_results s) = ?n"
    using inv by (simp_all add: par_inv_def)
  show ?thesis
  proof (cases "ps_chan s = []")
    case False
    then have "par_step runner cancelled plan Receive s \<noteq> None" using c by (cases "ps_chan s") auto
    then show ?thesis by blast
  next
    case True
    have "ps_received s < ?n" using inv c by (simp add: par_inv_def)
    then have "length (filter (\<lambda>x. x \<noteq> None) (ps_results s)) < length (ps_results s)"
      using inv by (simp add: par_inv_def)
    then have "None \<in> set (ps_results s)" using filter_some_lt by fastforce
    then obtain i where i: "i < ?n" "ps_results s ! i = None"
      unfolding in_set_conv_nth len(2) by blast
    then have nd: "\<not> task_done (ps_phase s ! i)" using inv True by (auto simp: par_inv_def)
    show ?thesis
    proof (cases "\<exists>j < ?n. ps_phase s ! j = Running \<or> ps_phase s ! j = Sent")
      case True
      then obtain j where "j < ?n" "ps_phase s ! j = Running \<or> ps_phase s ! j = Sent" by blast
      then have "par_step runner cancelled plan (Work j) s \<noteq> None \<or> par_step runner cancelled plan (Release j) s \<noteq> None"
        using len by (auto split: prod.split)
      then show ?thesis by blast
    next
      case False
      then have "slots_used s = 0"
        unfolding slots_used_def using len(1) by (auto simp: filter_empty_conv in_set_conv_nth)
      moreover have "ps_phase s ! i = Waiting"
        using nd False i(1) by (cases "ps_phase s ! i") (auto simp: task_done_def)
      ultimately have "par_step runner cancelled plan (Acquire i) s \<noteq> None"
        using i(1) len pos by simp
      then show ?thesis by blast
    qed
  qed
qed

text \<open>C9. In a parallel run of a plan with a positive bound, whatever the interleaving: at most
  \<^verbatim>\<open>max_concurrent\<close> tasks hold a slot at any time; no schedule is longer than four steps per task
  and one; and while the collector waits some goroutine or the collector can move, so every
  schedule that goes on as long as it can ends with the collector returned.\<close>

theorem parallel_run_bounded_and_live:
  assumes "ValidatePlan p plan = None" "0 < plan_MaxConcurrent plan"
    and run: "par_exec runner cancelled plan es (par_start plan w) = Some s"
  shows "int (slots_used s) \<le> plan_MaxConcurrent plan \<and> length es \<le> 4 * length (plan_Tasks plan) + 1
    \<and> (ps_status s = Collecting \<longrightarrow> (\<exists>e. e \<noteq> Cancel \<and> par_step runner cancelled plan e s \<noteq> None))"
proof -
  have "plan_Tasks plan \<noteq> []" using assms(1) by (simp add: ValidatePlan_None)
  from par_exec_inv [OF run par_inv_start [OF this]] have inv: "par_inv runner plan es s" by simp
  show ?thesis
    using inv par_progress [OF inv assms(2)] par_exec_bound [OF run] assms(2)
    by (auto simp: par_measure_start par_inv_def)
qed

text \<open>So a schedule that was begun can always be completed.\<close>

lemma par_exec_append:
  "par_exec runner cancelled plan (es @ fs) s = Option.bind (par_exec runner cancelled plan es s) (par_exec runner cancelled plan fs)"
  by (induction es arbitrary: s) (auto split: option.split)

lemma par_completes:
  assumes "par_inv runner plan es s" "0 < plan_MaxConcurrent plan"
  shows "\<exists>more s'. par_exec runner cancelled plan more s = Some s' \<and> ps_status s' \<noteq> Collecting"
  using assms(1)
proof (induction s arbitrary: es rule: measure_induct_rule [of par_measure])
  case (less s)
  show ?case
  proof (cases "ps_status s = Collecting")
    case True
    then obtain e s1 where e: "par_step runner cancelled plan e s = Some s1"
      using par_progress [OF less.prems assms(2)] by blast
    from less.IH [OF par_step_decreases [OF e] par_inv_step [OF less.prems e]] obtain more s'
      where "par_exec runner cancelled plan more s1 = Some s'" "ps_status s' \<noteq> Collecting" by blast
    then show ?thesis using e by (intro exI [of _ "e # more"] exI [of _ s']) simp
  next
    case False
    then show ?thesis by (intro exI [of _ "[]"] exI [of _ s]) simp
  qed
qed

text \<open>How a run ends that the caller gets back.\<close>

definition run_ends :: "Plan \<Rightarrow> run_outcome \<Rightarrow> bool" where
  "run_ends plan r \<longleftrightarrow>
     r = RunCancelled \<or> (\<exists>rs. r = RunDone rs (AggregateResults rs) \<and> length rs = length (plan_Tasks plan))"

lemma sequential_length: "run_sequential runner cancelled ts acc w = (Some rs, w') \<Longrightarrow> length rs = length acc + length ts"
  by (induction ts arbitrary: acc w) (auto split: if_split_asm prod.split_asm)

lemma plan_run_ends:
  assumes v: "ValidatePlan p plan = None" and pos: "0 < plan_MaxConcurrent plan"
    and begun: "par_exec runner cancelled plan es (par_start plan w) \<noteq> None"
  shows "\<exists>more. run_ends plan (fst (RunPlan p runner cancelled (es @ more) plan w))"
proof (cases "plan_Mode plan = TaskModeParallel")
  case True
  obtain s where s: "par_exec runner cancelled plan es (par_start plan w) = Some s" using begun by blast
  have "plan_Tasks plan \<noteq> []" using v by (simp add: ValidatePlan_None)
  from par_exec_inv [OF s par_inv_start [OF this]] have inv: "par_inv runner plan es s" by simp
  from par_completes [OF inv pos] obtain more s' where m: "par_exec runner cancelled plan more s = Some s'" "ps_status s' \<noteq> Collecting"
    by blast
  have "length (ps_results s') = length (plan_Tasks plan)"
    using par_exec_inv [OF m(1) inv] by (simp add: par_inv_def)
  then have "run_ends plan (fst (RunPlan p runner cancelled (es @ more) plan w))"
    using v True pos s m
    by (cases "ps_status s'") (simp_all add: RunPlan_def par_exec_append run_ends_def Let_def)
  then show ?thesis ..
next
  case False
  obtain r w' where r: "run_sequential runner cancelled (plan_Tasks plan) [] w = (r, w')" by fastforce
  then show ?thesis
    using v False sequential_length [of runner cancelled "plan_Tasks plan" "[]" w _ w']
    by (intro exI [of _ "[]"]) (cases r; auto simp: RunPlan_def run_ends_def)
qed

text \<open>C23. When the policy's limit is positive, a plan the planner builds without error is the given tasks under the
  trimmed objective, accepted by the policy; it runs in parallel exactly when there are several tasks and none
  of them writes. Its run cannot block: from however far any interleaving of its goroutines has come, some
  continuation brings the caller the results of all its tasks, or the news that the context was cancelled.\<close>

theorem planner_builds_runnable:
  assumes "0 < map_MaxConcurrent p" "BuildPlan p objective tasks = (plan, None)"
    and "par_exec runner cancelled plan es (par_start plan w) \<noteq> None"
  shows "ValidatePlan p plan = None \<and> plan_Tasks plan = tasks \<and> plan_Objective plan = trim_space objective
    \<and> (plan_Mode plan = TaskModeParallel \<longleftrightarrow> 1 < length tasks \<and> (\<forall>t\<in>set tasks. task_WriteScopes t = []))
    \<and> 0 < plan_MaxConcurrent plan \<and> plan_MaxConcurrent plan \<le> map_MaxConcurrent p
    \<and> plan_MaxConcurrent plan \<le> int (length tasks)
    \<and> (\<exists>more. run_ends plan (fst (RunPlan p runner cancelled (es @ more) plan w)))"
  using planner_builds [OF assms(1,2)] plan_run_ends [OF _ _ assms(3)] by blast

section \<open>What is returned\<close>

text \<open>C19. When a parallel run returns results, there is one per task, in the order of the plan, each
  of them produced by the runner on that very task, and each task was run exactly once.\<close>

theorem parallel_results_in_order:
  assumes "plan_Mode plan = TaskModeParallel"
    and "RunPlan p runner cancelled schedule plan w = (RunDone rs agg, w')"
  shows "agg = AggregateResults rs \<and> length rs = length (plan_Tasks plan)
    \<and> (\<forall>i < length rs. result_of_task runner plan i (rs ! i) \<and> count_list schedule (Work i) = 1)"
proof -
  from assms obtain s where v: "ValidatePlan p plan = None"
    and run: "par_exec runner cancelled plan schedule (par_start plan w) = Some s"
    and fin: "ps_status s = Finished" and rs: "rs = map the (ps_results s)" "agg = AggregateResults rs"
    by (auto simp: RunPlan_def Let_def split: option.split_asm if_split_asm run_status.split_asm)
  have "plan_Tasks plan \<noteq> []" using v by (simp add: ValidatePlan_None)
  from par_exec_inv [OF run par_inv_start [OF this]] have inv: "par_inv runner plan schedule s" by simp
  then have n: "length (ps_results s) = length (plan_Tasks plan)" by (simp add: par_inv_def)
  have "\<not> ps_received s < length (plan_Tasks plan)" using inv fin by (auto simp: par_inv_def)
  then have all: "length (filter (\<lambda>x. x \<noteq> None) (ps_results s)) = length (ps_results s)"
    using inv n length_filter_le [of "\<lambda>x. x \<noteq> None" "ps_results s"] by (simp add: par_inv_def)
  have "result_of_task runner plan i (rs ! i) \<and> count_list schedule (Work i) = 1" if i: "i < length rs" for i
  proof -
    have "i < length (ps_results s)" using i rs by simp
    then obtain r where r: "ps_results s ! i = Some r" using filter_all_some [OF all] by blast
    then have "task_done (ps_phase s ! i)" using inv i n rs by (auto simp: par_inv_def)
    then show ?thesis using inv i n rs r by (auto simp: par_inv_def)
  qed
  then show ?thesis using rs n by simp
qed

section \<open>A bound of zero\<close>

text \<open>C39. A parallel plan whose bound is 0 passes validation, but its run never returns: whatever the
  schedule, the goroutines wait for a semaphore without capacity, and the collector for them.\<close>

theorem zero_bound_blocks:
  assumes "plan_Mode plan = TaskModeParallel" "plan_MaxConcurrent plan = 0"
    and "ValidatePlan p plan = None" "\<not> cancelled w"
  shows "fst (RunPlan p runner cancelled schedule plan w) = RunBlocked"
proof -
  have "par_step runner cancelled plan e (par_start plan w) = None" for e
    using assms(2,4) by (cases e) (auto simp: par_start_def slots_used_def)
  then have "par_exec runner cancelled plan schedule (par_start plan w) = Some (par_start plan w)
      \<or> par_exec runner cancelled plan schedule (par_start plan w) = None"
    by (cases schedule) auto
  then show ?thesis
    using assms by (auto simp: RunPlan_def par_start_def)
qed

section \<open>The aggregate\<close>

definition count_status :: "ResultStatus \<Rightarrow> Result list \<Rightarrow> int" where
  "count_status st rs = int (length (filter (\<lambda>r. res_Status r = st) rs))"

lemma add_new_spec: "distinct acc \<Longrightarrow> distinct (add_new acc xs) \<and> set (add_new acc xs) = set acc \<union> set xs"
  unfolding add_new_def by (induction xs arbitrary: acc) auto

lemma add_new_prefix: "\<exists>t. add_new acc xs = acc @ t"
  unfolding add_new_def
proof (induction xs arbitrary: acc)
  case (Cons x xs)
  from Cons.IH [of "if x \<in> set acc then acc else acc @ [x]"] show ?case by auto
qed simp

definition agg_matches :: "Result list \<Rightarrow> Aggregate \<Rightarrow> bool" where
  "agg_matches rs a \<longleftrightarrow>
     agg_Completed a = count_status ResultCompleted rs \<and> agg_Failed a = count_status ResultFailed rs
     \<and> agg_Skipped a = count_status ResultSkipped rs
     \<and> agg_Summaries a = filter (\<lambda>s. s \<noteq> []) (map res_Summary rs)
     \<and> distinct (agg_Risks a) \<and> set (agg_Risks a) = (\<Union>r\<in>set rs. set (res_Risks r))
     \<and> distinct (agg_NextActions a) \<and> set (agg_NextActions a) = (\<Union>r\<in>set rs. set (res_NextActions r))
     \<and> distinct (agg_FilesChanged a) \<and> set (agg_FilesChanged a) = (\<Union>r\<in>set rs. set (res_FilesChanged r))"

text \<open>The aggregate counts every result under its status, keeps the summaries that are not empty in
  order, and unites risks, next actions and changed files without repetition.\<close>

lemma aggregate_matches: "agg_matches rs (AggregateResults rs)"
proof (induction rs rule: rev_induct)
  case Nil
  then show ?case by (simp add: AggregateResults_def agg_matches_def no_aggregate_def count_status_def)
next
  case (snoc r rs)
  then show ?case
    by (simp add: AggregateResults_def agg_matches_def aggregate_one_def count_status_def add_new_spec Un_commute)
qed

section \<open>Concrete runs\<close>

definition demo_result :: "Task \<Rightarrow> Result" where
  "demo_result t = \<lparr>res_TaskID = task_ID t, res_ChildSessionID = 0, res_Status = ResultCompleted,
     res_Summary = task_Goal t, res_Trace = [], res_FilesChanged = [], res_Risks = [], res_NextActions = []\<rparr>"

definition demo_plan :: "int \<Rightarrow> Plan" where
  "demo_plan n = \<lparr>plan_Objective = ''o'', plan_Mode = TaskModeParallel, plan_MaxConcurrent = n,
     plan_ParentSessionID = 0, plan_Tasks = [demo_task ''a'', demo_task ''b'']\<rparr>"

lemma demo_plan_valid: "ValidatePlan DefaultMAPolicy (demo_plan 0) = None" "ValidatePlan DefaultMAPolicy (demo_plan 2) = None"
  by code_simp+

definition demo_schedule :: "par_event list" where
  "demo_schedule = [Acquire 1, Acquire 0, Work 1, Release 1, Work 0, Receive, Receive]"

lemma demo_run:
  "fst (RunPlan DefaultMAPolicy (\<lambda>t w. (demo_result t, w + 1)) (\<lambda>w. False) demo_schedule (demo_plan 2) (0::nat)) =
     RunDone [demo_result (demo_task ''a''), demo_result (demo_task ''b'')]
       (AggregateResults [demo_result (demo_task ''a''), demo_result (demo_task ''b'')])"
  using demo_plan_valid(2)
  by (simp add: RunPlan_def demo_schedule_def demo_plan_def par_start_def slots_used_def Let_def numeral_2_eq_2)



theorem parallel_run_bounded_and_live_witness:
  "\<exists>e. e \<noteq> Cancel \<and> par_step (\<lambda>t w. (demo_result t, w)) (\<lambda>w. False) (demo_plan 2) e (par_start (demo_plan 2) ()) \<noteq> None"
  using parallel_run_bounded_and_live [OF demo_plan_valid(2), of "\<lambda>t w. (demo_result t, w)" "\<lambda>w. False" "[]" "()"]
  by (simp add: demo_plan_def par_start_def)

theorem parallel_results_in_order_witness:
  "count_list demo_schedule (Work 1) = 1"
proof -
  obtain w' where r: "RunPlan DefaultMAPolicy (\<lambda>t w. (demo_result t, w + 1)) (\<lambda>w. False) demo_schedule (demo_plan 2) (0::nat) =
     (RunDone [demo_result (demo_task ''a''), demo_result (demo_task ''b'')]
       (AggregateResults [demo_result (demo_task ''a''), demo_result (demo_task ''b'')]), w')"
    using demo_run by (metis prod.collapse)
  have "plan_Mode (demo_plan 2) = TaskModeParallel" by (simp add: demo_plan_def)
  from parallel_results_in_order [OF this r] show ?thesis by simp
qed

theorem zero_bound_blocks_witness:
  "fst (RunPlan DefaultMAPolicy (\<lambda>t w. (demo_result t, w)) (\<lambda>w. False) demo_schedule (demo_plan 0) ()) = RunBlocked"
  by (rule zero_bound_blocks) (simp_all add: demo_plan_valid, simp_all add: demo_plan_def)

theorem planner_builds_runnable_witness:
  "\<exists>more. run_ends (fst (BuildPlan DefaultMAPolicy ''o'' [demo_task ''a'', demo_task ''b'']))
     (fst (RunPlan DefaultMAPolicy (\<lambda>t w. (demo_result t, w)) (\<lambda>w. False) ([Acquire 1] @ more)
       (fst (BuildPlan DefaultMAPolicy ''o'' [demo_task ''a'', demo_task ''b''])) ()))"
proof -
  let ?plan = "fst (BuildPlan DefaultMAPolicy ''o'' [demo_task ''a'', demo_task ''b''])"
  have "snd (BuildPlan DefaultMAPolicy ''o'' [demo_task ''a'', demo_task ''b'']) = None" by code_simp
  then have b: "BuildPlan DefaultMAPolicy ''o'' [demo_task ''a'', demo_task ''b''] = (?plan, None)"
    by (metis prod.collapse)
  have p: "0 < map_MaxConcurrent DefaultMAPolicy" by (simp add: DefaultMAPolicy_def)
  have "plan_MaxConcurrent ?plan = 2" "length (plan_Tasks ?plan) = 2" by code_simp+
  then have "par_exec (\<lambda>t w. (demo_result t, w)) (\<lambda>w. False) ?plan [Acquire 1] (par_start ?plan ()) \<noteq> None"
    by (simp add: par_start_def slots_used_def)
  from planner_builds_runnable [OF p b this] show ?thesis by blast
qed

end
