(* ===== verification/Prompting.thy ===== *)
theory Prompting
  imports ContextEngine StoreOps
begin

text \<open>
  \<^verbatim>\<open>internal/prompting\<close>: the builder of prompt plans and its cache. The builder's dependencies are a
  record of functions on a state of the caller's (in the application the store, the memory files
  and the LLM); the digest that shortens cache keys is the parameter \<open>digest\<close>.
\<close>

section \<open>Plans\<close>

record BuildInput =
  bi_Username :: string
  bi_SessionID :: int
  bi_Prompt :: string
  bi_Model :: string
  bi_HistoryWindow :: int
  bi_MaxPromptChars :: int
  bi_SummaryStrategy :: string
  bi_CompressionEnabled :: bool
  bi_CompressionSummaries :: bool

record BuildResult =
  br_Model :: string
  br_Prompt :: string
  br_SystemBlocks :: "string list"
  br_History :: "LMessage list"
  br_MemoryContext :: string
  br_PersistedSummary :: string
  br_Compression :: CompressionResult
  br_PromptChars :: int
  br_MaxPromptChars :: int
  br_HistoryWindowMessages :: int
  br_HistoryMessagesUsed :: int
  br_SystemBlocksUsed :: int
  br_SummaryUpdated :: bool
  br_CacheHit :: bool
  br_CacheKey :: string
  br_Metadata :: jmap

section \<open>The cache\<close>

record Cache =
  ca_ttl :: int
  ca_entries :: "(string, BuildResult \<times> time) gomap"
  ca_hits :: int
  ca_misses :: int

record CacheStats =
  st_Entries :: int
  st_Hits :: int
  st_Misses :: int
  st_TTL :: int

definition NewCache :: "int \<Rightarrow> Cache" where
  "NewCache ttl = \<lparr>ca_ttl = (if ttl \<le> 0 then 5 * nanos_per_minute else ttl), ca_entries = [], ca_hits = 0, ca_misses = 0\<rparr>"

definition CacheGet :: "time \<Rightarrow> string \<Rightarrow> Cache \<Rightarrow> BuildResult option \<times> Cache" where
  "CacheGet now key c =
     (case get (ca_entries c) key of
        Some (r, expires) \<Rightarrow>
          if expires < now
          then (None, c\<lparr>ca_entries := remove_key key (ca_entries c), ca_misses := ca_misses c + 1\<rparr>)
          else (Some (r\<lparr>br_CacheHit := True, br_CacheKey := key\<rparr>), c\<lparr>ca_hits := ca_hits c + 1\<rparr>)
      | None \<Rightarrow> (None, c\<lparr>ca_entries := remove_key key (ca_entries c), ca_misses := ca_misses c + 1\<rparr>))"

definition CacheSet :: "time \<Rightarrow> string \<Rightarrow> BuildResult \<Rightarrow> Cache \<Rightarrow> Cache" where
  "CacheSet now key r c =
     c\<lparr>ca_entries := put key (r\<lparr>br_CacheKey := key\<rparr>, now + ca_ttl c) (ca_entries c)\<rparr>"

definition CacheClear :: "Cache \<Rightarrow> Cache" where
  "CacheClear c = c\<lparr>ca_entries := []\<rparr>"

definition Stats :: "Cache \<Rightarrow> CacheStats" where
  "Stats c = \<lparr>st_Entries = int (length (ca_entries c)), st_Hits = ca_hits c, st_Misses = ca_misses c, st_TTL = ca_ttl c\<rparr>"

section \<open>The builder\<close>

record 's Dependencies =
  dep_PrefetchMemory :: "string \<Rightarrow> string \<Rightarrow> 's \<Rightarrow> (string, string, 's) outcome"
  dep_GetSummary :: "string \<Rightarrow> 's \<Rightarrow> (string, ContextSummary, 's) outcome"
  dep_PersistSummary :: "string \<Rightarrow> string \<Rightarrow> string \<Rightarrow> 's \<Rightarrow> (string, unit, 's) outcome"
  dep_ListRecent :: "string \<Rightarrow> int \<Rightarrow> 's \<Rightarrow> (string, Message list, 's) outcome"
  dep_ListRecentBySession :: "(int \<Rightarrow> int \<Rightarrow> 's \<Rightarrow> (string, Message list, 's) outcome) option"
  dep_Compress :: "string \<Rightarrow> LMessage list \<Rightarrow> 's \<Rightarrow> CompressionResult \<times> 's"

record 's Builder =
  bld_deps :: "'s Dependencies"
  bld_cache :: "Cache option"

definition recentStoreMessagesToHistory :: "Message list \<Rightarrow> LMessage list" where
  "recentStoreMessagesToHistory ms = map (\<lambda>m. NewMessage (msg_role m) (msg_content m)) ms"

definition system_prompt :: string where
  "system_prompt = ''You are a secure, concise assistant.''"

definition chars_total :: "string list \<Rightarrow> LMessage list \<Rightarrow> string \<Rightarrow> int" where
  "chars_total blocks history prompt =
     int (length prompt) + int (length system_prompt)
     + int (sum_list (map length blocks)) + int (sum_list (map (\<lambda>m. length (lm_Content m)) history))"

fun trim_from :: "int \<Rightarrow> LMessage list \<Rightarrow> int \<Rightarrow> LMessage list" where
  "trim_from tot [] maxChars = []"
| "trim_from tot (m # ms) maxChars =
     (if maxChars < tot then trim_from (tot - int (length (lm_Content m))) ms maxChars else m # ms)"

definition trimHistoryToBudget :: "string list \<Rightarrow> LMessage list \<Rightarrow> string \<Rightarrow> int \<Rightarrow> LMessage list" where
  "trimHistoryToBudget blocks history prompt maxChars =
     (if maxChars \<le> 0 then history else trim_from (chars_total blocks history prompt) history maxChars)"

definition cache_key_text :: "BuildInput \<Rightarrow> string \<Rightarrow> string \<Rightarrow> LMessage list \<Rightarrow> string" where
  "cache_key_text i memoryContext summary history =
     concat (map (\<lambda>s. s @ [CHR 0x0A])
       ([bi_Username i, show_int (bi_SessionID i), bi_Model i, bi_Prompt i, memoryContext, summary]
        @ map (\<lambda>m. lm_Role m @ '':'' @ lm_Content m) history))"

definition buildCacheKey :: "(string \<Rightarrow> string) \<Rightarrow> BuildInput \<Rightarrow> string \<Rightarrow> string \<Rightarrow> LMessage list \<Rightarrow> string" where
  "buildCacheKey digest i memoryContext summary history = digest (cache_key_text i memoryContext summary history)"

text \<open>The system blocks after compression, the history to send, and the summary with whether it was
  replaced.\<close>

definition base_blocks :: "string \<Rightarrow> string \<Rightarrow> string list" where
  "base_blocks memoryContext summary =
     (if memoryContext \<noteq> [] then [memoryContext] else []) @ (if summary \<noteq> [] then [summary] else [])"

definition compressed_blocks :: "string list \<Rightarrow> string \<Rightarrow> string \<Rightarrow> string list" where
  "compressed_blocks blocks summary block =
     (if summary = [] then blocks @ [block] else blocks[length blocks - 1 := block])"

definition persist_step :: "'s Dependencies \<Rightarrow> BuildInput \<Rightarrow> string \<Rightarrow> CompressionResult \<Rightarrow> 's \<Rightarrow> (string, string \<times> bool, 's) outcome" where
  "persist_step deps i stored c s =
     (if cr_Compressed c \<and> cr_SystemBlock c \<noteq> [] \<and> trim_space (cr_PersistedSummary c) \<noteq> []
         \<and> cr_PersistedSummary c \<noteq> stored
      then bind_res (dep_PersistSummary deps (bi_Username i) (cr_PersistedSummary c) (bi_SummaryStrategy i) s)
             (\<lambda>_ s. (Inr (cr_PersistedSummary c, True), s))
      else (Inr (stored, False), s))"

definition plan_of :: "BuildInput \<Rightarrow> string \<Rightarrow> string \<Rightarrow> bool \<Rightarrow> CompressionResult \<Rightarrow> string list \<Rightarrow> LMessage list \<Rightarrow> string \<Rightarrow> BuildResult" where
  "plan_of i memoryContext summary updated c blocks history key =
     (let trimmed = trimHistoryToBudget blocks history (bi_Prompt i) (bi_MaxPromptChars i)
      in \<lparr>br_Model = bi_Model i, br_Prompt = bi_Prompt i, br_SystemBlocks = blocks, br_History = trimmed,
          br_MemoryContext = memoryContext, br_PersistedSummary = summary, br_Compression = c,
          br_PromptChars = chars_total blocks trimmed (bi_Prompt i), br_MaxPromptChars = bi_MaxPromptChars i,
          br_HistoryWindowMessages = bi_HistoryWindow i, br_HistoryMessagesUsed = int (length trimmed),
          br_SystemBlocksUsed = int (length blocks), br_SummaryUpdated = updated, br_CacheHit = False,
          br_CacheKey = key,
          br_Metadata = [(''summary_strategy'', JStr (bi_SummaryStrategy i)),
            (''compression_enabled'', JBool (bi_CompressionEnabled i)),
            (''persisted_summary_len'', JInt (int (length summary)))]\<rparr>)"

definition cached_plan :: "time \<Rightarrow> string \<Rightarrow> BuildResult \<Rightarrow> Cache option \<Rightarrow> BuildResult \<times> Cache option" where
  "cached_plan now key plan cache =
     (case cache of
        None \<Rightarrow> (plan, None)
      | Some c \<Rightarrow>
          (case CacheGet now key c of
             (Some r, c') \<Rightarrow> (r, Some c')
           | (None, c') \<Rightarrow> (plan, Some (CacheSet now key plan c'))))"

text \<open>The messages a plan starts from.\<close>

definition recent_messages :: "'s Dependencies \<Rightarrow> BuildInput \<Rightarrow> 's \<Rightarrow> (string, Message list, 's) outcome" where
  "recent_messages deps i s =
     (if 0 < bi_SessionID i \<and> dep_ListRecentBySession deps \<noteq> None
      then the (dep_ListRecentBySession deps) (bi_SessionID i) (bi_HistoryWindow i) s
      else dep_ListRecent deps (bi_Username i) (bi_HistoryWindow i) s)"

definition Build :: "(string \<Rightarrow> string) \<Rightarrow> 's Builder \<Rightarrow> time \<Rightarrow> BuildInput \<Rightarrow> 's \<Rightarrow> (string, BuildResult \<times> Cache option, 's) outcome" where
  "Build digest b now i s =
     (let deps = bld_deps b in
      bind_res (dep_PrefetchMemory deps (bi_Username i) (bi_Prompt i) s) (\<lambda>memoryContext s.
      bind_res (dep_GetSummary deps (bi_Username i) s) (\<lambda>stored s.
      bind_res (recent_messages deps i s) (\<lambda>recent s.
      (let history0 = recentStoreMessagesToHistory recent in
       case dep_Compress deps (cs_summary stored) history0 s of (c, s) \<Rightarrow>
       (let used = cr_Compressed c \<and> cr_SystemBlock c \<noteq> [];
            blocks0 = base_blocks memoryContext (cs_summary stored);
            blocks = (if used then compressed_blocks blocks0 (cs_summary stored) (cr_SystemBlock c) else blocks0);
            history = (if used then cr_History c else history0)
        in bind_res (persist_step deps i (cs_summary stored) c s) (\<lambda>(summary, updated) s.
             (let key = buildCacheKey digest i memoryContext summary history
              in (Inr (cached_plan now key (plan_of i memoryContext summary updated c blocks history key) (bld_cache b)), s)))))))))"

definition CacheStatsOf :: "'s Builder option \<Rightarrow> CacheStats" where
  "CacheStatsOf b =
     (case b of None \<Rightarrow> \<lparr>st_Entries = 0, st_Hits = 0, st_Misses = 0, st_TTL = 0\<rparr>
      | Some b \<Rightarrow> (case bld_cache b of None \<Rightarrow> \<lparr>st_Entries = 0, st_Hits = 0, st_Misses = 0, st_TTL = 0\<rparr>
                    | Some c \<Rightarrow> Stats c))"

definition ClearCache :: "'s Builder option \<Rightarrow> 's Builder option" where
  "ClearCache b = map_option (\<lambda>b. b\<lparr>bld_cache := map_option CacheClear (bld_cache b)\<rparr>) b"

definition show_bool :: "bool \<Rightarrow> string" where
  "show_bool b = (if b then ''true'' else ''false'')"

definition FormatSummary :: "BuildResult \<Rightarrow> string" where
  "FormatSummary r =
     ''model='' @ br_Model r @ '' history='' @ show_int (br_HistoryMessagesUsed r) @ ''/''
     @ show_int (br_HistoryWindowMessages r) @ '' blocks='' @ show_int (br_SystemBlocksUsed r)
     @ '' prompt_chars='' @ show_int (br_PromptChars r) @ ''/'' @ show_int (br_MaxPromptChars r)
     @ '' cache_hit='' @ show_bool (br_CacheHit r)"

section \<open>The budget\<close>

definition contents_total :: "LMessage list \<Rightarrow> int" where
  "contents_total ms = int (sum_list (map (\<lambda>m. length (lm_Content m)) ms))"

lemma contents_total_simps [simp]:
  "contents_total [] = 0" "contents_total (m # ms) = int (length (lm_Content m)) + contents_total ms"
  by (simp_all add: contents_total_def)

lemma chars_total_split: "chars_total blocks history prompt = chars_total blocks [] prompt + contents_total history"
  by (simp add: chars_total_def contents_total_def)

lemma contents_total_nonneg: "0 \<le> contents_total ms"
  by (simp add: contents_total_def)

lemma trim_from_spec:
  assumes "r = trim_from (base + contents_total ms) ms m"
  shows "(\<exists>dropped. ms = dropped @ r) \<and> (r = [] \<or> base + contents_total r \<le> m)
    \<and> (\<forall>a b. ms = a @ b \<and> length r < length b \<longrightarrow> m < base + contents_total b)"
  using assms
proof (induction ms arbitrary: r)
  case (Cons x xs)
  show ?case
  proof (cases "m < base + contents_total (x # xs)")
    case True
    then have r: "r = trim_from (base + contents_total xs) xs m" using Cons.prems by (simp add: algebra_simps)
    note ih = Cons.IH [OF this]
    have "m < base + contents_total b" if ab: "x # xs = a @ b" and l: "length r < length b" for a b
    proof (cases a)
      case Nil
      then show ?thesis using ab True by simp
    next
      case (Cons y ys)
      then have "xs = ys @ b" using ab by simp
      then show ?thesis using ih l by blast
    qed
    moreover obtain dropped where "xs = dropped @ r" using ih by blast
    then have "x # xs = (x # dropped) @ r" by simp
    ultimately show ?thesis using ih by blast
  next
    case False
    then have "r = x # xs" using Cons.prems by simp
    then show ?thesis using False by (auto dest!: arg_cong [where f = length])
  qed
qed simp

text \<open>The history is trimmed from its oldest end to the longest part that fits the budget with
  the system text, the blocks and the prompt; a budget that is not positive trims nothing.\<close>

lemma trim_history_longest_fitting:
  "case trimHistoryToBudget blocks history prompt maxChars of r \<Rightarrow>
     (\<exists>dropped. history = dropped @ r) \<and> (maxChars \<le> 0 \<longrightarrow> r = history)
     \<and> (0 < maxChars \<longrightarrow> (r = [] \<or> chars_total blocks r prompt \<le> maxChars)
          \<and> (\<forall>a b. history = a @ b \<and> length r < length b \<longrightarrow> maxChars < chars_total blocks b prompt))"
proof -
  define base where "base = chars_total blocks [] prompt"
  have t: "chars_total blocks h prompt = base + contents_total h" for h
    unfolding base_def by (rule chars_total_split)
  show ?thesis
    using trim_from_spec [OF refl, where base = base and ms = history and m = maxChars]
    unfolding trimHistoryToBudget_def t by auto
qed

text \<open>A plan is measured right, and keeps history only within the budget it was made for. The system text, the
  blocks and the prompt are never cut: alone they may be over the budget, and then no history is left.\<close>

definition plan_ok :: "BuildResult \<Rightarrow> bool" where
  "plan_ok r \<longleftrightarrow>
     br_PromptChars r = chars_total (br_SystemBlocks r) (br_History r) (br_Prompt r)
     \<and> br_HistoryMessagesUsed r = int (length (br_History r)) \<and> br_SystemBlocksUsed r = int (length (br_SystemBlocks r))
     \<and> (br_MaxPromptChars r \<le> 0 \<or> br_History r = [] \<or> br_PromptChars r \<le> br_MaxPromptChars r)"

text \<open>The history is what is left of \<open>full\<close> when messages are dropped from the oldest end, and with the last
  dropped one it would be over the budget.\<close>

definition trimmed_from :: "LMessage list \<Rightarrow> BuildResult \<Rightarrow> bool" where
  "trimmed_from full r \<longleftrightarrow>
     (\<exists>dropped. full = dropped @ br_History r
        \<and> (dropped = [] \<or> 0 < br_MaxPromptChars r
             \<and> br_MaxPromptChars r < chars_total (br_SystemBlocks r) (last dropped # br_History r) (br_Prompt r)))"

definition cache_ok :: "Cache option \<Rightarrow> bool" where
  "cache_ok c = (case c of None \<Rightarrow> True | Some c \<Rightarrow> list_all (\<lambda>(k, r, t). plan_ok r \<and> \<not> br_CacheHit r) (ca_entries c))"

lemma cache_ok_get: "cache_ok (Some c) \<Longrightarrow> get (ca_entries c) k = Some (r, t) \<Longrightarrow> plan_ok r"
  by (auto simp: cache_ok_def list_all_iff dest: get_mem)

lemma set_put: "set (put k v m) \<subseteq> insert (k, v) (set m)"
  unfolding put_def by (induction m) auto

lemma cache_ok_set: "cache_ok (Some c) \<Longrightarrow> plan_ok r \<Longrightarrow> \<not> br_CacheHit r \<Longrightarrow> cache_ok (Some (CacheSet now k r c))"
  using set_put [of k "(r\<lparr>br_CacheKey := k\<rparr>, now + ca_ttl c)" "ca_entries c"]
  by (auto simp: cache_ok_def CacheSet_def list_all_iff plan_ok_def)

lemma plan_of_ok:
  "plan_ok (plan_of i mc sm u c blocks history key)" "\<not> br_CacheHit (plan_of i mc sm u c blocks history key)"
  "trimmed_from history (plan_of i mc sm u c blocks history key)"
proof -
  define base where "base = chars_total blocks [] (bi_Prompt i)"
  have t: "chars_total blocks h (bi_Prompt i) = base + contents_total h" for h
    unfolding base_def by (rule chars_total_split)
  show "plan_ok (plan_of i mc sm u c blocks history key)"
    using trim_from_spec [OF refl, where base = base and ms = history and m = "bi_MaxPromptChars i"]
    by (auto simp: plan_of_def plan_ok_def Let_def trimHistoryToBudget_def t)
  define r where "r = trimHistoryToBudget blocks history (bi_Prompt i) (bi_MaxPromptChars i)"
  show "trimmed_from history (plan_of i mc sm u c blocks history key)"
  proof (cases "bi_MaxPromptChars i \<le> 0")
    case False
    obtain dropped where d: "history = dropped @ r"
      and l: "\<And>a b. history = a @ b \<Longrightarrow> length r < length b \<Longrightarrow> bi_MaxPromptChars i < base + contents_total b"
      using False trim_from_spec [OF refl, where base = base and ms = history and m = "bi_MaxPromptChars i"]
      by (auto simp: r_def trimHistoryToBudget_def t)
    have "bi_MaxPromptChars i < base + contents_total (last dropped # r)" if "dropped \<noteq> []"
      using l [of "butlast dropped" "last dropped # r"] d that by simp
    moreover have "br_History (plan_of i mc sm u c blocks history key) = r"
      "br_MaxPromptChars (plan_of i mc sm u c blocks history key) = bi_MaxPromptChars i"
      "br_SystemBlocks (plan_of i mc sm u c blocks history key) = blocks"
      "br_Prompt (plan_of i mc sm u c blocks history key) = bi_Prompt i"
      by (simp_all add: plan_of_def Let_def r_def)
    ultimately show ?thesis
      using d False unfolding trimmed_from_def t by (metis linorder_not_less t)
  qed (simp add: trimmed_from_def plan_of_def Let_def trimHistoryToBudget_def)
  show "\<not> br_CacheHit (plan_of i mc sm u c blocks history key)"
    by (simp add: plan_of_def Let_def)
qed

lemma cached_plan_spec:
  assumes "cached_plan now key plan cache = (r, cache')" "cache_ok cache" "plan_ok plan" "\<not> br_CacheHit plan"
  shows "plan_ok r \<and> cache_ok cache' \<and> (\<not> br_CacheHit r \<longrightarrow> r = plan)
    \<and> (br_CacheHit r \<longrightarrow> (\<exists>c e t. cache = Some c \<and> get (ca_entries c) key = Some (e, t)
         \<and> now \<le> t \<and> r = e\<lparr>br_CacheHit := True, br_CacheKey := key\<rparr>))"
proof (cases cache)
  case None
  then show ?thesis using assms by (auto simp: cached_plan_def cache_ok_def)
next
  case (Some c)
  have rem: "cache_ok (Some (c\<lparr>ca_entries := remove_key key (ca_entries c), ca_misses := n\<rparr>))" for n
    using assms(2) Some by (auto simp: cache_ok_def list_all_iff remove_key_def)
  show ?thesis
  proof (cases "\<exists>e t. get (ca_entries c) key = Some (e, t) \<and> now \<le> t")
    case True
    then obtain e t where e: "get (ca_entries c) key = Some (e, t)" "now \<le> t" by blast
    then have "r = e\<lparr>br_CacheHit := True, br_CacheKey := key\<rparr>" "cache' = Some (c\<lparr>ca_hits := ca_hits c + 1\<rparr>)"
      using assms(1) Some by (auto simp: cached_plan_def CacheGet_def)
    then show ?thesis
      using e Some cache_ok_get [of c key e t] assms(2) by (auto simp: plan_ok_def cache_ok_def)
  next
    case False
    then have "r = plan" "cache' = Some (CacheSet now key plan
        (c\<lparr>ca_entries := remove_key key (ca_entries c), ca_misses := ca_misses c + 1\<rparr>))"
      using assms(1) Some by (auto simp: cached_plan_def CacheGet_def split: option.splits prod.splits if_splits)
    then show ?thesis using cache_ok_set [OF rem assms(3,4)] assms(3,4) by simp
  qed
qed


text \<open>The key does not depend on the budget or the window of the request.\<close>

lemma cache_key_ignores_budget:
  "buildCacheKey digest (i\<lparr>bi_MaxPromptChars := n, bi_HistoryWindow := w\<rparr>) mc sm h = buildCacheKey digest i mc sm h"
  by (simp add: buildCacheKey_def cache_key_text_def)

definition demo_deps :: "unit Dependencies" where
  "demo_deps = \<lparr>dep_PrefetchMemory = (\<lambda>u p s. (Inr [], s)), dep_GetSummary = (\<lambda>u s. (Inr no_summary, s)),
     dep_PersistSummary = (\<lambda>u sm st s. (Inr (), s)), dep_ListRecent = (\<lambda>u l s. (Inr [], s)),
     dep_ListRecentBySession = None, dep_Compress = Compress (Some demo_compressor)\<rparr>"

definition demo_input :: BuildInput where
  "demo_input = \<lparr>bi_Username = ''u'', bi_SessionID = 0, bi_Prompt = ''hi'', bi_Model = ''m'', bi_HistoryWindow = 8,
     bi_MaxPromptChars = 100, bi_SummaryStrategy = ''rule'', bi_CompressionEnabled = True, bi_CompressionSummaries = True\<rparr>"

lemma trim_history_longest_fitting_witness:
  "trimHistoryToBudget [] [NewMessage ''user'' ''aaaa'', NewMessage ''user'' ''b''] ''c'' 40 = [NewMessage ''user'' ''b'']
   \<and> chars_total [] [NewMessage ''user'' ''b''] ''c'' \<le> 40"
proof -
  have t: "trimHistoryToBudget [] [NewMessage ''user'' ''aaaa'', NewMessage ''user'' ''b''] ''c'' 40 = [NewMessage ''user'' ''b'']"
    by (simp add: trimHistoryToBudget_def chars_total_def NewMessage_def system_prompt_def)
  show ?thesis
    using trim_history_longest_fitting [where blocks = "[]" and prompt = "''c''" and maxChars = 40
      and history = "[NewMessage ''user'' ''aaaa'', NewMessage ''user'' ''b'']"]
    unfolding t by simp
qed


end
