(* ===== verification/Tools.thy ===== *)
theory Tools
  imports JsonVal StoreProps
begin

text \<open>
  \<^verbatim>\<open>internal/tools\<close>: the registry of tools and the built-in ones. A tool's handler runs on a state of
  the caller's; the functions the built-in handlers close over are a record of functions.
\<close>

section \<open>The registry\<close>

type_synonym 's handler = "jmap \<Rightarrow> 's \<Rightarrow> (string, jmap, 's) outcome"

record 's Tool =
  tool_Name :: string
  tool_Description :: string
  tool_InputKeys :: "string list"
  tool_Handler :: "'s handler option"

type_synonym 's Registry = "(string, 's Tool) gomap"

definition NewRegistry :: "'s Registry" where
  "NewRegistry = []"

definition RegisterTool :: "'s Tool \<Rightarrow> 's Registry \<Rightarrow> (string, unit, 's Registry) outcome" where
  "RegisterTool t r =
     (if tool_Name t = [] then (Inl ''tool name is required'', r)
      else if tool_Handler t = None then (Inl ''tool handler is required'', r)
      else (Inr (), put (tool_Name t) t r))"

definition Unregister :: "string list \<Rightarrow> 's Registry \<Rightarrow> 's Registry" where
  "Unregister names r = foldl (\<lambda>r n. remove_key n r) r names"

definition ListTools :: "'s Registry \<Rightarrow> 's Tool list" where
  "ListTools r = map (\<lambda>n. the (get r n)) (sort (map fst r))"

definition GetTool :: "'s Registry \<Rightarrow> string \<Rightarrow> 's Tool option" where
  "GetTool r name = get r name"

definition ExecuteTool :: "'s Registry \<Rightarrow> string \<Rightarrow> jmap \<Rightarrow> 's \<Rightarrow> (string, jmap, 's) outcome" where
  "ExecuteTool r name input s =
     (case get r name of
        None \<Rightarrow> (Inl (''unknown tool: '' @ name), s)
      | Some t \<Rightarrow> the (tool_Handler t) input s)"

section \<open>The built-in tools\<close>

record 's BuiltinDeps =
  bd_AppName :: string
  bd_Model :: string
  bd_ExecEnabled :: bool
  bd_MemoryEnabled :: bool
  bd_ListSessions :: "string \<Rightarrow> int \<Rightarrow> 's \<Rightarrow> (string, json, 's) outcome"
  bd_Search :: "string \<Rightarrow> string \<Rightarrow> string \<Rightarrow> int \<Rightarrow> string \<Rightarrow> string \<Rightarrow> int \<Rightarrow> 's \<Rightarrow> (string, json, 's) outcome"
  bd_ReadMemory :: "string \<Rightarrow> 's \<Rightarrow> (string, json, 's) outcome"
  bd_WriteMemory :: "string \<Rightarrow> string \<Rightarrow> string \<Rightarrow> string \<Rightarrow> string \<Rightarrow> 's \<Rightarrow> (string, json, 's) outcome"
  bd_ExecuteCommand :: "string \<Rightarrow> string list \<Rightarrow> 's \<Rightarrow> (string, string, 's) outcome"
  bd_ExecuteProfile :: "string \<Rightarrow> (string, string) gomap \<Rightarrow> bool \<Rightarrow> string \<Rightarrow> 's \<Rightarrow> (string, json, 's) outcome"
  bd_WriteAudit :: "string \<Rightarrow> string \<Rightarrow> string \<Rightarrow> 's \<Rightarrow> (string, unit, 's) outcome"

definition one_field :: "string \<Rightarrow> (string, json, 's) outcome \<Rightarrow> (string, jmap, 's) outcome" where
  "one_field k r = bind_res r (\<lambda>v s. (Inr [(k, v)], s))"

definition input_limit :: "jmap \<Rightarrow> int" where
  "input_limit input = (case jget input ''limit'' of JFloat f \<Rightarrow> if 0 < trunc_rat f then trunc_rat f else 10 | _ \<Rightarrow> 10)"

definition health_handler :: "'s BuiltinDeps \<Rightarrow> 's handler" where
  "health_handler deps input s =
     (Inr [(''ok'', JBool True), (''app_name'', JStr (bd_AppName deps)), (''model'', JStr (bd_Model deps)),
           (''execution_enabled'', JBool (bd_ExecEnabled deps))], s)"

definition history_handler :: "'s BuiltinDeps \<Rightarrow> 's handler" where
  "history_handler deps input s =
     one_field ''sessions'' (bd_ListSessions deps (jget_str input ''username'') (input_limit input) s)"

definition search_handler :: "'s BuiltinDeps \<Rightarrow> 's handler" where
  "search_handler deps input s =
     (let q = jget_str input ''query'' in
      if trim_space q = [] then (Inl ''query is required'', s)
      else one_field ''results''
             (bd_Search deps (jget_str input ''username'') q (jget_str input ''role'')
               (case jget input ''session_id'' of JFloat f \<Rightarrow> trunc_rat f | JInt i \<Rightarrow> i | _ \<Rightarrow> 0)
               (jget_str input ''from_time'') (jget_str input ''to_time'') (input_limit input) s))"

definition memory_read_handler :: "'s BuiltinDeps \<Rightarrow> 's handler" where
  "memory_read_handler deps input s =
     (if \<not> bd_MemoryEnabled deps then (Inl ''memory is disabled'', s)
      else one_field ''memory'' (bd_ReadMemory deps (jget_str input ''username'') s))"

definition memory_write_handler :: "'s BuiltinDeps \<Rightarrow> 's handler" where
  "memory_write_handler deps input s =
     (if \<not> bd_MemoryEnabled deps then (Inl ''memory is disabled'', s)
      else one_field ''memory''
             (bd_WriteMemory deps (jget_str input ''username'') (jget_str input ''target'')
               (jget_str input ''action'') (jget_str input ''content'') (jget_str input ''match'') s))"

fun string_args :: "json list \<Rightarrow> string list" where
  "string_args [] = []"
| "string_args (JStr a # js) = (if a \<noteq> [] then a # string_args js else string_args js)"
| "string_args (_ # js) = string_args js"

definition input_args :: "jmap \<Rightarrow> string list" where
  "input_args input = (case jget input ''args'' of JArr js \<Rightarrow> string_args js | _ \<Rightarrow> [])"

definition exec_handler :: "'s BuiltinDeps \<Rightarrow> 's handler" where
  "exec_handler deps input s =
     (let command = jget_str input ''command''; args = input_args input; u = jget_str input ''username'' in
      if trim_space command = [] then (Inl ''command is required'', s)
      else (let s1 = snd (bd_WriteAudit deps u ''system_exec_attempt''
                       (''command='' @ command @ '' args='' @ show_nat (length args)) s)
            in case bd_ExecuteCommand deps command args s1 of
                 (Inl e, s2) \<Rightarrow> (Inl e, snd (bd_WriteAudit deps u ''system_exec_denied'' e s2))
               | (Inr out, s2) \<Rightarrow>
                   (Inr [(''output'', JStr out)],
                    snd (bd_WriteAudit deps u ''system_exec_success''
                       (''command='' @ command @ '' output_bytes='' @ show_nat (length out)) s2))))"

fun string_fields :: "(string \<times> json) list \<Rightarrow> (string, string) gomap" where
  "string_fields [] = []"
| "string_fields ((k, JStr v) # m) = (k, v) # string_fields m"
| "string_fields ((k, _) # m) = string_fields m"

definition input_vars :: "jmap \<Rightarrow> (string, string) gomap" where
  "input_vars input = (case jget input ''vars'' of JObj m \<Rightarrow> string_fields m | _ \<Rightarrow> [])"

definition input_approved :: "jmap \<Rightarrow> bool" where
  "input_approved input =
     (case jget input ''approved'' of
        JBool b \<Rightarrow> b
      | JStr v \<Rightarrow> to_lower (trim_space v) = ''true''
      | _ \<Rightarrow> False)"

text \<open>The numbers of steps that the success row reports are read from a map; the runner's result
  is a struct, on which the assertion fails.\<close>

definition array_count :: "json \<Rightarrow> string \<Rightarrow> nat" where
  "array_count results k =
     (case results of JObj m \<Rightarrow> (case jget m k of JArr js \<Rightarrow> length js | _ \<Rightarrow> 0) | _ \<Rightarrow> 0)"

definition bool_text :: "bool \<Rightarrow> string" where
  "bool_text b = (if b then ''true'' else ''false'')"

definition exec_profile_handler :: "'s BuiltinDeps \<Rightarrow> 's handler" where
  "exec_profile_handler deps input s =
     (let profile = jget_str input ''profile''; vars = input_vars input; approved = input_approved input;
          token = jget_str input ''capability_token''; u = jget_str input ''username'' in
      if trim_space profile = [] then (Inl ''profile is required'', s)
      else (let s1 = snd (bd_WriteAudit deps u ''system_exec_profile_attempt''
                       (''profile='' @ profile @ '' vars='' @ show_nat (length vars) @ '' approved='' @ bool_text approved
                        @ '' capability_token='' @ bool_text (trim_space token \<noteq> [])) s)
            in case bd_ExecuteProfile deps profile vars approved token s1 of
                 (Inl e, s2) \<Rightarrow>
                   (Inl e, snd (bd_WriteAudit deps u ''system_exec_profile_denied''
                      (''profile='' @ profile @ '' error='' @ e) s2))
               | (Inr results, s2) \<Rightarrow>
                   (Inr [(''results'', results)],
                    snd (bd_WriteAudit deps u ''system_exec_profile_success''
                      (''profile='' @ profile @ '' steps='' @ show_nat (array_count results ''steps'')
                       @ '' rollback_steps='' @ show_nat (array_count results ''rollback'')) s2))))"

definition builtin_tools :: "'s BuiltinDeps \<Rightarrow> 's Tool list" where
  "builtin_tools deps =
     [\<lparr>tool_Name = ''system.health'', tool_Description = ''Return basic service health information.'',
       tool_InputKeys = [], tool_Handler = Some (health_handler deps)\<rparr>,
      \<lparr>tool_Name = ''session.history'',
       tool_Description = ''List recent sessions for the current authenticated user.'',
       tool_InputKeys = [''username'', ''limit''], tool_Handler = Some (history_handler deps)\<rparr>,
      \<lparr>tool_Name = ''session.search'',
       tool_Description = ''Search the authenticated user's historical session messages by keyword, role, session, and time window.'',
       tool_InputKeys = [''username'', ''query'', ''role'', ''session_id'', ''from_time'', ''to_time'', ''limit''],
       tool_Handler = Some (search_handler deps)\<rparr>,
      \<lparr>tool_Name = ''memory.read'',
       tool_Description = ''Read the authenticated user's stored memory and user preference notes.'',
       tool_InputKeys = [''username''], tool_Handler = Some (memory_read_handler deps)\<rparr>,
      \<lparr>tool_Name = ''memory.write'',
       tool_Description = ''Write to the authenticated user's stored memory using add, replace, remove, or read.'',
       tool_InputKeys = [''username'', ''target'', ''action'', ''content'', ''match''],
       tool_Handler = Some (memory_write_handler deps)\<rparr>,
      \<lparr>tool_Name = ''system.exec'',
       tool_Description = ''Execute a command only when execution is enabled and the command is on the allowlist.'',
       tool_InputKeys = [''command'', ''args''], tool_Handler = Some (exec_handler deps)\<rparr>,
      \<lparr>tool_Name = ''system.exec_profile'',
       tool_Description = ''Execute a named allowlisted multi-step execution profile when execution is enabled, optionally requiring approval or a capability token.'',
       tool_InputKeys = [''profile'', ''vars'', ''approved'', ''capability_token''],
       tool_Handler = Some (exec_profile_handler deps)\<rparr>]"

fun register_all :: "'s Tool list \<Rightarrow> 's Registry \<Rightarrow> (string, unit, 's Registry) outcome" where
  "register_all [] r = (Inr (), r)"
| "register_all (t # ts) r = bind_res (RegisterTool t r) (\<lambda>_. register_all ts)"

definition RegisterBuiltins :: "'s BuiltinDeps \<Rightarrow> 's Registry \<Rightarrow> (string, unit, 's Registry) outcome" where
  "RegisterBuiltins deps r = register_all (builtin_tools deps) r"

section \<open>The registry is a keyed table\<close>

definition registry_ok :: "'s Registry \<Rightarrow> bool" where
  "registry_ok r \<longleftrightarrow> distinct (map fst r) \<and> list_all (\<lambda>(n, t). tool_Name t = n \<and> n \<noteq> [] \<and> tool_Handler t \<noteq> None) r"

definition tool_entry :: "string \<Rightarrow> 's Registry \<Rightarrow> (string \<times> string list \<times> 's handler option) option" where
  "tool_entry n r = map_option (\<lambda>t. (tool_Description t, tool_InputKeys t, tool_Handler t)) (GetTool r n)"

definition register_entry :: "string \<Rightarrow> string \<times> string list \<times> 's handler option \<Rightarrow> 's Registry \<Rightarrow> (string, unit, 's Registry) outcome" where
  "register_entry n v r = RegisterTool \<lparr>tool_Name = n, tool_Description = fst v, tool_InputKeys = fst (snd v),
     tool_Handler = snd (snd v)\<rparr> r"

interpretation tool_table: keyed_table tool_entry register_entry
proof
  fix k v and s :: "'s Registry" and u s' k'
  assume "register_entry k v s = (Inr u, s')"
  then show "tool_entry k' s' = (if k' = k then Some v else tool_entry k' s)"
    by (cases v) (auto simp: register_entry_def RegisterTool_def tool_entry_def GetTool_def split: if_splits)
next
  fix k v and s :: "'s Registry" and e s' k'
  assume "register_entry k v s = (Inl e, s')"
  then show "tool_entry k' s' = tool_entry k' s"
    by (auto simp: register_entry_def RegisterTool_def split: if_splits)
qed

lemma set_put_subset: "set (put k v m) \<subseteq> insert (k, v) (set m)"
  unfolding put_def by (induction m) auto

lemma RegisterTool_ok: "registry_ok r \<Longrightarrow> registry_ok (snd (RegisterTool t r))"
  using set_put_subset [of "tool_Name t" t r]
  by (auto simp: registry_ok_def RegisterTool_def distinct_put list_all_iff)

lemma remove_key_ok: "registry_ok r \<Longrightarrow> registry_ok (remove_key n r)"
  by (auto simp: registry_ok_def distinct_remove_key list_all_iff) (auto simp: remove_key_def)

lemma Unregister_ok: "registry_ok r \<Longrightarrow> registry_ok (Unregister ns r)"
  unfolding Unregister_def by (induction ns arbitrary: r) (auto simp: remove_key_ok)

lemma get_Unregister: "get (Unregister ns r) n = (if n \<in> set ns then None else get r n)"
  unfolding Unregister_def by (induction ns arbitrary: r) auto

lemma ListTools_names: "registry_ok r \<Longrightarrow> map tool_Name (ListTools r) = sort (map fst r)"
proof -
  assume ok: "registry_ok r"
  have "tool_Name (the (get r n)) = n" if "n \<in> set (map fst r)" for n
    using that ok by (auto simp: registry_ok_def list_all_iff get_def)
  then show ?thesis unfolding ListTools_def map_map by (intro map_idI) simp
qed

text \<open>C25. Whatever is registered and removed, the registry lists its tools in strictly ascending order
  of name, under the names they are found by; removing names removes exactly them; and executing a
  name that is not registered changes nothing.\<close>

theorem registry_lists_its_tools:
  assumes "registry_ok r"
  shows "registry_ok (snd (RegisterTool t r)) \<and> registry_ok (Unregister ns r)
    \<and> sorted_wrt (<) (map tool_Name (ListTools r))
    \<and> set (map tool_Name (ListTools r)) = {n. GetTool r n \<noteq> None}
    \<and> GetTool (Unregister ns r) n = (if n \<in> set ns then None else GetTool r n)
    \<and> (GetTool r n = None \<longrightarrow> ExecuteTool r n input s = (Inl (''unknown tool: '' @ n), s))"
proof -
  have "distinct (map fst r)" using assms by (simp add: registry_ok_def)
  then have "sorted_wrt (<) (map tool_Name (ListTools r))"
    by (simp add: ListTools_names [OF assms] strict_sorted_iff)
  moreover have "set (map tool_Name (ListTools r)) = {n. GetTool r n \<noteq> None}"
    by (auto simp: ListTools_names [OF assms] GetTool_def get_def map_of_eq_None_iff)
  ultimately show ?thesis
    using assms by (simp add: RegisterTool_ok Unregister_ok GetTool_def get_Unregister ExecuteTool_def)
qed

section \<open>Whom the built-in tools act for\<close>

definition agree_for :: "string \<Rightarrow> 's BuiltinDeps \<Rightarrow> 's BuiltinDeps \<Rightarrow> bool" where
  "agree_for u d e \<longleftrightarrow> bd_AppName d = bd_AppName e \<and> bd_Model d = bd_Model e
     \<and> bd_ExecEnabled d = bd_ExecEnabled e \<and> bd_MemoryEnabled d = bd_MemoryEnabled e
     \<and> bd_ListSessions d u = bd_ListSessions e u \<and> bd_Search d u = bd_Search e u
     \<and> bd_ReadMemory d u = bd_ReadMemory e u \<and> bd_WriteMemory d u = bd_WriteMemory e u
     \<and> bd_ExecuteCommand d = bd_ExecuteCommand e \<and> bd_ExecuteProfile d = bd_ExecuteProfile e
     \<and> bd_WriteAudit d u = bd_WriteAudit e u"

lemma jget_str_username [simp]: "jget_str (put ''username'' (JStr u) input) ''username'' = u"
  by (simp add: jget_str_def)

text \<open>C22. A built-in tool whose input carries a user's name reads, writes and audits for that user
  alone: functions that agree on that user's data give the same outcome, whatever else the input
  says.\<close>

theorem builtin_tools_act_for_user:
  assumes "agree_for u d e" and "i < length (builtin_tools d)"
  shows "the (tool_Handler (builtin_tools d ! i)) (put ''username'' (JStr u) input) s
    = the (tool_Handler (builtin_tools e ! i)) (put ''username'' (JStr u) input) s"
proof -
  have a: "bd_AppName d = bd_AppName e" "bd_Model d = bd_Model e" "bd_ExecEnabled d = bd_ExecEnabled e"
    "bd_MemoryEnabled d = bd_MemoryEnabled e" "bd_ListSessions d u = bd_ListSessions e u"
    "bd_Search d u = bd_Search e u" "bd_ReadMemory d u = bd_ReadMemory e u"
    "bd_WriteMemory d u = bd_WriteMemory e u" "bd_ExecuteCommand d = bd_ExecuteCommand e"
    "bd_ExecuteProfile d = bd_ExecuteProfile e" "bd_WriteAudit d u = bd_WriteAudit e u"
    using assms(1) by (simp_all add: agree_for_def)
  have "health_handler d x s = health_handler e x s" for x
    using a by (simp add: health_handler_def)
  moreover have "history_handler d (put ''username'' (JStr u) input) s = history_handler e (put ''username'' (JStr u) input) s"
    unfolding history_handler_def Let_def jget_str_username a ..
  moreover have "search_handler d (put ''username'' (JStr u) input) s = search_handler e (put ''username'' (JStr u) input) s"
    unfolding search_handler_def Let_def jget_str_username a ..
  moreover have "memory_read_handler d (put ''username'' (JStr u) input) s = memory_read_handler e (put ''username'' (JStr u) input) s"
    unfolding memory_read_handler_def Let_def jget_str_username a ..
  moreover have "memory_write_handler d (put ''username'' (JStr u) input) s = memory_write_handler e (put ''username'' (JStr u) input) s"
    unfolding memory_write_handler_def Let_def jget_str_username a ..
  moreover have "exec_handler d (put ''username'' (JStr u) input) s = exec_handler e (put ''username'' (JStr u) input) s"
    unfolding exec_handler_def Let_def jget_str_username a ..
  moreover have "exec_profile_handler d (put ''username'' (JStr u) input) s = exec_profile_handler e (put ''username'' (JStr u) input) s"
    unfolding exec_profile_handler_def Let_def jget_str_username a ..
  moreover have "i = 0 \<or> i = 1 \<or> i = 2 \<or> i = 3 \<or> i = 4 \<or> i = 5 \<or> i = 6"
    using assms(2) by (auto simp: builtin_tools_def)
  ultimately show ?thesis
    by (elim disjE) (simp_all add: builtin_tools_def)
qed

definition demo_bd :: "nat BuiltinDeps" where
  "demo_bd = \<lparr>bd_AppName = ''a'', bd_Model = ''m'', bd_ExecEnabled = False, bd_MemoryEnabled = True,
     bd_ListSessions = (\<lambda>u l n. (Inr (JStr u), n + 1)), bd_Search = (\<lambda>u q r i f t l n. (Inr (JStr u), n + 1)),
     bd_ReadMemory = (\<lambda>u n. (Inr (JStr u), n + 1)), bd_WriteMemory = (\<lambda>u t a c m n. (Inr (JStr u), n + 1)),
     bd_ExecuteCommand = (\<lambda>c a n. (Inl ''off'', n)), bd_ExecuteProfile = (\<lambda>p v a t n. (Inl ''off'', n)),
     bd_WriteAudit = (\<lambda>u a t n. (Inr (), n + 1))\<rparr>"

lemma builtins_registered: "registry_ok (snd (RegisterBuiltins demo_bd NewRegistry))"
proof -
  have "registry_ok r \<Longrightarrow> registry_ok (snd (register_all ts r))" for ts :: "nat Tool list" and r
  proof (induction ts arbitrary: r)
    case (Cons t ts)
    then show ?case
      using RegisterTool_ok [of r t] by (cases "RegisterTool t r"; cases "fst (RegisterTool t r)") auto
  qed simp
  then show ?thesis by (simp add: RegisterBuiltins_def registry_ok_def NewRegistry_def)
qed

theorem registry_lists_its_tools_witness:
  "sorted_wrt (<) (map tool_Name (ListTools (snd (RegisterBuiltins demo_bd NewRegistry))))"
  using registry_lists_its_tools [OF builtins_registered] by blast

theorem builtin_tools_act_for_user_witness:
  "the (tool_Handler (builtin_tools demo_bd ! 3)) (put ''username'' (JStr ''ann'') []) 0
   = the (tool_Handler (builtin_tools (demo_bd\<lparr>bd_ReadMemory := (\<lambda>u n. if u = ''ann'' then (Inr (JStr u), n + 1) else (Inl [], 0))\<rparr>) ! 3))
       (put ''username'' (JStr ''ann'') []) 0"
  by (rule builtin_tools_act_for_user) (simp_all add: agree_for_def demo_bd_def builtin_tools_def)

end
