(* ===== verification/AppCore.thy ===== *)
theory AppCore
  imports Prompting Tools Auth Execution Memory MultiAgent
begin

text \<open>
  \<^verbatim>\<open>internal/app/app.go\<close>, first part: the container, the wiring of its parts, chat, and the
  operations on the model configuration. The world of a running application is its database, the
  memory files, the processes it started, the requests it sent, the prompt cache and the clock; what
  is outside the repository is a record of functions, \<open>Env\<close>.
\<close>

section \<open>The world and its outside\<close>

record Env =
  env_net :: net_fun
  env_os :: os_fun
  env_hash :: "string \<Rightarrow> string"
  env_digest :: "string \<Rightarrow> string"
  env_fts :: "string \<Rightarrow> (string \<Rightarrow> bool) option"
  env_snippet :: "string \<Rightarrow> string \<Rightarrow> string"
  env_parse_time :: "string \<Rightarrow> time option"
  env_format_time :: "stamp \<Rightarrow> string"
  env_marshal :: "json \<Rightarrow> string"
  env_unmarshal :: "string \<Rightarrow> string + json"

record World =
  w_store :: Store
  w_files :: FS
  w_spawned :: "spawn list"
  w_requests :: "http_request list"
  w_cache :: "Cache option"
  w_now :: time

type_synonym 'a app_result = "(string, 'a, World) outcome"

definition on_store :: "(Store \<Rightarrow> 'a db_result) \<Rightarrow> World \<Rightarrow> 'a app_result" where
  "on_store f w =
     (case f (w_store w) of
        (Inl e, d) \<Rightarrow> (Inl (db_error_text e), w\<lparr>w_store := d\<rparr>)
      | (Inr a, d) \<Rightarrow> (Inr a, w\<lparr>w_store := d\<rparr>))"

definition on_files :: "(FS \<Rightarrow> (string, 'a, FS) outcome) \<Rightarrow> World \<Rightarrow> 'a app_result" where
  "on_files f w = (case f (w_files w) of (r, s) \<Rightarrow> (r, w\<lparr>w_files := s\<rparr>))"

definition on_net :: "(http_request list \<Rightarrow> 'a llm_result) \<Rightarrow> World \<Rightarrow> 'a app_result" where
  "on_net f w = (case f (w_requests w) of (r, l) \<Rightarrow> (r, w\<lparr>w_requests := l\<rparr>))"

definition on_processes :: "(spawn list \<Rightarrow> 'a \<times> spawn list) \<Rightarrow> World \<Rightarrow> 'a \<times> World" where
  "on_processes f w = (case f (w_spawned w) of (r, l) \<Rightarrow> (r, w\<lparr>w_spawned := l\<rparr>))"

definition audit :: "string \<Rightarrow> string \<Rightarrow> string \<Rightarrow> World \<Rightarrow> unit app_result" where
  "audit user action detail w = on_store (WriteAudit (w_now w) user action detail) w"

definition add_message :: "int \<Rightarrow> string \<Rightarrow> string \<Rightarrow> World \<Rightarrow> unit app_result" where
  "add_message sid role content w = on_store (AddMessage (w_now w) sid role content) w"

section \<open>The container\<close>

record App =
  app_Config :: Config
  app_LLM :: LLMConfig
  app_Tools :: "World Registry"
  app_Exec :: Policy
  app_Runner :: Executor
  app_Memory :: "FS Manager option"
  app_MultiAgent :: MAPolicy

record ContextBudget =
  bud_Model :: string
  bud_HistoryWindowMessages :: int
  bud_HistoryMessagesUsed :: int
  bud_CompressionEnabled :: bool
  bud_SummaryStrategy :: string
  bud_Compressed :: bool
  bud_CompressedMessages :: int
  bud_CompressionSummaryChars :: int
  bud_PersistedSummaryChars :: int
  bud_TailMessagesUsed :: int
  bud_SystemBlocksUsed :: int
  bud_PromptChars :: int
  bud_MaxPromptChars :: int

record ChatResult =
  chat_SessionID :: int
  chat_Model :: string
  chat_Prompt :: string
  chat_Response :: string
  chat_Plan :: BuildResult

section \<open>The functions the parts close over\<close>

definition newline :: string where "newline = [CHR 0x0A]"

definition summarize_history :: "Env \<Rightarrow> App \<Rightarrow> string \<Rightarrow> LMessage list \<Rightarrow> int \<Rightarrow> World \<Rightarrow> string app_result" where
  "summarize_history env a existing history maxChars w =
     (if ctx_SummaryStrategy (cfg_Context (app_Config a)) \<noteq> ''llm'' then (Inr [], w)
      else (let lines = map (\<lambda>m. lm_Role m @ '': '' @ lm_Content m) (filter (\<lambda>m. lm_Content m \<noteq> []) history);
                prompt = ''Summarize the older conversation context into a compact handoff. Keep facts, decisions, and unresolved items only.''
                  @ (if existing \<noteq> [] then newline @ ''Previous summary:'' @ newline @ existing else [])
                  @ (if lines \<noteq> [] then newline @ ''New conversation chunk:'' @ newline @ join newline lines else [])
            in bind_res (on_net (AuxChat (env_net env) (app_Config a) ''compression''
                     [''You summarize prior conversation context for handoff.'',
                      ''Return plain text only. Keep under '' @ show_int maxChars @ '' characters.''] prompt) w)
                 (\<lambda>(summary, _) w. (Inr summary, w))))"

definition app_compressor :: "Env \<Rightarrow> App \<Rightarrow> World Compressor" where
  "app_compressor env a = WithSummarizer (summarize_history env a) (NewCompressor (cfg_Context (app_Config a)))"

definition app_deps :: "Env \<Rightarrow> App \<Rightarrow> World Dependencies" where
  "app_deps env a =
     \<lparr>dep_PrefetchMemory = (\<lambda>u p. on_files (MgrPrefetch (app_Memory a) u p)),
      dep_GetSummary = (\<lambda>u. on_store (GetContextSummary u)),
      dep_PersistSummary = (\<lambda>u sm st w. on_store (UpsertContextSummary (w_now w) u sm st) w),
      dep_ListRecent = (\<lambda>u l. on_store (ListRecentMessagesByUsername u l)),
      dep_ListRecentBySession = Some (\<lambda>sid l. on_store (ListRecentMessagesBySession sid l)),
      dep_Compress = Compress (Some (app_compressor env a))\<rparr>"

definition build_plan :: "Env \<Rightarrow> App \<Rightarrow> BuildInput \<Rightarrow> World \<Rightarrow> BuildResult app_result" where
  "build_plan env a i w =
     bind_res (Build (env_digest env) \<lparr>bld_deps = app_deps env a, bld_cache = w_cache w\<rparr> (w_now w) i w)
       (\<lambda>(r, cache) w. (Inr r, w\<lparr>w_cache := cache\<rparr>))"

definition session_json :: "Env \<Rightarrow> Session \<Rightarrow> json" where
  "session_json env s =
     JObj ([(''id'', JInt (sess_id s)), (''username'', JStr (sess_user s)), (''model'', JStr (sess_model s)),
            (''prompt'', JStr (sess_prompt s)), (''response'', JStr (sess_response s)), (''kind'', JStr (sess_kind s))]
           @ (if sess_task s \<noteq> [] then [(''task_id'', JStr (sess_task s))] else [])
           @ [(''parent_session_id'', JObj [(''Int64'', JInt (case sess_parent s of None \<Rightarrow> 0 | Some p \<Rightarrow> p)),
                 (''Valid'', JBool (sess_parent s \<noteq> None))]),
              (''created_at'', JStr (env_format_time env (sess_created s)))])"

definition search_result_json :: "Env \<Rightarrow> SearchResult \<Rightarrow> json" where
  "search_result_json env r =
     JObj [(''session_id'', JInt (res_session r)), (''message_id'', JInt (res_message r)),
       (''username'', JStr (res_user r)), (''model'', JStr (res_model r)), (''role'', JStr (res_role r)),
       (''content'', JStr (res_content r)), (''created_at'', JStr (env_format_time env (res_created r))),
       (''session_time'', JStr (env_format_time env (res_session_time r)))]"

definition snapshot_json :: "Snapshot \<Rightarrow> json" where
  "snapshot_json sn =
     JOther (JObj [(''memory_entries'', JArr (map JStr (MemoryEntries sn))),
       (''user_entries'', JArr (map JStr (UserEntries sn)))])"

definition step_json :: "StepResult \<Rightarrow> json" where
  "step_json r =
     JObj ([(''name'', JStr (sr_Name r)), (''command'', JStr (sr_Command r))]
       @ (if sr_Output r \<noteq> [] then [(''output'', JStr (sr_Output r))] else [])
       @ (if sr_Error r \<noteq> [] then [(''error'', JStr (sr_Error r))] else []))"

definition profile_run_json :: "ProfileRunResult \<Rightarrow> json" where
  "profile_run_json r =
     JOther (JObj ([(''profile'', JStr (pr_Profile r)), (''approved'', JBool (pr_Approved r)),
       (''capability_scoped'', JBool (pr_CapabilityScoped r)), (''steps'', JArr (map step_json (pr_Steps r)))]
       @ (if pr_Rollback r \<noteq> [] then [(''rollback'', JArr (map step_json (pr_Rollback r)))] else [])))"

definition search_filters :: "Env \<Rightarrow> string \<Rightarrow> string \<Rightarrow> string \<Rightarrow> int \<Rightarrow> string \<Rightarrow> string \<Rightarrow> int \<Rightarrow> SearchFilters" where
  "search_filters env u q role sid fromTime toTime limit =
     \<lparr>sf_user = u, sf_query = q, sf_role = role, sf_session = sid,
      sf_from = (if fromTime = [] then None else env_parse_time env fromTime),
      sf_to = (if toTime = [] then None else env_parse_time env toTime), sf_limit = limit\<rparr>"

definition app_builtins :: "Env \<Rightarrow> Config \<Rightarrow> FS Manager option \<Rightarrow> Executor \<Rightarrow> World BuiltinDeps" where
  "app_builtins env c mem runner =
     \<lparr>bd_AppName = cfg_AppName c, bd_Model = llm_Model (ResolvedLLM c),
      bd_ExecEnabled = exe_Enabled (cfg_Execution c), bd_MemoryEnabled = memc_Enabled (cfg_Memory c),
      bd_ListSessions = (\<lambda>u l w. bind_res (on_store (ListSessions u l) w)
        (\<lambda>ss w. (Inr (JOther (JArr (map (session_json env) ss))), w))),
      bd_Search = (\<lambda>u q role sid fromTime toTime l w.
        bind_res (on_store (SearchMessages (env_fts env) (env_snippet env)
            (search_filters env u q role sid fromTime toTime l)) w)
          (\<lambda>rs w. (Inr (JOther (JArr (map (search_result_json env) rs))), w))),
      bd_ReadMemory = (\<lambda>u w. bind_res (on_files (MgrRead mem u) w) (\<lambda>sn w. (Inr (snapshot_json sn), w))),
      bd_WriteMemory = (\<lambda>u t ac c m w. bind_res (on_files (MgrWrite mem u t ac c m) w)
        (\<lambda>sn w. (Inr (snapshot_json sn), snd (audit u ''memory_write'' (''target='' @ t @ '' action='' @ ac) w)))),
      bd_ExecuteCommand = (\<lambda>c args. on_processes (Execute (env_os env) runner c args)),
      bd_ExecuteProfile = (\<lambda>p vars approved token w.
        case on_processes (ExecuteProfile (env_os env) runner p vars approved token) w of
          ((r, None), w) \<Rightarrow> (Inr (profile_run_json r), w)
        | ((r, Some e), w) \<Rightarrow> (Inl e, w)),
      bd_WriteAudit = audit\<rparr>"

text \<open>\<^verbatim>\<open>New\<close> after the database is open and the secret is there, up to the extensions.\<close>

definition NewApp :: "Env \<Rightarrow> Config \<Rightarrow> (string, App, World Registry) outcome" where
  "NewApp env c =
     (let mem = Some (NewManager (Some (file_provider (env_hash env) (NewFileProvider c))) (memc_Enabled (cfg_Memory c)));
          runner = NewExecutor (cfg_Execution c)
      in bind_res (RegisterBuiltins (app_builtins env c mem runner) NewRegistry)
           (\<lambda>_ reg. (Inr \<lparr>app_Config = c, app_LLM = ResolvedLLM c, app_Tools = reg, app_Exec = DefaultPolicy,
              app_Runner = runner, app_Memory = mem, app_MultiAgent = DefaultMAPolicy\<rparr>, reg)))"

definition new_prompt_cache :: "Config \<Rightarrow> Cache option" where
  "new_prompt_cache c =
     (if prm_CacheEnabled (cfg_Prompting c)
      then Some (NewCache (wrap64 (prm_CacheTTLMinutes (cfg_Prompting c) * nanos_per_minute))) else None)"

section \<open>Chat\<close>

definition chat_input :: "App \<Rightarrow> string \<Rightarrow> int \<Rightarrow> string \<Rightarrow> BuildInput" where
  "chat_input a u sid prompt =
     \<lparr>bi_Username = u, bi_SessionID = sid, bi_Prompt = prompt, bi_Model = llm_Model (ResolvedLLM (app_Config a)),
      bi_HistoryWindow = ctx_HistoryWindowMessages (cfg_Context (app_Config a)),
      bi_MaxPromptChars = ctx_MaxPromptChars (cfg_Context (app_Config a)),
      bi_SummaryStrategy = ctx_SummaryStrategy (cfg_Context (app_Config a)),
      bi_CompressionEnabled = ctx_CompressionEnabled (cfg_Context (app_Config a)), bi_CompressionSummaries = False\<rparr>"

definition chat_target :: "App \<Rightarrow> string \<Rightarrow> int \<Rightarrow> string \<Rightarrow> bool \<Rightarrow> string \<Rightarrow> World \<Rightarrow> int app_result" where
  "chat_target a u sid prompt reuse response w =
     (if reuse
      then bind_res (on_store (GetSession sid) w)
             (\<lambda>s w. if sess_user s \<noteq> u
                    then (Inl (''session '' @ show_int sid @ '' does not belong to '' @ u), w)
                    else bind_res (on_store (UpdateSessionResponse sid response) w) (\<lambda>_ w. (Inr sid, w)))
      else on_store (CreateSession (w_now w) u (llm_Model (ResolvedLLM (app_Config a))) prompt response) w)"

definition record_turn :: "App \<Rightarrow> string \<Rightarrow> int \<Rightarrow> string \<Rightarrow> string \<Rightarrow> World \<Rightarrow> unit app_result" where
  "record_turn a u target prompt response w =
     bind_res (bind_res (add_message target ''user'' prompt w) (\<lambda>_. add_message target ''assistant'' response))
       (\<lambda>_. on_files (MgrSyncTurn (app_Memory a) u prompt response))"

definition chatDetailed :: "Env \<Rightarrow> App \<Rightarrow> string \<Rightarrow> int \<Rightarrow> string \<Rightarrow> bool \<Rightarrow> World \<Rightarrow> ChatResult app_result" where
  "chatDetailed env a u sid prompt reuse w =
     bind_res (build_plan env a (chat_input a u sid prompt) w) (\<lambda>plan w.
     (let w = (if cr_Compressed (br_Compression plan)
               then snd (audit u ''context_compress_applied''
                      (''compressed_messages='' @ show_int (cr_CompressedMessages (br_Compression plan))) w)
               else w)
      in bind_res (on_net (ChatWithMessages (env_net env) (app_LLM a) (br_SystemBlocks plan) (br_History plan) prompt) w)
           (\<lambda>response w.
            bind_res (chat_target a u sid prompt reuse response w) (\<lambda>target w.
            bind_res (record_turn a u target prompt response w) (\<lambda>_ w.
              (Inr \<lparr>chat_SessionID = target, chat_Model = llm_Model (ResolvedLLM (app_Config a)),
                 chat_Prompt = prompt, chat_Response = response, chat_Plan = plan\<rparr>,
               snd (audit u (if reuse then ''chat_resume'' else ''chat'')
                 (''session recorded cache_hit='' @ show_bool (br_CacheHit plan)) w)))))))"

definition ChatTurn :: "Env \<Rightarrow> App \<Rightarrow> string \<Rightarrow> string \<Rightarrow> World \<Rightarrow> ChatResult app_result" where
  "ChatTurn env a u prompt = chatDetailed env a u 0 prompt False"

definition AppChat :: "Env \<Rightarrow> App \<Rightarrow> string \<Rightarrow> string \<Rightarrow> World \<Rightarrow> string app_result" where
  "AppChat env a u prompt w = bind_res (ChatTurn env a u prompt w) (\<lambda>r w. (Inr (chat_Response r), w))"

definition ChatInSessionDetailed :: "Env \<Rightarrow> App \<Rightarrow> string \<Rightarrow> int \<Rightarrow> string \<Rightarrow> World \<Rightarrow> ChatResult app_result" where
  "ChatInSessionDetailed env a u sid prompt w =
     (if sid \<le> 0 then (Inl ''session_id must be positive'', w) else chatDetailed env a u sid prompt True w)"

definition InspectPrompt :: "Env \<Rightarrow> App \<Rightarrow> string \<Rightarrow> string \<Rightarrow> World \<Rightarrow> BuildResult app_result" where
  "InspectPrompt env a u prompt = build_plan env a (chat_input a u 0 prompt)"

definition EstimateContextBudget :: "Env \<Rightarrow> App \<Rightarrow> string \<Rightarrow> string \<Rightarrow> World \<Rightarrow> ContextBudget app_result" where
  "EstimateContextBudget env a u prompt w =
     bind_res (InspectPrompt env a u prompt w) (\<lambda>plan w.
       (Inr \<lparr>bud_Model = br_Model plan, bud_HistoryWindowMessages = br_HistoryWindowMessages plan,
          bud_HistoryMessagesUsed = br_HistoryMessagesUsed plan,
          bud_CompressionEnabled = ctx_CompressionEnabled (cfg_Context (app_Config a)),
          bud_SummaryStrategy = ctx_SummaryStrategy (cfg_Context (app_Config a)),
          bud_Compressed = cr_Compressed (br_Compression plan),
          bud_CompressedMessages = cr_CompressedMessages (br_Compression plan),
          bud_CompressionSummaryChars = cr_SummaryChars (br_Compression plan),
          bud_PersistedSummaryChars = int (length (br_PersistedSummary plan)),
          bud_TailMessagesUsed = cr_TailMessagesUsed (br_Compression plan),
          bud_SystemBlocksUsed = br_SystemBlocksUsed plan, bud_PromptChars = br_PromptChars plan,
          bud_MaxPromptChars = br_MaxPromptChars plan\<rparr>, w))"

section \<open>The model configuration\<close>

definition SwitchModelProfile :: "string \<Rightarrow> string \<Rightarrow> App \<Rightarrow> World \<Rightarrow> (string + unit) \<times> App \<times> World" where
  "SwitchModelProfile u profile a w =
     (case UseModelProfile profile (app_Config a) of
        (Inl e, c) \<Rightarrow> (Inl e, a\<lparr>app_Config := c\<rparr>, w)
      | (Inr _, c) \<Rightarrow>
          (Inr (), a\<lparr>app_Config := c, app_LLM := ResolvedLLM c\<rparr>,
           snd (audit u ''model_switch'' (''profile='' @ profile @ '' model='' @ llm_Model (ResolvedLLM c)) w)))"

definition SwitchModelConfig :: "string \<Rightarrow> string \<Rightarrow> LLMConfig \<Rightarrow> App \<Rightarrow> World \<Rightarrow> (string + unit) \<times> App \<times> World" where
  "SwitchModelConfig u profile llmCfg a w =
     (case UpsertModelProfile profile llmCfg (app_Config a) of
        (Inl e, c) \<Rightarrow> (Inl e, a\<lparr>app_Config := c\<rparr>, w)
      | (Inr _, c) \<Rightarrow>
          (Inr (), a\<lparr>app_Config := c, app_LLM := ResolvedLLM c\<rparr>,
           snd (audit u ''model_switch'' (''profile='' @ profile @ '' model='' @ llm_Model (ResolvedLLM c)) w)))"

definition SwitchAuxiliaryProfile :: "string \<Rightarrow> string \<Rightarrow> string \<Rightarrow> App \<Rightarrow> World \<Rightarrow> (string + AuxiliaryConfig) \<times> App \<times> World" where
  "SwitchAuxiliaryProfile u task profile0 a w =
     (let profile = trim_space profile0; t = to_lower (trim_space task); c = app_Config a; x = cfg_Auxiliary c;
          done = (\<lambda>x' label. (Inr x', a\<lparr>app_Config := c\<lparr>cfg_Auxiliary := x'\<rparr>\<rparr>,
                    snd (audit u ''auxiliary_switch'' (''task='' @ label @ '' profile='' @ profile) w)))
      in if profile = [] then (Inl ''profile is required'', a, w)
         else if get (cfg_ModelProfiles c) profile = None
         then (Inl (''profile '' @ go_quote profile @ '' is not defined''), a, w)
         else if t = [] \<or> t = ''default'' then done (x\<lparr>aux_Profile := profile\<rparr>) ''default''
         else if t = ''summary'' then done (x\<lparr>aux_SummaryProfile := profile\<rparr>) task
         else if t = ''compression'' then done (x\<lparr>aux_CompressionProfile := profile\<rparr>) task
         else (Inl ''task must be one of: default, summary, compression'', a, w))"

definition AuxiliaryChat :: "Env \<Rightarrow> App \<Rightarrow> string \<Rightarrow> string \<Rightarrow> World \<Rightarrow> (string \<times> AuxiliaryResolution) app_result" where
  "AuxiliaryChat env a task prompt =
     on_net (AuxChat (env_net env) (app_Config a) task
       [''You are a lightweight auxiliary assistant for Hermes-Go.''] prompt)"

section \<open>Busy databases\<close>

definition busy_error :: "string \<Rightarrow> bool" where
  "busy_error e = (contains ''locked'' (to_lower e) \<or> contains ''busy'' (to_lower e))"

fun retry_times :: "nat \<Rightarrow> (World \<Rightarrow> 'a app_result) \<Rightarrow> World \<Rightarrow> 'a app_result" where
  "retry_times 0 f w = f w"
| "retry_times (Suc n) f w =
     (case f w of
        (Inr a, w') \<Rightarrow> (Inr a, w')
      | (Inl e, w') \<Rightarrow> if busy_error e then retry_times n f w' else (Inl e, w'))"

text \<open>At most five attempts.\<close>

definition retryBusy :: "(World \<Rightarrow> 'a app_result) \<Rightarrow> World \<Rightarrow> 'a app_result" where
  "retryBusy f = retry_times 4 f"

end
