(* ===== verification/AppDemo.thy ===== *)
theory AppDemo
  imports AppCore
begin

text \<open>
  A small running application, for the closed instances of the properties: the default
  configuration without memory, a model that always gives the same answer, an identity codec on
  which nothing depends, and a database with one account's session.
\<close>

definition demo_net :: "string \<Rightarrow> net_fun" where
  "demo_net answer sent rq =
     Inr \<lparr>hs_Code = 200, hs_Status = ''200 OK'',
       hs_Body = Inr [\<lparr>ch_Role = ''assistant'', ch_Content = JStr answer, ch_ToolCalls = [], ch_FinishReason = ''stop''\<rparr>]\<rparr>"

definition demo_env :: "string \<Rightarrow> Env" where
  "demo_env answer =
     \<lparr>env_net = demo_net answer, env_os = (\<lambda>l c args. \<lparr>proc_deadline = False, proc_output = c, proc_error = None\<rparr>),
      env_hash = id, env_digest = id, env_fts = (\<lambda>q. None), env_snippet = (\<lambda>q c. c), env_parse_time = (\<lambda>s. None),
      env_format_time = (\<lambda>t. []), env_marshal = (\<lambda>j. ''{}''), env_unmarshal = (\<lambda>s. Inl ''syntax'')\<rparr>"

definition demo_app :: App where
  "demo_app =
     \<lparr>app_Config = Default, app_LLM = ResolvedLLM Default, app_Tools = NewRegistry, app_Exec = DefaultPolicy,
      app_Runner = NewExecutor (cfg_Execution Default), app_Memory = None, app_MultiAgent = DefaultMAPolicy\<rparr>"

definition demo_sessions :: Store where
  "demo_sessions = snd (CreateSession 0 ''ann'' ''m'' ''hello'' ''hi'' Open)"

definition demo_world :: World where
  "demo_world =
     \<lparr>w_store = demo_sessions, w_files = \<lparr>files = [], answers = []\<rparr>, w_spawned = [], w_requests = [],
      w_cache = None, w_now = 7000000000\<rparr>"

lemma demo_session: "find_session 1 demo_sessions \<noteq> None"
  by (simp add: demo_sessions_def CreateSession_def CreateSessionWithOptions_def stmt_def Open_def find_session_def Let_def)

lemma demo_chat: "is_ok (chatDetailed (demo_env ''fine'') demo_app ''ann'' 1 ''how are you'' True demo_world)"
  by code_simp

end
