(* ===== verification/ChatProps.thy ===== *)
theory ChatProps
  imports AppDemo
begin

text \<open>
  What a chat turn does to the transcripts: a frame for the operations that leave them alone, the
  turn of a successful chat, and the refusal of another user's session.
\<close>

section \<open>Operations that leave the transcripts alone\<close>

definition chat_frame :: "Store \<Rightarrow> Store \<Rightarrow> bool" where
  "chat_frame d d' \<longleftrightarrow> messages d' = messages d \<and> messages_seq d' = messages_seq d
     \<and> sessions d' = sessions d \<and> sessions_seq d' = sessions_seq d \<and> messages_fts d' = messages_fts d
     \<and> processed_gateway_updates d' = processed_gateway_updates d"

definition world_frame :: "World \<Rightarrow> World \<Rightarrow> bool" where
  "world_frame w w' \<longleftrightarrow> chat_frame (w_store w) (w_store w') \<and> w_now w' = w_now w"

lemma world_frame_refl [simp]: "world_frame w w"
  by (simp add: world_frame_def chat_frame_def)

lemma world_frame_trans: "world_frame a b \<Longrightarrow> world_frame b c \<Longrightarrow> world_frame a c"
  by (simp add: world_frame_def chat_frame_def)

lemma world_frame_bind:
  assumes "world_frame w (snd m)" "\<And>a s. m = (Inr a, s) \<Longrightarrow> world_frame s (snd (k a s))"
  shows "world_frame w (snd (bind_res m k))"
  using assms by (cases m; cases "fst m") (auto intro: world_frame_trans)

lemma chat_frame_refl [simp]: "chat_frame d d"
  by (simp add: chat_frame_def)

lemma chat_frame_faults [simp]: "chat_frame d (d\<lparr>faults := fs\<rparr>)"
  by (simp add: chat_frame_def)

lemma stmt_chat_frame:
  assumes "\<And>d. chat_frame d (snd (f d))"
  shows "chat_frame d (snd (stmt f d))"
proof (cases rule: stmt_cases [of f d])
  case (2 fs)
  then show ?thesis using assms [of "d\<lparr>faults := fs\<rparr>"] by (simp add: chat_frame_def)
qed simp

lemma query_chat_frame: "chat_frame d (snd (query f d))"
  unfolding query_def by (rule stmt_chat_frame) (simp add: chat_frame_def)

lemma exec_chat_frame: "(\<And>d. chat_frame d (f d)) \<Longrightarrow> chat_frame d (snd (exec f d))"
  unfolding exec_def by (rule stmt_chat_frame) simp

lemma on_store_frame: "(\<And>d. chat_frame d (snd (f d))) \<Longrightarrow> world_frame w (snd (on_store f w))"
  by (cases "f (w_store w)"; cases "fst (f (w_store w))")
     (simp_all add: on_store_def world_frame_def, metis snd_conv, metis snd_conv)

lemma on_files_frame: "world_frame w (snd (on_files f w))"
  by (simp add: on_files_def world_frame_def chat_frame_def split: prod.split)

lemma on_net_frame: "world_frame w (snd (on_net f w))"
  by (simp add: on_net_def world_frame_def chat_frame_def split: prod.split)

lemma on_processes_frame: "world_frame w (snd (on_processes f w))"
  by (simp add: on_processes_def world_frame_def chat_frame_def split: prod.split)

lemma audit_frame: "world_frame w (snd (audit u a t w))"
  unfolding audit_def WriteAudit_def
  by (rule on_store_frame, rule exec_chat_frame) (simp add: chat_frame_def)

lemma cache_frame [simp]: "world_frame w (w\<lparr>w_cache := c\<rparr>)"
  by (simp add: world_frame_def chat_frame_def)

lemmas frame_ops = on_files_frame on_net_frame on_processes_frame audit_frame

lemma summarize_history_frame: "world_frame w (snd (summarize_history env a ex h m w))"
  unfolding summarize_history_def Let_def
  by (auto intro!: world_frame_bind simp: on_net_frame split: prod.split)

lemma Compress_frame: "world_frame w (snd (Compress (Some (app_compressor env a)) ex h w))"
  using summarize_history_frame [of w env a ex _ "ctx_SummaryMaxChars (cfg_Context (app_Config a))"]
  by (auto simp: Compress_def buildSummary_def app_compressor_def WithSummarizer_def NewCompressor_def Let_def
      split: prod.split sum.split) (metis snd_conv)+

lemma read_frames:
  "chat_frame d (snd (GetContextSummary u d))"
  "chat_frame d (snd (ListRecentMessagesByUsername u l d))"
  "chat_frame d (snd (ListRecentMessagesBySession sid l d))"
  "chat_frame d (snd (GetSession sid d))"
  "chat_frame d (snd (UpsertContextSummary n u sm st d))"
  by (simp_all add: GetContextSummary_def ListRecentMessagesByUsername_def
      ListRecentMessagesBySession_def query_chat_frame)
     (simp_all add: GetSession_def UpsertContextSummary_def chat_frame_def
      stmt_chat_frame [unfolded chat_frame_def] exec_chat_frame [unfolded chat_frame_def] split: option.split)

lemma dep_frames:
  "world_frame w (snd (on_store (GetContextSummary u) w))"
  "world_frame w (snd (on_store (ListRecentMessagesByUsername u l) w))"
  "world_frame w (snd (on_store (ListRecentMessagesBySession sid l) w))"
  "world_frame w (snd (on_store (GetSession sid) w))"
  "world_frame w (snd (on_store (UpsertContextSummary n u sm st) w))"
  by (simp_all add: read_frames on_store_frame)

lemma Build_frame:
  "world_frame w (snd (Build dg \<lparr>bld_deps = app_deps env a, bld_cache = c\<rparr> now i w))"
proof -
  have p: "world_frame s (snd (persist_step (app_deps env a) i st cr s))" for st cr s
    unfolding persist_step_def
    by (auto simp: app_deps_def dep_frames intro!: world_frame_bind)
  have comp: "world_frame s (snd (dep_Compress (app_deps env a) ex h s))" for ex h s
    by (simp add: app_deps_def Compress_frame)
  have "world_frame s (snd (case dep_Compress (app_deps env a) ex h s of (cr, s') \<Rightarrow>
      bind_res (persist_step (app_deps env a) i st cr s') (\<lambda>(summary, updated) s. (Inr (F cr summary updated), s))))"
    for ex h st s and F :: "CompressionResult \<Rightarrow> string \<Rightarrow> bool \<Rightarrow> BuildResult \<times> Cache option"
    using comp [of s ex h] p
    by (cases "dep_Compress (app_deps env a) ex h s")
       (auto intro!: world_frame_bind intro: world_frame_trans split: prod.split)
  then show ?thesis
    unfolding Build_def recent_messages_def Let_def
    by (intro world_frame_bind) (auto simp: app_deps_def on_files_frame dep_frames)
qed

section \<open>A turn of chat\<close>

definition transcript :: "int \<Rightarrow> World \<Rightarrow> (string \<times> string) list" where
  "transcript sid w = log_rows sid (w_store w)"

lemma transcript_frame: "world_frame w w' \<Longrightarrow> transcript sid w' = transcript sid w"
  by (simp add: transcript_def world_frame_def chat_frame_def log_rows_def session_messages_def)

interpretation world_log: session_log transcript "\<lambda>now sid role content w. on_store (AddMessage now sid role content) w"
proof
  fix now sid role content w u w' sid'
  assume "on_store (AddMessage now sid role content) w = (Inr u, w')"
  then obtain d where "AddMessage now sid role content (w_store w) = (Inr u, d)" "w' = w\<lparr>w_store := d\<rparr>"
    by (auto simp: on_store_def split: prod.splits sum.splits)
  then show "transcript sid' w' = (if sid' = sid then transcript sid w @ [(role, content)] else transcript sid' w)"
    using slog.append_ok [of now sid role content "w_store w" u d sid'] by (simp add: transcript_def)
next
  fix now sid role content w e w' sid'
  assume "on_store (AddMessage now sid role content) w = (Inl e, w')"
  then obtain x d where "AddMessage now sid role content (w_store w) = (Inl x, d)" "w' = w\<lparr>w_store := d\<rparr>"
    by (auto simp: on_store_def split: prod.splits sum.splits)
  then show "transcript sid' w' = transcript sid' w"
    using slog.append_err [of now sid role content "w_store w" x d sid'] by (simp add: transcript_def)
qed

text \<open>What precedes the choice of the session leaves transcripts and sessions alone.\<close>

lemma build_plan_frame: "world_frame w (snd (build_plan env a i w))"
  unfolding build_plan_def using Build_frame
  by (auto intro!: world_frame_bind)

lemma chatDetailed_split:
  obtains e w' where "chatDetailed env a u sid prompt reuse w = (Inl e, w')" "world_frame w w'"
  | plan response w1 where "world_frame w w1"
      "chatDetailed env a u sid prompt reuse w =
         bind_res (chat_target a u sid prompt reuse response w1) (\<lambda>target w.
            bind_res (record_turn a u target prompt response w) (\<lambda>_ w.
              (Inr \<lparr>chat_SessionID = target, chat_Model = llm_Model (ResolvedLLM (app_Config a)),
                 chat_Prompt = prompt, chat_Response = response, chat_Plan = plan\<rparr>,
               snd (audit u (if reuse then ''chat_resume'' else ''chat'')
                 (''session recorded cache_hit='' @ show_bool (br_CacheHit plan)) w))))"
proof -
  obtain r w1 where b: "build_plan env a (chat_input a u sid prompt) w = (r, w1)" by fastforce
  then have f1: "world_frame w w1" using build_plan_frame by (metis snd_conv)
  show thesis
  proof (cases r)
    case (Inl e)
    with b f1 that(1) show thesis by (simp add: chatDetailed_def)
  next
    case (Inr plan)
    define w2 where "w2 = (if cr_Compressed (br_Compression plan)
      then snd (audit u ''context_compress_applied''
             (''compressed_messages='' @ show_int (cr_CompressedMessages (br_Compression plan))) w1) else w1)"
    obtain q w3 where n: "on_net (ChatWithMessages (env_net env) (app_LLM a) (br_SystemBlocks plan) (br_History plan) prompt) w2 = (q, w3)"
      by fastforce
    have "world_frame w1 w2" by (simp add: w2_def audit_frame)
    moreover have "world_frame w2 w3" using n on_net_frame by (metis snd_conv)
    ultimately have f3: "world_frame w w3" using f1 world_frame_trans by blast
    show thesis
      using f3 b n Inr that(1) that(2) [of w3 _ plan] by (cases q) (simp_all add: chatDetailed_def Let_def w2_def)
  qed
qed

lemma on_store_Inr: "on_store f w = (Inr x, w') \<longleftrightarrow> (\<exists>d. f (w_store w) = (Inr x, d) \<and> w' = w\<lparr>w_store := d\<rparr>)"
  by (auto simp: on_store_def split: prod.splits sum.splits)

text \<open>The session row a successful turn leaves.\<close>

definition turn_sessions :: "App \<Rightarrow> string \<Rightarrow> int \<Rightarrow> string \<Rightarrow> bool \<Rightarrow> string \<Rightarrow> World \<Rightarrow> Session list" where
  "turn_sessions a u sid prompt reuse response w =
     (if reuse then map (\<lambda>s. if sess_id s = sid then s\<lparr>sess_response := response\<rparr> else s) (sessions (w_store w))
      else sessions (w_store w) @
        [\<lparr>sess_id = sessions_seq (w_store w) + 1, sess_user = u, sess_model = llm_Model (ResolvedLLM (app_Config a)),
          sess_prompt = prompt, sess_response = response, sess_kind = ''chat'', sess_task = [], sess_parent = None,
          sess_created = to_stamp (w_now w)\<rparr>])"

lemma stmt_Inr:
  assumes "stmt f d = (Inr x, d')"
  obtains fs where "f (d\<lparr>faults := fs\<rparr>) = (Inr x, d')"
  using assms by (cases rule: stmt_cases [of f d]) auto

lemma GetSession_Inr:
  assumes "GetSession sid d = (Inr s, d')"
  shows "find_session sid d = Some s"
proof -
  obtain fs where "(case find_session sid (d\<lparr>faults := fs\<rparr>) of None \<Rightarrow> (Inl NoRows, d\<lparr>faults := fs\<rparr>)
      | Some s \<Rightarrow> (Inr s, d\<lparr>faults := fs\<rparr>)) = (Inr s, d')"
    using assms unfolding GetSession_def by (rule stmt_Inr)
  then show ?thesis by (simp add: find_session_def split: option.splits)
qed

lemma chat_target_Inr:
  assumes "chat_target a u sid prompt reuse response w = (Inr target, w')"
  shows "messages (w_store w') = messages (w_store w)
    \<and> sessions (w_store w') = turn_sessions a u sid prompt reuse response w
    \<and> (if reuse then target = sid \<and> (\<exists>s. find_session sid (w_store w) = Some s \<and> sess_user s = u)
       else target = sessions_seq (w_store w) + 1)"
proof (cases reuse)
  case True
  then have "bind_res (on_store (GetSession sid) w)
      (\<lambda>s w. if sess_user s \<noteq> u
            then (Inl (''session '' @ show_int sid @ '' does not belong to '' @ u), w)
            else bind_res (on_store (UpdateSessionResponse sid response) w) (\<lambda>_ w. (Inr sid, w))) = (Inr target, w')"
    using assms by (simp add: chat_target_def)
  then obtain s w1 where g1: "on_store (GetSession sid) w = (Inr s, w1)"
    and k: "(if sess_user s \<noteq> u
            then (Inl (''session '' @ show_int sid @ '' does not belong to '' @ u), w1)
            else bind_res (on_store (UpdateSessionResponse sid response) w1) (\<lambda>_ w. (Inr sid, w))) = (Inr target, w')"
    unfolding bind_res_eq_Inr by blast
  from k have su: "sess_user s = u" by (cases "sess_user s = u") simp_all
  with k have "bind_res (on_store (UpdateSessionResponse sid response) w1) (\<lambda>_ w. (Inr sid, w)) = (Inr target, w')"
    by simp
  then obtain x w2 where x: "on_store (UpdateSessionResponse sid response) w1 = (Inr x, w2)"
    and e: "(Inr sid, w2) = (Inr target :: string + int, w')"
    unfolding bind_res_eq_Inr by blast
  from e have tg: "target = sid" and w2: "w2 = w'" by simp_all
  have up: "on_store (UpdateSessionResponse sid response) w1 = (Inr (), w')" using x w2 by simp
  note g = g1 su tg
  from g(1) obtain d where d: "GetSession sid (w_store w) = (Inr s, d)" "w1 = w\<lparr>w_store := d\<rparr>"
    by (auto simp: on_store_Inr)
  have d1: "messages d = messages (w_store w) \<and> sessions d = sessions (w_store w)"
    using read_frames(4) [of "w_store w" sid] d(1) by (simp add: chat_frame_def)
  have f: "find_session sid (w_store w) = Some s"
    by (rule GetSession_Inr [OF d(1)])
  from up d obtain d' where d': "UpdateSessionResponse sid response d = (Inr (), d')" "w' = w\<lparr>w_store := d'\<rparr>"
    by (auto simp: on_store_Inr)
  from exec_Inr [OF d'(1) [unfolded UpdateSessionResponse_def]]
  obtain fs where "d' = update_session sid (\<lambda>s. s\<lparr>sess_response := response\<rparr>) (d\<lparr>faults := fs\<rparr>)" by blast
  then show ?thesis
    using True g f d1 d'(2) by (simp add: turn_sessions_def update_session_def)
next
  case False
  then obtain d where d: "CreateSession (w_now w) u (llm_Model (ResolvedLLM (app_Config a))) prompt response (w_store w) = (Inr target, d)"
    "w' = w\<lparr>w_store := d\<rparr>"
    using assms by (auto simp: chat_target_def on_store_Inr)
  define f where "f = (\<lambda>d :: Store. let sid = sessions_seq d + 1
       in (Inr sid :: db_error + int, d\<lparr>sessions := sessions d @
             [\<lparr>sess_id = sid, sess_user = u, sess_model = llm_Model (ResolvedLLM (app_Config a)), sess_prompt = prompt,
               sess_response = response, sess_kind = ''chat'', sess_task = [], sess_parent = None,
               sess_created = to_stamp (w_now w)\<rparr>], sessions_seq := sid\<rparr>))"
  have "stmt f (w_store w) = (Inr target, d)"
    using d(1) by (simp add: CreateSession_def CreateSessionWithOptions_def f_def)
  then obtain fs where fs: "f (w_store w\<lparr>faults := fs\<rparr>) = (Inr target, d)"
    by (rule stmt_Inr)
  then have "messages d = messages (w_store w)" "target = sessions_seq (w_store w) + 1"
    "sessions d = turn_sessions a u sid prompt reuse response w"
    by (auto simp: f_def Let_def False turn_sessions_def)
  then show ?thesis by (simp add: False d(2))
qed

lemma add_message_sessions: "sessions (w_store (snd (add_message sid role content w))) = sessions (w_store w)"
proof -
  have "sessions (snd (AddMessage now sid role content d)) = sessions d" for now d
    unfolding AddMessage_def exec_def
    by (rule stmt_cases [of "\<lambda>d. (Inr (), let m = new_message now sid role content d
       in messages_ai m (d\<lparr>messages := messages d @ [m], messages_seq := messages_seq d + 1\<rparr>))" d])
       (simp_all add: Let_def messages_ai_def)
  note s = this
  obtain r d where e: "AddMessage (w_now w) sid role content (w_store w) = (r, d)" by fastforce
  have "sessions d = sessions (w_store w)" using s [of "w_now w" "w_store w"] e by simp
  then show ?thesis by (cases r) (simp_all add: add_message_def on_store_def e)
qed

lemma record_turn_Inr:
  assumes "record_turn a u target prompt response w = (Inr x, w')"
  shows "transcript target w' = transcript target w @ [(''user'', prompt), (''assistant'', response)]"
    and "sid' \<noteq> target \<Longrightarrow> transcript sid' w' = transcript sid' w"
    and "sessions (w_store w') = sessions (w_store w)"
proof -
  from assms obtain y w1 where t: "bind_res (add_message target ''user'' prompt w) (\<lambda>_. add_message target ''assistant'' response) = (Inr y, w1)"
    and m: "on_files (MgrSyncTurn (app_Memory a) u prompt response) w1 = (Inr x, w')"
    by (auto simp: record_turn_def bind_res_eq_Inr)
  have f: "world_frame w1 w'" using m on_files_frame by (metis snd_conv)
  obtain w0 where w0: "add_message target ''user'' prompt w = (Inr (), w0)" "add_message target ''assistant'' response w0 = (Inr y, w1)"
    using t by (auto simp: bind_res_eq_Inr)
  note a = world_log.append_ok [OF w0(1) [unfolded add_message_def]] world_log.append_ok [OF w0(2) [unfolded add_message_def]]
  show "transcript target w' = transcript target w @ [(''user'', prompt), (''assistant'', response)]"
    using a transcript_frame [OF f] by simp
  show "sid' \<noteq> target \<Longrightarrow> transcript sid' w' = transcript sid' w"
    using a transcript_frame [OF f] by simp
  show "sessions (w_store w') = sessions (w_store w)"
    using add_message_sessions [of target "''user''" prompt w] add_message_sessions [of target "''assistant''" response w0] w0 f
    by (simp add: world_frame_def chat_frame_def)
qed

lemma chat_turn_effect:
  assumes "chatDetailed env a u sid prompt reuse w = (Inr r, w')"
  shows "transcript (chat_SessionID r) w' = transcript (chat_SessionID r) w @ [(''user'', prompt), (''assistant'', chat_Response r)]
    \<and> (\<forall>x. x \<noteq> chat_SessionID r \<longrightarrow> transcript x w' = transcript x w)
    \<and> sessions (w_store w') = turn_sessions a u sid prompt reuse (chat_Response r) w
    \<and> (if reuse then chat_SessionID r = sid \<and> (\<exists>s. find_session sid (w_store w) = Some s \<and> sess_user s = u)
       else chat_SessionID r = sessions_seq (w_store w) + 1)"
proof (rule chatDetailed_split [where env = env and a = a and u = u and sid = sid and prompt = prompt and reuse = reuse and w = w])
  fix plan response w1
  assume f: "world_frame w w1" and eq: "chatDetailed env a u sid prompt reuse w =
         bind_res (chat_target a u sid prompt reuse response w1) (\<lambda>target w.
            bind_res (record_turn a u target prompt response w) (\<lambda>_ w.
              (Inr \<lparr>chat_SessionID = target, chat_Model = llm_Model (ResolvedLLM (app_Config a)),
                 chat_Prompt = prompt, chat_Response = response, chat_Plan = plan\<rparr>,
               snd (audit u (if reuse then ''chat_resume'' else ''chat'')
                 (''session recorded cache_hit='' @ show_bool (br_CacheHit plan)) w))))"
  from assms eq obtain target w2 x w3 where t: "chat_target a u sid prompt reuse response w1 = (Inr target, w2)"
    and rt: "record_turn a u target prompt response w2 = (Inr x, w3)"
    and r: "chat_SessionID r = target" "chat_Response r = response"
    and w': "w' = snd (audit u (if reuse then ''chat_resume'' else ''chat'')
                 (''session recorded cache_hit='' @ show_bool (br_CacheHit plan)) w3)"
    by (auto simp: bind_res_eq_Inr)
  have f': "world_frame w3 w'" by (simp add: w' audit_frame)
  have f12: "sessions (w_store w1) = sessions (w_store w)" "sessions_seq (w_store w1) = sessions_seq (w_store w)"
    "messages (w_store w1) = messages (w_store w)"
    using f by (simp_all add: world_frame_def chat_frame_def)
  note ct = chat_target_Inr [OF t]
  have tr: "transcript x w2 = transcript x w" for x
    using ct f12(3) by (simp add: transcript_def log_rows_def session_messages_def)
  have ss: "sessions (w_store w') = turn_sessions a u sid prompt reuse response w1"
    using record_turn_Inr(3) [OF rt] f' ct by (simp add: world_frame_def chat_frame_def)
  have "w_now w1 = w_now w" "find_session sid (w_store w1) = find_session sid (w_store w)"
    using f f12 by (simp_all add: world_frame_def find_session_def)
  then show ?thesis
    using record_turn_Inr(1,2) [OF rt] ss ct r tr transcript_frame [OF f'] f12
    by (cases reuse) (simp_all add: turn_sessions_def)
qed (use assms in simp)

text \<open>C13. A chat turn that succeeds appends exactly the prompt and the model's answer to one
  transcript and touches no other one: to the named session, which exists and belongs to the caller
  and whose row takes the new answer, or to a session made for the turn under a fresh id.\<close>

theorem chat_appends_turn:
  assumes "chatDetailed env a u sid prompt reuse w = (Inr r, w')"
  shows "transcript (chat_SessionID r) w' = transcript (chat_SessionID r) w @ [(''user'', prompt), (''assistant'', chat_Response r)]
    \<and> (\<forall>x. x \<noteq> chat_SessionID r \<longrightarrow> transcript x w' = transcript x w)
    \<and> sessions (w_store w') = turn_sessions a u sid prompt reuse (chat_Response r) w
    \<and> (if reuse then chat_SessionID r = sid \<and> (\<exists>s. find_session sid (w_store w) = Some s \<and> sess_user s = u)
       else chat_SessionID r = sessions_seq (w_store w) + 1)"
  using assms by (rule chat_turn_effect)

text \<open>C14. A turn aimed at a session that does not exist or belongs to someone else is refused, and
  leaves every transcript and every session row as it was (the prompt was built from that session
  and sent to the model all the same: the owner is checked after the answer has come).\<close>

theorem foreign_session_refused:
  assumes "case find_session sid (w_store w) of None \<Rightarrow> True | Some s \<Rightarrow> sess_user s \<noteq> u"
  shows "case ChatInSessionDetailed env a u sid prompt w of
     (Inl e, w') \<Rightarrow> world_frame w w' | (Inr r, w') \<Rightarrow> False"
proof -
  have owner: "chat_target a u sid prompt True response w1 = (Inr t, w2) \<Longrightarrow> False"
    if "world_frame w w1" for response w1 t w2
    using that assms chat_target_Inr [of a u sid prompt True response w1 t w2]
    by (auto simp: world_frame_def chat_frame_def find_session_def)
  have keeps: "world_frame w1 (snd (chat_target a u sid prompt True response w1))"
    if "world_frame w w1" for response w1
  proof -
    obtain r w2 where g: "on_store (GetSession sid) w1 = (r, w2)" by fastforce
    then have f: "world_frame w1 w2" using dep_frames(4) [where w = w1 and sid = sid] by simp
    show ?thesis
    proof (cases r)
      case (Inr s)
      have "sess_user s \<noteq> u"
      proof
        assume u: "sess_user s = u"
        from g Inr obtain d where "GetSession sid (w_store w1) = (Inr s, d)" by (auto simp: on_store_Inr)
        then have "find_session sid (w_store w1) = Some s" by (rule GetSession_Inr)
        then show False using assms that u by (simp add: world_frame_def chat_frame_def find_session_def)
      qed
      then show ?thesis using g f Inr by (simp add: chat_target_def)
    qed (use g f in \<open>simp add: chat_target_def\<close>)
  qed
  show ?thesis
  proof (cases "sid \<le> 0")
    case False
    show ?thesis
    proof (rule chatDetailed_split [where env = env and a = a and u = u and sid = sid and prompt = prompt and reuse = True and w = w])
      fix e w' assume "chatDetailed env a u sid prompt True w = (Inl e, w')" "world_frame w w'"
      then show ?thesis using False by (simp add: ChatInSessionDetailed_def)
    next
      fix plan response w1
      assume f: "world_frame w w1" and eq: "chatDetailed env a u sid prompt True w =
         bind_res (chat_target a u sid prompt True response w1) (\<lambda>target w.
            bind_res (record_turn a u target prompt response w) (\<lambda>_ w.
              (Inr \<lparr>chat_SessionID = target, chat_Model = llm_Model (ResolvedLLM (app_Config a)),
                 chat_Prompt = prompt, chat_Response = response, chat_Plan = plan\<rparr>,
               snd (audit u (if True then ''chat_resume'' else ''chat'')
                 (''session recorded cache_hit='' @ show_bool (br_CacheHit plan)) w))))"
      show ?thesis
        using eq owner [OF f] keeps [OF f, of response] f False world_frame_trans
        by (cases "chat_target a u sid prompt True response w1"; cases "fst (chat_target a u sid prompt True response w1)")
           (auto simp: ChatInSessionDetailed_def)
    qed
  qed (simp add: ChatInSessionDetailed_def)
qed

theorem chat_appends_turn_witness:
  "\<exists>r w'. chatDetailed (demo_env ''fine'') demo_app ''ann'' 1 ''how are you'' True demo_world = (Inr r, w')
     \<and> chat_SessionID r = 1
     \<and> transcript 1 w' = transcript 1 demo_world @ [(''user'', ''how are you''), (''assistant'', chat_Response r)]"
proof -
  obtain r w' where r: "chatDetailed (demo_env ''fine'') demo_app ''ann'' 1 ''how are you'' True demo_world = (Inr r, w')"
    using demo_chat by (rule is_okE)
  show ?thesis using chat_appends_turn [OF r] r by auto
qed

theorem foreign_session_refused_witness:
  "case ChatInSessionDetailed (demo_env ''fine'') demo_app ''bob'' 1 ''show me'' demo_world of
     (Inl e, w') \<Rightarrow> world_frame demo_world w' | (Inr r, w') \<Rightarrow> False"
proof (rule foreign_session_refused)
  show "case find_session 1 (w_store demo_world) of None \<Rightarrow> True | Some s \<Rightarrow> sess_user s \<noteq> ''bob''"
    by code_simp
qed

end
