(* ===== verification/ChildAgent.thy ===== *)
theory ChildAgent
  imports AppCore
begin

text \<open>
  \<^verbatim>\<open>internal/app/app.go\<close>, second part: a delegated task as a child agent. The child gets a session
  of its own, at most four rounds with the model (by native tool calls, then by JSON answers when
  those fail), the tools of its allow list under its user's name, and a trace.

  \<^verbatim>\<open>env_marshal\<close> and \<^verbatim>\<open>env_unmarshal\<close> are \<^verbatim>\<open>json.Marshal\<close> (its error text is the empty string) and
  \<^verbatim>\<open>json.Unmarshal\<close> into an \<^verbatim>\<open>any\<close>: an object is the list of its members in the order of the text.
\<close>

section \<open>What a child answers\<close>

record childAction =
  act_Type :: string
  act_Tool :: string
  act_Input :: "jmap option"
  act_Note :: string
  act_Summary :: string
  act_Risks :: "string list"
  act_NextActions :: "string list"

definition no_action :: childAction where
  "no_action = \<lparr>act_Type = [], act_Tool = [], act_Input = None, act_Note = [], act_Summary = [],
     act_Risks = [], act_NextActions = []\<rparr>"

text \<open>Decoding into a field: \<^verbatim>\<open>null\<close> leaves a string as it is and makes a slice or a map nil.\<close>

fun into_string :: "string \<Rightarrow> json \<Rightarrow> string option" where
  "into_string old JNull = Some old"
| "into_string old (JStr s) = Some s"
| "into_string old _ = None"

fun into_strings :: "json \<Rightarrow> string list option" where
  "into_strings JNull = Some []"
| "into_strings (JArr js) = those (map (into_string []) js)"
| "into_strings _ = None"

fun into_map :: "json \<Rightarrow> jmap option option" where
  "into_map JNull = Some None"
| "into_map (JObj m) = Some (Some m)"
| "into_map _ = None"

definition set_action_field :: "string \<Rightarrow> json \<Rightarrow> childAction \<Rightarrow> childAction option" where
  "set_action_field key v x =
     (let k = to_lower key in
      if k = ''type'' then map_option (\<lambda>s. x\<lparr>act_Type := s\<rparr>) (into_string (act_Type x) v)
      else if k = ''tool'' then map_option (\<lambda>s. x\<lparr>act_Tool := s\<rparr>) (into_string (act_Tool x) v)
      else if k = ''input'' then map_option (\<lambda>m. x\<lparr>act_Input := m\<rparr>) (into_map v)
      else if k = ''note'' then map_option (\<lambda>s. x\<lparr>act_Note := s\<rparr>) (into_string (act_Note x) v)
      else if k = ''summary'' then map_option (\<lambda>s. x\<lparr>act_Summary := s\<rparr>) (into_string (act_Summary x) v)
      else if k = ''risks'' then map_option (\<lambda>l. x\<lparr>act_Risks := l\<rparr>) (into_strings v)
      else if k = ''next_actions'' then map_option (\<lambda>l. x\<lparr>act_NextActions := l\<rparr>) (into_strings v)
      else Some x)"

fun set_action_fields :: "(string \<times> json) list \<Rightarrow> childAction \<Rightarrow> childAction option" where
  "set_action_fields [] x = Some x"
| "set_action_fields ((k, v) # m) x = Option.bind (set_action_field k v x) (set_action_fields m)"

fun decode_action :: "json \<Rightarrow> childAction option" where
  "decode_action JNull = Some no_action"
| "decode_action (JObj m) = set_action_fields m no_action"
| "decode_action _ = None"

definition fence :: string where "fence = ''```''"

definition parseChildAction :: "Env \<Rightarrow> string \<Rightarrow> childAction option" where
  "parseChildAction env raw =
     (let body = trim_space (trim_suffix fence (trim_prefix fence (trim_prefix (fence @ ''json'') (trim_space raw))))
      in case env_unmarshal env body of Inl e \<Rightarrow> None | Inr j \<Rightarrow> decode_action j)"

section \<open>Tools of a child\<close>

fun json_kind :: "json \<Rightarrow> string" where
  "json_kind (JBool b) = ''bool''"
| "json_kind (JStr s) = ''string''"
| "json_kind (JArr js) = ''array''"
| "json_kind (JObj m) = ''object''"
| "json_kind _ = ''number''"

definition executeToolInput :: "Env \<Rightarrow> string \<Rightarrow> string + jmap" where
  "executeToolInput env raw =
     (if trim_space raw = [] then Inr []
      else (case env_unmarshal env raw of
              Inl e \<Rightarrow> Inl e
            | Inr (JObj m) \<Rightarrow> Inr m
            | Inr JNull \<Rightarrow> Inr []
            | Inr j \<Rightarrow> Inl (''json: cannot unmarshal '' @ json_kind j @ '' into Go value of type map[string]interface {}'')))"

definition toolAllowed :: "string \<Rightarrow> 's Tool list \<Rightarrow> bool" where
  "toolAllowed name allowed = list_ex (\<lambda>t. tool_Name t = name) allowed"

definition mapsClone :: "jmap option \<Rightarrow> jmap" where
  "mapsClone m = (case m of None \<Rightarrow> [] | Some m \<Rightarrow> m)"

fun resolve_tools :: "'s Registry \<Rightarrow> string list \<Rightarrow> 's Tool list \<times> string list" where
  "resolve_tools reg [] = ([], [])"
| "resolve_tools reg (n # ns) =
     (let name = trim_space n; (ok, bad) = resolve_tools reg ns in
      if name = [] then (ok, bad)
      else (case GetTool reg name of None \<Rightarrow> (ok, name # bad) | Some t \<Rightarrow> (t # ok, bad)))"

definition resolveChildAllowedTools :: "App \<Rightarrow> string list \<Rightarrow> World Tool list \<times> string list" where
  "resolveChildAllowedTools a requested = resolve_tools (app_Tools a) requested"

definition field_check :: "string \<Rightarrow> jmap \<Rightarrow> string \<Rightarrow> string \<Rightarrow> bool \<times> string \<times> string" where
  "field_check key output verifier missing =
     (if jhas output key then (True, verifier, ''ok'') else (False, verifier, missing))"

definition verifyDelegatedToolOutput :: "string \<Rightarrow> jmap \<Rightarrow> bool \<times> string \<times> string" where
  "verifyDelegatedToolOutput tool output =
     (if tool = ''session.search'' then field_check ''results'' output ''results field check'' ''missing_results_field''
      else if tool = ''session.history'' then field_check ''sessions'' output ''sessions field check'' ''missing_sessions_field''
      else if tool = ''memory.read'' then field_check ''memory'' output ''memory field check'' ''missing_memory_field''
      else if tool = ''system.exec_profile''
      then field_check ''results'' output ''execution profile results check'' ''missing_results_field''
      else if output \<noteq> [] then (True, ''non-empty output check'', ''ok'')
      else (False, ''non-empty output check'', ''empty_output''))"

definition key_schema :: "string \<Rightarrow> json" where
  "key_schema key =
     (if key = ''vars''
      then JObj [(''type'', JStr ''object''),
             (''description'', JStr ''Key/value variables used to render an execution profile.''),
             (''additionalProperties'', JObj [(''type'', JStr ''string'')])]
      else if key = ''approved''
      then JObj [(''type'', JStr ''boolean''), (''description'', JStr ''Whether execution was explicitly approved.'')]
      else if key = ''args''
      then JObj [(''type'', JStr ''array''), (''description'', JStr ''Command arguments.''),
             (''items'', JObj [(''type'', JStr ''string'')])]
      else JObj [(''type'', JStr ''string''), (''description'', JStr ''Tool input value.'')])"

definition tool_definition :: "'s Tool \<Rightarrow> ToolDefinition" where
  "tool_definition t =
     (let required = filter (\<lambda>k. k \<noteq> ''username'') (tool_InputKeys t)
      in \<lparr>td_Type = ''function'',
          td_Function = \<lparr>fd_Name = tool_Name t, fd_Description = tool_Description t,
            fd_Parameters = [(''type'', JStr ''object''),
                (''properties'', JObj (foldl (\<lambda>m k. put k (key_schema k) m) [] (tool_InputKeys t))),
                (''additionalProperties'', JBool True)]
              @ (if required \<noteq> [] then [(''required'', jstrings required)] else [])\<rparr>\<rparr>)"

definition buildLLMToolDefinitions :: "'s Tool list \<Rightarrow> ToolDefinition list" where
  "buildLLMToolDefinitions allowed = map tool_definition allowed"

section \<open>One tool call\<close>

definition child_message :: "int \<Rightarrow> string \<Rightarrow> string \<Rightarrow> World \<Rightarrow> unit app_result" where
  "child_message sid role content = retryBusy (add_message sid role content)"

definition blank_step :: "int \<Rightarrow> string \<Rightarrow> TraceStep" where
  "blank_step iteration type =
     \<lparr>ts_Iteration = iteration, ts_Type = type, ts_Tool = [], ts_Input = None, ts_Output = None, ts_Snapshot = None,
      ts_Verified = False, ts_Verifier = [], ts_VerificationClass = [], ts_Error = [], ts_Note = []\<rparr>"

definition final_step :: "int \<Rightarrow> string \<Rightarrow> TraceStep" where
  "final_step iteration note = (blank_step iteration ''final'')\<lparr>ts_Note := note\<rparr>"

text \<open>The step for the trace, the risk (empty for none), and the error or the tool's message.\<close>

type_synonym tool_outcome = "TraceStep \<times> string \<times> (string + LMessage)"

definition executeChildAction :: "Env \<Rightarrow> App \<Rightarrow> string \<Rightarrow> int \<Rightarrow> childAction \<Rightarrow> World Tool list \<Rightarrow> int \<Rightarrow> World \<Rightarrow> tool_outcome \<times> World" where
  "executeChildAction env a u iteration action allowed child w =
     (let tool = act_Tool action;
          step = (blank_step iteration ''tool'')\<lparr>ts_Tool := tool, ts_Input := Some (mapsClone (act_Input action))\<rparr>
      in if \<not> toolAllowed tool allowed
         then ((step\<lparr>ts_Error := ''tool not allowed''\<rparr>,
                ''Child attempted a tool outside its allowlist: '' @ tool, Inl ''tool not allowed''),
               snd (child_message child ''tool'' (tool @ '' error: tool not allowed'') w))
         else (case ExecuteTool (app_Tools a) tool (put ''username'' (JStr u) (mapsClone (act_Input action))) w of
                 (Inl e, w) \<Rightarrow>
                   ((step\<lparr>ts_Error := e\<rparr>, ''Child tool execution failed: '' @ tool, Inl e),
                    snd (child_message child ''tool'' (tool @ '' error: '' @ e) w))
               | (Inr output, w) \<Rightarrow>
                   (let (verified, verifier, class) = verifyDelegatedToolOutput tool output;
                        content = env_marshal env (JObj output)
                    in ((step\<lparr>ts_Output := Some output, ts_Verified := verified, ts_Verifier := verifier,
                           ts_VerificationClass := class\<rparr>, [],
                         Inr \<lparr>lm_Role = ''tool'', lm_Content = content, lm_Name = tool, lm_ToolCallID = [], lm_ToolCalls = []\<rparr>),
                        snd (child_message child ''tool'' (tool @ '' result: '' @ content) w)))))"

definition executeChildToolCall :: "Env \<Rightarrow> App \<Rightarrow> string \<Rightarrow> int \<Rightarrow> ToolCall \<Rightarrow> World Tool list \<Rightarrow> int \<Rightarrow> World \<Rightarrow> tool_outcome \<times> World" where
  "executeChildToolCall env a u iteration call allowed child w =
     (let name = fc_Name (tc_Function call) in
      case executeToolInput env (fc_Arguments (tc_Function call)) of
        Inl e \<Rightarrow>
          (((blank_step iteration ''tool'')\<lparr>ts_Tool := name, ts_Error := ''invalid tool arguments: '' @ e\<rparr>,
            ''Child produced invalid tool arguments for '' @ name, Inl e), w)
      | Inr input \<Rightarrow>
          (case executeChildAction env a u iteration (no_action\<lparr>act_Type := ''tool'', act_Tool := name, act_Input := Some input\<rparr>)
                  allowed child w of
             ((step, risk, Inl e), w) \<Rightarrow> ((step, risk, Inl e), w)
           | ((step, risk, Inr m), w) \<Rightarrow>
               ((step, risk, Inr (m\<lparr>lm_ToolCallID := tc_ID call, lm_Name := name\<rparr>)), w)))"

section \<open>The prompt and the session of a child\<close>

definition lines_of :: "string list \<Rightarrow> string" where
  "lines_of xs = join newline xs"

definition task_prompt :: "Task \<Rightarrow> string" where
  "task_prompt t =
     lines_of ([''Task ID: '' @ task_ID t, ''Title: '' @ task_Title t, ''Goal: '' @ task_Goal t]
       @ (if trim_space (task_Context t) \<noteq> [] then [''Context:'', trim_space (task_Context t)] else []))"

definition history_lines :: "Message list \<Rightarrow> string list" where
  "history_lines ms =
     map (\<lambda>m. msg_role m @ '': '' @ trim_space (msg_content m)) (filter (\<lambda>m. trim_space (msg_content m) \<noteq> []) ms)"

definition buildMultiAgentTaskPrompt :: "int \<Rightarrow> Task \<Rightarrow> World \<Rightarrow> (string \<times> string) \<times> World" where
  "buildMultiAgentTaskPrompt parent t w =
     (if parent \<le> 0 then ((task_prompt t, []), w)
      else (case on_store (ListRecentMessagesBySession parent
                    (if task_HistoryWindow t \<le> 0 then 4 else task_HistoryWindow t)) w of
              (Inl e, w) \<Rightarrow> ((task_prompt t, []), w)
            | (Inr ms, w) \<Rightarrow> ((task_prompt t, lines_of (history_lines ms)), w)))"

definition child_note :: "Task \<Rightarrow> int \<Rightarrow> string \<Rightarrow> string" where
  "child_note t child summary = ''[child:'' @ task_ID t @ '' session:'' @ show_int child @ ''] '' @ summary"

definition note_parent :: "int \<Rightarrow> int \<Rightarrow> Task \<Rightarrow> string \<Rightarrow> World \<Rightarrow> unit app_result" where
  "note_parent parent child t summary w =
     (if 0 < parent then child_message parent ''assistant'' (child_note t child summary) w else (Inr (), w))"

definition recordMultiAgentChildSession :: "App \<Rightarrow> string \<Rightarrow> int \<Rightarrow> Task \<Rightarrow> string \<Rightarrow> string \<Rightarrow> World \<Rightarrow> int app_result" where
  "recordMultiAgentChildSession a u parent t prompt summary w =
     bind_res (retryBusy (on_store (CreateSessionWithOptions (w_now w) u (llm_Model (ResolvedLLM (app_Config a))) prompt summary
         \<lparr>opt_kind = ''multiagent_child'', opt_task = task_ID t, opt_parent = parent\<rparr>)) w) (\<lambda>child w.
     bind_res (child_message child ''user'' prompt w) (\<lambda>_ w.
     bind_res (if trim_space summary \<noteq> [] then child_message child ''assistant'' summary w else (Inr (), w)) (\<lambda>_ w.
     bind_res (note_parent parent child t summary w) (\<lambda>_ w. (Inr child, w)))))"

definition finalizeMultiAgentChildSession :: "int \<Rightarrow> int \<Rightarrow> Task \<Rightarrow> string \<Rightarrow> World \<Rightarrow> unit app_result" where
  "finalizeMultiAgentChildSession parent child t summary w =
     bind_res (retryBusy (on_store (UpdateSessionResponse child summary)) w) (\<lambda>_ w.
     bind_res (child_message child ''assistant'' summary w) (\<lambda>_ w.
     note_parent parent child t summary w))"

definition marshal_field :: "Env \<Rightarrow> jmap option \<Rightarrow> string" where
  "marshal_field env m = (case m of None \<Rightarrow> [] | Some m \<Rightarrow> env_marshal env (JObj m))"

definition trace_record :: "Env \<Rightarrow> string \<Rightarrow> int \<Rightarrow> int \<Rightarrow> string \<Rightarrow> TraceStep \<Rightarrow> MultiAgentTraceRecord" where
  "trace_record env u parent child taskID s =
     \<lparr>tr_id = 0, tr_user = u, tr_parent = parent, tr_child = child, tr_task = taskID, tr_iteration = ts_Iteration s,
      tr_type = ts_Type s, tr_tool = ts_Tool s, tr_input = marshal_field env (ts_Input s),
      tr_output = marshal_field env (ts_Output s), tr_snapshot = marshal_field env (ts_Snapshot s),
      tr_verified = ts_Verified s, tr_verifier = ts_Verifier s, tr_class = ts_VerificationClass s,
      tr_error = ts_Error s, tr_note = ts_Note s, tr_created = 0\<rparr>"

fun persistMultiAgentTrace :: "Env \<Rightarrow> string \<Rightarrow> int \<Rightarrow> int \<Rightarrow> string \<Rightarrow> TraceStep list \<Rightarrow> World \<Rightarrow> unit app_result" where
  "persistMultiAgentTrace env u parent child taskID [] w = (Inr (), w)"
| "persistMultiAgentTrace env u parent child taskID (s # ss) w =
     bind_res (retryBusy (\<lambda>w. on_store (InsertMultiAgentTrace (w_now w) (trace_record env u parent child taskID s)) w) w)
       (\<lambda>_ w. persistMultiAgentTrace env u parent child taskID ss w)"

section \<open>The snapshot of a round\<close>

definition call_json :: "ToolCall \<Rightarrow> json" where
  "call_json c =
     JObj [(''id'', JStr (tc_ID c)), (''type'', JStr (tc_Type c)),
       (''function'', JObj [(''name'', JStr (fc_Name (tc_Function c))), (''arguments'', JStr (fc_Arguments (tc_Function c)))])]"

definition message_entry :: "LMessage \<Rightarrow> jmap" where
  "message_entry m =
     [(''role'', JStr (lm_Role m)), (''content'', JStr (trim_space (lm_Content m)))]
     @ (if trim_space (lm_Name m) \<noteq> [] then [(''name'', JStr (trim_space (lm_Name m)))] else [])
     @ (if trim_space (lm_ToolCallID m) \<noteq> [] then [(''tool_call_id'', JStr (trim_space (lm_ToolCallID m)))] else [])
     @ (if lm_ToolCalls m \<noteq> [] then [(''tool_calls'', JOther (JArr (map call_json (lm_ToolCalls m))))] else [])"

definition snapshot_map :: "int \<Rightarrow> Task \<Rightarrow> string \<Rightarrow> LMessage list \<Rightarrow> 's Tool list \<Rightarrow> string \<Rightarrow> string list \<Rightarrow> jmap" where
  "snapshot_map iteration t prompt history allowed runtime risks =
     [(''task_id'', JStr (task_ID t)), (''current_prompt'', JStr (trim_space prompt)),
      (''history_len'', JInt (int (length history))),
      (''history'', JOther (JArr (map (\<lambda>m. JObj (message_entry m)) history))),
      (''allowed_tools'', jstrings (map tool_Name allowed)), (''next_iteration'', JInt (iteration + 1)),
      (''runtime'', JStr (trim_space runtime)),
      (''tool_risks'', if risks = [] then JOther JNull else jstrings risks)]"

definition childLoopSnapshot :: "int \<Rightarrow> Task \<Rightarrow> string \<Rightarrow> LMessage list \<Rightarrow> 's Tool list \<Rightarrow> string \<Rightarrow> string list \<Rightarrow> TraceStep" where
  "childLoopSnapshot iteration t prompt history allowed runtime risks =
     (blank_step iteration ''snapshot'')\<lparr>ts_Snapshot := Some (snapshot_map iteration t prompt history allowed runtime risks),
       ts_Note := ''child loop snapshot''\<rparr>"

section \<open>The loops\<close>

record childLoopSeed =
  seed_CurrentPrompt :: string
  seed_NextIteration :: int
  seed_Runtime :: string
  seed_ToolRisks :: "string list"

definition no_seed :: childLoopSeed where
  "no_seed = \<lparr>seed_CurrentPrompt = [], seed_NextIteration = 0, seed_Runtime = [], seed_ToolRisks = []\<rparr>"

record loop_state =
  ls_history :: "LMessage list"
  ls_prompt :: string
  ls_trace :: "TraceStep list"
  ls_risks :: "string list"

record child_run =
  run_Summary :: string
  run_Runtime :: string
  run_Trace :: "TraceStep list"
  run_Risks :: "string list"
  run_Error :: "string option"

datatype loop_next = NextIteration loop_state | LoopReturn child_run

definition run_failed :: "loop_state \<Rightarrow> string \<Rightarrow> loop_next" where
  "run_failed st e =
     LoopReturn \<lparr>run_Summary = [], run_Runtime = [], run_Trace = ls_trace st, run_Risks = ls_risks st, run_Error = Some e\<rparr>"

definition run_done :: "string \<Rightarrow> loop_state \<Rightarrow> int \<Rightarrow> string \<Rightarrow> string \<Rightarrow> string list \<Rightarrow> loop_next" where
  "run_done runtime st iteration note summary risks =
     LoopReturn \<lparr>run_Summary = trim_space summary, run_Runtime = runtime,
       run_Trace = ls_trace st @ [final_step iteration note], run_Risks = ls_risks st @ risks, run_Error = None\<rparr>"

text \<open>Iterations \<open>5 - n\<close> to 4, as many as \<open>n\<close>.\<close>

fun child_loop :: "(int \<Rightarrow> loop_state \<Rightarrow> World \<Rightarrow> loop_next \<times> World) \<Rightarrow> string \<Rightarrow> nat \<Rightarrow> loop_state \<Rightarrow> World \<Rightarrow> child_run \<times> World" where
  "child_loop body runtime 0 st w =
     (\<lparr>run_Summary = ''Child loop reached iteration cap.'', run_Runtime = runtime, run_Trace = ls_trace st,
       run_Risks = ls_risks st @ [''Child reached iteration cap.''], run_Error = None\<rparr>, w)"
| "child_loop body runtime (Suc n) st w =
     (case body (4 - int n) st w of
        (LoopReturn r, w') \<Rightarrow> (r, w')
      | (NextIteration st', w') \<Rightarrow> child_loop body runtime n st' w')"

definition iterations_left :: "childLoopSeed \<Rightarrow> nat" where
  "iterations_left seed = nat (5 - (if 1 < seed_NextIteration seed then seed_NextIteration seed else 1))"

definition seeded_state :: "string \<Rightarrow> LMessage list \<Rightarrow> childLoopSeed \<Rightarrow> loop_state" where
  "seeded_state prompt seedHistory seed =
     \<lparr>ls_history = seedHistory,
      ls_prompt = (if trim_space (seed_CurrentPrompt seed) \<noteq> [] then trim_space (seed_CurrentPrompt seed) else prompt),
      ls_trace = [], ls_risks = seed_ToolRisks seed\<rparr>"

definition record_step :: "TraceStep \<Rightarrow> string \<Rightarrow> loop_state \<Rightarrow> loop_state" where
  "record_step step risk st =
     st\<lparr>ls_trace := ls_trace st @ [step], ls_risks := ls_risks st @ (if risk \<noteq> [] then [risk] else [])\<rparr>"

definition tool_failed_prompt :: "string \<Rightarrow> string \<Rightarrow> string \<Rightarrow> string" where
  "tool_failed_prompt tool e tail = ''Tool '' @ tool @ '' failed with error: '' @ e @ tail"

definition finish_concisely :: string where
  "finish_concisely = ''. Finish the task with a concise final response.''"

definition scope_block :: "Task \<Rightarrow> string list" where
  "scope_block t =
     (if task_WriteScopes t \<noteq> [] then [''Allowed write scopes: '' @ join '', '' (task_WriteScopes t)] else [])"

definition context_block :: "string \<Rightarrow> string list" where
  "context_block snippet =
     (if trim_space snippet \<noteq> [] then [''Recent parent session context:'' @ newline @ snippet] else [])"

subsection \<open>Native tool calls\<close>

definition toolcall_blocks :: "Task \<Rightarrow> string \<Rightarrow> string list" where
  "toolcall_blocks t snippet =
     [''You are a focused child agent working on one delegated subtask.'', ''Do not delegate further.'',
      ''When enough information has been gathered, answer with a concise final response.'']
     @ scope_block t @ context_block snippet"

text \<open>The calls of one answer in order; the first one that fails ends the round.\<close>

fun run_tool_calls :: "Env \<Rightarrow> App \<Rightarrow> string \<Rightarrow> int \<Rightarrow> World Tool list \<Rightarrow> int \<Rightarrow> ToolCall list \<Rightarrow> loop_state \<Rightarrow> World \<Rightarrow> loop_state \<times> World" where
  "run_tool_calls env a u iteration allowed child [] st w = (st\<lparr>ls_prompt := []\<rparr>, w)"
| "run_tool_calls env a u iteration allowed child (call # calls) st w =
     (case executeChildToolCall env a u iteration call allowed child w of
        ((step, risk, Inl e), w') \<Rightarrow>
          ((record_step step risk st)\<lparr>ls_prompt := tool_failed_prompt (fc_Name (tc_Function call)) e finish_concisely\<rparr>, w')
      | ((step, risk, Inr m), w') \<Rightarrow>
          run_tool_calls env a u iteration allowed child calls
            ((record_step step risk st)\<lparr>ls_history := ls_history st @ [m]\<rparr>) w')"

text \<open>An answer without native calls: a tool action or a final one as JSON, else the answer itself.\<close>

definition content_answer :: "Env \<Rightarrow> App \<Rightarrow> string \<Rightarrow> World Tool list \<Rightarrow> int \<Rightarrow> int \<Rightarrow> string \<Rightarrow> loop_state \<Rightarrow> World \<Rightarrow> loop_next \<times> World" where
  "content_answer env a u allowed child iteration content st w =
     (let plain = (run_done ''llm-toolcalls'' st iteration ''native tool-calling final response'' content [], w) in
      case parseChildAction env content of
        None \<Rightarrow> plain
      | Some action \<Rightarrow>
          if act_Type action = ''tool''
          then (case executeChildAction env a u iteration action allowed child w of
                  ((step, risk, Inl e), w') \<Rightarrow>
                    (NextIteration ((record_step step risk st)\<lparr>ls_prompt := tool_failed_prompt (act_Tool action) e finish_concisely\<rparr>), w')
                | ((step, risk, Inr m), w') \<Rightarrow>
                    (NextIteration ((record_step step risk st)\<lparr>ls_history := ls_history st @ [NewMessage ''assistant'' content, m],
                       ls_prompt := []\<rparr>), w'))
          else if act_Type action = ''final''
          then (run_done ''llm-toolcalls'' st iteration ''child loop completed'' (act_Summary action) (act_Risks action), w)
          else plain)"

definition toolcall_round :: "Env \<Rightarrow> App \<Rightarrow> string \<Rightarrow> Task \<Rightarrow> string list \<Rightarrow> World Tool list \<Rightarrow> int \<Rightarrow> int \<Rightarrow> loop_state \<Rightarrow> World \<Rightarrow> loop_next \<times> World" where
  "toolcall_round env a u t blocks allowed child iteration st0 w =
     (let st = st0\<lparr>ls_trace := ls_trace st0 @
            [childLoopSnapshot iteration t (ls_prompt st0) (ls_history st0) allowed ''llm-toolcalls'' (ls_risks st0)]\<rparr>
      in case on_net (do_chat_completion (env_net env) (app_LLM a) blocks (ls_history st) (ls_prompt st)
                (buildLLMToolDefinitions allowed)) w of
           (Inl e, w) \<Rightarrow> (run_failed st e, w)
         | (Inr completion, w) \<Rightarrow>
             (let content = lm_Content (cc_Message completion); calls = lm_ToolCalls (cc_Message completion) in
              case child_message child ''assistant'' content w of
                (Inl e, w) \<Rightarrow> (run_failed st e, w)
              | (Inr _, w) \<Rightarrow>
                  if calls \<noteq> []
                  then (case run_tool_calls env a u iteration allowed child calls
                               (st\<lparr>ls_history := ls_history st @ [\<lparr>lm_Role = ''assistant'', lm_Content = content, lm_Name = [],
                                    lm_ToolCallID = [], lm_ToolCalls = calls\<rparr>]\<rparr>) w of
                          (st', w') \<Rightarrow> (NextIteration st', w'))
                  else content_answer env a u allowed child iteration content st w))"

definition tryRunMultiAgentToolCallingTask :: "Env \<Rightarrow> App \<Rightarrow> string \<Rightarrow> Task \<Rightarrow> string \<Rightarrow> string \<Rightarrow> World Tool list \<Rightarrow> int \<Rightarrow> LMessage list \<Rightarrow> childLoopSeed \<Rightarrow> World \<Rightarrow> child_run \<times> World" where
  "tryRunMultiAgentToolCallingTask env a u t prompt snippet allowed child seedHistory seed =
     child_loop (toolcall_round env a u t (toolcall_blocks t snippet) allowed child) ''llm-toolcalls''
       (iterations_left seed) (seeded_state prompt seedHistory seed)"

subsection \<open>Answers in JSON\<close>

definition action_shapes :: string where
  \<open>action_shapes = ''Use one of these JSON shapes:'' @ newline
     @ ''{"type":"tool","tool":"session.search","input":{"query":"...","limit":5},"note":"why"}'' @ newline
     @ ''{"type":"final","summary":"...","risks":["..."],"next_actions":["..."]}''\<close>

definition json_blocks :: "Task \<Rightarrow> string \<Rightarrow> 's Tool list \<Rightarrow> string list" where
  "json_blocks t snippet allowed =
     [''You are a focused child agent working on one delegated subtask.'',
      ''Do not delegate further. Respond with JSON only.'', action_shapes]
     @ (if allowed \<noteq> [] then [''Allowed tools for this child:'' @ newline
           @ lines_of (map (\<lambda>t. tool_Name t @ '': '' @ tool_Description t) allowed)] else [])
     @ scope_block t @ context_block snippet"

definition json_round :: "Env \<Rightarrow> App \<Rightarrow> string \<Rightarrow> Task \<Rightarrow> string list \<Rightarrow> World Tool list \<Rightarrow> int \<Rightarrow> int \<Rightarrow> loop_state \<Rightarrow> World \<Rightarrow> loop_next \<times> World" where
  "json_round env a u t blocks allowed child iteration st0 w =
     (let st1 = st0\<lparr>ls_trace := ls_trace st0 @
            [childLoopSnapshot iteration t (ls_prompt st0) (ls_history st0) allowed ''llm'' (ls_risks st0)]\<rparr>
      in case on_net (ChatWithMessages (env_net env) (app_LLM a) blocks (ls_history st1) (ls_prompt st1)) w of
           (Inl e, w) \<Rightarrow> (run_failed st1 e, w)
         | (Inr response, w) \<Rightarrow>
             (case child_message child ''assistant'' response w of
                (Inl e, w) \<Rightarrow> (run_failed st1 e, w)
              | (Inr _, w) \<Rightarrow>
                  (let st = st1\<lparr>ls_history := ls_history st1 @ [NewMessage ''user'' (ls_prompt st1), NewMessage ''assistant'' response]\<rparr>
                   in case parseChildAction env response of
                        None \<Rightarrow> (run_done ''llm'' st iteration ''model returned non-json final response'' response [], w)
                      | Some action \<Rightarrow>
                          if act_Type action = ''final''
                          then (run_done ''llm'' st iteration ''child loop completed'' (act_Summary action) (act_Risks action), w)
                          else if act_Type action \<noteq> ''tool''
                          then (run_failed st (''unknown child action type '' @ go_quote (act_Type action)), w)
                          else (case executeChildAction env a u iteration action allowed child w of
                                  ((step, risk, Inl e), w') \<Rightarrow>
                                    (NextIteration ((record_step step risk st)\<lparr>ls_prompt :=
                                        tool_failed_prompt (act_Tool action) e ''. Return final JSON now.''\<rparr>), w')
                                | ((step, risk, Inr m), w') \<Rightarrow>
                                    (NextIteration ((record_step step risk st)\<lparr>ls_history := ls_history st @ [m],
                                       ls_prompt := ''Tool '' @ act_Tool action @ '' returned: '' @ lm_Content m @ newline
                                         @ ''Return either another tool JSON or a final JSON summary.''\<rparr>), w')))))"

definition tryRunMultiAgentJSONTask :: "Env \<Rightarrow> App \<Rightarrow> string \<Rightarrow> Task \<Rightarrow> string \<Rightarrow> string \<Rightarrow> World Tool list \<Rightarrow> int \<Rightarrow> LMessage list \<Rightarrow> childLoopSeed \<Rightarrow> World \<Rightarrow> child_run \<times> World" where
  "tryRunMultiAgentJSONTask env a u t prompt snippet allowed child seedHistory seed =
     child_loop (json_round env a u t (json_blocks t snippet allowed) allowed child) ''llm''
       (iterations_left seed) (seeded_state prompt seedHistory seed)"

section \<open>A child task\<close>

definition tryRunMultiAgentLLMTaskWithState :: "Env \<Rightarrow> App \<Rightarrow> string \<Rightarrow> LLMConfig \<Rightarrow> Task \<Rightarrow> string \<Rightarrow> string \<Rightarrow> World Tool list \<Rightarrow> int \<Rightarrow> LMessage list \<Rightarrow> childLoopSeed \<Rightarrow> World \<Rightarrow> child_run \<times> World" where
  "tryRunMultiAgentLLMTaskWithState env a u llm t prompt snippet allowed child seedHistory seed w =
     (let by_json = tryRunMultiAgentJSONTask env a u t prompt snippet allowed child seedHistory seed in
      if trim_space (llm_BaseURL llm) = [] \<or> trim_space (llm_Model llm) = []
      then (\<lparr>run_Summary = [], run_Runtime = [], run_Trace = [], run_Risks = [], run_Error = Some ''llm is not configured''\<rparr>, w)
      else if trim_space (seed_Runtime seed) = ''llm'' \<or> allowed = [] then by_json w
      else (case tryRunMultiAgentToolCallingTask env a u t prompt snippet allowed child seedHistory seed w of
              (r, w') \<Rightarrow> if run_Error r = None then (r, w') else by_json w'))"

definition failed_result :: "Task \<Rightarrow> string \<Rightarrow> string \<Rightarrow> string \<Rightarrow> Result" where
  "failed_result t summary risk advice =
     \<lparr>res_TaskID = task_ID t, res_ChildSessionID = 0, res_Status = ResultFailed, res_Summary = summary, res_Trace = [],
      res_FilesChanged = [], res_Risks = [risk], res_NextActions = [advice]\<rparr>"

definition stub_text :: "Task \<Rightarrow> string" where
  "stub_text t =
     ''Prepared delegated task '' @ task_ID t @ '': '' @ task_Goal t
     @ (if task_AllowedTools t \<noteq> [] then '' | allowed_tools='' @ join '','' (task_AllowedTools t) else [])
     @ (if task_WriteScopes t \<noteq> [] then '' | write_scopes='' @ join '','' (task_WriteScopes t) else [])"

text \<open>The session's last answer, the trace and the result, with the given risks.\<close>

definition close_child :: "Env \<Rightarrow> string \<Rightarrow> int \<Rightarrow> int \<Rightarrow> Task \<Rightarrow> string \<Rightarrow> TraceStep list \<Rightarrow> string list \<Rightarrow> string list \<Rightarrow> string list \<Rightarrow> World \<Rightarrow> Result \<times> World" where
  "close_child env u parent child t summary trace risks last_risks advice w =
     (case finalizeMultiAgentChildSession parent child t summary w of
        (Inl e, w) \<Rightarrow> (failed_result t e ''Failed to persist child session.'' ''Check SQLite session persistence path.'', w)
      | (Inr _, w) \<Rightarrow>
          (case persistMultiAgentTrace env u parent child (task_ID t) trace w of
             (r, w) \<Rightarrow>
               (\<lparr>res_TaskID = task_ID t, res_ChildSessionID = child, res_Status = ResultCompleted, res_Summary = summary,
                  res_Trace = trace, res_FilesChanged = [],
                  res_Risks = risks @ (case r of Inl e \<Rightarrow> [''Failed to persist child trace: '' @ e] | Inr _ \<Rightarrow> []) @ last_risks,
                  res_NextActions = advice\<rparr>, w)))"

definition runMultiAgentChildTaskWithSeedAndState :: "Env \<Rightarrow> App \<Rightarrow> string \<Rightarrow> int \<Rightarrow> Task \<Rightarrow> LMessage list \<Rightarrow> childLoopSeed \<Rightarrow> World \<Rightarrow> Result \<times> World" where
  "runMultiAgentChildTaskWithSeedAndState env a u parent t seedHistory seed w =
     (let (allowed, invalid) = resolveChildAllowedTools a (task_AllowedTools t);
          ((prompt, snippet), w) = buildMultiAgentTaskPrompt parent t w
      in case recordMultiAgentChildSession a u parent t prompt [] w of
           (Inl e, w) \<Rightarrow> (failed_result t e ''Failed to create child session.'' ''Check SQLite child session creation path.'', w)
         | (Inr child, w) \<Rightarrow>
             (let (run, w) = tryRunMultiAgentLLMTaskWithState env a u (ResolvedLLM (app_Config a)) t prompt snippet allowed child
                               seedHistory seed w;
                  risks = (if invalid \<noteq> [] then [''Some requested child tools are not available: '' @ join '', '' invalid] else [])
                    @ run_Risks run
              in if run_Error run = None
                 then close_child env u parent child t (''[runtime='' @ run_Runtime run @ ''] '' @ run_Summary run) (run_Trace run)
                        risks [] [''Wire task-specific tool execution when delegated tools are implemented.''] w
                 else close_child env u parent child t (''[runtime=stub] '' @ stub_text t) [final_step 1 ''stub runtime fallback'']
                        risks [''Child task runtime fell back to stub execution.'']
                        [''Provide API key or local model endpoint to enable LLM child runtime.'',
                         ''Attach delegated tool runtime for real task execution.''] w))"

definition runMultiAgentChildTask :: "Env \<Rightarrow> App \<Rightarrow> string \<Rightarrow> int \<Rightarrow> Task \<Rightarrow> World \<Rightarrow> Result \<times> World" where
  "runMultiAgentChildTask env a u parent t = runMultiAgentChildTaskWithSeedAndState env a u parent t [] no_seed"

end
