(* ===== verification/ChildResume.thy ===== *)
theory ChildResume
  imports ChildAgent
begin

text \<open>
  \<^verbatim>\<open>internal/app/app.go\<close>, third part: running a plan of delegated tasks, replaying a child from its
  stored session and trace, and resuming it as a new child. A plan's parallel tasks are whole steps
  of the schedule here: the database sees the statements of one child together.
\<close>

section \<open>Running a plan\<close>

definition BuildMultiAgentPlan :: "App \<Rightarrow> string \<Rightarrow> string \<Rightarrow> Task list \<Rightarrow> World \<Rightarrow> Plan app_result" where
  "BuildMultiAgentPlan a u objective tasks w =
     (case BuildPlan (app_MultiAgent a) objective tasks of
        (plan, Some e) \<Rightarrow> (Inl e, w)
      | (plan, None) \<Rightarrow>
          (Inr plan, snd (audit u ''multiagent_plan_built''
             (''tasks='' @ show_nat (length (plan_Tasks plan)) @ '' mode='' @ plan_Mode plan) w)))"

definition summarizeMultiAgentAggregate :: "string \<Rightarrow> Aggregate \<Rightarrow> string" where
  "summarizeMultiAgentAggregate objective g =
     lines_of ([''[multiagent aggregate] objective='' @ objective,
        ''completed='' @ show_int (agg_Completed g) @ '' failed='' @ show_int (agg_Failed g) @ '' skipped='' @ show_int (agg_Skipped g)]
       @ (if agg_Risks g \<noteq> [] then [''risks='' @ join '' | '' (agg_Risks g)] else [])
       @ (if agg_NextActions g \<noteq> [] then [''next_actions='' @ join '' | '' (agg_NextActions g)] else []))"

definition open_parent :: "App \<Rightarrow> string \<Rightarrow> Plan \<Rightarrow> World \<Rightarrow> int app_result" where
  "open_parent a u plan w =
     (if plan_ParentSessionID plan \<noteq> 0 then (Inr (plan_ParentSessionID plan), w)
      else bind_res (on_store (CreateSessionWithOptions (w_now w) u (llm_Model (ResolvedLLM (app_Config a)))
                (''[multiagent] '' @ plan_Objective plan) ''multiagent run created''
                \<lparr>opt_kind = ''multiagent_parent'', opt_task = [], opt_parent = 0\<rparr>) w) (\<lambda>sid w.
           bind_res (child_message sid ''user'' (''[multiagent objective] '' @ plan_Objective plan) w) (\<lambda>_ w. (Inr sid, w))))"

text \<open>\<open>None\<close> when the call never returns: its schedule leaves the collector waiting, or the
  semaphore's capacity makes it panic.\<close>

definition RunMultiAgentPlan :: "Env \<Rightarrow> App \<Rightarrow> (World \<Rightarrow> bool) \<Rightarrow> par_event list \<Rightarrow> string \<Rightarrow> Plan \<Rightarrow> World \<Rightarrow> (string + Result list \<times> Aggregate) option \<times> World" where
  "RunMultiAgentPlan env a cancelled schedule u plan w =
     (case open_parent a u plan w of
        (Inl e, w) \<Rightarrow> (Some (Inl e), w)
      | (Inr parent, w) \<Rightarrow>
          (case RunPlan (app_MultiAgent a) (\<lambda>t. runMultiAgentChildTask env a u parent t) cancelled schedule plan w of
             (RunError e, w) \<Rightarrow> (Some (Inl e), w)
           | (RunCancelled, w) \<Rightarrow> (Some (Inl ''context canceled''), w)
           | (RunPanic, w) \<Rightarrow> (None, w)
           | (RunBlocked, w) \<Rightarrow> (None, w)
           | (RunDone rs g0, w) \<Rightarrow>
               (let g = g0\<lparr>agg_ParentSessionID := parent\<rparr> in
                case child_message parent ''assistant'' (summarizeMultiAgentAggregate (plan_Objective plan) g) w of
                  (Inl e, w) \<Rightarrow> (Some (Inl e), w)
                | (Inr _, w) \<Rightarrow>
                    (Some (Inr (rs, g)), snd (audit u ''multiagent_run''
                       (''tasks='' @ show_nat (length rs) @ '' completed='' @ show_int (agg_Completed g)
                        @ '' failed='' @ show_int (agg_Failed g)) w)))))"

definition gateway_task :: "string \<Rightarrow> Task" where
  "gateway_task objective =
     \<lparr>task_ID = ''gateway-task'', task_Title = ''Gateway delegated objective'', task_Goal = objective, task_Context = [],
      task_HistoryWindow = 6, task_AllowedTools = [''session.history'', ''session.search'', ''memory.read''],
      task_AllowedPrefixes = [], task_WriteScopes = []\<rparr>"

definition RunGatewayMultiAgent :: "Env \<Rightarrow> App \<Rightarrow> (World \<Rightarrow> bool) \<Rightarrow> par_event list \<Rightarrow> string \<Rightarrow> string \<Rightarrow> World \<Rightarrow> (string + string) option \<times> World" where
  "RunGatewayMultiAgent env a cancelled schedule u objective0 w =
     (let objective = trim_space objective0 in
      if objective = [] then (Some (Inl ''objective is required''), w)
      else (case BuildMultiAgentPlan a u objective [gateway_task objective] w of
              (Inl e, w) \<Rightarrow> (Some (Inl e), w)
            | (Inr plan, w) \<Rightarrow>
                (case RunMultiAgentPlan env a cancelled schedule u plan w of
                   (None, w) \<Rightarrow> (None, w)
                 | (Some (Inl e), w) \<Rightarrow> (Some (Inl e), w)
                 | (Some (Inr (rs, g)), w) \<Rightarrow>
                     (Some (Inr (lines_of (summarizeMultiAgentAggregate objective g
                        # map (\<lambda>r. ''[task:'' @ res_TaskID r @ ''] '' @ res_Summary r) rs))), w))))"

section \<open>What a stored child still knows\<close>

record ResumeToolState =
  rts_Iteration :: int
  rts_Tool :: string
  rts_Output :: string

record ResumeBasis =
  rb_LastIteration :: int
  rb_LastSuccessfulTool :: string
  rb_LastSuccessfulOut :: string
  rb_LastFailedTool :: string
  rb_LastFailedError :: string
  rb_LastFailedInput :: jmap
  rb_RecoveredHistoryMessage :: int
  rb_RecoveredToolStates :: "ResumeToolState list"
  rb_LastSnapshot :: jmap
  rb_LastSnapshotPrompt :: string
  rb_LastSnapshotHistoryLen :: int
  rb_LastSnapshotHistory :: "LMessage list"
  rb_LastSnapshotNextIteration :: int
  rb_LastSnapshotRuntime :: string
  rb_LastSnapshotToolRisks :: "string list"

definition no_basis :: ResumeBasis where
  "no_basis =
     \<lparr>rb_LastIteration = 0, rb_LastSuccessfulTool = [], rb_LastSuccessfulOut = [], rb_LastFailedTool = [],
      rb_LastFailedError = [], rb_LastFailedInput = [], rb_RecoveredHistoryMessage = 0, rb_RecoveredToolStates = [],
      rb_LastSnapshot = [], rb_LastSnapshotPrompt = [], rb_LastSnapshotHistoryLen = 0, rb_LastSnapshotHistory = [],
      rb_LastSnapshotNextIteration = 0, rb_LastSnapshotRuntime = [], rb_LastSnapshotToolRisks = []\<rparr>"

fun decode_call :: "json \<Rightarrow> ToolCall option" where
  "decode_call (JObj m) =
     Some \<lparr>tc_ID = jget_str m ''id'', tc_Type = jget_str m ''type'',
       tc_Function = (case jget m ''function'' of
          JObj f \<Rightarrow> \<lparr>fc_Name = jget_str f ''name'', fc_Arguments = jget_str f ''arguments''\<rparr>
        | _ \<Rightarrow> \<lparr>fc_Name = [], fc_Arguments = []\<rparr>)\<rparr>"
| "decode_call _ = None"

fun decode_entry :: "json \<Rightarrow> LMessage option" where
  "decode_entry (JObj m) =
     Some \<lparr>lm_Role = jget_str m ''role'', lm_Content = jget_str m ''content'', lm_Name = jget_str m ''name'',
       lm_ToolCallID = jget_str m ''tool_call_id'',
       lm_ToolCalls = (case jget m ''tool_calls'' of JArr cs \<Rightarrow> List.map_filter decode_call cs | _ \<Rightarrow> [])\<rparr>"
| "decode_entry _ = None"

definition decodeSnapshotMessages :: "json list \<Rightarrow> LMessage list" where
  "decodeSnapshotMessages raw = List.map_filter decode_entry raw"

fun risk_text :: "json \<Rightarrow> string option" where
  "risk_text (JStr s) = (if trim_space s \<noteq> [] then Some (trim_space s) else None)"
| "risk_text _ = None"

definition decodeStringSlice :: "json list \<Rightarrow> string list" where
  "decodeStringSlice values = List.map_filter risk_text values"

fun jint_or :: "int \<Rightarrow> json \<Rightarrow> int" where
  "jint_or old (JFloat f) = trunc_rat f"
| "jint_or old (JInt i) = i"
| "jint_or old _ = old"

fun jtrim_or :: "string \<Rightarrow> json \<Rightarrow> string" where
  "jtrim_or old (JStr s) = trim_space s"
| "jtrim_or old _ = old"

definition take_snapshot :: "jmap \<Rightarrow> ResumeBasis \<Rightarrow> ResumeBasis" where
  "take_snapshot sn b = b\<lparr>
     rb_LastSnapshot := sn,
     rb_LastSnapshotPrompt := jtrim_or (rb_LastSnapshotPrompt b) (jget sn ''current_prompt''),
     rb_LastSnapshotHistoryLen := jint_or (rb_LastSnapshotHistoryLen b) (jget sn ''history_len''),
     rb_LastSnapshotNextIteration := jint_or (rb_LastSnapshotNextIteration b) (jget sn ''next_iteration''),
     rb_LastSnapshotRuntime := jtrim_or (rb_LastSnapshotRuntime b) (jget sn ''runtime''),
     rb_LastSnapshotHistory := (case jget sn ''history'' of JArr h \<Rightarrow> decodeSnapshotMessages h | _ \<Rightarrow> rb_LastSnapshotHistory b),
     rb_LastSnapshotToolRisks := (case jget sn ''tool_risks'' of JArr r \<Rightarrow> decodeStringSlice r | _ \<Rightarrow> rb_LastSnapshotToolRisks b)\<rparr>"

text \<open>Decoding into a nil map: \<^verbatim>\<open>null\<close> succeeds and leaves it nil.\<close>

definition decode_map :: "Env \<Rightarrow> string \<Rightarrow> jmap option" where
  "decode_map env text =
     (case env_unmarshal env text of Inr (JObj m) \<Rightarrow> Some m | Inr JNull \<Rightarrow> Some [] | _ \<Rightarrow> None)"

definition basis_row :: "Env \<Rightarrow> ResumeBasis \<Rightarrow> MultiAgentTraceRecord \<Rightarrow> ResumeBasis" where
  "basis_row env b0 r =
     (let b1 = (if rb_LastIteration b0 < tr_iteration r then b0\<lparr>rb_LastIteration := tr_iteration r\<rparr> else b0);
          b2 = (if tr_tool r \<noteq> [] \<and> tr_error r = []
                then b1\<lparr>rb_LastSuccessfulTool := tr_tool r, rb_LastSuccessfulOut := tr_output r\<rparr> else b1);
          b3 = (if tr_error r \<noteq> []
                then (let b = b2\<lparr>rb_LastFailedTool := tr_tool r, rb_LastFailedError := tr_error r\<rparr>
                      in if tr_input r = [] then b
                         else (case decode_map env (tr_input r) of None \<Rightarrow> b | Some m \<Rightarrow> b\<lparr>rb_LastFailedInput := m\<rparr>))
                else b2)
      in if tr_snapshot r = [] then b3
         else (case decode_map env (tr_snapshot r) of None \<Rightarrow> b3 | Some sn \<Rightarrow> take_snapshot sn b3))"

definition collectRecoveredToolStates :: "MultiAgentTraceRecord list \<Rightarrow> int \<Rightarrow> ResumeToolState list" where
  "collectRecoveredToolStates rows limit =
     rev (take (if limit \<le> 0 then 3 else nat limit) (map (\<lambda>r. \<lparr>rts_Iteration = tr_iteration r, rts_Tool = tr_tool r, rts_Output = tr_output r\<rparr>)
       (filter (\<lambda>r. tr_tool r \<noteq> [] \<and> tr_error r = [] \<and> trim_space (tr_output r) \<noteq> []) (rev rows))))"

text \<open>The first marker of the two that occurs, and not at the start, splits the text.\<close>

definition cut_at :: "string \<Rightarrow> string \<Rightarrow> (string \<times> string) option" where
  "cut_at marker content =
     (case index_of marker content of
        Some (Suc i) \<Rightarrow> Some (trim_space (take (Suc i) content), trim_space (drop (Suc i + length marker) content))
      | _ \<Rightarrow> None)"

definition parseStoredToolMessage :: "string \<Rightarrow> string \<times> string" where
  "parseStoredToolMessage content =
     (case cut_at '' result: '' content of
        Some r \<Rightarrow> r
      | None \<Rightarrow> (case cut_at '' error: '' content of Some r \<Rightarrow> r | None \<Rightarrow> ([], trim_space content)))"

definition resume_message :: "Message \<Rightarrow> LMessage" where
  "resume_message m =
     (if msg_role m = ''assistant'' then NewMessage ''assistant'' (msg_content m)
      else (case parseStoredToolMessage (msg_content m) of
              (name, content) \<Rightarrow> (NewMessage ''tool'' content)\<lparr>lm_Name := name\<rparr>))"

definition buildResumeHistoryMessages :: "Message list \<Rightarrow> int \<Rightarrow> LMessage list" where
  "buildResumeHistoryMessages ms limit =
     map resume_message (rev (take (if limit \<le> 0 then 8 else nat limit) (filter (\<lambda>m. (msg_role m = ''assistant'' \<or> msg_role m = ''tool'')
       \<and> trim_space (msg_content m) \<noteq> []) (rev ms))))"

definition deriveResumeBasis :: "Env \<Rightarrow> MultiAgentTraceRecord list \<Rightarrow> Message list \<Rightarrow> ResumeBasis" where
  "deriveResumeBasis env rows ms =
     (foldl (basis_row env) no_basis rows)\<lparr>rb_RecoveredToolStates := collectRecoveredToolStates rows 3,
       rb_RecoveredHistoryMessage := int (length (buildResumeHistoryMessages ms 8))\<rparr>"

definition optional_line :: "bool \<Rightarrow> string \<Rightarrow> string list" where
  "optional_line c l = (if c then [l] else [])"

definition buildResumeContext :: "Env \<Rightarrow> int \<Rightarrow> ResumeBasis \<Rightarrow> string" where
  "buildResumeContext env child b =
     lines_of ([''Recovery mode: continue from prior child session '' @ show_int child @ ''.'',
        ''Resume from iteration '' @ show_int (rb_LastIteration b) @ ''.'']
       @ optional_line (0 < rb_RecoveredHistoryMessage b)
           (''Recovered '' @ show_int (rb_RecoveredHistoryMessage b) @ '' prior assistant/tool history messages.'')
       @ optional_line (rb_LastSnapshot b \<noteq> []) (''Recovered loop snapshot: '' @ env_marshal env (JObj (rb_LastSnapshot b)))
       @ optional_line (rb_LastSnapshotPrompt b \<noteq> []) (''Recovered next prompt candidate: '' @ rb_LastSnapshotPrompt b)
       @ optional_line (0 < rb_LastSnapshotHistoryLen b)
           (''Recovered snapshot history length: '' @ show_int (rb_LastSnapshotHistoryLen b))
       @ optional_line (rb_LastSnapshotHistory b \<noteq> [])
           (''Recovered exact snapshot history messages: '' @ show_nat (length (rb_LastSnapshotHistory b)))
       @ optional_line (0 < rb_LastSnapshotNextIteration b)
           (''Recovered next iteration: '' @ show_int (rb_LastSnapshotNextIteration b))
       @ optional_line (rb_LastSnapshotRuntime b \<noteq> []) (''Recovered runtime mode: '' @ rb_LastSnapshotRuntime b)
       @ optional_line (rb_LastSnapshotToolRisks b \<noteq> []) (''Recovered tool risks: '' @ join ''; '' (rb_LastSnapshotToolRisks b))
       @ optional_line (rb_LastSuccessfulTool b \<noteq> []) (''Last successful tool: '' @ rb_LastSuccessfulTool b)
       @ optional_line (rb_LastSuccessfulTool b \<noteq> [] \<and> rb_LastSuccessfulOut b \<noteq> [])
           (''Last successful output: '' @ rb_LastSuccessfulOut b)
       @ optional_line (rb_RecoveredToolStates b \<noteq> []) (''Recovered tool states: ''
           @ join '', '' (map (\<lambda>s. rts_Tool s @ ''@'' @ show_int (rts_Iteration s)) (rb_RecoveredToolStates b)))
       @ optional_line (rb_LastFailedTool b \<noteq> []) (''Last failed tool: '' @ rb_LastFailedTool b)
       @ optional_line (rb_LastFailedTool b \<noteq> []) (''Last failure: '' @ rb_LastFailedError b)
       @ optional_line (rb_LastFailedTool b \<noteq> [] \<and> rb_LastFailedInput b \<noteq> [])
           (''Last failed input: '' @ env_marshal env (JObj (rb_LastFailedInput b))))"

definition tool_message :: "string \<Rightarrow> string \<Rightarrow> LMessage" where
  "tool_message name content = (NewMessage ''tool'' content)\<lparr>lm_Name := name\<rparr>"

definition buildResumeSeedHistory :: "Message list \<Rightarrow> ResumeBasis \<Rightarrow> LMessage list" where
  "buildResumeSeedHistory ms b =
     (if rb_LastSnapshotHistory b \<noteq> []
      then rb_LastSnapshotHistory b
        @ map (\<lambda>s. tool_message (rts_Tool s) (rts_Output s)) (filter (\<lambda>s. rts_Output s \<noteq> []) (rb_RecoveredToolStates b))
      else if buildResumeHistoryMessages ms 8 \<noteq> [] then buildResumeHistoryMessages ms 8
      else if rb_LastSuccessfulTool b = [] \<or> trim_space (rb_LastSuccessfulOut b) = [] then []
      else [tool_message (rb_LastSuccessfulTool b) (rb_LastSuccessfulOut b)])"

definition buildResumeLoopSeed :: "ResumeBasis \<Rightarrow> childLoopSeed" where
  "buildResumeLoopSeed b =
     \<lparr>seed_CurrentPrompt = trim_space (rb_LastSnapshotPrompt b),
      seed_NextIteration = (if rb_LastSnapshotNextIteration b \<le> 0 then rb_LastIteration b + 1 else rb_LastSnapshotNextIteration b),
      seed_Runtime = trim_space (rb_LastSnapshotRuntime b), seed_ToolRisks = rb_LastSnapshotToolRisks b\<rparr>"

section \<open>Replaying and resuming\<close>

definition child_traces :: "string \<Rightarrow> int \<Rightarrow> int \<Rightarrow> World \<Rightarrow> MultiAgentTraceRecord list app_result" where
  "child_traces u child limit =
     on_store (ListMultiAgentTraces \<lparr>tf_user = u, tf_parent = 0, tf_child = child, tf_task = [], tf_from = None, tf_to = None,
       tf_limit = limit, tf_offset = 0\<rparr>)"

text \<open>A line of the stored prompt renames the task; the last one of a kind that is not blank counts.\<close>

definition prompt_line :: "Task \<Rightarrow> string \<Rightarrow> Task" where
  "prompt_line t line0 =
     (let line = trim_space line0;
          value = (\<lambda>p. trim_space (trim_prefix p line));
          pick = (\<lambda>p old. if value p \<noteq> [] then value p else old)
      in if has_prefix ''Task ID:'' line then t\<lparr>task_ID := pick ''Task ID:'' (task_ID t)\<rparr>
         else if has_prefix ''Title:'' line then t\<lparr>task_Title := pick ''Title:'' (task_Title t)\<rparr>
         else if has_prefix ''Goal:'' line then t\<lparr>task_Goal := pick ''Goal:'' (task_Goal t)\<rparr>
         else t)"

fun traced_tools :: "MultiAgentTraceRecord list \<Rightarrow> string list \<Rightarrow> string list" where
  "traced_tools [] seen = []"
| "traced_tools (r # rs) seen =
     (if trim_space (tr_tool r) = [] \<or> tr_tool r \<in> set seen then traced_tools rs seen
      else tr_tool r # traced_tools rs (tr_tool r # seen))"

definition default_child_tools :: "string list" where
  "default_child_tools = [''session.history'', ''session.search'', ''memory.read'']"

definition rebuildTaskFromChildSession :: "Session \<Rightarrow> string list \<Rightarrow> int \<Rightarrow> World \<Rightarrow> Task app_result" where
  "rebuildTaskFromChildSession s allowed window w =
     (let prompt = trim_space (sess_prompt s);
          t0 = \<lparr>task_ID = (if sess_task s = [] then ''resume-'' @ show_int (sess_id s) else sess_task s),
                 task_Title = sess_task s, task_Goal = prompt, task_Context = [],
                 task_HistoryWindow = (if window \<le> 0 then 6 else window), task_AllowedTools = allowed,
                 task_AllowedPrefixes = [], task_WriteScopes = []\<rparr>;
          t = foldl prompt_line t0 (split_on newline prompt);
          with_default = (\<lambda>tools. t\<lparr>task_AllowedTools := (if tools = [] then default_child_tools else tools)\<rparr>)
      in if prompt = [] then (Inl ''child session prompt is empty'', w)
         else if allowed \<noteq> [] then (Inr t, w)
         else bind_res (child_traces (sess_user s) (sess_id s) 100 w) (\<lambda>rows w. (Inr (with_default (traced_tools rows [])), w)))"

record LastStep =
  last_Iteration :: int
  last_Type :: string
  last_Tool :: string
  last_Error :: string
  last_Note :: string

record ChildReplay =
  rep_Session :: Session
  rep_Trace :: "MultiAgentTraceRecord list"
  rep_Messages :: "Message list"
  rep_LastStep :: "LastStep option"
  rep_ResumeBasis :: ResumeBasis
  rep_RecoveryHint :: string

definition recovery_hint :: "MultiAgentTraceRecord list \<Rightarrow> string" where
  "recovery_hint rows =
     (if rows = [] then ''No persisted trace was found. Re-run the child task from the parent plan.''
      else if trim_space (tr_error (last rows)) \<noteq> []
      then ''Resume from the last failed tool step for '' @ go_quote (tr_tool (last rows)) @ '' and inspect the error before continuing.''
      else if tr_type (last rows) = ''final''
      then ''This child session already reached a final step. Prefer replay or start a new child task instead of resuming it.''
      else ''Resume from the last completed tool step and continue the delegated task with fresh context.'')"

definition last_step :: "MultiAgentTraceRecord list \<Rightarrow> LastStep option" where
  "last_step rows =
     (if rows = [] then None
      else (let r = last rows in Some \<lparr>last_Iteration = tr_iteration r, last_Type = tr_type r, last_Tool = tr_tool r,
        last_Error = tr_error r, last_Note = tr_note r\<rparr>))"

definition ReplayMultiAgentChild :: "Env \<Rightarrow> string \<Rightarrow> int \<Rightarrow> World \<Rightarrow> ChildReplay app_result" where
  "ReplayMultiAgentChild env u child w =
     bind_res (on_store (GetSession child) w) (\<lambda>s w.
       if sess_user s \<noteq> u then (Inl ''child session does not belong to user'', w)
       else bind_res (child_traces u child 200 w) (\<lambda>rows w.
            bind_res (on_store (GetMessagesPage child 200 0) w) (\<lambda>ms w.
              (Inr \<lparr>rep_Session = s, rep_Trace = rows, rep_Messages = ms, rep_LastStep = last_step rows,
                 rep_ResumeBasis = deriveResumeBasis env rows ms, rep_RecoveryHint = recovery_hint rows\<rparr>, w))))"

record ChildResumed =
  rsm_From :: int
  rsm_Parent :: int
  rsm_Basis :: ResumeBasis
  rsm_Result :: Result

definition resumed_task :: "Env \<Rightarrow> int \<Rightarrow> ResumeBasis \<Rightarrow> Task \<Rightarrow> Task" where
  "resumed_task env child b t =
     t\<lparr>task_ID := task_ID t @ ''-resume'',
       task_Context := trim_space (task_Context t @ newline @ buildResumeContext env child b),
       task_Goal := (if trim_space (rb_LastSnapshotPrompt b) \<noteq> [] then rb_LastSnapshotPrompt b else task_Goal t)\<rparr>"

definition resumable :: "string \<Rightarrow> int \<Rightarrow> Session \<Rightarrow> string + int" where
  "resumable u child s =
     (if sess_user s \<noteq> u then Inl ''child session does not belong to user''
      else if sess_kind s \<noteq> ''multiagent_child'' then Inl (''session '' @ show_int child @ '' is not a multiagent child session'')
      else (case sess_parent s of
              Some p \<Rightarrow> if p \<le> 0 then Inl (''child session '' @ show_int child @ '' has no parent session'') else Inr p
            | None \<Rightarrow> Inl (''child session '' @ show_int child @ '' has no parent session'')))"

definition ResumeMultiAgentChild :: "Env \<Rightarrow> App \<Rightarrow> string \<Rightarrow> int \<Rightarrow> string list \<Rightarrow> int \<Rightarrow> World \<Rightarrow> ChildResumed app_result" where
  "ResumeMultiAgentChild env a u child allowed window w =
     bind_res (on_store (GetSession child) w) (\<lambda>s w.
       case resumable u child s of
         Inl e \<Rightarrow> (Inl e, w)
       | Inr parent \<Rightarrow>
           bind_res (rebuildTaskFromChildSession s allowed window w) (\<lambda>t w.
           bind_res (child_traces u child 200 w) (\<lambda>rows w.
           bind_res (on_store (GetMessagesPage child 200 0) w) (\<lambda>ms w.
             (let b = deriveResumeBasis env rows ms;
                  (r, w) = runMultiAgentChildTaskWithSeedAndState env a u parent (resumed_task env child b t)
                             (buildResumeSeedHistory ms b) (buildResumeLoopSeed b) w
              in (Inr \<lparr>rsm_From = child, rsm_Parent = parent, rsm_Basis = b, rsm_Result = r\<rparr>, w))))))"

end
