(* ===== verification/ChildInvariants.thy ===== *)
theory ChildInvariants
  imports ChildResume
begin

text \<open>
  Induction principles for child runs: \<open>child_invariant\<close> carries a property through the rounds of a
  child, \<open>observed\<close> carries an observation of the world through everything a delegated task does beside
  asking the model.
\<close>

section \<open>Rounds\<close>

lemma child_loop_rounds:
  assumes "\<And>n i st w. P n w \<Longrightarrow> P (Suc n) (snd (body i st w))"
  shows "P n w \<Longrightarrow> \<exists>k \<le> m. P (n + k) (snd (child_loop body runtime m st w))"
proof (induction m arbitrary: n st w)
  case 0
  then show ?case by simp
next
  case (Suc m)
  obtain x w' where b: "body (4 - int m) st w = (x, w')" by fastforce
  have p: "P (Suc n) w'" using assms [OF Suc.prems, of "4 - int m" st] b by simp
  show ?case
  proof (cases x)
    case (LoopReturn r)
    then have "P (n + 1) (snd (child_loop body runtime (Suc m) st w))" using b p by simp
    then show ?thesis by (intro exI [of _ 1]) simp
  next
    case (NextIteration st')
    obtain k where "k \<le> m" "P (Suc n + k) (snd (child_loop body runtime m st' w'))"
      using Suc.IH [OF p] by blast
    then show ?thesis using b NextIteration by (intro exI [of _ "Suc k"]) simp
  qed
qed

lemma on_net_snd: "snd (on_net f w) = w\<lparr>w_requests := snd (f (w_requests w))\<rparr>"
  by (simp add: on_net_def split_beta)

text \<open>\<open>P n\<close> says what holds of the world after \<open>n\<close> requests to the model.\<close>

locale child_invariant =
  fixes a :: App and u :: string and allowed :: "World Tool list" and child :: int
    and P :: "nat \<Rightarrow> World \<Rightarrow> bool"
  assumes message: "P n w \<Longrightarrow> P n (snd (child_message child role text w))"
    and ask: "P n w \<Longrightarrow> P (Suc n) (w\<lparr>w_requests := w_requests w @ [rq]\<rparr>)"
    and tool: "t \<in> set allowed \<Longrightarrow> P n w \<Longrightarrow>
        P n (snd (ExecuteTool (app_Tools a) (tool_Name t) (put ''username'' (JStr u) m) w))"
begin

lemma action: "P n w \<Longrightarrow> P n (snd (executeChildAction env a u i action allowed child w))"
proof (cases "toolAllowed (act_Tool action) allowed")
  case True
  assume p: "P n w"
  from True obtain t where t: "t \<in> set allowed" "tool_Name t = act_Tool action"
    by (auto simp: toolAllowed_def list_ex_iff)
  obtain r w' where e: "ExecuteTool (app_Tools a) (act_Tool action) (put ''username'' (JStr u) (mapsClone (act_Input action))) w = (r, w')"
    by fastforce
  then have "P n w'" using tool [OF t(1) p, of "mapsClone (act_Input action)"] t(2) by simp
  then show ?thesis
    using True e message by (cases r) (auto simp: executeChildAction_def Let_def split: prod.split)
qed (auto simp: executeChildAction_def Let_def intro: message)

lemma tool_call: "P n w \<Longrightarrow> P n (snd (executeChildToolCall env a u i call allowed child w))"
proof (cases "executeToolInput env (fc_Arguments (tc_Function call))")
  case (Inr input)
  define act where "act = no_action\<lparr>act_Type := ''tool'', act_Tool := fc_Name (tc_Function call), act_Input := Some input\<rparr>"
  assume "P n w"
  then have p: "P n (snd (executeChildAction env a u i act allowed child w))" by (rule action)
  obtain s r q w' where e: "executeChildAction env a u i act allowed child w = ((s, r, q), w')"
    by (metis prod.collapse)
  then show ?thesis using p Inr by (cases q) (simp_all add: executeChildToolCall_def Let_def act_def [symmetric])
qed (simp add: executeChildToolCall_def Let_def)

lemma tool_calls: "P n w \<Longrightarrow> P n (snd (run_tool_calls env a u i allowed child calls st w))"
proof (induction calls arbitrary: st w)
  case (Cons c cs)
  obtain s r q w' where e: "executeChildToolCall env a u i c allowed child w = ((s, r, q), w')"
    by (metis prod.collapse)
  then have "P n w'" using tool_call [OF Cons.prems, of env i c] by simp
  then show ?case using e Cons.IH by (cases q) simp_all
qed simp

lemma net:
  assumes "P n w"
  shows "P (Suc n) (snd (on_net (do_chat_completion nf cfg blocks history prompt defs) w))"
    and "P (Suc n) (snd (on_net (ChatWithMessages nf cfg blocks history prompt) w))"
proof -
  have s: "snd (do_chat_completion nf cfg blocks history prompt d (w_requests w)) =
      w_requests w @ [chat_request cfg blocks history prompt d]" for d
    by (simp add: do_chat_completion_def Let_def)
  show "P (Suc n) (snd (on_net (do_chat_completion nf cfg blocks history prompt defs) w))"
    using ask [OF assms] s [of defs] by (simp add: on_net_snd)
  show "P (Suc n) (snd (on_net (ChatWithMessages nf cfg blocks history prompt) w))"
    using ask [OF assms] s [of "[]"]
    by (cases "do_chat_completion nf cfg blocks history prompt [] (w_requests w)";
        cases "fst (do_chat_completion nf cfg blocks history prompt [] (w_requests w))")
       (simp_all add: on_net_snd ChatWithMessages_def)
qed

lemma content: "P n w \<Longrightarrow> P n (snd (content_answer env a u allowed child i text st w))"
proof (cases "parseChildAction env text")
  case (Some x)
  assume "P n w"
  then have p: "P n (snd (executeChildAction env a u i x allowed child w))" by (rule action)
  obtain s r q w' where e: "executeChildAction env a u i x allowed child w = ((s, r, q), w')"
    by (metis prod.collapse)
  show ?thesis using p e Some \<open>P n w\<close> by (cases q) (simp_all add: content_answer_def Let_def)
qed (simp add: content_answer_def Let_def)

lemma toolcall_step: "P n w \<Longrightarrow> P (Suc n) (snd (toolcall_round env a u t blocks allowed child i st w))"
proof -
  define st' where "st' = st\<lparr>ls_trace := ls_trace st @
      [childLoopSnapshot i t (ls_prompt st) (ls_history st) allowed ''llm-toolcalls'' (ls_risks st)]\<rparr>"
  assume p: "P n w"
  obtain r w1 where r: "on_net (do_chat_completion (env_net env) (app_LLM a) blocks (ls_history st') (ls_prompt st')
      (buildLLMToolDefinitions allowed)) w = (r, w1)" by fastforce
  have p1: "P (Suc n) w1" using net(1) [OF p] r by (metis snd_conv)
  show ?thesis
  proof (cases r)
    case (Inr c)
    obtain q w2 where q: "child_message child ''assistant'' (lm_Content (cc_Message c)) w1 = (q, w2)" by fastforce
    have p2: "P (Suc n) w2" using message [OF p1] q by (metis snd_conv)
    show ?thesis
      using r Inr q tool_calls [OF p2] content [OF p2] p2
      by (cases q) (simp_all add: toolcall_round_def Let_def st'_def [symmetric] split_beta)
  qed (use r p1 in \<open>simp add: toolcall_round_def Let_def st'_def [symmetric]\<close>)
qed

lemma json_step: "P n w \<Longrightarrow> P (Suc n) (snd (json_round env a u t blocks allowed child i st w))"
proof -
  define st' where "st' = st\<lparr>ls_trace := ls_trace st @
      [childLoopSnapshot i t (ls_prompt st) (ls_history st) allowed ''llm'' (ls_risks st)]\<rparr>"
  assume p: "P n w"
  obtain r w1 where r: "on_net (ChatWithMessages (env_net env) (app_LLM a) blocks (ls_history st') (ls_prompt st')) w = (r, w1)"
    by fastforce
  have p1: "P (Suc n) w1" using net(2) [OF p] r by (metis snd_conv)
  show ?thesis
  proof (cases r)
    case (Inr c)
    obtain q w2 where q: "child_message child ''assistant'' c w1 = (q, w2)" by fastforce
    have p2: "P (Suc n) w2" using message [OF p1] q by (metis snd_conv)
    have p3: "P (Suc n) w3" if "executeChildAction env a u i x allowed child w2 = (y, w3)" for x y w3
      using action [OF p2, of env i x] that by simp
    show ?thesis
      using r Inr q p2 p3
      by (cases q) (auto simp: json_round_def Let_def st'_def [symmetric] split: prod.split sum.split option.split)
  qed (use r p1 in \<open>simp add: json_round_def Let_def st'_def [symmetric]\<close>)
qed

lemma task_rounds:
  assumes "P n w"
  shows "\<exists>k \<le> 2 * iterations_left seed. P (n + k)
     (snd (tryRunMultiAgentLLMTaskWithState env a u llm t prompt snippet allowed child seedHistory seed w))"
proof -
  have j: "P m v \<Longrightarrow> \<exists>k \<le> iterations_left seed. P (m + k)
      (snd (tryRunMultiAgentJSONTask env a u t prompt snippet allowed child seedHistory seed v))" for m v
    unfolding tryRunMultiAgentJSONTask_def by (rule child_loop_rounds [where P = P]) (rule json_step)
  obtain r w' where r: "tryRunMultiAgentToolCallingTask env a u t prompt snippet allowed child seedHistory seed w = (r, w')"
    by fastforce
  have "\<exists>k \<le> iterations_left seed. P (n + k)
      (snd (tryRunMultiAgentToolCallingTask env a u t prompt snippet allowed child seedHistory seed w))"
    unfolding tryRunMultiAgentToolCallingTask_def
    using assms by (rule child_loop_rounds [where P = P, rotated]) (rule toolcall_step)
  then obtain k where k: "k \<le> iterations_left seed" "P (n + k) w'" using r by auto
  from j [OF k(2)] obtain l where l: "l \<le> iterations_left seed"
    "P (n + k + l) (snd (tryRunMultiAgentJSONTask env a u t prompt snippet allowed child seedHistory seed w'))" by blast
  from j [OF assms] obtain m where m: "m \<le> iterations_left seed"
    "P (n + m) (snd (tryRunMultiAgentJSONTask env a u t prompt snippet allowed child seedHistory seed w))" by blast
  define Q where "Q x \<longleftrightarrow> (\<exists>k \<le> 2 * iterations_left seed. P (n + k) x)" for x
  have "Q w" unfolding Q_def using assms by (intro exI [of _ 0]) simp
  moreover have "Q w'" unfolding Q_def using k by (intro exI [of _ k]) simp
  moreover have "Q (snd (tryRunMultiAgentJSONTask env a u t prompt snippet allowed child seedHistory seed w'))"
    unfolding Q_def using k(1) l by (intro exI [of _ "k + l"]) (simp add: add.assoc)
  moreover have "Q (snd (tryRunMultiAgentJSONTask env a u t prompt snippet allowed child seedHistory seed w))"
    unfolding Q_def using m by (intro exI [of _ m]) simp
  ultimately have "Q (snd (tryRunMultiAgentLLMTaskWithState env a u llm t prompt snippet allowed child seedHistory seed w))"
    by (simp add: tryRunMultiAgentLLMTaskWithState_def Let_def r)
  then show ?thesis by (simp add: Q_def)
qed

end

section \<open>What a run leaves alone\<close>

lemma register_all_get:
  "get (snd (register_all ts r)) n = Some t \<Longrightarrow> t \<in> set ts \<or> get r n = Some t"
proof (induction ts arbitrary: r)
  case (Cons x ts)
  show ?case
  proof (cases "fst (RegisterTool x r)")
    case (Inl e)
    then have "snd (register_all (x # ts) r) = r"
      by (auto simp: RegisterTool_def split: if_splits)
    then show ?thesis using Cons.prems by simp
  next
    case (Inr _)
    then have "register_all (x # ts) r = register_all ts (put (tool_Name x) x r)"
      by (auto simp: RegisterTool_def split: if_splits)
    then show ?thesis using Cons.prems Cons.IH [of "put (tool_Name x) x r"] by (auto split: if_splits)
  qed
qed simp

lemma on_store_snd: "snd (on_store f w) = w\<lparr>w_store := snd (f (w_store w))\<rparr>"
  by (simp add: on_store_def split_beta split: sum.split)

lemma retry_keeps:
  assumes "\<And>v. Q v \<Longrightarrow> Q (snd (f v))"
  shows "Q w \<Longrightarrow> Q (snd (retryBusy f w))"
proof -
  have "Q v \<Longrightarrow> Q (snd (retry_times n f v))" for n v
  proof (induction n arbitrary: v)
    case (Suc n)
    obtain r v' where "f v = (r, v')" by fastforce
    then show ?case using assms [OF Suc.prems] Suc.IH by (cases r) simp_all
  qed (simp add: assms)
  then show "Q w \<Longrightarrow> Q (snd (retryBusy f w))" by (simp add: retryBusy_def)
qed

text \<open>A computation follows a relation when its state before and its state after are in it. For a
  reflexive and transitive relation the combinators of the model follow it when their parts do.\<close>

definition follows :: "('s \<Rightarrow> 's \<Rightarrow> bool) \<Rightarrow> 's \<Rightarrow> 'a \<times> 's \<Rightarrow> bool" where
  "follows R s r \<longleftrightarrow> R s (snd r)"

locale preorder_steps =
  fixes R :: "'s \<Rightarrow> 's \<Rightarrow> bool"
  assumes step_refl: "R s s" and step_trans: "R s t \<Longrightarrow> R t u \<Longrightarrow> R s u"
begin

lemma stay: "follows R s (x, s)"
  by (simp add: follows_def step_refl)

lemma then_result: "follows R s m \<Longrightarrow> follows R s (x, snd m)"
  by (simp add: follows_def)

lemma bind_steps: "follows R s m \<Longrightarrow> (\<And>x v. follows R v (k x v)) \<Longrightarrow> follows R s (bind_res m k)"
  by (cases m; cases "fst m") (auto simp: follows_def intro: step_trans)

lemma run_steps: "follows R s m \<Longrightarrow> (\<And>x v. follows R v (k x v)) \<Longrightarrow> follows R s (case m of (x, v) \<Rightarrow> k x v)"
  by (cases m) (auto simp: follows_def intro: step_trans)

lemma if_steps: "(b \<Longrightarrow> follows R s x) \<Longrightarrow> (\<not> b \<Longrightarrow> follows R s y) \<Longrightarrow> follows R s (if b then x else y)"
  by simp

lemma sum_steps:
  "(\<And>e. r = Inl e \<Longrightarrow> follows R s (f e)) \<Longrightarrow> (\<And>v. r = Inr v \<Longrightarrow> follows R s (g v)) \<Longrightarrow>
   follows R s (case r of Inl e \<Rightarrow> f e | Inr v \<Rightarrow> g v)"
  by (cases r) simp_all

lemma option_steps:
  "(r = None \<Longrightarrow> follows R s x) \<Longrightarrow> (\<And>v. r = Some v \<Longrightarrow> follows R s (g v)) \<Longrightarrow>
   follows R s (case r of None \<Rightarrow> x | Some v \<Rightarrow> g v)"
  by (cases r) simp_all

lemma prod_steps: "(\<And>a b. p = (a, b) \<Longrightarrow> follows R s (k a b)) \<Longrightarrow> follows R s (case p of (a, b) \<Rightarrow> k a b)"
  by (cases p) simp

lemma list_steps:
  "(xs = [] \<Longrightarrow> follows R s x) \<Longrightarrow> (\<And>y ys. xs = y # ys \<Longrightarrow> follows R s (g y ys)) \<Longrightarrow>
   follows R s (case xs of [] \<Rightarrow> x | y # ys \<Rightarrow> g y ys)"
  by (cases xs) simp_all

lemma bool_steps: "(b \<Longrightarrow> follows R s x) \<Longrightarrow> (\<not> b \<Longrightarrow> follows R s y) \<Longrightarrow> follows R s (case b of True \<Rightarrow> x | False \<Rightarrow> y)"
  by (cases b) simp_all

text \<open>A bound state is a step, another bound value is none.\<close>

lemma let_steps: "follows R s ((), t) \<Longrightarrow> (\<And>v. follows R v (k v)) \<Longrightarrow> follows R s (let v = t in k v)"
  by (auto simp: follows_def intro: step_trans)

lemma let_value: "(\<And>x. x = e \<Longrightarrow> follows R s (k x)) \<Longrightarrow> follows R s (let x = e in k x)"
  by simp

lemma result_if:
  "(b \<Longrightarrow> follows R s (x, t)) \<Longrightarrow> (\<not> b \<Longrightarrow> follows R s (x, u)) \<Longrightarrow> follows R s (x, if b then t else u)"
  by simp

lemma result_option:
  "(r = None \<Longrightarrow> follows R s (x, t)) \<Longrightarrow> (\<And>v. r = Some v \<Longrightarrow> follows R s (x, u v)) \<Longrightarrow>
   follows R s (x, case r of None \<Rightarrow> t | Some v \<Rightarrow> u v)"
  by (cases r) simp_all

lemmas state_steps = stay then_result bind_steps run_steps if_steps sum_steps option_steps bool_steps let_steps result_if
  result_option
lemmas value_steps = prod_steps list_steps let_value

end

text \<open>Every tool of a registry follows a relation, whatever name and input it is called with.\<close>

definition tools_follow :: "(World \<Rightarrow> World \<Rightarrow> bool) \<Rightarrow> World Registry \<Rightarrow> bool" where
  "tools_follow R reg \<longleftrightarrow> (\<forall>n m w. follows R w (ExecuteTool reg n m w))"

definition same :: "(World \<Rightarrow> 'o) \<Rightarrow> World \<Rightarrow> 'a \<times> World \<Rightarrow> bool" where
  "same obs w r \<longleftrightarrow> obs (snd r) = obs w"

definition builtin_app :: "Env \<Rightarrow> Config \<Rightarrow> FS Manager option \<Rightarrow> Executor \<Rightarrow> App \<Rightarrow> App" where
  "builtin_app env c mem runner a = a\<lparr>app_Tools := snd (RegisterBuiltins (app_builtins env c mem runner) NewRegistry)\<rparr>"

text \<open>What a statement of the database leaves, whether the engine runs it or not.\<close>

lemma stmt_obs:
  assumes "\<And>d fs. obs (d\<lparr>faults := fs\<rparr>) = obs d" "\<And>d. obs (snd (f d)) = obs d"
  shows "obs (snd (stmt f d)) = obs d"
  using assms by (cases rule: stmt_cases [of f d]) simp_all

lemma same_follows: "same obs = follows (\<lambda>v w. obs w = obs v)"
  by (intro ext) (simp add: same_def follows_def)

lemma same_pair: "same obs w (x, w)"
  by (simp add: same_def)

lemma same_snd: "m = (r, w') \<Longrightarrow> same obs w m \<Longrightarrow> obs w' = obs w"
  by (simp add: same_def)

lemma same_bind: "same obs w m \<Longrightarrow> (\<And>x v. same obs v (k x v)) \<Longrightarrow> same obs w (bind_res m k)"
  by (cases m; cases "fst m") (auto simp: same_def)

lemma same_retry: "(\<And>v. same obs v (f v)) \<Longrightarrow> same obs w (retryBusy f w)"
  using retry_keeps [where Q = "\<lambda>v. obs v = obs w" and f = f and w = w] by (simp add: same_def)

text \<open>A relation of worlds that everything a child does follows, its requests to the model apart.\<close>

locale related = preorder_steps R for R :: "World \<Rightarrow> World \<Rightarrow> bool" +
  assumes to_files: "R w (w\<lparr>w_files := fs\<rparr>)"
    and to_processes: "R w (w\<lparr>w_spawned := ps\<rparr>)"
    and to_audit: "R w (w\<lparr>w_store := snd (WriteAudit now u ac t (w_store w))\<rparr>)"
    and to_listing: "R w (w\<lparr>w_store := snd (ListSessions u l (w_store w))\<rparr>)"
    and to_search: "R w (w\<lparr>w_store := snd (SearchMessages fts snip q (w_store w))\<rparr>)"
    and to_message: "R w (w\<lparr>w_store := snd (AddMessage now sid role c (w_store w))\<rparr>)"
    and to_session: "R w (w\<lparr>w_store := snd (CreateSessionWithOptions now u m p r opts (w_store w))\<rparr>)"
    and to_response: "R w (w\<lparr>w_store := snd (UpdateSessionResponse sid r (w_store w))\<rparr>)"
    and to_trace: "R w (w\<lparr>w_store := snd (InsertMultiAgentTrace now tr (w_store w))\<rparr>)"
    and to_recent: "R w (w\<lparr>w_store := snd (ListRecentMessagesBySession sid l (w_store w))\<rparr>)"
begin

lemma basic_steps:
  "follows R w (on_files f w)" "follows R w (on_processes h w)" "follows R w (audit u ac t w)"
  "follows R w (on_store (ListSessions u l) w)" "follows R w (on_store (SearchMessages fts snip q) w)"
  "follows R w (on_store (CreateSessionWithOptions now u m p r opts) w)" "follows R w (on_store (UpdateSessionResponse sid r) w)"
  "follows R w (on_store (InsertMultiAgentTrace now tr) w)" "follows R w (on_store (ListRecentMessagesBySession sid l) w)"
  "follows R w (add_message sid role c w)"
  by (simp_all add: follows_def on_store_snd audit_def add_message_def to_audit to_listing to_search to_message to_session
      to_response to_trace to_recent)
     (simp_all add: on_files_def on_processes_def split_beta to_files to_processes)

lemma retry_steps: "(\<And>v. follows R v (f v)) \<Longrightarrow> follows R w (retryBusy f w)"
  unfolding follows_def by (rule retry_keeps [where Q = "R w", OF _ step_refl]) (erule step_trans)

lemma one_field_steps: "follows R w m \<Longrightarrow> follows R w (one_field k m)"
  unfolding one_field_def by (erule bind_steps) (rule stay)

lemma exec_profile_steps: "follows R w (bd_ExecuteProfile (app_builtins env c mem runner) pr v b tk w)"
  using basic_steps(2) [of w "ExecuteProfile (env_os env) runner pr v b tk"]
  by (auto simp: app_builtins_def follows_def split: prod.split option.split)

lemma builtin_dep_steps:
  "follows R w (bd_ListSessions (app_builtins env c mem runner) u l w)"
  "follows R w (bd_Search (app_builtins env c mem runner) u q r s a b l w)"
  "follows R w (bd_ReadMemory (app_builtins env c mem runner) u w)"
  "follows R w (bd_WriteMemory (app_builtins env c mem runner) u x a' b' e w)"
  "follows R w (bd_ExecuteCommand (app_builtins env c mem runner) cmd args w)"
  "follows R w (bd_WriteAudit (app_builtins env c mem runner) u ac t w)"
  unfolding app_builtins_def BuiltinDeps.simps
  by ((rule basic_steps state_steps)+)[6]

lemma exec_handler_steps:
  "follows R w (exec_handler (app_builtins env c mem runner) m w)"
  "follows R w (exec_profile_handler (app_builtins env c mem runner) m w)"
  unfolding exec_handler_def exec_profile_handler_def
  by (((rule builtin_dep_steps exec_profile_steps state_steps) | (rule value_steps))+)[2]

lemma builtin_tool_steps:
  assumes "t \<in> set (builtin_tools (app_builtins env c mem runner))"
  shows "follows R w (the (tool_Handler t) m w)"
  using assms
  by (auto simp: builtin_tools_def health_handler_def history_handler_def search_handler_def memory_read_handler_def
      memory_write_handler_def Let_def intro!: one_field_steps exec_handler_steps builtin_dep_steps stay if_steps)

lemma builtin_app_steps: "tools_follow R (app_Tools (builtin_app env c mem runner a))"
proof -
  have "follows R w (ExecuteTool (app_Tools (builtin_app env c mem runner a)) n m w)" for n m w
  proof (cases "get (app_Tools (builtin_app env c mem runner a)) n")
    case (Some t)
    then have "t \<in> set (builtin_tools (app_builtins env c mem runner))"
      using register_all_get [of "builtin_tools (app_builtins env c mem runner)" NewRegistry n t]
      by (simp add: builtin_app_def RegisterBuiltins_def NewRegistry_def)
    then show ?thesis using Some builtin_tool_steps by (simp add: ExecuteTool_def)
  qed (simp add: ExecuteTool_def stay)
  then show ?thesis by (simp add: tools_follow_def)
qed

lemma message_steps: "follows R w (child_message child role text w)"
  unfolding child_message_def by (rule retry_steps) (rule basic_steps(10))

lemma note_parent_steps: "follows R w (note_parent parent child t summary w)"
  unfolding note_parent_def by (intro if_steps message_steps stay)

lemma prompt_steps: "follows R w (buildMultiAgentTaskPrompt parent t w)"
  unfolding buildMultiAgentTaskPrompt_def by (rule basic_steps state_steps)+

lemma record_steps: "follows R w (recordMultiAgentChildSession a u parent t prompt summary w)"
  unfolding recordMultiAgentChildSession_def
  by (intro bind_steps retry_steps if_steps stay basic_steps message_steps note_parent_steps)

lemma persist_steps: "follows R w (persistMultiAgentTrace env u parent child k trace w)"
proof (induction trace arbitrary: w)
  case (Cons s ss)
  show ?case unfolding persistMultiAgentTrace.simps by (intro bind_steps retry_steps basic_steps Cons.IH)
qed (simp add: stay)

lemma close_steps: "follows R w (close_child env u parent child t summary trace risks lr advice w)"
  unfolding close_child_def finalizeMultiAgentChildSession_def
  by (rule run_steps sum_steps stay bind_steps retry_steps basic_steps message_steps note_parent_steps persist_steps)+

text \<open>A run of a delegated task: \<open>P n\<close> says what holds after \<open>n\<close> requests to the model.\<close>

lemma child_task_rounds:
  assumes "tools_follow R (app_Tools a)" and ask: "\<And>n w rq. P n w \<Longrightarrow> P (Suc n) (w\<lparr>w_requests := w_requests w @ [rq]\<rparr>)"
    and stable: "\<And>n v w. P n v \<Longrightarrow> R v w \<Longrightarrow> P n w" and "P 0 w"
  shows "\<exists>k \<le> 2 * iterations_left seed. P k (snd (runMultiAgentChildTaskWithSeedAndState env a u parent t seedHistory seed w))"
proof -
  obtain allowed invalid where al: "resolveChildAllowedTools a (task_AllowedTools t) = (allowed, invalid)" by fastforce
  obtain prompt snippet w1 where pr: "buildMultiAgentTaskPrompt parent t w = ((prompt, snippet), w1)" by (metis prod.collapse)
  obtain r w2 where rc: "recordMultiAgentChildSession a u parent t prompt [] w1 = (r, w2)" by fastforce
  have "R w w1" "R w1 w2"
    using prompt_steps [of w parent t] record_steps [of w1 a u parent t prompt "[]"] pr rc by (simp_all add: follows_def)
  then have p: "P 0 w2" using stable assms(4) by blast
  show ?thesis
  proof (cases r)
    case (Inl e)
    then show ?thesis using al pr rc p
      by (intro exI [of _ 0]) (simp add: runMultiAgentChildTaskWithSeedAndState_def)
  next
    case (Inr child)
    obtain run w3 where tr: "tryRunMultiAgentLLMTaskWithState env a u (ResolvedLLM (app_Config a)) t prompt snippet allowed child
        seedHistory seed w2 = (run, w3)" by fastforce
    have "child_invariant a u allowed child P"
      using message_steps assms(1) ask stable by unfold_locales (auto simp: follows_def tools_follow_def)
    then have "\<exists>k \<le> 2 * iterations_left seed. P (0 + k) (snd (tryRunMultiAgentLLMTaskWithState env a u
        (ResolvedLLM (app_Config a)) t prompt snippet allowed child seedHistory seed w2))"
      by (rule child_invariant.task_rounds) (rule p)
    with tr obtain k where k: "k \<le> 2 * iterations_left seed" "P k w3" by auto
    have "P k (snd (close_child env u parent child t s trc rk lr ad w3))" for s trc rk lr ad
      using close_steps [of w3 env u parent child t s trc rk lr ad] stable k(2) by (auto simp: follows_def)
    then show ?thesis
      using al pr rc Inr tr k
      by (intro exI [of _ k]) (simp add: runMultiAgentChildTaskWithSeedAndState_def Let_def)
  qed
qed

end

text \<open>An observation that no operation of a child changes, requests to the model apart.\<close>

locale observed =
  fixes obs :: "World \<Rightarrow> 'o"
  assumes files: "obs (w\<lparr>w_files := fs\<rparr>) = obs w"
    and processes: "obs (w\<lparr>w_spawned := ps\<rparr>) = obs w"
    and audits: "obs (w\<lparr>w_store := snd (WriteAudit now u ac t (w_store w))\<rparr>) = obs w"
    and listing: "obs (w\<lparr>w_store := snd (ListSessions u l (w_store w))\<rparr>) = obs w"
    and search: "obs (w\<lparr>w_store := snd (SearchMessages fts snip q (w_store w))\<rparr>) = obs w"
    and messages: "obs (w\<lparr>w_store := snd (AddMessage now sid role c (w_store w))\<rparr>) = obs w"
    and creates: "obs (w\<lparr>w_store := snd (CreateSessionWithOptions now u m p r opts (w_store w))\<rparr>) = obs w"
    and responses: "obs (w\<lparr>w_store := snd (UpdateSessionResponse sid r (w_store w))\<rparr>) = obs w"
    and traces: "obs (w\<lparr>w_store := snd (InsertMultiAgentTrace now tr (w_store w))\<rparr>) = obs w"
    and reads: "obs (w\<lparr>w_store := snd (ListRecentMessagesBySession sid l (w_store w))\<rparr>) = obs w"

sublocale observed \<subseteq> step: related "\<lambda>v w. obs w = obs v"
  by unfold_locales (simp_all add: files processes audits listing search messages creates responses traces reads)

context observed
begin

lemmas basic = step.basic_steps [folded same_follows]
lemmas message_same = step.message_steps [folded same_follows]

lemma builtin_app_same: "same obs w (ExecuteTool (app_Tools (builtin_app env c mem runner a)) n m w)"
  using step.builtin_app_steps by (simp add: tools_follow_def same_follows)

lemma child_task:
  assumes "\<And>n w rq. Q n (obs w) \<Longrightarrow> Q (Suc n) (obs (w\<lparr>w_requests := w_requests w @ [rq]\<rparr>))" and "Q 0 (obs w)"
  shows "\<exists>k \<le> 2 * iterations_left seed. Q k (obs (snd (runMultiAgentChildTaskWithSeedAndState env
      (builtin_app env' c mem runner a) u parent t seedHistory seed w)))"
  by (rule step.child_task_rounds [where P = "\<lambda>n w. Q n (obs w)", OF step.builtin_app_steps]) (use assms in auto)

end

end
