(* ===== verification/ChildProps.thy ===== *)
theory ChildProps
  imports ChildInvariants AppDemo
begin

text \<open>
  What holds of every child run, whatever the model answers: how often it asks and which tools it can
  reach.
\<close>

section \<open>How often a child asks\<close>

interpretation asked: observed w_requests
  by unfold_locales simp_all

text \<open>With the built-in tools the requests are counted one by one, and the model loops of a child ask no more
  than twice the rounds that are left.\<close>

interpretation counted: child_invariant "builtin_app env c mem runner a" u allowed child "\<lambda>n w. length (w_requests w) = k + n"
  for env c mem runner a u allowed child k
  by unfold_locales (use asked.message_same asked.builtin_app_same in \<open>simp_all add: same_def\<close>)

lemma loops_ask:
  "length (w_requests (snd (tryRunMultiAgentLLMTaskWithState env (builtin_app env' c mem runner a) u llm t prompt snippet allowed child
      seedHistory seed w))) \<le> length (w_requests w) + 2 * iterations_left seed"
proof -
  have "\<exists>i \<le> 2 * iterations_left seed. length (w_requests (snd (tryRunMultiAgentLLMTaskWithState env (builtin_app env' c mem runner a)
      u llm t prompt snippet allowed child seedHistory seed w))) = length (w_requests w) + (0 + i)"
    by (rule counted.task_rounds) simp
  then show ?thesis by auto
qed

text \<open>C11. With the built-in tools a delegated task asks the model at most eight times, four by
  native tool calls and four by JSON answers, whatever the model, the tools and the database
  answer; a resumed task has as many rounds less as its snapshot had begun, and one whose last
  snapshot was taken in the fourth round never asks at all.\<close>

theorem child_asks_at_most_eight_times:
  "length (w_requests (snd (runMultiAgentChildTaskWithSeedAndState env (builtin_app env c mem runner a) u parent t
      seedHistory seed w))) \<le> length (w_requests w) + 2 * nat (5 - max 1 (seed_NextIteration seed))"
proof -
  have "\<exists>k \<le> 2 * iterations_left seed. length (w_requests (snd (runMultiAgentChildTaskWithSeedAndState env
      (builtin_app env c mem runner a) u parent t seedHistory seed w))) \<le> length (w_requests w) + k"
    by (rule asked.child_task) simp_all
  then show ?thesis by (auto simp: iterations_left_def max_def split: if_splits)
qed

section \<open>What a child can reach\<close>

text \<open>C6. A run of the model loops for a child preserves whatever its parts preserve: the messages
  of the child's session, the requests to the model, and the tools of the allow list, executed under
  the name of the child's user. No answer of the model reaches another tool or another name.\<close>

theorem child_confined_to_allowed_tools:
  assumes "\<And>role text w. P w \<Longrightarrow> P (snd (child_message child role text w))"
    and "\<And>rq w. P w \<Longrightarrow> P (w\<lparr>w_requests := w_requests w @ [rq]\<rparr>)"
    and "\<And>t input w. t \<in> set allowed \<Longrightarrow> P w \<Longrightarrow>
        P (snd (ExecuteTool (app_Tools a) (tool_Name t) (put ''username'' (JStr u) input) w))"
    and "P w"
  shows "P (snd (tryRunMultiAgentLLMTaskWithState env a u llm t prompt snippet allowed child seedHistory seed w))"
proof -
  have "child_invariant a u allowed child (\<lambda>n. P)"
    by unfold_locales (use assms in auto)
  from child_invariant.task_rounds [OF this, of w] show ?thesis using assms(4) by blast
qed

definition demo_tool :: "World Tool" where
  "demo_tool = \<lparr>tool_Name = ''session.history'', tool_Description = [], tool_InputKeys = [],
     tool_Handler = Some (history_handler (app_builtins (demo_env []) Default None (NewExecutor default_execution)))\<rparr>"

lemma message_files [simp]: "w_files (snd (child_message child role text w)) = w_files w"
  unfolding child_message_def
  by (rule retry_keeps [where Q = "\<lambda>v. w_files v = w_files w"])
     (auto simp: add_message_def on_store_def split: prod.split sum.split)

lemma demo_tool_files:
  "w_files (snd (ExecuteTool (snd (RegisterTool demo_tool NewRegistry)) (tool_Name demo_tool) input w)) = w_files w"
  by (auto simp: demo_tool_def RegisterTool_def ExecuteTool_def NewRegistry_def history_handler_def one_field_def
      app_builtins_def on_store_def bind_res_def put_def get_def split: prod.split sum.split)

theorem child_confined_to_allowed_tools_witness:
  "w_files (snd (tryRunMultiAgentLLMTaskWithState (demo_env ''done'')
      (demo_app\<lparr>app_Tools := snd (RegisterTool demo_tool NewRegistry)\<rparr>) ''ann'' default_llm (gateway_task ''look'') ''p'' []
      [demo_tool] 2 [] no_seed demo_world)) = w_files demo_world"
  by (rule child_confined_to_allowed_tools [where P = "\<lambda>w. w_files w = w_files demo_world"])
     (simp_all add: demo_tool_files)

end
