(* ===== verification/JsonCodec.thy ===== *)
theory JsonCodec
  imports Llm "HOL-Library.Monad_Syntax"
begin

text \<open>
  What \<^verbatim>\<open>encoding/json\<close> does to values and structs: the value an encoded one decodes to, and decoding
  into the fields of a struct.
\<close>

section \<open>What JSON makes of a Go value\<close>

text \<open>\<^verbatim>\<open>json.Unmarshal\<close> after \<^verbatim>\<open>json.Marshal\<close>: the members of an object come back sorted by key,
  numbers as \<^verbatim>\<open>float64\<close>, and typed slices as \<^verbatim>\<open>[]any\<close>. It is what the hypotheses below say of the
  codec on the value at hand (text in UTF-8, integers a \<^verbatim>\<open>float64\<close> can hold).\<close>

primrec decoded :: "json \<Rightarrow> json" where
  "decoded JNull = JNull"
| "decoded (JBool b) = JBool b"
| "decoded (JInt i) = JFloat (of_int i)"
| "decoded (JFloat f) = JFloat f"
| "decoded (JStr s) = JStr s"
| "decoded (JArr js) = JArr (map decoded js)"
| "decoded (JObj m) = JObj (sort_key fst (map (map_prod id decoded) m))"
| "decoded (JOther j) = decoded j"

lemma get_sorted: "distinct (map fst m) \<Longrightarrow> get (sort_key fst m) k = get m k"
proof -
  assume d: "distinct (map fst m)"
  have "map_of (sort_key fst m) = map_of m"
  proof (rule map_of_eqI)
    show "set (map fst (sort_key fst m)) = set (map fst m)" by simp
    have ds: "distinct (map fst (sort_key fst m))"
      using d by (simp add: distinct_map inj_on_def)
    show "\<forall>x\<in>set (map fst (sort_key fst m)). map_of (sort_key fst m) x = map_of m x"
    proof
      fix x assume "x \<in> set (map fst (sort_key fst m))"
      then obtain v where "(x, v) \<in> set m" by auto
      then show "map_of (sort_key fst m) x = map_of m x"
        using d ds by (simp add: map_of_eq_Some_iff)
    qed
  qed
  then show ?thesis by (simp add: get_def)
qed

lemma get_map_prod: "get (map (map_prod id f) m) k = map_option f (get m k)"
  by (induction m) (auto simp: get_def)

lemma jget_decoded:
  assumes "distinct (map fst m)"
  shows "jget (sort_key fst (map (map_prod id decoded) m)) k = (case get m k of None \<Rightarrow> JNull | Some v \<Rightarrow> decoded v)"
proof -
  have "distinct (map fst (map (map_prod id decoded) m))" using assms by (simp add: comp_def map_prod_def split_beta)
  then show ?thesis by (simp add: jget_def get_sorted get_map_prod split: option.split)
qed

lemma jget_sorted: "distinct (map fst m) \<Longrightarrow> jget (sort_key fst m) k = jget m k"
  by (simp add: jget_def get_sorted)

lemma jget_Nil [simp]: "jget [] k = JNull"
  by (simp add: jget_def)

lemma jget_Cons: "jget ((k, v) # m) k' = (if k' = k then v else jget m k')"
  by (simp add: jget_def get_Cons)

section \<open>Fields of a struct\<close>

text \<open>\<^verbatim>\<open>null\<close> and a missing member leave the zero value; a value of another type is an error. A number
  is held as the rational it denotes, not as its literal, and a field of type \<^verbatim>\<open>int\<close> or \<^verbatim>\<open>int64\<close> takes it when
  it has no fractional part. This is wider than \<^verbatim>\<open>encoding/json\<close> in two cases: the library also refuses the
  literal \<open>1.0\<close> and an integer that does not fit the field's 64 bits.\<close>

definition dec_str :: "(string \<times> json) list \<Rightarrow> string \<Rightarrow> string option" where
  "dec_str m name = (case field name m of JNull \<Rightarrow> Some [] | JStr s \<Rightarrow> Some s | _ \<Rightarrow> None)"

definition dec_int :: "(string \<times> json) list \<Rightarrow> string \<Rightarrow> int option" where
  "dec_int m name =
     (case field name m of
        JNull \<Rightarrow> Some 0 | JInt i \<Rightarrow> Some i | JFloat f \<Rightarrow> if f = of_int \<lfloor>f\<rfloor> then Some \<lfloor>f\<rfloor> else None | _ \<Rightarrow> None)"

definition dec_bool :: "(string \<times> json) list \<Rightarrow> string \<Rightarrow> bool option" where
  "dec_bool m name = (case field name m of JNull \<Rightarrow> Some False | JBool b \<Rightarrow> Some b | _ \<Rightarrow> None)"

definition dec_obj :: "(string \<times> json) list \<Rightarrow> string \<Rightarrow> (string \<times> json) list option" where
  "dec_obj m name = (case field name m of JNull \<Rightarrow> Some [] | JObj o1 \<Rightarrow> Some o1 | _ \<Rightarrow> None)"

definition dec_list :: "(string \<times> json) list \<Rightarrow> string \<Rightarrow> json list option" where
  "dec_list m name = (case field name m of JNull \<Rightarrow> Some [] | JArr l \<Rightarrow> Some l | _ \<Rightarrow> None)"

text \<open>The zero \<^verbatim>\<open>time.Time\<close>, the first instant of the year 1.\<close>

definition zero_time :: time where "zero_time = -62135596800 * nanos_per_second"

text \<open>A struct, and a pointer to one.\<close>

fun decode_object :: "((string \<times> json) list \<Rightarrow> 'a option) \<Rightarrow> json \<Rightarrow> 'a option" where
  "decode_object dec (JObj m) = dec m"
| "decode_object dec JNull = dec []"
| "decode_object dec _ = None"

definition dec_opt :: "((string \<times> json) list \<Rightarrow> 'a option) \<Rightarrow> (string \<times> json) list \<Rightarrow> string \<Rightarrow> 'a option option" where
  "dec_opt dec m name = (case field name m of JNull \<Rightarrow> Some None | JObj x \<Rightarrow> map_option Some (dec x) | _ \<Rightarrow> None)"

fun decode_string :: "json \<Rightarrow> string option" where
  "decode_string (JStr s) = Some s"
| "decode_string JNull = Some []"
| "decode_string _ = None"

definition dec_strings :: "(string \<times> json) list \<Rightarrow> string \<Rightarrow> string list option" where
  "dec_strings m name = do { js \<leftarrow> dec_list m name; those (map decode_string js) }"

text \<open>Members of a struct with lower-case tags come back by name.\<close>

definition tags_ok :: "(string \<times> json) list \<Rightarrow> bool" where
  "tags_ok m \<longleftrightarrow> distinct (map fst m) \<and> (\<forall>k\<in>set (map fst m). to_lower k = k)"

lemma tags_map_prod: "tags_ok m \<Longrightarrow> tags_ok (map (map_prod id f) m)"
  by (simp add: tags_ok_def comp_def map_prod_def split_beta)

lemma filter_one_key:
  "distinct (map fst m) \<Longrightarrow> filter (\<lambda>p. fst p = k) m = (case get m k of None \<Rightarrow> [] | Some v \<Rightarrow> [(k, v)])"
proof (induction m)
  case (Cons p m)
  obtain a v where p: "p = (a, v)" by fastforce
  show ?case
  proof (cases "k = a")
    case True
    then have "k \<notin> fst ` set m" using Cons.prems p by simp
    then have "filter (\<lambda>p. fst p = k) m = []" by (auto simp: filter_empty_conv)
    then show ?thesis using True p by (simp add: get_Cons)
  next
    case False
    then show ?thesis using Cons p by (simp add: get_Cons split: option.split)
  qed
qed simp

lemma field_tags: "tags_ok m \<Longrightarrow> field name (sort_key fst m) = jget m name"
proof -
  assume t: "tags_ok m"
  define s where "s = sort_key fst m"
  have ds: "distinct (map fst s)" using t by (simp add: s_def tags_ok_def distinct_map inj_on_def)
  have "filter (\<lambda>p. to_lower (fst p) = name) (rev s) = rev (filter (\<lambda>p. fst p = name) s)"
  proof -
    have "to_lower (fst p) = fst p" if "p \<in> set s" for p
      using t that by (auto simp: s_def tags_ok_def)
    then have "filter (\<lambda>p. to_lower (fst p) = name) s = filter (\<lambda>p. fst p = name) s"
      by (auto intro!: filter_cong)
    then show ?thesis by (simp flip: rev_filter)
  qed
  also have "\<dots> = (case get s name of None \<Rightarrow> [] | Some v \<Rightarrow> [(name, v)])"
    using filter_one_key [OF ds, of name] by (simp split: option.split)
  finally have "field name s = jget s name" by (simp add: field_def jget_def split: option.split)
  then show ?thesis using t by (simp add: s_def jget_sorted tags_ok_def)
qed

lemma jget_append: "jget (xs @ ys) k = (case get xs k of None \<Rightarrow> jget ys k | Some v \<Rightarrow> v)"
  by (induction xs) (auto simp: jget_Cons get_Cons split: option.split)

lemma jget_mapped: "jget (map (map_prod id decoded) m) k = (case get m k of None \<Rightarrow> JNull | Some v \<Rightarrow> decoded v)"
  by (simp add: jget_def get_map_prod split: option.split)

text \<open>A member of an encoded struct as the decoder finds it.\<close>

lemma field_decoded:
  assumes "tags_ok m"
  shows "field name (sort_key fst (map (map_prod id decoded) m)) = decoded (jget m name)"
proof -
  have "field name (sort_key fst (map (map_prod id decoded) m)) = jget (map (map_prod id decoded) m) name"
    by (rule field_tags) (rule tags_map_prod [OF assms])
  then show ?thesis by (simp add: jget_mapped) (simp add: jget_def split: option.split)
qed

definition stored :: "(string \<times> json) list \<Rightarrow> (string \<times> json) list" where
  "stored m = sort_key fst (map (map_prod id decoded) m)"

lemma decoded_stored: "decoded (JObj m) = JObj (stored m)"
  by (simp add: stored_def)

lemma field_stored: "tags_ok m \<Longrightarrow> field name (stored m) = decoded (jget m name)"
  by (simp add: stored_def field_decoded)

lemma dec_stored:
  assumes "tags_ok m"
  shows "dec_str (stored m) name = (case decoded (jget m name) of JNull \<Rightarrow> Some [] | JStr s \<Rightarrow> Some s | _ \<Rightarrow> None)"
    "dec_bool (stored m) name = (case decoded (jget m name) of JNull \<Rightarrow> Some False | JBool b \<Rightarrow> Some b | _ \<Rightarrow> None)"
    "dec_obj (stored m) name = (case decoded (jget m name) of JNull \<Rightarrow> Some [] | JObj o1 \<Rightarrow> Some o1 | _ \<Rightarrow> None)"
    "dec_list (stored m) name = (case decoded (jget m name) of JNull \<Rightarrow> Some [] | JArr l \<Rightarrow> Some l | _ \<Rightarrow> None)"
  by (simp_all add: dec_str_def dec_bool_def dec_obj_def dec_list_def field_stored assms)

lemma dec_int_stored:
  assumes "tags_ok m" and i: "jget m name = JInt i \<or> i = 0 \<and> jget m name = JNull"
  shows "dec_int (stored m) name = Some i"
  using i by (auto simp: dec_int_def field_stored [OF assms(1)])

end
