(* ===== verification/ResumeProps.thy ===== *)
theory ResumeProps
  imports ChildResume AppDemo JsonCodec
begin

text \<open>
  What a resumed child takes over: the round trip of a round's snapshot through the stored trace,
  and the tools of the trace.
\<close>

section \<open>Messages through JSON\<close>

lemma decode_call_json: "decode_call (decoded (call_json c)) = Some c"
  by (cases c; cases "tc_Function c") (simp add: call_json_def jget_str_def jget_sorted jget_Cons)

definition trimmed_message :: "LMessage \<Rightarrow> LMessage" where
  "trimmed_message m =
     \<lparr>lm_Role = lm_Role m, lm_Content = trim_space (lm_Content m), lm_Name = trim_space (lm_Name m),
      lm_ToolCallID = trim_space (lm_ToolCallID m), lm_ToolCalls = lm_ToolCalls m\<rparr>"

lemma entry_keys: "distinct (map fst (message_entry m))"
  by (simp add: message_entry_def)

lemma decode_calls: "List.map_filter decode_call (map decoded (map call_json cs)) = cs"
  by (induction cs) (simp_all add: List.map_filter_def decode_call_json del: decoded.simps)

lemma decode_message_entry: "decode_entry (decoded (JObj (message_entry m))) = Some (trimmed_message m)"
  by (simp add: jget_str_def jget_decoded entry_keys)
     (auto simp: message_entry_def trimmed_message_def get_Cons decode_calls [simplified])

lemma decode_history: "decodeSnapshotMessages (map decoded (map (\<lambda>m. JObj (message_entry m)) ms)) = map trimmed_message ms"
  unfolding decodeSnapshotMessages_def
  by (induction ms) (simp_all add: List.map_filter_def decode_message_entry del: decoded.simps)

section \<open>The last snapshot\<close>

lemma snapshot_keys: "distinct (map fst (snapshot_map i t prompt history allowed runtime risks))"
  by (simp add: snapshot_map_def)

definition clean_risks :: "string list \<Rightarrow> string list" where
  "clean_risks risks = filter (\<lambda>s. s \<noteq> []) (map trim_space risks)"

lemma decode_risks: "decodeStringSlice (map decoded (map JStr risks)) = clean_risks risks"
  unfolding decodeStringSlice_def clean_risks_def by (induction risks) (simp_all add: List.map_filter_def)

definition snap_fields :: "ResumeBasis \<Rightarrow> string \<times> LMessage list \<times> int \<times> string \<times> string list" where
  "snap_fields b = (rb_LastSnapshotPrompt b, rb_LastSnapshotHistory b, rb_LastSnapshotNextIteration b,
     rb_LastSnapshotRuntime b, rb_LastSnapshotToolRisks b)"

lemma basis_row_snapless: "tr_snapshot r = [] \<Longrightarrow> snap_fields (basis_row env b r) = snap_fields b"
  by (simp add: basis_row_def Let_def snap_fields_def split: option.split)

lemma basis_rows_snapless:
  "list_all (\<lambda>r. tr_snapshot r = []) rows \<Longrightarrow> snap_fields (foldl (basis_row env) b rows) = snap_fields b"
  by (induction rows arbitrary: b) (simp_all add: basis_row_snapless)

lemma take_snapshot_fields:
  assumes "decoded (JObj (snapshot_map i t prompt history allowed runtime risks)) = JObj sn"
  shows "snap_fields (take_snapshot sn b) =
    (trim_space prompt, map trimmed_message history, i + 1, trim_space runtime,
     if risks = [] then rb_LastSnapshotToolRisks b else clean_risks risks)"
proof -
  have sn: "sn = sort_key fst (map (map_prod id decoded) (snapshot_map i t prompt history allowed runtime risks))"
    using assms by simp
  have j: "jget sn k = (case get (snapshot_map i t prompt history allowed runtime risks) k of None \<Rightarrow> JNull | Some v \<Rightarrow> decoded v)" for k
    unfolding sn by (rule jget_decoded) (rule snapshot_keys)
  have h: "decodeSnapshotMessages (map (decoded \<circ> (\<lambda>m. JObj (message_entry m))) history) = map trimmed_message history"
    using decode_history [of history] by (simp del: decoded.simps)
  have r: "decodeStringSlice (map (decoded \<circ> JStr) risks) = clean_risks risks"
    using decode_risks [of risks] by (simp del: decoded.simps)
  have i: "(1 :: rat) + of_int i = of_int (1 + i)" by simp
  show ?thesis
    by (simp add: snap_fields_def take_snapshot_def j snapshot_map_def get_Cons jstrings_def h r i add.commute
        del: of_int_add)
qed

text \<open>C12. The last stored snapshot brings the loop back: when the trace's last snapshot was taken in
  round \<open>i\<close>, the resumed loop starts with its prompt, its history (contents, names and call ids
  without surrounding space, tool calls as they were), its runtime and its risks, in round \<open>i + 1\<close>,
  and the recovered outputs of tools follow the history.\<close>

theorem snapshot_resume_roundtrip:
  assumes codec: "env_unmarshal env (env_marshal env (JObj (snapshot_map i t prompt history allowed runtime risks)))
      = Inr (decoded (JObj (snapshot_map i t prompt history allowed runtime risks)))"
      "env_marshal env (JObj (snapshot_map i t prompt history allowed runtime risks)) \<noteq> []"
    and rows: "rows = earlier @ trace_record env u parent child k (childLoopSnapshot i t prompt history allowed runtime risks) # later"
      "list_all (\<lambda>r. tr_snapshot r = []) later"
    and b: "b = deriveResumeBasis env rows ms" and "0 \<le> i"
  shows "buildResumeLoopSeed b = \<lparr>seed_CurrentPrompt = trim_space prompt, seed_NextIteration = i + 1,
       seed_Runtime = trim_space runtime,
       seed_ToolRisks = (if risks = [] then rb_LastSnapshotToolRisks (deriveResumeBasis env earlier ms) else clean_risks risks)\<rparr>
    \<and> (history \<noteq> [] \<longrightarrow> buildResumeSeedHistory ms b = map trimmed_message history
         @ map (\<lambda>s. tool_message (rts_Tool s) (rts_Output s)) (filter (\<lambda>s. rts_Output s \<noteq> []) (collectRecoveredToolStates rows 3)))"
proof -
  define r where "r = trace_record env u parent child k (childLoopSnapshot i t prompt history allowed runtime risks)"
  define b0 where "b0 = foldl (basis_row env) no_basis earlier"
  obtain sn where sn: "decoded (JObj (snapshot_map i t prompt history allowed runtime risks)) = JObj sn" by simp
  have tr: "tr_snapshot r = env_marshal env (JObj (snapshot_map i t prompt history allowed runtime risks))"
    "tr_tool r = []" "tr_error r = []"
    by (simp_all add: r_def trace_record_def childLoopSnapshot_def blank_step_def marshal_field_def)
  have dm: "decode_map env (tr_snapshot r) = Some sn"
    using codec(1) by (simp add: tr decode_map_def sn del: decoded.simps)
  have "\<exists>b1. basis_row env b0 r = take_snapshot sn b1 \<and> rb_LastSnapshotToolRisks b1 = rb_LastSnapshotToolRisks b0"
    using codec(2) dm by (auto simp: basis_row_def Let_def tr)
  then obtain b1 where b1: "basis_row env b0 r = take_snapshot sn b1" "rb_LastSnapshotToolRisks b1 = rb_LastSnapshotToolRisks b0"
    by blast
  have "snap_fields (foldl (basis_row env) no_basis rows) = snap_fields (take_snapshot sn b1)"
    using basis_rows_snapless [OF rows(2)] by (simp add: rows(1) r_def [symmetric] b0_def [symmetric] b1)
  then have f: "snap_fields b = (trim_space prompt, map trimmed_message history, i + 1, trim_space runtime,
     if risks = [] then rb_LastSnapshotToolRisks b0 else clean_risks risks)"
    using take_snapshot_fields [OF sn, of b1] b1(2) by (simp add: b deriveResumeBasis_def snap_fields_def)
  have "rb_LastSnapshotToolRisks (deriveResumeBasis env earlier ms) = rb_LastSnapshotToolRisks b0"
    "rb_RecoveredToolStates b = collectRecoveredToolStates rows 3"
    by (simp_all add: b deriveResumeBasis_def b0_def)
  then show ?thesis
    using f \<open>0 \<le> i\<close> by (auto simp: snap_fields_def buildResumeLoopSeed_def buildResumeSeedHistory_def)
qed

section \<open>The tools of a resumed child\<close>

lemma traced_tools_set:
  "set (traced_tools rs seen) = {tr_tool r |r. r \<in> set rs \<and> trim_space (tr_tool r) \<noteq> []} - set seen"
  by (induction rs arbitrary: seen) auto

lemma traced_tools_distinct: "distinct (traced_tools rs seen)"
  by (induction rs arbitrary: seen) (auto simp: traced_tools_set)

lemma prompt_lines_tools: "task_AllowedTools (foldl prompt_line t ls) = task_AllowedTools t"
  by (induction ls arbitrary: t) (simp_all add: prompt_line_def Let_def)

text \<open>C26. A child resumed without a list of tools is allowed exactly the tools its stored trace
  names, those it was refused included, each once (the three read-only ones when the trace names
  none). The policy is not asked again.\<close>

theorem resume_allows_traced_tools:
  assumes "child_traces (sess_user s) (sess_id s) 100 w = (Inr rows, w1)"
    and "rebuildTaskFromChildSession s [] window w = (Inr t, w')"
  shows "distinct (task_AllowedTools t) \<and> set (task_AllowedTools t) =
     (if \<forall>r\<in>set rows. trim_space (tr_tool r) = [] then set default_child_tools
      else {tr_tool r |r. r \<in> set rows \<and> trim_space (tr_tool r) \<noteq> []})"
proof -
  have t: "task_AllowedTools t = (if traced_tools rows [] = [] then default_child_tools else traced_tools rows [])"
    using assms by (auto simp: rebuildTaskFromChildSession_def Let_def split: if_splits)
  have "traced_tools rows [] = [] \<longleftrightarrow> (\<forall>r\<in>set rows. trim_space (tr_tool r) = [])"
    using traced_tools_set [of rows "[]"] by (auto simp flip: set_empty)
  then show ?thesis
    using t traced_tools_set [of rows "[]"] traced_tools_distinct [of rows "[]"] by (auto simp: default_child_tools_def)
qed

definition demo_snapshot :: jmap where
  "demo_snapshot = snapshot_map 2 (gateway_task ''look'') ''go on'' [NewMessage ''assistant'' '' noted ''] ([] :: World Tool list) ''llm'' [''slow'']"

definition codec_env :: Env where
  "codec_env = (demo_env [])\<lparr>env_marshal := (\<lambda>j. ''{}''), env_unmarshal := (\<lambda>s. Inr (decoded (JObj demo_snapshot)))\<rparr>"

theorem snapshot_resume_roundtrip_witness:
  "seed_NextIteration (buildResumeLoopSeed (deriveResumeBasis codec_env
     [trace_record codec_env ''ann'' 1 2 ''t'' (childLoopSnapshot 2 (gateway_task ''look'') ''go on''
        [NewMessage ''assistant'' '' noted ''] ([] :: World Tool list) ''llm'' [''slow''])] [])) = 3"
proof -
  have c: "env_unmarshal codec_env (env_marshal codec_env (JObj demo_snapshot)) = Inr (decoded (JObj demo_snapshot))"
    "env_marshal codec_env (JObj demo_snapshot) \<noteq> []"
    by (simp_all add: codec_env_def)
  show ?thesis
    using snapshot_resume_roundtrip [OF c [unfolded demo_snapshot_def], where earlier = "[]" and later = "[]" and u = "''ann''"
      and parent = 1 and child = 2 and k = "''t''" and ms = "[]", OF append_Nil [symmetric] _ refl]
    by simp
qed

definition traced_world :: World where
  "traced_world = demo_world\<lparr>w_store := snd (InsertMultiAgentTrace 0
     (trace_record (demo_env []) ''ann'' 1 1 ''t'' ((blank_step 1 ''tool'')\<lparr>ts_Tool := ''system.exec'', ts_Error := ''tool not allowed''\<rparr>))
     demo_sessions)\<rparr>"

theorem resume_allows_traced_tools_witness:
  "\<exists>t w'. rebuildTaskFromChildSession (the (find_session 1 demo_sessions)) [] 0 traced_world = (Inr t, w')
     \<and> set (task_AllowedTools t) = {''system.exec''}"
proof -
  define s where "s = the (find_session 1 demo_sessions)"
  have rows: "map tr_tool (projr (fst (child_traces (sess_user s) (sess_id s) 100 traced_world))) = [''system.exec'']"
    "is_ok (child_traces (sess_user s) (sess_id s) 100 traced_world)" "is_ok (rebuildTaskFromChildSession s [] 0 traced_world)"
    unfolding s_def by code_simp+
  obtain rs w1 where c: "child_traces (sess_user s) (sess_id s) 100 traced_world = (Inr rs, w1)" by (rule is_okE [OF rows(2)])
  obtain t w' where r: "rebuildTaskFromChildSession s [] 0 traced_world = (Inr t, w')" by (rule is_okE [OF rows(3)])
  have tr: "map tr_tool rs = [''system.exec'']" using rows(1) c by simp
  then obtain x where x: "rs = [x]" "tr_tool x = ''system.exec''" by auto
  have "trim_space ''system.exec'' \<noteq> []" by code_simp
  then have "set (task_AllowedTools t) = {''system.exec''}"
    using resume_allows_traced_tools [OF c r] x by auto
  then show ?thesis using r by (auto simp: s_def)
qed

end
