(* ===== verification/FileOps.thy ===== *)
theory FileOps
  imports FileSys
begin

text \<open>
  More of \<^verbatim>\<open>os\<close>: reading a file that may be missing, appending, renaming, and listing the
  directories below a root. A directory is there when a file lies below it.
\<close>

text \<open>\<^verbatim>\<open>os.IsNotExist\<close> told apart: \<open>None\<close> for a file that is not there.\<close>

definition read_existing :: "string \<Rightarrow> FS \<Rightarrow> string option fs_result" where
  "read_existing path s =
     (case next_answer s of
        (Fine, s') \<Rightarrow> (Inr (get (files s') path), s')
      | (Refused e, s') \<Rightarrow> (Inl e, s')
      | (Torn e n, s') \<Rightarrow> (Inl e, s'))"

definition append_file :: "string \<Rightarrow> string \<Rightarrow> FS \<Rightarrow> unit fs_result" where
  "append_file path content s =
     (let old = (\<lambda>s. case get (files s) path of None \<Rightarrow> [] | Some c \<Rightarrow> c) in
      case next_answer s of
        (Fine, s') \<Rightarrow> (Inr (), s'\<lparr>files := put path (old s' @ content) (files s')\<rparr>)
      | (Refused e, s') \<Rightarrow> (Inl e, s')
      | (Torn e n, s') \<Rightarrow> (Inl e, s'\<lparr>files := put path (old s' @ take n content) (files s')\<rparr>))"

definition rename_file :: "string \<Rightarrow> string \<Rightarrow> FS \<Rightarrow> unit fs_result" where
  "rename_file from to s =
     (case next_answer s of
        (Fine, s') \<Rightarrow>
          (case get (files s') from of
             None \<Rightarrow> (Inl (''rename '' @ from @ '' '' @ to @ '': no such file or directory''), s')
           | Some c \<Rightarrow> (Inr (), s'\<lparr>files := put to c (remove_key from (files s'))\<rparr>))
      | (Refused e, s') \<Rightarrow> (Inl e, s')
      | (Torn e n, s') \<Rightarrow> (Inl e, s'))"

text \<open>The component after the root in a path that goes on below it.\<close>

definition dir_below :: "string \<Rightarrow> string \<Rightarrow> string option" where
  "dir_below root path =
     (let p = path_clean root @ ''/''; rest = drop (length p) path; name = takeWhile (\<lambda>c. c \<noteq> CHR ''/'') rest
      in if has_prefix p path \<and> name \<noteq> [] \<and> length name < length rest then Some name else None)"

definition subdirs :: "string \<Rightarrow> FS \<Rightarrow> string list" where
  "subdirs root s = remdups (sort (List.map_filter (dir_below root) (map fst (files s))))"

text \<open>\<^verbatim>\<open>os.ReadDir\<close>, its directories alone, in the order of names; a root that is not there has none.\<close>

definition read_dirs :: "string \<Rightarrow> FS \<Rightarrow> string list fs_result" where
  "read_dirs root s =
     (case next_answer s of
        (Fine, s') \<Rightarrow> (Inr (subdirs root s'), s')
      | (Refused e, s') \<Rightarrow> (Inl e, s')
      | (Torn e n, s') \<Rightarrow> (Inl e, s'))"

text \<open>The first value that is not blank, as it is; two packages of the source declare it.\<close>

fun first_nonblank :: "string list \<Rightarrow> string" where
  "first_nonblank [] = []"
| "first_nonblank (v # vs) = (if trim_space v \<noteq> [] then v else first_nonblank vs)"

lemma read_existing_files [simp, frame_simps]: "files (snd (read_existing p s)) = files s"
  by (cases "next_answer s") (auto simp: read_existing_def split: fs_answer.splits)

lemma fine_ops:
  "answers s = [] \<Longrightarrow> read_existing p s = (Inr (get (files s) p), s)"
  "answers s = [] \<Longrightarrow> append_file p c s = (Inr (), s\<lparr>files := put p ((case get (files s) p of None \<Rightarrow> [] | Some o1 \<Rightarrow> o1) @ c) (files s)\<rparr>)"
  "answers s = [] \<Longrightarrow> get (files s) p = Some c \<Longrightarrow>
     rename_file p q s = (Inr (), s\<lparr>files := put q c (remove_key p (files s))\<rparr>)"
  by (simp_all add: read_existing_def append_file_def rename_file_def Let_def)

text \<open>Writing beside and renaming into place: the file holds the new content, or it is untouched.\<close>

lemma replace_file:
  assumes "p \<noteq> q" "bind_res (write_file p c s) (\<lambda>_. rename_file p q) = (r, s')"
  shows "case r of Inr _ \<Rightarrow> get (files s') q = Some c | Inl _ \<Rightarrow> get (files s') q = get (files s) q"
proof -
  obtain w s1 where w: "write_file p c s = (w, s1)" by fastforce
  have other: "get (files s1) q = get (files s) q" using write_file_other [of q p c s] assms(1) w by simp
  show ?thesis
  proof (cases w)
    case (Inr u)
    then have "get (files s1) p = Some c" using w write_file_ok by fastforce
    then show ?thesis
      using assms(2) w Inr other
      by (cases "next_answer s1") (auto simp: rename_file_def split: fs_answer.splits)
  qed (use assms w other in auto)
qed

end
