(* ===== verification/Cron.thy ===== *)
theory Cron
  imports ChildAgent FileOps JsonCodec
begin

text \<open>
  \<^verbatim>\<open>internal/cron\<close>: schedules, the job file, ticks and the scheduler's loop. The texts of times that
  only this package makes are parameters (\<open>CronText\<close>): RFC 3339 with nanoseconds, as \<^verbatim>\<open>time.Time\<close> is
  encoded in JSON, the stamp in the name of an output file, and the indented form of a JSON value.
\<close>

section \<open>Jobs\<close>

record Schedule =
  sch_Raw :: string
  sch_Kind :: string
  sch_RunAt :: string
  sch_Interval :: int
  sch_Display :: string

record Job =
  job_ID :: string
  job_Name :: string
  job_Username :: string
  job_Prompt :: string
  job_Schedule :: Schedule
  job_Enabled :: bool
  job_CreatedAt :: time
  job_UpdatedAt :: time
  job_NextRunAt :: string
  job_LastRunAt :: string
  job_LastSessionID :: int
  job_LastOutputFile :: string
  job_LastError :: string
  job_RunCount :: int

record CreateInput =
  ci_Name :: string
  ci_Username :: string
  ci_Prompt :: string
  ci_Schedule :: string

record TickResult =
  tick_JobID :: string
  tick_Name :: string
  tick_Username :: string
  tick_Triggered :: bool
  tick_Success :: bool
  tick_SessionID :: int
  tick_OutputFile :: string
  tick_Error :: string
  tick_Timestamp :: time

record CronText =
  ct_time :: "time \<Rightarrow> string"
  ct_parse_time :: "string \<Rightarrow> time option"
  ct_file_stamp :: "time \<Rightarrow> string"
  ct_indent :: "json \<Rightarrow> string"

definition ScheduleKindOnce :: string where "ScheduleKindOnce = ''once''"
definition ScheduleKindInterval :: string where "ScheduleKindInterval = ''interval''"

section \<open>Schedules\<close>

definition invalid_duration :: "string \<Rightarrow> string" where
  "invalid_duration raw = ''invalid duration '' @ go_quote raw"

text \<open>A product that leaves 64 bits wraps around.\<close>

definition parseDurationMinutes :: "string \<Rightarrow> string + int" where
  "parseDurationMinutes raw0 =
     (let raw = to_lower (trim_space raw0) in
      if raw = [] then Inl ''duration is required''
      else if length raw < 2 then Inl (invalid_duration raw)
      else (case parse_int64 (trim_space (butlast raw)) of
              None \<Rightarrow> Inl (invalid_duration raw)
            | Some v \<Rightarrow>
                if v \<le> 0 then Inl (invalid_duration raw)
                else if last raw = CHR ''m'' then Inr v
                else if last raw = CHR ''h'' then Inr (wrap64 (v * 60))
                else if last raw = CHR ''d'' then Inr (wrap64 (v * 1440))
                else Inl (invalid_duration raw)))"

definition minutes_later :: "time \<Rightarrow> int \<Rightarrow> time" where
  "minutes_later now m = now + wrap64 (m * nanos_per_minute)"

definition rfc3339 :: "Env \<Rightarrow> time \<Rightarrow> string" where
  "rfc3339 env t = env_format_time env (to_stamp t)"

definition ParseSchedule :: "Env \<Rightarrow> string \<Rightarrow> time \<Rightarrow> string + Schedule" where
  "ParseSchedule env raw0 now =
     (let raw = trim_space raw0 in
      if raw = [] then Inl ''schedule is required''
      else if has_prefix ''every '' (to_lower raw)
      then (case parseDurationMinutes (trim_space (drop 6 raw)) of
              Inl e \<Rightarrow> Inl e
            | Inr m \<Rightarrow> Inr \<lparr>sch_Raw = raw, sch_Kind = ScheduleKindInterval, sch_RunAt = [], sch_Interval = m,
                sch_Display = ''every '' @ show_int m @ ''m''\<rparr>)
      else (case env_parse_time env raw of
              Some t \<Rightarrow> Inr \<lparr>sch_Raw = raw, sch_Kind = ScheduleKindOnce, sch_RunAt = rfc3339 env t, sch_Interval = 0,
                sch_Display = ''once at '' @ rfc3339 env t\<rparr>
            | None \<Rightarrow>
                (case parseDurationMinutes raw of
                   Inl e \<Rightarrow> Inl (''invalid schedule '' @ go_quote raw @ '': use RFC3339, 30m, 2h, 1d, or every <duration>'')
                 | Inr m \<Rightarrow> Inr \<lparr>sch_Raw = raw, sch_Kind = ScheduleKindOnce, sch_RunAt = rfc3339 env (minutes_later now m),
                     sch_Interval = 0, sch_Display = ''once in '' @ raw\<rparr>)))"

definition firstNextRun :: "Env \<Rightarrow> Schedule \<Rightarrow> time \<Rightarrow> string" where
  "firstNextRun env s now =
     (if sch_Kind s = ScheduleKindOnce then sch_RunAt s
      else if sch_Kind s = ScheduleKindInterval then rfc3339 env (minutes_later now (sch_Interval s))
      else [])"

definition jobDue :: "Env \<Rightarrow> Job \<Rightarrow> time \<Rightarrow> bool" where
  "jobDue env j now =
     (trim_space (job_NextRunAt j) \<noteq> []
      \<and> (case env_parse_time env (job_NextRunAt j) of None \<Rightarrow> False | Some t \<Rightarrow> t \<le> now))"

text \<open>\<^verbatim>\<open>nextRunAfterSuccess\<close> and \<^verbatim>\<open>nextRunAfterFailure\<close> are the same function.\<close>

definition nextRunAfter :: "Env \<Rightarrow> Job \<Rightarrow> time \<Rightarrow> string" where
  "nextRunAfter env j now =
     (if sch_Kind (job_Schedule j) \<noteq> ScheduleKindInterval then []
      else rfc3339 env (minutes_later now (sch_Interval (job_Schedule j))))"

section \<open>The job file\<close>

record CronManager =
  cm_dir :: string
  cm_jobsFile :: string
  cm_outputDir :: string

definition NewCronManager :: "string \<Rightarrow> CronManager" where
  "NewCronManager dataDir =
     \<lparr>cm_dir = path_join [dataDir, ''cron''], cm_jobsFile = path_join [path_join [dataDir, ''cron''], ''jobs.json''],
      cm_outputDir = path_join [path_join [dataDir, ''cron''], ''output'']\<rparr>"

definition opt_str :: "string \<Rightarrow> string \<Rightarrow> (string \<times> json) list" where
  "opt_str k v = (if v \<noteq> [] then [(k, JStr v)] else [])"

definition opt_int :: "string \<Rightarrow> int \<Rightarrow> (string \<times> json) list" where
  "opt_int k v = (if v \<noteq> 0 then [(k, JInt v)] else [])"

definition schedule_fields :: "Schedule \<Rightarrow> (string \<times> json) list" where
  "schedule_fields s =
     [(''raw'', JStr (sch_Raw s)), (''kind'', JStr (sch_Kind s))] @ opt_str ''run_at'' (sch_RunAt s)
     @ opt_int ''interval_minutes'' (sch_Interval s) @ [(''display'', JStr (sch_Display s))]"

definition job_fields :: "CronText \<Rightarrow> Job \<Rightarrow> (string \<times> json) list" where
  "job_fields ct j =
     [(''id'', JStr (job_ID j)), (''name'', JStr (job_Name j)), (''username'', JStr (job_Username j)),
      (''prompt'', JStr (job_Prompt j)), (''schedule'', JObj (schedule_fields (job_Schedule j))),
      (''enabled'', JBool (job_Enabled j)), (''created_at'', JStr (ct_time ct (job_CreatedAt j))),
      (''updated_at'', JStr (ct_time ct (job_UpdatedAt j)))]
     @ opt_str ''next_run_at'' (job_NextRunAt j) @ opt_str ''last_run_at'' (job_LastRunAt j)
     @ opt_int ''last_session_id'' (job_LastSessionID j) @ opt_str ''last_output_file'' (job_LastOutputFile j)
     @ opt_str ''last_error'' (job_LastError j) @ [(''run_count'', JInt (job_RunCount j))]"

definition dec_time :: "CronText \<Rightarrow> (string \<times> json) list \<Rightarrow> string \<Rightarrow> time option" where
  "dec_time ct m name =
     (case field name m of JNull \<Rightarrow> Some zero_time | JStr s \<Rightarrow> ct_parse_time ct s | _ \<Rightarrow> None)"

definition decode_schedule :: "(string \<times> json) list \<Rightarrow> Schedule option" where
  "decode_schedule m = do {
     raw \<leftarrow> dec_str m ''raw''; kind \<leftarrow> dec_str m ''kind''; run_at \<leftarrow> dec_str m ''run_at'';
     interval \<leftarrow> dec_int m ''interval_minutes''; display \<leftarrow> dec_str m ''display'';
     Some \<lparr>sch_Raw = raw, sch_Kind = kind, sch_RunAt = run_at, sch_Interval = interval, sch_Display = display\<rparr> }"

definition decode_job_fields :: "CronText \<Rightarrow> (string \<times> json) list \<Rightarrow> Job option" where
  "decode_job_fields ct m = do {
     i \<leftarrow> dec_str m ''id''; name \<leftarrow> dec_str m ''name''; user \<leftarrow> dec_str m ''username''; prompt \<leftarrow> dec_str m ''prompt'';
     sm \<leftarrow> dec_obj m ''schedule''; schedule \<leftarrow> decode_schedule sm; enabled \<leftarrow> dec_bool m ''enabled'';
     created \<leftarrow> dec_time ct m ''created_at''; updated \<leftarrow> dec_time ct m ''updated_at'';
     next \<leftarrow> dec_str m ''next_run_at''; last \<leftarrow> dec_str m ''last_run_at''; session \<leftarrow> dec_int m ''last_session_id'';
     output \<leftarrow> dec_str m ''last_output_file''; err \<leftarrow> dec_str m ''last_error''; count \<leftarrow> dec_int m ''run_count'';
     Some \<lparr>job_ID = i, job_Name = name, job_Username = user, job_Prompt = prompt, job_Schedule = schedule,
       job_Enabled = enabled, job_CreatedAt = created, job_UpdatedAt = updated, job_NextRunAt = next, job_LastRunAt = last,
       job_LastSessionID = session, job_LastOutputFile = output, job_LastError = err, job_RunCount = count\<rparr> }"

fun decode_job :: "CronText \<Rightarrow> json \<Rightarrow> Job option" where
  "decode_job ct (JObj m) = decode_job_fields ct m"
| "decode_job ct JNull = decode_job_fields ct []"
| "decode_job ct _ = None"

fun decode_jobs :: "CronText \<Rightarrow> json \<Rightarrow> Job list option" where
  "decode_jobs ct (JArr js) = those (map (decode_job ct) js)"
| "decode_jobs ct JNull = Some []"
| "decode_jobs ct _ = None"

definition ensureDirs :: "CronManager \<Rightarrow> World \<Rightarrow> unit app_result" where
  "ensureDirs m w = bind_res (on_files (mkdir_all (cm_dir m)) w) (\<lambda>_. on_files (mkdir_all (cm_outputDir m)))"

definition loadJobs :: "Env \<Rightarrow> CronText \<Rightarrow> CronManager \<Rightarrow> World \<Rightarrow> Job list app_result" where
  "loadJobs env ct m w =
     bind_res (on_files (read_existing (cm_jobsFile m)) w) (\<lambda>c w.
       case c of
         None \<Rightarrow> (Inr [], w)
       | Some [] \<Rightarrow> (Inr [], w)
       | Some text \<Rightarrow>
           (case env_unmarshal env text of
              Inl e \<Rightarrow> (Inl e, w)
            | Inr j \<Rightarrow> (case decode_jobs ct j of
                           None \<Rightarrow> (Inl ''json: cannot unmarshal the jobs'', w) | Some jobs \<Rightarrow> (Inr jobs, w))))"

definition saveJobs :: "CronText \<Rightarrow> CronManager \<Rightarrow> Job list \<Rightarrow> World \<Rightarrow> unit app_result" where
  "saveJobs ct m jobs w =
     (let raw = ct_indent ct (JArr (map (\<lambda>j. JObj (job_fields ct j)) jobs)); tmp = cm_jobsFile m @ ''.tmp''
      in bind_res (on_files (write_file tmp raw) w) (\<lambda>_. on_files (rename_file tmp (cm_jobsFile m))))"

section \<open>Operations on jobs\<close>

definition new_job :: "Env \<Rightarrow> CreateInput \<Rightarrow> Schedule \<Rightarrow> time \<Rightarrow> Job" where
  "new_job env i s now =
     \<lparr>job_ID = ''cron-'' @ show_int now, job_Name = trim_space (ci_Name i), job_Username = trim_space (ci_Username i),
      job_Prompt = trim_space (ci_Prompt i), job_Schedule = s, job_Enabled = True, job_CreatedAt = now, job_UpdatedAt = now,
      job_NextRunAt = firstNextRun env s now, job_LastRunAt = [], job_LastSessionID = 0, job_LastOutputFile = [],
      job_LastError = [], job_RunCount = 0\<rparr>"

definition AddJob :: "Env \<Rightarrow> CronText \<Rightarrow> CronManager \<Rightarrow> CreateInput \<Rightarrow> World \<Rightarrow> Job app_result" where
  "AddJob env ct m i w =
     (case ParseSchedule env (ci_Schedule i) (w_now w) of
        Inl e \<Rightarrow> (Inl e, w)
      | Inr s \<Rightarrow>
          bind_res (ensureDirs m w) (\<lambda>_ w.
          bind_res (loadJobs env ct m w) (\<lambda>jobs w.
            let job = new_job env i s (w_now w)
            in if job_Name job = [] then (Inl ''name is required'', w)
               else if job_Username job = [] then (Inl ''username is required'', w)
               else if job_Prompt job = [] then (Inl ''prompt is required'', w)
               else bind_res (saveJobs ct m (jobs @ [job]) w) (\<lambda>_ w. (Inr job, w)))))"

definition job_order :: "Env \<Rightarrow> Job \<Rightarrow> string \<times> string" where
  "job_order env j = (first_nonblank [job_NextRunAt j, rfc3339 env (job_CreatedAt j)], job_ID j)"

definition ListJobs :: "Env \<Rightarrow> CronText \<Rightarrow> CronManager \<Rightarrow> World \<Rightarrow> Job list app_result" where
  "ListJobs env ct m w =
     bind_res (ensureDirs m w) (\<lambda>_ w. bind_res (loadJobs env ct m w) (\<lambda>jobs w. (Inr (sort_key (job_order env) jobs), w)))"

definition no_job :: "string \<Rightarrow> string" where
  "no_job i = ''cron job '' @ go_quote i @ '' not found''"

definition GetJob :: "Env \<Rightarrow> CronText \<Rightarrow> CronManager \<Rightarrow> string \<Rightarrow> World \<Rightarrow> Job app_result" where
  "GetJob env ct m i w =
     bind_res (ListJobs env ct m w) (\<lambda>jobs w.
       case find (\<lambda>j. job_ID j = i) jobs of None \<Rightarrow> (Inl (no_job i), w) | Some j \<Rightarrow> (Inr j, w))"

definition DeleteJob :: "Env \<Rightarrow> CronText \<Rightarrow> CronManager \<Rightarrow> string \<Rightarrow> World \<Rightarrow> unit app_result" where
  "DeleteJob env ct m i w =
     bind_res (loadJobs env ct m w) (\<lambda>jobs w.
       if \<not> list_ex (\<lambda>j. job_ID j = i) jobs then (Inl (no_job i), w)
       else saveJobs ct m (filter (\<lambda>j. job_ID j \<noteq> i) jobs) w)"

section \<open>Ticks\<close>

definition replace_chars :: "string \<Rightarrow> string" where
  "replace_chars s = map (\<lambda>c. if c \<in> set [CHR ''/'', CHR 0x5C, CHR '' '', CHR '':''] then CHR ''_'' else c) s"

definition sanitizeJobName :: "string \<Rightarrow> string" where
  "sanitizeJobName raw = replace_chars (trim_space raw)"

definition output_body :: "Env \<Rightarrow> Job \<Rightarrow> ChatResult \<Rightarrow> time \<Rightarrow> string" where
  "output_body env j r now =
     lines_of [''# Cron Job Output'', [], ''- job_id: '' @ job_ID j, ''- name: '' @ job_Name j, ''- username: '' @ job_Username j,
       ''- session_id: '' @ show_int (chat_SessionID r), ''- model: '' @ chat_Model r, ''- ran_at: '' @ rfc3339 env now, [],
       ''## Prompt'', [], job_Prompt j, [], ''## Response'', [], chat_Response r, []]"

definition writeOutput :: "Env \<Rightarrow> CronText \<Rightarrow> CronManager \<Rightarrow> Job \<Rightarrow> ChatResult \<Rightarrow> time \<Rightarrow> World \<Rightarrow> string app_result" where
  "writeOutput env ct m j r now w =
     (let dir = path_join [cm_outputDir m, sanitizeJobName (job_ID j)]; name = path_join [dir, ct_file_stamp ct now @ ''.md'']
      in bind_res (on_files (mkdir_all dir) w) (\<lambda>_ w.
         bind_res (on_files (write_file name (output_body env j r now)) w) (\<lambda>_ w. (Inr name, w))))"

definition tick_result :: "Job \<Rightarrow> time \<Rightarrow> TickResult" where
  "tick_result j now =
     \<lparr>tick_JobID = job_ID j, tick_Name = job_Name j, tick_Username = job_Username j, tick_Triggered = True,
      tick_Success = False, tick_SessionID = 0, tick_OutputFile = [], tick_Error = [], tick_Timestamp = now\<rparr>"

definition job_ran :: "Env \<Rightarrow> Job \<Rightarrow> time \<Rightarrow> Job" where
  "job_ran env j now =
     j\<lparr>job_LastRunAt := rfc3339 env now, job_UpdatedAt := now, job_RunCount := job_RunCount j + 1,
       job_NextRunAt := nextRunAfter env j now,
       job_Enabled := (if sch_Kind (job_Schedule j) = ScheduleKindOnce then False else job_Enabled j)\<rparr>"

type_synonym chat_runner = "string \<Rightarrow> string \<Rightarrow> World \<Rightarrow> ChatResult app_result"
type_synonym audit_writer = "string \<Rightarrow> string \<Rightarrow> string \<Rightarrow> World \<Rightarrow> unit app_result"

definition write_audit :: "audit_writer option \<Rightarrow> string \<Rightarrow> string \<Rightarrow> string \<Rightarrow> World \<Rightarrow> World" where
  "write_audit a u action detail w = (case a of None \<Rightarrow> w | Some f \<Rightarrow> snd (f u action detail w))"

definition run_job :: "Env \<Rightarrow> CronText \<Rightarrow> CronManager \<Rightarrow> chat_runner \<Rightarrow> audit_writer option \<Rightarrow> time \<Rightarrow> Job \<Rightarrow> World \<Rightarrow> (Job \<times> TickResult) \<times> World" where
  "run_job env ct m runner aud now j w =
     (let label = ''job_id='' @ job_ID j @ '' name='' @ job_Name j in
      case runner (job_Username j) (job_Prompt j) w of
        (Inl e, w) \<Rightarrow>
          (((job_ran env j now)\<lparr>job_LastError := e\<rparr>, (tick_result j now)\<lparr>tick_Error := e\<rparr>),
           write_audit aud (job_Username j) ''cron_job_failed'' (label @ '' err='' @ e) w)
      | (Inr r, w) \<Rightarrow>
          (case writeOutput env ct m (job_ran env j now) r now w of
             (out, w) \<Rightarrow>
               (((case out of
                    Inl e \<Rightarrow> (job_ran env j now)\<lparr>job_LastError := e, job_LastSessionID := chat_SessionID r\<rparr>
                  | Inr f \<Rightarrow> (job_ran env j now)\<lparr>job_LastOutputFile := f, job_LastError := [], job_LastSessionID := chat_SessionID r\<rparr>),
                 (case out of
                    Inl e \<Rightarrow> (tick_result j now)\<lparr>tick_SessionID := chat_SessionID r, tick_Error := e\<rparr>
                  | Inr f \<Rightarrow> (tick_result j now)\<lparr>tick_Success := True, tick_SessionID := chat_SessionID r, tick_OutputFile := f\<rparr>)),
                write_audit aud (job_Username j) ''cron_job_ran''
                  (label @ '' session_id='' @ show_int (chat_SessionID r)) w)))"

fun run_jobs :: "Env \<Rightarrow> CronText \<Rightarrow> CronManager \<Rightarrow> chat_runner \<Rightarrow> audit_writer option \<Rightarrow> time \<Rightarrow> Job list \<Rightarrow> World \<Rightarrow> (Job list \<times> TickResult list) \<times> World" where
  "run_jobs env ct m runner aud now [] w = (([], []), w)"
| "run_jobs env ct m runner aud now (j # js) w =
     (if \<not> job_Enabled j \<or> \<not> jobDue env j now
      then (case run_jobs env ct m runner aud now js w of ((js', rs), w) \<Rightarrow> ((j # js', rs), w))
      else (case run_job env ct m runner aud now j w of
              ((j', r), w) \<Rightarrow> (case run_jobs env ct m runner aud now js w of ((js', rs), w) \<Rightarrow> ((j' # js', r # rs), w))))"

definition TickWith :: "Env \<Rightarrow> CronText \<Rightarrow> CronManager \<Rightarrow> chat_runner \<Rightarrow> audit_writer option \<Rightarrow> World \<Rightarrow> TickResult list app_result" where
  "TickWith env ct m runner aud w =
     (let now = w_now w in
      bind_res (ensureDirs m w) (\<lambda>_ w.
      bind_res (loadJobs env ct m w) (\<lambda>jobs w.
        case run_jobs env ct m runner aud now jobs w of
          ((jobs', results), w) \<Rightarrow> bind_res (saveJobs ct m jobs' w) (\<lambda>_ w. (Inr results, w)))))"

definition Tick :: "Env \<Rightarrow> App \<Rightarrow> CronText \<Rightarrow> CronManager \<Rightarrow> World \<Rightarrow> TickResult list app_result" where
  "Tick env a ct m = TickWith env ct m (ChatTurn env a) (Some audit)"

section \<open>The scheduler\<close>

text \<open>One tick at the start and one at each expiry of the ticker until the context is done. The loop
  is the only caller of \<^verbatim>\<open>tick\<close>, so its flag is down at each call; errors are logged.\<close>

fun scheduler_ticks :: "Env \<Rightarrow> App \<Rightarrow> CronText \<Rightarrow> CronManager \<Rightarrow> time list \<Rightarrow> World \<Rightarrow> World" where
  "scheduler_ticks env a ct m [] w = w"
| "scheduler_ticks env a ct m (t # ts) w = scheduler_ticks env a ct m ts (snd (Tick env a ct m (w\<lparr>w_now := t\<rparr>)))"

definition SchedulerStart :: "Env \<Rightarrow> App \<Rightarrow> CronText \<Rightarrow> CronManager option \<Rightarrow> int \<Rightarrow> time list \<Rightarrow> World \<Rightarrow> World" where
  "SchedulerStart env a ct m interval ticks w =
     (case m of None \<Rightarrow> w | Some m \<Rightarrow> if interval \<le> 0 then w else scheduler_ticks env a ct m ticks w)"

end
