(* ===== verification/CronProps.thy ===== *)
theory CronProps
  imports Cron AppDemo
begin

text \<open>
  What the scheduler promises: the job file holds what was saved, a tick runs each due job once, and
  a job that ran is not due again at once.
\<close>

section \<open>The job file\<close>

lemma get_opt [simp]:
  "get (opt_str k v @ m) k' = (if v \<noteq> [] \<and> k' = k then Some (JStr v) else get m k')"
  "get (opt_int k i @ m) k' = (if i \<noteq> 0 \<and> k' = k then Some (JInt i) else get m k')"
  by (simp_all add: opt_str_def opt_int_def get_Cons)

lemma jget_opt [simp]:
  "jget (opt_str k v @ m) k' = (if v \<noteq> [] \<and> k' = k then JStr v else jget m k')"
  "jget (opt_int k i @ m) k' = (if i \<noteq> 0 \<and> k' = k then JInt i else jget m k')"
  by (simp_all add: jget_def)

lemma keys_opt [simp]:
  "map fst (opt_str k v) = (if v \<noteq> [] then [k] else [])" "map fst (opt_int k i) = (if i \<noteq> 0 then [k] else [])"
  by (simp_all add: opt_str_def opt_int_def)

lemma schedule_tags: "tags_ok (schedule_fields s)"
  unfolding tags_ok_def schedule_fields_def
  by (simp add: to_lower_def lower_char_def del: set_map)

lemma job_tags: "tags_ok (job_fields ct j)"
  unfolding tags_ok_def job_fields_def
  by (simp add: to_lower_def lower_char_def del: set_map)

lemma decode_schedule_fields: "decode_schedule (stored (schedule_fields s)) = Some s"
proof -
  have i: "dec_int (stored (schedule_fields s)) ''interval_minutes'' = Some (sch_Interval s)"
    by (rule dec_int_stored [OF schedule_tags]) (simp add: schedule_fields_def jget_Cons)
  show ?thesis
    by (simp add: decode_schedule_def dec_stored schedule_tags i) (simp add: schedule_fields_def jget_Cons)
qed

definition times_survive :: "CronText \<Rightarrow> Job \<Rightarrow> bool" where
  "times_survive ct j \<longleftrightarrow>
     (\<forall>t\<in>{job_CreatedAt j, job_UpdatedAt j}. ct_parse_time ct (ct_time ct t) = Some t)"

lemma decode_job_stored:
  assumes "times_survive ct j"
  shows "decode_job ct (decoded (JObj (job_fields ct j))) = Some j"
proof -
  have n: "dec_int (stored (job_fields ct j)) ''last_session_id'' = Some (job_LastSessionID j)"
    "dec_int (stored (job_fields ct j)) ''run_count'' = Some (job_RunCount j)"
    by (rule dec_int_stored [OF job_tags], simp add: job_fields_def jget_Cons)+
  have t: "dec_time ct (stored (job_fields ct j)) ''created_at'' = Some (job_CreatedAt j)"
    "dec_time ct (stored (job_fields ct j)) ''updated_at'' = Some (job_UpdatedAt j)"
    using assms
    by (simp_all add: dec_time_def field_stored job_tags) (simp_all add: job_fields_def jget_Cons times_survive_def)
  have s: "decoded (jget (job_fields ct j) ''schedule'') = JObj (stored (schedule_fields (job_Schedule j)))"
    by (simp add: job_fields_def jget_Cons stored_def)
  show ?thesis
    unfolding decoded_stored decode_job.simps decode_job_fields_def
    by (simp add: n t s dec_stored job_tags decode_schedule_fields) (simp add: job_fields_def jget_Cons)
qed

lemma those_map_Some: "\<forall>x\<in>set xs. f x = Some (g x) \<Longrightarrow> those (map f xs) = Some (map g xs)"
  by (induction xs) simp_all

definition jobs_json :: "CronText \<Rightarrow> Job list \<Rightarrow> json" where
  "jobs_json ct jobs = JArr (map (\<lambda>j. JObj (job_fields ct j)) jobs)"

lemma decode_jobs_decoded:
  "\<forall>j\<in>set jobs. times_survive ct j \<Longrightarrow> decode_jobs ct (decoded (jobs_json ct jobs)) = Some jobs"
  using those_map_Some [of jobs "decode_job ct \<circ> decoded \<circ> (\<lambda>j. JObj (job_fields ct j))" id]
  by (simp add: jobs_json_def decode_job_stored comp_def del: decoded.simps(7))

lemma on_files_bind: "bind_res (on_files f w) (\<lambda>a. on_files (g a)) = on_files (\<lambda>s. bind_res (f s) g) w"
proof -
  obtain r s where e: "f (w_files w) = (r, s)" by fastforce
  show ?thesis by (cases r) (simp_all add: on_files_def e)
qed

text \<open>C38. The job file is replaced as a whole: a save that succeeds makes the next load return exactly
  the saved jobs, and one that fails, at whatever point, leaves the old file as it was.\<close>

theorem job_file_roundtrip:
  assumes "env_unmarshal env (ct_indent ct (jobs_json ct jobs)) = Inr (decoded (jobs_json ct jobs))"
    and "ct_indent ct (jobs_json ct jobs) \<noteq> []" "\<forall>j\<in>set jobs. times_survive ct j"
    and "saveJobs ct m jobs w = (r, w')"
  shows "case r of
      Inr _ \<Rightarrow> answers (w_files w') = [] \<longrightarrow> loadJobs env ct m w' = (Inr jobs, w')
    | Inl _ \<Rightarrow> get (files (w_files w')) (cm_jobsFile m) = get (files (w_files w)) (cm_jobsFile m)"
proof -
  let ?raw = "ct_indent ct (jobs_json ct jobs)" and ?tmp = "cm_jobsFile m @ ''.tmp''"
  obtain r0 s0 where f: "bind_res (write_file ?tmp ?raw (w_files w)) (\<lambda>_. rename_file ?tmp (cm_jobsFile m)) = (r0, s0)"
    by fastforce
  have "?tmp \<noteq> cm_jobsFile m" by simp
  note replaced = replace_file [OF this f]
  have e: "r = r0" "w' = w\<lparr>w_files := s0\<rparr>"
    using assms(4) on_files_bind [of "write_file ?tmp ?raw" w "\<lambda>_. rename_file ?tmp (cm_jobsFile m)"]
    by (simp_all add: saveJobs_def Let_def jobs_json_def [symmetric] on_files_def f)
  show ?thesis
  proof (cases r0)
    case (Inr u)
    then have "get (files s0) (cm_jobsFile m) = Some ?raw" using replaced by simp
    then have g: "get (files (w_files w')) (cm_jobsFile m) = Some ?raw" by (simp add: e)
    have "loadJobs env ct m w' = (Inr jobs, w')" if a: "answers (w_files w') = []"
    proof -
      have "on_files (read_existing (cm_jobsFile m)) w' = (Inr (Some ?raw), w')"
        by (simp add: on_files_def fine_ops(1) [OF a] g)
      moreover obtain c cs where "?raw = c # cs" using assms(2) by (cases ?raw) simp_all
      ultimately show ?thesis
        using assms(1) decode_jobs_decoded [OF assms(3)] by (simp add: loadJobs_def)
    qed
    then show ?thesis using e(1) Inr by simp
  qed (use replaced e in simp)
qed

section \<open>Ticks\<close>

definition due_now :: "Env \<Rightarrow> time \<Rightarrow> Job \<Rightarrow> bool" where
  "due_now env now j \<longleftrightarrow> job_Enabled j \<and> jobDue env j now"

definition same_job :: "Job \<Rightarrow> Job \<Rightarrow> bool" where
  "same_job j j' \<longleftrightarrow> job_ID j' = job_ID j \<and> job_Name j' = job_Name j \<and> job_Username j' = job_Username j
     \<and> job_Prompt j' = job_Prompt j \<and> job_Schedule j' = job_Schedule j \<and> job_CreatedAt j' = job_CreatedAt j"

text \<open>What a tick makes of a job.\<close>

definition ticked :: "Env \<Rightarrow> time \<Rightarrow> Job \<Rightarrow> Job \<Rightarrow> bool" where
  "ticked env now j j' \<longleftrightarrow>
     (if due_now env now j
      then same_job j j' \<and> job_RunCount j' = job_RunCount j + 1 \<and> job_LastRunAt j' = rfc3339 env now
        \<and> job_Enabled j' = (sch_Kind (job_Schedule j) \<noteq> ScheduleKindOnce) \<and> job_NextRunAt j' = nextRunAfter env j now
      else j' = j)"

lemma job_ran_ticked: "due_now env now j \<Longrightarrow> ticked env now j ((job_ran env j now)\<lparr>job_LastError := e\<rparr>)"
  "due_now env now j \<Longrightarrow> ticked env now j ((job_ran env j now)\<lparr>job_LastError := e, job_LastSessionID := i\<rparr>)"
  "due_now env now j \<Longrightarrow> ticked env now j ((job_ran env j now)\<lparr>job_LastOutputFile := f, job_LastError := e, job_LastSessionID := i\<rparr>)"
  by (simp_all add: ticked_def same_job_def job_ran_def due_now_def)

lemma run_job_ticked:
  assumes "run_job env ct m runner aud now j w = ((j', r), w')" "due_now env now j"
  shows "ticked env now j j' \<and> tick_JobID r = job_ID j"
proof -
  obtain x w1 where x: "runner (job_Username j) (job_Prompt j) w = (x, w1)" by fastforce
  show ?thesis
  proof (cases x)
    case (Inl e)
    then show ?thesis
      using assms x job_ran_ticked(1) by (auto simp: run_job_def tick_result_def)
  next
    case (Inr c)
    obtain out w2 where "writeOutput env ct m (job_ran env j now) c now w1 = (out, w2)" by fastforce
    then show ?thesis
      using assms x Inr job_ran_ticked(2,3) by (cases out) (auto simp: run_job_def tick_result_def)
  qed
qed

lemma run_jobs_spec:
  assumes "run_jobs env ct m runner aud now jobs w = ((jobs', rs), w')"
  shows "list_all2 (ticked env now) jobs jobs'
    \<and> map tick_JobID rs = map job_ID (filter (due_now env now) jobs)
    \<and> w' = foldl (\<lambda>w j. snd (run_job env ct m runner aud now j w)) w (filter (due_now env now) jobs)"
  using assms
proof (induction jobs arbitrary: w jobs' rs)
  case (Cons j js)
  show ?case
  proof (cases "due_now env now j")
    case True
    obtain j1 r1 w1 where r: "run_job env ct m runner aud now j w = ((j1, r1), w1)" by (metis surj_pair)
    obtain js2 rs2 w2 where "run_jobs env ct m runner aud now js w1 = ((js2, rs2), w2)" by (metis surj_pair)
    then show ?thesis
      using Cons.prems Cons.IH [of w1 js2 rs2] True r run_job_ticked [OF r True] by (auto simp: due_now_def)
  next
    case False
    obtain js2 rs2 w2 where "run_jobs env ct m runner aud now js w = ((js2, rs2), w2)" by (metis surj_pair)
    moreover have "ticked env now j j" using False by (simp add: ticked_def)
    ultimately show ?thesis
      using Cons.prems Cons.IH [of w js2 rs2] False by (auto simp: due_now_def)
  qed
qed simp

text \<open>C37. A tick that succeeds ran the jobs that were enabled and due when it began, each exactly once, in
  the order of the file and whether or not earlier ones failed; the file it saved holds the same jobs in
  the same order, the others unchanged, each that ran counted, stamped, given its next time, and
  disabled when it was to run once.\<close>

theorem tick_runs_due_jobs_once:
  assumes "bind_res (ensureDirs m w) (\<lambda>_. loadJobs env ct m) = (Inr jobs, w1)"
    and "TickWith env ct m runner aud w = (Inr results, w')"
  shows "map tick_JobID results = map job_ID (filter (due_now env (w_now w)) jobs)
    \<and> (\<exists>jobs'. list_all2 (ticked env (w_now w)) jobs jobs'
        \<and> saveJobs ct m jobs' (foldl (\<lambda>v j. snd (run_job env ct m runner aud (w_now w) j v)) w1
             (filter (due_now env (w_now w)) jobs)) = (Inr (), w'))"
proof -
  obtain u w0 where d: "ensureDirs m w = (Inr u, w0)" "loadJobs env ct m w0 = (Inr jobs, w1)"
    using assms(1) by (auto simp: bind_res_eq_Inr)
  obtain jobs' rs w2 where r: "run_jobs env ct m runner aud (w_now w) jobs w1 = ((jobs', rs), w2)" by (metis surj_pair)
  obtain v where s: "saveJobs ct m jobs' w2 = (Inr v, w')" "results = rs"
    using assms(2) by (auto simp: TickWith_def Let_def d r bind_res_eq_Inr)
  show ?thesis using run_jobs_spec [OF r] s by (intro conjI exI [of _ jobs']) simp_all
qed

section \<open>No job twice\<close>

lemma minutes_later_after:
  assumes "1 \<le> i" "i \<le> 153722867"
  shows "now + 60 * nanos_per_second \<le> minutes_later now i"
proof -
  have "wrap64 (i * nanos_per_minute) = i * nanos_per_minute"
    using assms by (simp add: wrap64_id nanos_per_minute_def)
  then show ?thesis using assms by (simp add: minutes_later_def nanos_per_minute_def nanos_per_second_def)
qed

lemma of_stamp_after: "t - nanos_per_second < of_stamp (to_stamp t)"
  unfolding of_stamp_def to_stamp_def nanos_per_second_def by presburger

text \<open>The schedule of a job recurs no faster than it says: its interval is at least a minute and its
  nanoseconds fit in 64 bits, and the text of its next time reads back to the second.\<close>

definition sound_schedule :: "Env \<Rightarrow> time \<Rightarrow> Job \<Rightarrow> bool" where
  "sound_schedule env now j \<longleftrightarrow>
     (sch_Kind (job_Schedule j) = ScheduleKindInterval \<longrightarrow>
        1 \<le> sch_Interval (job_Schedule j) \<and> sch_Interval (job_Schedule j) \<le> 153722867
        \<and> env_parse_time env (nextRunAfter env j now)
            = Some (of_stamp (to_stamp (minutes_later now (sch_Interval (job_Schedule j))))))"

lemma no_space: "trim_space [] = []"
  by code_simp

lemma ran_job_waits:
  assumes "ticked env now j j'" "due_now env now j" "sound_schedule env now j" "now2 \<le> now + 59 * nanos_per_second"
  shows "\<not> due_now env now2 j'"
proof (cases "sch_Kind (job_Schedule j) = ScheduleKindInterval")
  case True
  define t where "t = minutes_later now (sch_Interval (job_Schedule j))"
  have "now + 60 * nanos_per_second \<le> t"
    using assms(3) True minutes_later_after by (simp add: sound_schedule_def t_def)
  then have "now2 < of_stamp (to_stamp t)"
    using of_stamp_after [of t] assms(4) by (simp add: nanos_per_second_def)
  then show ?thesis
    using assms(1-3) True by (simp add: ticked_def due_now_def jobDue_def sound_schedule_def t_def)
next
  case False
  then have "job_NextRunAt j' = []" using assms(1,2) by (simp add: ticked_def nextRunAfter_def)
  then show ?thesis by (simp add: due_now_def jobDue_def no_space)
qed

lemma run_jobs_idle:
  "\<forall>j\<in>set jobs. \<not> due_now env now j \<Longrightarrow> run_jobs env ct m runner aud now jobs w = ((jobs, []), w)"
  by (induction jobs) (auto simp: due_now_def)

text \<open>A job that ran is not due again for 59 seconds, so a tick that comes in between (an operator's
  beside the scheduler's) does not repeat it, and a second tick at the same instant runs nothing:
  as long as intervals stay below 153722868 minutes.\<close>

lemma tick_not_repeated:
  assumes "run_jobs env ct m runner aud now jobs w = ((jobs', results), w')"
    and "\<forall>j\<in>set jobs. sound_schedule env now j" "now2 \<le> now + 59 * nanos_per_second"
  shows "list_all2 (\<lambda>j j'. due_now env now j \<longrightarrow> \<not> due_now env now2 j') jobs jobs'
    \<and> run_jobs env ct m runner aud now jobs' v = ((jobs', []), v)"
proof -
  have t: "list_all2 (ticked env now) jobs jobs'" using run_jobs_spec [OF assms(1)] by simp
  have "\<not> due_now env now j'" if j': "j' \<in> set jobs'" for j'
  proof -
    obtain j where j: "j \<in> set jobs" "ticked env now j j'"
    proof -
      obtain i where i: "i < length jobs'" "jobs' ! i = j'" using j' by (auto simp: in_set_conv_nth)
      then have "i < length jobs" using t by (simp add: list_all2_lengthD)
      then show ?thesis using that(1) [of "jobs ! i"] i list_all2_nthD [OF t] by auto
    qed
    show ?thesis
    proof (cases "due_now env now j")
      case True
      then show ?thesis using ran_job_waits [OF j(2) True, of now] assms(2) j(1) by (simp add: nanos_per_second_def)
    qed (use j(2) in \<open>simp add: ticked_def\<close>)
  qed
  then have "run_jobs env ct m runner aud now jobs' v = ((jobs', []), v)" by (simp add: run_jobs_idle)
  moreover have "list_all2 (\<lambda>j j'. due_now env now j \<longrightarrow> \<not> due_now env now2 j') jobs jobs'"
    by (rule list.rel_mono_strong [OF t]) (use ran_job_waits assms(2,3) in blast)
  ultimately show ?thesis by simp
qed

text \<open>Beyond that bound the product wraps: a job for every 200000 days is due again in the past.\<close>

lemma interval_overflow_due:
  "parseDurationMinutes ''200000d'' = Inr 288000000 \<and> minutes_later now 288000000 < now"
proof
  have "parse_int64 ''200000'' = Some 200000" by (simp add: parse_int64_def has_prefix_def is_digit_def less_eq_char_def)
  moreover have "to_lower (trim_space ''200000d'') = ''200000d''" "trim_space ''200000'' = ''200000''"
    "wrap64 (200000 * 1440) = 288000000" by code_simp+
  ultimately show "parseDurationMinutes ''200000d'' = Inr 288000000" by (simp add: parseDurationMinutes_def Let_def)
  have "wrap64 (288000000 * nanos_per_minute) = -1166744073709551616" by (simp add: wrap64_def nanos_per_minute_def)
  then show "minutes_later now 288000000 < now" by (simp add: minutes_later_def)
qed

section \<open>Instances\<close>

definition demo_job :: Job where
  "demo_job =
     \<lparr>job_ID = ''cron-1'', job_Name = ''news'', job_Username = ''ann'', job_Prompt = ''the news'',
      job_Schedule = \<lparr>sch_Raw = ''every 5m'', sch_Kind = ''interval'', sch_RunAt = [], sch_Interval = 5, sch_Display = ''every 5m''\<rparr>,
      job_Enabled = True, job_CreatedAt = 0, job_UpdatedAt = 0, job_NextRunAt = ''300'', job_LastRunAt = [],
      job_LastSessionID = 0, job_LastOutputFile = [], job_LastError = [], job_RunCount = 0\<rparr>"

definition demo_cron_text :: CronText where
  "demo_cron_text = \<lparr>ct_time = (\<lambda>t. ''epoch''), ct_parse_time = (\<lambda>s. Some 0), ct_file_stamp = (\<lambda>t. ''stamp''), ct_indent = (\<lambda>j. ''[]'')\<rparr>"

text \<open>The texts of two times, and a codec that is right about the one file written here.\<close>

definition cron_env :: Env where
  "cron_env = (demo_env ''fine'')\<lparr>env_format_time := (\<lambda>t. if t = 300 then ''300'' else if t = 700 then ''700'' else ''now''),
     env_parse_time := (\<lambda>s. if s = ''300'' then Some (of_stamp 300) else if s = ''700'' then Some (of_stamp 700) else None),
     env_unmarshal := (\<lambda>s. Inr (decoded (jobs_json demo_cron_text [demo_job])))\<rparr>"

definition demo_manager :: CronManager where "demo_manager = NewCronManager ''data''"

definition cron_world :: World where
  "cron_world = (snd (saveJobs demo_cron_text demo_manager [demo_job] demo_world))\<lparr>w_now := 400 * nanos_per_second\<rparr>"

lemma demo_file:
  "saveJobs demo_cron_text demo_manager [demo_job] demo_world = (Inr (), snd (saveJobs demo_cron_text demo_manager [demo_job] demo_world))"
  by code_simp

theorem job_file_roundtrip_witness:
  "loadJobs cron_env demo_cron_text demo_manager (snd (saveJobs demo_cron_text demo_manager [demo_job] demo_world))
     = (Inr [demo_job], snd (saveJobs demo_cron_text demo_manager [demo_job] demo_world))"
proof -
  have t: "\<forall>j\<in>set [demo_job]. times_survive demo_cron_text j" by code_simp
  have a: "answers (w_files (snd (saveJobs demo_cron_text demo_manager [demo_job] demo_world))) = []" by code_simp
  show ?thesis
    using job_file_roundtrip [OF _ _ t demo_file, of cron_env] a by (simp add: cron_env_def demo_cron_text_def)
qed

theorem tick_runs_due_jobs_once_witness:
  "\<exists>results w'. Tick cron_env demo_app demo_cron_text demo_manager cron_world = (Inr results, w')
     \<and> map tick_JobID results = [''cron-1'']"
proof -
  let ?load = "bind_res (ensureDirs demo_manager cron_world) (\<lambda>_. loadJobs cron_env demo_cron_text demo_manager)"
  let ?tick = "TickWith cron_env demo_cron_text demo_manager (ChatTurn cron_env demo_app) (Some audit) cron_world"
  have "fst ?load = Inr [demo_job]" "is_ok ?tick" "due_now cron_env (w_now cron_world) demo_job" by code_simp+
  moreover obtain results w' where t: "?tick = (Inr results, w')" using calculation(2) by (rule is_okE)
  moreover obtain w1 where l: "?load = (Inr [demo_job], w1)" using calculation(1) by (metis prod.collapse)
  ultimately have "map tick_JobID results = [job_ID demo_job]"
    using tick_runs_due_jobs_once [OF l t] by simp
  then show ?thesis using t by (simp add: Tick_def demo_job_def)
qed

lemma demo_due: "due_now cron_env 400000000000 demo_job" "sound_schedule cron_env 400000000000 demo_job"
  by code_simp+

lemma tick_not_repeated_witness:
  "\<exists>jobs' results w'. run_jobs cron_env demo_cron_text demo_manager (ChatTurn cron_env demo_app) None 400000000000 [demo_job] cron_world
      = ((jobs', results), w')
    \<and> run_jobs cron_env demo_cron_text demo_manager (ChatTurn cron_env demo_app) None 400000000000 jobs' w' = ((jobs', []), w')"
proof -
  obtain jobs' results w' where r: "run_jobs cron_env demo_cron_text demo_manager (ChatTurn cron_env demo_app) None 400000000000
      [demo_job] cron_world = ((jobs', results), w')" by (metis surj_pair)
  show ?thesis
    using tick_not_repeated [OF r, of 400000000000 w'] r demo_due(2) by (simp add: nanos_per_second_def)
qed

end
