(* ===== verification/Gateway.thy ===== *)
theory Gateway
  imports ChildResume JsonCodec
begin

text \<open>
  \<^verbatim>\<open>internal/gateway\<close>: the four platform adapters as functions from a request to its answer, over the
  world of the application and the messages the adapters sent. A reply body is the JSON value or the
  text written. \<open>None\<close> from a handler would be a request that is never answered; \<open>gateway_multi\<close> says why
  there is none.
\<close>

section \<open>Requests, answers and the outside\<close>

record HttpRequest =
  rq_Method :: string
  rq_Header :: "string \<Rightarrow> string"
  rq_Query :: "string \<Rightarrow> string"
  rq_Body :: "string option" \<comment> \<open>\<open>None\<close> when reading it fails\<close>

datatype reply_body = Text string | Json json

record HttpReply =
  rp_Code :: int
  rp_Type :: string
  rp_Body :: reply_body

record Posted =
  po_Code :: int
  po_Status :: string
  po_Body :: string
  po_ReadError :: "string option"

record Outgoing =
  out_URL :: string
  out_Bearer :: string
  out_Body :: json

record WeixinMessage =
  wm_ToUserName :: string
  wm_FromUserName :: string
  wm_CreateTime :: int
  wm_MsgType :: string
  wm_Content :: string
  wm_MsgID :: int
  wm_Event :: string

text \<open>\<open>ge_decode_first\<close> reads the first JSON value of a text and leaves the rest, as \<^verbatim>\<open>json.Decoder\<close> does;
  \<open>ge_url_error\<close> is the error of \<^verbatim>\<open>http.NewRequest\<close> for a URL it cannot parse.\<close>

record GwEnv =
  ge_decode_first :: "string \<Rightarrow> string + json"
  ge_form :: "string \<Rightarrow> (string \<Rightarrow> string) option"
  ge_xml :: "string \<Rightarrow> WeixinMessage option"
  ge_hmac :: "string \<Rightarrow> string \<Rightarrow> string"
  ge_sha1 :: "string \<Rightarrow> string"
  ge_getenv :: "string \<Rightarrow> string"
  ge_url_error :: "string \<Rightarrow> string option"
  ge_post :: "Outgoing list \<Rightarrow> Outgoing \<Rightarrow> string + Posted"
  ge_cancelled :: "World \<Rightarrow> bool"

record GwState =
  gs_world :: World
  gs_sent :: "Outgoing list"

type_synonym 'a gw_result = "(string, 'a, GwState) outcome"

definition on_world :: "(World \<Rightarrow> 'a \<times> World) \<Rightarrow> GwState \<Rightarrow> 'a \<times> GwState" where
  "on_world f s = (case f (gs_world s) of (r, w) \<Rightarrow> (r, s\<lparr>gs_world := w\<rparr>))"

definition http_error :: "string \<Rightarrow> int \<Rightarrow> HttpReply" where
  "http_error text code = \<lparr>rp_Code = code, rp_Type = ''text/plain; charset=utf-8'', rp_Body = Text (text @ newline)\<rparr>"

definition writeJSON :: "int \<Rightarrow> (string \<times> json) list \<Rightarrow> HttpReply" where
  "writeJSON status value = \<lparr>rp_Code = status, rp_Type = ''application/json'', rp_Body = Json (JObj value)\<rparr>"

definition plain :: "string \<Rightarrow> HttpReply" where
  "plain text = \<lparr>rp_Code = 200, rp_Type = ''text/plain; charset=utf-8'', rp_Body = Text text\<rparr>"

definition ok_json :: "(string \<times> json) list \<Rightarrow> HttpReply" where
  "ok_json rest = writeJSON 200 ((''ok'', JBool True) # rest)"

definition ignored :: HttpReply where "ignored = ok_json [(''ignored'', JBool True)]"

definition duplicate :: HttpReply where "duplicate = ok_json [(''duplicate'', JBool True)]"

section \<open>Commands and routing\<close>

definition parseMultiAgentCommand :: "string \<Rightarrow> string option" where
  "parseMultiAgentCommand text =
     (let trimmed = trim_space text in
      if \<not> has_prefix ''/multiagent'' trimmed then None
      else (let objective = trim_space (trim_prefix ''/multiagent'' trimmed)
            in if objective = [] then None else Some objective))"

record Adapter =
  ad_app :: App
  ad_chatFn :: "string \<Rightarrow> string \<Rightarrow> World \<Rightarrow> string app_result"

definition NewAdapter :: "Env \<Rightarrow> App \<Rightarrow> Adapter" where
  "NewAdapter env a = \<lparr>ad_app = a, ad_chatFn = AppChat env a\<rparr>"

text \<open>The plan of a gateway objective has one task and runs in sequence, so no schedule is asked for
  and the call returns.\<close>

lemma sequential_run_returns:
  "plan_Mode plan \<noteq> TaskModeParallel \<Longrightarrow> fst (RunPlan p runner cancelled schedule plan w) \<noteq> RunPanic
    \<and> fst (RunPlan p runner cancelled schedule plan w) \<noteq> RunBlocked"
  by (auto simp: RunPlan_def split: option.split prod.split)

lemma sequential_plan_returns:
  assumes "plan_Mode plan \<noteq> TaskModeParallel"
  shows "fst (RunMultiAgentPlan env a cancelled schedule u plan w) \<noteq> None"
proof -
  obtain r w1 where o1: "open_parent a u plan w = (r, w1)" by fastforce
  show ?thesis
  proof (cases r)
    case (Inr parent)
    obtain x w2 where x: "RunPlan (app_MultiAgent a) (\<lambda>t. runMultiAgentChildTask env a u parent t) cancelled schedule plan w1 = (x, w2)"
      by fastforce
    have "x \<noteq> RunPanic" "x \<noteq> RunBlocked"
      using sequential_run_returns [OF assms, of "app_MultiAgent a" "\<lambda>t. runMultiAgentChildTask env a u parent t"] x
      by (metis fst_conv)+
    then show ?thesis
      by (cases x) (simp_all add: RunMultiAgentPlan_def o1 Inr x Let_def split: prod.split sum.split)
  qed (simp add: RunMultiAgentPlan_def o1)
qed

lemma gateway_run_returns: "fst (RunGatewayMultiAgent env a cancelled [] u objective w) \<noteq> None"
proof -
  define o1 where "o1 = trim_space objective"
  obtain r w1 where b: "BuildMultiAgentPlan a u o1 [gateway_task o1] w = (r, w1)" by fastforce
  show ?thesis
  proof (cases r)
    case (Inr plan)
    have "plan_Mode plan \<noteq> TaskModeParallel"
      using b Inr by (auto simp: BuildMultiAgentPlan_def BuildPlan_def canRunParallel_def Let_def
          TaskModeSequential_def TaskModeParallel_def split: option.splits)
    from sequential_plan_returns [OF this, of env a cancelled "[]" u w1]
    obtain x w2 where x: "RunMultiAgentPlan env a cancelled [] u plan w1 = (Some x, w2)"
      by (metis not_None_eq prod.collapse)
    show ?thesis
      by (cases x) (simp_all add: RunGatewayMultiAgent_def Let_def o1_def [symmetric] b Inr x split: prod.split)
  qed (simp add: RunGatewayMultiAgent_def Let_def o1_def [symmetric] b)
qed

definition gateway_multi :: "Env \<Rightarrow> GwEnv \<Rightarrow> App \<Rightarrow> string \<Rightarrow> string \<Rightarrow> World \<Rightarrow> string app_result" where
  "gateway_multi env ge a u objective w =
     (case RunGatewayMultiAgent env a (ge_cancelled ge) [] u objective w of (r, w) \<Rightarrow> (the r, w))"

text \<open>The four adapters route alike.\<close>

definition routeMessage :: "Env \<Rightarrow> GwEnv \<Rightarrow> Adapter \<Rightarrow> string \<Rightarrow> string \<Rightarrow> World \<Rightarrow> string app_result" where
  "routeMessage env ge ad u text w =
     (case parseMultiAgentCommand text of
        Some objective \<Rightarrow> gateway_multi env ge (ad_app ad) u objective w
      | None \<Rightarrow> ad_chatFn ad u text w)"

definition gw_config :: "Adapter \<Rightarrow> GatewayConfig" where
  "gw_config ad = cfg_Gateway (app_Config (ad_app ad))"

definition audit_at :: "Env \<Rightarrow> string \<Rightarrow> string \<Rightarrow> string \<Rightarrow> GwState \<Rightarrow> GwState" where
  "audit_at env u action detail s =
     snd (on_world (audit u action (detail @ '' at='' @ env_format_time env (to_stamp (w_now (gs_world s))))) s)"

section \<open>The generic webhook\<close>

record InboundMessage =
  in_Platform :: string
  in_UserID :: string
  in_Username :: string
  in_Text :: string

definition decode_inbound :: "(string \<times> json) list \<Rightarrow> InboundMessage option" where
  "decode_inbound m = do {
     platform \<leftarrow> dec_str m ''platform''; user_id \<leftarrow> dec_str m ''user_id''; username \<leftarrow> dec_str m ''username''; text \<leftarrow> dec_str m ''text'';
     Some \<lparr>in_Platform = platform, in_UserID = user_id, in_Username = username, in_Text = text\<rparr> }"

definition decode_struct :: "((string \<times> json) list \<Rightarrow> 'a option) \<Rightarrow> string + json \<Rightarrow> 'a option" where
  "decode_struct dec r = (case r of Inl e \<Rightarrow> None | Inr j \<Rightarrow> decode_object dec j)"

definition webhook_authorized :: "Adapter \<Rightarrow> HttpRequest \<Rightarrow> bool" where
  "webhook_authorized ad r =
     (let token = trim_space (rq_Header r ''X-Gateway-Token'') in token \<noteq> [] \<and> token = gw_Token (gw_config ad))"

definition HandleGenericWebhook :: "Env \<Rightarrow> GwEnv \<Rightarrow> Adapter \<Rightarrow> HttpRequest \<Rightarrow> GwState \<Rightarrow> HttpReply \<times> GwState" where
  "HandleGenericWebhook env ge ad r s =
     (if rq_Method r \<noteq> ''POST'' then (http_error ''method not allowed'' 405, s)
      else if \<not> webhook_authorized ad r then (http_error ''invalid gateway token'' 401, s)
      else (case Option.bind (rq_Body r) (\<lambda>body. decode_struct decode_inbound (ge_decode_first ge body)) of
              None \<Rightarrow> (http_error ''invalid json'' 400, s)
            | Some input \<Rightarrow>
                (let platform = (if trim_space (in_Platform input) = [] then ''webhook'' else in_Platform input);
                     username = (if trim_space (in_Username input) = [] then trim_space (in_UserID input) else in_Username input)
                 in if trim_space username = [] \<or> trim_space (in_Text input) = []
                    then (http_error ''username/user_id and text are required'' 400, s)
                    else (case on_world (routeMessage env ge ad username (in_Text input)) s of
                            (Inl e, s) \<Rightarrow> (http_error e 502, s)
                          | (Inr response, s) \<Rightarrow>
                              (writeJSON 200 [(''platform'', JStr platform), (''user'', JStr username), (''reply'', JStr response)],
                               audit_at env username ''gateway_webhook_message'' (''platform='' @ platform) s)))))"

section \<open>Telegram\<close>

record telegramMessage =
  tm_MessageID :: int
  tm_Text :: string
  tm_ChatID :: int
  tm_FromID :: int
  tm_FromUsername :: string

record telegramUpdate =
  tu_UpdateID :: int
  tu_Message :: "telegramMessage option"

definition decode_message :: "(string \<times> json) list \<Rightarrow> telegramMessage option" where
  "decode_message m = do {
     message_id \<leftarrow> dec_int m ''message_id''; text \<leftarrow> dec_str m ''text''; chat \<leftarrow> dec_obj m ''chat''; chat_id \<leftarrow> dec_int chat ''id'';
     from1 \<leftarrow> dec_obj m ''from''; from_id \<leftarrow> dec_int from1 ''id''; username \<leftarrow> dec_str from1 ''username'';
     Some \<lparr>tm_MessageID = message_id, tm_Text = text, tm_ChatID = chat_id, tm_FromID = from_id, tm_FromUsername = username\<rparr> }"

definition decode_update :: "(string \<times> json) list \<Rightarrow> telegramUpdate option" where
  "decode_update m = do {
     update_id \<leftarrow> dec_int m ''update_id''; message \<leftarrow> dec_opt decode_message m ''message'';
     Some \<lparr>tu_UpdateID = update_id, tu_Message = message\<rparr> }"

definition telegram_request :: "Adapter \<Rightarrow> string \<Rightarrow> int \<Rightarrow> string \<Rightarrow> Outgoing" where
  "telegram_request ad token chatID text =
     \<lparr>out_URL = ''https://api.telegram.org/bot'' @ token @ ''/sendMessage'', out_Bearer = [],
      out_Body = JObj [(''chat_id'', JInt chatID), (''text'', JStr text)]\<rparr>"

definition post :: "GwEnv \<Rightarrow> Outgoing \<Rightarrow> GwState \<Rightarrow> (string + Posted) \<times> GwState" where
  "post ge rq s = (ge_post ge (gs_sent s) rq, s\<lparr>gs_sent := gs_sent s @ [rq]\<rparr>)"

text \<open>The attempts left, the first of them excepted; the pauses between them do nothing here.\<close>

fun telegram_attempts :: "GwEnv \<Rightarrow> Outgoing \<Rightarrow> nat \<Rightarrow> GwState \<Rightarrow> unit gw_result" where
  "telegram_attempts ge rq n s =
     (case post ge rq s of
        (answer, s) \<Rightarrow>
          (let err = (case answer of
                 Inl e \<Rightarrow> Some e
               | Inr p \<Rightarrow> if po_Code p < 300 then None
                          else Some (''telegram sendMessage failed with status '' @ po_Status p @ '': '' @ trim_space (po_Body p)))
           in case err of
                None \<Rightarrow> (Inr (), s)
              | Some e \<Rightarrow> (case n of 0 \<Rightarrow> (Inl e, s) | Suc m \<Rightarrow> telegram_attempts ge rq m s)))"

declare telegram_attempts.simps [simp del]

definition telegram_send :: "GwEnv \<Rightarrow> Adapter \<Rightarrow> int \<Rightarrow> string \<Rightarrow> GwState \<Rightarrow> unit gw_result" where
  "telegram_send ge ad chatID text s =
     (let name = tg_BotTokenEnv (gw_Telegram (gw_config ad)); token = trim_space (ge_getenv ge name);
          rq = telegram_request ad token chatID text
      in if token = [] then (Inl (''missing telegram bot token env '' @ go_quote name), s)
         else (case ge_url_error ge (out_URL rq) of
                 Some e \<Rightarrow> (Inl e, s) | None \<Rightarrow> telegram_attempts ge rq 2 s))"

definition telegram_id :: "telegramUpdate \<Rightarrow> telegramMessage \<Rightarrow> string" where
  "telegram_id u m =
     (if show_int (tu_UpdateID u) = ''0'' then show_int (tm_ChatID m) @ '':'' @ show_int (tm_MessageID m)
      else show_int (tu_UpdateID u))"

definition telegram_principal :: "telegramMessage \<Rightarrow> string" where
  "telegram_principal m = ''telegram:chat:'' @ show_int (tm_ChatID m) @ '':user:'' @ show_int (tm_FromID m)"

definition telegram_authorized :: "Adapter \<Rightarrow> HttpRequest \<Rightarrow> bool" where
  "telegram_authorized ad r =
     (trim_space (rq_Header r ''X-Telegram-Bot-Api-Secret-Token'') = tg_Secret (gw_Telegram (gw_config ad)))"

definition mark_update :: "string \<Rightarrow> string \<Rightarrow> GwState \<Rightarrow> bool gw_result" where
  "mark_update provider i s = on_world (\<lambda>w. on_store (MarkGatewayUpdateProcessed (w_now w) provider i) w) s"

definition answer_telegram :: "Env \<Rightarrow> GwEnv \<Rightarrow> Adapter \<Rightarrow> telegramUpdate \<Rightarrow> telegramMessage \<Rightarrow> GwState \<Rightarrow> HttpReply \<times> GwState" where
  "answer_telegram env ge ad u m s =
     (let display = (if trim_space (tm_FromUsername m) = [] then ''telegram:'' @ show_int (tm_FromID m) else tm_FromUsername m);
          principal = telegram_principal m
      in case bind_res (on_world (routeMessage env ge ad principal (tm_Text m)) s) (telegram_send ge ad (tm_ChatID m)) of
           (Inl e, s) \<Rightarrow> (http_error e 502, s)
         | (Inr _, s) \<Rightarrow>
             (ok_json [], audit_at env principal ''gateway_telegram_message''
                (''display='' @ display @ '' chat_id='' @ show_int (tm_ChatID m) @ '' update_id='' @ telegram_id u m) s))"

definition HandleTelegramWebhook :: "Env \<Rightarrow> GwEnv \<Rightarrow> Adapter \<Rightarrow> HttpRequest \<Rightarrow> GwState \<Rightarrow> HttpReply \<times> GwState" where
  "HandleTelegramWebhook env ge ad r s =
     (if \<not> tg_Enabled (gw_Telegram (gw_config ad)) then (http_error ''telegram gateway disabled'' 404, s)
      else if rq_Method r \<noteq> ''POST'' then (http_error ''method not allowed'' 405, s)
      else if \<not> telegram_authorized ad r then (http_error ''invalid telegram secret'' 401, s)
      else (case Option.bind (rq_Body r) (\<lambda>body. decode_struct decode_update (ge_decode_first ge body)) of
              None \<Rightarrow> (http_error ''invalid json'' 400, s)
            | Some u \<Rightarrow>
                (case tu_Message u of
                   None \<Rightarrow> (ignored, s)
                 | Some m \<Rightarrow>
                     if trim_space (tm_Text m) = [] then (ignored, s)
                     else (case mark_update ''telegram'' (telegram_id u m) s of
                             (Inl e, s) \<Rightarrow> (http_error e 500, s)
                           | (Inr False, s) \<Rightarrow> (duplicate, s)
                           | (Inr True, s) \<Rightarrow> answer_telegram env ge ad u m s))))"

end
