(* ===== verification/SlackWeixin.thy ===== *)
theory SlackWeixin
  imports Gateway
begin

text \<open>
  \<^verbatim>\<open>internal/gateway\<close>, second part: Slack commands and events, Weixin messages, and the table of routes.
\<close>

section \<open>Slack\<close>

record slackEvent =
  se_Type :: string
  se_Subtype :: string
  se_Text :: string
  se_User :: string
  se_Channel :: string
  se_ThreadTS :: string
  se_TS :: string
  se_BotID :: string

record slackEventEnvelope =
  sv_Type :: string
  sv_Challenge :: string
  sv_EventID :: string
  sv_EventTime :: int
  sv_Event :: "slackEvent option"

definition decode_event :: "(string \<times> json) list \<Rightarrow> slackEvent option" where
  "decode_event m = do {
     type1 \<leftarrow> dec_str m ''type''; subtype \<leftarrow> dec_str m ''subtype''; text \<leftarrow> dec_str m ''text''; user \<leftarrow> dec_str m ''user'';
     channel \<leftarrow> dec_str m ''channel''; thread_ts \<leftarrow> dec_str m ''thread_ts''; ts \<leftarrow> dec_str m ''ts''; bot_id \<leftarrow> dec_str m ''bot_id'';
     Some \<lparr>se_Type = type1, se_Subtype = subtype, se_Text = text, se_User = user, se_Channel = channel,
       se_ThreadTS = thread_ts, se_TS = ts, se_BotID = bot_id\<rparr> }"

definition decode_envelope :: "(string \<times> json) list \<Rightarrow> slackEventEnvelope option" where
  "decode_envelope m = do {
     type1 \<leftarrow> dec_str m ''type''; challenge \<leftarrow> dec_str m ''challenge''; event_id \<leftarrow> dec_str m ''event_id'';
     event_time \<leftarrow> dec_int m ''event_time''; event \<leftarrow> dec_opt decode_event m ''event'';
     Some \<lparr>sv_Type = type1, sv_Challenge = challenge, sv_EventID = event_id, sv_EventTime = event_time, sv_Event = event\<rparr> }"

definition slack_base :: "string \<Rightarrow> string \<Rightarrow> string" where
  "slack_base timestamp body = ''v0:'' @ timestamp @ '':'' @ body"

definition slack_verify :: "GwEnv \<Rightarrow> Adapter \<Rightarrow> HttpRequest \<Rightarrow> string \<Rightarrow> time \<Rightarrow> bool" where
  "slack_verify ge ad r body now =
     (let secret = trim_space (ge_getenv ge (sl_SigningSecretEnv (gw_Slack (gw_config ad))));
          timestamp = trim_space (rq_Header r ''X-Slack-Request-Timestamp'');
          signature = trim_space (rq_Header r ''X-Slack-Signature'')
      in if secret = [] then False
         else if timestamp = [] \<or> signature = [] then False
         else (case parse_int64 timestamp of
                 None \<Rightarrow> False
               | Some sec \<Rightarrow>
                   (let delta = now - sec * nanos_per_second in
                    if 5 * nanos_per_minute < delta \<or> delta < - (5 * nanos_per_minute) then False
                    else ''v0='' @ ge_hmac ge secret (slack_base timestamp body) = signature)))"

definition normalizeSlackText :: "string \<Rightarrow> string" where
  "normalizeSlackText text0 =
     (let text = trim_space text0 in
      if text = [] then []
      else (case Prelude.fields text of
              [] \<Rightarrow> text
            | f # fs \<Rightarrow> if has_prefix ''<@'' f \<and> has_suffix ''>'' f then trim_space (join '' '' fs) else text))"

definition slack_request :: "string \<Rightarrow> string \<Rightarrow> string \<Rightarrow> string \<Rightarrow> Outgoing" where
  "slack_request token channelID threadTS text =
     \<lparr>out_URL = ''https://slack.com/api/chat.postMessage'', out_Bearer = token,
      out_Body = JObj ([(''channel'', JStr channelID), (''text'', JStr text)]
        @ (if trim_space threadTS \<noteq> [] then [(''thread_ts'', JStr threadTS)] else []))\<rparr>"

definition slack_answer :: "Env \<Rightarrow> Posted \<Rightarrow> string + unit" where
  "slack_answer env p =
     (case po_ReadError p of
        Some e \<Rightarrow> Inl e
      | None \<Rightarrow>
          if po_Code p < 200 \<or> 300 \<le> po_Code p
          then Inl (''slack chat.postMessage failed with status '' @ po_Status p @ '': '' @ trim_space (po_Body p))
          else (case env_unmarshal env (po_Body p) of
                  Inl e \<Rightarrow> Inl e
                | Inr j \<Rightarrow>
                    (case decode_object (\<lambda>m. do { k \<leftarrow> dec_bool m ''ok''; e \<leftarrow> dec_str m ''error''; Some (k, e) }) j of
                       None \<Rightarrow> Inl ''json: cannot unmarshal the answer''
                     | Some (k, e) \<Rightarrow>
                         if \<not> k then Inl (''slack chat.postMessage error: '' @ firstNonEmpty [e, ''unknown_error'']) else Inr ())))"

definition slack_send :: "Env \<Rightarrow> GwEnv \<Rightarrow> Adapter \<Rightarrow> string \<Rightarrow> string \<Rightarrow> string \<Rightarrow> GwState \<Rightarrow> unit gw_result" where
  "slack_send env ge ad channelID threadTS text s =
     (let name = sl_BotTokenEnv (gw_Slack (gw_config ad)); token = trim_space (ge_getenv ge name) in
      if token = [] then (Inl (''missing slack bot token env '' @ go_quote name), s)
      else bind_res (post ge (slack_request token channelID threadTS text) s) (\<lambda>p s. (slack_answer env p, s)))"

text \<open>Both Slack routes begin alike.\<close>

definition slack_body :: "GwEnv \<Rightarrow> Adapter \<Rightarrow> HttpRequest \<Rightarrow> GwState \<Rightarrow> HttpReply + string" where
  "slack_body ge ad r s =
     (if \<not> sl_Enabled (gw_Slack (gw_config ad)) then Inl (http_error ''slack gateway disabled'' 404)
      else if rq_Method r \<noteq> ''POST'' then Inl (http_error ''method not allowed'' 405)
      else (case rq_Body r of
              None \<Rightarrow> Inl (http_error ''read body failed'' 400)
            | Some body \<Rightarrow>
                if \<not> slack_verify ge ad r body (w_now (gs_world s)) then Inl (http_error ''invalid slack signature'' 401)
                else Inr body))"

definition slack_command_principal :: "string \<Rightarrow> string \<Rightarrow> string" where
  "slack_command_principal channelID userID =
     (if channelID = [] then ''slack:user:'' @ userID else ''slack:channel:'' @ channelID @ '':user:'' @ userID)"

definition HandleSlackCommand :: "Env \<Rightarrow> GwEnv \<Rightarrow> Adapter \<Rightarrow> HttpRequest \<Rightarrow> GwState \<Rightarrow> HttpReply \<times> GwState" where
  "HandleSlackCommand env ge ad r s =
     (case slack_body ge ad r s of
        Inl reply \<Rightarrow> (reply, s)
      | Inr body \<Rightarrow>
          (case ge_form ge body of
             None \<Rightarrow> (http_error ''invalid form body'' 400, s)
           | Some form \<Rightarrow>
               (let text = trim_space (form ''text''); channelID = trim_space (form ''channel_id''); userID = trim_space (form ''user_id'');
                    user_name = trim_space (form ''user_name''); username = (if user_name = [] then userID else user_name);
                    principal = slack_command_principal channelID userID
                in if username = [] \<or> text = [] then (http_error ''user_name/user_id and text are required'' 400, s)
                   else (case on_world (routeMessage env ge ad principal text) s of
                           (Inl e, s) \<Rightarrow> (http_error e 502, s)
                         | (Inr response, s) \<Rightarrow>
                             (writeJSON 200 [(''response_type'', JStr ''ephemeral''), (''text'', JStr response)],
                              audit_at env principal ''gateway_slack_command''
                                (''display='' @ username @ '' channel_id='' @ channelID) s)))))"

definition slack_id :: "slackEventEnvelope \<Rightarrow> slackEvent \<Rightarrow> string" where
  "slack_id v e = (if trim_space (sv_EventID v) = [] then trim_space (se_TS e) else trim_space (sv_EventID v))"

definition answer_slack :: "Env \<Rightarrow> GwEnv \<Rightarrow> Adapter \<Rightarrow> slackEventEnvelope \<Rightarrow> slackEvent \<Rightarrow> GwState \<Rightarrow> HttpReply \<times> GwState" where
  "answer_slack env ge ad v e s =
     (let userID = trim_space (se_User e); channelID = trim_space (se_Channel e); text = normalizeSlackText (se_Text e);
          principal = ''slack:channel:'' @ channelID @ '':user:'' @ userID
      in if userID = [] \<or> channelID = [] \<or> text = [] then (ignored, s)
         else (case bind_res (on_world (routeMessage env ge ad principal text) s)
                      (slack_send env ge ad channelID (firstNonEmpty [se_ThreadTS e, se_TS e])) of
                 (Inl x, s) \<Rightarrow> (http_error x 502, s)
               | (Inr _, s) \<Rightarrow>
                   (ok_json [], audit_at env principal ''gateway_slack_event''
                      (''channel_id='' @ channelID @ '' event_id='' @ slack_id v e) s)))"

definition HandleSlackEvents :: "Env \<Rightarrow> GwEnv \<Rightarrow> Adapter \<Rightarrow> HttpRequest \<Rightarrow> GwState \<Rightarrow> HttpReply \<times> GwState" where
  "HandleSlackEvents env ge ad r s =
     (case slack_body ge ad r s of
        Inl reply \<Rightarrow> (reply, s)
      | Inr body \<Rightarrow>
          (case decode_struct decode_envelope (env_unmarshal env body) of
             None \<Rightarrow> (http_error ''invalid json'' 400, s)
           | Some v \<Rightarrow>
               if sv_Type v = ''url_verification'' then (writeJSON 200 [(''challenge'', JStr (sv_Challenge v))], s)
               else if sv_Type v \<noteq> ''event_callback'' then (ignored, s)
               else (case sv_Event v of
                       None \<Rightarrow> (ignored, s)
                     | Some e \<Rightarrow>
                         if se_BotID e \<noteq> [] \<or> trim_space (se_Subtype e) = ''bot_message'' then (ignored, s)
                         else if slack_id v e = [] then answer_slack env ge ad v e s
                         else (case mark_update ''slack'' (slack_id v e) s of
                                 (Inl x, s) \<Rightarrow> (http_error x 500, s)
                               | (Inr False, s) \<Rightarrow> (duplicate, s)
                               | (Inr True, s) \<Rightarrow> answer_slack env ge ad v e s))))"

section \<open>Weixin\<close>

definition weixin_verify :: "GwEnv \<Rightarrow> Adapter \<Rightarrow> HttpRequest \<Rightarrow> bool" where
  "weixin_verify ge ad r =
     (let token = trim_space (wx_Token (gw_Weixin (gw_config ad))); timestamp = trim_space (rq_Query r ''timestamp'');
          nonce = trim_space (rq_Query r ''nonce''); signature = trim_space (rq_Query r ''signature'')
      in if token = [] \<or> timestamp = [] \<or> nonce = [] \<or> signature = [] then False
         else to_lower signature = to_lower (ge_sha1 ge (join [] (sort [token, timestamp, nonce]))))"

text \<open>\<^verbatim>\<open>xml.EscapeText\<close> on valid text.\<close>

definition xml_escape_char :: "char \<Rightarrow> string" where
  "xml_escape_char c =
     (if c = CHR 0x22 then ''&#34;'' else if c = CHR 0x27 then ''&#39;'' else if c = CHR 0x26 then ''&amp;''
      else if c = CHR 0x3C then ''&lt;'' else if c = CHR 0x3E then ''&gt;'' else if c = CHR 0x09 then ''&#x9;''
      else if c = CHR 0x0A then ''&#xA;'' else if c = CHR 0x0D then ''&#xD;''
      else if c < CHR 0x20 then [CHR 0xEF, CHR 0xBF, CHR 0xBD] else [c])"

definition xml_escape :: "string \<Rightarrow> string" where "xml_escape s = concat (map xml_escape_char s)"

definition cdata :: "string \<Rightarrow> string \<Rightarrow> string" where
  "cdata tag text = ''<'' @ tag @ ''><![CDATA['' @ text @ '']]></'' @ tag @ ''>''"

definition renderWeixinTextReply :: "string \<Rightarrow> string \<Rightarrow> string \<Rightarrow> time \<Rightarrow> string" where
  "renderWeixinTextReply toUser fromUser content now =
     ''<xml>'' @ cdata ''ToUserName'' toUser @ cdata ''FromUserName'' fromUser
     @ ''<CreateTime>'' @ show_int (to_stamp now) @ ''</CreateTime>'' @ cdata ''MsgType'' ''text''
     @ cdata ''Content'' (xml_escape content) @ ''</xml>''"

definition weixin_principal :: "WeixinMessage \<Rightarrow> string" where
  "weixin_principal m = ''weixin:'' @ trim_space (wm_FromUserName m)"

definition weixin_id :: "WeixinMessage \<Rightarrow> time \<Rightarrow> string" where
  "weixin_id m now =
     (if show_int (wm_MsgID m) = ''0'' then weixin_principal m @ ''-'' @ show_int now else show_int (wm_MsgID m))"

definition HandleWeixinWebhook :: "Env \<Rightarrow> GwEnv \<Rightarrow> Adapter \<Rightarrow> HttpRequest \<Rightarrow> GwState \<Rightarrow> HttpReply \<times> GwState" where
  "HandleWeixinWebhook env ge ad r s =
     (if \<not> wx_Enabled (gw_Weixin (gw_config ad)) then (http_error ''weixin gateway disabled'' 404, s)
      else if \<not> weixin_verify ge ad r then (http_error ''invalid weixin signature'' 401, s)
      else if rq_Method r = ''GET'' then (plain (rq_Query r ''echostr''), s)
      else if rq_Method r \<noteq> ''POST'' then (http_error ''method not allowed'' 405, s)
      else (case rq_Body r of
              None \<Rightarrow> (http_error ''read body failed'' 400, s)
            | Some body \<Rightarrow>
                (case ge_xml ge body of
                   None \<Rightarrow> (http_error ''invalid xml'' 400, s)
                 | Some m \<Rightarrow>
                     if to_lower (trim_space (wm_MsgType m)) \<noteq> ''text'' \<or> trim_space (wm_Content m) = []
                     then (plain ''success'', s)
                     else (case on_world (routeMessage env ge ad (weixin_principal m) (trim_space (wm_Content m))) s of
                             (Inl e, s) \<Rightarrow> (http_error e 502, s)
                           | (Inr response, s) \<Rightarrow>
                               (let i = weixin_id m (w_now (gs_world s)) in
                                case mark_update ''weixin'' i s of
                                  (Inl e, s) \<Rightarrow> (http_error e 500, s)
                                | (Inr False, s) \<Rightarrow> (plain ''success'', s)
                                | (Inr True, s) \<Rightarrow>
                                    (\<lparr>rp_Code = 200, rp_Type = ''application/xml; charset=utf-8'',
                                      rp_Body = Text (renderWeixinTextReply (wm_FromUserName m) (wm_ToUserName m) response
                                        (w_now (gs_world s)))\<rparr>,
                                     audit_at env (weixin_principal m) ''gateway_weixin_message''
                                       (''from='' @ wm_FromUserName m @ '' msg_id='' @ i) s))))))"

section \<open>Routes\<close>

type_synonym gw_handler = "HttpRequest \<Rightarrow> GwState \<Rightarrow> HttpReply \<times> GwState"

datatype platform = Webhook | Telegram | Slack | Weixin

fun platform_name :: "platform \<Rightarrow> string" where
  "platform_name Webhook = ''webhook''"
| "platform_name Telegram = ''telegram''"
| "platform_name Slack = ''slack''"
| "platform_name Weixin = ''weixin''"

fun platform_routes :: "Env \<Rightarrow> GwEnv \<Rightarrow> Adapter \<Rightarrow> platform \<Rightarrow> (string \<times> gw_handler) list" where
  "platform_routes env ge ad Webhook = [(''/gateway/webhook'', HandleGenericWebhook env ge ad)]"
| "platform_routes env ge ad Telegram = [(''/gateway/telegram/webhook'', HandleTelegramWebhook env ge ad)]"
| "platform_routes env ge ad Slack =
     [(''/gateway/slack/command'', HandleSlackCommand env ge ad), (''/gateway/slack/events'', HandleSlackEvents env ge ad)]"
| "platform_routes env ge ad Weixin = [(''/gateway/weixin/webhook'', HandleWeixinWebhook env ge ad)]"

definition BuiltInAdapters :: "platform list" where
  "BuiltInAdapters = [Webhook, Telegram, Slack, Weixin]"

text \<open>\<^verbatim>\<open>ServeMux.HandleFunc\<close> panics on a path that is taken.\<close>

fun register_routes :: "(string \<times> gw_handler) list \<Rightarrow> (string, gw_handler) gomap \<Rightarrow> (string, gw_handler) gomap option" where
  "register_routes [] mux = Some mux"
| "register_routes ((p, h) # rs) mux = (if get mux p \<noteq> None then None else register_routes rs (put p h mux))"

definition RegisterPlatformRoutes :: "Env \<Rightarrow> GwEnv \<Rightarrow> Adapter \<Rightarrow> platform list \<Rightarrow> (string, gw_handler) gomap \<Rightarrow> (string, gw_handler) gomap option" where
  "RegisterPlatformRoutes env ge ad ps mux = register_routes (concat (map (platform_routes env ge ad) ps)) mux"

end
