(* ===== verification/GatewayProps.thy ===== *)
theory GatewayProps
  imports SlackWeixin ChatProps ChildProps
begin

text \<open>
  What the gateways promise: Telegram and Slack answer an update at most once, however often it is
  delivered, and a request without the credentials of its platform changes nothing.
\<close>

section \<open>Marks survive the answers\<close>

definition processed :: "World \<Rightarrow> GatewayUpdate list" where
  "processed w = processed_gateway_updates (w_store w)"

lemma exec_processed:
  "(\<And>d. processed_gateway_updates (f d) = processed_gateway_updates d) \<Longrightarrow>
   processed_gateway_updates (snd (exec f d)) = processed_gateway_updates d"
  unfolding exec_def by (rule stmt_obs) simp_all

lemma query_processed: "processed_gateway_updates (snd (query f d)) = processed_gateway_updates d"
  unfolding query_def by (rule stmt_obs) simp_all

lemma insert_processed:
  "processed_gateway_updates (snd (WriteAudit now u ac t d)) = processed_gateway_updates d"
  "processed_gateway_updates (snd (AddMessage now sid role c d)) = processed_gateway_updates d"
  "processed_gateway_updates (snd (UpdateSessionResponse sid r d)) = processed_gateway_updates d"
  "processed_gateway_updates (snd (InsertMultiAgentTrace now tr d)) = processed_gateway_updates d"
  unfolding WriteAudit_def AddMessage_def UpdateSessionResponse_def update_session_def InsertMultiAgentTrace_def
  by (rule exec_processed; simp add: Let_def messages_ai_def)+

lemma create_processed:
  "processed_gateway_updates (snd (CreateSessionWithOptions now u m p r opts d)) = processed_gateway_updates d"
  unfolding CreateSessionWithOptions_def by (rule stmt_obs) (simp_all add: Let_def)

lemma read_processed:
  "processed_gateway_updates (snd (ListSessions u l d)) = processed_gateway_updates d"
  "processed_gateway_updates (snd (ListRecentMessagesBySession sid l d)) = processed_gateway_updates d"
  "processed_gateway_updates (snd (SearchMessages fts snip q d)) = processed_gateway_updates d"
  by (simp_all add: ListSessions_def ListSessionsPage_def ListRecentMessagesBySession_def query_processed)
     (auto simp: SearchMessages_def Let_def intro!: stmt_obs split: option.split)

interpretation marked: observed processed
  by unfold_locales (simp_all add: processed_def insert_processed create_processed read_processed)


lemma create_session_processed: "same processed w (on_store (CreateSession (w_now w') u m p r) w)"
  unfolding CreateSession_def by (rule marked.basic(6))

lemma chat_processed: "same processed w (chatDetailed env a u sid prompt reuse w)"
proof (cases rule: chatDetailed_split [of env a u sid prompt reuse w])
  case (1 e w')
  then show ?thesis by (simp add: same_def processed_def world_frame_def chat_frame_def)
next
  case (2 plan response w1)
  have g: "same processed v (on_store (GetSession sid) v)" for v
    using read_frames(4) [of "w_store v" sid] by (simp add: same_def processed_def on_store_snd chat_frame_def)
  have t: "same processed w1 (chat_target a u sid prompt reuse response w1)"
  proof (cases reuse)
    case True
    have "same processed w1 (bind_res (on_store (GetSession sid) w1)
             (\<lambda>s w. if sess_user s \<noteq> u then (Inl (''session '' @ show_int sid @ '' does not belong to '' @ u), w)
                    else bind_res (on_store (UpdateSessionResponse sid response) w) (\<lambda>_ w. (Inr sid, w))))"
      by (intro same_bind g) (auto intro!: same_bind marked.basic(7) simp: same_pair)
    then show ?thesis by (simp add: chat_target_def True)
  qed (simp add: chat_target_def create_session_processed)
  have r: "same processed v (record_turn a u target prompt response v)" for target v
    unfolding record_turn_def by (intro same_bind marked.basic)
  have "same processed w1 (chatDetailed env a u sid prompt reuse w)"
    unfolding 2(2) by (intro same_bind t r) (simp add: same_def marked.basic [unfolded same_def])
  moreover have "processed w1 = processed w" using 2(1) by (simp add: processed_def world_frame_def chat_frame_def)
  ultimately show ?thesis by (simp add: same_def)
qed

lemma sequential_same:
  assumes "\<And>t w. same obs w (runner t w)"
  shows "same obs w (run_sequential runner cancelled ts acc w)"
proof (induction ts arbitrary: acc w)
  case (Cons t ts)
  obtain r w' where "runner t w = (r, w')" by fastforce
  then show ?case using assms [of w t] Cons.IH [of w' "acc @ [r]"] by (simp add: same_def)
qed (simp add: same_def)

lemma run_plan_same:
  assumes "\<And>t w. same obs w (runner t w)" "plan_Mode plan \<noteq> TaskModeParallel"
  shows "same obs w (RunPlan p runner cancelled schedule plan w)"
  using sequential_same [of obs runner w cancelled "plan_Tasks plan" "[]", OF assms(1)] assms(2)
  by (auto simp: RunPlan_def same_def split: option.split prod.split)

lemma child_processed: "same processed w (runMultiAgentChildTask env (builtin_app env' c mem runner a) u parent t w)"
  using marked.child_task [where Q = "\<lambda>n x. x = processed w", of w no_seed env env' c mem runner a u parent t "[]"]
  by (simp add: same_def runMultiAgentChildTask_def processed_def)


lemma open_parent_processed: "same processed w (open_parent a u plan w)"
  unfolding open_parent_def
  by (auto intro!: same_bind marked.basic marked.message_same simp: same_pair)

lemma run_multi_processed:
  assumes "plan_Mode plan \<noteq> TaskModeParallel"
  shows "same processed w (RunMultiAgentPlan env (builtin_app env' c mem runner a) cancelled schedule u plan w)"
proof -
  define b where "b = builtin_app env' c mem runner a"
  obtain r w1 where o1: "open_parent b u plan w = (r, w1)" by fastforce
  have p1: "processed w1 = processed w" using open_parent_processed [of w b u plan] o1 by (simp add: same_def)
  show ?thesis
  proof (cases r)
    case (Inr parent)
    obtain x w2 where x: "RunPlan (app_MultiAgent b) (\<lambda>t. runMultiAgentChildTask env b u parent t) cancelled schedule plan w1 = (x, w2)"
      by fastforce
    have p2: "processed w2 = processed w1"
      using run_plan_same [where runner = "\<lambda>t. runMultiAgentChildTask env b u parent t" and obs = processed and plan = plan
          and w = w1 and p = "app_MultiAgent b" and cancelled = cancelled and schedule = schedule] x child_processed assms
      by (simp add: same_def b_def)
    show ?thesis
    proof (cases x)
      case (RunDone rs g0)
      obtain q w3 where q: "child_message parent ''assistant'' (summarizeMultiAgentAggregate (plan_Objective plan)
          (g0\<lparr>agg_ParentSessionID := parent\<rparr>)) w2 = (q, w3)" by fastforce
      have "processed w3 = processed w2" using marked.message_same q by (metis same_def snd_conv)
      then show ?thesis
        using o1 Inr x RunDone q p1 p2 marked.basic(3)
        by (cases q) (simp_all add: RunMultiAgentPlan_def b_def [symmetric] Let_def same_def)
    qed (use o1 Inr x p1 p2 in \<open>simp_all add: RunMultiAgentPlan_def b_def [symmetric] same_def\<close>)
  qed (use o1 p1 in \<open>simp add: RunMultiAgentPlan_def b_def [symmetric] same_def\<close>)
qed

lemma build_processed: "same processed w (BuildMultiAgentPlan a u objective ts w)"
proof -
  obtain plan e where "BuildPlan (app_MultiAgent a) objective ts = (plan, e)" by fastforce
  then show ?thesis
    using marked.basic(3) by (cases e) (simp_all add: BuildMultiAgentPlan_def same_def)
qed

lemma gateway_multi_processed: "same processed w (gateway_multi env ge (builtin_app env' c mem runner a) u objective w)"
proof -
  define b where "b = builtin_app env' c mem runner a"
  define o1 where "o1 = trim_space objective"
  obtain r w1 where p: "BuildMultiAgentPlan b u o1 [gateway_task o1] w = (r, w1)" by fastforce
  have w1: "processed w1 = processed w"
    using build_processed [of w b u o1 "[gateway_task o1]"] p by (simp add: same_def)
  show ?thesis
  proof (cases r)
    case (Inr plan)
    have m: "plan_Mode plan \<noteq> TaskModeParallel"
      using p Inr by (auto simp: BuildMultiAgentPlan_def BuildPlan_def canRunParallel_def Let_def
          TaskModeSequential_def TaskModeParallel_def split: option.splits)
    show ?thesis
      using run_multi_processed [OF m, of w1 env env' c mem runner a "ge_cancelled ge" "[]" u] w1 p Inr
      by (auto simp: gateway_multi_def RunGatewayMultiAgent_def o1_def [symmetric] b_def [symmetric] same_def
          split: prod.split option.split sum.split)
  qed (use p w1 in \<open>simp add: gateway_multi_def RunGatewayMultiAgent_def o1_def [symmetric] b_def [symmetric] same_def\<close>)
qed

text \<open>The adapter of an application whose tools are the built-in ones.\<close>

definition builtin_adapter :: "Env \<Rightarrow> Env \<Rightarrow> Config \<Rightarrow> FS Manager option \<Rightarrow> Executor \<Rightarrow> App \<Rightarrow> Adapter" where
  "builtin_adapter env env' c mem runner a = NewAdapter env (builtin_app env' c mem runner a)"

lemma route_processed: "same processed w (routeMessage env ge (builtin_adapter env env' c mem runner a) u text w)"
  using gateway_multi_processed
  by (auto simp: routeMessage_def builtin_adapter_def NewAdapter_def AppChat_def ChatTurn_def
      intro!: same_bind chat_processed simp: same_pair split: option.split)


section \<open>At most one answer\<close>

text \<open>The keys of the deliveries that were more than idle, in order.\<close>

fun acted_on :: "('r \<Rightarrow> 's \<Rightarrow> 'a \<times> 's) \<Rightarrow> ('r \<Rightarrow> 'k option) \<Rightarrow> ('s \<Rightarrow> 's \<Rightarrow> bool) \<Rightarrow> 'r list \<Rightarrow> 's \<Rightarrow> 'k list" where
  "acted_on handle key idle [] s = []"
| "acted_on handle key idle (r # rs) s =
     (case handle r s of
        (_, s') \<Rightarrow> (case key r of Some k \<Rightarrow> if idle s s' then [] else [k] | None \<Rightarrow> []) @ acted_on handle key idle rs s')"

locale once_only =
  fixes handle :: "'r \<Rightarrow> 's \<Rightarrow> 'a \<times> 's" and key :: "'r \<Rightarrow> 'k option" and idle :: "'s \<Rightarrow> 's \<Rightarrow> bool"
    and seen :: "'k \<Rightarrow> 's \<Rightarrow> bool"
  assumes stays: "handle r s = (x, s') \<Longrightarrow> seen k s \<Longrightarrow> seen k s'"
    and noted: "handle r s = (x, s') \<Longrightarrow> key r = Some k \<Longrightarrow> \<not> idle s s' \<Longrightarrow> \<not> seen k s \<and> seen k s'"
begin

lemma at_most_once:
  "distinct (acted_on handle key idle rs s) \<and> (\<forall>k\<in>set (acted_on handle key idle rs s). \<not> seen k s)"
proof (induction rs arbitrary: s)
  case (Cons r rs)
  obtain x s' where h: "handle r s = (x, s')" by fastforce
  note st = stays [OF h] and nt = noted [OF h]
  show ?case using Cons.IH [of s'] h st nt by (cases "key r") auto
qed simp

end

text \<open>What a delivery without effect leaves: nothing sent, and every table and file as it was.\<close>

definition idle :: "GwState \<Rightarrow> GwState \<Rightarrow> bool" where
  "idle s s' \<longleftrightarrow> gs_sent s' = gs_sent s
     \<and> gs_world s' = (gs_world s)\<lparr>w_store := w_store (gs_world s')\<rparr>
     \<and> tables (w_store (gs_world s')) = tables (w_store (gs_world s))"

definition seen_by :: "string \<Rightarrow> string \<Rightarrow> GwState \<Rightarrow> bool" where
  "seen_by provider i s = update_seen provider i (w_store (gs_world s))"

lemma seen_by_processed:
  "processed (gs_world s') = processed (gs_world s) \<Longrightarrow> seen_by p i s' = seen_by p i s"
  by (simp add: seen_by_def update_seen_def processed_def)

lemma idle_refl [simp]: "idle s s"
  by (simp add: idle_def)

lemma mark_update_cases:
  obtains e s' where "mark_update p i s = (Inl e, s')" "idle s s'" "\<And>j. seen_by p j s' = seen_by p j s"
  | s' where "mark_update p i s = (Inr False, s')" "idle s s'" "\<And>j. seen_by p j s' = seen_by p j s"
  | s' where "mark_update p i s = (Inr True, s')" "\<not> seen_by p i s" "\<And>j. seen_by p j s' = (j = i \<or> seen_by p j s)"
proof -
  define f where "f = (\<lambda>d. if update_seen p i d then (Inr False, d)
       else (Inr True, d\<lparr>processed_gateway_updates := processed_gateway_updates d @
              [\<lparr>gu_provider = p, gu_external = i, gu_created = to_stamp (w_now (gs_world s))\<rparr>]\<rparr>) :: (db_error + bool) \<times> Store)"
  have m: "MarkGatewayUpdateProcessed (w_now (gs_world s)) p i = stmt f"
    by (simp add: MarkGatewayUpdateProcessed_def f_def)
  note d = mark_update_def on_world_def on_store_def m idle_def seen_by_def update_seen_def
  obtain r s' where r: "mark_update p i s = (r, s')" by fastforce
  show thesis
  proof (cases rule: stmt_cases [of f "w_store (gs_world s)"])
    case (1 e fs)
    then have "\<exists>e. r = Inl e" "idle s s'" "\<And>j. seen_by p j s' = seen_by p j s" using r by (auto simp: d)
    with that(1) r show thesis by blast
  next
    case (2 fs)
    show thesis
    proof (cases "update_seen p i (w_store (gs_world s))")
      case True
      then have "r = Inr False" "idle s s'" "\<And>j. seen_by p j s' = seen_by p j s" using 2 r by (auto simp: d f_def)
      with that(2) r show thesis by blast
    next
      case False
      then have "r = Inr True" "\<not> seen_by p i s" "\<And>j. seen_by p j s' = (j = i \<or> seen_by p j s)"
        using 2 r by (auto simp: d f_def)
      with that(3) r show thesis by blast
    qed
  qed
qed

lemma audit_at_processed: "processed (gs_world (audit_at env u ac t s)) = processed (gs_world s)"
  using marked.basic(3) by (simp add: audit_at_def on_world_def same_def split_beta)

lemma route_on_world:
  assumes "on_world (routeMessage env ge (builtin_adapter env env' c mem runner a) u tx) s = (r, s')"
  shows "processed (gs_world s') = processed (gs_world s)"
proof -
  obtain r' w' where "routeMessage env ge (builtin_adapter env env' c mem runner a) u tx (gs_world s) = (r', w')" by fastforce
  then show ?thesis
    using assms route_processed [of "gs_world s" env ge env' c mem runner a u tx] by (auto simp: on_world_def same_def)
qed

lemma attempts_world: "gs_world (snd (telegram_attempts ge rq n s)) = gs_world s"
proof (induction n arbitrary: s)
  case (Suc n)
  show ?case
    using Suc.IH by (simp add: telegram_attempts.simps [of _ _ "Suc n"] post_def Let_def split: option.split)
qed (simp add: telegram_attempts.simps [of _ _ 0] post_def Let_def split: option.split)

lemma telegram_send_world: "gs_world (snd (telegram_send ge ad chat tx s)) = gs_world s"
  by (simp add: telegram_send_def Let_def attempts_world split: option.split)

lemma slack_send_world: "gs_world (snd (slack_send env ge ad channel thread tx s)) = gs_world s"
  by (cases "ge_post ge (gs_sent s) (slack_request (trim_space (ge_getenv ge (sl_BotTokenEnv (gw_Slack (gw_config ad))))) channel thread tx)")
     (simp_all add: slack_send_def Let_def post_def)

lemma answer_telegram_processed:
  "processed (gs_world (snd (answer_telegram env ge (builtin_adapter env env' c mem runner a) u m s))) = processed (gs_world s)"
proof -
  let ?ad = "builtin_adapter env env' c mem runner a"
  obtain r s1 where 1: "on_world (routeMessage env ge ?ad (telegram_principal m) (tm_Text m)) s = (r, s1)" by fastforce
  note p1 = route_on_world [OF 1]
  show ?thesis
  proof (cases r)
    case (Inr tx)
    obtain q s2 where 2: "telegram_send ge ?ad (tm_ChatID m) tx s1 = (q, s2)" by fastforce
    have "gs_world s2 = gs_world s1" using telegram_send_world 2 by (metis snd_conv)
    then show ?thesis
      using 1 2 Inr p1 by (cases q) (simp_all add: answer_telegram_def Let_def audit_at_processed)
  qed (use 1 p1 in \<open>simp add: answer_telegram_def Let_def\<close>)
qed

lemma answer_slack_processed:
  "processed (gs_world (snd (answer_slack env ge (builtin_adapter env env' c mem runner a) v e s))) = processed (gs_world s)"
proof -
  let ?ad = "builtin_adapter env env' c mem runner a"
  let ?u = "''slack:channel:'' @ trim_space (se_Channel e) @ '':user:'' @ trim_space (se_User e)"
  obtain r s1 where 1: "on_world (routeMessage env ge ?ad ?u (normalizeSlackText (se_Text e))) s = (r, s1)" by fastforce
  note p1 = route_on_world [OF 1]
  show ?thesis
  proof (cases r)
    case (Inr tx)
    obtain q s2 where 2: "slack_send env ge ?ad (trim_space (se_Channel e)) (firstNonEmpty [se_ThreadTS e, se_TS e]) tx s1 = (q, s2)"
      by fastforce
    have "gs_world s2 = gs_world s1" using slack_send_world 2 by (metis snd_conv)
    then show ?thesis
      using 1 2 Inr p1 by (cases q) (simp_all add: answer_slack_def Let_def audit_at_processed)
  qed (use 1 p1 in \<open>simp add: answer_slack_def Let_def\<close>)
qed


definition telegram_key :: "GwEnv \<Rightarrow> HttpRequest \<Rightarrow> string option" where
  "telegram_key ge r =
     do { body \<leftarrow> rq_Body r; u \<leftarrow> decode_struct decode_update (ge_decode_first ge body); m \<leftarrow> tu_Message u; Some (telegram_id u m) }"

definition slack_key :: "Env \<Rightarrow> HttpRequest \<Rightarrow> string option" where
  "slack_key env r =
     do { body \<leftarrow> rq_Body r; v \<leftarrow> decode_struct decode_envelope (env_unmarshal env body); e \<leftarrow> sv_Event v;
          if slack_id v e = [] then None else Some (slack_id v e) }"

text \<open>A handler that marks its key before it answers, and whose answer keeps the marks, obeys the laws.\<close>

lemma marked_answer:
  assumes "processed (gs_world (snd (answer s1))) = processed (gs_world s1)" "mark_update p i s = (r, s1)"
    and "(x, s') = (case r of Inl e \<Rightarrow> (err e, s1) | Inr False \<Rightarrow> (again, s1) | Inr True \<Rightarrow> answer s1)"
  shows "seen_by p k s \<Longrightarrow> seen_by p k s'"
    and "\<not> idle s s' \<Longrightarrow> \<not> seen_by p i s \<and> seen_by p i s'"
proof -
  have a: "r = Inr True \<Longrightarrow> seen_by p j s' = seen_by p j s1" for j
  proof -
    assume "r = Inr True"
    then have "answer s1 = (x, s')" using assms(3) by simp
    with assms(1) show ?thesis by (intro seen_by_processed) simp
  qed
  show "seen_by p k s \<Longrightarrow> seen_by p k s'" "\<not> idle s s' \<Longrightarrow> \<not> seen_by p i s \<and> seen_by p i s'"
    by (cases rule: mark_update_cases [of p i s]; use a assms(2,3) in auto)+
qed

lemma telegram_shape:
  assumes "HandleTelegramWebhook env ge ad r s = (x, s')"
  shows "s' = s \<or> (\<exists>u m res s1. telegram_key ge r = Some (telegram_id u m) \<and> mark_update ''telegram'' (telegram_id u m) s = (res, s1)
    \<and> (x, s') = (case res of Inl e \<Rightarrow> (http_error e 500, s1) | Inr False \<Rightarrow> (duplicate, s1)
                 | Inr True \<Rightarrow> answer_telegram env ge ad u m s1))"
proof (cases "Option.bind (rq_Body r) (\<lambda>body. decode_struct decode_update (ge_decode_first ge body))")
  case (Some u)
  show ?thesis
  proof (cases "tu_Message u")
    case (Some m)
    obtain res s1 where m: "mark_update ''telegram'' (telegram_id u m) s = (res, s1)" by fastforce
    have k: "telegram_key ge r = Some (telegram_id u m)"
      using \<open>Option.bind _ _ = Some u\<close> Some by (auto simp: telegram_key_def split: Option.bind_splits)
    have "s' = s \<or> (x, s') = (case res of Inl e \<Rightarrow> (http_error e 500, s1) | Inr False \<Rightarrow> (duplicate, s1)
                 | Inr True \<Rightarrow> answer_telegram env ge ad u m s1)"
      using assms \<open>Option.bind _ _ = Some u\<close> Some m
      by (auto simp: HandleTelegramWebhook_def split: if_splits)
    then show ?thesis using m k by blast
  qed (use assms Some in \<open>auto simp: HandleTelegramWebhook_def split: if_splits\<close>)
qed (use assms in \<open>auto simp: HandleTelegramWebhook_def split: if_splits\<close>)


lemma slack_shape:
  assumes "HandleSlackEvents env ge ad r s = (x, s')"
  shows "s' = s \<or> (\<exists>v e. slack_key env r = None \<and> (x, s') = answer_slack env ge ad v e s)
    \<or> (\<exists>v e res s1. slack_key env r = Some (slack_id v e) \<and> mark_update ''slack'' (slack_id v e) s = (res, s1)
    \<and> (x, s') = (case res of Inl e \<Rightarrow> (http_error e 500, s1) | Inr False \<Rightarrow> (duplicate, s1)
                 | Inr True \<Rightarrow> answer_slack env ge ad v e s1))"
proof (cases "slack_body ge ad r s")
  case body: (Inr body)
  then have rb: "rq_Body r = Some body" by (auto simp: slack_body_def split: if_splits option.splits)
  show ?thesis
  proof (cases "Option.bind (decode_struct decode_envelope (env_unmarshal env body)) (\<lambda>v. Option.bind (sv_Event v) (\<lambda>e. Some (v, e)))")
    case None
    then show ?thesis
      using assms body by (auto simp: HandleSlackEvents_def split: if_splits option.splits Option.bind_splits)
  next
    case (Some ve)
    then obtain v e where v: "decode_struct decode_envelope (env_unmarshal env body) = Some v" "sv_Event v = Some e"
      by (auto split: Option.bind_splits)
    obtain res s1 where m: "mark_update ''slack'' (slack_id v e) s = (res, s1)" by fastforce
    have k: "slack_key env r = (if slack_id v e = [] then None else Some (slack_id v e))"
      using rb v by (simp add: slack_key_def)
    have "s' = s \<or> (slack_id v e = [] \<and> (x, s') = answer_slack env ge ad v e s)
      \<or> (slack_id v e \<noteq> [] \<and> (x, s') = (case res of Inl e \<Rightarrow> (http_error e 500, s1) | Inr False \<Rightarrow> (duplicate, s1)
                 | Inr True \<Rightarrow> answer_slack env ge ad v e s1))"
      using assms body v m by (auto simp: HandleSlackEvents_def split: if_splits)
    then show ?thesis using m k by (metis (no_types, lifting))
  qed
qed (use assms in \<open>auto simp: HandleSlackEvents_def\<close>)

interpretation telegram_once: once_only "HandleTelegramWebhook env ge (builtin_adapter env env' c mem runner a)"
    "telegram_key ge" idle "seen_by ''telegram''"
  for env ge env' c mem runner a
proof
  let ?ad = "builtin_adapter env env' c mem runner a"
  fix r s x s' k
  assume h: "HandleTelegramWebhook env ge ?ad r s = (x, s')"
  from telegram_shape [OF h] consider "s' = s" | u m res s1 where "telegram_key ge r = Some (telegram_id u m)"
      "mark_update ''telegram'' (telegram_id u m) s = (res, s1)"
      "(x, s') = (case res of Inl e \<Rightarrow> (http_error e 500, s1) | Inr False \<Rightarrow> (duplicate, s1)
         | Inr True \<Rightarrow> answer_telegram env ge ?ad u m s1)" by blast
  then have "(seen_by ''telegram'' k s \<longrightarrow> seen_by ''telegram'' k s')
      \<and> (telegram_key ge r = Some k \<longrightarrow> \<not> idle s s' \<longrightarrow> \<not> seen_by ''telegram'' k s \<and> seen_by ''telegram'' k s')"
  proof cases
    case (2 u m res s1)
    note l = marked_answer [where answer = "answer_telegram env ge ?ad u m", OF answer_telegram_processed 2(2,3)]
    show ?thesis using l 2(1) by auto
  qed simp
  then show "seen_by ''telegram'' k s \<Longrightarrow> seen_by ''telegram'' k s'"
    "telegram_key ge r = Some k \<Longrightarrow> \<not> idle s s' \<Longrightarrow> \<not> seen_by ''telegram'' k s \<and> seen_by ''telegram'' k s'" by blast+
qed

interpretation slack_once: once_only "HandleSlackEvents env ge (builtin_adapter env env' c mem runner a)"
    "slack_key env" idle "seen_by ''slack''"
  for env ge env' c mem runner a
proof
  let ?ad = "builtin_adapter env env' c mem runner a"
  fix r s x s' k
  assume h: "HandleSlackEvents env ge ?ad r s = (x, s')"
  from slack_shape [OF h] consider "s' = s"
    | v e where "slack_key env r = None" "(x, s') = answer_slack env ge ?ad v e s"
    | v e res s1 where "slack_key env r = Some (slack_id v e)" "mark_update ''slack'' (slack_id v e) s = (res, s1)"
      "(x, s') = (case res of Inl e \<Rightarrow> (http_error e 500, s1) | Inr False \<Rightarrow> (duplicate, s1)
         | Inr True \<Rightarrow> answer_slack env ge ?ad v e s1)" by blast
  then have "(seen_by ''slack'' k s \<longrightarrow> seen_by ''slack'' k s')
      \<and> (slack_key env r = Some k \<longrightarrow> \<not> idle s s' \<longrightarrow> \<not> seen_by ''slack'' k s \<and> seen_by ''slack'' k s')"
  proof cases
    case (2 v e)
    have "snd (answer_slack env ge ?ad v e s) = s'" by (simp add: 2(2) [symmetric])
    then have "seen_by ''slack'' k s' = seen_by ''slack'' k s"
      using answer_slack_processed [of env ge env' c mem runner a v e s] by (intro seen_by_processed) simp
    then show ?thesis using 2(1) by simp
  next
    case (3 v e res s1)
    note l = marked_answer [where answer = "answer_slack env ge ?ad v e", OF answer_slack_processed 3(2,3)]
    show ?thesis using l 3(1) by auto
  qed simp
  then show "seen_by ''slack'' k s \<Longrightarrow> seen_by ''slack'' k s'"
    "slack_key env r = Some k \<Longrightarrow> \<not> idle s s' \<Longrightarrow> \<not> seen_by ''slack'' k s \<and> seen_by ''slack'' k s'" by blast+
qed

definition answered_once :: "string \<Rightarrow> (HttpRequest \<Rightarrow> string option) \<Rightarrow> gw_handler \<Rightarrow> HttpRequest list \<Rightarrow> GwState \<Rightarrow> bool" where
  "answered_once provider key handle rs s =
     (let ks = acted_on handle key idle rs s
      in distinct ks \<and> list_all (\<lambda>k. \<not> update_seen provider k (w_store (gs_world s))) ks)"

text \<open>C27. However often Telegram or Slack deliver their updates, and in whatever order, at most one
  delivery of each update does anything: sends a message, asks the model or changes a table or a
  file. A delivery of an update that was marked before does nothing. This holds with the built-in
  tools, whatever the model, the network and the database answer.\<close>

theorem updates_answered_once:
  "answered_once ''telegram'' (telegram_key ge)
     (HandleTelegramWebhook env ge (builtin_adapter env env' c mem runner a)) rs s
   \<and> answered_once ''slack'' (slack_key env)
     (HandleSlackEvents env ge (builtin_adapter env env' c mem runner a)) rs s"
  using telegram_once.at_most_once [of env ge env' c mem runner a rs s] slack_once.at_most_once [of env ge env' c mem runner a rs s]
  by (simp add: answered_once_def Let_def list_all_iff seen_by_def)

section \<open>Credentials\<close>

text \<open>What each platform asks of a request.\<close>

fun credentials :: "GwEnv \<Rightarrow> Adapter \<Rightarrow> time \<Rightarrow> platform \<Rightarrow> HttpRequest \<Rightarrow> bool" where
  "credentials ge ad now Webhook r =
     (trim_space (rq_Header r ''X-Gateway-Token'') \<noteq> [] \<and> trim_space (rq_Header r ''X-Gateway-Token'') = gw_Token (gw_config ad))"
| "credentials ge ad now Telegram r =
     (tg_Enabled (gw_Telegram (gw_config ad))
      \<and> trim_space (rq_Header r ''X-Telegram-Bot-Api-Secret-Token'') = tg_Secret (gw_Telegram (gw_config ad)))"
| "credentials ge ad now Slack r =
     (let secret = trim_space (ge_getenv ge (sl_SigningSecretEnv (gw_Slack (gw_config ad))));
          stamp = trim_space (rq_Header r ''X-Slack-Request-Timestamp'')
      in sl_Enabled (gw_Slack (gw_config ad)) \<and> secret \<noteq> []
        \<and> (case (rq_Body r, parse_int64 stamp) of
             (Some body, Some sec) \<Rightarrow> \<bar>now - sec * nanos_per_second\<bar> \<le> 5 * nanos_per_minute
               \<and> trim_space (rq_Header r ''X-Slack-Signature'') = ''v0='' @ ge_hmac ge secret (slack_base stamp body)
           | _ \<Rightarrow> False))"
| "credentials ge ad now Weixin r =
     (let token = trim_space (wx_Token (gw_Weixin (gw_config ad))); stamp = trim_space (rq_Query r ''timestamp'');
          nonce = trim_space (rq_Query r ''nonce'')
      in wx_Enabled (gw_Weixin (gw_config ad)) \<and> token \<noteq> [] \<and> stamp \<noteq> [] \<and> nonce \<noteq> []
        \<and> to_lower (trim_space (rq_Query r ''signature'')) = to_lower (ge_sha1 ge (concat (sort [token, stamp, nonce]))))"

lemma slack_verified:
  assumes "slack_verify ge ad r body now" "sl_Enabled (gw_Slack (gw_config ad))" "rq_Body r = Some body"
  shows "credentials ge ad now Slack r"
  using assms by (auto simp: slack_verify_def Let_def split: if_splits option.splits)

lemma weixin_verified:
  assumes "weixin_verify ge ad r" "wx_Enabled (gw_Weixin (gw_config ad))"
  shows "credentials ge ad now Weixin r"
  using assms by (simp add: weixin_verify_def Let_def split: if_splits)

text \<open>A request without them is refused with a client error and changes nothing.\<close>

lemma credentials_required:
  assumes "(path, handle) \<in> set (platform_routes env ge ad p)" "\<not> credentials ge ad (w_now (gs_world s)) p r"
  shows "snd (handle r s) = s \<and> rp_Code (fst (handle r s)) \<in> {400, 401, 404, 405}"
proof -
  have slack: "\<exists>reply. slack_body ge ad r s = Inl reply \<and> rp_Code reply \<in> {400, 401, 404, 405}" if "p = Slack"
    using assms(2) slack_verified [of ge ad r _ "w_now (gs_world s)"] that
    by (auto simp: slack_body_def http_error_def simp del: credentials.simps split: option.split)
  show ?thesis
    using assms slack weixin_verified [of ge ad r "w_now (gs_world s)"]
    by (cases p)
       (auto simp: HandleGenericWebhook_def webhook_authorized_def HandleTelegramWebhook_def telegram_authorized_def
          HandleSlackCommand_def HandleSlackEvents_def HandleWeixinWebhook_def http_error_def simp del: credentials.simps(3,4))
qed

section \<open>Closed instances\<close>

definition demo_gw :: GwEnv where
  "demo_gw =
     \<lparr>ge_decode_first = (\<lambda>_. Inr (JObj [(''update_id'', JInt 5), (''message'', JObj [(''text'', JStr ''hello'')])])),
      ge_form = (\<lambda>_. None), ge_xml = (\<lambda>_. None), ge_hmac = (\<lambda>k t. t), ge_sha1 = id, ge_getenv = (\<lambda>_. ''token''),
      ge_url_error = (\<lambda>_. None), ge_post = (\<lambda>_ _. Inr \<lparr>po_Code = 200, po_Status = ''200 OK'', po_Body = [], po_ReadError = None\<rparr>),
      ge_cancelled = (\<lambda>_. False)\<rparr>"

definition demo_gateway :: GatewayConfig where
  "demo_gateway = default_gateway\<lparr>gw_Telegram := \<lparr>tg_Enabled = True, tg_BotTokenEnv = ''BOT'', tg_Secret = ''s''\<rparr>\<rparr>"

definition demo_adapter :: Adapter where
  "demo_adapter = builtin_adapter (demo_env ''fine'') (demo_env ''fine'') Default None (NewExecutor default_execution)
     (demo_app\<lparr>app_Config := Default\<lparr>cfg_Gateway := demo_gateway\<rparr>\<rparr>)"

definition demo_delivery :: HttpRequest where
  "demo_delivery = \<lparr>rq_Method = ''POST'', rq_Header = (\<lambda>_. ''s''), rq_Query = (\<lambda>_. []), rq_Body = Some ''{}''\<rparr>"

definition demo_gw_state :: GwState where
  "demo_gw_state = \<lparr>gs_world = demo_world, gs_sent = []\<rparr>"

text \<open>A delivery that is answered, and its repetition that is not.\<close>

lemma demo_delivery_once:
  "acted_on (HandleTelegramWebhook (demo_env ''fine'') demo_gw demo_adapter) (telegram_key demo_gw) idle
     [demo_delivery, demo_delivery] demo_gw_state = [''5'']"
  by code_simp

end
