(* ===== verification/CommandTool.thy ===== *)
theory CommandTool
  imports AppCore JsonCodec FileOps
begin

text \<open>
  \<^verbatim>\<open>internal/extensions/command_tool.go\<close>: tools that run a command of an extension, with arguments from
  templates. The operating system is asked with the command, its arguments, the variables added to
  the environment and the timeout; every process started is kept in the world's list.
\<close>

record ToolSpec =
  spec_Name :: string
  spec_Description :: string
  spec_Command :: string
  spec_ArgsTemplate :: "string list"
  spec_Env :: "(string, string) gomap"
  spec_TimeoutSeconds :: int
  spec_InputKeys :: "string list"

type_synonym spec_runner = "(string, string) gomap \<Rightarrow> int \<Rightarrow> os_fun"
type_synonym ext_audit = "string \<Rightarrow> string \<Rightarrow> string \<Rightarrow> World \<Rightarrow> unit app_result"

section \<open>Arguments\<close>

definition shell_chars :: string where
  "shell_chars = [CHR 0x0A, CHR 0x0D, CHR '';'', CHR ''&'', CHR ''|'', CHR 0x60, CHR ''$'', CHR ''>'', CHR ''<'']"

definition validateArg :: "string \<Rightarrow> string option" where
  "validateArg value =
     (if 512 < length value then Some ''arg too long''
      else if contains_any value shell_chars then Some ''arg contains forbidden shell metacharacters'' else None)"

definition inputValue :: "jmap \<Rightarrow> string \<Rightarrow> string + string" where
  "inputValue input key =
     (case get input key of
        None \<Rightarrow> Inl (''missing input '' @ go_quote key)
      | Some (JStr str0) \<Rightarrow>
          (let str = trim_space str0 in
           if str = [] then Inl (''input '' @ go_quote key @ '' is required'')
           else (case validateArg str of
                   Some e \<Rightarrow> Inl (''input '' @ go_quote key @ '' rejected: '' @ e) | None \<Rightarrow> Inr str))
      | Some _ \<Rightarrow> Inl (''input '' @ go_quote key @ '' must be a string''))"

fun render_args :: "jmap \<Rightarrow> string list \<Rightarrow> string + string list" where
  "render_args input [] = Inr []"
| "render_args input (t # ts) =
     (case (case placeholder (trim_space t) of
              Some key \<Rightarrow> inputValue input key
            | None \<Rightarrow> (case validateArg t of Some e \<Rightarrow> Inl e | None \<Rightarrow> Inr t)) of
        Inl e \<Rightarrow> Inl e
      | Inr v \<Rightarrow> (case render_args input ts of Inl e \<Rightarrow> Inl e | Inr vs \<Rightarrow> Inr (v # vs)))"

section \<open>Execution\<close>

definition executeCommandSpec :: "spec_runner \<Rightarrow> ToolSpec \<Rightarrow> jmap \<Rightarrow> World \<Rightarrow> string app_result" where
  "executeCommandSpec run spec input w =
     (let command = trim_space (spec_Command spec) in
      if command = [] then (Inl ''extension command is required'', w)
      else (case render_args input (spec_ArgsTemplate spec) of
              Inl e \<Rightarrow> (Inl e, w)
            | Inr args \<Rightarrow>
                on_processes (\<lambda>log.
                  (let timeout = (if spec_TimeoutSeconds spec \<le> 0 then 10 else spec_TimeoutSeconds spec);
                       p = run (spec_Env spec) timeout log command args; log' = log @ [(command, args)]
                   in if proc_deadline p then (Inl ''extension command timed out'', log')
                      else (case proc_error p of
                              Some e \<Rightarrow> (Inl (''extension command failed: '' @ e @ '': '' @ trim_space (proc_output p)), log')
                            | None \<Rightarrow> (Inr (trim_space (proc_output p)), log')))) w))"

text \<open>Names of tools: runs of bytes of one character count once (a continuation byte writes nothing).\<close>

definition sanitize_char :: "char \<Rightarrow> string" where
  "sanitize_char c =
     (if is_lower_alpha c \<or> is_digit c then [c]
      else if CHR 0x80 \<le> c \<and> c \<le> CHR 0xBF then [] else [CHR ''_''])"

definition trim_underscores :: "string \<Rightarrow> string" where
  "trim_underscores s = rev (dropWhile (\<lambda>c. c = CHR ''_'') (rev (dropWhile (\<lambda>c. c = CHR ''_'') s)))"

definition sanitizeToolName :: "string \<Rightarrow> string" where
  "sanitizeToolName value =
     (let result = trim_underscores (concat (map sanitize_char (to_lower (trim_space value))))
      in if result = [] then ''unnamed'' else result)"

definition effectiveToolName :: "string \<Rightarrow> string \<Rightarrow> ToolSpec \<Rightarrow> string" where
  "effectiveToolName kind name spec =
     (let toolName = trim_space (spec_Name spec) in
      if toolName = [] then kind @ ''.'' @ sanitizeToolName name else toolName)"

definition opt_audit :: "ext_audit option \<Rightarrow> string \<Rightarrow> string \<Rightarrow> string \<Rightarrow> World \<Rightarrow> World" where
  "opt_audit a u action detail w = (case a of None \<Rightarrow> w | Some f \<Rightarrow> snd (f u action detail w))"

definition command_handler :: "spec_runner \<Rightarrow> ext_audit option \<Rightarrow> string \<Rightarrow> string \<Rightarrow> ToolSpec \<Rightarrow> World handler" where
  "command_handler run aud kind name spec input w =
     (let u = jget_str input ''username'';
          w1 = opt_audit aud u (kind @ ''_exec_attempt'') (''name='' @ name @ '' tool='' @ effectiveToolName kind name spec) w
      in case executeCommandSpec run spec input w1 of
           (Inl e, w2) \<Rightarrow> (Inl e, opt_audit aud u (kind @ ''_exec_denied'') (''name='' @ name @ '' err='' @ e) w2)
         | (Inr output, w2) \<Rightarrow>
             (Inr [(''output'', JStr output)],
              opt_audit aud u (kind @ ''_exec_success'') (''name='' @ name @ '' bytes='' @ show_nat (length output)) w2))"

definition command_tool :: "spec_runner \<Rightarrow> ext_audit option \<Rightarrow> string \<Rightarrow> string \<Rightarrow> ToolSpec \<Rightarrow> World Tool" where
  "command_tool run aud kind name spec =
     \<lparr>tool_Name = effectiveToolName kind name spec,
      tool_Description = (if trim_space (spec_Description spec) = []
        then ''Execute the '' @ kind @ '' extension '' @ name @ ''.'' else spec_Description spec),
      tool_InputKeys = ''username'' # spec_InputKeys spec,
      tool_Handler = Some (command_handler run aud kind name spec)\<rparr>"

definition registerCommandTool :: "spec_runner \<Rightarrow> ext_audit option \<Rightarrow> string \<Rightarrow> string \<Rightarrow> ToolSpec \<Rightarrow> World Registry \<Rightarrow> (string, unit, World Registry) outcome" where
  "registerCommandTool run aud kind name spec = RegisterTool (command_tool run aud kind name spec)"

end
