(* ===== verification/Mcp.thy ===== *)
theory Mcp
  imports CommandTool
begin

text \<open>
  \<^verbatim>\<open>internal/extensions/mcp_stdio.go\<close>: clients of MCP servers. A started server is the function from
  the bytes written to it to the bytes it has written by then; its output ends when it exits or its
  time is over, so a read that wants more fails. An HTTP server answers a payload after those before.
\<close>

section \<open>Framing\<close>

text \<open>\<^verbatim>\<open>ReadString('\n')\<close>: the line without its end and what follows.\<close>

definition read_line :: "string \<Rightarrow> (string \<times> string) option" where
  "read_line s =
     (let l = takeWhile (\<lambda>c. c \<noteq> CHR 0x0A) s in
      if length l < length s then Some (l, drop (Suc (length l)) s) else None)"

lemma read_line_shorter: "read_line s = Some (l, r) \<Longrightarrow> length r < length s"
  by (auto simp: read_line_def Let_def split: if_splits)

definition trim_eol :: "string \<Rightarrow> string" where
  "trim_eol s = rev (dropWhile (\<lambda>c. c = CHR 0x0D \<or> c = CHR 0x0A) (rev s))"

definition eol :: string where "eol = [CHR 0x0D, CHR 0x0A]"

definition frame :: "string \<Rightarrow> string" where
  "frame body = ''Content-Length: '' @ show_nat (length body) @ eol @ eol @ body"

function read_headers :: "int \<Rightarrow> string \<Rightarrow> string + int \<times> string" where
  "read_headers len s =
     (case read_line s of
        None \<Rightarrow> Inl ''EOF''
      | Some (line0, r) \<Rightarrow>
          (let line = trim_eol line0 in
           if line = [] then Inr (len, r)
           else if has_prefix ''content-length:'' (to_lower line)
           then (let value = trim_space (trim_prefix ''Content-Length:'' line) in
                 case parse_int64 value of
                   None \<Rightarrow> Inl (''strconv.Atoi: parsing '' @ go_quote value)
                 | Some n \<Rightarrow> read_headers n r)
           else read_headers len r))"
  by pat_completeness auto
termination
  by (relation "measure (\<lambda>(len, s). length s)") (auto simp: read_line_shorter)

declare read_headers.simps [simp del]

definition read_body :: "string \<Rightarrow> string + string \<times> string" where
  "read_body s =
     (case read_headers 0 s of
        Inl e \<Rightarrow> Inl e
      | Inr (len, r) \<Rightarrow>
          if len \<le> 0 then Inl ''invalid mcp content length''
          else if length r < nat len then Inl ''unexpected EOF''
          else (let body = trim_space (take (nat len) r) in
                if body = [] then Inl ''empty mcp response'' else Inr (body, drop (nat len) r)))"

section \<open>Messages\<close>

definition request_json :: "int \<Rightarrow> string \<Rightarrow> json \<Rightarrow> json" where
  "request_json i method params =
     JObj ([(''jsonrpc'', JStr ''2.0'')] @ (if i \<noteq> 0 then [(''id'', JInt i)] else []) @ [(''method'', JStr method), (''params'', params)])"

record mcpResponse =
  mr_ID :: int
  mr_Result :: "json option" \<comment> \<open>\<open>None\<close> for a member that is not there\<close>
  mr_Error :: "(int \<times> string) option"

definition raw_field :: "string \<Rightarrow> (string \<times> json) list \<Rightarrow> json option" where
  "raw_field name m = (case filter (\<lambda>p. to_lower (fst p) = name) (rev m) of [] \<Rightarrow> None | p # _ \<Rightarrow> Some (snd p))"

definition decode_rpc_error :: "(string \<times> json) list \<Rightarrow> (int \<times> string) option" where
  "decode_rpc_error m = do { code \<leftarrow> dec_int m ''code''; message \<leftarrow> dec_str m ''message''; Some (code, message) }"

definition decode_response :: "(string \<times> json) list \<Rightarrow> mcpResponse option" where
  "decode_response m = do {
     i \<leftarrow> dec_int m ''id''; err \<leftarrow> dec_opt decode_rpc_error m ''error'';
     Some \<lparr>mr_ID = i, mr_Result = raw_field ''result'' m, mr_Error = err\<rparr> }"

definition parse_response :: "Env \<Rightarrow> string \<Rightarrow> string + json option" where
  "parse_response env body =
     (case env_unmarshal env body of
        Inl e \<Rightarrow> Inl e
      | Inr j \<Rightarrow>
          (case decode_object decode_response j of
             None \<Rightarrow> Inl ''json: cannot unmarshal the response''
           | Some r \<Rightarrow> (case mr_Error r of
                          Some (code, message) \<Rightarrow> Inl (''mcp error '' @ show_int code @ '': '' @ message)
                        | None \<Rightarrow> Inr (mr_Result r))))"

section \<open>Clients\<close>

record StdioServer =
  srv_output :: "string \<Rightarrow> string"
  srv_broken :: "string \<Rightarrow> string option" \<comment> \<open>the error of a write after the bytes written\<close>

type_synonym HttpServer = "string list \<Rightarrow> string \<Rightarrow> string + int \<times> (string + string)"

text \<open>\<open>mo_start\<close> starts a server with its environment and timeout, \<open>mo_http\<close> is the server behind a URL;
  both may answer differently at each call (the list of processes started tells the calls apart).\<close>

record McpOut =
  mo_start :: "spawn list \<Rightarrow> MCPServerConfig \<Rightarrow> int \<Rightarrow> string + StdioServer"
  mo_http :: "World \<Rightarrow> string \<Rightarrow> int \<Rightarrow> HttpServer"

datatype mcpClient =
    mcpStdioClient StdioServer string nat \<comment> \<open>the bytes written and the number of bytes read\<close>
  | mcpHTTPClient HttpServer "string list"

definition mcp_timeout :: "MCPServerConfig \<Rightarrow> int" where
  "mcp_timeout c = (if mcp_TimeoutSeconds c \<le> 0 then 15 else mcp_TimeoutSeconds c)"

definition newMCPClient :: "McpOut \<Rightarrow> MCPServerConfig \<Rightarrow> World \<Rightarrow> mcpClient app_result" where
  "newMCPClient mo c w =
     (if mcp_transport c = ''http''
      then (if trim_space (mcp_URL c) = [] then (Inl ''mcp http url is required'', w)
            else (Inr (mcpHTTPClient (mo_http mo w (trim_space (mcp_URL c)) (mcp_timeout c)) []), w))
      else (case mo_start mo (w_spawned w) c (mcp_timeout c) of
              Inl e \<Rightarrow> (Inl e, w)
            | Inr srv \<Rightarrow> (Inr (mcpStdioClient srv [] 0), w\<lparr>w_spawned := w_spawned w @ [(mcp_Command c, mcp_Args c)]\<rparr>)))"

definition send_frame :: "StdioServer \<Rightarrow> string \<Rightarrow> string \<Rightarrow> string option \<times> string" where
  "send_frame srv written body =
     (case srv_broken srv written of Some e \<Rightarrow> (Some e, written) | None \<Rightarrow> (None, written @ frame body))"

fun mcp_request :: "Env \<Rightarrow> string \<Rightarrow> json \<Rightarrow> mcpClient \<Rightarrow> (string + json option) \<times> mcpClient" where
  "mcp_request env method params (mcpStdioClient srv written n) =
     (case send_frame srv written (env_marshal env (request_json 1 method params)) of
        (Some e, written) \<Rightarrow> (Inl e, mcpStdioClient srv written n)
      | (None, written) \<Rightarrow>
          (let s = drop n (srv_output srv written) in
           case read_body s of
             Inl e \<Rightarrow> (Inl e, mcpStdioClient srv written n)
           | Inr (body, r) \<Rightarrow> (parse_response env body, mcpStdioClient srv written (n + (length s - length r)))))"
| "mcp_request env method params (mcpHTTPClient srv sent) =
     (let payload = env_marshal env (request_json 1 method params) in
      (case srv sent payload of
         Inl e \<Rightarrow> Inl e
       | Inr (code, raw0) \<Rightarrow>
           if code < 200 \<or> 300 \<le> code then Inl (''mcp http status '' @ show_int code)
           else (case raw0 of
                   Inl e \<Rightarrow> Inl e
                 | Inr raw \<Rightarrow> if trim_space raw = [] then Inr (Some (JObj [])) else parse_response env (trim_space raw)),
       mcpHTTPClient srv (sent @ [payload])))"

fun mcp_notify :: "Env \<Rightarrow> string \<Rightarrow> json \<Rightarrow> mcpClient \<Rightarrow> string option \<times> mcpClient" where
  "mcp_notify env method params (mcpStdioClient srv written n) =
     (case send_frame srv written (env_marshal env (request_json 0 method params)) of
        (e, written) \<Rightarrow> (e, mcpStdioClient srv written n))"
| "mcp_notify env method params c =
     (case mcp_request env method params c of (Inl e, c) \<Rightarrow> (Some e, c) | (Inr _, c) \<Rightarrow> (None, c))"

definition client_info :: json where
  "client_info = JObj [(''protocolVersion'', JStr ''2024-11-05''), (''capabilities'', JObj []),
     (''clientInfo'', JObj [(''name'', JStr ''hermes-go''), (''version'', JStr ''0.1.0'')])]"

definition mcp_initialize :: "Env \<Rightarrow> mcpClient \<Rightarrow> string option \<times> mcpClient" where
  "mcp_initialize env c =
     (case mcp_request env ''initialize'' client_info c of
        (Inl e, c) \<Rightarrow> (Some e, c)
      | (Inr _, c) \<Rightarrow> mcp_notify env ''notifications/initialized'' (JObj []) c)"

text \<open>A fresh client, initialised, and one request; closing it kills the server.\<close>

definition mcp_call :: "Env \<Rightarrow> McpOut \<Rightarrow> MCPServerConfig \<Rightarrow> string \<Rightarrow> json \<Rightarrow> World \<Rightarrow> json option app_result" where
  "mcp_call env mo c method params w =
     bind_res (newMCPClient mo c w) (\<lambda>cl w.
       case mcp_initialize env cl of
         (Some e, cl) \<Rightarrow> (Inl e, w)
       | (None, cl) \<Rightarrow> (fst (mcp_request env method params cl), w))"

section \<open>Tools of a server\<close>

record MCPTool =
  mt_Name :: string
  mt_Description :: string
  mt_InputSchema :: jmap

definition mcpToolAllowed :: "string \<Rightarrow> string list \<Rightarrow> string list \<Rightarrow> bool" where
  "mcpToolAllowed name inc exc = ((inc = [] \<or> name \<in> set inc) \<and> name \<notin> set exc)"

definition decode_tool :: "(string \<times> json) list \<Rightarrow> MCPTool option" where
  "decode_tool m = do {
     name \<leftarrow> dec_str m ''name''; description \<leftarrow> dec_str m ''description''; schema \<leftarrow> dec_obj m ''inputschema'';
     Some \<lparr>mt_Name = name, mt_Description = description, mt_InputSchema = schema\<rparr> }"

definition decode_tools :: "(string \<times> json) list \<Rightarrow> MCPTool list option" where
  "decode_tools m = do { js \<leftarrow> dec_list m ''tools''; those (map (decode_object decode_tool) js) }"

definition listMCPTools :: "Env \<Rightarrow> McpOut \<Rightarrow> string \<Rightarrow> MCPServerConfig \<Rightarrow> World \<Rightarrow> MCPTool list app_result" where
  "listMCPTools env mo name c w =
     bind_res (mcp_call env mo c ''tools/list'' (JObj []) w) (\<lambda>raw w.
       case Option.bind raw (decode_object decode_tools) of
         None \<Rightarrow> (Inl (''decode mcp tools for '' @ name), w)
       | Some ts \<Rightarrow> (Inr (filter (\<lambda>t. mcpToolAllowed (mt_Name t) (mcp_IncludeTools c) (mcp_ExcludeTools c)) ts), w))"

text \<open>\<^verbatim>\<open>sortStrings\<close>: each position is exchanged with every later smaller element.\<close>

definition exchange :: "nat \<Rightarrow> string list \<Rightarrow> nat \<Rightarrow> string list" where
  "exchange i xs j = (if xs ! j < xs ! i then xs[i := xs ! j, j := xs ! i] else xs)"

definition sortStrings :: "string list \<Rightarrow> string list" where
  "sortStrings xs0 = foldl (\<lambda>xs i. foldl (exchange i) xs [i + 1..<length xs0]) xs0 [0..<length xs0]"

definition mcpInputKeys :: "jmap \<Rightarrow> string list" where
  "mcpInputKeys schema = (case jget schema ''properties'' of JObj p \<Rightarrow> sortStrings (map fst p) | _ \<Rightarrow> [])"

definition stripUsername :: "jmap \<Rightarrow> jmap" where
  "stripUsername input = filter (\<lambda>p. fst p \<noteq> ''username'') input"

definition mcp_handler :: "Env \<Rightarrow> McpOut \<Rightarrow> ext_audit option \<Rightarrow> string \<Rightarrow> MCPServerConfig \<Rightarrow> MCPTool \<Rightarrow> World handler" where
  "mcp_handler env mo aud server c t input w =
     (let u = jget_str input ''username''; label = ''server='' @ server @ '' tool='' @ mt_Name t in
      case mcp_call env mo c ''tools/call'' (JObj [(''name'', JStr (mt_Name t)), (''arguments'', JObj (stripUsername input))])
             (opt_audit aud u ''mcp_call_attempt'' label w) of
        (Inl e, w) \<Rightarrow> (Inl e, opt_audit aud u ''mcp_call_denied'' e w)
      | (Inr raw, w) \<Rightarrow>
          (case raw of
             Some (JObj p) \<Rightarrow> (Inr [(''result'', JObj p)], opt_audit aud u ''mcp_call_success'' label w)
           | Some JNull \<Rightarrow> (Inr [(''result'', JObj [])], opt_audit aud u ''mcp_call_success'' label w)
           | _ \<Rightarrow> (Inl ''decode mcp response'', w)))"

definition mcpToolName :: "string \<Rightarrow> string \<Rightarrow> string" where
  "mcpToolName server name = ''mcp.'' @ sanitizeToolName server @ ''.'' @ sanitizeToolName name"

definition mcp_tool :: "Env \<Rightarrow> McpOut \<Rightarrow> ext_audit option \<Rightarrow> string \<Rightarrow> MCPServerConfig \<Rightarrow> MCPTool \<Rightarrow> World Tool" where
  "mcp_tool env mo aud server c t =
     \<lparr>tool_Name = mcpToolName server (mt_Name t),
      tool_Description = (if trim_space (mt_Description t) = []
        then ''Call MCP tool '' @ mt_Name t @ '' on server '' @ server @ ''.'' else trim_space (mt_Description t)),
      tool_InputKeys = ''username'' # mcpInputKeys (mt_InputSchema t),
      tool_Handler = Some (mcp_handler env mo aud server c t)\<rparr>"

definition registerMCPTool :: "Env \<Rightarrow> McpOut \<Rightarrow> ext_audit option \<Rightarrow> string \<Rightarrow> MCPServerConfig \<Rightarrow> MCPTool \<Rightarrow> World Registry \<Rightarrow> (string, unit, World Registry) outcome" where
  "registerMCPTool env mo aud server c t = RegisterTool (mcp_tool env mo aud server c t)"

end
