(* ===== verification/Extensions.thy ===== *)
theory Extensions
  imports Mcp
begin

text \<open>
  \<^verbatim>\<open>internal/extensions/manager.go\<close>: discovery of plugins, skills and MCP servers, their stored states,
  lifecycle hooks and the tools they register. YAML is decoded by a library: the two manifests and
  free-form documents are parameters (\<open>ExtOut\<close>), a document's values as JSON values.
\<close>

section \<open>Data\<close>

record HookSpec =
  hk_Name :: string
  hk_Command :: string
  hk_ArgsTemplate :: "string list"
  hk_Env :: "(string, string) gomap"
  hk_TimeoutSeconds :: int

record LifecycleSpec =
  lc_Validate :: "HookSpec list"
  lc_OnEnable :: "HookSpec list"
  lc_OnDisable :: "HookSpec list"

record PluginManifest =
  pm_Name :: string
  pm_Version :: string
  pm_Description :: string
  pm_Enabled :: bool
  pm_Provides :: "string list"
  pm_Tool :: ToolSpec
  pm_Lifecycle :: LifecycleSpec
  pm_Path :: string
  pm_Hash :: string
  pm_StateSource :: string

record SkillDefinition =
  sd_Name :: string
  sd_Description :: string
  sd_Enabled :: bool
  sd_Path :: string
  sd_Platforms :: "string list"
  sd_Tool :: ToolSpec
  sd_Lifecycle :: LifecycleSpec
  sd_Hash :: string
  sd_StateSource :: string

record SkillManifest =
  sm_Name :: string
  sm_Description :: string
  sm_Enabled :: bool
  sm_Platforms :: "string list"
  sm_Tool :: ToolSpec
  sm_Lifecycle :: LifecycleSpec

record MCPServerStatus =
  ms_Name :: string
  ms_Transport :: string
  ms_URL :: string
  ms_Enabled :: bool
  ms_Command :: string
  ms_Args :: "string list"
  ms_Discovered :: bool
  ms_Tools :: "MCPTool list"
  ms_Error :: string
  ms_RefreshedAt :: time

record ExtensionStateRecord =
  xs_Kind :: string
  xs_Name :: string
  xs_Enabled :: bool
  xs_Hash :: string

record HookRecord =
  hr_Username :: string
  hr_Kind :: string
  hr_Name :: string
  hr_Phase :: string
  hr_Hook :: string
  hr_Status :: string
  hr_Output :: string
  hr_Error :: string

record ExtOut =
  xo_run :: spec_runner
  xo_mcp :: McpOut
  xo_plugin_yaml :: "string \<Rightarrow> string + PluginManifest"
  xo_skill_yaml :: "string \<Rightarrow> string + SkillManifest"
  xo_yaml :: "string \<Rightarrow> string + jmap"

record ExtManager =
  em_cfg :: Config
  em_audit :: "ext_audit option"
  em_plugins :: "PluginManifest list"
  em_skills :: "SkillDefinition list"
  em_mcpServers :: "MCPServerStatus list"
  em_stateReader :: "(World \<Rightarrow> ExtensionStateRecord list app_result) option"
  em_stateWriter :: "(string \<Rightarrow> string \<Rightarrow> bool \<Rightarrow> string \<Rightarrow> World \<Rightarrow> unit app_result) option"
  em_hookWriter :: "(HookRecord \<Rightarrow> World \<Rightarrow> unit app_result) option"
  em_registered :: "string list"

definition NewExtManager :: "Config \<Rightarrow> ExtManager" where
  "NewExtManager c =
     \<lparr>em_cfg = c, em_audit = None, em_plugins = [], em_skills = [], em_mcpServers = [], em_stateReader = None,
      em_stateWriter = None, em_hookWriter = None, em_registered = []\<rparr>"

text \<open>The functions the container hands to the manager.\<close>

definition app_extensions :: "Config \<Rightarrow> ExtManager" where
  "app_extensions c =
     (NewExtManager c)\<lparr>em_audit := Some audit,
       em_stateReader := Some (\<lambda>w. bind_res (on_store ListExtensionStates w) (\<lambda>ss w.
         (Inr (map (\<lambda>s. \<lparr>xs_Kind = es_kind s, xs_Name = es_name s, xs_Enabled = es_enabled s, xs_Hash = es_hash s\<rparr>) ss), w))),
       em_stateWriter := Some (\<lambda>kind name enabled hash w. on_store (UpsertExtensionState (w_now w) kind name enabled hash) w),
       em_hookWriter := Some (\<lambda>r w. on_store (InsertExtensionHookRun (w_now w)
         \<lparr>hook_id = 0, hook_user = hr_Username r, hook_kind = hr_Kind r, hook_ext = hr_Name r, hook_phase = hr_Phase r,
          hook_hook = hr_Hook r, hook_status = hr_Status r, hook_output = hr_Output r, hook_error = hr_Error r,
          hook_created = 0\<rparr>) w)\<rparr>"

section \<open>Discovery of plugins\<close>

definition readEnabledFlag :: "ExtOut \<Rightarrow> string \<Rightarrow> string + bool option" where
  "readEnabledFlag xo raw =
     (case xo_yaml xo raw of
        Inl e \<Rightarrow> Inl e
      | Inr m \<Rightarrow> (case get m ''enabled'' of
                    None \<Rightarrow> Inr None
                  | Some (JBool b) \<Rightarrow> Inr (Some b)
                  | Some _ \<Rightarrow> Inl ''enabled must be a boolean''))"

fun read_paths :: "string list \<Rightarrow> World \<Rightarrow> string \<times> World" where
  "read_paths [] w = ([], w)"
| "read_paths (p # ps) w =
     (case on_files (read_existing p) w of
        (r, w) \<Rightarrow> (case read_paths ps w of
                     (rest, w) \<Rightarrow> ((case r of Inr (Some raw) \<Rightarrow> p @ raw | _ \<Rightarrow> []) @ rest, w)))"

definition hashFiles :: "Env \<Rightarrow> string list \<Rightarrow> World \<Rightarrow> string \<times> World" where
  "hashFiles env ps w = (case read_paths ps w of (content, w) \<Rightarrow> (env_digest env content, w))"

definition plugin_at :: "Env \<Rightarrow> ExtOut \<Rightarrow> string \<Rightarrow> string \<Rightarrow> World \<Rightarrow> PluginManifest option app_result" where
  "plugin_at env xo rootd entry w =
     (let path = path_join [rootd, entry, ''plugin.yaml''] in
      case on_files (read_existing path) w of
        (Inl e, w) \<Rightarrow> (Inl (''read plugin manifest '' @ path @ '': '' @ e), w)
      | (Inr None, w) \<Rightarrow> (Inr None, w)
      | (Inr (Some raw), w) \<Rightarrow>
          (case xo_plugin_yaml xo raw of
             Inl e \<Rightarrow> (Inl (''parse plugin manifest '' @ path @ '': '' @ e), w)
           | Inr p \<Rightarrow>
               (case readEnabledFlag xo raw of
                  Inl e \<Rightarrow> (Inl (''parse plugin enabled state '' @ path @ '': '' @ e), w)
                | Inr flag \<Rightarrow>
                    (case hashFiles env [path] w of
                       (h, w) \<Rightarrow>
                         (Inr (Some (p\<lparr>pm_Name := (if pm_Name p = [] then entry else pm_Name p),
                            pm_Enabled := (case flag of None \<Rightarrow> True | Some b \<Rightarrow> b), pm_Path := path_join [rootd, entry],
                            pm_Hash := h, pm_StateSource := ''manifest''\<rparr>)), w)))))"

fun collect :: "('a \<Rightarrow> World \<Rightarrow> 'b option app_result) \<Rightarrow> 'a list \<Rightarrow> World \<Rightarrow> 'b list app_result" where
  "collect f [] w = (Inr [], w)"
| "collect f (x # xs) w =
     bind_res (f x w) (\<lambda>r w. bind_res (collect f xs w) (\<lambda>rs w. (Inr (case r of None \<Rightarrow> rs | Some y \<Rightarrow> y # rs), w)))"

definition discoverPlugins :: "Env \<Rightarrow> ExtOut \<Rightarrow> string \<Rightarrow> World \<Rightarrow> PluginManifest list app_result" where
  "discoverPlugins env xo rootd w =
     (if trim_space rootd = [] then (Inr [], w)
      else (case on_files (read_dirs rootd) w of
              (Inl e, w) \<Rightarrow> (Inl (''read plugins dir: '' @ e), w)
            | (Inr entries, w) \<Rightarrow>
                bind_res (collect (plugin_at env xo rootd) entries w) (\<lambda>ps w. (Inr (sort_key pm_Name ps), w))))"

section \<open>Discovery of skills\<close>

definition front_open :: string where "front_open = ''---'' @ newline"
definition front_close :: string where "front_close = newline @ ''---'' @ newline"

definition parseFrontmatter :: "ExtOut \<Rightarrow> string \<Rightarrow> jmap \<times> string" where
  "parseFrontmatter xo content =
     (if \<not> has_prefix front_open content then ([], content)
      else (let rest = trim_prefix front_open content in
            case index_of front_close rest of
              None \<Rightarrow> ([], content)
            | Some i \<Rightarrow> (case xo_yaml xo (take i rest) of
                           Inl e \<Rightarrow> ([], content) | Inr m \<Rightarrow> (m, drop (i + 5) rest))))"

definition firstLine :: "string \<Rightarrow> string" where
  "firstLine body = (case filter (\<lambda>l. l \<noteq> []) (map trim_space (split_on newline body)) of [] \<Rightarrow> [] | l # _ \<Rightarrow> l)"

definition stringValue :: "json \<Rightarrow> string \<Rightarrow> string" where
  "stringValue v fallback = (case v of JStr s \<Rightarrow> if trim_space s \<noteq> [] then trim_space s else fallback | _ \<Rightarrow> fallback)"

definition stringSlice :: "json \<Rightarrow> string list" where
  "stringSlice v =
     (case v of JArr js \<Rightarrow> filter (\<lambda>s. s \<noteq> []) (map trim_space (List.map_filter (\<lambda>j. case j of JStr s \<Rightarrow> Some s | _ \<Rightarrow> None) js))
      | _ \<Rightarrow> [])"

definition no_tool :: ToolSpec where
  "no_tool = \<lparr>spec_Name = [], spec_Description = [], spec_Command = [], spec_ArgsTemplate = [], spec_Env = [],
     spec_TimeoutSeconds = 0, spec_InputKeys = []\<rparr>"

definition no_lifecycle :: LifecycleSpec where
  "no_lifecycle = \<lparr>lc_Validate = [], lc_OnEnable = [], lc_OnDisable = []\<rparr>"

definition frontmatter_skill :: "ExtOut \<Rightarrow> string \<Rightarrow> string \<Rightarrow> string \<Rightarrow> SkillDefinition" where
  "frontmatter_skill xo entry dir raw =
     (case parseFrontmatter xo raw of
        (meta, body) \<Rightarrow>
          \<lparr>sd_Name = stringValue (jget meta ''name'') entry,
           sd_Description = trim_space (first_nonblank [stringValue (jget meta ''description'') [], firstLine body]),
           sd_Enabled = True, sd_Path = dir, sd_Platforms = stringSlice (jget meta ''platforms''), sd_Tool = no_tool,
           sd_Lifecycle = no_lifecycle, sd_Hash = [], sd_StateSource = []\<rparr>)"

definition apply_skill_manifest :: "SkillManifest \<Rightarrow> bool option \<Rightarrow> SkillDefinition \<Rightarrow> SkillDefinition" where
  "apply_skill_manifest m flag d =
     d\<lparr>sd_Name := (if sm_Name m \<noteq> [] then sm_Name m else sd_Name d),
       sd_Description := (if sm_Description m \<noteq> [] then sm_Description m else sd_Description d),
       sd_Platforms := (if sm_Platforms m \<noteq> [] then sm_Platforms m else sd_Platforms d),
       sd_Tool := (if spec_Name (sm_Tool m) \<noteq> [] \<or> spec_Command (sm_Tool m) \<noteq> [] then sm_Tool m else sd_Tool d),
       sd_Enabled := (case flag of None \<Rightarrow> sd_Enabled d | Some b \<Rightarrow> b)\<rparr>"

definition skill_at :: "Env \<Rightarrow> ExtOut \<Rightarrow> string \<Rightarrow> string \<Rightarrow> World \<Rightarrow> SkillDefinition option app_result" where
  "skill_at env xo rootd entry w =
     (let dir = path_join [rootd, entry]; md = path_join [dir, ''SKILL.md''] in
      case on_files (read_existing md) w of
        (Inl e, w) \<Rightarrow> (Inl (''read skill file '' @ md @ '': '' @ e), w)
      | (Inr None, w) \<Rightarrow> (Inr None, w)
      | (Inr (Some raw), w) \<Rightarrow>
          (let d = frontmatter_skill xo entry dir raw; path = path_join [dir, ''skill.yaml''] in
           case on_files (read_existing path) w of
             (Inr (Some mraw), w) \<Rightarrow>
               (case xo_skill_yaml xo mraw of
                  Inl e \<Rightarrow> (Inl (''parse skill manifest '' @ path @ '': '' @ e), w)
                | Inr m \<Rightarrow>
                    (case readEnabledFlag xo mraw of
                       Inl e \<Rightarrow> (Inl (''parse skill enabled state '' @ path @ '': '' @ e), w)
                     | Inr flag \<Rightarrow>
                         (case hashFiles env [md, path] w of
                            (h, w) \<Rightarrow> (Inr (Some ((apply_skill_manifest m flag d)\<lparr>sd_Hash := h, sd_StateSource := ''manifest''\<rparr>)), w))))
           | (_, w) \<Rightarrow>
               (case hashFiles env [md] w of
                  (h, w) \<Rightarrow> (Inr (Some (d\<lparr>sd_Hash := h, sd_StateSource := ''frontmatter''\<rparr>)), w))))"

definition skills_in :: "Env \<Rightarrow> ExtOut \<Rightarrow> string \<Rightarrow> World \<Rightarrow> SkillDefinition list option app_result" where
  "skills_in env xo rootd0 w =
     (let rootd = trim_space rootd0 in
      if rootd = [] then (Inr None, w)
      else (case on_files (read_dirs rootd) w of
              (Inl e, w) \<Rightarrow> (Inl (''read skills dir: '' @ e), w)
            | (Inr entries, w) \<Rightarrow> bind_res (collect (skill_at env xo rootd) entries w) (\<lambda>ds w. (Inr (Some ds), w))))"

text \<open>The first skill of a name counts.\<close>

fun first_of_name :: "string list \<Rightarrow> SkillDefinition list \<Rightarrow> SkillDefinition list" where
  "first_of_name seen [] = []"
| "first_of_name seen (d # ds) =
     (if sd_Name d \<in> set seen then first_of_name seen ds else d # first_of_name (sd_Name d # seen) ds)"

definition discoverSkills :: "Env \<Rightarrow> ExtOut \<Rightarrow> string list \<Rightarrow> World \<Rightarrow> SkillDefinition list app_result" where
  "discoverSkills env xo roots w =
     bind_res (collect (skills_in env xo) roots w) (\<lambda>dss w. (Inr (sort_key sd_Name (first_of_name [] (concat dss))), w))"

section \<open>Discovery of servers\<close>

definition server_status :: "Env \<Rightarrow> ExtOut \<Rightarrow> string \<times> MCPServerConfig \<Rightarrow> World \<Rightarrow> MCPServerStatus \<times> World" where
  "server_status env xo nc w =
     (let (name, c) = nc;
          st = \<lparr>ms_Name = name, ms_Transport = mcp_transport c, ms_URL = mcp_URL c, ms_Enabled = mcp_Enabled c,
                ms_Command = mcp_Command c, ms_Args = mcp_Args c, ms_Discovered = False, ms_Tools = [], ms_Error = [],
                ms_RefreshedAt = w_now w\<rparr>
      in if \<not> mcp_Enabled c then (st, w)
         else (case listMCPTools env (xo_mcp xo) name c w of
                 (Inl e, w) \<Rightarrow> (st\<lparr>ms_Error := e\<rparr>, w)
               | (Inr ts, w) \<Rightarrow> (st\<lparr>ms_Discovered := True, ms_Tools := ts\<rparr>, w)))"

fun server_statuses :: "Env \<Rightarrow> ExtOut \<Rightarrow> (string \<times> MCPServerConfig) list \<Rightarrow> World \<Rightarrow> MCPServerStatus list \<times> World" where
  "server_statuses env xo [] w = ([], w)"
| "server_statuses env xo (nc # ncs) w =
     (case server_status env xo nc w of
        (st, w) \<Rightarrow> (case server_statuses env xo ncs w of (sts, w) \<Rightarrow> (st # sts, w)))"

definition discoverMCPServers :: "Env \<Rightarrow> ExtOut \<Rightarrow> (string, MCPServerConfig) gomap \<Rightarrow> World \<Rightarrow> MCPServerStatus list \<times> World" where
  "discoverMCPServers env xo servers = server_statuses env xo (sort_key fst servers)"

section \<open>Stored states\<close>

text \<open>The last record of a key is the one the index keeps.\<close>

definition state_of :: "ExtensionStateRecord list \<Rightarrow> string \<Rightarrow> ExtensionStateRecord option" where
  "state_of states key = find (\<lambda>s. xs_Kind s @ '':'' @ xs_Name s = key) (rev states)"

definition state_source :: "ExtensionStateRecord \<Rightarrow> string \<Rightarrow> string" where
  "state_source st hash = (if xs_Hash st \<noteq> [] \<and> xs_Hash st \<noteq> hash then ''database-mismatch'' else ''database'')"

definition plugin_state :: "ExtensionStateRecord list \<Rightarrow> PluginManifest \<Rightarrow> PluginManifest" where
  "plugin_state states p =
     (case state_of states (''plugin:'' @ pm_Name p) of
        None \<Rightarrow> p | Some st \<Rightarrow> p\<lparr>pm_Enabled := xs_Enabled st, pm_StateSource := state_source st (pm_Hash p)\<rparr>)"

definition skill_state :: "ExtensionStateRecord list \<Rightarrow> SkillDefinition \<Rightarrow> SkillDefinition" where
  "skill_state states d =
     (case state_of states (''skill:'' @ sd_Name d) of
        None \<Rightarrow> d | Some st \<Rightarrow> d\<lparr>sd_Enabled := xs_Enabled st, sd_StateSource := state_source st (sd_Hash d)\<rparr>)"

definition applyStoredStates :: "ExtManager \<Rightarrow> PluginManifest list \<Rightarrow> SkillDefinition list \<Rightarrow> World \<Rightarrow> (PluginManifest list \<times> SkillDefinition list) app_result" where
  "applyStoredStates m plugins skills w =
     (case em_stateReader m of
        None \<Rightarrow> (Inr (plugins, skills), w)
      | Some rd \<Rightarrow> bind_res (rd w) (\<lambda>states w. (Inr (map (plugin_state states) plugins, map (skill_state states) skills), w)))"

type_synonym 'a ext_result = "(string, 'a, ExtManager \<times> World) outcome"

definition Discover :: "Env \<Rightarrow> ExtOut \<Rightarrow> ExtManager \<times> World \<Rightarrow> unit ext_result" where
  "Discover env xo mw =
     (let (m, w) = mw;
          (r, w) = bind_res (discoverPlugins env xo (ext_PluginsDir (cfg_Extensions (em_cfg m))) w) (\<lambda>ps w.
            bind_res (discoverSkills env xo (ext_SkillsDirs (cfg_Extensions (em_cfg m))) w) (\<lambda>ss w.
              case discoverMCPServers env xo (cfg_MCPServers (em_cfg m)) w of
                (servers, w) \<Rightarrow> bind_res (applyStoredStates m ps ss w) (\<lambda>(ps, ss) w. (Inr (ps, ss, servers), w))))
      in case r of
           Inl e \<Rightarrow> (Inl e, (m, w))
         | Inr (ps, ss, servers) \<Rightarrow> (Inr (), (m\<lparr>em_plugins := ps, em_skills := ss, em_mcpServers := servers\<rparr>, w)))"

section \<open>Tools of the enabled extensions\<close>

text \<open>What \<^verbatim>\<open>Register\<close> offers, in its order.\<close>

definition plugin_tools :: "ExtOut \<Rightarrow> ExtManager \<Rightarrow> World Tool list" where
  "plugin_tools xo m =
     map (\<lambda>p. command_tool (xo_run xo) (em_audit m) ''plugin'' (pm_Name p) (pm_Tool p))
       (filter (\<lambda>p. pm_Enabled p \<and> spec_Command (pm_Tool p) \<noteq> []) (em_plugins m))"

definition skill_tools :: "ExtOut \<Rightarrow> ExtManager \<Rightarrow> World Tool list" where
  "skill_tools xo m =
     map (\<lambda>d. command_tool (xo_run xo) (em_audit m) ''skill'' (sd_Name d) (sd_Tool d))
       (filter (\<lambda>d. sd_Enabled d \<and> spec_Command (sd_Tool d) \<noteq> []) (em_skills m))"

text \<open>A Go map read at a missing key gives the zero value.\<close>

definition zero_mcp :: MCPServerConfig where
  "zero_mcp = \<lparr>mcp_Transport = [], mcp_URL = [], mcp_Enabled = False, mcp_Command = [], mcp_Args = [], mcp_Env = [],
     mcp_TimeoutSeconds = 0, mcp_IncludeTools = [], mcp_ExcludeTools = []\<rparr>"

definition server_config :: "ExtManager \<Rightarrow> string \<Rightarrow> MCPServerConfig" where
  "server_config m name = (case get (cfg_MCPServers (em_cfg m)) name of None \<Rightarrow> zero_mcp | Some c \<Rightarrow> c)"

definition mcp_tools :: "Env \<Rightarrow> ExtOut \<Rightarrow> ExtManager \<Rightarrow> World Tool list" where
  "mcp_tools env xo m =
     concat (map (\<lambda>sv. map (\<lambda>t. mcp_tool env (xo_mcp xo) (em_audit m) (ms_Name sv) (server_config m (ms_Name sv)) t) (ms_Tools sv))
       (filter ms_Enabled (em_mcpServers m)))"

fun register_noting :: "World Tool list \<Rightarrow> ExtManager \<times> World Registry \<Rightarrow> (string, unit, ExtManager \<times> World Registry) outcome" where
  "register_noting [] mr = (Inr (), mr)"
| "register_noting (t # ts) (m, r) =
     (case RegisterTool t r of
        (Inl e, r) \<Rightarrow> (Inl e, (m, r))
      | (Inr _, r) \<Rightarrow> register_noting ts (m\<lparr>em_registered := em_registered m @ [tool_Name t]\<rparr>, r))"

definition RegisterExtensions :: "Env \<Rightarrow> ExtOut \<Rightarrow> ExtManager \<times> World Registry \<Rightarrow> (string, unit, ExtManager \<times> World Registry) outcome" where
  "RegisterExtensions env xo mr =
     (let (m, r) = mr in
      register_noting (plugin_tools xo m @ skill_tools xo m @ mcp_tools env xo m)
        (m\<lparr>em_registered := []\<rparr>, Unregister (em_registered m) r))"

section \<open>Lifecycle hooks\<close>

definition hooksForPhase :: "LifecycleSpec \<Rightarrow> string \<Rightarrow> HookSpec list" where
  "hooksForPhase l phase =
     (if phase = ''validate'' then lc_Validate l else if phase = ''on_enable'' then lc_OnEnable l
      else if phase = ''on_disable'' then lc_OnDisable l else [])"

definition extensionHookInput :: "string \<Rightarrow> string \<Rightarrow> string \<Rightarrow> string \<Rightarrow> string \<Rightarrow> jmap" where
  "extensionHookInput kind name path hash source =
     [(''extension_kind'', JStr kind), (''extension_name'', JStr name), (''extension_path'', JStr path),
      (''extension_hash'', JStr hash), (''state_source'', JStr source)]"

definition lifecycleHooks :: "ExtManager \<Rightarrow> string \<Rightarrow> string \<Rightarrow> string \<Rightarrow> string + HookSpec list \<times> jmap" where
  "lifecycleHooks m kind name phase =
     (let missing = Inl (''extension '' @ kind @ ''/'' @ name @ '' not found'') in
      if kind = ''plugin''
      then (case find (\<lambda>p. pm_Name p = name) (em_plugins m) of
              None \<Rightarrow> missing
            | Some p \<Rightarrow> Inr (hooksForPhase (pm_Lifecycle p) phase,
                          extensionHookInput kind (pm_Name p) (pm_Path p) (pm_Hash p) (pm_StateSource p)))
      else if kind = ''skill''
      then (case find (\<lambda>d. sd_Name d = name) (em_skills m) of
              None \<Rightarrow> missing
            | Some d \<Rightarrow> Inr (hooksForPhase (sd_Lifecycle d) phase,
                          extensionHookInput kind (sd_Name d) (sd_Path d) (sd_Hash d) (sd_StateSource d)))
      else Inl (''unsupported extension kind '' @ go_quote kind))"

definition toolSpecFromHook :: "HookSpec \<Rightarrow> ToolSpec" where
  "toolSpecFromHook h =
     no_tool\<lparr>spec_Command := hk_Command h, spec_ArgsTemplate := hk_ArgsTemplate h, spec_Env := hk_Env h,
       spec_TimeoutSeconds := hk_TimeoutSeconds h\<rparr>"

definition hook_label :: "HookSpec \<Rightarrow> string" where
  "hook_label h = first_nonblank [hk_Name h, hk_Command h]"

definition writeHookResult :: "ExtManager \<Rightarrow> HookRecord \<Rightarrow> World \<Rightarrow> World" where
  "writeHookResult m r w = (case em_hookWriter m of None \<Rightarrow> w | Some f \<Rightarrow> snd (f r w))"

definition hook_record :: "string \<Rightarrow> string \<Rightarrow> string \<Rightarrow> string \<Rightarrow> HookSpec \<Rightarrow> string + string \<Rightarrow> HookRecord" where
  "hook_record u kind name phase h res =
     \<lparr>hr_Username = u, hr_Kind = kind, hr_Name = name, hr_Phase = phase, hr_Hook = hook_label h,
      hr_Status = (case res of Inl _ \<Rightarrow> ''failed'' | Inr _ \<Rightarrow> ''success''),
      hr_Output = (case res of Inl _ \<Rightarrow> [] | Inr out \<Rightarrow> out), hr_Error = (case res of Inl e \<Rightarrow> e | Inr _ \<Rightarrow> [])\<rparr>"

definition kind_name :: "string \<Rightarrow> string \<Rightarrow> string" where
  "kind_name kind name = ''kind='' @ kind @ '' name='' @ name"

definition hook_result :: "HookSpec \<Rightarrow> string + string \<Rightarrow> json" where
  "hook_result h res =
     JObj ([(''hook'', JStr (hook_label h)), (''output'', JStr (case res of Inl _ \<Rightarrow> [] | Inr out \<Rightarrow> out))]
       @ (case res of Inl e \<Rightarrow> [(''error'', JStr e)] | Inr _ \<Rightarrow> []))"

fun validate_hooks :: "ExtOut \<Rightarrow> ExtManager \<Rightarrow> string \<Rightarrow> string \<Rightarrow> string \<Rightarrow> jmap \<Rightarrow> HookSpec list \<Rightarrow> json list \<Rightarrow> World \<Rightarrow> (json list \<times> string option) \<times> World" where
  "validate_hooks xo m u kind name input [] done w = ((done, None), w)"
| "validate_hooks xo m u kind name input (h # hs) done w =
     (let w = opt_audit (em_audit m) u ''extension_validate_attempt'' (kind_name kind name @ '' hook='' @ hook_label h) w in
      case executeCommandSpec (xo_run xo) (toolSpecFromHook h) input w of
        (res, w) \<Rightarrow>
          (let w = writeHookResult m (hook_record u kind name ''validate'' h res) w; done = done @ [hook_result h res] in
           case res of
             Inl e \<Rightarrow> ((done, Some e), opt_audit (em_audit m) u ''extension_validate_denied'' (kind_name kind name @ '' err='' @ e) w)
           | Inr _ \<Rightarrow> validate_hooks xo m u kind name input hs done w))"

text \<open>The report, empty when there is nothing to report on, and the error.\<close>

definition ValidateExtension :: "ExtOut \<Rightarrow> ExtManager \<Rightarrow> string \<Rightarrow> string \<Rightarrow> string \<Rightarrow> World \<Rightarrow> (jmap \<times> string option) \<times> World" where
  "ValidateExtension xo m u kind name w =
     (case lifecycleHooks m kind name ''validate'' of
        Inl e \<Rightarrow> (([], Some e), w)
      | Inr (hooks, input) \<Rightarrow>
          (case validate_hooks xo m u kind name input hooks [] w of
             ((results, err), w) \<Rightarrow>
               (([(''kind'', JStr kind), (''name'', JStr name), (''results'', JOther (JArr results))], err),
                if err = None then opt_audit (em_audit m) u ''extension_validate_success''
                  (kind_name kind name @ '' hooks='' @ show_nat (length results)) w else w)))"

fun run_hooks :: "ExtOut \<Rightarrow> ExtManager \<Rightarrow> string \<Rightarrow> string \<Rightarrow> string \<Rightarrow> string \<Rightarrow> jmap \<Rightarrow> HookSpec list \<Rightarrow> World \<Rightarrow> string option \<times> World" where
  "run_hooks xo m u kind name phase input [] w = (None, w)"
| "run_hooks xo m u kind name phase input (h # hs) w =
     (let label = kind_name kind name @ '' phase='' @ phase;
          w = opt_audit (em_audit m) u ''extension_hook_attempt'' (label @ '' hook='' @ hook_label h) w in
      case executeCommandSpec (xo_run xo) (toolSpecFromHook h) input w of
        (res, w) \<Rightarrow>
          (let w = writeHookResult m (hook_record u kind name phase h res) w in
           case res of
             Inl e \<Rightarrow> (Some e, opt_audit (em_audit m) u ''extension_hook_denied'' (label @ '' err='' @ e) w)
           | Inr out \<Rightarrow> run_hooks xo m u kind name phase input hs
               (opt_audit (em_audit m) u ''extension_hook_success''
                 (label @ '' hook='' @ hook_label h @ '' bytes='' @ show_nat (length out)) w)))"

definition runLifecycleHooks :: "ExtOut \<Rightarrow> ExtManager \<Rightarrow> string \<Rightarrow> string \<Rightarrow> string \<Rightarrow> string \<Rightarrow> World \<Rightarrow> string option \<times> World" where
  "runLifecycleHooks xo m u kind name phase w =
     (case lifecycleHooks m kind name phase of
        Inl e \<Rightarrow> (Some e, w)
      | Inr (hooks, input) \<Rightarrow> run_hooks xo m u kind name phase input hooks w)"

definition currentHash :: "ExtManager \<Rightarrow> string \<Rightarrow> string \<Rightarrow> string" where
  "currentHash m kind name =
     (if kind = ''plugin'' then (case find (\<lambda>p. pm_Name p = name) (em_plugins m) of None \<Rightarrow> [] | Some p \<Rightarrow> pm_Hash p)
      else if kind = ''skill'' then (case find (\<lambda>d. sd_Name d = name) (em_skills m) of None \<Rightarrow> [] | Some d \<Rightarrow> sd_Hash d)
      else [])"

text \<open>The hooks of a change of state: validation and \<^verbatim>\<open>on_enable\<close>, or \<^verbatim>\<open>on_disable\<close>.\<close>

definition change_hooks :: "ExtOut \<Rightarrow> ExtManager \<Rightarrow> string \<Rightarrow> string \<Rightarrow> string \<Rightarrow> bool \<Rightarrow> World \<Rightarrow> string option \<times> World" where
  "change_hooks xo m u kind name enabled w =
     (if enabled
      then (case ValidateExtension xo m u kind name w of
              ((_, Some e), w) \<Rightarrow> (Some e, w)
            | ((_, None), w) \<Rightarrow> runLifecycleHooks xo m u kind name ''on_enable'' w)
      else runLifecycleHooks xo m u kind name ''on_disable'' w)"

definition SetEnabled :: "Env \<Rightarrow> ExtOut \<Rightarrow> string \<Rightarrow> string \<Rightarrow> string \<Rightarrow> bool \<Rightarrow> ExtManager \<times> World \<Rightarrow> unit ext_result" where
  "SetEnabled env xo u kind0 name0 enabled mw =
     (let (m, w) = mw; kind = trim_space kind0; name = trim_space name0; hash = currentHash m kind name in
      if kind = [] \<or> name = [] then (Inl ''kind and name are required'', (m, w))
      else (case em_stateWriter m of
              None \<Rightarrow> (Inl ''extension state storage is not configured'', (m, w))
            | Some write \<Rightarrow>
                (case change_hooks xo m u kind name enabled w of
                   (Some e, w) \<Rightarrow> (Inl e, (m, w))
                 | (None, w) \<Rightarrow>
                     (case write kind name enabled hash w of
                        (Inl e, w) \<Rightarrow> (Inl e, (m, w))
                      | (Inr _, w) \<Rightarrow>
                          Discover env xo (m, opt_audit (em_audit m) u ''extension_state_changed''
                            (kind_name kind name @ '' enabled='' @ show_bool enabled @ '' hash='' @ hash) w)))))"

record ExtSummary =
  sum_Plugins :: "PluginManifest list"
  sum_Skills :: "SkillDefinition list"
  sum_MCP :: "MCPServerStatus list"

definition ExtensionSummary :: "ExtManager \<Rightarrow> ExtSummary" where
  "ExtensionSummary m = \<lparr>sum_Plugins = em_plugins m, sum_Skills = em_skills m, sum_MCP = em_mcpServers m\<rparr>"

end
