(* ===== verification/ExtProps.thy ===== *)
theory ExtProps
  imports Extensions ChildInvariants AppDemo "HOL-Library.Multiset"
begin

text \<open>
  What holds of the extensions: the framing of MCP messages reads back what it wrote, the keys of a
  tool are sorted, the registry holds the tools of the enabled extensions and no stale ones, and a
  change of state is stored only when its hooks succeeded and then takes effect.
\<close>

section \<open>Framing\<close>

lemma show_nat_snoc: "10 \<le> n \<Longrightarrow> show_nat n = show_nat (n div 10) @ [char_of (48 + n mod 10)]"
  by (simp add: show_nat.simps [of n])

lemma show_nat_digit: "n < 10 \<Longrightarrow> show_nat n = [char_of (48 + n)]"
  by (simp add: show_nat.simps [of n])

lemma digits_value_append:
  "digits_value acc (xs @ ys) = (case digits_value acc xs of None \<Rightarrow> None | Some v \<Rightarrow> digits_value v ys)"
  by (induction xs arbitrary: acc) simp_all

lemma digit_char: "d < 10 \<Longrightarrow> is_digit (char_of (48 + d :: nat)) \<and> of_char (char_of (48 + d :: nat)) - 48 = d"
  by (simp add: is_digit_def less_eq_char_def)

lemma show_nat_spec:
  "show_nat n \<noteq> [] \<and> list_all is_digit (show_nat n) \<and> digits_value 0 (show_nat n) = Some n"
proof (induction n rule: less_induct)
  case (less n)
  show ?case
  proof (cases "n < 10")
    case True
    then show ?thesis using digit_char [of n] by (simp add: show_nat_digit)
  next
    case False
    then have "n div 10 < n" by simp
    then show ?thesis
      using less.IH [of "n div 10"] digit_char [of "n mod 10"] False
      by (simp add: show_nat_snoc digits_value_append)
  qed
qed

lemma parse_show_nat: "n < 2 ^ 63 \<Longrightarrow> parse_int64 (show_nat n) = Some (int n)"
proof -
  assume "n < 2 ^ 63"
  then have b: "int n < 2 ^ 63" by (simp flip: of_nat_less_iff)
  obtain c s where s: "show_nat n = c # s" "is_digit c"
    using show_nat_spec [of n] by (cases "show_nat n") auto
  then have "c \<noteq> CHR ''-''" "c \<noteq> CHR ''+''" by (auto simp: is_digit_def less_eq_char_def)
  then have "\<not> has_prefix ''-'' (show_nat n)" "\<not> has_prefix ''+'' (show_nat n)"
    by (simp_all add: s(1) has_prefix_def)
  then show ?thesis using show_nat_spec [of n] b by (simp add: parse_int64_def)
qed

text \<open>A header line beside the length: some text without line ends that is not another length.\<close>

definition other_header :: "string \<Rightarrow> bool" where
  "other_header h \<longleftrightarrow> h \<noteq> [] \<and> CHR 0x0A \<notin> set h \<and> CHR 0x0D \<notin> set h \<and> \<not> has_prefix ''content-length:'' (to_lower h)"

lemma read_line_eol: "CHR 0x0A \<notin> set l \<Longrightarrow> read_line (l @ eol @ r) = Some (l @ [CHR 0x0D], r)"
proof -
  assume "CHR 0x0A \<notin> set l"
  then have "takeWhile (\<lambda>c. c \<noteq> CHR 0x0A) (l @ eol @ r) = l @ [CHR 0x0D]"
    by (subst takeWhile_append2) (auto simp: eol_def)
  then show ?thesis by (simp add: read_line_def Let_def eol_def)
qed

lemma trim_eol_line: "CHR 0x0D \<notin> set l \<Longrightarrow> CHR 0x0A \<notin> set l \<Longrightarrow> trim_eol (l @ [CHR 0x0D]) = l"
proof -
  assume "CHR 0x0D \<notin> set l" "CHR 0x0A \<notin> set l"
  then have "dropWhile (\<lambda>c. c = CHR 0x0D \<or> c = CHR 0x0A) (rev l) = rev l"
    by (cases "rev l") (auto simp flip: set_rev [of l])
  then show ?thesis by (simp add: trim_eol_def)
qed

lemma read_other_headers:
  "list_all other_header hs \<Longrightarrow> read_headers len (concat (map (\<lambda>h. h @ eol) hs) @ s) = read_headers len s"
proof (induction hs)
  case (Cons h hs)
  then show ?case
    by (subst read_headers.simps) (simp add: read_line_eol trim_eol_line other_header_def)
qed simp

lemma to_lower_append: "to_lower (a @ b) = to_lower a @ to_lower b"
  by (simp add: to_lower_def)

lemma length_line:
  "has_prefix ''content-length:'' (to_lower (''Content-Length: '' @ s))"
  "trim_prefix ''Content-Length:'' (''Content-Length: '' @ s) = CHR '' '' # s"
proof -
  have "to_lower ''Content-Length: '' = ''content-length:'' @ '' ''" by code_simp
  then have "to_lower (''Content-Length: '' @ s) = ''content-length:'' @ '' '' @ to_lower s"
    by (simp only: to_lower_append append_assoc)
  then show "has_prefix ''content-length:'' (to_lower (''Content-Length: '' @ s))" by (simp only: has_prefix_append)
  show "trim_prefix ''Content-Length:'' (''Content-Length: '' @ s) = CHR '' '' # s"
    by (simp add: trim_prefix_def has_prefix_def)
qed

lemma digit_no_space:
  "is_digit a \<Longrightarrow> \<not> sp1 a" "is_digit a \<Longrightarrow> \<not> sp2 a b" "is_digit b \<Longrightarrow> \<not> sp2 a b"
  "is_digit a \<Longrightarrow> \<not> sp3 a b c" "is_digit c \<Longrightarrow> \<not> sp3 a b c"
  by (auto simp: sp1_def sp2_def sp3_def is_digit_def less_eq_char_def)

lemma digits_trimmed: "list_all is_digit s \<Longrightarrow> trimmed s"
proof -
  have "list_all is_digit t \<Longrightarrow> space_len sp2 sp3 t = 0 \<and> space_len (\<lambda>b a. sp2 a b) (\<lambda>c b a. sp3 a b c) t = 0" for t
    by (auto simp: space_len_def digit_no_space split: list.split)
  from this [of s] this [of "rev s"] show "list_all is_digit s \<Longrightarrow> trimmed s" by (simp add: trimmed_def list_all_rev)
qed

lemma trim_digits: "trim_space (CHR '' '' # show_nat n) = show_nat n"
proof -
  have t: "trimmed (show_nat n)" using show_nat_spec digits_trimmed by blast
  have "space_len sp2 sp3 (CHR '' '' # s) = 1" for s by (simp add: space_len_def sp1_def)
  then have "trim_left (CHR '' '' # s) = trim_left s" for s by (simp add: trim_left_def drop_space.simps [of _ _ "CHR '' '' # s"])
  then show ?thesis using trim_space_trimmed_id [OF t] by (simp add: trim_space_def)
qed

lemma read_length:
  assumes "n < 2 ^ 63"
  shows "read_headers len (''Content-Length: '' @ show_nat n @ eol @ eol @ r) = Inr (int n, r)"
proof -
  have d: "CHR 0x0A \<notin> set (show_nat n)" "CHR 0x0D \<notin> set (show_nat n)"
    using show_nat_spec [of n] by (auto simp: list_all_iff is_digit_def less_eq_char_def)
  have 1: "read_line ((''Content-Length: '' @ show_nat n) @ eol @ eol @ r) = Some ((''Content-Length: '' @ show_nat n) @ [CHR 0x0D], eol @ r)"
    by (rule read_line_eol) (use d in simp)
  have 2: "trim_eol ((''Content-Length: '' @ show_nat n) @ [CHR 0x0D]) = ''Content-Length: '' @ show_nat n"
    by (rule trim_eol_line) (use d in simp_all)
  have 5: "read_headers (int n) (eol @ r) = Inr (int n, r)"
    using read_line_eol [of "[]" r] by (subst read_headers.simps) (simp add: trim_eol_def)
  show ?thesis
    by (subst read_headers.simps)
       (simp only: append_assoc 1 [simplified append_assoc] option.case prod.case Let_def 2 [simplified append_assoc] length_line trim_digits
         parse_show_nat [OF assms] 5, simp)
qed


text \<open>C32. A framed MCP message is read back: after any other header lines, the reader returns the trimmed
  body of the frame and leaves exactly the bytes that follow it, whatever they are, so consecutive messages
  are read one by one.\<close>

theorem mcp_framing_roundtrip:
  assumes "list_all other_header hs" "trim_space body \<noteq> []" "length body < 2 ^ 63"
  shows "read_body (concat (map (\<lambda>h. h @ eol) hs) @ frame body @ rest) = Inr (trim_space body, rest)"
proof -
  have "body \<noteq> []" using assms(2) by (auto simp: trim_space_Nil)
  then show ?thesis
    using read_length [OF assms(3), of 0 "body @ rest"] assms(2) read_other_headers [OF assms(1)]
    by (simp add: read_body_def frame_def Let_def)
qed

theorem mcp_framing_roundtrip_witness:
  "read_body (concat (map (\<lambda>h. h @ eol) [''Content-Type: json'']) @ frame ''{}'' @ frame ''[]'') = Inr (''{}'', frame ''[]'')"
proof -
  have "list_all other_header [''Content-Type: json'']" "trim_space ''{}'' = ''{}''" by code_simp+
  with mcp_framing_roundtrip [of "[''Content-Type: json'']" "''{}''" "frame ''[]''"] show ?thesis by simp
qed

text \<open>The reader recognises the header in any case but cuts it off in one.\<close>

lemma lower_case_length_refused: "\<exists>e. read_body (''content-length: 2'' @ eol @ eol @ ''{}'') = Inl e"
proof -
  have 1: "read_line (''content-length: 2'' @ eol @ eol @ ''{}'') = Some (''content-length: 2'' @ [CHR 0x0D], eol @ ''{}'')"
    by (rule read_line_eol) simp
  have 2: "trim_eol (''content-length: 2'' @ [CHR 0x0D]) = ''content-length: 2''"
    by (rule trim_eol_line) simp_all
  have 3: "has_prefix ''content-length:'' (to_lower ''content-length: 2'')"
    "trim_space (trim_prefix ''Content-Length:'' ''content-length: 2'') = ''content-length: 2''"
    by code_simp+
  have 4: "parse_int64 ''content-length: 2'' = None"
    by (simp add: parse_int64_def has_prefix_def is_digit_def less_eq_char_def)
  have "\<exists>e. read_headers 0 (''content-length: 2'' @ eol @ eol @ ''{}'') = Inl e"
    by (subst read_headers.simps) (simp only: 1 2 3 4 option.case prod.case Let_def, simp)
  then show ?thesis by (auto simp: read_body_def)
qed

section \<open>Sorted keys\<close>

lemma exchange_mset:
  assumes "i < length xs" "j < length xs"
  shows "mset (exchange i xs j) = mset xs"
  using assms mset_swap [of j xs i] by (simp add: exchange_def)

lemma exchange_round:
  assumes "i < k" "k \<le> length xs"
  defines "ys \<equiv> foldl (exchange i) xs [i + 1..<k]"
  shows "mset ys = mset xs \<and> take i ys = take i xs \<and> (\<forall>j. i < j \<longrightarrow> j < k \<longrightarrow> ys ! i \<le> ys ! j)"
  using assms(1,2) unfolding ys_def
proof (induction k)
  case (Suc k)
  show ?case
  proof (cases "i < k")
    case True
    define zs where "zs = foldl (exchange i) xs [i + 1..<k]"
    have ih: "mset zs = mset xs" "take i zs = take i xs" "\<And>j. i < j \<Longrightarrow> j < k \<Longrightarrow> zs ! i \<le> zs ! j"
      using Suc True by (simp_all add: zs_def)
    have l: "length zs = length xs" using ih(1) by (metis size_mset)
    have e: "foldl (exchange i) xs [i + 1..<Suc k] = exchange i zs k" using True by (simp add: zs_def)
    have m: "mset (exchange i zs k) = mset xs" using exchange_mset [of i zs k] ih(1) l Suc.prems True by simp
    have t: "take i (exchange i zs k) = take i xs" using ih(2) True by (simp add: exchange_def)
    have "exchange i zs k ! i \<le> exchange i zs k ! j" if "i < j" "j < Suc k" for j
      using ih(3) [of j] that l Suc.prems True
      by (cases "j = k") (auto simp: exchange_def nth_list_update intro: less_imp_le order_trans)
    then show ?thesis unfolding e using m t by blast
  next
    case False
    then show ?thesis using Suc.prems by (simp add: less_Suc_eq)
  qed
qed simp

lemma exchange_rounds:
  assumes "m \<le> length xs"
  defines "ys \<equiv> foldl (\<lambda>xs' i. foldl (exchange i) xs' [i + 1..<length xs]) xs [0..<m]"
  shows "mset ys = mset xs \<and> (\<forall>a b. a < m \<longrightarrow> a \<le> b \<longrightarrow> b < length xs \<longrightarrow> ys ! a \<le> ys ! b)"
  using assms(1) unfolding ys_def
proof (induction m)
  case (Suc m)
  define zs where "zs = foldl (\<lambda>xs' i. foldl (exchange i) xs' [i + 1..<length xs]) xs [0..<m]"
  define vs where "vs = foldl (exchange m) zs [m + 1..<length xs]"
  have ih: "mset zs = mset xs" "\<And>a b. a < m \<Longrightarrow> a \<le> b \<Longrightarrow> b < length xs \<Longrightarrow> zs ! a \<le> zs ! b"
    using Suc by (simp_all add: zs_def)
  have l: "length zs = length xs" using ih(1) by (metis size_mset)
  have v: "mset vs = mset zs" "take m vs = take m zs" "\<And>j. m < j \<Longrightarrow> j < length xs \<Longrightarrow> vs ! m \<le> vs ! j"
    using exchange_round [of m "length xs" zs] Suc.prems l by (simp_all add: vs_def)
  have lv: "length vs = length xs" using v(1) l by (metis size_mset)
  have "mset (drop m vs) = mset (drop m zs)"
    using v(1,2) append_take_drop_id [of m vs] append_take_drop_id [of m zs] by (metis add_left_cancel mset_append)
  then have sd: "set (drop m vs) = set (drop m zs)" by (metis set_mset_mset)
  have le: "vs ! a \<le> vs ! b" if "a < Suc m" "a \<le> b" "b < length xs" for a b
  proof (cases "a = m")
    case True
    then show ?thesis using v(3) [of b] that by (cases "b = m") simp_all
  next
    case False
    then have am: "a < m" using that by simp
    with v(2) have a: "a < m" "vs ! a = zs ! a" using nth_take [of a m vs] nth_take [of a m zs] by simp_all
    show ?thesis
    proof (cases "b < m")
      case True
      then show ?thesis using a ih(2) [of a b] that v(2) nth_take [of b m vs] nth_take [of b m zs] by simp
    next
      case False
      then have "drop m vs ! (b - m) \<in> set (drop m vs)" using that lv by (intro nth_mem) simp
      then have "vs ! b \<in> set (drop m zs)" using that lv sd False by simp
      then obtain e where "e < length xs - m" "drop m zs ! e = vs ! b" unfolding in_set_conv_nth using l by auto
      then obtain c where "m \<le> c" "c < length xs" "zs ! c = vs ! b" using l Suc.prems
        by (intro that [of "m + e"]) simp_all
      then show ?thesis using ih(2) [of a c] a by simp
    qed
  qed
  have "foldl (\<lambda>xs' i. foldl (exchange i) xs' [i + 1..<length xs]) xs [0..<Suc m] = vs" by (simp add: zs_def vs_def)
  then show ?case using v(1) ih(1) le by (simp del: upt_Suc)
qed simp

text \<open>\<^verbatim>\<open>sortStrings\<close>, an exchange sort written out by hand, sorts.\<close>

lemma sort_strings_sorts: "sortStrings xs = sort xs"
proof -
  have s: "mset (sortStrings xs) = mset xs" "\<And>a b. a < length xs \<Longrightarrow> a \<le> b \<Longrightarrow> b < length xs \<Longrightarrow> sortStrings xs ! a \<le> sortStrings xs ! b"
    using exchange_rounds [of "length xs" xs] by (simp_all add: sortStrings_def)
  then have "length (sortStrings xs) = length xs" by (metis size_mset)
  with s(2) have "sorted (sortStrings xs)" by (simp add: sorted_iff_nth_mono)
  with s(1) show ?thesis by (metis properties_for_sort)
qed


section \<open>Registration\<close>

definition extension_tools :: "Env \<Rightarrow> ExtOut \<Rightarrow> ExtManager \<Rightarrow> World Tool list" where
  "extension_tools env xo m = plugin_tools xo m @ skill_tools xo m @ mcp_tools env xo m"

lemma named_tools: "t \<in> set (extension_tools env xo m) \<Longrightarrow> tool_Name t \<noteq> [] \<and> tool_Handler t \<noteq> None"
  by (auto simp: extension_tools_def plugin_tools_def skill_tools_def mcp_tools_def command_tool_def mcp_tool_def
      effectiveToolName_def mcpToolName_def Let_def split: if_splits)

lemma find_append: "find P (xs @ ys) = (case find P xs of Some x \<Rightarrow> Some x | None \<Rightarrow> find P ys)"
  by (induction xs) auto

lemma register_noting_spec:
  assumes "list_all (\<lambda>t. tool_Name t \<noteq> [] \<and> tool_Handler t \<noteq> None) ts"
  shows "\<exists>r'. register_noting ts (m, r) = (Inr (), (m\<lparr>em_registered := em_registered m @ map tool_Name ts\<rparr>, r'))
    \<and> (\<forall>n. get r' n = (case find (\<lambda>t. tool_Name t = n) (rev ts) of Some t \<Rightarrow> Some t | None \<Rightarrow> get r n))"
  using assms
proof (induction ts arbitrary: m r)
  case (Cons t ts)
  from Cons.IH [of "m\<lparr>em_registered := em_registered m @ [tool_Name t]\<rparr>" "put (tool_Name t) t r"] Cons.prems
  obtain r' where r: "register_noting ts (m\<lparr>em_registered := em_registered m @ [tool_Name t]\<rparr>, put (tool_Name t) t r)
      = (Inr (), (m\<lparr>em_registered := em_registered m @ tool_Name t # map tool_Name ts\<rparr>, r'))"
    "\<And>n. get r' n = (case find (\<lambda>t. tool_Name t = n) (rev ts) of Some t \<Rightarrow> Some t | None \<Rightarrow> get (put (tool_Name t) t r) n)"
    by auto
  show ?case
    using r Cons.prems
    by (intro exI [of _ r']) (auto simp: RegisterTool_def find_append split: option.split)
qed simp

text \<open>What may be offered, said of the manager's lists one entry at a time: an enabled plugin or skill with a command
  offers its tool, an enabled server each of the tools it listed. The number is the kind: plugins come first,
  then skills, then servers.\<close>

inductive offers :: "Env \<Rightarrow> ExtOut \<Rightarrow> ExtManager \<Rightarrow> nat \<Rightarrow> World Tool \<Rightarrow> bool" for env xo m where
  of_plugin: "p \<in> set (em_plugins m) \<Longrightarrow> pm_Enabled p \<Longrightarrow> spec_Command (pm_Tool p) \<noteq> [] \<Longrightarrow>
    offers env xo m 0 (command_tool (xo_run xo) (em_audit m) ''plugin'' (pm_Name p) (pm_Tool p))"
| of_skill: "d \<in> set (em_skills m) \<Longrightarrow> sd_Enabled d \<Longrightarrow> spec_Command (sd_Tool d) \<noteq> [] \<Longrightarrow>
    offers env xo m 1 (command_tool (xo_run xo) (em_audit m) ''skill'' (sd_Name d) (sd_Tool d))"
| of_server: "sv \<in> set (em_mcpServers m) \<Longrightarrow> ms_Enabled sv \<Longrightarrow> t \<in> set (ms_Tools sv) \<Longrightarrow>
    offers env xo m 2 (mcp_tool env (xo_mcp xo) (em_audit m) (ms_Name sv) (server_config m (ms_Name sv)) t)"

inductive_simps offers_plugin: "offers env xo m 0 t"
inductive_simps offers_skill: "offers env xo m (Suc 0) t"
inductive_simps offers_server: "offers env xo m 2 t"
inductive_cases offersE: "offers env xo m k t"

lemma offered_kinds:
  "t \<in> set (plugin_tools xo m) \<longleftrightarrow> offers env xo m 0 t"
  "t \<in> set (skill_tools xo m) \<longleftrightarrow> offers env xo m (Suc 0) t"
  "t \<in> set (mcp_tools env xo m) \<longleftrightarrow> offers env xo m 2 t"
  by (auto simp: offers_plugin offers_skill offers_server plugin_tools_def skill_tools_def mcp_tools_def)

lemma offers_kind: "offers env xo m k t \<Longrightarrow> k \<le> 2"
  by (erule offersE) simp_all

lemma offered_tools: "t \<in> set (extension_tools env xo m) \<longleftrightarrow> (\<exists>k. offers env xo m k t)"
proof
  assume "\<exists>k. offers env xo m k t"
  then obtain k where "offers env xo m k t" ..
  then show "t \<in> set (extension_tools env xo m)"
    by (rule offersE) (auto simp: extension_tools_def plugin_tools_def skill_tools_def mcp_tools_def)
qed (auto simp: extension_tools_def offered_kinds [where env = env])

text \<open>The tool that counts under a name: one of the last kind that offers the name.\<close>

definition counts :: "Env \<Rightarrow> ExtOut \<Rightarrow> ExtManager \<Rightarrow> string \<Rightarrow> World Tool \<Rightarrow> bool" where
  "counts env xo m n t \<longleftrightarrow> tool_Name t = n
     \<and> (\<exists>k. offers env xo m k t \<and> (\<forall>k' t'. offers env xo m k' t' \<and> tool_Name t' = n \<longrightarrow> k' \<le> k))"

lemma find_rev_counts:
  assumes "find (\<lambda>t. tool_Name t = n) (rev (extension_tools env xo m)) = Some t"
  shows "counts env xo m n t"
proof -
  let ?P = "\<lambda>t. tool_Name t = n"
  have none: "find ?P (rev ts) = None \<longleftrightarrow> (\<forall>t\<in>set ts. tool_Name t \<noteq> n)" for ts :: "World Tool list"
    by (auto simp: find_None_iff)
  have some: "find ?P (rev ts) = Some t \<Longrightarrow> tool_Name t = n \<and> t \<in> set ts" for ts
    by (auto simp: find_Some_iff in_set_conv_nth) (metis length_rev nth_mem set_rev in_set_conv_nth)
  have f: "find ?P (rev (extension_tools env xo m)) =
      (case find ?P (rev (mcp_tools env xo m)) of Some t \<Rightarrow> Some t
       | None \<Rightarrow> (case find ?P (rev (skill_tools xo m)) of Some t \<Rightarrow> Some t | None \<Rightarrow> find ?P (rev (plugin_tools xo m))))"
    by (simp add: extension_tools_def find_append split: option.split)
  have top: "k' \<le> 1" if "offers env xo m k' t'" "tool_Name t' = n" "find ?P (rev (mcp_tools env xo m)) = None" for k' t'
  proof -
    have "k' \<noteq> 2" using that iffD2 [OF offered_kinds(3) [where env = env]] unfolding none by blast
    then show ?thesis using offers_kind [OF that(1)] by simp
  qed
  have mid: "k' = 0" if "offers env xo m k' t'" "tool_Name t' = n" "find ?P (rev (mcp_tools env xo m)) = None"
    "find ?P (rev (skill_tools xo m)) = None" for k' t'
  proof -
    have "k' \<noteq> Suc 0" using that(1,2,4) iffD2 [OF offered_kinds(2) [where env = env]] unfolding none by blast
    then show ?thesis using top [OF that(1-3)] by simp
  qed
  show ?thesis
  proof (cases "find ?P (rev (mcp_tools env xo m))")
    case (Some x)
    then have "offers env xo m 2 t" "tool_Name t = n"
      using assms f some [of "mcp_tools env xo m"] by (simp_all add: offered_kinds [where env = env])
    then show ?thesis unfolding counts_def using offers_kind by blast
  next
    case None
    show ?thesis
    proof (cases "find ?P (rev (skill_tools xo m))")
      case (Some x)
      then have "offers env xo m (Suc 0) t" "tool_Name t = n"
        using assms f None some [of "skill_tools xo m"] by (simp_all add: offered_kinds [where env = env])
      then show ?thesis unfolding counts_def using top None by fastforce
    next
      case no: None
      then have "offers env xo m 0 t" "tool_Name t = n"
        using assms f None some [of "plugin_tools xo m"] by (simp_all add: offered_kinds [where env = env])
      then show ?thesis unfolding counts_def using mid None no by fastforce
    qed
  qed
qed

text \<open>C31. Registration always succeeds, whatever was registered before. Afterwards the registry finds under a name
  that an enabled extension offers a tool that is offered under it, of the last kind that offers the name; nothing
  under the names of earlier registrations that are no longer offered, so a disabled extension's tool is gone;
  and what it found before under every other name. The manager remembers exactly the offered names.\<close>

theorem extension_tools_refreshed:
  "\<exists>names r'. RegisterExtensions env xo (m, r) = (Inr (), (m\<lparr>em_registered := names\<rparr>, r'))
    \<and> set names = {tool_Name t | t. \<exists>k. offers env xo m k t}
    \<and> (\<forall>n. if n \<in> {tool_Name t | t. \<exists>k. offers env xo m k t} then \<exists>t. GetTool r' n = Some t \<and> counts env xo m n t
           else GetTool r' n = (if n \<in> set (em_registered m) then None else GetTool r n))"
proof -
  let ?ts = "extension_tools env xo m"
  have "list_all (\<lambda>t. tool_Name t \<noteq> [] \<and> tool_Handler t \<noteq> None) ?ts"
    using named_tools [of _ env xo m] by (auto simp: list_all_iff)
  from register_noting_spec [OF this, of "m\<lparr>em_registered := []\<rparr>" "Unregister (em_registered m) r"]
  obtain r' where reg0: "register_noting ?ts (m\<lparr>em_registered := []\<rparr>, Unregister (em_registered m) r)
      = (Inr (), (m\<lparr>em_registered := map tool_Name ?ts\<rparr>, r'))"
    and g0: "\<And>n. get r' n = (case find (\<lambda>t. tool_Name t = n) (rev ?ts) of Some t \<Rightarrow> Some t
        | None \<Rightarrow> get (Unregister (em_registered m) r) n)" by auto
  have reg: "RegisterExtensions env xo (m, r) = (Inr (), (m\<lparr>em_registered := map tool_Name ?ts\<rparr>, r'))"
    using reg0 by (simp add: RegisterExtensions_def extension_tools_def)
  have g: "GetTool r' n = (case find (\<lambda>t. tool_Name t = n) (rev ?ts) of Some t \<Rightarrow> Some t
        | None \<Rightarrow> if n \<in> set (em_registered m) then None else GetTool r n)" for n
    using g0 [of n] by (simp add: GetTool_def get_Unregister split: option.split)
  have names: "set (map tool_Name ?ts) = {tool_Name t | t. \<exists>k. offers env xo m k t}"
    unfolding set_map using offered_tools [of _ env xo m] by blast
  have none: "find (\<lambda>t. tool_Name t = n) (rev ?ts) = None \<longleftrightarrow> n \<notin> {tool_Name t | t. \<exists>k. offers env xo m k t}" for n
    unfolding find_None_iff by (auto simp: offered_tools)
  show ?thesis
  proof (intro exI conjI allI)
    show "if n \<in> {tool_Name t | t. \<exists>k. offers env xo m k t} then \<exists>t. GetTool r' n = Some t \<and> counts env xo m n t
        else GetTool r' n = (if n \<in> set (em_registered m) then None else GetTool r n)" for n
      using none [of n] g [of n] find_rev_counts [of n env xo m] by (auto split: option.split)
  qed (rule reg names)+
qed

section \<open>What discovery leaves alone\<close>

text \<open>Discovery reads files and starts servers; the database it only reads.\<close>

lemma files_same: "same w_store w (on_files f w)"
  by (simp add: same_def on_files_def split_beta)

lemma hash_same: "same w_store w (hashFiles env ps w)"
proof -
  have "w_store (snd (read_paths ps w)) = w_store w" for w
  proof (induction ps arbitrary: w)
    case (Cons p ps)
    obtain r w1 where r: "on_files (read_existing p) w = (r, w1)" by fastforce
    obtain x w2 where x: "read_paths ps w1 = (x, w2)" by fastforce
    have "w_store w1 = w_store w" using r files_same by (rule same_snd)
    then show ?case using Cons.IH [of w1] r x by simp
  qed simp
  then show ?thesis by (simp add: hashFiles_def same_def split_beta)
qed

lemma collect_same: "(\<And>x w. same obs w (f x w)) \<Longrightarrow> same obs w (collect f xs w)"
  by (induction xs arbitrary: w) (auto intro!: same_bind simp: same_def [of _ _ "(_, _)"])

lemma plugin_at_same: "same w_store w (plugin_at env xo rootd entry w)"
proof -
  obtain r w1 where r: "on_files (read_existing (path_join [rootd, entry, ''plugin.yaml''])) w = (r, w1)" by fastforce
  obtain h w2 where h: "hashFiles env [path_join [rootd, entry, ''plugin.yaml'']] w1 = (h, w2)" by fastforce
  have "w_store w1 = w_store w" "w_store w2 = w_store w1"
    using same_snd [OF r files_same] same_snd [OF h hash_same] by simp_all
  then show ?thesis
    using r h by (simp add: plugin_at_def Let_def same_def split: sum.split option.split)
qed

lemma skill_at_same: "same w_store w (skill_at env xo rootd entry w)"
proof -
  let ?d = "path_join [rootd, entry]"
  obtain r w1 where r: "on_files (read_existing (path_join [?d, ''SKILL.md''])) w = (r, w1)" by fastforce
  obtain q w2 where q: "on_files (read_existing (path_join [?d, ''skill.yaml''])) w1 = (q, w2)" by fastforce
  have "w_store w1 = w_store w" "w_store w2 = w_store w1"
    using same_snd [OF r files_same] same_snd [OF q files_same] by simp_all
  moreover obtain h1 v1 where h1: "hashFiles env [path_join [?d, ''SKILL.md''], path_join [?d, ''skill.yaml'']] w2 = (h1, v1)" by fastforce
  moreover obtain h2 v2 where h2: "hashFiles env [path_join [?d, ''SKILL.md'']] w2 = (h2, v2)" by fastforce
  moreover have "w_store v1 = w_store w2" "w_store v2 = w_store w2"
    using same_snd [OF h1 hash_same] same_snd [OF h2 hash_same] by simp_all
  ultimately show ?thesis
    using r q by (simp add: skill_at_def Let_def same_def split: sum.split option.split)
qed

lemma skills_in_same: "same w_store w (skills_in env xo rootd0 w)"
proof -
  let ?r = "trim_space rootd0"
  obtain r w1 where r: "on_files (read_dirs ?r) w = (r, w1)" by fastforce
  have 1: "w_store w1 = w_store w" using r files_same by (rule same_snd)
  show ?thesis
  proof (cases r)
    case (Inr entries)
    have "same w_store w1 (bind_res (collect (skill_at env xo ?r) entries w1) (\<lambda>ds w. (Inr (Some ds), w)))"
      by (intro same_bind collect_same skill_at_same) (simp add: same_def)
    then show ?thesis using r 1 Inr by (simp add: skills_in_def Let_def same_def)
  qed (use r 1 in \<open>simp add: skills_in_def Let_def same_def\<close>)
qed

lemma discover_skills_same: "same w_store w (discoverSkills env xo roots w)"
  unfolding discoverSkills_def by (intro same_bind collect_same skills_in_same) (simp add: same_def)

lemma discover_plugins_same: "same w_store w (discoverPlugins env xo rootd w)"
proof -
  obtain r w1 where r: "on_files (read_dirs rootd) w = (r, w1)" by fastforce
  have 1: "w_store w1 = w_store w" using r files_same by (rule same_snd)
  show ?thesis
  proof (cases r)
    case (Inr entries)
    have "same w_store w1 (bind_res (collect (plugin_at env xo rootd) entries w1) (\<lambda>ps w. (Inr (sort_key pm_Name ps), w)))"
      by (intro same_bind collect_same plugin_at_same) (simp add: same_def)
    then show ?thesis using r 1 Inr by (simp add: discoverPlugins_def Let_def same_def)
  qed (use r 1 in \<open>simp add: discoverPlugins_def Let_def same_def\<close>)
qed

lemma list_tools_same: "same w_store w (listMCPTools env mo name c w)"
proof -
  have "same w_store w (newMCPClient mo c w)" by (simp add: newMCPClient_def same_def split: sum.split)
  then have "same w_store w (mcp_call env mo c m params w)" for m params
    unfolding mcp_call_def by (rule same_bind) (simp add: same_def split: option.split prod.split)
  then show ?thesis unfolding listMCPTools_def by (rule same_bind) (simp add: same_def split: option.split)
qed

lemma statuses_same: "w_store (snd (server_statuses env xo ncs w)) = w_store w"
proof (induction ncs arbitrary: w)
  case (Cons nc ncs)
  have "w_store (snd (server_status env xo nc w)) = w_store w"
    using list_tools_same [of w env "xo_mcp xo" "fst nc" "snd nc"]
    by (auto simp: server_status_def Let_def same_def split_beta split: sum.split)
  then show ?case using Cons.IH by (simp add: split_beta)
qed simp

section \<open>Changes of state\<close>

definition stored_states :: "World \<Rightarrow> ExtensionState list" where
  "stored_states w = extension_states (w_store w)"

text \<open>A manager with the functions the container gives it, and tables that only it has written.\<close>

definition wired :: "ExtManager \<Rightarrow> bool" where
  "wired m \<longleftrightarrow> em_audit m = em_audit (app_extensions (em_cfg m)) \<and> em_stateReader m = em_stateReader (app_extensions (em_cfg m))
     \<and> em_stateWriter m = em_stateWriter (app_extensions (em_cfg m)) \<and> em_hookWriter m = em_hookWriter (app_extensions (em_cfg m))"

definition sound_states :: "World \<Rightarrow> bool" where
  "sound_states w \<longleftrightarrow> list_all (\<lambda>s. es_kind s \<in> {''plugin'', ''skill''}) (stored_states w)
     \<and> distinct (map (\<lambda>s. (es_kind s, es_name s)) (stored_states w))"

lemma exec_states:
  "(\<And>d. extension_states (f d) = extension_states d) \<Longrightarrow> extension_states (snd (exec f d)) = extension_states d"
  unfolding exec_def by (rule stmt_obs) simp_all

lemma audit_stored: "stored_states (opt_audit (Some audit) u ac t w) = stored_states w"
  by (simp add: opt_audit_def audit_def on_store_snd stored_states_def WriteAudit_def exec_states)

lemma command_stored: "same w_store w (executeCommandSpec run spec input w)"
  by (simp add: executeCommandSpec_def Let_def same_def on_processes_def split_beta split: sum.split)

lemma hook_stored: "wired m \<Longrightarrow> stored_states (writeHookResult m r w) = stored_states w"
  by (simp add: wired_def app_extensions_def writeHookResult_def on_store_snd stored_states_def InsertExtensionHookRun_def exec_states)

lemma wired_audit: "wired m \<Longrightarrow> em_audit m = Some audit"
  by (simp add: wired_def app_extensions_def)

lemma commandD: "executeCommandSpec run spec input w = (r, w') \<Longrightarrow> stored_states w' = stored_states w"
  using same_snd [OF _ command_stored] by (simp add: stored_states_def)

lemma validate_stored:
  "wired m \<Longrightarrow> stored_states (snd (validate_hooks xo m u kind name input hs acc w)) = stored_states w"
  by (induction hs arbitrary: acc w)
     (auto simp: Let_def wired_audit hook_stored audit_stored dest!: commandD split: prod.split sum.split)

lemma hooks_stored: "wired m \<Longrightarrow> stored_states (snd (run_hooks xo m u kind name phase input hs w)) = stored_states w"
  by (induction hs arbitrary: w)
     (auto simp: Let_def wired_audit hook_stored audit_stored dest!: commandD split: prod.split sum.split)

lemma change_stored: "wired m \<Longrightarrow> stored_states (snd (change_hooks xo m u kind name enabled w)) = stored_states w"
proof -
  assume m: "wired m"
  have h: "stored_states (snd (runLifecycleHooks xo m u kind name phase v)) = stored_states v" for phase v
    using hooks_stored [OF m] by (simp add: runLifecycleHooks_def split: sum.split prod.split)
  have "stored_states (snd (ValidateExtension xo m u kind name w)) = stored_states w"
    using validate_stored [OF m]
    by (auto simp: ValidateExtension_def wired_audit [OF m] audit_stored split_beta split: sum.split)
  then show ?thesis
    using h by (cases "ValidateExtension xo m u kind name w"; cases "snd (fst (ValidateExtension xo m u kind name w))")
      (auto simp: change_hooks_def)
qed


definition records :: "ExtensionState list \<Rightarrow> ExtensionStateRecord list" where
  "records ss = map (\<lambda>s. \<lparr>xs_Kind = es_kind s, xs_Name = es_name s, xs_Enabled = es_enabled s, xs_Hash = es_hash s\<rparr>)
     (sort_key (\<lambda>s. (es_kind s, es_name s)) ss)"

lemma find_unique:
  assumes "\<And>x y. x \<in> set xs \<Longrightarrow> y \<in> set xs \<Longrightarrow> P x \<Longrightarrow> P y \<Longrightarrow> x = y" "x \<in> set xs" "P x"
  shows "find P xs = Some x"
proof (cases "find P xs")
  case None
  then show ?thesis using assms(2,3) by (auto simp: find_None_iff)
next
  case (Some y)
  then have "y \<in> set xs" "P y" by (auto simp: find_Some_iff)
  then show ?thesis using Some assms by blast
qed

lemma state_of_entry:
  assumes "sound_states w" "kind \<in> {''plugin'', ''skill''}" "extension_entry (kind, n) (w_store w) = Some (e, h)"
  shows "\<exists>st. state_of (records (stored_states w)) (kind @ '':'' @ n) = Some st \<and> xs_Enabled st = e"
proof -
  let ?rec = "\<lambda>s. \<lparr>xs_Kind = es_kind s, xs_Name = es_name s, xs_Enabled = es_enabled s, xs_Hash = es_hash s\<rparr>"
  obtain s where f: "find (\<lambda>s. es_kind s = kind \<and> es_name s = n) (stored_states w) = Some s" and e: "es_enabled s = e"
    using assms(3) by (auto simp: extension_entry_def stored_states_def)
  have s: "s \<in> set (stored_states w)" "es_kind s = kind" "es_name s = n" using f by (auto simp: find_Some_iff)
  have key: "x = s" if "x \<in> set (stored_states w)" "es_kind x @ '':'' @ es_name x = kind @ '':'' @ n" for x
  proof -
    have "es_kind x \<in> {''plugin'', ''skill''}" using assms(1) that(1) by (auto simp: sound_states_def list_all_iff)
    then have "es_kind x = kind \<and> es_name x = n" using that(2) assms(2) by auto
    then show ?thesis
      using assms(1) that(1) s by (auto simp: sound_states_def distinct_map inj_on_def)
  qed
  have "state_of (records (stored_states w)) (kind @ '':'' @ n) = Some (?rec s)"
    unfolding state_of_def records_def
  proof (rule find_unique)
    show "?rec s \<in> set (rev (map ?rec (sort_key (\<lambda>s. (es_kind s, es_name s)) (stored_states w))))"
      unfolding set_rev set_map set_sort by (rule imageI [OF s(1)])
    show "xs_Kind (?rec s) @ '':'' @ xs_Name (?rec s) = kind @ '':'' @ n" using s by simp
    have "x = ?rec s" if x: "x \<in> set (rev (map ?rec (sort_key (\<lambda>s. (es_kind s, es_name s)) (stored_states w))))"
      "xs_Kind x @ '':'' @ xs_Name x = kind @ '':'' @ n" for x
    proof -
      from x(1) obtain a where a: "a \<in> set (stored_states w)" "x = ?rec a" unfolding set_rev set_map set_sort by blast
      with x(2) key [of a] show ?thesis by simp
    qed
    then show "x = y" if "x \<in> set (rev (map ?rec (sort_key (\<lambda>s. (es_kind s, es_name s)) (stored_states w))))"
      "y \<in> set (rev (map ?rec (sort_key (\<lambda>s. (es_kind s, es_name s)) (stored_states w))))"
      "xs_Kind x @ '':'' @ xs_Name x = kind @ '':'' @ n" "xs_Kind y @ '':'' @ xs_Name y = kind @ '':'' @ n" for x y
      using that by blast
  qed
  then show ?thesis using e by auto
qed

lemma states_read:
  assumes "wired m" "applyStoredStates m ps ss w = (res, w')"
  shows "stored_states w' = stored_states w \<and> (case res of Inl _ \<Rightarrow> True
    | Inr (ps', ss') \<Rightarrow> ps' = map (plugin_state (records (stored_states w))) ps \<and> ss' = map (skill_state (records (stored_states w))) ss)"
  using assms
  by (cases rule: stmt_cases [of "\<lambda>d. (Inr (sort_key (\<lambda>s. (es_kind s, es_name s)) (extension_states d)), d)" "w_store w"])
     (auto simp: applyStoredStates_def wired_def app_extensions_def on_store_def ListExtensionStates_def query_def records_def
       stored_states_def comp_def)

lemma discover_spec:
  assumes "wired m" "Discover env xo (m, w) = (res, (m', w'))"
  shows "stored_states w' = stored_states w \<and> (case res of Inl _ \<Rightarrow> m' = m
    | Inr _ \<Rightarrow> em_plugins m' \<in> range (map (plugin_state (records (stored_states w))))
        \<and> em_skills m' \<in> range (map (skill_state (records (stored_states w)))))"
proof -
  obtain r1 w1 where 1: "discoverPlugins env xo (ext_PluginsDir (cfg_Extensions (em_cfg m))) w = (r1, w1)" by fastforce
  obtain r2 w2 where 2: "discoverSkills env xo (ext_SkillsDirs (cfg_Extensions (em_cfg m))) w1 = (r2, w2)" by fastforce
  obtain svs w3 where 3: "discoverMCPServers env xo (cfg_MCPServers (em_cfg m)) w2 = (svs, w3)" by fastforce
  have "w_store w1 = w_store w" "w_store w2 = w_store w1" "w_store w3 = w_store w2"
    using same_snd [OF 1 discover_plugins_same] same_snd [OF 2 discover_skills_same] 3
      statuses_same [of env xo "sort_key fst (cfg_MCPServers (em_cfg m))" w2]
    by (simp_all add: discoverMCPServers_def)
  then have st: "stored_states w1 = stored_states w" "stored_states w2 = stored_states w" "stored_states w3 = stored_states w" by (simp_all add: stored_states_def)
  show ?thesis
  proof (cases r1)
    case p: (Inr ps)
    show ?thesis
    proof (cases r2)
      case s: (Inr ss)
      obtain r4 w4 where 4: "applyStoredStates m ps ss w3 = (r4, w4)" by fastforce
      show ?thesis using states_read [OF assms(1) 4] assms(2) 1 2 3 4 p s st
        by (cases r4) (auto simp: Discover_def Let_def)
    qed (use assms(2) 1 2 p st in \<open>auto simp: Discover_def Let_def\<close>)
  qed (use assms(2) 1 st in \<open>auto simp: Discover_def Let_def\<close>)
qed

lemma change_kind: "fst (change_hooks xo m u kind name enabled w) = None \<Longrightarrow> kind \<in> {''plugin'', ''skill''}"
  by (rule ccontr, cases enabled) (simp_all add: change_hooks_def runLifecycleHooks_def ValidateExtension_def lifecycleHooks_def Let_def)

lemma exec_changes:
  fixes d :: Store and g :: "ExtensionState list \<Rightarrow> ExtensionState list"
  defines "d' \<equiv> snd (exec (\<lambda>d. d\<lparr>extension_states := g (extension_states d)\<rparr>) d)"
  shows "extension_states d' = extension_states d \<or> extension_states d' = g (extension_states d)"
  unfolding d'_def
  by (cases rule: exec_state [of "\<lambda>d. d\<lparr>extension_states := g (extension_states d)\<rparr>" d]) simp_all

lemma write_state:
  assumes "on_store (UpsertExtensionState now kind name enabled hash) w = (res, w')" "sound_states w"
    "kind \<in> {''plugin'', ''skill''}"
  shows "sound_states w' \<and> (\<forall>k. k \<noteq> (kind, name) \<longrightarrow> extension_entry k (w_store w') = extension_entry k (w_store w))
    \<and> (res = Inr () \<longrightarrow> extension_entry (kind, name) (w_store w') = Some (enabled, hash))"
proof -
  obtain r d where u: "UpsertExtensionState now kind name enabled hash (w_store w) = (r, d)" by fastforce
  have w': "w' = w\<lparr>w_store := d\<rparr>" "res = Inr () \<longrightarrow> r = Inr ()"
    using assms(1) u by (auto simp: on_store_def split: sum.splits)
  have e: "extension_entry k d = (if k = (kind, name) \<and> r = Inr () then Some (enabled, hash) else extension_entry k (w_store w))" for k
    using ext_table.upsert_ok [of now "(kind, name)" "(enabled, hash)" "w_store w" "()" d k]
      ext_table.upsert_err [of now "(kind, name)" "(enabled, hash)" "w_store w" _ d k] u by (cases r) auto
  let ?keys = "\<lambda>ss. map (\<lambda>s. (es_kind s, es_name s)) ss"
  define g where "g = (\<lambda>ss. if list_ex (\<lambda>s. es_kind s = kind \<and> es_name s = name) ss
        then map (\<lambda>s. if es_kind s = kind \<and> es_name s = name
                      then s\<lparr>es_enabled := enabled, es_hash := hash, es_updated := to_stamp now\<rparr> else s) ss
        else ss @ [\<lparr>es_kind = kind, es_name = name, es_enabled = enabled, es_hash = hash, es_updated = to_stamp now\<rparr>])"
  have st: "stored_states w' = stored_states w \<or> stored_states w' = g (stored_states w)"
    using exec_changes [of g "w_store w"] u by (simp add: UpsertExtensionState_def g_def stored_states_def w'(1))
  have gk: "?keys (g ss) = ?keys ss \<or> ?keys (g ss) = ?keys ss @ [(kind, name)] \<and> (kind, name) \<notin> set (?keys ss)" for ss
    by (cases "list_ex (\<lambda>s. es_kind s = kind \<and> es_name s = name) ss") (simp add: g_def, auto simp: g_def list_ex_iff)
  have ks: "?keys (stored_states w') = ?keys (stored_states w)
      \<or> ?keys (stored_states w') = ?keys (stored_states w) @ [(kind, name)] \<and> (kind, name) \<notin> set (?keys (stored_states w))"
    by (rule disjE [OF st]) (simp_all only: gk simp_thms)
  have so: "sound_states v = (list_all (\<lambda>(k, n). k \<in> {''plugin'', ''skill''}) ks \<and> distinct ks)"
    if "ks = ?keys (stored_states v)" for v ks
    unfolding that by (simp add: sound_states_def list_all_iff)
  obtain ka kb where k: "ka = ?keys (stored_states w')" "kb = ?keys (stored_states w)" by blast
  have "ka = kb \<or> ka = kb @ [(kind, name)] \<and> (kind, name) \<notin> set kb" using ks unfolding k .
  then have "sound_states w'" using assms(2,3) so [OF k(1)] so [OF k(2)] by auto
  then show ?thesis using e w' by simp
qed

text \<open>C30. Enabling or disabling an extension: a failed hook is an error that stores nothing and leaves
  the manager as it was; other extensions' states stay; after a success the new state and the hash at
  the time are stored, and the extension is in that state wherever it was discovered.\<close>

theorem set_enabled_after_hooks:
  assumes "wired m" "sound_states w" "kind = trim_space kind0" "name = trim_space name0"
    and "SetEnabled env xo u kind0 name0 enabled (m, w) = (res, (m', w'))"
  shows "sound_states w'
    \<and> (\<forall>k. k \<noteq> (kind, name) \<longrightarrow> extension_entry k (w_store w') = extension_entry k (w_store w))
    \<and> (if fst (change_hooks xo m u kind name enabled w) \<noteq> None then is_ok (res, w') = False \<and> m' = m \<and> stored_states w' = stored_states w
       else is_ok (res, w') \<longrightarrow> extension_entry (kind, name) (w_store w') = Some (enabled, currentHash m kind name)
         \<and> (kind = ''plugin'' \<longrightarrow> (\<forall>p\<in>set (em_plugins m'). pm_Name p = name \<longrightarrow> pm_Enabled p = enabled))
         \<and> (kind = ''skill'' \<longrightarrow> (\<forall>d\<in>set (em_skills m'). sd_Name d = name \<longrightarrow> sd_Enabled d = enabled)))"
proof (cases "kind = [] \<or> name = []")
  case True
  then show ?thesis using assms by (auto simp: SetEnabled_def Let_def)
next
  case False
  let ?h = "currentHash m kind name"
  obtain err w1 where c: "change_hooks xo m u kind name enabled w = (err, w1)" by fastforce
  have s1: "stored_states w1 = stored_states w" using change_stored [OF assms(1), of xo u kind name enabled w] c by simp
  then have e1: "extension_entry k (w_store w1) = extension_entry k (w_store w)" for k
    by (simp add: extension_entry_def stored_states_def)
  have so1: "sound_states w1" using assms(2) s1 by (simp add: sound_states_def)
  have wr: "em_stateWriter m = Some (\<lambda>kind name enabled hash w. on_store (UpsertExtensionState (w_now w) kind name enabled hash) w)"
    using assms(1) by (simp add: wired_def app_extensions_def)
  show ?thesis
  proof (cases err)
    case (Some e)
    then show ?thesis using assms False c s1 e1 so1 by (auto simp: SetEnabled_def Let_def wr)
  next
    case None
    obtain r w2 where u2: "on_store (UpsertExtensionState (w_now w1) kind name enabled ?h) w1 = (r, w2)" by fastforce
    have k: "kind \<in> {''plugin'', ''skill''}" using change_kind c None by (metis fst_conv)
    note ws = write_state [OF u2 so1 k]
    show ?thesis
    proof (cases r)
      case (Inl e)
      then show ?thesis using assms False c None u2 ws e1 by (auto simp: SetEnabled_def Let_def wr)
    next
      case (Inr x)
      define w3 where "w3 = opt_audit (Some audit) u ''extension_state_changed''
         (kind_name kind name @ '' enabled='' @ show_bool enabled @ '' hash='' @ ?h) w2"
      have s3: "stored_states w3 = stored_states w2" by (simp add: w3_def audit_stored)
      have d: "Discover env xo (m, w3) = (res, (m', w'))"
        using assms False c None u2 Inr by (simp add: SetEnabled_def Let_def wr w3_def wired_audit)
      note ds = discover_spec [OF assms(1) d]
      have s': "stored_states w' = stored_states w2" using ds s3 by simp
      then have e': "extension_entry k (w_store w') = extension_entry k (w_store w2)" for k
        by (simp add: extension_entry_def stored_states_def)
      have so': "sound_states w'" using ws s' by (simp add: sound_states_def)
      have en: "extension_entry (kind, name) (w_store w') = Some (enabled, ?h)" using ws Inr e' by simp
      obtain st where st: "state_of (records (stored_states w3)) (kind @ '':'' @ name) = Some st" "xs_Enabled st = enabled"
        using state_of_entry [OF so' k en] s' s3 by auto
      have "kind = ''plugin'' \<longrightarrow> (\<forall>p\<in>set (em_plugins m'). pm_Name p = name \<longrightarrow> pm_Enabled p = enabled)"
        "kind = ''skill'' \<longrightarrow> (\<forall>d\<in>set (em_skills m'). sd_Name d = name \<longrightarrow> sd_Enabled d = enabled)" if "is_ok (res, w')"
        using ds st that by (cases res; auto simp: plugin_state_def skill_state_def split: option.splits)+
      then show ?thesis using c None so' en ws e' e1 by auto
    qed
  qed
qed

section \<open>A closed instance\<close>

definition demo_plugin :: PluginManifest where
  "demo_plugin = \<lparr>pm_Name = ''p'', pm_Version = [], pm_Description = [], pm_Enabled = True, pm_Provides = [], pm_Tool = no_tool,
     pm_Lifecycle = no_lifecycle\<lparr>lc_OnDisable := [\<lparr>hk_Name = ''bye'', hk_Command = ''true'', hk_ArgsTemplate = [], hk_Env = [],
       hk_TimeoutSeconds = 0\<rparr>]\<rparr>, pm_Path = [], pm_Hash = ''h'', pm_StateSource = []\<rparr>"

definition demo_out :: ExtOut where
  "demo_out =
     \<lparr>xo_run = (\<lambda>_ _ _ _ _. \<lparr>proc_deadline = False, proc_output = [], proc_error = None\<rparr>),
      xo_mcp = \<lparr>mo_start = (\<lambda>_ _ _. Inl ''none''), mo_http = (\<lambda>_ _ _ _ _. Inl ''none'')\<rparr>,
      xo_plugin_yaml = (\<lambda>_. Inr demo_plugin), xo_skill_yaml = (\<lambda>_. Inl ''none''), xo_yaml = (\<lambda>_. Inr [])\<rparr>"

definition demo_extensions :: ExtManager where
  "demo_extensions = (app_extensions Default)\<lparr>em_plugins := [demo_plugin]\<rparr>"

definition demo_ext_world :: World where
  "demo_ext_world = demo_world\<lparr>w_files := \<lparr>files =
     [(path_join [ext_PluginsDir (cfg_Extensions Default), ''p'', ''plugin.yaml''], ''name: p'')], answers = []\<rparr>\<rparr>"

theorem set_enabled_after_hooks_witness:
  "\<exists>m' w'. SetEnabled (demo_env []) demo_out ''ann'' ''plugin'' '' p'' False (demo_extensions, demo_ext_world) = (Inr (), (m', w'))
     \<and> map pm_Enabled (em_plugins m') = [False] \<and> extension_entry (''plugin'', ''p'') (w_store w') = Some (False, ''h'')"
proof -
  obtain res m' w' where s: "SetEnabled (demo_env []) demo_out ''ann'' ''plugin'' '' p'' False (demo_extensions, demo_ext_world)
      = (res, (m', w'))" by (metis prod.collapse)
  have "map_prod (\<lambda>r. case r of Inl e \<Rightarrow> False | Inr _ \<Rightarrow> True) (\<lambda>(m, w). map pm_Enabled (em_plugins m))
     (SetEnabled (demo_env []) demo_out ''ann'' ''plugin'' '' p'' False (demo_extensions, demo_ext_world)) = (True, [False])"
    by code_simp
  then have r: "res = Inr ()" "map pm_Enabled (em_plugins m') = [False]" using s by (auto split: sum.splits)
  have t: "''plugin'' = trim_space ''plugin''" "''p'' = trim_space '' p''" by code_simp+
  have "wired demo_extensions" by (simp add: wired_def demo_extensions_def app_extensions_def NewExtManager_def)
  moreover have "sound_states demo_ext_world" by code_simp
  moreover have "fst (change_hooks demo_out demo_extensions ''ann'' ''plugin'' ''p'' False demo_ext_world) = None" by code_simp
  moreover have "currentHash demo_extensions ''plugin'' ''p'' = ''h''" by code_simp
  ultimately have "extension_entry (''plugin'', ''p'') (w_store w') = Some (False, ''h'')"
    using set_enabled_after_hooks [OF _ _ t s] r(1) by simp
  with s r show ?thesis by (intro exI [of _ m'] exI [of _ w']) simp
qed

end
