(* ===== verification/Models.thy ===== *)
theory Models
  imports JsonCodec Config "HOL-Library.Product_Lexorder"
begin

text \<open>
  \<^verbatim>\<open>internal/models\<close>: aliases of model profiles, discovery of models on local endpoints, and the table
  of model metadata. URLs are parsed and fetched by the library (\<open>ModelOut\<close>).
\<close>

section \<open>The catalogue\<close>

definition DefaultCatalog :: "(string, string) gomap" where
  "DefaultCatalog =
     [(''gpt'', ''openai-gpt41-mini''), (''openai'', ''openai-gpt41-mini''), (''claude'', ''openrouter-claude-sonnet''),
      (''sonnet'', ''openrouter-claude-sonnet''), (''qwen'', ''ollama-qwen3''), (''ollama'', ''ollama-qwen3''),
      (''lmstudio'', ''lmstudio-local''), (''local'', ''lmstudio-local''), (''local-qwen'', ''ollama-qwen3'')]"

definition profile_text :: "LLMConfig \<Rightarrow> string" where
  "profile_text p = to_lower (trim_space (llm_DisplayName p @ '' '' @ llm_Model p))"

text \<open>The first profile whose texts contain the name is the first that the iteration of the map visits.\<close>

definition ResolveProfile :: "(string, string) gomap \<Rightarrow> (string, LLMConfig) gomap \<Rightarrow> string \<Rightarrow> string option" where
  "ResolveProfile aliases profiles raw =
     (let name = trim_space (to_lower raw) in
      if name = [] then None
      else if has_key name profiles then Some name
      else (case (case get aliases name of None \<Rightarrow> None | Some a \<Rightarrow> if has_key a profiles then Some a else None) of
              Some a \<Rightarrow> Some a
            | None \<Rightarrow>
                (case find (\<lambda>(n, p). contains name (profile_text p)) profiles of
                   Some (n, _) \<Rightarrow> Some n
                 | None \<Rightarrow> find (contains name) (sort (map fst profiles)))))"

section \<open>Discovery\<close>

record DiscoveredModel =
  dm_Source :: string
  dm_ProfileName :: string
  dm_DisplayName :: string
  dm_Model :: string
  dm_BaseURL :: string
  dm_Local :: bool
  dm_Config :: LLMConfig

record UrlParts =
  url_Scheme :: string
  url_Host :: string
  url_Hostname :: string
  url_Path :: string

text \<open>\<open>md_at raw path\<close> is the text of the parsed URL with another path; \<open>md_get\<close> answers a request after
  those before it, with its status and the first JSON value of its body.\<close>

record ModelOut =
  md_parse :: "string \<Rightarrow> UrlParts option"
  md_at :: "string \<Rightarrow> string \<Rightarrow> string"
  md_get :: "string list \<Rightarrow> string \<Rightarrow> string + int \<times> string \<times> (string + json)"

type_synonym 'a discovery = "(string, 'a, string list) outcome"

definition normalizeBase :: "ModelOut \<Rightarrow> string \<Rightarrow> string + UrlParts" where
  "normalizeBase mo raw =
     (case md_parse mo (trim_space raw) of
        None \<Rightarrow> Inl ''invalid url''
      | Some u \<Rightarrow> if url_Scheme u = [] \<or> url_Host u = [] then Inl (''invalid base url '' @ go_quote raw) else Inr u)"

fun dash_runs :: "bool \<Rightarrow> string \<Rightarrow> string" where
  "dash_runs prev [] = []"
| "dash_runs prev (c # s) =
     (if is_lower_alpha c \<or> is_digit c then c # dash_runs False s
      else if prev then dash_runs True s else CHR ''-'' # dash_runs True s)"

definition sanitizeProfileName :: "string \<Rightarrow> string" where
  "sanitizeProfileName value =
     (let dash = (\<lambda>c. c = CHR ''-'');
          result = rev (dropWhile dash (rev (dropWhile dash (dash_runs False (to_lower (trim_space value))))))
      in if result = [] then ''model'' else result)"

definition isLocalBaseURL :: "ModelOut \<Rightarrow> string \<Rightarrow> bool" where
  "isLocalBaseURL mo raw =
     (case md_parse mo (trim_space raw) of
        None \<Rightarrow> False | Some u \<Rightarrow> to_lower (url_Hostname u) = ''127.0.0.1'' \<or> to_lower (url_Hostname u) = ''localhost'')"

text \<open>The names in a list of objects under one member.\<close>

definition decode_names :: "string \<Rightarrow> string \<Rightarrow> (string \<times> json) list \<Rightarrow> string list option" where
  "decode_names list_key name_key m = do {
     js \<leftarrow> dec_list m list_key; those (map (decode_object (\<lambda>x. dec_str x name_key)) js) }"

definition found_model :: "string \<Rightarrow> string \<Rightarrow> LLMConfig \<Rightarrow> string \<Rightarrow> DiscoveredModel" where
  "found_model source label p name =
     (let cfg = p\<lparr>llm_Model := name, llm_DisplayName := label @ '' '' @ name, llm_Local := True\<rparr> in
      \<lparr>dm_Source = source, dm_ProfileName = source @ ''-'' @ sanitizeProfileName name, dm_DisplayName = llm_DisplayName cfg,
       dm_Model = name, dm_BaseURL = llm_BaseURL p, dm_Local = True, dm_Config = cfg\<rparr>)"

definition fetch_models :: "ModelOut \<Rightarrow> string \<Rightarrow> string \<Rightarrow> LLMConfig \<Rightarrow> string \<Rightarrow> string \<Rightarrow> string \<Rightarrow> string list \<Rightarrow> DiscoveredModel list discovery" where
  "fetch_models mo source label p list_key name_key url urls =
     (case md_get mo urls url of
        Inl e \<Rightarrow> Inl e
      | Inr (code, status, body) \<Rightarrow>
          if 300 \<le> code then Inl (source @ '' discovery failed with status '' @ status)
          else (case body of
                  Inl e \<Rightarrow> Inl e
                | Inr j \<Rightarrow>
                    (case decode_object (decode_names list_key name_key) j of
                       None \<Rightarrow> Inl ''json: cannot unmarshal the models''
                     | Some names \<Rightarrow> Inr (map (found_model source label p) (filter (\<lambda>n. trim_space n \<noteq> []) names)))),
      urls @ [url])"

definition discoverOllama :: "ModelOut \<Rightarrow> LLMConfig \<Rightarrow> string list \<Rightarrow> DiscoveredModel list discovery" where
  "discoverOllama mo p urls =
     (case normalizeBase mo (llm_BaseURL p) of
        Inl e \<Rightarrow> (Inl e, urls)
      | Inr u \<Rightarrow> fetch_models mo ''ollama'' ''Ollama'' p ''models'' ''name'' (md_at mo (trim_space (llm_BaseURL p)) ''/api/tags'') urls)"

definition capitalize :: "string \<Rightarrow> string" where
  "capitalize s = (case s of [] \<Rightarrow> [] | c # r \<Rightarrow> (if is_lower_alpha c then char_of (of_char c - 32 :: nat) else c) # r)"

definition trim_slashes :: "string \<Rightarrow> string" where
  "trim_slashes s = rev (dropWhile (\<lambda>c. c = CHR ''/'') (rev s))"

definition discoverOpenAICompatibleModels :: "ModelOut \<Rightarrow> string \<Rightarrow> LLMConfig \<Rightarrow> string list \<Rightarrow> DiscoveredModel list discovery" where
  "discoverOpenAICompatibleModels mo source p urls =
     (case normalizeBase mo (llm_BaseURL p) of
        Inl e \<Rightarrow> (Inl e, urls)
      | Inr u \<Rightarrow> fetch_models mo source (capitalize source) p ''data'' ''id''
                   (md_at mo (trim_space (llm_BaseURL p)) (path_join [trim_slashes (url_Path u), ''/models''])) urls)"

definition model_key :: "DiscoveredModel \<Rightarrow> string" where
  "model_key d = dm_Source d @ '':'' @ dm_Model d @ '':'' @ dm_BaseURL d"

definition add_model :: "DiscoveredModel list \<Rightarrow> DiscoveredModel \<Rightarrow> DiscoveredModel list" where
  "add_model ds d = (if model_key d \<in> set (map model_key ds) then ds else ds @ [d])"

definition add_found :: "DiscoveredModel list \<Rightarrow> string + DiscoveredModel list \<Rightarrow> DiscoveredModel list" where
  "add_found ds r = (case r of Inl e \<Rightarrow> ds | Inr items \<Rightarrow> foldl add_model ds items)"

fun discover_profiles :: "ModelOut \<Rightarrow> LLMConfig list \<Rightarrow> DiscoveredModel list \<Rightarrow> string list \<Rightarrow> DiscoveredModel list \<times> string list" where
  "discover_profiles mo [] ds urls = (ds, urls)"
| "discover_profiles mo (p # ps) ds urls =
     (let base = trim_space (llm_BaseURL p) in
      if \<not> llm_Local p \<and> \<not> isLocalBaseURL mo (llm_BaseURL p) \<or> base = [] \<or> md_parse mo base = None
      then discover_profiles mo ps ds urls
      else (case discoverOllama mo p urls of
              (r1, urls) \<Rightarrow>
                (case discoverOpenAICompatibleModels mo ''lmstudio'' p urls of
                   (r2, urls) \<Rightarrow> discover_profiles mo ps (add_found (add_found ds r1) r2) urls)))"

definition DiscoverLocalModels :: "ModelOut \<Rightarrow> (string, LLMConfig) gomap \<Rightarrow> string list \<Rightarrow> DiscoveredModel list \<times> string list" where
  "DiscoverLocalModels mo profiles urls =
     (case discover_profiles mo (map snd profiles) [] urls of
        (ds, urls) \<Rightarrow> (sort_key (\<lambda>d. (dm_Source d, dm_Model d)) ds, urls))"

section \<open>Metadata\<close>

record Metadata =
  meta_Provider :: string
  meta_Model :: string
  meta_DisplayName :: string
  meta_ContextWindow :: int
  meta_MaxOutput :: int
  meta_SupportsTools :: bool
  meta_SupportsVision :: bool
  meta_SupportsReasoning :: bool
  meta_SupportsPromptCache :: bool
  meta_Local :: bool
  meta_Source :: string
  meta_Notes :: string

definition ResolveMetadata :: "LLMConfig \<Rightarrow> Metadata" where
  "ResolveMetadata c =
     (let base = \<lparr>meta_Provider = llm_Provider c, meta_Model = llm_Model c, meta_DisplayName = llm_DisplayName c,
            meta_ContextWindow = 128000, meta_MaxOutput = 8192, meta_SupportsTools = True, meta_SupportsVision = False,
            meta_SupportsReasoning = False, meta_SupportsPromptCache = False, meta_Local = llm_Local c,
            meta_Source = ''builtin-lightweight-registry'', meta_Notes = []\<rparr>;
          model = to_lower (trim_space (llm_Model c))
      in if contains ''gpt-4.1'' model
         then base\<lparr>meta_ContextWindow := 1047576, meta_MaxOutput := 32768, meta_SupportsVision := True,
                meta_SupportsReasoning := True, meta_SupportsPromptCache := True,
                meta_Notes := ''OpenAI GPT-4.1 family; strong general tool use and large context.''\<rparr>
         else if contains ''claude'' model \<or> contains ''sonnet'' model
         then base\<lparr>meta_ContextWindow := 200000, meta_MaxOutput := 8192, meta_SupportsVision := True,
                meta_SupportsReasoning := True, meta_SupportsPromptCache := True,
                meta_Notes := ''Anthropic Claude family; good long-context and prompt-caching fit.''\<rparr>
         else if contains ''qwen'' model
         then base\<lparr>meta_ContextWindow := 131072, meta_MaxOutput := 8192, meta_SupportsVision := contains ''vl'' model,
                meta_SupportsReasoning := True,
                meta_Notes := ''Qwen family; common local deployment target for lightweight setups.''\<rparr>
         else if contains ''deepseek'' model
         then base\<lparr>meta_ContextWindow := 128000, meta_MaxOutput := 8192, meta_SupportsReasoning := True,
                meta_Notes := ''DeepSeek family; strong reasoning-oriented model line.''\<rparr>
         else if contains ''local-model'' model
         then base\<lparr>meta_ContextWindow := 32768, meta_MaxOutput := 4096,
                meta_Notes := ''Generic local OpenAI-compatible endpoint; values are conservative defaults.''\<rparr>
         else base\<lparr>meta_Notes := ''Fallback metadata for an OpenAI-compatible endpoint.''\<rparr>)"

definition ListProfileMetadata :: "(string, LLMConfig) gomap \<Rightarrow> (string, Metadata) gomap" where
  "ListProfileMetadata profiles = map (map_prod id ResolveMetadata) profiles"

end
