(* ===== verification/Trajectory.thy ===== *)
theory Trajectory
  imports Cron
begin

text \<open>
  \<^verbatim>\<open>internal/trajectory\<close>: records of sessions in one JSON-lines file per user. Times are encoded as in
  the job file of the scheduler (\<open>CronText\<close>).
\<close>

section \<open>Data\<close>

record TrajMessage =
  tj_From :: string
  tj_Value :: string

record TrajRecord =
  tr_ID :: string
  tr_Username :: string
  tr_SessionID :: int
  tr_Model :: string
  tr_Prompt :: string
  tr_Response :: string
  tr_Completed :: bool
  tr_Messages :: "TrajMessage list"
  tr_Metadata :: jmap
  tr_Timestamp :: time
  tr_Source :: string
  tr_Attributes :: "(string, string) gomap"

record ListFilters =
  lf_Limit :: int
  lf_RunName :: string
  lf_Model :: string
  lf_Source :: string
  lf_Completed :: "bool option"

record TrajSummary =
  ts_Total :: int
  ts_Completed :: int
  ts_BySource :: "(string, int) gomap"
  ts_ByModel :: "(string, int) gomap"
  ts_ByRunName :: "(string, int) gomap"
  ts_LastRecord :: string

definition normalizeTrajRole :: "string \<Rightarrow> string" where
  "normalizeTrajRole role =
     (let r = to_lower (trim_space role) in if r = ''assistant'' then ''assistant'' else if r = ''tool'' then ''tool'' else ''user'')"

definition sanitizeFilename :: "string \<Rightarrow> string" where
  "sanitizeFilename input = (if trim_space input = [] then ''anonymous'' else replace_chars (trim_space input))"

definition traj_dir :: "string \<Rightarrow> string" where
  "traj_dir dataDir = path_join [dataDir, ''trajectories'']"

section \<open>Records of sessions\<close>

definition session_record :: "string \<Rightarrow> int \<Rightarrow> Session \<Rightarrow> Message list \<Rightarrow> time \<Rightarrow> TrajRecord" where
  "session_record u sid s msgs now =
     \<lparr>tr_ID = ''session-'' @ show_int sid, tr_Username = u, tr_SessionID = sid, tr_Model = sess_model s,
      tr_Prompt = sess_prompt s, tr_Response = sess_response s, tr_Completed = True,
      tr_Messages = map (\<lambda>m. \<lparr>tj_From = normalizeTrajRole (msg_role m), tj_Value = msg_content m\<rparr>) msgs,
      tr_Metadata = [(''kind'', JStr (sess_kind s)), (''task_id'', JStr (sess_task s)),
        (''parent_session_id'', JInt (case sess_parent s of None \<Rightarrow> 0 | Some p \<Rightarrow> p))],
      tr_Timestamp = (let t = of_stamp (sess_created s) in if t = zero_time then now else t),
      tr_Source = ''chat-session'', tr_Attributes = []\<rparr>"

definition BuildFromSession :: "string \<Rightarrow> int \<Rightarrow> World \<Rightarrow> TrajRecord app_result" where
  "BuildFromSession u sid w =
     bind_res (on_store (GetSession sid) w) (\<lambda>s w.
     bind_res (on_store (GetMessages sid) w) (\<lambda>msgs w. (Inr (session_record u sid s msgs (w_now w)), w)))"

section \<open>Encoding\<close>

definition string_map_json :: "(string, string) gomap \<Rightarrow> json" where
  "string_map_json m = JObj (map (map_prod id JStr) m)"

definition record_fields :: "CronText \<Rightarrow> TrajRecord \<Rightarrow> (string \<times> json) list" where
  "record_fields ct r =
     [(''id'', JStr (tr_ID r)), (''username'', JStr (tr_Username r)), (''session_id'', JInt (tr_SessionID r)),
      (''model'', JStr (tr_Model r)), (''prompt'', JStr (tr_Prompt r)), (''response'', JStr (tr_Response r)),
      (''completed'', JBool (tr_Completed r)),
      (''conversations'', JArr (map (\<lambda>m. JObj [(''from'', JStr (tj_From m)), (''value'', JStr (tj_Value m))]) (tr_Messages r)))]
     @ (if tr_Metadata r \<noteq> [] then [(''metadata'', JObj (tr_Metadata r))] else [])
     @ [(''timestamp'', JStr (ct_time ct (tr_Timestamp r))), (''source'', JStr (tr_Source r))]
     @ (if tr_Attributes r \<noteq> [] then [(''attributes'', string_map_json (tr_Attributes r))] else [])"

definition decode_conversation :: "(string \<times> json) list \<Rightarrow> TrajMessage option" where
  "decode_conversation m = do { from1 \<leftarrow> dec_str m ''from''; v \<leftarrow> dec_str m ''value''; Some \<lparr>tj_From = from1, tj_Value = v\<rparr> }"

definition dec_string_map :: "(string \<times> json) list \<Rightarrow> string \<Rightarrow> (string, string) gomap option" where
  "dec_string_map m name = do {
     o1 \<leftarrow> dec_obj m name;
     those (map (\<lambda>(k, v). map_option (Pair k) (decode_string v)) o1) }"

definition decode_record :: "CronText \<Rightarrow> (string \<times> json) list \<Rightarrow> TrajRecord option" where
  "decode_record ct m = do {
     i \<leftarrow> dec_str m ''id''; u \<leftarrow> dec_str m ''username''; sid \<leftarrow> dec_int m ''session_id''; model \<leftarrow> dec_str m ''model'';
     prompt \<leftarrow> dec_str m ''prompt''; response \<leftarrow> dec_str m ''response''; completed \<leftarrow> dec_bool m ''completed'';
     cs \<leftarrow> dec_list m ''conversations''; messages \<leftarrow> those (map (decode_object decode_conversation) cs);
     metadata \<leftarrow> dec_obj m ''metadata''; t \<leftarrow> dec_time ct m ''timestamp''; source \<leftarrow> dec_str m ''source'';
     attributes \<leftarrow> dec_string_map m ''attributes'';
     Some \<lparr>tr_ID = i, tr_Username = u, tr_SessionID = sid, tr_Model = model, tr_Prompt = prompt, tr_Response = response,
       tr_Completed = completed, tr_Messages = messages, tr_Metadata = metadata, tr_Timestamp = t, tr_Source = source,
       tr_Attributes = attributes\<rparr> }"

section \<open>The file of a user\<close>

definition traj_path :: "string \<Rightarrow> string \<Rightarrow> string" where
  "traj_path dir u = path_join [dir, sanitizeFilename u @ ''.jsonl'']"

definition stamped_record :: "TrajRecord \<Rightarrow> time \<Rightarrow> TrajRecord" where
  "stamped_record r now =
     (let r1 = (if tr_Timestamp r = zero_time then r\<lparr>tr_Timestamp := now\<rparr> else r)
      in if trim_space (tr_ID r1) = [] then r1\<lparr>tr_ID := tr_Username r1 @ ''-'' @ show_int (tr_Timestamp r1)\<rparr> else r1)"

definition SaveRecord :: "Env \<Rightarrow> CronText \<Rightarrow> string \<Rightarrow> TrajRecord \<Rightarrow> World \<Rightarrow> string app_result" where
  "SaveRecord env ct dir r0 w =
     bind_res (on_files (mkdir_all dir) w) (\<lambda>_ w.
       (let r = stamped_record r0 (w_now w); path = traj_path dir (tr_Username r)
        in bind_res (on_files (append_file path (env_marshal env (JObj (record_fields ct r)) @ newline)) w)
             (\<lambda>_ w. (Inr path, w))))"

text \<open>\<^verbatim>\<open>bufio.Scanner\<close> on lines: it stops at a line that does not fit its buffer of 65536 bytes.\<close>

definition max_line :: nat where "max_line = 65535"

definition drop_cr :: "string \<Rightarrow> string" where
  "drop_cr s = (if s \<noteq> [] \<and> last s = CHR 0x0D then butlast s else s)"

function scan_lines :: "string \<Rightarrow> string list \<times> bool" where
  "scan_lines s =
     (if s = [] then ([], False)
      else (let l = takeWhile (\<lambda>c. c \<noteq> CHR 0x0A) s in
            if max_line < length l then ([], True)
            else (case scan_lines (drop (Suc (length l)) s) of (ls, long) \<Rightarrow> (drop_cr l # ls, long))))"
  by pat_completeness auto
termination
  by (relation "measure length") auto

declare scan_lines.simps [simp del]

definition traj_matches :: "ListFilters \<Rightarrow> TrajRecord \<Rightarrow> bool" where
  "traj_matches f r =
     ((lf_RunName f = [] \<or> get_str (tr_Attributes r) ''run_name'' = lf_RunName f)
      \<and> (lf_Model f = [] \<or> tr_Model r = lf_Model f) \<and> (lf_Source f = [] \<or> tr_Source r = lf_Source f)
      \<and> (case lf_Completed f of None \<Rightarrow> True | Some c \<Rightarrow> tr_Completed r = c))"

definition decode_lines :: "Env \<Rightarrow> CronText \<Rightarrow> string list \<Rightarrow> TrajRecord list" where
  "decode_lines env ct ls =
     List.map_filter (\<lambda>l. case env_unmarshal env l of Inl e \<Rightarrow> None | Inr j \<Rightarrow> decode_object (decode_record ct) j) ls"

text \<open>Newest first; \<^verbatim>\<open>sort.Slice\<close> promises no order of equal times, the model keeps that of the file.\<close>

definition ListFiltered :: "Env \<Rightarrow> CronText \<Rightarrow> string \<Rightarrow> string \<Rightarrow> ListFilters \<Rightarrow> World \<Rightarrow> TrajRecord list app_result" where
  "ListFiltered env ct dir u f w =
     (let limit = (if lf_Limit f \<le> 0 then 50 else lf_Limit f) in
      bind_res (on_files (read_existing (traj_path dir u)) w) (\<lambda>c w.
        case c of
          None \<Rightarrow> (Inr [], w)
        | Some content \<Rightarrow>
            (case scan_lines content of
               (ls, long) \<Rightarrow>
                 if long then (Inl ''bufio.Scanner: token too long'', w)
                 else (Inr (take (nat limit) (sort_key (\<lambda>r. - tr_Timestamp r)
                        (filter (traj_matches f) (decode_lines env ct ls)))), w))))"

definition no_filters :: ListFilters where
  "no_filters = \<lparr>lf_Limit = 0, lf_RunName = [], lf_Model = [], lf_Source = [], lf_Completed = None\<rparr>"

definition ListRecords :: "Env \<Rightarrow> CronText \<Rightarrow> string \<Rightarrow> string \<Rightarrow> int \<Rightarrow> World \<Rightarrow> TrajRecord list app_result" where
  "ListRecords env ct dir u limit = ListFiltered env ct dir u (no_filters\<lparr>lf_Limit := limit\<rparr>)"

definition GetRecord :: "Env \<Rightarrow> CronText \<Rightarrow> string \<Rightarrow> string \<Rightarrow> string \<Rightarrow> World \<Rightarrow> TrajRecord app_result" where
  "GetRecord env ct dir u i w =
     bind_res (ListRecords env ct dir u 10000 w) (\<lambda>rs w.
       case find (\<lambda>r. tr_ID r = i) rs of
         None \<Rightarrow> (Inl (''trajectory '' @ go_quote i @ '' not found''), w) | Some r \<Rightarrow> (Inr r, w))"

definition count_key :: "string \<Rightarrow> (string, int) gomap \<Rightarrow> (string, int) gomap" where
  "count_key k m = put k ((case get m k of None \<Rightarrow> 0 | Some n \<Rightarrow> n) + 1) m"

definition summarize_one :: "TrajSummary \<Rightarrow> TrajRecord \<Rightarrow> TrajSummary" where
  "summarize_one s r =
     (let run = get_str (tr_Attributes r) ''run_name'' in
      s\<lparr>ts_Total := ts_Total s + 1, ts_Completed := ts_Completed s + (if tr_Completed r then 1 else 0),
        ts_BySource := count_key (tr_Source r) (ts_BySource s), ts_ByModel := count_key (tr_Model r) (ts_ByModel s),
        ts_ByRunName := (if trim_space run \<noteq> [] then count_key run (ts_ByRunName s) else ts_ByRunName s),
        ts_LastRecord := (if ts_LastRecord s = [] then tr_ID r else ts_LastRecord s)\<rparr>)"

definition Summarize :: "Env \<Rightarrow> CronText \<Rightarrow> string \<Rightarrow> string \<Rightarrow> ListFilters \<Rightarrow> World \<Rightarrow> TrajSummary app_result" where
  "Summarize env ct dir u f w =
     bind_res (ListFiltered env ct dir u (f\<lparr>lf_Limit := 10000\<rparr>) w) (\<lambda>rs w.
       (Inr (foldl summarize_one
          \<lparr>ts_Total = 0, ts_Completed = 0, ts_BySource = [], ts_ByModel = [], ts_ByRunName = [], ts_LastRecord = []\<rparr> rs), w))"

end
