(* ===== verification/Batch.thy ===== *)
theory Batch
  imports Trajectory
begin

text \<open>
  \<^verbatim>\<open>internal/batch\<close>: runs of a dataset of prompts, one chat turn after the other, with a checkpoint
  file that a later run may resume.
\<close>

record BatchItem =
  bi_Prompt :: string
  bi_Meta :: "jmap option" \<comment> \<open>\<open>None\<close> for the nil map\<close>

record BatchResult =
  bx_Index :: int
  bx_Prompt :: string
  bx_Success :: bool
  bx_Response :: string
  bx_SessionID :: int
  bx_TrajectoryID :: string
  bx_Error :: string
  bx_Timestamp :: time

record BatchSummary =
  bs_RunName :: string
  bs_Username :: string
  bs_Total :: int
  bs_Succeeded :: int
  bs_Failed :: int
  bs_Trajectories :: int
  bs_TrajectoryDir :: string
  bs_Errors :: "string list"

record Checkpoint =
  cp_RunName :: string
  cp_Username :: string
  cp_DatasetFile :: string
  cp_Completed :: "(int, BatchResult) gomap"
  cp_UpdatedAt :: time
  cp_TotalRequested :: int

record RunOptions =
  ro_DatasetFile :: string
  ro_Resume :: bool

record BatchRunner =
  bt_app :: App
  bt_trajDir :: string
  bt_stateDir :: string

definition NewBatchRunner :: "App \<Rightarrow> string \<Rightarrow> BatchRunner" where
  "NewBatchRunner a trajDir =
     \<lparr>bt_app = a, bt_trajDir = trajDir, bt_stateDir = path_join [cfg_DataDir (app_Config a), ''batch'']\<rparr>"

section \<open>The dataset\<close>

definition decode_item :: "(string \<times> json) list \<Rightarrow> BatchItem option" where
  "decode_item m = do {
     prompt \<leftarrow> dec_str m ''prompt''; meta \<leftarrow> dec_opt Some m ''meta'';
     Some \<lparr>bi_Prompt = prompt, bi_Meta = meta\<rparr> }"

fun load_items :: "Env \<Rightarrow> string list \<Rightarrow> string + BatchItem list" where
  "load_items env [] = Inr []"
| "load_items env (l0 # ls) =
     (let line = trim_space l0 in
      if line = [] then load_items env ls
      else (case env_unmarshal env line of
              Inl e \<Rightarrow> Inl e
            | Inr j \<Rightarrow>
                (case decode_object decode_item j of
                   None \<Rightarrow> Inl ''json: cannot unmarshal the item''
                 | Some i \<Rightarrow> if trim_space (bi_Prompt i) = [] then load_items env ls
                            else (case load_items env ls of Inl e \<Rightarrow> Inl e | Inr is \<Rightarrow> Inr (i # is)))))"

text \<open>The items before a line that is too long are lost with the error the callers test.\<close>

definition LoadJSONL :: "Env \<Rightarrow> string \<Rightarrow> World \<Rightarrow> BatchItem list app_result" where
  "LoadJSONL env path w =
     bind_res (on_files (read_file path) w) (\<lambda>content w.
       case scan_lines content of
         (ls, long) \<Rightarrow>
           (case load_items env ls of
              Inl e \<Rightarrow> (Inl e, w)
            | Inr is \<Rightarrow> if long then (Inl ''bufio.Scanner: token too long'', w) else (Inr is, w)))"

section \<open>Checkpoints\<close>

definition result_fields :: "CronText \<Rightarrow> BatchResult \<Rightarrow> (string \<times> json) list" where
  "result_fields ct r =
     [(''index'', JInt (bx_Index r)), (''prompt'', JStr (bx_Prompt r)), (''success'', JBool (bx_Success r))]
     @ opt_str ''response'' (bx_Response r) @ opt_int ''session_id'' (bx_SessionID r)
     @ opt_str ''trajectory_id'' (bx_TrajectoryID r) @ opt_str ''error'' (bx_Error r)
     @ [(''timestamp'', JStr (ct_time ct (bx_Timestamp r)))]"

definition decode_result :: "CronText \<Rightarrow> (string \<times> json) list \<Rightarrow> BatchResult option" where
  "decode_result ct m = do {
     i \<leftarrow> dec_int m ''index''; prompt \<leftarrow> dec_str m ''prompt''; success \<leftarrow> dec_bool m ''success''; response \<leftarrow> dec_str m ''response'';
     sid \<leftarrow> dec_int m ''session_id''; tid \<leftarrow> dec_str m ''trajectory_id''; err \<leftarrow> dec_str m ''error''; t \<leftarrow> dec_time ct m ''timestamp'';
     Some \<lparr>bx_Index = i, bx_Prompt = prompt, bx_Success = success, bx_Response = response, bx_SessionID = sid,
       bx_TrajectoryID = tid, bx_Error = err, bx_Timestamp = t\<rparr> }"

definition checkpoint_fields :: "CronText \<Rightarrow> Checkpoint \<Rightarrow> (string \<times> json) list" where
  "checkpoint_fields ct c =
     [(''run_name'', JStr (cp_RunName c)), (''username'', JStr (cp_Username c))] @ opt_str ''dataset_file'' (cp_DatasetFile c)
     @ [(''completed'', JObj (map (\<lambda>(i, r). (show_int i, JObj (result_fields ct r))) (cp_Completed c))),
        (''updated_at'', JStr (ct_time ct (cp_UpdatedAt c))), (''total_requested'', JInt (cp_TotalRequested c))]"

definition decode_completed :: "CronText \<Rightarrow> (string \<times> json) list \<Rightarrow> (int, BatchResult) gomap option" where
  "decode_completed ct o1 =
     those (map (\<lambda>(k, v). do { i \<leftarrow> parse_int64 k; r \<leftarrow> decode_object (decode_result ct) v; Some (i, r) }) o1)"

definition decode_checkpoint :: "CronText \<Rightarrow> (string \<times> json) list \<Rightarrow> Checkpoint option" where
  "decode_checkpoint ct m = do {
     run \<leftarrow> dec_str m ''run_name''; u \<leftarrow> dec_str m ''username''; file \<leftarrow> dec_str m ''dataset_file'';
     o1 \<leftarrow> dec_obj m ''completed''; done \<leftarrow> decode_completed ct o1; t \<leftarrow> dec_time ct m ''updated_at'';
     total \<leftarrow> dec_int m ''total_requested'';
     Some \<lparr>cp_RunName = run, cp_Username = u, cp_DatasetFile = file, cp_Completed = done, cp_UpdatedAt = t,
       cp_TotalRequested = total\<rparr> }"

definition sanitizeRunName :: "string \<Rightarrow> string" where
  "sanitizeRunName input = replace_chars (trim_space input)"

definition checkpoint_path :: "BatchRunner \<Rightarrow> string \<Rightarrow> string \<Rightarrow> string" where
  "checkpoint_path b u run = path_join [bt_stateDir b, sanitizeRunName (u @ ''-'' @ run) @ ''.json'']"

definition LoadCheckpoint :: "Env \<Rightarrow> CronText \<Rightarrow> BatchRunner \<Rightarrow> string \<Rightarrow> string \<Rightarrow> World \<Rightarrow> Checkpoint app_result" where
  "LoadCheckpoint env ct b u run w =
     bind_res (on_files (read_file (checkpoint_path b u run)) w) (\<lambda>content w.
       case env_unmarshal env content of
         Inl e \<Rightarrow> (Inl e, w)
       | Inr j \<Rightarrow> (case decode_object (decode_checkpoint ct) j of
                      None \<Rightarrow> (Inl ''json: cannot unmarshal the checkpoint'', w) | Some c \<Rightarrow> (Inr c, w)))"

definition SaveCheckpoint :: "CronText \<Rightarrow> BatchRunner \<Rightarrow> Checkpoint \<Rightarrow> World \<Rightarrow> unit app_result" where
  "SaveCheckpoint ct b c0 w =
     bind_res (on_files (mkdir_all (bt_stateDir b)) w) (\<lambda>_ w.
       (let c = (if cp_UpdatedAt c0 = zero_time then c0\<lparr>cp_UpdatedAt := w_now w\<rparr> else c0)
        in on_files (write_file (checkpoint_path b (cp_Username c) (cp_RunName c)) (ct_indent ct (JObj (checkpoint_fields ct c)))) w))"

section \<open>Runs\<close>

record BatchState =
  st_results :: "BatchResult list"
  st_summary :: BatchSummary
  st_checkpoint :: Checkpoint

definition batch_error :: "int \<Rightarrow> string \<Rightarrow> string" where
  "batch_error i e = ''index='' @ show_int i @ '' err='' @ e"

definition take_over :: "BatchState \<Rightarrow> BatchResult \<Rightarrow> BatchState" where
  "take_over st r =
     (let s = st_summary st in
      st\<lparr>st_results := st_results st @ [r],
         st_summary := (if bx_Success r
           then s\<lparr>bs_Succeeded := bs_Succeeded s + 1, bs_Trajectories := bs_Trajectories s + (if bx_TrajectoryID r \<noteq> [] then 1 else 0)\<rparr>
           else s\<lparr>bs_Failed := bs_Failed s + 1,
                  bs_Errors := (if bx_Error r \<noteq> [] then bs_Errors s @ [batch_error (bx_Index r) (bx_Error r)] else bs_Errors s)\<rparr>)\<rparr>)"

definition start_batch :: "Env \<Rightarrow> CronText \<Rightarrow> BatchRunner \<Rightarrow> string \<Rightarrow> string \<Rightarrow> BatchItem list \<Rightarrow> RunOptions \<Rightarrow> World \<Rightarrow> BatchState \<times> World" where
  "start_batch env ct b u run items opts w =
     (let fresh = \<lparr>st_results = [],
            st_summary = \<lparr>bs_RunName = run, bs_Username = u, bs_Total = int (length items), bs_Succeeded = 0, bs_Failed = 0,
              bs_Trajectories = 0, bs_TrajectoryDir = bt_trajDir b, bs_Errors = []\<rparr>,
            st_checkpoint = \<lparr>cp_RunName = run, cp_Username = u, cp_DatasetFile = ro_DatasetFile opts, cp_Completed = [],
              cp_UpdatedAt = w_now w, cp_TotalRequested = int (length items)\<rparr>\<rparr>
      in if \<not> ro_Resume opts then (fresh, w)
         else (case LoadCheckpoint env ct b u run w of
                 (Inl e, w) \<Rightarrow> (fresh, w)
               | (Inr c, w) \<Rightarrow>
                   (let st = foldl take_over (fresh\<lparr>st_checkpoint := c\<rparr>) (map snd (cp_Completed c))
                    in (st\<lparr>st_results := sort_key bx_Index (st_results st)\<rparr>, w))))"

definition note_done :: "CronText \<Rightarrow> BatchRunner \<Rightarrow> BatchState \<Rightarrow> BatchResult \<Rightarrow> BatchSummary \<Rightarrow> World \<Rightarrow> BatchState \<times> World" where
  "note_done ct b st r s w =
     (let c = (st_checkpoint st)\<lparr>cp_Completed := put (bx_Index r) r (cp_Completed (st_checkpoint st)), cp_UpdatedAt := w_now w\<rparr>
      in (\<lparr>st_results = st_results st @ [r], st_summary = s, st_checkpoint = c\<rparr>, snd (SaveCheckpoint ct b c w)))"

definition save_trajectory :: "Env \<Rightarrow> CronText \<Rightarrow> BatchRunner \<Rightarrow> string \<Rightarrow> string \<Rightarrow> int \<Rightarrow> BatchItem \<Rightarrow> int \<Rightarrow> World \<Rightarrow> string \<times> World" where
  "save_trajectory env ct b u run i item sid w =
     (case BuildFromSession u sid w of
        (Inl e, w) \<Rightarrow> ([], w)
      | (Inr r0, w) \<Rightarrow>
          (let r1 = r0\<lparr>tr_Attributes := [(''run_name'', run), (''index'', show_int i)]\<rparr>;
               r = (case bi_Meta item of None \<Rightarrow> r1 | Some m \<Rightarrow> r1\<lparr>tr_Metadata := put ''dataset_meta'' (JObj m) (tr_Metadata r1)\<rparr>)
           in case SaveRecord env ct (bt_trajDir b) r w of
                (Inl e, w) \<Rightarrow> ([], w) | (Inr _, w) \<Rightarrow> (tr_ID r, w)))"

definition run_item :: "Env \<Rightarrow> CronText \<Rightarrow> BatchRunner \<Rightarrow> string \<Rightarrow> string \<Rightarrow> int \<Rightarrow> BatchItem \<Rightarrow> BatchState \<Rightarrow> World \<Rightarrow> BatchState \<times> World" where
  "run_item env ct b u run i item st w =
     (let r = \<lparr>bx_Index = i, bx_Prompt = bi_Prompt item, bx_Success = False, bx_Response = [], bx_SessionID = 0,
            bx_TrajectoryID = [], bx_Error = [], bx_Timestamp = w_now w\<rparr>; s = st_summary st
      in case ChatTurn env (bt_app b) u (bi_Prompt item) w of
           (Inl e, w) \<Rightarrow>
             note_done ct b st (r\<lparr>bx_Error := e\<rparr>)
               (s\<lparr>bs_Failed := bs_Failed s + 1, bs_Errors := bs_Errors s @ [batch_error i e]\<rparr>) w
         | (Inr c, w) \<Rightarrow>
             (case save_trajectory env ct b u run i item (chat_SessionID c) w of
                (tid, w) \<Rightarrow>
                  note_done ct b st
                    (r\<lparr>bx_TrajectoryID := tid, bx_Success := True, bx_Response := chat_Response c, bx_SessionID := chat_SessionID c\<rparr>)
                    (s\<lparr>bs_Trajectories := bs_Trajectories s + (if tid = [] then 0 else 1), bs_Succeeded := bs_Succeeded s + 1\<rparr>) w))"

fun run_items :: "Env \<Rightarrow> CronText \<Rightarrow> BatchRunner \<Rightarrow> string \<Rightarrow> string \<Rightarrow> int \<Rightarrow> BatchItem list \<Rightarrow> BatchState \<Rightarrow> World \<Rightarrow> BatchState \<times> World" where
  "run_items env ct b u run i [] st w = (st, w)"
| "run_items env ct b u run i (item # items) st w =
     (if get (cp_Completed (st_checkpoint st)) i \<noteq> None then run_items env ct b u run (i + 1) items st w
      else (case run_item env ct b u run i item st w of (st, w) \<Rightarrow> run_items env ct b u run (i + 1) items st w))"

definition RunWithOptions :: "Env \<Rightarrow> CronText \<Rightarrow> BatchRunner \<Rightarrow> string \<Rightarrow> string \<Rightarrow> BatchItem list \<Rightarrow> RunOptions \<Rightarrow> World \<Rightarrow> (BatchResult list \<times> BatchSummary) \<times> World" where
  "RunWithOptions env ct b u run items opts w =
     (case start_batch env ct b u run items opts w of
        (st, w) \<Rightarrow> (case run_items env ct b u run 0 items st w of
                      (st, w) \<Rightarrow> ((sort_key bx_Index (st_results st), st_summary st), w)))"

definition RunBatch :: "Env \<Rightarrow> CronText \<Rightarrow> BatchRunner \<Rightarrow> string \<Rightarrow> string \<Rightarrow> BatchItem list \<Rightarrow> World \<Rightarrow> (BatchResult list \<times> BatchSummary) \<times> World" where
  "RunBatch env ct b u run items = RunWithOptions env ct b u run items \<lparr>ro_DatasetFile = [], ro_Resume = False\<rparr>"

end
