(* ===== verification/BatchProps.thy ===== *)
theory BatchProps
  imports Batch CronProps ChildInvariants "HOL-Library.Multiset"
begin

text \<open>
  A batch run accounts for every item: what its checkpoint holds is taken over, the rest is run, each
  item once, and the summary counts what is in the results.
\<close>

definition tally :: "BatchState \<Rightarrow> bool" where
  "tally st \<longleftrightarrow>
     bs_Succeeded (st_summary st) = int (length (filter bx_Success (st_results st)))
   \<and> bs_Failed (st_summary st) = int (length (filter (\<lambda>r. \<not> bx_Success r) (st_results st)))
   \<and> bs_Trajectories (st_summary st) = int (length (filter (\<lambda>r. bx_Success r \<and> bx_TrajectoryID r \<noteq> []) (st_results st)))"

definition open_at :: "BatchState \<Rightarrow> int \<Rightarrow> bool" where
  "open_at st i = (get (cp_Completed (st_checkpoint st)) i = None)"

lemma take_over_tally: "tally st \<Longrightarrow> tally (take_over st r)"
  by (simp add: tally_def take_over_def Let_def)

lemma take_over_fields:
  "st_results (take_over st r) = st_results st @ [r]" "st_checkpoint (take_over st r) = st_checkpoint st"
  "bs_Total (st_summary (take_over st r)) = bs_Total (st_summary st)"
  by (simp_all add: take_over_def Let_def)

lemma take_over_all:
  "tally st \<Longrightarrow> tally (foldl take_over st rs) \<and> st_results (foldl take_over st rs) = st_results st @ rs
     \<and> st_checkpoint (foldl take_over st rs) = st_checkpoint st
     \<and> bs_Total (st_summary (foldl take_over st rs)) = bs_Total (st_summary st)"
  by (induction rs arbitrary: st) (simp_all add: take_over_tally take_over_fields)

lemma start_batch_spec:
  assumes "start_batch env ct b u run items opts w = (st, w')"
  shows "tally st \<and> mset (st_results st) = mset (map snd (cp_Completed (st_checkpoint st)))
    \<and> bs_Total (st_summary st) = int (length items)"
proof (cases "ro_Resume opts \<and> is_ok (LoadCheckpoint env ct b u run w)")
  case False
  then show ?thesis
    using assms by (auto simp: start_batch_def Let_def tally_def is_ok_def split: if_splits prod.splits sum.splits)
next
  case True
  then obtain c w1 where l: "LoadCheckpoint env ct b u run w = (Inr c, w1)" by (auto elim: is_okE)
  let ?st = "\<lparr>st_results = [],
            st_summary = \<lparr>bs_RunName = run, bs_Username = u, bs_Total = int (length items), bs_Succeeded = 0, bs_Failed = 0,
              bs_Trajectories = 0, bs_TrajectoryDir = bt_trajDir b, bs_Errors = []\<rparr>, st_checkpoint = c\<rparr>"
  have "tally ?st" by (simp add: tally_def)
  note t = take_over_all [OF this, of "map snd (cp_Completed c)"]
  have f: "length (filter P (sort_key bx_Index rs)) = length (filter P rs)" for P rs
    by (metis mset_filter mset_sort size_mset)
  show ?thesis
    using assms t True l by (auto simp: start_batch_def Let_def tally_def f)
qed

section \<open>The chats of a run\<close>

text \<open>Between chats a run writes files and reads the database: no table, no request to the model and no process
  is added, and prompt cache and clock stay.\<close>

definition quiet :: "World \<Rightarrow> World \<Rightarrow> bool" where
  "quiet w v \<longleftrightarrow> (\<exists>fs gs. v = w\<lparr>w_store := (w_store w)\<lparr>faults := fs\<rparr>, w_files := gs\<rparr>)"

lemma quiet_iff:
  "quiet w v \<longleftrightarrow> tables (w_store v) = tables (w_store w) \<and> w_spawned v = w_spawned w \<and> w_requests v = w_requests w
     \<and> w_cache v = w_cache w \<and> w_now v = w_now w"
proof
  assume r: "tables (w_store v) = tables (w_store w) \<and> w_spawned v = w_spawned w \<and> w_requests v = w_requests w
     \<and> w_cache v = w_cache w \<and> w_now v = w_now w"
  have "w_store v = (w_store w)\<lparr>faults := faults (w_store v)\<rparr>"
    using r by (cases "w_store v"; cases "w_store w") (simp add: tables_def)
  then have "v = w\<lparr>w_store := (w_store w)\<lparr>faults := faults (w_store v)\<rparr>, w_files := w_files v\<rparr>"
    using r by (cases v; cases w) simp
  then show "quiet w v" unfolding quiet_def by blast
qed (auto simp: quiet_def)

interpretation hush: preorder_steps quiet
  by unfold_locales (auto simp: quiet_iff)

lemma quiet_files: "follows quiet w (on_files f w)"
  by (cases "f (w_files w)") (auto simp: follows_def on_files_def quiet_iff)

lemma quiet_reads: "follows quiet w (on_store (GetSession sid) w)" "follows quiet w (on_store (GetMessages sid) w)"
proof -
  have q: "follows quiet w (on_store m w)" if "tables (snd (m (w_store w))) = tables (w_store w)" for m :: "Store \<Rightarrow> 'x db_result"
    using that by (cases "m (w_store w)") (auto simp: follows_def on_store_def quiet_iff split: sum.split)
  have "tables (snd (GetSession sid d)) = tables d" for d
    unfolding GetSession_def
    by (cases rule: stmt_cases [of "\<lambda>d. case find_session sid d of None \<Rightarrow> (Inl NoRows, d) | Some s \<Rightarrow> (Inr s, d)" d])
       (auto split: option.split)
  then show "follows quiet w (on_store (GetSession sid) w)" "follows quiet w (on_store (GetMessages sid) w)"
    by (simp_all add: q GetMessages_def GetMessagesPage_def query_tables)
qed

lemmas quiet_steps = quiet_files quiet_reads hush.state_steps

lemma quiet_start: "quiet w (snd (start_batch env ct b u run items opts w))"
proof -
  have "follows quiet w (LoadCheckpoint env ct b u run w)"
    unfolding LoadCheckpoint_def by (((rule quiet_steps) | (rule hush.value_steps))+)
  then show ?thesis
    by (auto simp: start_batch_def follows_def Let_def hush.step_refl split: prod.split sum.split)
qed

lemma quiet_note: "quiet w (snd (note_done ct b st r s w))"
proof -
  have "follows quiet w (SaveCheckpoint ct b c w)" for c
    unfolding SaveCheckpoint_def by (((rule quiet_steps) | (rule hush.let_value))+)
  then show ?thesis by (simp add: note_done_def follows_def Let_def)
qed

lemma quiet_trajectory: "follows quiet w (save_trajectory env ct b u run i item sid w)"
proof -
  have "follows quiet v (SaveRecord env ct dir r v)" for dir r v
    unfolding SaveRecord_def by (((rule quiet_steps) | (rule hush.let_value))+)
  note r = this
  have b: "follows quiet v (BuildFromSession u sid v)" for v
    unfolding BuildFromSession_def by (rule quiet_steps)+
  show ?thesis
    unfolding save_trajectory_def by (((rule r b quiet_steps) | (rule hush.value_steps))+)
qed

text \<open>One chat for each result, in order, with the prompt of the result, and the result says what the chat
  answered; nothing else is asked and nothing else is stored.\<close>

definition chat_result :: "(string, ChatResult, World) outcome \<Rightarrow> BatchResult \<Rightarrow> bool" where
  "chat_result r x \<longleftrightarrow>
     (case fst r of
        Inl e \<Rightarrow> \<not> bx_Success x \<and> bx_Error x = e
      | Inr c \<Rightarrow> bx_Success x \<and> bx_Response x = chat_Response c \<and> bx_SessionID x = chat_SessionID c)"

inductive chats_each :: "Env \<Rightarrow> App \<Rightarrow> string \<Rightarrow> BatchResult list \<Rightarrow> World \<Rightarrow> World \<Rightarrow> bool" for env a u where
  no_chat: "quiet w v \<Longrightarrow> chats_each env a u [] w v"
| one_chat: "quiet w w1 \<Longrightarrow> chat_result (ChatTurn env a u (bx_Prompt x) w1) x \<Longrightarrow>
    chats_each env a u xs (snd (ChatTurn env a u (bx_Prompt x) w1)) v \<Longrightarrow> chats_each env a u (x # xs) w v"

lemma chats_append: "chats_each env a u xs w v \<Longrightarrow> chats_each env a u ys v z \<Longrightarrow> chats_each env a u (xs @ ys) w z"
proof (induction rule: chats_each.induct)
  case (no_chat w v)
  from no_chat(2,1) show ?case
    by cases (auto intro: chats_each.intros hush.step_trans)
qed (auto intro: chats_each.intros)

lemma run_item_spec:
  assumes "run_item env ct b u run i item st w = (st', w')" "tally st"
  shows "tally st' \<and> (\<exists>r. st_results st' = st_results st @ [r] \<and> bx_Index r = i \<and> bx_Prompt r = bi_Prompt item
      \<and> chats_each env (bt_app b) u [r] w w')
    \<and> (\<forall>j. open_at st' j = (j \<noteq> i \<and> open_at st j)) \<and> bs_Total (st_summary st') = bs_Total (st_summary st)"
proof -
  obtain r w1 where c: "ChatTurn env (bt_app b) u (bi_Prompt item) w = (r, w1)" by fastforce
  define x where "x = \<lparr>bx_Index = i, bx_Prompt = bi_Prompt item, bx_Success = False, bx_Response = [], bx_SessionID = 0,
            bx_TrajectoryID = [], bx_Error = [], bx_Timestamp = w_now w\<rparr>"
  have chat: "chats_each env (bt_app b) u [y] w v"
    if "bx_Prompt y = bi_Prompt item" "chat_result (r, w1) y" "quiet w1 v" for y v
    using that c by (intro one_chat [OF hush.step_refl] no_chat) simp_all
  show ?thesis
  proof (cases r)
    case (Inl e)
    define y where "y = x\<lparr>bx_Error := e\<rparr>"
    have "chats_each env (bt_app b) u [y] w (snd (note_done ct b st y sm w1))" for sm
      by (rule chat [OF _ _ quiet_note]) (simp_all add: y_def x_def chat_result_def Inl)
    then show ?thesis
      using assms c Inl by (auto simp: run_item_def x_def y_def note_done_def Let_def tally_def open_at_def)
  next
    case (Inr cr)
    obtain tid w2 where t: "save_trajectory env ct b u run i item (chat_SessionID cr) w1 = (tid, w2)" by fastforce
    have q: "quiet w1 w2" using quiet_trajectory [of w1 env ct b u run i item "chat_SessionID cr"] t by (simp add: follows_def)
    define y where "y = x\<lparr>bx_TrajectoryID := tid, bx_Success := True, bx_Response := chat_Response cr, bx_SessionID := chat_SessionID cr\<rparr>"
    have "chats_each env (bt_app b) u [y] w (snd (note_done ct b st y sm w2))" for sm
      by (rule chat [OF _ _ hush.step_trans [OF q quiet_note]]) (simp_all add: y_def x_def chat_result_def Inr)
    then show ?thesis
      using assms c Inr t by (auto simp: run_item_def x_def y_def note_done_def Let_def tally_def open_at_def)
  qed
qed

lemma run_items_spec:
  assumes "run_items env ct b u run i items st w = (st', w')" "tally st"
  shows "tally st' \<and> bs_Total (st_summary st') = bs_Total (st_summary st)
    \<and> (\<exists>rs. st_results st' = st_results st @ rs \<and> map bx_Index rs = filter (open_at st) [i..i + int (length items) - 1]
          \<and> map bx_Prompt rs = map (\<lambda>j. bi_Prompt (items ! nat (j - i))) (map bx_Index rs)
          \<and> chats_each env (bt_app b) u rs w w')"
  using assms
proof (induction items arbitrary: i st w)
  case (Cons item items)
  have up: "[i..i + int (length (item # items)) - 1] = i # [i + 1..i + 1 + int (length items) - 1]"
    by (subst upto_rec1) (simp_all add: algebra_simps)
  have shift: "nat (k - i) = Suc (nat (k - (i + 1)))" if "i < k" for k :: int using that by arith
  have late: "map (\<lambda>j. bi_Prompt (items ! nat (j - (i + 1)))) (map bx_Index rs)
      = map (\<lambda>j. bi_Prompt ((item # items) ! nat (j - i))) (map bx_Index rs)"
    if "map bx_Index rs = filter P [i + 1..i + 1 + int (length items) - 1]" for rs P
    unfolding that by (rule map_cong) (auto simp: shift)
  show ?case
  proof (cases "open_at st i")
    case False
    then have "run_items env ct b u run (i + 1) items st w = (st', w')" using Cons.prems(1) by (simp add: open_at_def)
    from Cons.IH [OF this Cons.prems(2)] obtain rs where "tally st' \<and> bs_Total (st_summary st') = bs_Total (st_summary st)"
      and r: "st_results st' = st_results st @ rs" "map bx_Index rs = filter (open_at st) [i + 1..i + 1 + int (length items) - 1]"
        "map bx_Prompt rs = map (\<lambda>j. bi_Prompt (items ! nat (j - (i + 1)))) (map bx_Index rs)"
        "chats_each env (bt_app b) u rs w w'" by blast
    moreover have "map bx_Index rs = filter (open_at st) [i..i + int (length (item # items)) - 1]"
      unfolding up using r(2) False by simp
    ultimately show ?thesis using late [OF r(2)] r(4) by (intro conjI exI [of _ rs]) simp_all
  next
    case True
    obtain st1 w1 where 1: "run_item env ct b u run i item st w = (st1, w1)" by fastforce
    note s1 = run_item_spec [OF 1 Cons.prems(2)]
    then obtain r where r: "st_results st1 = st_results st @ [r]" "bx_Index r = i" "bx_Prompt r = bi_Prompt item"
      and chat: "chats_each env (bt_app b) u [r] w w1" by blast
    have 2: "run_items env ct b u run (i + 1) items st1 w1 = (st', w')"
      using Cons.prems(1) 1 True by (simp add: open_at_def)
    have f: "filter (open_at st1) [i + 1..i + 1 + int (length items) - 1] = filter (open_at st) [i + 1..i + 1 + int (length items) - 1]"
      using s1 by (intro filter_cong) auto
    have t1: "tally st1" using s1 by blast
    from Cons.IH [OF 2 t1] obtain rs where t0: "tally st' \<and> bs_Total (st_summary st') = bs_Total (st_summary st1)"
      and rs0: "st_results st' = st_results st1 @ rs" "map bx_Index rs = filter (open_at st1) [i + 1..i + 1 + int (length items) - 1]"
        "map bx_Prompt rs = map (\<lambda>j. bi_Prompt (items ! nat (j - (i + 1)))) (map bx_Index rs)"
        and chats: "chats_each env (bt_app b) u rs w1 w'" by blast
    note rs = rs0 [unfolded f]
    have t: "tally st' \<and> bs_Total (st_summary st') = bs_Total (st_summary st)" using t0 s1 by simp
    have "map bx_Index (r # rs) = filter (open_at st) [i..i + int (length (item # items)) - 1]"
      unfolding up using rs(2) r(2) True by simp
    moreover have "map bx_Prompt (r # rs) = map (\<lambda>j. bi_Prompt ((item # items) ! nat (j - i))) (map bx_Index (r # rs))"
      using late [OF rs(2)] rs(3) r by simp
    moreover have "chats_each env (bt_app b) u (r # rs) w w'" using chats_append [OF chat chats] by simp
    ultimately show ?thesis using t rs(1) r(1) by (intro conjI exI [of _ "r # rs"]) simp_all
  qed
qed (simp add: no_chat hush.step_refl)

text \<open>C36. The results of a batch run are those of the checkpoint it resumed, unchanged, and one for every item
  of the dataset whose index the checkpoint does not hold, with that item's prompt, sorted by index. The run
  is one chat turn for each of these items, in their order, whose answer or error is the item's result;
  before, between and after them no table changes, nothing is asked of the model and no process started. The
  summary counts exactly the results, whatever the model, the files and the database answer.\<close>

theorem batch_accounts_for_items:
  assumes "start_batch env ct b u run items opts w = (st, w1)"
    and "RunWithOptions env ct b u run items opts w = ((results, summary), w')"
  shows "sorted (map bx_Index results)
    \<and> (\<exists>rs. mset results = mset (map snd (cp_Completed (st_checkpoint st))) + mset rs
          \<and> map bx_Index rs = filter (open_at st) [0..int (length items) - 1]
          \<and> map bx_Prompt rs = map (\<lambda>i. bi_Prompt (items ! nat i)) (map bx_Index rs)
          \<and> chats_each env (bt_app b) u rs w w')
    \<and> bs_Total summary = int (length items)
    \<and> bs_Succeeded summary = int (length (filter bx_Success results))
    \<and> bs_Failed summary = int (length (filter (\<lambda>r. \<not> bx_Success r) results))
    \<and> bs_Trajectories summary = int (length (filter (\<lambda>r. bx_Success r \<and> bx_TrajectoryID r \<noteq> []) results))"
proof -
  note s0 = start_batch_spec [OF assms(1)]
  obtain st' where r: "run_items env ct b u run 0 items st w1 = (st', w')" "results = sort_key bx_Index (st_results st')"
    "summary = st_summary st'"
    using assms by (auto simp: RunWithOptions_def split: prod.splits)
  have "tally st" using s0 by blast
  from run_items_spec [OF r(1) this] obtain rs where t0: "tally st' \<and> bs_Total (st_summary st') = bs_Total (st_summary st)"
    and rs0: "st_results st' = st_results st @ rs" "map bx_Index rs = filter (open_at st) [0..0 + int (length items) - 1]"
    "map bx_Prompt rs = map (\<lambda>i. bi_Prompt (items ! nat (i - 0))) (map bx_Index rs)"
    and chats: "chats_each env (bt_app b) u rs w1 w'" by blast
  note rs = rs0 [unfolded add_0 diff_zero]
  have t: "tally st'" "bs_Total summary = int (length items)" using t0 s0 r(3) by simp_all
  have f: "length (filter P (sort_key bx_Index xs)) = length (filter P xs)" for P xs
    by (metis mset_filter mset_sort size_mset)
  have "mset results = mset (map snd (cp_Completed (st_checkpoint st))) + mset rs"
    using s0 rs(1) r(2) by simp
  moreover have "chats_each env (bt_app b) u ([] @ rs) w w'"
    using quiet_start [of w env ct b u run items opts] assms(1) by (intro chats_append [OF no_chat chats]) simp
  ultimately show ?thesis
    using rs(2,3) t unfolding r(2,3) by (auto simp: f tally_def simp del: map_map)
qed

definition demo_items :: "BatchItem list" where
  "demo_items = [\<lparr>bi_Prompt = ''hello'', bi_Meta = None\<rparr>, \<lparr>bi_Prompt = ''bye'', bi_Meta = None\<rparr>]"

theorem batch_accounts_for_items_witness:
  "\<exists>results summary w'. RunWithOptions (demo_env ''fine'') demo_cron_text (NewBatchRunner demo_app ''t'') ''ann'' ''r'' demo_items
        \<lparr>ro_DatasetFile = [], ro_Resume = False\<rparr> demo_world = ((results, summary), w')
     \<and> map bx_Index results = [0, 1] \<and> bs_Succeeded summary = 2 \<and> bs_Total summary = 2"
proof -
  let ?o = "\<lparr>ro_DatasetFile = [], ro_Resume = False\<rparr>"
  obtain results summary w' where r: "RunWithOptions (demo_env ''fine'') demo_cron_text (NewBatchRunner demo_app ''t'') ''ann'' ''r''
      demo_items ?o demo_world = ((results, summary), w')" by (metis prod.collapse)
  obtain st w1 where s: "start_batch (demo_env ''fine'') demo_cron_text (NewBatchRunner demo_app ''t'') ''ann'' ''r'' demo_items ?o
      demo_world = (st, w1)" by fastforce
  have "map_prod (\<lambda>(rs, s). (map bx_Index rs, map bx_Success rs)) (\<lambda>_. ()) (RunWithOptions (demo_env ''fine'') demo_cron_text (NewBatchRunner demo_app ''t'')
      ''ann'' ''r'' demo_items ?o demo_world) = (([0, 1], [True, True]), ())"
    by code_simp
  then have m: "map bx_Index results = [0, 1]" "map bx_Success results = [True, True]" using r by simp_all
  then have "length (filter bx_Success results) = 2" by (auto simp: map_eq_Cons_conv)
  then have "bs_Succeeded summary = 2 \<and> bs_Total summary = 2"
    using batch_accounts_for_items [OF s r] by (simp add: demo_items_def)
  with r m show ?thesis by (intro exI [of _ results] exI [of _ summary] exI [of _ w']) simp
qed

end
