(* ===== verification/Api.thy ===== *)
theory Api
  imports SlackWeixin Extensions Models
begin

text \<open>
  \<^verbatim>\<open>internal/api/server.go\<close>, first part: the server's state, requests and their answers, authentication,
  login, chat and the routes of multi-agent runs. A body that is a Go struct is the model's value of
  it (\<open>api_value\<close>); its JSON text follows from the struct tags.
\<close>

section \<open>State and answers\<close>

record executionProfileSummary =
  eps_Profile :: string
  eps_Total :: int
  eps_Success :: int
  eps_Denied :: int

datatype api_value =
    AvFields "(string \<times> json) list"
  | AvBudget ContextBudget
  | AvChat string ContextBudget
  | AvPlan Plan
  | AvRun Plan "Result list" Aggregate
  | AvTraces "MultiAgentTraceRecord list"
  | AvTraceSummary "MultiAgentTraceSummary list"
  | AvVerifiers "MultiAgentVerifierSummary list"
  | AvHotspots "MultiAgentTraceHotspot list"
  | AvReplay ChildReplay
  | AvResumed ChildResumed
  | AvMemory Snapshot
  | AvModels string LLMConfig "(string, LLMConfig) gomap"
  | AvDiscovered "DiscoveredModel list"
  | AvSwitched string LLMConfig
  | AvSessions "Session list"
  | AvHistory "(Session \<times> Message list) list"
  | AvSearch "SearchResult list"
  | AvAudit "AuditRecord list"
  | AvProfileAudit "AuditRecord list" "AuditActionSummary list" "executionProfileSummary list"
  | AvTools "World Tool list"
  | AvExtensions ExtSummary
  | AvHooks "ExtensionHookRecord list"

text \<open>An error page, a value with status 200, the reply of a gateway, the page for an unknown path, or no
  answer: the handler panics or never returns.\<close>

datatype api_reply = Failed string int | Answer api_value | GatewayReply HttpReply | NotFound | NoAnswer

record ApiOut =
  ao_env :: Env
  ao_gw :: GwEnv
  ao_ext :: ExtOut
  ao_models :: ModelOut
  ao_check :: "string \<Rightarrow> string \<Rightarrow> bool"
  ao_sign :: "string \<Rightarrow> Claims \<Rightarrow> string + string"
  ao_parse :: "string \<Rightarrow> string \<Rightarrow> string + (Claims option \<times> bool)"
  ao_schedule :: "World \<Rightarrow> par_event list" \<comment> \<open>how the goroutines of a run interleave\<close>

record ApiState =
  as_app :: App
  as_auth :: Service
  as_ext :: ExtManager
  as_gs :: GwState
  as_urls :: "string list"

definition as_world :: "ApiState \<Rightarrow> World" where
  "as_world s = gs_world (as_gs s)"

definition set_world :: "World \<Rightarrow> ApiState \<Rightarrow> ApiState" where
  "set_world w s = s\<lparr>as_gs := (as_gs s)\<lparr>gs_world := w\<rparr>\<rparr>"

definition in_world :: "(World \<Rightarrow> 'a \<times> World) \<Rightarrow> ApiState \<Rightarrow> 'a \<times> ApiState" where
  "in_world f s = (case f (as_world s) of (r, w) \<Rightarrow> (r, set_world w s))"

definition respond :: "int \<Rightarrow> ('a \<Rightarrow> api_value) \<Rightarrow> (string + 'a) \<times> ApiState \<Rightarrow> api_reply \<times> ApiState" where
  "respond code f rs = (case rs of (Inl e, s) \<Rightarrow> (Failed e code, s) | (Inr v, s) \<Rightarrow> (Answer (f v), s))"

definition bad_method :: api_reply where "bad_method = Failed ''method not allowed'' 405"
definition bad_json :: api_reply where "bad_json = Failed ''invalid json'' 400"

section \<open>Reading requests\<close>

definition query_of :: "HttpRequest \<Rightarrow> string \<Rightarrow> string" where
  "query_of r name = trim_space (rq_Query r name)"

definition int_param :: "HttpRequest \<Rightarrow> string \<Rightarrow> (int \<Rightarrow> bool) \<Rightarrow> int \<Rightarrow> string + int" where
  "int_param r name ok dflt =
     (if query_of r name = [] then Inr dflt
      else (case parse_int64 (query_of r name) of
              None \<Rightarrow> Inl (''invalid '' @ name) | Some v \<Rightarrow> if ok v then Inr v else Inl (''invalid '' @ name)))"

definition time_param :: "Env \<Rightarrow> HttpRequest \<Rightarrow> string \<Rightarrow> string \<Rightarrow> string + time option" where
  "time_param env r name err =
     (if query_of r name = [] then Inr None
      else (case env_parse_time env (query_of r name) of
              None \<Rightarrow> Inl err | Some t \<Rightarrow> Inr (if t = zero_time then None else Some t)))"

definition body_of :: "ApiOut \<Rightarrow> ((string \<times> json) list \<Rightarrow> 'a option) \<Rightarrow> HttpRequest \<Rightarrow> 'a option" where
  "body_of ao dec r = Option.bind (rq_Body r) (\<lambda>b. decode_struct dec (ge_decode_first (ao_gw ao) b))"

text \<open>Checks in sequence, the first error answering with status 400.\<close>

definition checked :: "string + 'a \<Rightarrow> ('a \<Rightarrow> ApiState \<Rightarrow> api_reply \<times> ApiState) \<Rightarrow> ApiState \<Rightarrow> api_reply \<times> ApiState" where
  "checked r k s = (case r of Inl e \<Rightarrow> (Failed e 400, s) | Inr v \<Rightarrow> k v s)"

definition positive :: "int \<Rightarrow> bool" where "positive v = (0 < v)"
definition natural :: "int \<Rightarrow> bool" where "natural v = (0 \<le> v)"
definition any_int :: "int \<Rightarrow> bool" where "any_int v = True"

definition parseLimitOffset :: "HttpRequest \<Rightarrow> int \<Rightarrow> int \<times> int" where
  "parseLimitOffset r dflt =
     (case int_param r ''limit'' positive dflt of Inl _ \<Rightarrow> dflt | Inr v \<Rightarrow> v,
      case int_param r ''offset'' natural 0 of Inl _ \<Rightarrow> 0 | Inr v \<Rightarrow> v)"

type_synonym api_handler = "ApiOut \<Rightarrow> string \<Rightarrow> HttpRequest \<Rightarrow> ApiState \<Rightarrow> api_reply \<times> ApiState"

definition authMiddleware :: "api_handler \<Rightarrow> ApiOut \<Rightarrow> HttpRequest \<Rightarrow> ApiState \<Rightarrow> api_reply \<times> ApiState" where
  "authMiddleware h ao r s =
     (let header = trim_space (rq_Header r ''Authorization'') in
      if \<not> has_prefix ''Bearer '' header then (Failed ''missing bearer token'' 401, s)
      else (case ParseToken (ao_parse ao) (as_auth s) (trim_space (trim_prefix ''Bearer '' header)) of
              Inl e \<Rightarrow> (Failed ''invalid token'' 401, s)
            | Inr c \<Rightarrow> h ao (cl_Username c) r s))"

section \<open>Login and chat\<close>

definition handleHealth :: "HttpRequest \<Rightarrow> ApiState \<Rightarrow> api_reply \<times> ApiState" where
  "handleHealth r s =
     (Answer (AvFields [(''ok'', JBool True), (''service'', JStr (cfg_AppName (app_Config (as_app s))))]), s)"

fun auth_error_text :: "Env \<Rightarrow> auth_error \<Rightarrow> string" where
  "auth_error_text env (PasswordTooShort n) = ''password length must be at least '' @ show_int n"
| "auth_error_text env (HashFailed e) = e"
| "auth_error_text env InvalidCredentials = ''invalid username or password''"
| "auth_error_text env (LockedUntil t) = ''account is temporarily locked until '' @ env_format_time env t"
| "auth_error_text env (SignFailed e) = e"
| "auth_error_text env (StoreFailed e) = db_error_text e"

definition on_auth :: "Env \<Rightarrow> (Store \<Rightarrow> 'a auth_result) \<Rightarrow> World \<Rightarrow> 'a app_result" where
  "on_auth env f w =
     (case f (w_store w) of
        (Inl e, d) \<Rightarrow> (Inl (auth_error_text env e), w\<lparr>w_store := d\<rparr>) | (Inr a, d) \<Rightarrow> (Inr a, w\<lparr>w_store := d\<rparr>))"

definition handleLogin :: "ApiOut \<Rightarrow> HttpRequest \<Rightarrow> ApiState \<Rightarrow> api_reply \<times> ApiState" where
  "handleLogin ao r s =
     (if rq_Method r \<noteq> ''POST'' then (bad_method, s)
      else (case body_of ao (\<lambda>m. do { u \<leftarrow> dec_str m ''username''; p \<leftarrow> dec_str m ''password''; Some (u, p) }) r of
              None \<Rightarrow> (bad_json, s)
            | Some (u, p) \<Rightarrow>
                respond 401 (\<lambda>token. AvFields [(''token'', JStr token)])
                  (in_world (\<lambda>w. on_auth (ao_env ao) (Login (ao_check ao) (ao_sign ao) (as_auth s) (w_now w) u p) w) s)))"

definition handleChat :: api_handler where
  "handleChat ao u r s =
     (case body_of ao (\<lambda>m. dec_str m ''prompt'') r of
        None \<Rightarrow> (bad_json, s)
      | Some prompt \<Rightarrow>
          if trim_space prompt = [] then (Failed ''prompt is required'' 400, s)
          else respond 502 (\<lambda>(response, budget). AvChat response budget)
                 (in_world (\<lambda>w. bind_res (EstimateContextBudget (ao_env ao) (as_app s) u prompt w) (\<lambda>budget w.
                    bind_res (AppChat (ao_env ao) (as_app s) u prompt w) (\<lambda>response w. (Inr (response, budget), w)))) s))"

definition handleContext :: api_handler where
  "handleContext ao u r s =
     (let prompt = query_of r ''prompt'' in
      if prompt = [] then (Failed ''prompt is required'' 400, s)
      else respond 502 AvBudget (in_world (EstimateContextBudget (ao_env ao) (as_app s) u prompt) s))"

section \<open>Multi-agent runs\<close>

definition decode_task :: "(string \<times> json) list \<Rightarrow> Task option" where
  "decode_task m = do {
     i \<leftarrow> dec_str m ''id''; title \<leftarrow> dec_str m ''title''; goal \<leftarrow> dec_str m ''goal''; ctx \<leftarrow> dec_str m ''context'';
     window \<leftarrow> dec_int m ''history_window''; tools \<leftarrow> dec_strings m ''allowed_tools'';
     prefixes \<leftarrow> dec_strings m ''allowed_prefixes''; scopes \<leftarrow> dec_strings m ''write_scopes'';
     Some \<lparr>task_ID = i, task_Title = title, task_Goal = goal, task_Context = ctx, task_HistoryWindow = window,
       task_AllowedTools = tools, task_AllowedPrefixes = prefixes, task_WriteScopes = scopes\<rparr> }"

definition decode_tasks :: "(string \<times> json) list \<Rightarrow> Task list option" where
  "decode_tasks m = do { js \<leftarrow> dec_list m ''tasks''; those (map (decode_object decode_task) js) }"

definition decode_plan :: "(string \<times> json) list \<Rightarrow> Plan option" where
  "decode_plan m = do {
     objective \<leftarrow> dec_str m ''objective''; mode \<leftarrow> dec_str m ''mode''; bound \<leftarrow> dec_int m ''max_concurrent'';
     parent \<leftarrow> dec_int m ''parent_session_id''; tasks \<leftarrow> decode_tasks m;
     Some \<lparr>plan_Objective = objective, plan_Mode = mode, plan_MaxConcurrent = bound, plan_ParentSessionID = parent,
       plan_Tasks = tasks\<rparr> }"

definition handleMultiAgentPlan :: api_handler where
  "handleMultiAgentPlan ao u r s =
     (if rq_Method r \<noteq> ''POST'' then (bad_method, s)
      else (case body_of ao (\<lambda>m. do { objective \<leftarrow> dec_str m ''objective''; tasks \<leftarrow> decode_tasks m; Some (objective, tasks) }) r of
              None \<Rightarrow> (bad_json, s)
            | Some (objective, tasks) \<Rightarrow>
                respond 400 AvPlan (in_world (BuildMultiAgentPlan (as_app s) u objective tasks) s)))"

definition handleMultiAgentRun :: api_handler where
  "handleMultiAgentRun ao u r s =
     (if rq_Method r \<noteq> ''POST'' then (bad_method, s)
      else (case body_of ao decode_plan r of
              None \<Rightarrow> (bad_json, s)
            | Some plan \<Rightarrow>
                (case in_world (\<lambda>w. RunMultiAgentPlan (ao_env ao) (as_app s) (ge_cancelled (ao_gw ao)) (ao_schedule ao w) u plan w) s of
                   (None, s) \<Rightarrow> (NoAnswer, s)
                 | (Some res, s) \<Rightarrow> respond 400 (\<lambda>(results, g). AvRun plan results g) (res, s))))"

definition multiAgentTraceFiltersFromRequest :: "Env \<Rightarrow> string \<Rightarrow> HttpRequest \<Rightarrow> string + MultiAgentTraceFilters" where
  "multiAgentTraceFiltersFromRequest env u r =
     (case int_param r ''parent_session_id'' any_int 0 of Inl e \<Rightarrow> Inl e | Inr parent \<Rightarrow>
     (case int_param r ''child_session_id'' any_int 0 of Inl e \<Rightarrow> Inl e | Inr child \<Rightarrow>
     (case int_param r ''limit'' positive 50 of Inl e \<Rightarrow> Inl e | Inr limit \<Rightarrow>
     (case int_param r ''offset'' natural 0 of Inl e \<Rightarrow> Inl e | Inr offset \<Rightarrow>
     (case time_param env r ''from'' ''invalid from'' of Inl e \<Rightarrow> Inl e | Inr t0 \<Rightarrow>
     (case time_param env r ''to'' ''invalid to'' of Inl e \<Rightarrow> Inl e | Inr t1 \<Rightarrow>
        Inr \<lparr>tf_user = u, tf_parent = parent, tf_child = child, tf_task = query_of r ''task_id'', tf_from = t0, tf_to = t1,
          tf_limit = limit, tf_offset = offset\<rparr>))))))"

definition trace_route :: "(MultiAgentTraceFilters \<Rightarrow> Store \<Rightarrow> 'a db_result) \<Rightarrow> ('a \<Rightarrow> api_value) \<Rightarrow> api_handler" where
  "trace_route op f ao u r s =
     checked (multiAgentTraceFiltersFromRequest (ao_env ao) u r)
       (\<lambda>filters s. respond 500 f (in_world (on_store (op filters)) s)) s"

definition handleMultiAgentTraces :: api_handler where
  "handleMultiAgentTraces = trace_route ListMultiAgentTraces AvTraces"

definition handleMultiAgentTraceSummary :: api_handler where
  "handleMultiAgentTraceSummary = trace_route SummarizeMultiAgentTraces AvTraceSummary"

definition handleMultiAgentVerifierSummary :: api_handler where
  "handleMultiAgentVerifierSummary = trace_route SummarizeMultiAgentVerifierResults AvVerifiers"

definition handleMultiAgentTraceFailures :: api_handler where
  "handleMultiAgentTraceFailures = trace_route ListMultiAgentTraceFailures AvTraces"

definition handleMultiAgentTraceHotspots :: api_handler where
  "handleMultiAgentTraceHotspots = trace_route ListMultiAgentTraceHotspots AvHotspots"

definition handleMultiAgentReplay :: api_handler where
  "handleMultiAgentReplay ao u r s =
     (if query_of r ''child_session_id'' = [] then (Failed ''child_session_id is required'' 400, s)
      else checked (int_param r ''child_session_id'' positive 0)
             (\<lambda>child s. respond 400 AvReplay (in_world (ReplayMultiAgentChild (ao_env ao) u child) s)) s)"

definition handleMultiAgentResume :: api_handler where
  "handleMultiAgentResume ao u r s =
     (if rq_Method r \<noteq> ''POST'' then (bad_method, s)
      else (case body_of ao (\<lambda>m. do { child \<leftarrow> dec_int m ''child_session_id''; tools \<leftarrow> dec_strings m ''allowed_tools'';
                    window \<leftarrow> dec_int m ''history_window''; Some (child, tools, window) }) r of
              None \<Rightarrow> (bad_json, s)
            | Some (child, tools, window) \<Rightarrow>
                respond 400 AvResumed (in_world (ResumeMultiAgentChild (ao_env ao) (as_app s) u child tools window) s)))"

end
