(* ===== verification/ApiRoutes.thy ===== *)
theory ApiRoutes
  imports Api
begin

text \<open>
  \<^verbatim>\<open>internal/api/server.go\<close>, second part: memory, models, history, search, audit, extensions and tools, and
  the table of routes.
\<close>

section \<open>Memory and models\<close>

definition handleMemory :: api_handler where
  "handleMemory ao u r s =
     (if rq_Method r = ''GET'' then respond 500 AvMemory (in_world (on_files (MgrRead (app_Memory (as_app s)) u)) s)
      else if rq_Method r \<noteq> ''POST'' then (bad_method, s)
      else (case body_of ao (\<lambda>m. do { target \<leftarrow> dec_str m ''target''; action \<leftarrow> dec_str m ''action'';
                    content \<leftarrow> dec_str m ''content''; match \<leftarrow> dec_str m ''match''; Some (target, action, content, match) }) r of
              None \<Rightarrow> (bad_json, s)
            | Some (target, action, content, match) \<Rightarrow>
                respond 400 AvMemory
                  (in_world (\<lambda>w. bind_res (on_files (MgrWrite (app_Memory (as_app s)) u target action content match) w)
                     (\<lambda>snap w. (Inr snap, snd (audit u ''memory_write'' ''api'' w)))) s)))"

definition handleModels :: api_handler where
  "handleModels ao u r s =
     (let c = app_Config (as_app s)
      in (Answer (AvModels (cfg_CurrentModelProfile c) (ResolvedLLM c) (ListModelProfiles c)), s))"

definition handleDiscoverModels :: api_handler where
  "handleDiscoverModels ao u r s =
     (case DiscoverLocalModels (ao_models ao) (ListModelProfiles (app_Config (as_app s))) (as_urls s) of
        (ds, urls) \<Rightarrow> (Answer (AvDiscovered ds), s\<lparr>as_urls := urls\<rparr>))"

record switchRequest =
  sw_Profile :: string
  sw_Model :: string
  sw_BaseURL :: string
  sw_Provider :: string
  sw_APIKey :: string
  sw_DisplayName :: string
  sw_Local :: bool

definition decode_switch :: "(string \<times> json) list \<Rightarrow> switchRequest option" where
  "decode_switch m = do {
     profile \<leftarrow> dec_str m ''profile''; model \<leftarrow> dec_str m ''model''; base_url \<leftarrow> dec_str m ''base_url''; provider \<leftarrow> dec_str m ''provider'';
     api_key \<leftarrow> dec_str m ''api_key''; display \<leftarrow> dec_str m ''display_name''; loc \<leftarrow> dec_bool m ''local'';
     Some \<lparr>sw_Profile = trim_space profile, sw_Model = trim_space model, sw_BaseURL = trim_space base_url,
       sw_Provider = trim_space provider, sw_APIKey = trim_space api_key, sw_DisplayName = trim_space display, sw_Local = loc\<rparr> }"

text \<open>The profile of a request that names a model: over the current one, except for its key.\<close>

definition switch_config :: "switchRequest \<Rightarrow> LLMConfig \<Rightarrow> LLMConfig" where
  "switch_config q c =
     c\<lparr>llm_Model := sw_Model q,
       llm_BaseURL := (if sw_BaseURL q \<noteq> [] then sw_BaseURL q else llm_BaseURL c),
       llm_Provider := (if sw_Provider q \<noteq> [] then sw_Provider q else llm_Provider c),
       llm_APIKey := sw_APIKey q,
       llm_DisplayName := (if sw_DisplayName q \<noteq> [] then sw_DisplayName q else llm_DisplayName c),
       llm_Local := sw_Local q\<rparr>"

definition switch_name :: "switchRequest \<Rightarrow> string" where
  "switch_name q =
     (if sw_Profile q \<noteq> [] then sw_Profile q
      else ''custom-'' @ map (\<lambda>c. if c = CHR '':'' then CHR ''-'' else c) (to_lower (sw_Model q)))"

definition switched :: "(string + unit) \<times> App \<times> World \<Rightarrow> ApiState \<Rightarrow> api_reply \<times> ApiState" where
  "switched raw s =
     (case raw of (res, a, w) \<Rightarrow>
        respond 400 (\<lambda>_. AvSwitched (cfg_CurrentModelProfile (app_Config a)) (ResolvedLLM (app_Config a)))
          (res, set_world w (s\<lparr>as_app := a\<rparr>)))"

definition handleModelSwitch :: api_handler where
  "handleModelSwitch ao u r s =
     (if rq_Method r \<noteq> ''POST'' then (bad_method, s)
      else (case body_of ao decode_switch r of
              None \<Rightarrow> (bad_json, s)
            | Some q \<Rightarrow>
                if sw_Model q \<noteq> []
                then switched (SwitchModelConfig u (switch_name q) (switch_config q (ResolvedLLM (app_Config (as_app s))))
                       (as_app s) (as_world s)) s
                else if sw_Profile q = [] then (Failed ''profile or model is required'' 400, s)
                else (let name = (case ResolveProfile DefaultCatalog (ListModelProfiles (app_Config (as_app s))) (sw_Profile q) of
                                    None \<Rightarrow> sw_Profile q | Some n \<Rightarrow> n)
                      in switched (SwitchModelProfile u name (as_app s) (as_world s)) s)))"

section \<open>Sessions and search\<close>

definition handleSessions :: api_handler where
  "handleSessions ao u r s = respond 500 AvSessions (in_world (on_store (ListSessions u 20)) s)"

fun histories :: "Session list \<Rightarrow> int \<Rightarrow> int \<Rightarrow> World \<Rightarrow> (Session \<times> Message list) list app_result" where
  "histories [] limit offset w = (Inr [], w)"
| "histories (x # xs) limit offset w =
     bind_res (on_store (GetMessagesPage (sess_id x) limit offset) w) (\<lambda>ms w.
     bind_res (histories xs limit offset w) (\<lambda>hs w. (Inr ((x, ms) # hs), w)))"

definition handleHistory :: api_handler where
  "handleHistory ao u r s =
     checked (int_param r ''limit'' positive 20) (\<lambda>limit.
     checked (int_param r ''offset'' natural 0) (\<lambda>offset.
     checked (int_param r ''messages_limit'' natural 20) (\<lambda>mlimit.
     checked (int_param r ''messages_offset'' natural 0) (\<lambda>moffset s.
       respond 500 AvHistory (in_world (\<lambda>w. bind_res (on_store (ListSessionsPage u limit offset) w)
         (\<lambda>sessions. histories sessions mlimit moffset)) s))))) s"

definition handleSearch :: api_handler where
  "handleSearch ao u r s =
     (if query_of r ''q'' = [] then (Failed ''q is required'' 400, s)
      else checked (int_param r ''session_id'' any_int 0) (\<lambda>sid.
           checked (time_param (ao_env ao) r ''from'' ''invalid from time'') (\<lambda>t0.
           checked (time_param (ao_env ao) r ''to'' ''invalid to time'') (\<lambda>t1 s.
             respond 500 AvSearch (in_world (on_store (SearchMessages (env_fts (ao_env ao)) (env_snippet (ao_env ao))
               \<lparr>sf_user = u, sf_query = query_of r ''q'', sf_role = query_of r ''role'', sf_session = sid, sf_from = t0,
                sf_to = t1, sf_limit = 20\<rparr>)) s)))) s)"

section \<open>Audit\<close>

definition audit_filters :: "string \<Rightarrow> string \<Rightarrow> time option \<Rightarrow> time option \<Rightarrow> int \<Rightarrow> int \<Rightarrow> AuditFilters" where
  "audit_filters u action t0 t1 limit offset =
     \<lparr>af_user = u, af_action = action, af_from = t0, af_to = t1, af_limit = limit, af_offset = offset\<rparr>"

definition handleAudit :: api_handler where
  "handleAudit ao u r s =
     checked (int_param r ''limit'' positive 50) (\<lambda>limit.
     checked (int_param r ''offset'' natural 0) (\<lambda>offset.
     checked (time_param (ao_env ao) r ''from'' ''invalid from time'') (\<lambda>t0.
     checked (time_param (ao_env ao) r ''to'' ''invalid to time'') (\<lambda>t1 s.
       respond 500 AvAudit (in_world (on_store (ListAuditFiltered
         (audit_filters u (query_of r ''action'') t0 t1 limit offset))) s))))) s"

definition handleExecutionAudit :: api_handler where
  "handleExecutionAudit ao u r s =
     checked (int_param r ''limit'' positive 50) (\<lambda>limit.
     checked (int_param r ''offset'' natural 0) (\<lambda>offset s.
       respond 500 (\<lambda>rs. AvAudit (filter (\<lambda>x. has_prefix ''system_exec_'' (audit_action x)) rs))
         (in_world (on_store (ListAuditFiltered (audit_filters u [] None None limit offset))) s))) s"

definition extractAuditDetailValue :: "string \<Rightarrow> string \<Rightarrow> string" where
  "extractAuditDetailValue detail key =
     (case filter (has_prefix (key @ ''='')) (Prelude.fields (trim_space detail)) of
        [] \<Rightarrow> [] | part # _ \<Rightarrow> trim_space (trim_prefix (key @ ''='') part))"

definition count_profile :: "(string, executionProfileSummary) gomap \<Rightarrow> AuditRecord \<Rightarrow> (string, executionProfileSummary) gomap" where
  "count_profile m x =
     (let v = extractAuditDetailValue (audit_detail x) ''profile''; p = (if v = [] then ''unknown'' else v);
          e = (case get m p of None \<Rightarrow> \<lparr>eps_Profile = p, eps_Total = 0, eps_Success = 0, eps_Denied = 0\<rparr> | Some e \<Rightarrow> e);
          e1 = e\<lparr>eps_Total := eps_Total e + 1\<rparr>
      in put p (if has_suffix ''_success'' (audit_action x) then e1\<lparr>eps_Success := eps_Success e1 + 1\<rparr>
                else if has_suffix ''_denied'' (audit_action x) then e1\<lparr>eps_Denied := eps_Denied e1 + 1\<rparr> else e1) m)"

definition handleExecutionProfileAudit :: api_handler where
  "handleExecutionProfileAudit ao u r s =
     checked (time_param (ao_env ao) r ''from'' ''invalid from time'') (\<lambda>t0.
     checked (time_param (ao_env ao) r ''to'' ''invalid to time'') (\<lambda>t1 s.
       respond 500 (\<lambda>(rs, totals). AvProfileAudit rs totals (map snd (foldl count_profile [] rs)))
         (in_world (\<lambda>w.
            bind_res (on_store (ListAuditFiltered (audit_filters u ''system_exec_profile_%'' t0 t1 200 0)) w) (\<lambda>rs w.
            bind_res (on_store (SummarizeAuditActions (audit_filters u ''system_exec_profile_%'' t0 t1 0 0)) w) (\<lambda>totals w.
              (Inr (rs, totals), w)))) s))) s"

section \<open>Tools and extensions\<close>

definition handleTools :: api_handler where
  "handleTools ao u r s = (Answer (AvTools (ListTools (app_Tools (as_app s)))), s)"

definition handleExtensions :: api_handler where
  "handleExtensions ao u r s = (Answer (AvExtensions (ExtensionSummary (as_ext s))), s)"

definition handleExtensionHooks :: api_handler where
  "handleExtensionHooks ao u r s =
     (case parseLimitOffset r 50 of (limit, offset) \<Rightarrow>
        respond 400 AvHooks (in_world (on_store (ListExtensionHookRuns
          \<lparr>hf_user = u, hf_kind = query_of r ''kind'', hf_name = query_of r ''name'', hf_phase = query_of r ''phase'',
           hf_limit = limit, hf_offset = offset\<rparr>)) s))"

definition on_ext :: "(ExtManager \<times> World \<Rightarrow> 'a \<times> (ExtManager \<times> World)) \<Rightarrow> ApiState \<Rightarrow> 'a \<times> ApiState" where
  "on_ext f s = (case f (as_ext s, as_world s) of (r, m, w) \<Rightarrow> (r, set_world w (s\<lparr>as_ext := m\<rparr>)))"

definition register_all_extensions :: "ApiOut \<Rightarrow> ApiState \<Rightarrow> api_reply \<times> ApiState" where
  "register_all_extensions ao s =
     (case RegisterExtensions (ao_env ao) (ao_ext ao) (as_ext s, app_Tools (as_app s)) of
        (r, m, reg) \<Rightarrow>
          respond 502 (\<lambda>_. AvExtensions (ExtensionSummary m)) (r, s\<lparr>as_ext := m, as_app := (as_app s)\<lparr>app_Tools := reg\<rparr>\<rparr>))"

definition handleRefreshExtensions :: api_handler where
  "handleRefreshExtensions ao u r s =
     (if rq_Method r \<noteq> ''POST'' then (bad_method, s)
      else (case on_ext (Discover (ao_env ao) (ao_ext ao)) s of
              (Inl e, s) \<Rightarrow> (Failed e 502, s) | (Inr _, s) \<Rightarrow> register_all_extensions ao s))"

definition handleExtensionState :: api_handler where
  "handleExtensionState ao u r s =
     (if rq_Method r \<noteq> ''POST'' then (bad_method, s)
      else (case body_of ao (\<lambda>m. do { kind \<leftarrow> dec_str m ''kind''; name \<leftarrow> dec_str m ''name''; enabled \<leftarrow> dec_bool m ''enabled'';
                    Some (kind, name, enabled) }) r of
              None \<Rightarrow> (bad_json, s)
            | Some (kind, name, enabled) \<Rightarrow>
                (case on_ext (SetEnabled (ao_env ao) (ao_ext ao) u kind name enabled) s of
                   (Inl e, s) \<Rightarrow> (Failed e 400, s) | (Inr _, s) \<Rightarrow> register_all_extensions ao s)))"

definition handleExtensionValidate :: api_handler where
  "handleExtensionValidate ao u r s =
     (if rq_Method r \<noteq> ''POST'' then (bad_method, s)
      else (case body_of ao (\<lambda>m. do { kind \<leftarrow> dec_str m ''kind''; name \<leftarrow> dec_str m ''name''; Some (kind, name) }) r of
              None \<Rightarrow> (bad_json, s)
            | Some (kind, name) \<Rightarrow>
                (case in_world (ValidateExtension (ao_ext ao) (as_ext s) u kind name) s of
                   ((report, Some e), s) \<Rightarrow> (Failed e 400, s) | ((report, None), s) \<Rightarrow> (Answer (AvFields report), s))))"

definition handleExecuteTool :: api_handler where
  "handleExecuteTool ao u r s =
     (if rq_Method r \<noteq> ''POST'' then (bad_method, s)
      else (case body_of ao (\<lambda>m. do { name \<leftarrow> dec_str m ''name''; input \<leftarrow> dec_obj m ''input''; Some (name, input) }) r of
              None \<Rightarrow> (bad_json, s)
            | Some (name, input) \<Rightarrow>
                respond 400 AvFields (in_world (ExecuteTool (app_Tools (as_app s)) name (put ''username'' (JStr u) input)) s)))"

section \<open>Routes\<close>

definition api_routes :: "(string \<times> api_handler) list" where
  "api_routes =
     [(''/v1/chat'', handleChat), (''/v1/context'', handleContext), (''/v1/multiagent/plan'', handleMultiAgentPlan),
      (''/v1/multiagent/run'', handleMultiAgentRun), (''/v1/multiagent/traces'', handleMultiAgentTraces),
      (''/v1/multiagent/traces/summary'', handleMultiAgentTraceSummary),
      (''/v1/multiagent/traces/verifiers'', handleMultiAgentVerifierSummary),
      (''/v1/multiagent/traces/failures'', handleMultiAgentTraceFailures),
      (''/v1/multiagent/traces/hotspots'', handleMultiAgentTraceHotspots),
      (''/v1/multiagent/replay'', handleMultiAgentReplay), (''/v1/multiagent/resume'', handleMultiAgentResume),
      (''/v1/memory'', handleMemory), (''/v1/models'', handleModels), (''/v1/models/discover'', handleDiscoverModels),
      (''/v1/models/switch'', handleModelSwitch), (''/v1/sessions'', handleSessions), (''/v1/history'', handleHistory),
      (''/v1/search'', handleSearch), (''/v1/audit'', handleAudit), (''/v1/audit/execution'', handleExecutionAudit),
      (''/v1/audit/execution/profiles'', handleExecutionProfileAudit), (''/v1/extensions'', handleExtensions),
      (''/v1/extensions/hooks'', handleExtensionHooks), (''/v1/extensions/refresh'', handleRefreshExtensions),
      (''/v1/extensions/state'', handleExtensionState), (''/v1/extensions/validate'', handleExtensionValidate),
      (''/v1/tools'', handleTools), (''/v1/tools/execute'', handleExecuteTool)]"

text \<open>The adapters hold the application itself, so a request meets its present configuration.\<close>

definition gateway_routes :: "ApiOut \<Rightarrow> ApiState \<Rightarrow> (string, gw_handler) gomap" where
  "gateway_routes ao s =
     the (RegisterPlatformRoutes (ao_env ao) (ao_gw ao) (NewAdapter (ao_env ao) (as_app s)) BuiltInAdapters [])"

definition serve :: "ApiOut \<Rightarrow> string \<Rightarrow> HttpRequest \<Rightarrow> ApiState \<Rightarrow> api_reply \<times> ApiState" where
  "serve ao path r s =
     (if path = ''/healthz'' then handleHealth r s
      else if path = ''/auth/login'' then handleLogin ao r s
      else (case map_of api_routes path of
              Some h \<Rightarrow> authMiddleware h ao r s
            | None \<Rightarrow>
                (case get (gateway_routes ao s) path of
                   None \<Rightarrow> (NotFound, s)
                 | Some h \<Rightarrow> (case h r (as_gs s) of (reply, g) \<Rightarrow> (GatewayReply reply, s\<lparr>as_gs := g\<rparr>)))))"

lemma gateway_routes_register:
  "RegisterPlatformRoutes env ge ad BuiltInAdapters [] \<noteq> None"
  by (simp add: RegisterPlatformRoutes_def BuiltInAdapters_def)

end
