(* ===== verification/ApiProps.thy ===== *)
theory ApiProps
  imports ApiRoutes GatewayProps ExtProps
begin

text \<open>
  What the HTTP server promises: nothing changes without credentials, and an answer holds rows of the
  token's user alone. One route breaks the second promise's counterpart for writing: a run of agents
  may name another user's session as its parent.
\<close>

section \<open>Nothing changes without credentials\<close>

definition valid_token :: "ApiOut \<Rightarrow> HttpRequest \<Rightarrow> ApiState \<Rightarrow> Claims option" where
  "valid_token ao r s =
     (let header = trim_space (rq_Header r ''Authorization'') in
      if has_prefix ''Bearer '' header
      then (case ParseToken (ao_parse ao) (as_auth s) (trim_space (drop 7 header)) of Inl _ \<Rightarrow> None | Inr c \<Rightarrow> Some c)
      else None)"

text \<open>Who may change something at a path.\<close>

definition permitted :: "ApiOut \<Rightarrow> string \<Rightarrow> HttpRequest \<Rightarrow> ApiState \<Rightarrow> bool" where
  "permitted ao path r s =
     (path = ''/auth/login'' \<or> (path \<in> fst ` set api_routes \<and> valid_token ao r s \<noteq> None)
      \<or> (\<exists>p\<in>set BuiltInAdapters. path \<in> fst ` set (platform_routes (ao_env ao) (ao_gw ao) (NewAdapter (ao_env ao) (as_app s)) p)
           \<and> credentials (ao_gw ao) (NewAdapter (ao_env ao) (as_app s)) (w_now (as_world s)) p r))"

fun refused :: "api_reply \<Rightarrow> bool" where
  "refused (Failed e code) = (code = 401)"
| "refused (GatewayReply g) = (rp_Code g \<in> {400, 401, 404, 405})"
| "refused NotFound = True"
| "refused _ = False"

lemma authorized_token:
  "authMiddleware h ao r s =
     (case valid_token ao r s of Some c \<Rightarrow> h ao (cl_Username c) r s | None \<Rightarrow> (fst (authMiddleware h ao r s), s))"
  "valid_token ao r s = None \<Longrightarrow> refused (fst (authMiddleware h ao r s))"
proof -
  have d: "trim_prefix ''Bearer '' t = drop 7 t" if "has_prefix ''Bearer '' t" for t
    using that by (simp add: trim_prefix_def eval_nat_numeral)
  show "authMiddleware h ao r s =
     (case valid_token ao r s of Some c \<Rightarrow> h ao (cl_Username c) r s | None \<Rightarrow> (fst (authMiddleware h ao r s), s))"
    "valid_token ao r s = None \<Longrightarrow> refused (fst (authMiddleware h ao r s))"
    using d by (auto simp: authMiddleware_def valid_token_def Let_def split: sum.splits)
qed

lemma gateway_route_at:
  assumes "get (gateway_routes ao s) path = Some h"
  obtains p where "p \<in> set BuiltInAdapters" "(path, h) \<in> set (platform_routes (ao_env ao) (ao_gw ao) (NewAdapter (ao_env ao) (as_app s)) p)"
proof -
  have g: "register_routes rs mux = Some m \<Longrightarrow> get m path = Some h \<Longrightarrow> get mux path = Some h \<or> (path, h) \<in> set rs" for rs mux m
    by (induction rs mux rule: register_routes.induct) (auto split: if_splits)
  obtain m where m: "RegisterPlatformRoutes (ao_env ao) (ao_gw ao) (NewAdapter (ao_env ao) (as_app s)) BuiltInAdapters [] = Some m"
    using gateway_routes_register by blast
  have "(path, h) \<in> set (concat (map (platform_routes (ao_env ao) (ao_gw ao) (NewAdapter (ao_env ao) (as_app s))) BuiltInAdapters))"
    using g [OF m [unfolded RegisterPlatformRoutes_def]] assms m by (auto simp: gateway_routes_def)
  then show thesis using that by auto
qed

text \<open>C28. Whatever the path and the request: unless it is a login, carries a token the service accepts, or
  has the credentials of the platform whose route it takes, the request is refused and the whole state of
  the server is as before; and the health page changes nothing for anybody.\<close>

theorem nothing_changes_without_credentials:
  assumes "\<not> permitted ao path r s" "serve ao path r s = (reply, s')"
  shows "s' = s \<and> (path = ''/healthz'' \<or> refused reply)"
proof -
  consider "path = ''/healthz''" | h where "path \<noteq> ''/healthz''" "map_of api_routes path = Some h"
    | "path \<noteq> ''/healthz''" "map_of api_routes path = None" by fastforce
  then show ?thesis
  proof cases
    case 1
    then show ?thesis using assms by (simp add: serve_def handleHealth_def)
  next
    case (2 h)
    then have "path \<in> fst ` set api_routes" by (metis map_of_SomeD fst_conv image_eqI)
    then have n: "valid_token ao r s = None" "path \<noteq> ''/auth/login''" using assms(1) by (auto simp: permitted_def)
    then show ?thesis
      using assms(2) 2 authorized_token [where h = h and ao = ao and r = r and s = s] by (auto simp: serve_def)
  next
    case 3
    have n: "path \<noteq> ''/auth/login''" using assms(1) by (auto simp: permitted_def)
    show ?thesis
    proof (cases "get (gateway_routes ao s) path")
      case None
      then show ?thesis using assms(2) 3 n by (simp add: serve_def)
    next
      case (Some h)
      from gateway_route_at [OF this] obtain p where p: "p \<in> set BuiltInAdapters"
        "(path, h) \<in> set (platform_routes (ao_env ao) (ao_gw ao) (NewAdapter (ao_env ao) (as_app s)) p)" .
      then have "\<not> credentials (ao_gw ao) (NewAdapter (ao_env ao) (as_app s)) (w_now (gs_world (as_gs s))) p r"
        using assms(1) by (force simp: permitted_def as_world_def)
      from credentials_required [OF p(2) this] show ?thesis
        using assms(2) 3 n Some by (auto simp: serve_def split: prod.splits)
    qed
  qed
qed


section \<open>Answers hold the user's rows alone\<close>

text \<open>The database with nothing in it but the rows of one user: sessions, their messages, the search index, audit
  rows, hook runs and traces.\<close>

definition own_rows :: "string \<Rightarrow> Store \<Rightarrow> Store" where
  "own_rows u d =
     d\<lparr>sessions := filter (\<lambda>s. sess_user s = u) (sessions d),
       messages := filter (\<lambda>m. \<exists>s\<in>set (sessions d). sess_id s = msg_session m \<and> sess_user s = u) (messages d),
       messages_fts := filter (\<lambda>f. fts_user f = u) (messages_fts d),
       audit_log := filter (\<lambda>r. audit_user r = u) (audit_log d),
       extension_hook_runs := filter (\<lambda>r. hook_user r = u) (extension_hook_runs d),
       multiagent_traces := filter (\<lambda>r. tr_user r = u) (multiagent_traces d)\<rparr>"

definition own_world :: "string \<Rightarrow> World \<Rightarrow> World" where
  "own_world u w = w\<lparr>w_store := own_rows u (w_store w)\<rparr>"

definition own_state :: "string \<Rightarrow> ApiState \<Rightarrow> ApiState" where
  "own_state u s = set_world (own_world u (as_world s)) s"

lemma own_rows_tables [simp]:
  "sessions (own_rows u d) = filter (\<lambda>s. sess_user s = u) (sessions d)"
  "messages_fts (own_rows u d) = filter (\<lambda>f. fts_user f = u) (messages_fts d)"
  "audit_log (own_rows u d) = filter (\<lambda>r. audit_user r = u) (audit_log d)"
  "extension_hook_runs (own_rows u d) = filter (\<lambda>r. hook_user r = u) (extension_hook_runs d)"
  "multiagent_traces (own_rows u d) = filter (\<lambda>r. tr_user r = u) (multiagent_traces d)"
  "faults (own_rows u d) = faults d" "own_rows u (d\<lparr>faults := fs\<rparr>) = (own_rows u d)\<lparr>faults := fs\<rparr>"
  by (simp_all add: own_rows_def)

lemma own_state_fields [simp]:
  "as_world (own_state u s) = own_world u (as_world s)" "as_auth (own_state u s) = as_auth s"
  by (simp_all add: own_state_def as_world_def set_world_def)

lemma own_world_store [simp]:
  "w_store (own_world u w) = own_rows u (w_store w)"
  "own_world u (w\<lparr>w_store := d\<rparr>) = w\<lparr>w_store := own_rows u d\<rparr>"
  "(own_world u w)\<lparr>w_store := d\<rparr> = w\<lparr>w_store := d\<rparr>"
  by (simp_all add: own_world_def)

text \<open>A call that answers from a user's rows: what it answers on the whole database it answers on those.\<close>

definition reads_own :: "string \<Rightarrow> World \<Rightarrow> (World \<Rightarrow> 'a app_result) \<Rightarrow> bool" where
  "reads_own u w m \<longleftrightarrow> (\<forall>v w'. m w = (Inr v, w') \<longrightarrow> m (own_world u w) = (Inr v, own_world u w'))"

lemma reads_bind:
  "reads_own u w m \<Longrightarrow> (\<And>v w'. m w = (Inr v, w') \<Longrightarrow> reads_own u w' (k v)) \<Longrightarrow> reads_own u w (\<lambda>w. bind_res (m w) k)"
  by (auto simp: reads_own_def bind_res_eq_Inr)

lemma reads_value: "reads_own u w (\<lambda>w. (Inr v, w))"
  by (simp add: reads_own_def)

lemma reads_stmt:
  assumes "\<And>fs v d'. g ((w_store w)\<lparr>faults := fs\<rparr>) = (Inr v, d') \<Longrightarrow> g (own_rows u ((w_store w)\<lparr>faults := fs\<rparr>)) = (Inr v, own_rows u d')"
  shows "reads_own u w (on_store (stmt g))"
proof -
  have "stmt g (own_rows u (w_store w)) = (Inr v, own_rows u d')" if "stmt g (w_store w) = (Inr v, d')" for v d'
    using that assms [of "faults (w_store w)" v d'] assms [of "tl (faults (w_store w))" v d']
    by (auto simp: stmt_def split: list.splits option.splits)
  then show ?thesis
    by (auto simp: reads_own_def on_store_def split: prod.splits sum.splits)
qed

lemma reads_query:
  "(\<And>fs. f ((own_rows u (w_store w))\<lparr>faults := fs\<rparr>) = f ((w_store w)\<lparr>faults := fs\<rparr>)) \<Longrightarrow> reads_own u w (on_store (query f))"
proof -
  assume f: "\<And>fs. f ((own_rows u (w_store w))\<lparr>faults := fs\<rparr>) = f ((w_store w)\<lparr>faults := fs\<rparr>)"
  have q: "query f = stmt (\<lambda>d. (Inr (f d), d))" by (rule ext) (simp add: query_def)
  show ?thesis unfolding q by (rule reads_stmt) (simp add: f)
qed

lemma filter_within: "(\<And>x. P x \<Longrightarrow> Q x) \<Longrightarrow> filter P (filter Q xs) = filter P xs"
  unfolding filter_filter by (rule filter_cong) auto

lemma filter_own:
  "filter (\<lambda>x. f x = u \<and> P x) (filter (\<lambda>x. f x = u) xs) = filter (\<lambda>x. f x = u \<and> P x) xs"
  "filter (\<lambda>x. R x \<and> f x = u \<and> P x) (filter (\<lambda>x. f x = u) xs) = filter (\<lambda>x. R x \<and> f x = u \<and> P x) xs"
  by (rule filter_within, simp)+

lemma own_lists:
  assumes "u \<noteq> []"
  shows "af_user af = u \<Longrightarrow> reads_own u w (on_store (ListAuditFiltered af))"
    "af_user af = u \<Longrightarrow> reads_own u w (on_store (SummarizeAuditActions af))"
    "hf_user hf = u \<Longrightarrow> reads_own u w (on_store (ListExtensionHookRuns hf))"
    "tf_user tf = u \<Longrightarrow> reads_own u w (on_store (ListMultiAgentTraces tf))"
    "tf_user tf = u \<Longrightarrow> reads_own u w (on_store (ListMultiAgentTraceFailures tf))"
    "tf_user tf = u \<Longrightarrow> reads_own u w (on_store (SummarizeMultiAgentTraces tf))"
    "tf_user tf = u \<Longrightarrow> reads_own u w (on_store (ListMultiAgentTraceHotspots tf))"
    "tf_user tf = u \<Longrightarrow> reads_own u w (on_store (SummarizeMultiAgentVerifierResults tf))"
    "reads_own u w (on_store (ListSessionsPage u l o1))"
proof -
  have sel: "sel_str u v = (v = u)" for v using assms by (simp add: sel_str_def)
  note own = filter_own audit_summary_rows_def trace_sel_def [abs_def] sel
  show "af_user af = u \<Longrightarrow> reads_own u w (on_store (ListAuditFiltered af))"
    unfolding ListAuditFiltered_def by (rule reads_query) (simp add: own del: filter_filter)
  show "af_user af = u \<Longrightarrow> reads_own u w (on_store (SummarizeAuditActions af))"
    unfolding SummarizeAuditActions_def by (rule reads_query) (simp add: own del: filter_filter)
  show "hf_user hf = u \<Longrightarrow> reads_own u w (on_store (ListExtensionHookRuns hf))"
    unfolding ListExtensionHookRuns_def by (rule reads_query) (simp add: own del: filter_filter)
  show "tf_user tf = u \<Longrightarrow> reads_own u w (on_store (ListMultiAgentTraces tf))"
    unfolding ListMultiAgentTraces_def by (rule reads_query) (simp add: own del: filter_filter)
  show "tf_user tf = u \<Longrightarrow> reads_own u w (on_store (ListMultiAgentTraceFailures tf))"
    unfolding ListMultiAgentTraceFailures_def by (rule reads_query) (simp add: own del: filter_filter)
  show "tf_user tf = u \<Longrightarrow> reads_own u w (on_store (SummarizeMultiAgentTraces tf))"
    unfolding SummarizeMultiAgentTraces_def by (rule reads_query) (simp add: own del: filter_filter)
  show "tf_user tf = u \<Longrightarrow> reads_own u w (on_store (ListMultiAgentTraceHotspots tf))"
    unfolding ListMultiAgentTraceHotspots_def by (rule reads_query) (simp add: own del: filter_filter)
  show "tf_user tf = u \<Longrightarrow> reads_own u w (on_store (SummarizeMultiAgentVerifierResults tf))"
    unfolding SummarizeMultiAgentVerifierResults_def by (rule reads_query) (simp add: own del: filter_filter)
  show "reads_own u w (on_store (ListSessionsPage u l o1))"
    unfolding ListSessionsPage_def by (rule reads_query) simp
qed

text \<open>A session of the user is found, and its messages are all there.\<close>

lemma find_filter: "find P xs = Some x \<Longrightarrow> Q x \<Longrightarrow> find P (filter Q xs) = Some x"
  by (induction xs) (auto split: if_splits)

lemma find_row: "distinct (map f xs) \<Longrightarrow> x \<in> set xs \<Longrightarrow> find (\<lambda>y. f y = f x) xs = Some x"
  by (induction xs) (auto simp: image_iff)

lemma own_get_session:
  assumes "GetSession sid d = (Inr s, d')" "sess_user s = u"
  shows "GetSession sid (own_rows u d) = (Inr s, own_rows u d')"
proof -
  have "find_session sid (own_rows u e) = Some s" if "find_session sid e = Some s" for e
    using that assms(2) by (simp add: find_session_def find_filter)
  then show ?thesis
    using assms(1) by (auto simp: GetSession_def stmt_def find_session_def split: list.splits option.splits)
qed

lemma own_messages:
  assumes "s \<in> set (sessions (w_store w))" "sess_user s = u"
  shows "reads_own u w (on_store (GetMessagesPage (sess_id s) l o1))"
proof -
  have "session_messages (sess_id s) ((own_rows u (w_store w))\<lparr>faults := fs\<rparr>) = session_messages (sess_id s) ((w_store w)\<lparr>faults := fs\<rparr>)" for fs
    unfolding session_messages_def own_rows_def using assms by (auto simp del: filter_filter intro!: filter_within)
  then show ?thesis unfolding GetMessagesPage_def by (intro reads_query) (simp only:)
qed

text \<open>Reading changes no table.\<close>

lemma query_sessions: "on_store (query f) w = (r, w') \<Longrightarrow> tables (w_store w') = tables (w_store w)"
  using query_tables [of f "w_store w"] by (auto simp: on_store_def split: prod.splits sum.splits)

lemma session_tables: "on_store (GetSession sid) w = (r, w') \<Longrightarrow> tables (w_store w') = tables (w_store w)"
  unfolding GetSession_def on_store_def
  by (cases rule: stmt_cases [of "\<lambda>d. case find_session sid d of None \<Rightarrow> (Inl NoRows, d) | Some s \<Rightarrow> (Inr s, d)" "w_store w"])
     (auto split: option.splits sum.splits prod.splits)

lemma same_rows:
  "tables d' = tables d \<Longrightarrow> sessions d' = sessions d \<and> messages d' = messages d \<and> multiagent_traces d' = multiagent_traces d"
  by (cases d; cases d') (simp add: tables_def)

lemma own_histories:
  "list_all (\<lambda>s. s \<in> set (sessions (w_store w)) \<and> sess_user s = u) xs \<Longrightarrow> reads_own u w (histories xs l o1)"
proof (induction xs arbitrary: w)
  case (Cons x xs)
  have "reads_own u w (\<lambda>w. bind_res (on_store (GetMessagesPage (sess_id x) l o1) w) (\<lambda>ms w.
      bind_res (histories xs l o1 w) (\<lambda>hs w. (Inr ((x, ms) # hs), w))))"
  proof (intro reads_bind reads_value)
    show "reads_own u w (on_store (GetMessagesPage (sess_id x) l o1))" using Cons.prems by (auto intro: own_messages)
    fix ms w' assume "on_store (GetMessagesPage (sess_id x) l o1) w = (Inr ms, w')"
    then have "sessions (w_store w') = sessions (w_store w)"
      unfolding GetMessagesPage_def using query_sessions same_rows by blast
    then show "reads_own u w' (histories xs l o1)" using Cons by simp
  qed
  then show ?case by (simp add: reads_own_def)
qed (simp add: reads_own_def)

text \<open>Every hit of a search is a copy of a message, so its session is the user's.\<close>

lemma own_search:
  assumes "store_wf (w_store w)" "sf_user flt = u"
  shows "reads_own u w (on_store (SearchMessages fts snip flt))"
  unfolding SearchMessages_def
proof (rule reads_stmt)
  fix fs v d'
  define d where "d = (w_store w)\<lparr>faults := fs\<rparr>"
  have wf: "store_wf d" using assms(1) by (simp add: d_def)
  have found: "find_session (fts_session f) (own_rows u d) = find_session (fts_session f) d"
    if f: "f \<in> set (messages_fts d)" "fts_user f = u" for f
  proof -
    obtain m s where s: "s \<in> set (sessions d)" "sess_id s = msg_session m" "f = fts_of s m"
      using wf f(1) unfolding store_wf_def fts_ok_iff by blast
    have "distinct (map sess_id (sessions d))" using wf by (auto simp: store_wf_def dest: ids_ok_distinct)
    then have "find_session (sess_id s) d = Some s"
      using s(1) unfolding find_session_def by (rule find_row)
    then show ?thesis using s f(2) by (simp add: fts_of_def find_session_def find_filter)
  qed
  have times: "session_times snippet hits (own_rows u d) = session_times snippet hits d"
    if "set hits \<subseteq> {f \<in> set (messages_fts d). fts_user f = u}" for hits snippet
    using that by (induction hits) (auto simp: found split: option.split sum.split)
  have hits: "search_hits fts flt (own_rows u d) q = search_hits fts flt d q" for q
    unfolding search_hits_def
    by (simp add: assms(2) conj_commute conj_left_commute cong: conj_cong)
  have within: "set hits \<subseteq> {f \<in> set (messages_fts d). fts_user f = u}" if "search_hits fts flt d q = Some hits" for hits q
    using that assms(2) by (auto simp: search_hits_def dest!: in_set_takeD)
  assume "(let q = normalizeFTSQuery (sf_query flt)
       in case search_hits fts flt ((w_store w)\<lparr>faults := fs\<rparr>) q of
            None \<Rightarrow> (Inl (EngineError ''fts5: syntax error''), (w_store w)\<lparr>faults := fs\<rparr>)
          | Some hits \<Rightarrow> (session_times (snip q) hits ((w_store w)\<lparr>faults := fs\<rparr>), (w_store w)\<lparr>faults := fs\<rparr>)) = (Inr v, d')"
  then show "(let q = normalizeFTSQuery (sf_query flt)
       in case search_hits fts flt (own_rows u ((w_store w)\<lparr>faults := fs\<rparr>)) q of
            None \<Rightarrow> (Inl (EngineError ''fts5: syntax error''), own_rows u ((w_store w)\<lparr>faults := fs\<rparr>))
          | Some hits \<Rightarrow> (session_times (snip q) hits (own_rows u ((w_store w)\<lparr>faults := fs\<rparr>)), own_rows u ((w_store w)\<lparr>faults := fs\<rparr>)))
      = (Inr v, own_rows u d')"
    unfolding d_def [symmetric] Let_def hits using times within by (auto split: option.splits)
qed

lemma own_replay:
  assumes "u \<noteq> []"
  shows "reads_own u w (ReplayMultiAgentChild env u child)"
  unfolding reads_own_def
proof (intro allI impI)
  fix v w' assume r: "ReplayMultiAgentChild env u child w = (Inr v, w')"
  then obtain s w1 where s: "on_store (GetSession child) w = (Inr s, w1)" "sess_user s = u"
    and k: "bind_res (child_traces u child 200 w1) (\<lambda>rows w.
            bind_res (on_store (GetMessagesPage child 200 0) w) (\<lambda>ms w.
              (Inr \<lparr>rep_Session = s, rep_Trace = rows, rep_Messages = ms, rep_LastStep = last_step rows,
                 rep_ResumeBasis = deriveResumeBasis env rows ms, rep_RecoveryHint = recovery_hint rows\<rparr>, w))) = (Inr v, w')"
    by (auto simp: ReplayMultiAgentChild_def bind_res_eq_Inr split: if_splits)
  have "find_session child (w_store w) = Some s" using s(1) GetSession_Inr by (auto simp: on_store_Inr)
  then have x: "s \<in> set (sessions (w_store w))" "sess_id s = child"
    by (auto simp: find_session_def find_Some_iff)
  have "reads_own u w1 (\<lambda>w1. bind_res (child_traces u child 200 w1) (\<lambda>rows w.
            bind_res (on_store (GetMessagesPage child 200 0) w) (\<lambda>ms w.
              (Inr \<lparr>rep_Session = s, rep_Trace = rows, rep_Messages = ms, rep_LastStep = last_step rows,
                 rep_ResumeBasis = deriveResumeBasis env rows ms, rep_RecoveryHint = recovery_hint rows\<rparr>, w))))"
  proof (intro reads_bind reads_value)
    show "reads_own u w1 (child_traces u child 200)" unfolding child_traces_def by (rule own_lists) (simp_all add: assms)
    fix rows w2 assume t: "child_traces u child 200 w1 = (Inr rows, w2)"
    have "sessions (w_store w2) = sessions (w_store w)"
      using query_sessions [OF t [unfolded child_traces_def ListMultiAgentTraces_def]] session_tables [OF s(1)] same_rows by metis
    then show "reads_own u w2 (on_store (GetMessagesPage child 200 0))"
      using own_messages [of s w2 u] x s(2) by simp
  qed
  then have k': "bind_res (child_traces u child 200 (own_world u w1)) (\<lambda>rows w.
            bind_res (on_store (GetMessagesPage child 200 0) w) (\<lambda>ms w.
              (Inr \<lparr>rep_Session = s, rep_Trace = rows, rep_Messages = ms, rep_LastStep = last_step rows,
                 rep_ResumeBasis = deriveResumeBasis env rows ms, rep_RecoveryHint = recovery_hint rows\<rparr>, w))) = (Inr v, own_world u w')"
    using k by (simp add: reads_own_def)
  have "on_store (GetSession child) (own_world u w) = (Inr s, own_world u w1)"
    using s own_get_session by (auto simp: on_store_Inr)
  then show "ReplayMultiAgentChild env u child (own_world u w) = (Inr v, own_world u w')"
    using k' s(2) by (simp add: ReplayMultiAgentChild_def)
qed

section \<open>The routes that answer with rows\<close>

text \<open>A handler that only reads: its answer is one it gives on the user's rows.\<close>

definition same_answer :: "string \<Rightarrow> ApiState \<Rightarrow> (ApiState \<Rightarrow> api_reply \<times> ApiState) \<Rightarrow> bool" where
  "same_answer u s h \<longleftrightarrow> (\<forall>v. fst (h s) = Answer v \<longrightarrow> fst (h (own_state u s)) = Answer v)"

lemma same_respond: "reads_own u (as_world s) m \<Longrightarrow> same_answer u s (\<lambda>s. respond code f (in_world m s))"
  by (auto simp: same_answer_def respond_def in_world_def reads_own_def split: prod.splits sum.splits)

lemma same_checked: "(\<And>v. r = Inr v \<Longrightarrow> same_answer u s (k v)) \<Longrightarrow> same_answer u s (checked r k)"
  by (cases r) (simp_all add: checked_def same_answer_def)

lemma same_refusal: "same_answer u s (\<lambda>s. (Failed e code, s))"
  by (simp add: same_answer_def)

lemma same_if: "same_answer u s h \<Longrightarrow> same_answer u s k \<Longrightarrow> same_answer u s (\<lambda>s. if c then h s else k s)"
  by (cases c) simp_all

definition row_routes :: "string list" where
  "row_routes =
     [''/v1/sessions'', ''/v1/history'', ''/v1/search'', ''/v1/audit'', ''/v1/audit/execution'', ''/v1/audit/execution/profiles'',
      ''/v1/extensions/hooks'', ''/v1/multiagent/traces'', ''/v1/multiagent/traces/summary'', ''/v1/multiagent/traces/verifiers'',
      ''/v1/multiagent/traces/failures'', ''/v1/multiagent/traces/hotspots'', ''/v1/multiagent/replay'']"

lemma trace_filters_user: "multiAgentTraceFiltersFromRequest env u r = Inr f \<Longrightarrow> tf_user f = u"
  by (auto simp: multiAgentTraceFiltersFromRequest_def split: sum.splits)

lemma trace_route_same:
  "(\<And>f. tf_user f = u \<Longrightarrow> reads_own u (as_world s) (on_store (op f))) \<Longrightarrow> same_answer u s (trace_route op g ao u r)"
  unfolding trace_route_def using trace_filters_user by (blast intro: same_checked same_respond)

lemma row_routes_same:
  assumes "u \<noteq> []" "store_wf (w_store (as_world s))"
  shows "same_answer u s (handleSessions ao u r)" "same_answer u s (handleHistory ao u r)" "same_answer u s (handleSearch ao u r)"
    "same_answer u s (handleAudit ao u r)" "same_answer u s (handleExecutionAudit ao u r)"
    "same_answer u s (handleExecutionProfileAudit ao u r)" "same_answer u s (handleExtensionHooks ao u r)"
    "same_answer u s (handleMultiAgentReplay ao u r)"
proof -
  note lists = own_lists [OF assms(1)]
  show "same_answer u s (handleSessions ao u r)"
    unfolding handleSessions_def ListSessions_def by (intro same_respond lists)
  show "same_answer u s (handleHistory ao u r)"
    unfolding handleHistory_def
  proof (intro same_checked same_respond reads_bind lists)
    fix limit ofs ml mo xs w'
    assume l: "on_store (ListSessionsPage u limit ofs) (as_world s) = (Inr xs, w')"
    then have t: "sessions (w_store w') = sessions (w_store (as_world s))"
      unfolding ListSessionsPage_def using query_sessions same_rows by blast
    have "list_all (\<lambda>x. x \<in> set (sessions (w_store (as_world s))) \<and> sess_user x = u) xs"
      using l unfolding ListSessionsPage_def query_def on_store_Inr
      by (auto simp: list_all_iff elim!: stmt_Inr dest!: subsetD [OF set_page])
    then show "reads_own u w' (histories xs ml mo)" by (intro own_histories) (simp add: t)
  qed
  show "same_answer u s (handleSearch ao u r)"
    unfolding handleSearch_def [abs_def]
    by (intro same_if same_refusal same_checked same_respond own_search assms(2)) simp
  show "same_answer u s (handleAudit ao u r)" "same_answer u s (handleExecutionAudit ao u r)"
    unfolding handleAudit_def [abs_def] handleExecutionAudit_def [abs_def]
    by (intro same_if same_refusal same_checked same_respond lists; simp add: audit_filters_def)+
  show "same_answer u s (handleExecutionProfileAudit ao u r)"
    unfolding handleExecutionProfileAudit_def [abs_def]
    by (intro same_checked same_respond reads_bind reads_value lists; simp add: audit_filters_def)
  show "same_answer u s (handleExtensionHooks ao u r)"
    unfolding handleExtensionHooks_def [abs_def]
    by (cases "parseLimitOffset r 50"; simp only: prod.case; intro same_respond lists; simp)
  show "same_answer u s (handleMultiAgentReplay ao u r)"
    unfolding handleMultiAgentReplay_def [abs_def]
    by (intro same_if same_refusal same_checked same_respond own_replay assms(1))
qed

lemma row_route_same:
  assumes "path \<in> set row_routes" "map_of api_routes path = Some h" "u \<noteq> []" "store_wf (w_store (as_world s))"
  shows "same_answer u s (h ao u r)"
proof -
  note traces = handleMultiAgentTraces_def handleMultiAgentTraceSummary_def handleMultiAgentVerifierSummary_def
    handleMultiAgentTraceFailures_def handleMultiAgentTraceHotspots_def
  have "same_answer u s (handleMultiAgentTraces ao u r)" "same_answer u s (handleMultiAgentTraceSummary ao u r)"
    "same_answer u s (handleMultiAgentVerifierSummary ao u r)" "same_answer u s (handleMultiAgentTraceFailures ao u r)"
    "same_answer u s (handleMultiAgentTraceHotspots ao u r)"
    unfolding traces by (rule trace_route_same, rule own_lists [OF assms(3)], assumption)+
  with row_routes_same [OF assms(3,4)] show ?thesis using assms(1,2) by (auto simp: row_routes_def api_routes_def)
qed

section \<open>A resumed child\<close>

text \<open>A resume runs the child's agent again, so its answer is no row of the database; what it recovers is. The child
  is a session of the user under the parent the answer names, and the recovered state is the one derived from
  the child's traces and messages in the database of the user's rows.\<close>

definition resumes_own :: "Env \<Rightarrow> string \<Rightarrow> Store \<Rightarrow> ChildResumed \<Rightarrow> bool" where
  "resumes_own env u d x \<longleftrightarrow>
     (\<exists>s\<in>set (sessions (own_rows u d)). sess_id s = rsm_From x \<and> sess_kind s = ''multiagent_child'' \<and> sess_parent s = Some (rsm_Parent x))
     \<and> rsm_Basis x = deriveResumeBasis env
         (page 200 0 (sort_key tr_id (filter (\<lambda>r. tr_child r = rsm_From x) (multiagent_traces (own_rows u d)))))
         (page 200 0 (sort_key msg_id (session_messages (rsm_From x) (own_rows u d))))"

lemma query_value:
  assumes "on_store (query f) w = (Inr v, w')"
  obtains fs where "v = f ((w_store w)\<lparr>faults := fs\<rparr>)"
  using assms unfolding query_def on_store_Inr by (auto elim!: stmt_Inr)

lemma child_traces_rows:
  assumes "child_traces u child 200 w = (Inr rows, w')" "u \<noteq> []" "0 < child"
  shows "rows = page 200 0 (sort_key tr_id (filter (\<lambda>r. tr_child r = child) (multiagent_traces (own_rows u (w_store w)))))"
proof -
  have f: "filter (trace_sel \<lparr>tf_user = u, tf_parent = 0, tf_child = child, tf_task = [], tf_from = None, tf_to = None,
      tf_limit = 200, tf_offset = 0\<rparr>) xs = filter (\<lambda>r. tr_child r = child) (filter (\<lambda>r. tr_user r = u) xs)" for xs
    using assms(2,3) by (simp add: trace_sel_def [abs_def] sel_str_def sel_id_def sel_from_def sel_to_def)
  show ?thesis
    by (rule query_value [OF assms(1) [unfolded child_traces_def ListMultiAgentTraces_def]])
       (simp add: f default_limit_def default_offset_def del: filter_filter)
qed

lemma message_rows:
  "on_store (GetMessagesPage sid 200 0) w = (Inr ms, w') \<Longrightarrow> ms = page 200 0 (sort_key msg_id (session_messages sid (w_store w)))"
  unfolding GetMessagesPage_def by (erule query_value) (simp add: session_messages_def default_offset_def Let_def)

lemma rebuild_tables: "rebuildTaskFromChildSession s allowed window w = (Inr t, w') \<Longrightarrow> tables (w_store w') = tables (w_store w)"
  by (auto simp: rebuildTaskFromChildSession_def Let_def bind_res_eq_Inr child_traces_def ListMultiAgentTraces_def
      dest: query_sessions split: if_splits)

lemma resume_steps:
  assumes "ResumeMultiAgentChild env a u child allowed window w = (Inr x, w')"
  shows "\<exists>s w1 parent t w2 rows w3 ms w4. on_store (GetSession child) w = (Inr s, w1) \<and> resumable u child s = Inr parent
    \<and> rebuildTaskFromChildSession s allowed window w1 = (Inr t, w2) \<and> child_traces u child 200 w2 = (Inr rows, w3)
    \<and> on_store (GetMessagesPage child 200 0) w3 = (Inr ms, w4)
    \<and> rsm_From x = child \<and> rsm_Parent x = parent \<and> rsm_Basis x = deriveResumeBasis env rows ms"
proof -
  obtain s w1 where 1: "on_store (GetSession child) w = (Inr s, w1)"
    and k: "(case resumable u child s of Inl e \<Rightarrow> (Inl e, w1) | Inr parent \<Rightarrow>
           bind_res (rebuildTaskFromChildSession s allowed window w1) (\<lambda>t w.
           bind_res (child_traces u child 200 w) (\<lambda>rows w.
           bind_res (on_store (GetMessagesPage child 200 0) w) (\<lambda>ms w.
             (let b = deriveResumeBasis env rows ms;
                  (r, w) = runMultiAgentChildTaskWithSeedAndState env a u parent (resumed_task env child b t)
                             (buildResumeSeedHistory ms b) (buildResumeLoopSeed b) w
              in (Inr \<lparr>rsm_From = child, rsm_Parent = parent, rsm_Basis = b, rsm_Result = r\<rparr>, w)))))) = (Inr x, w')"
    using assms unfolding ResumeMultiAgentChild_def bind_res_eq_Inr by blast
  obtain parent where 2: "resumable u child s = Inr parent" using k by (cases "resumable u child s") simp_all
  obtain t w2 rows w3 ms w4 where 3: "rebuildTaskFromChildSession s allowed window w1 = (Inr t, w2)"
    "child_traces u child 200 w2 = (Inr rows, w3)" "on_store (GetMessagesPage child 200 0) w3 = (Inr ms, w4)"
    and x: "(let b = deriveResumeBasis env rows ms;
                  (r, w) = runMultiAgentChildTaskWithSeedAndState env a u parent (resumed_task env child b t)
                             (buildResumeSeedHistory ms b) (buildResumeLoopSeed b) w4
              in (Inr \<lparr>rsm_From = child, rsm_Parent = parent, rsm_Basis = b, rsm_Result = r\<rparr>, w)) = (Inr x :: string + ChildResumed, w')"
    using k unfolding 2 sum.case bind_res_eq_Inr by blast
  have "rsm_From x = child \<and> rsm_Parent x = parent \<and> rsm_Basis x = deriveResumeBasis env rows ms"
    using x by (auto simp: Let_def split: prod.splits)
  with 1 2 3 show ?thesis by blast
qed

lemma own_resume:
  assumes "ResumeMultiAgentChild env a u child allowed window w = (Inr x, w')" "u \<noteq> []" "store_wf (w_store w)"
  shows "resumes_own env u (w_store w) x"
proof -
  obtain s w1 parent t w2 rows w3 ms w4 where s: "on_store (GetSession child) w = (Inr s, w1)"
    and p: "resumable u child s = Inr parent" and t: "rebuildTaskFromChildSession s allowed window w1 = (Inr t, w2)"
    and r: "child_traces u child 200 w2 = (Inr rows, w3)" and m: "on_store (GetMessagesPage child 200 0) w3 = (Inr ms, w4)"
    and x: "rsm_From x = child" "rsm_Parent x = parent" "rsm_Basis x = deriveResumeBasis env rows ms"
    using resume_steps [OF assms(1)] by metis
  have "find_session child (w_store w) = Some s" using s GetSession_Inr by (auto simp: on_store_Inr)
  then have f: "s \<in> set (sessions (w_store w))" "sess_id s = child" by (auto simp: find_session_def find_Some_iff)
  then have pos: "0 < child" using assms(3) by (auto simp: store_wf_def ids_ok_def)
  have own: "sess_user s = u" "sess_kind s = ''multiagent_child''" "sess_parent s = Some parent"
    using p by (auto simp: resumable_def split: if_splits option.splits)
  have "tables (w_store w2) = tables (w_store w)" using session_tables [OF s] rebuild_tables [OF t] by simp
  moreover have "tables (w_store w3) = tables (w_store w2)"
    using r unfolding child_traces_def ListMultiAgentTraces_def by (rule query_sessions)
  ultimately have same: "multiagent_traces (w_store w2) = multiagent_traces (w_store w)"
    "messages (w_store w3) = messages (w_store w)" using same_rows by metis+
  have "session_messages child (w_store w3) = session_messages child (own_rows u (w_store w))"
    unfolding session_messages_def own_rows_def same
    using f own(1) by (auto simp del: filter_filter intro!: filter_within [symmetric])
  then show ?thesis
    using child_traces_rows [OF r assms(2) pos] message_rows [OF m] x f own same
    by (auto simp: resumes_own_def simp del: filter_filter)
qed

lemma resume_route:
  assumes "handleMultiAgentResume ao u r s = (Answer v, s')" "u \<noteq> []" "store_wf (w_store (as_world s))"
  shows "\<exists>x. v = AvResumed x \<and> resumes_own (ao_env ao) u (w_store (as_world s)) x"
  using assms own_resume [OF _ assms(2,3)]
  by (fastforce simp: handleMultiAgentResume_def bad_method_def bad_json_def respond_def in_world_def
      split: if_splits option.splits prod.splits sum.splits)


section \<open>Closed instances\<close>

definition demo_claims :: "string \<Rightarrow> Claims" where
  "demo_claims u = \<lparr>cl_Username = u, cl_Role = ''user'', cl_Issuer = [], cl_Subject = u, cl_IssuedAt = 0, cl_ExpiresAt = 0\<rparr>"

definition demo_api :: ApiOut where
  "demo_api =
     \<lparr>ao_env = demo_env ''fine'', ao_gw = demo_gw, ao_ext = demo_out,
      ao_models = \<lparr>md_parse = (\<lambda>_. None), md_at = (\<lambda>_ _. []), md_get = (\<lambda>_ _. Inl ''none'')\<rparr>, ao_check = (\<lambda>_ _. False), ao_sign = (\<lambda>_ _. Inl ''no''),
      ao_parse = (\<lambda>_ t. if t = ''bad'' then Inl ''bad'' else Inr (Some (demo_claims t), True)), ao_schedule = (\<lambda>_. [])\<rparr>"

definition demo_server :: ApiState where
  "demo_server = \<lparr>as_app = demo_app, as_auth = \<lparr>svc_cfg = Default, svc_secret = ''s''\<rparr>, as_ext = demo_extensions,
     as_gs = demo_gw_state, as_urls = []\<rparr>"

definition demo_get :: "string \<Rightarrow> HttpRequest" where
  "demo_get token = \<lparr>rq_Method = ''GET'', rq_Header = (\<lambda>_. ''Bearer '' @ token), rq_Query = (\<lambda>_. []), rq_Body = Some ''{}''\<rparr>"

lemma demo_tokens:
  "valid_token demo_api (demo_get ''bad'') demo_server = None"
  "valid_token demo_api (demo_get ''ann'') demo_server = Some (demo_claims ''ann'')"
  by code_simp+

theorem nothing_changes_without_credentials_witness:
  "\<exists>reply. serve demo_api ''/v1/sessions'' (demo_get ''bad'') demo_server = (reply, demo_server) \<and> refused reply"
proof -
  obtain reply s' where s: "serve demo_api ''/v1/sessions'' (demo_get ''bad'') demo_server = (reply, s')" by fastforce
  have "\<not> permitted demo_api ''/v1/sessions'' (demo_get ''bad'') demo_server"
    by (simp add: permitted_def demo_tokens BuiltInAdapters_def)
  from nothing_changes_without_credentials [OF this s] s show ?thesis by simp
qed

text \<open>The demo database with a session of another user.\<close>

definition demo_shared :: ApiState where
  "demo_shared = set_world ((as_world demo_server)\<lparr>w_store := snd (CreateSession 0 ''bob'' ''m'' ''my secret'' ''hi'' demo_sessions)\<rparr>) demo_server"

lemma demo_shared_wf: "store_wf (w_store (as_world demo_shared))"
  unfolding demo_shared_def demo_sessions_def CreateSession_def
  by (simp add: as_world_def set_world_def) (intro store_op_wf store_wf_Open)

lemma demo_shared_token: "valid_token demo_api (demo_get ''ann'') demo_shared = Some (demo_claims ''ann'')"
proof -
  have "valid_token demo_api (demo_get ''ann'') demo_shared = valid_token demo_api (demo_get ''ann'') demo_server"
    by (simp add: valid_token_def demo_shared_def set_world_def Let_def)
  then show ?thesis using demo_tokens(2) by simp
qed


section \<open>Another user's session as the parent of a run\<close>

definition demo_intrusion :: Plan where
  "demo_intrusion = \<lparr>plan_Objective = ''look'', plan_Mode = TaskModeSequential, plan_MaxConcurrent = 1, plan_ParentSessionID = 1,
     plan_Tasks = [gateway_task ''look'']\<rparr>"

text \<open>Session 1 is Ann's; Bob's run writes into its transcript.\<close>

lemma foreign_parent_written:
  "map sess_user (filter (\<lambda>x. sess_id x = 1) (sessions (w_store demo_world))) = [''ann'']"
  "transcript 1 demo_world = []"
  "transcript 1 (snd (RunMultiAgentPlan (demo_env ''fine'') demo_app (\<lambda>_. False) [] ''bob'' demo_intrusion demo_world)) \<noteq> []"
  by code_simp+

end
