(* ===== verification/Flags.thy ===== *)
theory Flags
  imports GoText
begin

text \<open>
  Go's \<^verbatim>\<open>flag\<close> package as \<^verbatim>\<open>cmd/hermesctl\<close> uses it: flag sets of strings, integers and booleans, the
  parsing of an argument list, and the numbers of \<^verbatim>\<open>strconv\<close> with base 0, where a prefix names the base
  and underscores separate digits. The lemma \<open>flags_read_back\<close> says that an assignment written as \<^verbatim>\<open>--name=value\<close> is read
  back.
\<close>

section \<open>Integers of any base\<close>

datatype number_error = BadNumber | OutOfRange

definition digit_value :: "char \<Rightarrow> nat option" where
  "digit_value c =
     (if is_digit c then Some (of_char c - 48)
      else if is_lower_alpha (lower_char c) then Some (of_char (lower_char c) - 87) else None)"

text \<open>Digits in a base, underscores skipped, with the first error of the scan.\<close>

fun uint_digits :: "nat \<Rightarrow> nat \<Rightarrow> string \<Rightarrow> number_error + nat" where
  "uint_digits base n [] = Inr n"
| "uint_digits base n (c # s) =
     (if c = CHR ''_'' then uint_digits base n s
      else (case digit_value c of
              None \<Rightarrow> Inl BadNumber
            | Some d \<Rightarrow>
                if base \<le> d then Inl BadNumber
                else if 2 ^ 64 \<le> n * base + d then Inl OutOfRange else uint_digits base (n * base + d) s))"

definition number_base :: "string \<Rightarrow> nat \<times> string" where
  "number_base s =
     (if \<not> has_prefix ''0'' s then (10, s)
      else if 3 \<le> length s \<and> lower_char (s ! 1) = CHR ''b'' then (2, drop 2 s)
      else if 3 \<le> length s \<and> lower_char (s ! 1) = CHR ''o'' then (8, drop 2 s)
      else if 3 \<le> length s \<and> lower_char (s ! 1) = CHR ''x'' then (16, drop 2 s)
      else (8, drop 1 s))"

text \<open>Underscores stand between digits only; a base prefix counts as a digit.\<close>

datatype seen = Start | Digit | Underscore | Other

fun underscores_between :: "bool \<Rightarrow> seen \<Rightarrow> string \<Rightarrow> bool" where
  "underscores_between hex sn [] = (sn \<noteq> Underscore)"
| "underscores_between hex sn (c # s) =
     (if is_digit c \<or> hex \<and> CHR ''a'' \<le> lower_char c \<and> lower_char c \<le> CHR ''f'' then underscores_between hex Digit s
      else if c = CHR ''_'' then sn = Digit \<and> underscores_between hex Underscore s
      else sn \<noteq> Underscore \<and> underscores_between hex Other s)"

definition underscoreOK :: "string \<Rightarrow> bool" where
  "underscoreOK s =
     (if 2 \<le> length s \<and> s ! 0 = CHR ''0'' \<and> lower_char (s ! 1) \<in> {CHR ''b'', CHR ''o'', CHR ''x''}
      then underscores_between (lower_char (s ! 1) = CHR ''x'') Digit (drop 2 s)
      else underscores_between False Start s)"

definition parse_uint :: "string \<Rightarrow> number_error + nat" where
  "parse_uint s =
     (if s = [] then Inl BadNumber
      else (case number_base s of (base, ds) \<Rightarrow>
              (case uint_digits base 0 ds of
                 Inl e \<Rightarrow> Inl e
               | Inr n \<Rightarrow> if CHR ''_'' \<in> set ds \<and> \<not> underscoreOK s then Inl BadNumber else Inr n)))"

text \<open>\<^verbatim>\<open>strconv.ParseInt(s, 0, 64)\<close>\<close>

definition parse_int_any :: "string \<Rightarrow> number_error + int" where
  "parse_int_any s =
     (let neg = has_prefix ''-'' s in
      case parse_uint (if neg \<or> has_prefix ''+'' s then drop 1 s else s) of
        Inl e \<Rightarrow> Inl e
      | Inr n \<Rightarrow>
          if \<not> neg \<and> 2 ^ 63 \<le> n \<or> neg \<and> 2 ^ 63 < n then Inl OutOfRange
          else Inr (if neg then - int n else int n))"

text \<open>\<^verbatim>\<open>strconv.ParseBool\<close>\<close>

definition parse_bool :: "string \<Rightarrow> bool option" where
  "parse_bool s =
     (if s \<in> {''1'', ''t'', ''T'', ''true'', ''TRUE'', ''True''} then Some True
      else if s \<in> {''0'', ''f'', ''F'', ''false'', ''FALSE'', ''False''} then Some False else None)"

section \<open>Flag sets\<close>

datatype flag_value = FStr string | FInt int | FBool bool

type_synonym flag_set = "(string, flag_value) gomap"

datatype flag_error = HelpWanted | FlagError string

definition number_error_text :: "number_error \<Rightarrow> string" where
  "number_error_text e = (case e of BadNumber \<Rightarrow> ''parse error'' | OutOfRange \<Rightarrow> ''value out of range'')"

definition invalid_value :: "string \<Rightarrow> string \<Rightarrow> string \<Rightarrow> flag_error" where
  "invalid_value v name e = FlagError (''invalid value '' @ go_quote v @ '' for flag -'' @ name @ '': '' @ e)"

definition set_flag :: "string \<Rightarrow> string \<Rightarrow> flag_set \<Rightarrow> flag_error + flag_set" where
  "set_flag name v f =
     (case get f name of
        None \<Rightarrow> Inl (FlagError (''flag provided but not defined: -'' @ name))
      | Some (FStr _) \<Rightarrow> Inr (put name (FStr v) f)
      | Some (FInt _) \<Rightarrow>
          (case parse_int_any v of
             Inl e \<Rightarrow> Inl (invalid_value v name (number_error_text e)) | Inr i \<Rightarrow> Inr (put name (FInt i) f))
      | Some (FBool _) \<Rightarrow>
          (case parse_bool v of
             None \<Rightarrow> Inl (FlagError (''invalid boolean value '' @ go_quote v @ '' for -'' @ name @ '': parse error''))
           | Some b \<Rightarrow> Inr (put name (FBool b) f)))"

definition is_bool_flag :: "flag_set \<Rightarrow> string \<Rightarrow> bool" where
  "is_bool_flag f name = (case get f name of Some (FBool _) \<Rightarrow> True | _ \<Rightarrow> False)"

text \<open>What one argument is: the end of the flags (with the arguments that remain), a text that is none,
  or a flag with the value after its first equals sign.\<close>

datatype flag_token = Stop bool | BadSyntax | Flag string "string option"

definition read_flag :: "string \<Rightarrow> flag_token" where
  "read_flag s =
     (if length s < 2 \<or> \<not> has_prefix ''-'' s then Stop False
      else if s = ''--'' then Stop True
      else (let name = (if has_prefix ''--'' s then drop 2 s else drop 1 s) in
            if has_prefix ''-'' name \<or> has_prefix ''='' name then BadSyntax
            else (let n = takeWhile (\<lambda>c. c \<noteq> CHR ''='') name
                  in Flag n (if length n < length name then Some (drop (length n + 1) name) else None))))"

definition undefined_flag :: "string \<Rightarrow> flag_error" where
  "undefined_flag name =
     (if name = ''help'' \<or> name = ''h'' then HelpWanted
      else FlagError (''flag provided but not defined: -'' @ name))"

function (sequential) parse_flags :: "flag_set \<Rightarrow> string list \<Rightarrow> flag_error + flag_set \<times> string list" where
  "parse_flags f [] = Inr (f, [])"
| "parse_flags f (s # args) =
     (case read_flag s of
        Stop consumed \<Rightarrow> Inr (f, if consumed then args else s # args)
      | BadSyntax \<Rightarrow> Inl (FlagError (''bad flag syntax: '' @ s))
      | Flag name value \<Rightarrow>
          if get f name = None then Inl (undefined_flag name)
          else if is_bool_flag f name \<or> value \<noteq> None
          then (case set_flag name (case value of None \<Rightarrow> ''true'' | Some v \<Rightarrow> v) f of
                  Inl e \<Rightarrow> Inl e | Inr f' \<Rightarrow> parse_flags f' args)
          else (case args of
                  [] \<Rightarrow> Inl (FlagError (''flag needs an argument: -'' @ name))
                | v # rest \<Rightarrow> (case set_flag name v f of Inl e \<Rightarrow> Inl e | Inr f' \<Rightarrow> parse_flags f' rest)))"
  by pat_completeness auto

termination by (relation "measure (\<lambda>(f, args). length args)") auto

definition str_flag :: "flag_set \<Rightarrow> string \<Rightarrow> string" where
  "str_flag f name = (case get f name of Some (FStr s) \<Rightarrow> s | _ \<Rightarrow> [])"

definition int_flag :: "flag_set \<Rightarrow> string \<Rightarrow> int" where
  "int_flag f name = (case get f name of Some (FInt i) \<Rightarrow> i | _ \<Rightarrow> 0)"

definition bool_flag :: "flag_set \<Rightarrow> string \<Rightarrow> bool" where
  "bool_flag f name = (case get f name of Some (FBool b) \<Rightarrow> b | _ \<Rightarrow> False)"

definition trimmed_flag :: "flag_set \<Rightarrow> string \<Rightarrow> string" where
  "trimmed_flag f name = trim_space (str_flag f name)"


section \<open>Assignments are read back\<close>

definition flag_text :: "flag_value \<Rightarrow> string" where
  "flag_text v =
     (case v of FStr s \<Rightarrow> s | FInt i \<Rightarrow> show_int i | FBool b \<Rightarrow> if b then ''true'' else ''false'')"

definition assignment :: "string \<times> flag_value \<Rightarrow> string" where
  "assignment nv = ''--'' @ fst nv @ ''='' @ flag_text (snd nv)"

fun same_kind :: "flag_value \<Rightarrow> flag_value \<Rightarrow> bool" where
  "same_kind (FStr _) (FStr _) = True"
| "same_kind (FInt _) (FInt i) = (- (2 ^ 63) \<le> i \<and> i < 2 ^ 63)"
| "same_kind (FBool _) (FBool _) = True"
| "same_kind _ _ = False"

definition assigns :: "flag_set \<Rightarrow> string \<times> flag_value \<Rightarrow> bool" where
  "assigns f nv =
     (fst nv \<noteq> [] \<and> hd (fst nv) \<noteq> CHR ''-'' \<and> CHR ''='' \<notin> set (fst nv)
      \<and> (\<exists>d. get f (fst nv) = Some d \<and> same_kind d (snd nv)))"

lemma uint_digits_append:
  "uint_digits base n (s @ t) = (case uint_digits base n s of Inl e \<Rightarrow> Inl e | Inr m \<Rightarrow> uint_digits base m t)"
  by (induction base n s rule: uint_digits.induct) (auto split: option.splits)

lemma decimal_char:
  assumes "k < 10"
  shows "digit_value (char_of (48 + k)) = Some k" "(char_of (48 + k) :: char) \<noteq> CHR ''_''"
    "(char_of (48 + k) :: char) = CHR ''0'' \<longleftrightarrow> k = 0" "is_digit (char_of (48 + k))"
proof -
  consider "k = 0" | "k = 1" | "k = 2" | "k = 3" | "k = 4" | "k = 5" | "k = 6" | "k = 7" | "k = 8" | "k = 9"
    using assms by (auto simp: numeral_eq_Suc less_Suc_eq)
  then have "digit_value (char_of (48 + k)) = Some k \<and> (char_of (48 + k) :: char) \<noteq> CHR ''_''
    \<and> ((char_of (48 + k) :: char) = CHR ''0'' \<longleftrightarrow> k = 0) \<and> is_digit (char_of (48 + k))"
    by cases (simp_all add: digit_value_def is_digit_def less_eq_char_def char_of_def bit_iff_odd)
  then show "digit_value (char_of (48 + k)) = Some k" "(char_of (48 + k) :: char) \<noteq> CHR ''_''"
    "(char_of (48 + k) :: char) = CHR ''0'' \<longleftrightarrow> k = 0" "is_digit (char_of (48 + k))"
    by blast+
qed

lemma uint_digits_show: "n < 2 ^ 64 \<Longrightarrow> uint_digits 10 0 (show_nat n) = Inr n"
proof (induction n rule: show_nat.induct)
  case (1 n)
  show ?case
  proof (cases "n < 10")
    case True
    then show ?thesis using decimal_char [OF True] by (simp add: show_nat.simps)
  next
    case False
    then have "uint_digits 10 0 (show_nat (n div 10)) = Inr (n div 10)" using 1 by simp
    then show ?thesis
      using False decimal_char [of "n mod 10"] 1(2) by (simp add: show_nat.simps [of n] uint_digits_append)
  qed
qed

lemma show_nat_shape:
  "show_nat n \<noteq> []" "hd (show_nat n) = CHR ''0'' \<longleftrightarrow> n = 0" "list_all is_digit (show_nat n)" "n < 10 \<longleftrightarrow> length (show_nat n) = 1"
proof (induction n rule: show_nat.induct)
  case (1 n)
  { case 1 then show ?case by (simp add: show_nat.simps [of n]) }
  { case 2 then show ?case
      using "1.IH" decimal_char(3) [of n] by (cases "n < 10") (simp_all add: show_nat.simps [of n]) }
  { case 3 then show ?case
      using "1.IH" decimal_char(4) [of n] decimal_char(4) [of "n mod 10"] by (cases "n < 10") (simp_all add: show_nat.simps [of n]) }
  { case 4 then show ?case using "1.IH" by (cases "n < 10") (simp_all add: show_nat.simps [of n]) }
qed

lemma parse_uint_show:
  assumes "n < 2 ^ 64"
  shows "parse_uint (show_nat n) = Inr n"
proof (cases "n = 0")
  case True
  moreover have "parse_uint (show_nat 0) = Inr 0" by code_simp
  ultimately show ?thesis by simp
next
  case False
  have "CHR ''_'' \<notin> set (show_nat n)"
    using show_nat_shape(3) [of n] by (auto simp: list_all_iff is_digit_def less_eq_char_def)
  moreover have "\<not> has_prefix ''0'' (show_nat n)"
    using show_nat_shape(1,2) [of n] False by (cases "show_nat n") (auto simp: has_prefix_def)
  ultimately show ?thesis
    using show_nat_shape(1) [of n] uint_digits_show [OF assms] by (simp add: parse_uint_def number_base_def)
qed

lemma parse_int_any_show:
  assumes "- (2 ^ 63) \<le> i" "i < 2 ^ 63"
  shows "parse_int_any (show_int i) = Inr i"
proof -
  have "\<not> has_prefix ''-'' (show_nat n)" "\<not> has_prefix ''+'' (show_nat n)" for n
    using show_nat_shape(1,3) [of n]
    by (cases "show_nat n"; auto simp: has_prefix_def is_digit_def less_eq_char_def)+
  then show ?thesis
    using assms parse_uint_show [of "nat i"] parse_uint_show [of "nat (- i)"]
    by (auto simp: parse_int_any_def show_int_def has_prefix_def Let_def nat_less_iff)
qed

lemma set_flag_text:
  assumes "get f n = Some d" "same_kind d v"
  shows "set_flag n (flag_text v) f = Inr (put n v f)"
  using assms
  by (cases d; cases v) (auto simp: set_flag_def flag_text_def parse_int_any_show parse_bool_def)

lemma flag_token_assignment:
  assumes "n \<noteq> []" "hd n \<noteq> CHR ''-''" "CHR ''='' \<notin> set n"
  shows "read_flag (''--'' @ n @ ''='' @ t) = Flag n (Some t)"
proof -
  have "takeWhile (\<lambda>c. c \<noteq> CHR ''='') (n @ ''='' @ t) = n" using assms(3) by (subst takeWhile_append2) auto
  moreover have "hd n \<noteq> CHR ''=''" using assms(1,3) by (metis list.set_sel(1))
  ultimately show ?thesis
    using assms(1,2) by (cases n) (auto simp: read_flag_def has_prefix_def Let_def)
qed

text \<open>Arguments of the form \<^verbatim>\<open>--name=value\<close> for defined flags, each with the text of a value of the flag's
  kind (any string, any 64-bit integer in decimal, true or false), are accepted and give exactly those
  values, the last one of a name winning; what follows is parsed as before.\<close>

lemma flags_read_back:
  assumes "list_all (assigns f) nvs"
  shows "parse_flags f (map assignment nvs @ args) = parse_flags (foldl (\<lambda>f (n, v). put n v f) f nvs) args"
  using assms
proof (induction nvs arbitrary: f)
  case (Cons nv nvs)
  obtain n v where nv: "nv = (n, v)" by fastforce
  with Cons.prems obtain d where d: "n \<noteq> []" "hd n \<noteq> CHR ''-''" "CHR ''='' \<notin> set n" "get f n = Some d" "same_kind d v"
    by (auto simp: assigns_def)
  have "same_kind v x" if "same_kind d x" for x using that d(5) by (cases d; cases v; cases x) auto
  then have "list_all (assigns (put n v f)) nvs"
    using Cons.prems d(4) by (auto simp: assigns_def list_all_iff nv)
  from Cons.IH [OF this] show ?case
    using d(4) flag_token_assignment [OF d(1-3), of "flag_text v"] set_flag_text [OF d(4,5)]
    by (simp add: assignment_def nv)
qed simp

lemma leading_zero_is_octal: "parse_int_any ''010'' = Inr 8" "parse_int64 ''010'' = Some 10"
  by (simp_all add: parse_int_any_def parse_int64_def parse_uint_def number_base_def has_prefix_def digit_value_def
      is_digit_def less_eq_char_def lower_char_def)

end
