(* ===== verification/Wiring.thy ===== *)
theory Wiring
  imports ApiRoutes Flags Batch
begin

text \<open>
  How a process comes up: \<^verbatim>\<open>config.Load\<close> and \<^verbatim>\<open>config.Save\<close> on the file system, \<^verbatim>\<open>app.New\<close> from the
  database to the registered extensions, and \<^verbatim>\<open>cmd/hermesd\<close>, the daemon with its server and its
  scheduler. YAML, the random source and the opening of the database are outside the repository
  (\<open>CliOut\<close>); the database of the world is the one the configuration names.
\<close>

section \<open>The outside of a process\<close>

datatype stdin_kind = Terminal | Piped | Unreadable

record CliOut =
  co_env :: Env
  co_ext :: ExtOut
  co_models :: ModelOut
  co_cron :: CronText
  co_check :: "string \<Rightarrow> string \<Rightarrow> bool"
  co_sign :: "string \<Rightarrow> Claims \<Rightarrow> string + string"
  co_parse :: "string \<Rightarrow> string \<Rightarrow> string + (Claims option \<times> bool)"
  co_hash :: "string \<Rightarrow> string + string"
  co_schedule :: "World \<Rightarrow> par_event list"
  co_open :: "string \<Rightarrow> string option" \<comment> \<open>the error of opening the database at a path\<close>
  co_random :: "string + string"
  co_yaml :: "string \<Rightarrow> Config \<Rightarrow> string + Config"
  co_print :: "Config \<Rightarrow> string + string"
  co_stdin :: stdin_kind

section \<open>Configuration files\<close>

definition LoadConfig :: "CliOut \<Rightarrow> string \<Rightarrow> World \<Rightarrow> Config app_result" where
  "LoadConfig co path w =
     (case on_files (read_file path) w of
        (r, w) \<Rightarrow> (case Load r (co_yaml co) of (Some e, _) \<Rightarrow> (Inl e, w) | (None, cfg) \<Rightarrow> (Inr cfg, w)))"

text \<open>\<^verbatim>\<open>filepath.Dir\<close>\<close>

definition path_dir :: "string \<Rightarrow> string" where
  "path_dir p = path_clean (rev (dropWhile (\<lambda>c. c \<noteq> CHR ''/'') (rev p)))"

definition prefixed :: "string \<Rightarrow> 'a app_result \<Rightarrow> 'a app_result" where
  "prefixed label r = (case r of (Inl e, w) \<Rightarrow> (Inl (label @ e), w) | (Inr a, w) \<Rightarrow> (Inr a, w))"

definition SaveConfig :: "CliOut \<Rightarrow> string \<Rightarrow> Config \<Rightarrow> World \<Rightarrow> unit app_result" where
  "SaveConfig co path cfg w =
     (case co_print co cfg of
        Inl e \<Rightarrow> (Inl (''marshal config: '' @ e), w)
      | Inr raw \<Rightarrow>
          bind_res (prefixed ''create config dir: '' (on_files (mkdir_all (path_dir path)) w)) (\<lambda>_ w.
            prefixed ''write config: '' (on_files (write_file path raw) w)))"

section \<open>The container\<close>

text \<open>\<^verbatim>\<open>loadOrCreateSecret\<close> with its reads and writes: an empty or unreadable file is replaced.\<close>

definition load_secret :: "CliOut \<Rightarrow> string \<Rightarrow> World \<Rightarrow> string app_result" where
  "load_secret co path w =
     (case on_files (read_file path) w of
        (r, w) \<Rightarrow>
          (let file = (case r of Inl _ \<Rightarrow> None | Inr raw \<Rightarrow> Some raw) in
           if file \<noteq> None \<and> file \<noteq> Some [] then (loadOrCreateSecret file (co_random co) None, w)
           else (case co_random co of
                   Inl e \<Rightarrow> (Inl e, w)
                 | Inr secret \<Rightarrow>
                     (case on_files (write_file path secret) w of
                        (Inl e, w) \<Rightarrow> (loadOrCreateSecret file (co_random co) (Some e), w)
                      | (Inr _, w) \<Rightarrow> (loadOrCreateSecret file (co_random co) None, w)))))"

text \<open>\<^verbatim>\<open>app.New\<close>: the parts of the container that keep state are the application with its tools, the
  authentication service and the extension manager; the prompt cache is in the world and starts empty.\<close>

definition NewApplication :: "CliOut \<Rightarrow> Config \<Rightarrow> World \<Rightarrow> (App \<times> Service \<times> ExtManager) app_result" where
  "NewApplication co c w =
     (case co_open co (DBPath c) of
        Some e \<Rightarrow> (Inl e, w)
      | None \<Rightarrow>
          (case load_secret co (JWTSecretPath c) w of
             (secret, w) \<Rightarrow>
               (case NewService c secret of
                  Inl e \<Rightarrow> (Inl e, w)
                | Inr svc \<Rightarrow>
                    (case NewApp (co_env co) c of
                       (Inl e, _) \<Rightarrow> (Inl e, w)
                     | (Inr a, _) \<Rightarrow>
                         (case Discover (co_env co) (co_ext co) (app_extensions c, w\<lparr>w_cache := new_prompt_cache c\<rparr>) of
                            (Inl e, m, w) \<Rightarrow> (Inl e, w)
                          | (Inr _, m, w) \<Rightarrow>
                              (case RegisterExtensions (co_env co) (co_ext co) (m, app_Tools a) of
                                 (Inl e, m, reg) \<Rightarrow> (Inl e, w)
                               | (Inr _, m, reg) \<Rightarrow> (Inr (a\<lparr>app_Tools := reg\<rparr>, svc, m), w)))))))"

section \<open>The daemon\<close>

text \<open>The server and the scheduler work on one application. A run is a sequence of handled requests and
  expiries of the ticker, each at its time; the first expiry is the tick at the start.\<close>

datatype daemon_event = Request time string HttpRequest | Expiry time

definition at_time :: "time \<Rightarrow> ApiState \<Rightarrow> ApiState" where
  "at_time t s = set_world ((as_world s)\<lparr>w_now := t\<rparr>) s"

definition scheduler_on :: "Config \<Rightarrow> bool" where
  "scheduler_on c = (crn_Enabled (cfg_Cron c) \<and> 0 < wrap64 (crn_TickSeconds (cfg_Cron c) * nanos_per_second))"

fun daemon_step :: "ApiOut \<Rightarrow> CronText \<Rightarrow> Config \<Rightarrow> daemon_event \<Rightarrow> ApiState \<Rightarrow> ApiState" where
  "daemon_step ao ct cfg (Request t path r) s = snd (serve ao path r (at_time t s))"
| "daemon_step ao ct cfg (Expiry t) s =
     (if scheduler_on cfg
      then snd (in_world (Tick (ao_env ao) (as_app s) ct (NewCronManager (cfg_DataDir cfg))) (at_time t s)) else s)"

definition hermesd :: "ApiOut \<Rightarrow> CliOut \<Rightarrow> string \<Rightarrow> daemon_event list \<Rightarrow> World \<Rightarrow> (string, ApiState, World) outcome" where
  "hermesd ao co path events w =
     bind_res (prefixed ''load config: '' (LoadConfig co path w)) (\<lambda>cfg w.
     bind_res (prefixed ''init app: '' (NewApplication co cfg w)) (\<lambda>(a, svc, m) w.
       (let s = fold (daemon_step ao (co_cron co) cfg) events
                  \<lparr>as_app = a, as_auth = svc, as_ext = m, as_gs = \<lparr>gs_world = w, gs_sent = []\<rparr>, as_urls = []\<rparr>
        in (Inr s, as_world s))))"

end
