(* ===== verification/ServerSteps.thy ===== *)
theory ServerSteps
  imports Wiring ExtProps
begin

text \<open>
  What the daemon does to its database. \<open>served_step\<close> is the part of the store's interface that a server
  uses; every request, every tick of the scheduler and the start of the container are shown to be runs
  of it, so what holds of its steps holds of the daemon.
\<close>

section \<open>The methods of the store a server uses\<close>

inductive served_step :: "Store \<Rightarrow> Store \<Rightarrow> bool" where
  sv_engine: "served_step d (d\<lparr>faults := fs\<rparr>)"
| sv_failure: "served_step d (snd (UpdateLoginFailure u n l d))"
| sv_reset: "served_step d (snd (ResetLoginFailures u d))"
| sv_audit: "served_step d (snd (WriteAudit now u a t d))"
| sv_extension: "served_step d (snd (UpsertExtensionState now k n e h d))"
| sv_hook: "served_step d (snd (InsertExtensionHookRun now hr d))"
| sv_summary: "served_step d (snd (UpsertContextSummary now u s t d))"
| sv_session: "served_step d (snd (CreateSessionWithOptions now u m p r opts d))"
| sv_message: "served_step d (snd (AddMessage now sid role c d))"
| sv_response: "served_step d (snd (UpdateSessionResponse sid r d))"
| sv_trace: "served_step d (snd (InsertMultiAgentTrace now tr d))"
| sv_mark: "served_step d (snd (MarkGatewayUpdateProcessed now p x d))"

definition served :: "World \<Rightarrow> World \<Rightarrow> bool" where
  "served w w' \<longleftrightarrow> served_step\<^sup>*\<^sup>* (w_store w) (w_store w')"

lemma read_run:
  assumes "\<And>d. snd (f d) = d"
  shows "served_step\<^sup>*\<^sup>* d (snd (stmt f d))"
proof (cases rule: stmt_cases [of f d])
  case (1 e fs)
  then show ?thesis using sv_engine [of d fs] by auto
next
  case (2 fs)
  then show ?thesis using sv_engine [of d fs] assms by auto
qed

lemma query_run: "served_step\<^sup>*\<^sup>* d (snd (query f d))"
  unfolding query_def by (rule read_run) simp

lemma run_bind:
  "served_step\<^sup>*\<^sup>* d (snd m) \<Longrightarrow> (\<And>x e. served_step\<^sup>*\<^sup>* e (snd (k x e))) \<Longrightarrow> served_step\<^sup>*\<^sup>* d (snd (bind_res m k))"
  by (cases m; cases "fst m") (auto intro: rtranclp_trans)

lemma sessions_run: "served_step\<^sup>*\<^sup>* d (snd (ListSessionsPage u l ofs d))" "served_step\<^sup>*\<^sup>* d (snd (ListSessions u l d))"
  by (simp_all add: ListSessions_def ListSessionsPage_def query_run)

lemma search_run: "served_step\<^sup>*\<^sup>* d (snd (SearchMessages fts snip q d))"
  unfolding SearchMessages_def by (rule read_run) (simp add: Let_def split: option.split)

lemma recent_run: "served_step\<^sup>*\<^sup>* d (snd (ListRecentMessagesBySession sid l d))"
  "served_step\<^sup>*\<^sup>* d (snd (ListRecentMessagesByUsername u l d))"
  by (simp_all add: ListRecentMessagesBySession_def ListRecentMessagesByUsername_def query_run)

lemma get_run: "served_step\<^sup>*\<^sup>* d (snd (GetSession sid d))" "served_step\<^sup>*\<^sup>* d (snd (GetUser u d))"
  "served_step\<^sup>*\<^sup>* d (snd (GetContextSummary u d))"
  unfolding GetSession_def GetUser_def GetContextSummary_def
  by ((rule read_run; simp split: option.split) | rule query_run)+

lemma page_run: "served_step\<^sup>*\<^sup>* d (snd (GetMessagesPage sid l ofs d))"
  "served_step\<^sup>*\<^sup>* d (snd (ListMultiAgentTraces q d))" "served_step\<^sup>*\<^sup>* d (snd (SummarizeMultiAgentTraces q d))"
  "served_step\<^sup>*\<^sup>* d (snd (SummarizeMultiAgentVerifierResults q d))" "served_step\<^sup>*\<^sup>* d (snd (ListMultiAgentTraceFailures q d))"
  "served_step\<^sup>*\<^sup>* d (snd (ListMultiAgentTraceHotspots q d))" "served_step\<^sup>*\<^sup>* d (snd (ListAuditFiltered aq d))"
  "served_step\<^sup>*\<^sup>* d (snd (SummarizeAuditActions aq d))" "served_step\<^sup>*\<^sup>* d (snd (ListExtensionHookRuns hq d))"
  "served_step\<^sup>*\<^sup>* d (snd (ListExtensionStates d))"
  by (simp_all add: GetMessagesPage_def ListMultiAgentTraces_def SummarizeMultiAgentTraces_def
      SummarizeMultiAgentVerifierResults_def ListMultiAgentTraceFailures_def ListMultiAgentTraceHotspots_def
      ListAuditFiltered_def SummarizeAuditActions_def ListExtensionHookRuns_def ListExtensionStates_def query_run)

lemmas read_runs = sessions_run search_run recent_run get_run page_run

lemma step_run: "served_step d e \<Longrightarrow> served_step\<^sup>*\<^sup>* d e"
  by (rule r_into_rtranclp)

lemmas write_runs = sv_failure [THEN step_run] sv_reset [THEN step_run] sv_audit [THEN step_run]
  sv_extension [THEN step_run] sv_hook [THEN step_run] sv_summary [THEN step_run]
  sv_session [THEN step_run] sv_message [THEN step_run] sv_response [THEN step_run]
  sv_trace [THEN step_run] sv_mark [THEN step_run]

context preorder_steps
begin

lemma curried_steps:
  "(\<And>a b. p = (a, b) \<Longrightarrow> follows R s (k a b v)) \<Longrightarrow> follows R s ((case p of (a, b) \<Rightarrow> k a b) v)"
  by (cases p) simp

lemma later_steps: "follows R s (x, t) \<Longrightarrow> follows R t m \<Longrightarrow> follows R s m"
  by (auto simp: follows_def intro: step_trans)

lemma sequential_steps:
  assumes "\<And>t w. follows R w (runner t w)"
  shows "follows R w (run_sequential runner cancelled ts acc w)"
proof (induction ts arbitrary: acc w)
  case (Cons t ts)
  show ?case unfolding run_sequential.simps by (rule state_steps assms Cons.IH)+
qed (simp add: stay)

lemma parallel_steps:
  assumes "\<And>t w. follows R w (runner t w)"
  shows "par_exec runner cancelled plan es s = Some s' \<Longrightarrow> R (ps_world s) (ps_world s')"
proof (induction es arbitrary: s)
  case (Cons e es)
  obtain s1 where s1: "par_step runner cancelled plan e s = Some s1" "par_exec runner cancelled plan es s1 = Some s'"
    using Cons.prems by (auto split: option.splits)
  have "runner t v = (r, v') \<Longrightarrow> R v v'" for t v r v'
    using assms [of v t] by (simp add: follows_def)
  then have "R (ps_world s) (ps_world s1)"
    using s1(1) step_refl by (cases e) (auto split: if_splits prod.splits list.splits)
  then show ?case using Cons.IH [OF s1(2)] by (rule step_trans)
qed (simp add: step_refl)

lemma plan_steps:
  assumes "\<And>t w. follows R w (runner t w)"
  shows "follows R w (RunPlan p runner cancelled schedule plan w)"
  using sequential_steps [of runner w cancelled "plan_Tasks plan" "[]", OF assms]
    parallel_steps [where runner = runner and s = "par_start plan w", OF assms]
  by (auto simp: RunPlan_def follows_def step_refl par_start_def Let_def
      split: option.split prod.split run_status.split)

end

interpretation srv: related served
  by unfold_locales (auto simp: served_def intro: rtranclp_trans write_runs read_runs)

section \<open>Operations on the world\<close>

abbreviation serves :: "World \<Rightarrow> 'a \<times> World \<Rightarrow> bool" where
  "serves \<equiv> follows served"

lemma store_serves: "(\<And>d. served_step\<^sup>*\<^sup>* d (snd (f d))) \<Longrightarrow> serves w (on_store f w)"
  by (simp add: follows_def on_store_snd served_def)

lemma apart_serves: "w_store w' = w_store w \<Longrightarrow> serves w (x, w')"
  by (simp add: follows_def served_def)

lemma net_serves: "serves w (on_net f w)"
  by (simp add: on_net_def split_beta apart_serves)

lemmas op_serves = srv.basic_steps net_serves read_runs [THEN store_serves] write_runs [THEN store_serves]

lemmas w_steps = srv.state_steps
lemmas v_steps = srv.value_steps srv.curried_steps

section \<open>Chats and agents\<close>

lemma summary_serves: "serves w (summarize_history env a existing history m w)"
  unfolding summarize_history_def
  by (((rule op_serves w_steps) | (rule v_steps))+)

lemma compress_serves: "serves w (Compress (Some (app_compressor env a)) existing history w)"
proof -
  have "serves w (buildSummary (app_compressor env a) existing h w)" for h
    unfolding buildSummary_def
    by (simp add: app_compressor_def WithSummarizer_def Let_def)
       (intro conjI impI srv.run_steps summary_serves srv.sum_steps srv.if_steps srv.stay)
  then show ?thesis
    by (auto simp: Compress_def Let_def intro!: srv.run_steps srv.stay)
qed

lemma app_deps_fields:
  "dep_PrefetchMemory (app_deps env a) = (\<lambda>u p. on_files (MgrPrefetch (app_Memory a) u p))"
  "dep_GetSummary (app_deps env a) = (\<lambda>u. on_store (GetContextSummary u))"
  "dep_PersistSummary (app_deps env a) = (\<lambda>u sm st w. on_store (UpsertContextSummary (w_now w) u sm st) w)"
  "dep_ListRecent (app_deps env a) = (\<lambda>u l. on_store (ListRecentMessagesByUsername u l))"
  "dep_ListRecentBySession (app_deps env a) = Some (\<lambda>sid l. on_store (ListRecentMessagesBySession sid l))"
  "dep_Compress (app_deps env a) = Compress (Some (app_compressor env a))"
  by (simp_all add: app_deps_def)

lemma build_serves: "serves w (build_plan env a i w)"
proof -
  have p: "serves v (persist_step (app_deps env a) j st c v)" for j st c v
    unfolding persist_step_def app_deps_fields by (rule op_serves w_steps)+
  have "serves w (Build (env_digest env) \<lparr>bld_deps = app_deps env a, bld_cache = w_cache w\<rparr> (w_now w) i w)"
    unfolding Build_def recent_messages_def Builder.simps Let_def app_deps_fields option.sel
    by (((rule op_serves compress_serves p w_steps) | (rule v_steps))+)
  then show ?thesis
    unfolding build_plan_def by (rule srv.bind_steps) (simp add: apart_serves split: prod.split)
qed

lemma chat_serves: "serves w (chatDetailed env a u sid prompt reuse w)"
proof -
  have t: "serves v (chat_target a u sid prompt reuse response v)" for response v
    unfolding chat_target_def CreateSession_def by (rule op_serves w_steps)+
  have r: "serves v (record_turn a u target prompt response v)" for target response v
    unfolding record_turn_def by (rule op_serves w_steps)+
  show ?thesis
    unfolding chatDetailed_def
    by (((rule op_serves build_serves t r w_steps) | (rule v_steps))+)
qed

lemma turn_serves: "serves w (ChatTurn env a u prompt w)" "serves w (AppChat env a u prompt w)"
  "serves w (EstimateContextBudget env a u prompt w)"
  unfolding AppChat_def ChatTurn_def EstimateContextBudget_def InspectPrompt_def
  by ((rule chat_serves build_serves w_steps)+)

text \<open>An application whose tools reach the database only through the served methods.\<close>

abbreviation sound_tools :: "App \<Rightarrow> bool" where
  "sound_tools a \<equiv> tools_follow served (app_Tools a)"

lemma child_serves:
  assumes "sound_tools a"
  shows "serves w (runMultiAgentChildTaskWithSeedAndState env a u parent t h seed w)"
  using srv.child_task_rounds [where P = "\<lambda>n. served w", OF assms] srv.step_refl srv.step_trans
  by (fastforce simp: follows_def served_def)

lemma run_serves:
  assumes "sound_tools a"
  shows "serves w (RunMultiAgentPlan env a cancelled schedule u plan w)"
proof -
  have 1: "serves v (open_parent a u plan v)" for v
    unfolding open_parent_def by (rule op_serves srv.message_steps w_steps)+
  have 2: "serves v (runMultiAgentChildTask env a u parent t v)" for parent t v
    unfolding runMultiAgentChildTask_def by (rule child_serves [OF assms])
  have 3: "serves v (RunPlan p (\<lambda>t. runMultiAgentChildTask env a u parent t) cancelled schedule plan v)" for p parent v
    by (rule srv.plan_steps) (rule 2)
  have 4: "(\<And>e. serves v (f e)) \<Longrightarrow> serves v b \<Longrightarrow> serves v p \<Longrightarrow> serves v c \<Longrightarrow> (\<And>rs g. serves v (d rs g)) \<Longrightarrow>
      serves v (case r of RunError e \<Rightarrow> f e | RunCancelled \<Rightarrow> c | RunPanic \<Rightarrow> p | RunBlocked \<Rightarrow> b | RunDone rs g \<Rightarrow> d rs g)"
    for v f b p c d r by (cases r) simp_all
  show ?thesis
    unfolding RunMultiAgentPlan_def by (((rule op_serves srv.message_steps 1 3 4 w_steps) | (rule v_steps))+)
qed

lemma plan_serves: "serves w (BuildMultiAgentPlan a u objective ts w)"
  unfolding BuildMultiAgentPlan_def by (((rule op_serves w_steps) | (rule v_steps))+)

lemma replay_serves: "serves w (ReplayMultiAgentChild env u child w)"
  unfolding ReplayMultiAgentChild_def child_traces_def by (((rule op_serves w_steps) | (rule v_steps))+)

lemma resume_serves:
  assumes "sound_tools a"
  shows "serves w (ResumeMultiAgentChild env a u child allowed window w)"
proof -
  have t: "serves v (rebuildTaskFromChildSession s allowed window v)" for s v
    unfolding rebuildTaskFromChildSession_def child_traces_def by (((rule op_serves w_steps) | (rule v_steps))+)
  show ?thesis
    unfolding ResumeMultiAgentChild_def child_traces_def Let_def
    by (((rule op_serves t child_serves [OF assms] w_steps) | (rule v_steps))+)
qed

section \<open>Gateways and the scheduler\<close>

definition gw_served :: "GwState \<Rightarrow> GwState \<Rightarrow> bool" where
  "gw_served s s' \<longleftrightarrow> served (gs_world s) (gs_world s')"

interpretation gws: preorder_steps gw_served
  by unfold_locales (auto simp: gw_served_def intro: srv.step_refl srv.step_trans)

abbreviation gw_serves :: "GwState \<Rightarrow> 'a \<times> GwState \<Rightarrow> bool" where
  "gw_serves \<equiv> follows gw_served"

lemmas g_steps = gws.state_steps
lemmas gv_steps = gws.value_steps gws.curried_steps

lemma world_gw: "serves (gs_world s) (f (gs_world s)) \<Longrightarrow> gw_serves s (on_world f s)"
  by (simp add: on_world_def follows_def gw_served_def split_beta)

lemma apart_gw: "gs_world s' = gs_world s \<Longrightarrow> gw_serves s (x, s')"
  by (simp add: follows_def gw_served_def srv.step_refl)

lemma audit_gw: "gw_serves s (x, audit_at env u ac t s)"
  unfolding audit_at_def by (rule gws.then_result world_gw op_serves)+

lemma mark_gw: "gw_serves s (mark_update p i s)"
  unfolding mark_update_def by (rule world_gw op_serves)+

lemma post_gw: "gw_serves s (post ge rq s)"
  by (simp add: post_def apart_gw)

lemma telegram_send_gw: "gw_serves s (telegram_send ge ad chat text s)"
proof -
  have "gw_serves v (telegram_attempts ge rq n v)" for rq n v
  proof (induction n arbitrary: v)
    case 0
    show ?case by (subst telegram_attempts.simps) (((rule post_gw g_steps) | simp | (rule gv_steps))+)
  next
    case (Suc n)
    show ?case
      by (subst telegram_attempts.simps)
         (auto simp: Let_def Suc.IH split: option.split intro!: gws.run_steps post_gw gws.stay)
  qed
  then show ?thesis
    unfolding telegram_send_def by (auto simp: Let_def split: option.split intro!: gws.stay)
qed

lemma slack_send_gw: "gw_serves s (slack_send env ge ad chan thread text s)"
  unfolding slack_send_def by (((rule post_gw g_steps) | (rule gv_steps))+)

text \<open>Messages of an adapter on a sound application.\<close>

lemma route_serves:
  assumes "sound_tools a"
  shows "serves w (routeMessage env ge (NewAdapter env a) u text w)"
proof -
  have "serves w (RunGatewayMultiAgent env a cancelled [] u objective w)" for cancelled objective
    unfolding RunGatewayMultiAgent_def by (((rule plan_serves run_serves [OF assms] w_steps) | (rule v_steps))+)
  then have "serves w (gateway_multi env ge a u objective w)" for objective
    unfolding gateway_multi_def by (rule srv.run_steps) (rule srv.stay)
  then show ?thesis
    unfolding routeMessage_def NewAdapter_def Adapter.simps by (rule srv.option_steps [rotated]) (rule turn_serves)
qed

lemma adapters_serve:
  assumes "sound_tools a"
  shows "gw_serves s (HandleGenericWebhook env ge (NewAdapter env a) r s)"
    "gw_serves s (HandleTelegramWebhook env ge (NewAdapter env a) r s)"
    "gw_serves s (HandleSlackCommand env ge (NewAdapter env a) r s)"
    "gw_serves s (HandleSlackEvents env ge (NewAdapter env a) r s)"
    "gw_serves s (HandleWeixinWebhook env ge (NewAdapter env a) r s)"
  unfolding HandleGenericWebhook_def HandleTelegramWebhook_def HandleSlackCommand_def HandleSlackEvents_def
    HandleWeixinWebhook_def answer_telegram_def answer_slack_def
  by (((rule audit_gw mark_gw telegram_send_gw slack_send_gw world_gw route_serves [OF assms] g_steps) | (rule gv_steps))+)[5]

lemma tick_serves: "serves w (Tick env a ct m w)"
proof -
  have j: "serves v (run_job env ct m (ChatTurn env a) (Some audit) now j v)" for now j v
    unfolding run_job_def writeOutput_def write_audit_def option.case Let_def
    by (((rule op_serves turn_serves w_steps) | (rule v_steps))+)
  have "serves v (run_jobs env ct m (ChatTurn env a) (Some audit) now js v)" for now js v
  proof (induction js arbitrary: v)
    case (Cons x xs)
    show ?case unfolding run_jobs.simps by (((rule j Cons.IH w_steps) | (rule v_steps))+)
  qed (simp add: srv.stay)
  then have "serves w (TickWith env ct m (ChatTurn env a) (Some audit) w)"
    unfolding TickWith_def ensureDirs_def loadJobs_def saveJobs_def
    by - (((rule op_serves w_steps) | assumption | (rule v_steps))+)
  then show ?thesis by (simp add: Tick_def)
qed

section \<open>Extensions\<close>

lemma same_serves: "same w_store w m \<Longrightarrow> serves w m"
  by (simp add: same_def follows_def served_def)

lemma opt_audit_serves: "serves w (x, opt_audit (Some audit) u ac t w)"
  unfolding opt_audit_def option.case by (rule srv.then_result op_serves)+

lemma command_serves: "serves w (executeCommandSpec run spec input w)"
  by (rule same_serves) (rule command_stored)

lemma mcp_call_serves: "serves w (mcp_call env mo c m params w)"
proof -
  have "serves v (newMCPClient mo c v)" for v
    by (simp add: newMCPClient_def follows_def served_def split: sum.split)
  then show ?thesis
    unfolding mcp_call_def by - (rule srv.bind_steps, assumption, ((rule w_steps) | (rule v_steps))+)
qed

lemma extension_tool_serves:
  assumes "wired m" "t \<in> set (extension_tools env xo m)"
  shows "serves w (the (tool_Handler t) i w)"
proof -
  have c: "serves w (command_handler run (Some audit) kind name spec i w)" for run kind name spec
    unfolding command_handler_def
    by (((rule opt_audit_serves command_serves w_steps) | (rule v_steps))+)
  have s: "serves w (mcp_handler env mo (Some audit) server c x i w)" for mo server c x
    unfolding mcp_handler_def Let_def
    by (auto simp: split: option.split json.split
        intro!: srv.run_steps srv.sum_steps opt_audit_serves srv.later_steps [OF opt_audit_serves mcp_call_serves] srv.stay)
  show ?thesis
    using assms(2) c s
    by (auto simp: extension_tools_def plugin_tools_def skill_tools_def mcp_tools_def command_tool_def mcp_tool_def
        wired_audit [OF assms(1)])
qed

lemma find_mem: "find P xs = Some x \<Longrightarrow> x \<in> set xs"
  by (auto simp: find_Some_iff)

lemma registered_tools:
  "\<exists>r'. RegisterExtensions env xo (m, r) = (Inr (), (m\<lparr>em_registered := map tool_Name (extension_tools env xo m)\<rparr>, r'))
    \<and> (\<forall>n t. get r' n = Some t \<longrightarrow> t \<in> set (extension_tools env xo m) \<or> get r n = Some t)"
proof -
  let ?ts = "extension_tools env xo m"
  have "list_all (\<lambda>t. tool_Name t \<noteq> [] \<and> tool_Handler t \<noteq> None) ?ts"
    using named_tools [of _ env xo m] by (auto simp: list_all_iff)
  from register_noting_spec [OF this, of "m\<lparr>em_registered := []\<rparr>" "Unregister (em_registered m) r"]
  obtain r' where r: "register_noting ?ts (m\<lparr>em_registered := []\<rparr>, Unregister (em_registered m) r) =
      (Inr (), (m\<lparr>em_registered := map tool_Name ?ts\<rparr>, r'))"
    "\<And>n. get r' n = (case find (\<lambda>t. tool_Name t = n) (rev ?ts) of Some t \<Rightarrow> Some t
       | None \<Rightarrow> get (Unregister (em_registered m) r) n)" by auto
  have "t \<in> set ?ts \<or> get r n = Some t" if "get r' n = Some t" for n t
    using that r(2) [of n] find_mem [of "\<lambda>t. tool_Name t = n" "rev ?ts"]
    by (auto simp: get_Unregister split: option.splits if_splits)
  then show ?thesis using r(1) by (auto simp: RegisterExtensions_def extension_tools_def)
qed

lemma registration_sound:
  assumes "wired m" "tools_follow served reg" "RegisterExtensions env xo (m, reg) = (res, m', reg')"
  shows "res = Inr ()" "wired m'" "tools_follow served reg'"
proof -
  from registered_tools [of env xo m reg] assms(3)
  have e: "res = Inr ()" "m' = m\<lparr>em_registered := map tool_Name (extension_tools env xo m)\<rparr>"
    "\<And>n t. get reg' n = Some t \<Longrightarrow> t \<in> set (extension_tools env xo m) \<or> get reg n = Some t" by auto
  show "res = Inr ()" "wired m'" using e assms(1) by (simp_all add: wired_def)
  have "serves w (ExecuteTool reg' n i w)" for n i w
  proof (cases "get reg' n")
    case (Some t)
    from e(3) [OF Some] show ?thesis
    proof
      assume "get reg n = Some t"
      then show ?thesis using assms(2) Some unfolding tools_follow_def ExecuteTool_def by metis
    qed (use Some extension_tool_serves [OF assms(1)] in \<open>simp add: ExecuteTool_def\<close>)
  qed (simp add: ExecuteTool_def srv.stay)
  then show "tools_follow served reg'" by (simp add: tools_follow_def)
qed

lemma discovery_sound:
  assumes "wired m" "Discover env xo (m, w) = (res, m', w')"
  shows "wired m'" "served w w'"
proof -
  have st: "em_stateReader m = Some (\<lambda>w. bind_res (on_store ListExtensionStates w) (\<lambda>ss w.
      (Inr (map (\<lambda>s. \<lparr>xs_Kind = es_kind s, xs_Name = es_name s, xs_Enabled = es_enabled s, xs_Hash = es_hash s\<rparr>) ss), w)))"
    using assms(1) by (simp add: wired_def app_extensions_def)
  have ap: "serves v (applyStoredStates m ps ss v)" for ps ss v
    unfolding applyStoredStates_def st option.case by (rule op_serves w_steps)+
  have sv: "serves v (discoverMCPServers env xo servers v)" for servers v
    unfolding discoverMCPServers_def follows_def served_def by (simp add: statuses_same)
  have "serves w (bind_res (discoverPlugins env xo (ext_PluginsDir (cfg_Extensions (em_cfg m))) w) (\<lambda>ps w.
            bind_res (discoverSkills env xo (ext_SkillsDirs (cfg_Extensions (em_cfg m))) w) (\<lambda>ss w.
              case discoverMCPServers env xo (cfg_MCPServers (em_cfg m)) w of
                (servers, w) \<Rightarrow> bind_res (applyStoredStates m ps ss w) (\<lambda>(ps, ss) w. (Inr (ps, ss, servers), w)))))" (is "serves w ?m")
    by (((rule ap sv discover_plugins_same [THEN same_serves] discover_skills_same [THEN same_serves] w_steps) | (rule v_steps))+)
  moreover obtain r v where "?m = (r, v)" by fastforce
  ultimately show "wired m'" "served w w'"
    using assms by (auto simp: Discover_def follows_def wired_def split: sum.splits)
qed

lemma hook_result_serves: "wired m \<Longrightarrow> serves w (x, writeHookResult m r w)"
  unfolding writeHookResult_def wired_def app_extensions_def
  by (simp add: srv.then_result op_serves)

lemma validations_serve:
  assumes "wired m"
  shows "serves w (validate_hooks xo m u kind name input hs done w)"
proof (induction hs arbitrary: w "done")
  case (Cons h hs)
  show ?case unfolding validate_hooks.simps wired_audit [OF assms]
    by (((rule opt_audit_serves hook_result_serves [OF assms] command_serves Cons.IH w_steps) | (rule v_steps))+)
qed (simp add: srv.stay)

lemma hooks_serve:
  assumes "wired m"
  shows "serves w (run_hooks xo m u kind name phase input hs w)"
proof (induction hs arbitrary: w)
  case (Cons h hs)
  show ?case unfolding run_hooks.simps wired_audit [OF assms]
    by (((rule opt_audit_serves hook_result_serves [OF assms] command_serves Cons.IH
          srv.later_steps [OF opt_audit_serves Cons.IH] w_steps) | (rule v_steps))+)
qed (simp add: srv.stay)

lemma lifecycle_serves:
  assumes "wired m"
  shows "serves w (ValidateExtension xo m u kind name w)" "serves w (runLifecycleHooks xo m u kind name phase w)"
    "serves w (change_hooks xo m u kind name enabled w)"
proof -
  have v: "serves v (ValidateExtension xo m u kind name v)" for v
    unfolding ValidateExtension_def wired_audit [OF assms]
    by (((rule validations_serve [OF assms] opt_audit_serves w_steps) | (rule v_steps))+)
  have r: "serves v (runLifecycleHooks xo m u kind name phase v)" for phase v
    unfolding runLifecycleHooks_def by (((rule hooks_serve [OF assms] w_steps) | (rule v_steps))+)
  show "serves w (ValidateExtension xo m u kind name w)" "serves w (runLifecycleHooks xo m u kind name phase w)"
    using v r by simp_all
  show "serves w (change_hooks xo m u kind name enabled w)"
    unfolding change_hooks_def by (((rule v r w_steps) | (rule v_steps))+)
qed

lemma change_sound:
  assumes "wired m" "SetEnabled env xo u kind0 name0 enabled (m, w) = (res, m', w')"
  shows "wired m'" "served w w'"
proof -
  define kind where "kind = trim_space kind0"
  define name where "name = trim_space name0"
  have wr: "em_stateWriter m = Some (\<lambda>kind name enabled hash w. on_store (UpsertExtensionState (w_now w) kind name enabled hash) w)"
    using assms(1) by (simp add: wired_def app_extensions_def)
  obtain c w1 where c: "change_hooks xo m u kind name enabled w = (c, w1)" by fastforce
  obtain q w2 where q: "on_store (UpsertExtensionState (w_now w1) kind name enabled (currentHash m kind name)) w1 = (q, w2)"
    by fastforce
  define w3 where "w3 = opt_audit (em_audit m) u ''extension_state_changed''
    (kind_name kind name @ '' enabled='' @ show_bool enabled @ '' hash='' @ currentHash m kind name) w2"
  obtain z m4 w4 where z: "Discover env xo (m, w3) = (z, m4, w4)" by (metis prod.collapse)
  have s1: "served w w1" using lifecycle_serves(3) [OF assms(1), of w xo u kind name enabled] c by (simp add: follows_def)
  have s2: "served w1 w2" using op_serves q by (metis follows_def snd_conv write_runs(4) store_serves)
  have s3: "served w2 w3"
    using opt_audit_serves [of w2 "()"] by (simp add: w3_def wired_audit [OF assms(1)] follows_def)
  have s4: "wired m4" "served w3 w4" using discovery_sound [OF assms(1) z] by simp_all
  have "SetEnabled env xo u kind0 name0 enabled (m, w) =
      (if kind = [] \<or> name = [] then (Inl ''kind and name are required'', m, w)
       else case c of Some e \<Rightarrow> (Inl e, m, w1)
         | None \<Rightarrow> (case q of Inl e \<Rightarrow> (Inl e, m, w2) | Inr _ \<Rightarrow> (z, m4, w4)))"
    using z by (simp add: SetEnabled_def Let_def wr kind_def [symmetric] name_def [symmetric] c q w3_def split: option.split sum.split)
  moreover have "served w w2" "served w w4" using s1 s2 s3 s4(2) by (blast intro: srv.step_trans)+
  ultimately have "wired m' \<and> served w w'"
    using assms s1 s4(1) srv.step_refl [of w] by (auto split: if_splits option.splits sum.splits)
  then show "wired m'" "served w w'" by simp_all
qed

end
