(* ===== verification/DaemonProps.thy ===== *)
theory DaemonProps
  imports ServerSteps
begin

text \<open>
  The daemon as a client of the store: every handler of the HTTP server, the scheduler and the start of
  the container are runs of the served methods, so the database keeps its invariant, no account is made
  and no session, message, trace or audit record is lost or rewritten, whatever is asked of the daemon.
\<close>

section \<open>Handlers of the server\<close>

text \<open>A server whose extension manager has the container's functions and whose tools are sound.\<close>

definition ready :: "ApiState \<Rightarrow> bool" where
  "ready s \<longleftrightarrow> wired (as_ext s) \<and> sound_tools (as_app s)"

definition api_served :: "ApiState \<Rightarrow> ApiState \<Rightarrow> bool" where
  "api_served s s' \<longleftrightarrow> (ready s \<longrightarrow> ready s' \<and> served (as_world s) (as_world s'))"

interpretation api: preorder_steps api_served
  by unfold_locales (auto simp: api_served_def intro: srv.step_refl srv.step_trans)

abbreviation api_serves :: "ApiState \<Rightarrow> 'a \<times> ApiState \<Rightarrow> bool" where
  "api_serves \<equiv> follows api_served"

lemmas a_steps = api.state_steps
lemmas av_steps = api.value_steps api.curried_steps

lemma set_world_fields [simp]:
  "as_world (set_world w s) = w" "as_app (set_world w s) = as_app s" "as_ext (set_world w s) = as_ext s"
  "as_app (s\<lparr>as_ext := m\<rparr>) = as_app s" "as_ext (s\<lparr>as_app := a\<rparr>) = as_ext s"
  "as_world (s\<lparr>as_ext := m\<rparr>) = as_world s" "as_world (s\<lparr>as_app := a\<rparr>) = as_world s"
  by (simp_all add: set_world_def as_world_def)

lemma readyD: "ready s \<Longrightarrow> wired (as_ext s)" "ready s \<Longrightarrow> sound_tools (as_app s)"
  by (simp_all add: ready_def)

lemma world_api: "(ready s \<Longrightarrow> serves (as_world s) (f (as_world s))) \<Longrightarrow> api_serves s (in_world f s)"
  by (auto simp: in_world_def follows_def api_served_def ready_def split_beta)

lemma respond_api: "api_serves s m \<Longrightarrow> api_serves s (respond code f m)"
  unfolding respond_def by (erule api.run_steps) (rule a_steps)+

lemma checked_api: "(\<And>v. api_serves s (k v s)) \<Longrightarrow> api_serves s (checked r k s)"
  unfolding checked_def by (rule a_steps | assumption)+

lemma stores_api: "(\<And>d. served_step\<^sup>*\<^sup>* d (snd (f d))) \<Longrightarrow> api_serves s (in_world (on_store f) s)"
  by (rule world_api) (rule store_serves)

lemma auth_serves: "serves w (on_auth env (Login check sign svc now u p) w)"
proof -
  have f: "served_step\<^sup>*\<^sup>* d (login_failed svc now u x d)" for x d
    unfolding login_failed_def Let_def by (rule rtranclp_trans) (rule write_runs)+
  have "served_step\<^sup>*\<^sup>* d (snd (Login check sign svc now u p d))" for d
  proof -
    obtain r e where g: "GetUser u d = (r, e)" by fastforce
    have e: "served_step\<^sup>*\<^sup>* d e" using get_run(2) [of d u] g by simp
    have r: "served_step\<^sup>*\<^sup>* e (snd (bind_res (lift_db (ResetLoginFailures u e)) k))" if "\<And>x v. served_step\<^sup>*\<^sup>* v (snd (k x v))" for k
      using that by (rule run_bind [rotated]) (simp add: write_runs)
    have k: "served_step\<^sup>*\<^sup>* v (snd (case t of Inl y \<Rightarrow> (Inl (SignFailed y), v)
        | Inr t \<Rightarrow> (Inr t, snd (WriteAudit now u ac tx v))))" for t ac tx v
      by (cases t) (simp_all add: write_runs)
    show ?thesis
      using e rtranclp_trans [OF e f] rtranclp_trans [OF e r, OF k]
      by (auto simp: Login_def g split: sum.split)
  qed
  then show ?thesis by (simp add: on_auth_def follows_def served_def split_beta split: sum.split)
qed

lemma login_api: "api_serves s (handleLogin ao r s)"
  unfolding handleLogin_def by (((rule a_steps respond_api world_api auth_serves) | (rule av_steps))+)

lemma chat_api: "api_serves s (handleChat ao u r s)" "api_serves s (handleContext ao u r s)"
  unfolding handleChat_def handleContext_def
  by (((rule a_steps respond_api world_api turn_serves w_steps) | (rule av_steps v_steps))+)

lemma agents_api: "api_serves s (handleMultiAgentPlan ao u r s)" "api_serves s (handleMultiAgentRun ao u r s)"
  "api_serves s (handleMultiAgentReplay ao u r s)" "api_serves s (handleMultiAgentResume ao u r s)"
  unfolding handleMultiAgentPlan_def handleMultiAgentRun_def handleMultiAgentReplay_def handleMultiAgentResume_def
  by (((rule a_steps respond_api checked_api world_api plan_serves replay_serves run_serves resume_serves)
      | (erule readyD) | (rule av_steps))+)

lemma traces_api: "api_serves s (handleMultiAgentTraces ao u r s)" "api_serves s (handleMultiAgentTraceSummary ao u r s)"
  "api_serves s (handleMultiAgentVerifierSummary ao u r s)" "api_serves s (handleMultiAgentTraceFailures ao u r s)"
  "api_serves s (handleMultiAgentTraceHotspots ao u r s)"
  unfolding handleMultiAgentTraces_def handleMultiAgentTraceSummary_def handleMultiAgentVerifierSummary_def
    handleMultiAgentTraceFailures_def handleMultiAgentTraceHotspots_def trace_route_def
  by (rule checked_api respond_api stores_api read_runs)+

lemma memory_api: "api_serves s (handleMemory ao u r s)"
  unfolding handleMemory_def
  by (((rule a_steps respond_api world_api op_serves w_steps) | (rule av_steps v_steps))+)

lemma kept_api:
  "as_world s' = as_world s \<Longrightarrow> as_ext s' = as_ext s \<Longrightarrow> as_app s' = as_app s \<Longrightarrow> api_serves s (x, s')"
  by (simp add: follows_def api_served_def ready_def srv.step_refl)

lemma switch_sound:
  assumes "m \<in> {SwitchModelProfile u p (as_app s) (as_world s), SwitchModelConfig u p c (as_app s) (as_world s)}"
  shows "api_serves s (switched m s)"
proof -
  obtain r a w where m: "m = (r, a, w)" using prod_cases3 by blast
  have "app_Tools a = app_Tools (as_app s) \<and> served (as_world s) w"
    using assms op_serves(3) [of "as_world s"] srv.step_refl
    by (auto simp: m SwitchModelProfile_def SwitchModelConfig_def follows_def split: prod.splits sum.splits)
  then have "api_serves s (r, set_world w (s\<lparr>as_app := a\<rparr>))"
    by (simp add: follows_def api_served_def ready_def)
  then show ?thesis unfolding switched_def m prod.case by (rule respond_api)
qed

lemma switches_api:
  "api_serves s (switched (SwitchModelProfile u p (as_app s) (as_world s)) s)"
  "api_serves s (switched (SwitchModelConfig u p c (as_app s) (as_world s)) s)"
  by (rule switch_sound [where u = u and p = p and c = c]; simp)+

lemma models_api: "api_serves s (handleModels ao u r s)" "api_serves s (handleDiscoverModels ao u r s)"
  "api_serves s (handleModelSwitch ao u r s)"
proof -
  show "api_serves s (handleModels ao u r s)" unfolding handleModels_def Let_def by (rule a_steps)
  show "api_serves s (handleDiscoverModels ao u r s)"
    unfolding handleDiscoverModels_def by (rule api.prod_steps) (simp add: kept_api as_world_def)
  show "api_serves s (handleModelSwitch ao u r s)"
    unfolding handleModelSwitch_def Let_def
    by (((rule a_steps switches_api) | (rule av_steps))+)
qed

lemma histories_serve: "serves w (histories xs limit offset w)"
proof (induction xs arbitrary: w)
  case (Cons x xs)
  show ?case unfolding histories.simps by (rule op_serves Cons.IH w_steps)+
qed (simp add: srv.stay)

lemma rows_api: "api_serves s (handleSessions ao u r s)" "api_serves s (handleHistory ao u r s)"
  "api_serves s (handleSearch ao u r s)" "api_serves s (handleAudit ao u r s)" "api_serves s (handleExecutionAudit ao u r s)"
  "api_serves s (handleExecutionProfileAudit ao u r s)" "api_serves s (handleExtensionHooks ao u r s)"
  unfolding handleSessions_def handleHistory_def handleSearch_def handleAudit_def handleExecutionAudit_def
    handleExecutionProfileAudit_def handleExtensionHooks_def
  by (((rule a_steps respond_api checked_api world_api op_serves histories_serve w_steps) | (rule av_steps))+)

lemma register_api: "api_serves s (register_all_extensions ao s)"
proof -
  obtain res m reg where r: "RegisterExtensions (ao_env ao) (ao_ext ao) (as_ext s, app_Tools (as_app s)) = (res, m, reg)"
    by (metis prod.collapse)
  have "api_serves s (res, s\<lparr>as_ext := m, as_app := (as_app s)\<lparr>app_Tools := reg\<rparr>\<rparr>)"
    using registration_sound [OF _ _ r] srv.step_refl
    by (auto simp: follows_def api_served_def ready_def as_world_def)
  then show ?thesis unfolding register_all_extensions_def r prod.case by (rule respond_api)
qed

lemma on_ext_api:
  assumes "\<And>m w res m' w'. wired m \<Longrightarrow> f (m, w) = (res, m', w') \<Longrightarrow> wired m' \<and> served w w'"
  shows "api_serves s (on_ext f s)"
proof -
  obtain res m w where r: "f (as_ext s, as_world s) = (res, m, w)" by (metis prod.collapse)
  then show ?thesis using assms [OF _ r] by (auto simp: on_ext_def follows_def api_served_def ready_def)
qed

lemma discover_api: "api_serves s (on_ext (Discover env xo) s)"
  by (rule on_ext_api) (simp add: discovery_sound)

lemma change_api: "api_serves s (on_ext (SetEnabled env xo u kind name enabled) s)"
  by (rule on_ext_api) (blast dest: change_sound)

lemma tool_serves: "sound_tools a \<Longrightarrow> serves w (ExecuteTool (app_Tools a) n i w)"
  by (simp add: tools_follow_def)

lemma extensions_api: "api_serves s (handleTools ao u r s)" "api_serves s (handleExtensions ao u r s)"
  "api_serves s (handleRefreshExtensions ao u r s)" "api_serves s (handleExtensionState ao u r s)"
  "api_serves s (handleExtensionValidate ao u r s)" "api_serves s (handleExecuteTool ao u r s)"
  unfolding handleTools_def handleExtensions_def handleRefreshExtensions_def handleExtensionState_def
    handleExtensionValidate_def handleExecuteTool_def
  by (((rule a_steps respond_api world_api register_api discover_api change_api lifecycle_serves tool_serves)
      | (erule readyD) | (rule av_steps))+)

section \<open>Requests\<close>

lemmas route_apis = chat_api agents_api traces_api memory_api models_api rows_api extensions_api

lemma routes_api: "(p, h) \<in> set api_routes \<Longrightarrow> api_serves s (h ao u r s)"
  unfolding api_routes_def by (auto simp: route_apis)

lemma authorized_api: "(\<And>u. api_serves s (h ao u r s)) \<Longrightarrow> api_serves s (authMiddleware h ao r s)"
  unfolding authMiddleware_def by (((rule a_steps) | assumption | (rule av_steps))+)

lemma register_routes_get: "register_routes rs mux = Some mux' \<Longrightarrow> get mux' p = Some h \<Longrightarrow> (p, h) \<in> set rs \<or> get mux p = Some h"
  by (induction rs mux rule: register_routes.induct) (auto split: if_splits)

lemma gateway_api:
  assumes "get (gateway_routes ao s) p = Some h"
  shows "api_serves s (case h r (as_gs s) of (reply, g) \<Rightarrow> (x reply, s\<lparr>as_gs := g\<rparr>))"
proof -
  let ?ad = "NewAdapter (ao_env ao) (as_app s)"
  obtain mux where "RegisterPlatformRoutes (ao_env ao) (ao_gw ao) ?ad BuiltInAdapters [] = Some mux"
    using gateway_routes_register by (metis not_None_eq)
  then have "(p, h) \<in> set (concat (map (platform_routes (ao_env ao) (ao_gw ao) ?ad) BuiltInAdapters))"
    using assms register_routes_get [of "concat (map (platform_routes (ao_env ao) (ao_gw ao) ?ad) BuiltInAdapters)" "[]" mux p h]
    by (simp add: gateway_routes_def RegisterPlatformRoutes_def)
  then have "gw_serves (as_gs s) (h r (as_gs s))" if "ready s"
    using adapters_serve [OF readyD(2) [OF that], of "as_gs s" "ao_env ao" "ao_gw ao" r] by (auto simp: BuiltInAdapters_def)
  then show ?thesis
    by (auto simp: follows_def gw_served_def api_served_def ready_def as_world_def split: prod.split)
qed

lemma serve_api: "api_serves s (serve ao path r s)"
  unfolding serve_def handleHealth_def
  by (((rule a_steps login_api authorized_api gateway_api) | (rule routes_api, erule map_of_SomeD) | assumption)+)

section \<open>The daemon\<close>

lemma step_api: "api_served s (daemon_step ao ct cfg e s)"
proof -
  have at: "api_serves s ((), at_time t s)" for t
    by (simp add: follows_def api_served_def ready_def at_time_def srv.step_refl) (simp add: served_def)
  show ?thesis
  proof (cases e)
    case (Request t path r)
    show ?thesis using api.later_steps [OF at serve_api] by (simp add: Request follows_def)
  next
    case (Expiry t)
    have "api_serves s (in_world (Tick (ao_env ao) (as_app s) ct (NewCronManager (cfg_DataDir cfg))) (at_time t s))"
      by (rule api.later_steps [OF at]) (rule world_api, rule tick_serves)
    then show ?thesis using api.step_refl by (simp add: Expiry follows_def)
  qed
qed

lemma secret_serves: "serves w (load_secret co path w)"
  unfolding load_secret_def Let_def by (((rule op_serves w_steps) | (rule v_steps))+)

lemma new_app_sound: "NewApp env c = (Inr a, reg) \<Longrightarrow> sound_tools a"
proof -
  assume n: "NewApp env c = (Inr a, reg)"
  define mem where "mem = Some (NewManager (Some (file_provider (env_hash env) (NewFileProvider c))) (memc_Enabled (cfg_Memory c)))"
  define runner where "runner = NewExecutor (cfg_Execution c)"
  have "app_Tools a = snd (RegisterBuiltins (app_builtins env c mem runner) NewRegistry)"
    using n by (cases "RegisterBuiltins (app_builtins env c mem runner) NewRegistry";
        cases "fst (RegisterBuiltins (app_builtins env c mem runner) NewRegistry)")
      (auto simp: NewApp_def Let_def mem_def runner_def)
  then show ?thesis using srv.builtin_app_steps [of env c mem runner a] by (simp add: builtin_app_def)
qed

lemma container_sound:
  assumes "NewApplication co c w = (res, w')"
  shows "served w w'" "res = Inr (a, svc, m) \<Longrightarrow> wired m \<and> sound_tools a"
proof -
  obtain secret w1 where sc: "load_secret co (JWTSecretPath c) w = (secret, w1)" by fastforce
  obtain ra rg where na: "NewApp (co_env co) c = (ra, rg)" by fastforce
  obtain rd m1 w2 where d: "Discover (co_env co) (co_ext co) (app_extensions c, w1\<lparr>w_cache := new_prompt_cache c\<rparr>) = (rd, m1, w2)"
    by (metis prod.collapse)
  have wi: "wired (app_extensions c)" by (simp add: wired_def app_extensions_def NewExtManager_def)
  have s1: "served w w1" using secret_serves [of w co "JWTSecretPath c"] sc by (simp add: follows_def)
  have m1: "wired m1" using discovery_sound(1) [OF wi d] .
  have "served w1 w2" using discovery_sound(2) [OF wi d] by (simp add: served_def)
  with s1 have s2: "served w w2" by (rule srv.step_trans)
  have "served w w' \<and> (res = Inr (a, svc, m) \<longrightarrow> wired m \<and> sound_tools a)"
  proof (cases "co_open co (DBPath c) = None \<and> (\<exists>v b. NewService c secret = Inr v \<and> ra = Inr b \<and> rd = Inr ())")
    case True
    then obtain v b where vb: "NewService c secret = Inr v" "ra = Inr b" "rd = Inr ()" "co_open co (DBPath c) = None" by auto
    obtain rr m2 reg where rg: "RegisterExtensions (co_env co) (co_ext co) (m1, app_Tools b) = (rr, m2, reg)"
      by (metis prod.collapse)
    have "sound_tools b" using new_app_sound na vb(2) by blast
    from registration_sound [OF m1 this rg] show ?thesis
      using assms sc na d vb rg s2 by (auto simp: NewApplication_def)
  next
    case False
    then show ?thesis using assms sc na d s1 s2 srv.step_refl [of w]
      by (auto simp: NewApplication_def split: option.splits sum.splits)
  qed
  then show "served w w'" "res = Inr (a, svc, m) \<Longrightarrow> wired m \<and> sound_tools a" by simp_all
qed

lemma events_api: "api_served s (fold (daemon_step ao ct cfg) es s)"
proof (induction es arbitrary: s)
  case (Cons e es)
  show ?case using api.step_trans [OF step_api Cons.IH] by simp
qed (simp add: api.step_refl)

lemma daemon_serves: "serves w (hermesd ao co path events w)"
proof -
  have l: "serves v (prefixed t (LoadConfig co path v))" for t v
    unfolding prefixed_def LoadConfig_def by (((rule op_serves w_steps) | (rule v_steps))+)
  have "serves v (bind_res (prefixed t (NewApplication co cfg v)) (\<lambda>(a, svc, m) w.
       (let s = fold (daemon_step ao (co_cron co) cfg) events
                  \<lparr>as_app = a, as_auth = svc, as_ext = m, as_gs = \<lparr>gs_world = w, gs_sent = []\<rparr>, as_urls = []\<rparr>
        in (Inr s, as_world s))))" for t cfg v
  proof -
    obtain res v' where n: "NewApplication co cfg v = (res, v')" by fastforce
    show ?thesis
    proof (cases res)
      case (Inr x)
      obtain a svc m where x: "x = (a, svc, m)" using prod_cases3 by blast
      let ?s = "\<lparr>as_app = a, as_auth = svc, as_ext = m, as_gs = \<lparr>gs_world = v', gs_sent = []\<rparr>, as_urls = []\<rparr>"
      have "ready ?s" using container_sound(2) [OF n] Inr x by (simp add: ready_def)
      with events_api have "served v' (as_world (fold (daemon_step ao (co_cron co) cfg) events ?s))"
        by (fastforce simp: api_served_def as_world_def)
      with container_sound(1) [OF n] show ?thesis
        by (auto simp: n Inr x prefixed_def follows_def Let_def intro: srv.step_trans)
    qed (use container_sound(1) [OF n] n in \<open>simp add: prefixed_def follows_def\<close>)
  qed
  with l show ?thesis unfolding hermesd_def by (rule srv.bind_steps)
qed

section \<open>What follows for the database\<close>

lemma served_is_store: "served_step d e \<Longrightarrow> store_step d e"
  by (induction rule: served_step.induct) (rule store_step.intros)+

lemma served_wf: "served_step\<^sup>*\<^sup>* d e \<Longrightarrow> store_wf d \<Longrightarrow> store_wf e"
  by (induction rule: rtranclp_induct) (auto dest: served_is_store store_step_wf)

text \<open>One table carries on another: its first rows are the other's, in order.\<close>

definition carries_on :: "'a list \<Rightarrow> 'a list \<Rightarrow> bool" where
  "carries_on xs ys \<longleftrightarrow> take (length xs) ys = xs"

lemma carries_on_refl [simp]: "carries_on xs xs"
  by (simp add: carries_on_def)

lemma carries_on_snoc [simp]: "carries_on xs (xs @ ys)"
  by (simp add: carries_on_def)

lemma carries_on_trans: "carries_on xs ys \<Longrightarrow> carries_on ys zs \<Longrightarrow> carries_on xs zs"
  unfolding carries_on_def by (metis min.absorb1 length_take nle_le take_take take_all)

text \<open>Nothing but the response of a session and the lock of an account is ever rewritten.\<close>

definition session_row :: "Session \<Rightarrow> Session" where
  "session_row s = s\<lparr>sess_response := []\<rparr>"

definition account_row :: "User \<Rightarrow> User" where
  "account_row u = u\<lparr>user_locked := None, user_failed := 0\<rparr>"

definition only_appends :: "Store \<Rightarrow> Store \<Rightarrow> bool" where
  "only_appends d d' \<longleftrightarrow>
     map account_row (users d') = map account_row (users d)
     \<and> carries_on (map session_row (sessions d)) (map session_row (sessions d'))
     \<and> carries_on (messages d) (messages d')
     \<and> carries_on (messages_fts d) (messages_fts d')
     \<and> carries_on (audit_log d) (audit_log d')
     \<and> carries_on (multiagent_traces d) (multiagent_traces d')
     \<and> carries_on (extension_hook_runs d) (extension_hook_runs d')
     \<and> carries_on (processed_gateway_updates d) (processed_gateway_updates d')"

lemma only_appends_refl: "only_appends d d"
  by (simp add: only_appends_def)

lemma only_appends_trans: "only_appends d e \<Longrightarrow> only_appends e f \<Longrightarrow> only_appends d f"
  unfolding only_appends_def by (auto intro: carries_on_trans)

lemma only_appends_faults [simp]: "only_appends (d\<lparr>faults := fs\<rparr>) e = only_appends d e" "only_appends d (e\<lparr>faults := fs\<rparr>) = only_appends d e"
  by (simp_all add: only_appends_def)

lemma stmt_appends: "(\<And>d. only_appends d (snd (f d))) \<Longrightarrow> only_appends d (snd (stmt f d))"
  by (cases rule: stmt_cases [of f d]) (auto simp: only_appends_refl, metis only_appends_faults(1))

lemma exec_appends: "(\<And>d. only_appends d (f d)) \<Longrightarrow> only_appends d (snd (exec f d))"
  unfolding exec_def by (rule stmt_appends) simp

lemma update_user_appends: "(\<And>u. account_row (f u) = account_row u) \<Longrightarrow> only_appends d (update_user n f d)"
  by (simp add: only_appends_def update_user_def)

lemma update_session_appends: "(\<And>s. session_row (f s) = session_row s) \<Longrightarrow> only_appends d (update_session sid f d)"
  by (simp add: only_appends_def update_session_def o_def if_distrib cong: if_cong)

lemma served_step_appends: "served_step d e \<Longrightarrow> only_appends d e"
proof (induction rule: served_step.induct)
  case (sv_engine d fs)
  show ?case by (simp add: only_appends_refl)
next
  case (sv_failure u n l d)
  show ?case unfolding UpdateLoginFailure_def by (intro exec_appends update_user_appends) (simp add: account_row_def)
next
  case (sv_reset u d)
  show ?case unfolding ResetLoginFailures_def by (intro exec_appends update_user_appends) (simp add: account_row_def)
next
  case (sv_response sid r d)
  show ?case unfolding UpdateSessionResponse_def by (intro exec_appends update_session_appends) (simp add: session_row_def)
next
  case (sv_message now sid role c d)
  show ?case unfolding AddMessage_def by (rule exec_appends) (simp add: only_appends_def messages_ai_def Let_def)
next
  case (sv_session now u m p r opts d)
  show ?case unfolding CreateSessionWithOptions_def by (rule stmt_appends) (simp add: only_appends_def Let_def)
next
  case (sv_mark now p x d)
  show ?case unfolding MarkGatewayUpdateProcessed_def by (rule stmt_appends) (simp add: only_appends_def)
next
  case (sv_audit now u a t d)
  show ?case unfolding WriteAudit_def by (rule exec_appends) (simp add: only_appends_def)
next
  case (sv_extension now k n e h d)
  show ?case unfolding UpsertExtensionState_def by (rule exec_appends) (simp add: only_appends_def)
next
  case (sv_hook now hr d)
  show ?case unfolding InsertExtensionHookRun_def by (rule exec_appends) (simp add: only_appends_def)
next
  case (sv_summary now u s t d)
  show ?case unfolding UpsertContextSummary_def by (rule exec_appends) (simp add: only_appends_def)
next
  case (sv_trace now tr d)
  show ?case unfolding InsertMultiAgentTrace_def by (rule exec_appends) (simp add: only_appends_def)
qed

text \<open>So a run of the daemon is a run of the served methods, and keeps the invariant of the store.\<close>

lemma daemon_keeps_database:
  assumes "store_wf (w_store w)"
  shows "served_step\<^sup>*\<^sup>* (w_store w) (w_store (snd (hermesd ao co path events w)))"
    and "store_wf (w_store (snd (hermesd ao co path events w)))"
  using daemon_serves [of w ao co path events] assms served_wf by (simp_all add: follows_def served_def)

text \<open>C3. A run of the daemon loses and rewrites nothing: the accounts stay as they were but for their
  locks, the sessions but for their responses, and messages, search rows, audit records, traces, hook
  runs and gateway marks are only added behind those that were there.\<close>

theorem daemon_only_appends:
  "only_appends (w_store w) (w_store (snd (hermesd ao co path events w)))"
proof -
  have "served_step\<^sup>*\<^sup>* d e \<Longrightarrow> only_appends d e" for d e
    by (induction rule: rtranclp_induct) (auto simp: only_appends_refl intro: served_step_appends only_appends_trans)
  then show ?thesis using daemon_serves [of w ao co path events] by (simp add: follows_def served_def)
qed

end
