(* ===== verification/Cli.thy ===== *)
theory Cli
  imports Wiring
begin

text \<open>
  \<^verbatim>\<open>cmd/hermesctl/main.go\<close>, first part: the state of a process of the command line client, what it prints,
  how a command ends, the start of the application, authentication, and the helpers the commands share.
  A value printed as JSON is the model's value of it; writing to standard output does not fail.
\<close>

section \<open>State and output\<close>

datatype cli_value =
    CvApi api_value
  | CvPlan BuildResult
  | CvCache CacheStats
  | CvCleared CacheStats
  | CvPrompting ContextConfig PromptingConfig AuxiliaryConfig
  | CvPromptModel string LLMConfig ContextConfig PromptingConfig AuxiliaryConfig
  | CvAux AuxiliaryConfig
  | CvAuxInfo AuxiliaryResolution
  | CvAuxChat "string option" AuxiliaryResolution string
  | CvMetadata "string option" Metadata
  | CvAllMetadata Metadata "(string, Metadata) gomap"
  | CvBatch BatchSummary "BatchResult list"
  | CvJob Job
  | CvJobs "Job list"
  | CvTicks "TickResult list"
  | CvRecords "TrajRecord list"
  | CvRecord TrajRecord
  | CvRecordSummary TrajSummary
  | CvStates ExtSummary "ExtensionState list"
  | CvUsage jmap CacheStats
  | CvInsights int UserInsights jmap
  | CvResumed Session "Message list"

text \<open>A piece of text, or a value in indented JSON after a text.\<close>

datatype shown = Words string | Value string cli_value

record Proc =
  pc_world :: World
  pc_urls :: "string list"
  pc_in :: string \<comment> \<open>what is left of standard input\<close>
  pc_out :: "shown list"

record Cli = Proc +
  ap_App :: App
  ap_Auth :: Service
  ap_Ext :: ExtManager

text \<open>\<^verbatim>\<open>os.Exit\<close> with a code, \<^verbatim>\<open>log.Fatal\<close> with its message and code 1, a panic, or a run that panics or never
  returns.\<close>

datatype ending = Exits int | Fatal string | Panics | Stuck

definition on_w :: "(World \<Rightarrow> 'a \<times> World) \<Rightarrow> 'z Proc_scheme \<Rightarrow> 'a \<times> 'z Proc_scheme" where
  "on_w f p = (case f (pc_world p) of (r, w) \<Rightarrow> (r, p\<lparr>pc_world := w\<rparr>))"

definition words :: "string \<Rightarrow> 'z Proc_scheme \<Rightarrow> 'z Proc_scheme" where
  "words s p = p\<lparr>pc_out := pc_out p @ [Words s]\<rparr>"

definition println :: "string \<Rightarrow> 'z Proc_scheme \<Rightarrow> 'z Proc_scheme" where
  "println s = words (s @ newline)"

definition show_value :: "string \<Rightarrow> cli_value \<Rightarrow> 'z Proc_scheme \<Rightarrow> 'z Proc_scheme" where
  "show_value s v p = p\<lparr>pc_out := pc_out p @ [Value s v]\<rparr>"

definition mustWriteJSON :: "cli_value \<Rightarrow> 'z Proc_scheme \<Rightarrow> (ending, unit, 'z Proc_scheme) outcome" where
  "mustWriteJSON v p = (Inr (), show_value [] v p)"

definition printed :: "string list \<Rightarrow> 'z Proc_scheme \<Rightarrow> (ending, unit, 'z Proc_scheme) outcome" where
  "printed ls p = (Inr (), fold println ls p)"

text \<open>\<^verbatim>\<open>log.Fatalf("label: %v", err)\<close> on an error, and \<^verbatim>\<open>log.Fatal\<close> unless a condition holds.\<close>

definition must :: "string \<Rightarrow> (string + 'a) \<times> 's \<Rightarrow> (ending, 'a, 's) outcome" where
  "must label r = (case r of (Inl e, s) \<Rightarrow> (Inl (Fatal (label @ '': '' @ e)), s) | (Inr v, s) \<Rightarrow> (Inr v, s))"

definition require :: "bool \<Rightarrow> string \<Rightarrow> 's \<Rightarrow> (ending, unit, 's) outcome" where
  "require b e s = (if b then Inr () else Inl (Fatal e), s)"

section \<open>Starting the application and authentication\<close>

definition mustApp :: "CliOut \<Rightarrow> string \<Rightarrow> Proc \<Rightarrow> (ending \<times> Proc) + (Config \<times> Cli)" where
  "mustApp co path p =
     (case must ''load config'' (on_w (LoadConfig co path) p) of
        (Inl e, p) \<Rightarrow> Inl (e, p)
      | (Inr cfg, p) \<Rightarrow>
          (case must ''init app'' (on_w (NewApplication co cfg) p) of
             (Inl e, p) \<Rightarrow> Inl (e, p)
           | (Inr (a, svc, m), p) \<Rightarrow>
               Inr (cfg, Proc.extend p (Cli.fields a svc m))))"

definition authenticateChatUser :: "CliOut \<Rightarrow> string \<Rightarrow> string \<Rightarrow> string \<Rightarrow> 'z Cli_scheme \<Rightarrow> (string, string, 'z Cli_scheme) outcome" where
  "authenticateChatUser co username password token c =
     (if token \<noteq> []
      then (case ParseToken (co_parse co) (ap_Auth c) token of Inl e \<Rightarrow> (Inl e, c) | Inr cl \<Rightarrow> (Inr (cl_Username cl), c))
      else if username = [] \<or> password = [] then (Inl ''token or username/password is required'', c)
      else bind_res (on_w (\<lambda>w. on_auth (co_env co) (Login (co_check co) (co_sign co) (ap_Auth c) (w_now w) username password) w) c)
             (\<lambda>_ c. (Inr username, c)))"

definition mustAuthUser :: "CliOut \<Rightarrow> flag_set \<Rightarrow> 'z Cli_scheme \<Rightarrow> (ending, string, 'z Cli_scheme) outcome" where
  "mustAuthUser co f c =
     must ''auth failed''
       (authenticateChatUser co (trimmed_flag f ''username'') (str_flag f ''password'') (trimmed_flag f ''token'') c)"

section \<open>Flags of the commands\<close>

definition config_flag :: flag_set where
  "config_flag = [(''config'', FStr ''./configs/config.example.yaml'')]"

definition user_flags :: flag_set where
  "user_flags = [(''username'', FStr []), (''password'', FStr []), (''token'', FStr [])]"

definition str_flags :: "string list \<Rightarrow> flag_set" where
  "str_flags = map (\<lambda>n. (n, FStr []))"

type_synonym command = "CliOut \<Rightarrow> string list \<Rightarrow> Proc \<Rightarrow> ending \<times> Proc"

text \<open>Flags that do not parse end the process with code 2, a wish for help with code 0.\<close>

definition with_flags :: "flag_set \<Rightarrow> string list \<Rightarrow> (flag_set \<Rightarrow> Proc \<Rightarrow> ending \<times> Proc) \<Rightarrow> Proc \<Rightarrow> ending \<times> Proc" where
  "with_flags defs args k p =
     (case parse_flags (config_flag @ defs) args of
        Inl HelpWanted \<Rightarrow> (Exits 0, p) | Inl (FlagError e) \<Rightarrow> (Exits 2, p) | Inr (f, _) \<Rightarrow> k f p)"

definition finished :: "(ending, unit, 's) outcome \<Rightarrow> ending \<times> 's" where
  "finished r = (case r of (Inl e, s) \<Rightarrow> (e, s) | (Inr _, s) \<Rightarrow> (Exits 0, s))"

definition app_command :: "flag_set \<Rightarrow> (CliOut \<Rightarrow> flag_set \<Rightarrow> Config \<Rightarrow> Cli \<Rightarrow> (ending, unit, Cli) outcome) \<Rightarrow> command" where
  "app_command defs body co args =
     with_flags defs args (\<lambda>f p.
       case mustApp co (str_flag f ''config'') p of
         Inl r \<Rightarrow> r | Inr (cfg, c) \<Rightarrow> map_prod id Proc.truncate (finished (body co f cfg c)))"

text \<open>Commands of a user: the flags with the credentials, the application, then authentication.\<close>

definition user_command :: "flag_set \<Rightarrow> (CliOut \<Rightarrow> flag_set \<Rightarrow> string \<Rightarrow> Cli \<Rightarrow> (ending, unit, Cli) outcome) \<Rightarrow> command" where
  "user_command defs body =
     app_command (user_flags @ defs) (\<lambda>co f cfg c. bind_res (mustAuthUser co f c) (body co f))"

section \<open>Values in flags and files\<close>

definition parseOptionalTime :: "Env \<Rightarrow> string \<Rightarrow> string \<Rightarrow> string + time option" where
  "parseOptionalTime env name raw =
     (if trim_space raw = [] then Inr None
      else (case env_parse_time env (trim_space raw) of
              None \<Rightarrow> Inl (''invalid '' @ name @ '' time'') | Some t \<Rightarrow> Inr (if t = zero_time then None else Some t)))"

text \<open>The two ends of a span of time, read in order.\<close>

definition time_flags :: "Env \<Rightarrow> flag_set \<Rightarrow> string + time option \<times> time option" where
  "time_flags env f =
     (case parseOptionalTime env ''from'' (str_flag f ''from'') of
        Inl e \<Rightarrow> Inl e
      | Inr t0 \<Rightarrow> (case parseOptionalTime env ''to'' (str_flag f ''to'') of Inl e \<Rightarrow> Inl e | Inr t1 \<Rightarrow> Inr (t0, t1)))"

definition mustTimes :: "Env \<Rightarrow> flag_set \<Rightarrow> 's \<Rightarrow> (ending, time option \<times> time option, 's) outcome" where
  "mustTimes env f s = (case time_flags env f of Inl e \<Rightarrow> (Inl (Fatal e), s) | Inr ts \<Rightarrow> (Inr ts, s))"

definition parseOptionalBoolPointer :: "string \<Rightarrow> 's \<Rightarrow> (ending, bool option, 's) outcome" where
  "parseOptionalBoolPointer raw s =
     (if trim_space raw = [] then (Inr None, s)
      else (case parse_bool (trim_space raw) of
              None \<Rightarrow> (Inl (Fatal (''invalid completed filter: strconv.ParseBool: parsing '' @ go_quote (trim_space raw)
                         @ '': invalid syntax'')), s)
            | Some b \<Rightarrow> (Inr (Some b), s)))"

definition parseCommaList :: "string \<Rightarrow> string list" where
  "parseCommaList raw = filter (\<lambda>p. p \<noteq> []) (map trim_space (split_on '','' raw))"

definition loadJSONFile :: "Env \<Rightarrow> string \<Rightarrow> World \<Rightarrow> json app_result" where
  "loadJSONFile env path w =
     bind_res (on_files (read_file path) w) (\<lambda>content w. (env_unmarshal env content, w))"

text \<open>A list of tasks, or an object that has one.\<close>

definition loadTasksFile :: "Env \<Rightarrow> string \<Rightarrow> World \<Rightarrow> Task list app_result" where
  "loadTasksFile env path w =
     bind_res (loadJSONFile env path w) (\<lambda>j w.
       case (case j of JNull \<Rightarrow> Some [] | JArr js \<Rightarrow> those (map (decode_object decode_task) js) | _ \<Rightarrow> None) of
         Some ts \<Rightarrow> (Inr ts, w)
       | None \<Rightarrow> (case decode_object decode_tasks j of
                    Some ts \<Rightarrow> (Inr ts, w) | None \<Rightarrow> (Inl ''json: cannot unmarshal the tasks'', w)))"

definition loadPlanFile :: "Env \<Rightarrow> string \<Rightarrow> World \<Rightarrow> Plan app_result" where
  "loadPlanFile env path w =
     bind_res (loadJSONFile env path w) (\<lambda>j w.
       case decode_object decode_plan j of Some p \<Rightarrow> (Inr p, w) | None \<Rightarrow> (Inl ''json: cannot unmarshal the plan'', w))"

text \<open>\<^verbatim>\<open>json.Unmarshal\<close> into a map that exists: its entries stay unless they are overwritten, and \<^verbatim>\<open>null\<close>
  makes the map nil.\<close>

definition unmarshal_into :: "jmap \<Rightarrow> json \<Rightarrow> string + jmap option" where
  "unmarshal_into m j =
     (case j of
        JObj o1 \<Rightarrow> Inr (Some (fold (\<lambda>(k, v). put k v) o1 m))
      | JNull \<Rightarrow> Inr None
      | _ \<Rightarrow> Inl ''json: cannot unmarshal into Go value of type map[string]interface {}'')"

section \<open>Payloads\<close>

definition buildHistoryPayload :: "string \<Rightarrow> int \<Rightarrow> int \<Rightarrow> int \<Rightarrow> int \<Rightarrow> World \<Rightarrow> (Session \<times> Message list) list app_result" where
  "buildHistoryPayload u limit offset mlimit moffset w =
     bind_res (on_store (ListSessionsPage u limit offset) w) (\<lambda>sessions. histories sessions mlimit moffset)"

definition auditDetailValue :: "string \<Rightarrow> string \<Rightarrow> string" where
  "auditDetailValue detail key =
     (case filter (has_prefix (key @ ''='')) (Prelude.fields detail) of
        [] \<Rightarrow> [] | part # _ \<Rightarrow> trim_space (trim_prefix (key @ ''='') part))"

definition no_profile :: "string \<Rightarrow> executionProfileSummary" where
  "no_profile p = \<lparr>eps_Profile = p, eps_Total = 0, eps_Success = 0, eps_Denied = 0\<rparr>"

definition tally_profile :: "AuditRecord \<Rightarrow> (string, executionProfileSummary) gomap \<Rightarrow> (string, executionProfileSummary) gomap" where
  "tally_profile x m =
     (let v = auditDetailValue (audit_detail x) ''profile''; p = (if v = [] then ''unknown'' else v);
          e0 = (case get m p of None \<Rightarrow> no_profile p | Some e \<Rightarrow> e); e = e0\<lparr>eps_Total := eps_Total e0 + 1\<rparr>
      in put p (if has_suffix ''_success'' (audit_action x) then e\<lparr>eps_Success := eps_Success e + 1\<rparr>
                else if has_suffix ''_denied'' (audit_action x) then e\<lparr>eps_Denied := eps_Denied e + 1\<rparr> else e) m)"

definition profile_order :: "executionProfileSummary \<Rightarrow> int \<times> int \<times> string" where
  "profile_order e = (- eps_Denied e, - eps_Total e, eps_Profile e)"

definition profile_summary :: "AuditRecord list \<Rightarrow> executionProfileSummary list" where
  "profile_summary rs = sort_key profile_order (map snd (fold tally_profile rs []))"

definition buildExecutionProfileAuditPayload :: "string \<Rightarrow> time option \<times> time option \<Rightarrow> World \<Rightarrow> api_value app_result" where
  "buildExecutionProfileAuditPayload u ts w =
     bind_res (on_store (ListAuditFiltered (audit_filters u ''system_exec_profile_%'' (fst ts) (snd ts) 200 0)) w) (\<lambda>rs w.
     bind_res (on_store (SummarizeAuditActions (audit_filters u ''system_exec_profile_%'' (fst ts) (snd ts) 0 0)) w) (\<lambda>totals w.
       (Inr (AvProfileAudit rs totals (profile_summary rs)), w)))"

section \<open>Values of the application\<close>

definition AuxiliaryInfo :: "App \<Rightarrow> string \<Rightarrow> string + AuxiliaryResolution" where
  "AuxiliaryInfo a task = ResolveAux (app_Config a) task"

definition PromptCacheStats :: "Env \<Rightarrow> App \<Rightarrow> World \<Rightarrow> CacheStats" where
  "PromptCacheStats env a w = CacheStatsOf (Some \<lparr>bld_deps = app_deps env a, bld_cache = w_cache w\<rparr>)"

definition ClearPromptCache :: "World \<Rightarrow> World" where
  "ClearPromptCache w = w\<lparr>w_cache := map_option CacheClear (w_cache w)\<rparr>"

definition CurrentModelMetadata :: "App \<Rightarrow> Metadata" where
  "CurrentModelMetadata a = ResolveMetadata (ResolvedLLM (app_Config a))"

definition ListModelMetadata :: "App \<Rightarrow> (string, Metadata) gomap" where
  "ListModelMetadata a = ListProfileMetadata (cfg_ModelProfiles (app_Config a))"

definition ResolveModelProfile :: "App \<Rightarrow> string \<Rightarrow> string option" where
  "ResolveModelProfile a name = ResolveProfile DefaultCatalog (ListModelProfiles (app_Config a)) name"

definition executions_only :: "AuditRecord list \<Rightarrow> AuditRecord list" where
  "executions_only = filter (\<lambda>x. has_prefix ''system_exec_'' (audit_action x))"

definition on_extensions :: "(ExtManager \<times> World \<Rightarrow> 'a \<times> (ExtManager \<times> World)) \<Rightarrow> 'z Cli_scheme \<Rightarrow> 'a \<times> 'z Cli_scheme" where
  "on_extensions f c = (case f (ap_Ext c, pc_world c) of (r, m, w) \<Rightarrow> (r, c\<lparr>pc_world := w, ap_Ext := m\<rparr>))"

definition register_extensions :: "CliOut \<Rightarrow> 'z Cli_scheme \<Rightarrow> (string, unit, 'z Cli_scheme) outcome" where
  "register_extensions co c =
     (case RegisterExtensions (co_env co) (co_ext co) (ap_Ext c, app_Tools (ap_App c)) of
        (r, m, reg) \<Rightarrow> (r, c\<lparr>ap_App := (ap_App c)\<lparr>app_Tools := reg\<rparr>, ap_Ext := m\<rparr>))"

definition trajectories_of :: "'z Cli_scheme \<Rightarrow> string" where
  "trajectories_of c = traj_dir (cfg_DataDir (app_Config (ap_App c)))"

definition jobs_of :: "'z Cli_scheme \<Rightarrow> CronManager" where
  "jobs_of c = NewCronManager (cfg_DataDir (app_Config (ap_App c)))"

end
