(* ===== verification/CliText.thy ===== *)
theory CliText
  imports GoText
begin

text \<open>
  The texts of \<^verbatim>\<open>cmd/hermesctl\<close>: what \<^verbatim>\<open>usage\<close> and the console's \<^verbatim>\<open>/help\<close> print, line by line,
  and the names of \<^verbatim>\<open>internal/version\<close>.
\<close>

definition AppName :: string where "AppName = ''hermes-go''"
definition Version :: string where "Version = ''0.1.0''"

definition usage_lines :: "string list" where
  "usage_lines =
     [''usage:'',
      ''  hermesctl version'',
      ''  hermesctl models --config <file>'',
      ''  hermesctl discover-models --config <file>'',
      ''  hermesctl switch-model --config <file> --profile <name>'',
      ''  hermesctl switch-model --config <file> --model <id> --base-url <url> [--provider <name>] [--api-key-env <ENV>] [--local]'',
      ''  hermesctl init-admin --config <file> --username <user> --password <pass>'',
      ''  hermesctl login --config <file> --username <user> --password <pass>'',
      ''  hermesctl chat --config <file> (--username <user> --password <pass> | --token <jwt>) [--prompt <text>]'',
      ''  hermesctl context --config <file> (--username <user> --password <pass> | --token <jwt>) --prompt <text>'',
      ''  hermesctl sessions --config <file> (--username <user> --password <pass> | --token <jwt>) [--limit <n>] [--offset <n>]'',
      ''  hermesctl prompt-inspect --config <file> (--username <user> --password <pass> | --token <jwt>) --prompt <text>'',
      ''  hermesctl prompt-cache-stats --config <file> (--username <user> --password <pass> | --token <jwt>)'',
      ''  hermesctl prompt-cache-clear --config <file> (--username <user> --password <pass> | --token <jwt>)'',
      ''  hermesctl prompt-config --config <file>'',
      ''  hermesctl auxiliary-info --config <file> [--task <summary|compression|general>]'',
      ''  hermesctl auxiliary-chat --config <file> [--task <summary|compression|general>] --prompt <text>'',
      ''  hermesctl auxiliary-switch --config <file> --profile <name> [--task <default|summary|compression>]'',
      ''  hermesctl model-metadata --config <file> [--profile <name>]'',
      ''  hermesctl batch-run --config <file> (--username <user> --password <pass> | --token <jwt>) --dataset-file <path> [--run-name <name>]'',
      ''  hermesctl cron-add --config <file> (--username <user> --password <pass> | --token <jwt>) --name <name> --prompt <text> --schedule <expr> [--run-as <user>]'',
      ''  hermesctl cron-list --config <file> (--username <user> --password <pass> | --token <jwt>)'',
      ''  hermesctl cron-show --config <file> (--username <user> --password <pass> | --token <jwt>) --id <job-id>'',
      ''  hermesctl cron-delete --config <file> (--username <user> --password <pass> | --token <jwt>) --id <job-id>'',
      ''  hermesctl cron-tick --config <file> (--username <user> --password <pass> | --token <jwt>)'',
      ''  hermesctl trajectories --config <file> (--username <user> --password <pass> | --token <jwt>) [--limit <n>]'',
      ''  hermesctl trajectory-summary --config <file> (--username <user> --password <pass> | --token <jwt>) [--run-name <name>] [--model <name>] [--source <name>] [--completed <true|false>]'',
      ''  hermesctl trajectory-show --config <file> (--username <user> --password <pass> | --token <jwt>) --id <trajectory-id>'',
      ''  hermesctl history --config <file> (--username <user> --password <pass> | --token <jwt>) [--limit <n>] [--offset <n>] [--messages-limit <n>] [--messages-offset <n>]'',
      ''  hermesctl search --config <file> (--username <user> --password <pass> | --token <jwt>) --q <query> [--role <role>] [--session-id <id>] [--from <rfc3339>] [--to <rfc3339>] [--limit <n>]'',
      ''  hermesctl audit --config <file> (--username <user> --password <pass> | --token <jwt>) [--action <name>] [--from <rfc3339>] [--to <rfc3339>] [--limit <n>] [--offset <n>]'',
      ''  hermesctl execution-audit --config <file> (--username <user> --password <pass> | --token <jwt>) [--limit <n>] [--offset <n>]'',
      ''  hermesctl execution-profile-audit --config <file> (--username <user> --password <pass> | --token <jwt>) [--from <rfc3339>] [--to <rfc3339>]'',
      ''  hermesctl extensions --config <file> (--username <user> --password <pass> | --token <jwt>)'',
      ''  hermesctl extension-hooks --config <file> (--username <user> --password <pass> | --token <jwt>) [--kind <kind>] [--name <name>] [--phase <phase>] [--limit <n>] [--offset <n>]'',
      ''  hermesctl extension-refresh --config <file> (--username <user> --password <pass> | --token <jwt>)'',
      ''  hermesctl extension-state --config <file> (--username <user> --password <pass> | --token <jwt>) --kind <kind> --name <name> --enabled <true|false>'',
      ''  hermesctl extension-validate --config <file> (--username <user> --password <pass> | --token <jwt>) --kind <kind> --name <name>'',
      ''  hermesctl tools --config <file> (--username <user> --password <pass> | --token <jwt>)'',
      ''  hermesctl tool-exec --config <file> (--username <user> --password <pass> | --token <jwt>) --name <tool> [--input-json <json> | --input-file <path>]'',
      ''  hermesctl multiagent-plan --config <file> (--username <user> --password <pass> | --token <jwt>) --objective <text> --tasks-file <path>'',
      ''  hermesctl multiagent-run --config <file> (--username <user> --password <pass> | --token <jwt>) --plan-file <path>'',
      ''  hermesctl multiagent-traces --config <file> (--username <user> --password <pass> | --token <jwt>) [--parent-session-id <id>] [--child-session-id <id>] [--task-id <id>] [--from <rfc3339>] [--to <rfc3339>] [--limit <n>] [--offset <n>]'',
      ''  hermesctl multiagent-summary --config <file> (--username <user> --password <pass> | --token <jwt>) [--parent-session-id <id>] [--child-session-id <id>] [--task-id <id>] [--from <rfc3339>] [--to <rfc3339>]'',
      ''  hermesctl multiagent-verifiers --config <file> (--username <user> --password <pass> | --token <jwt>) [--parent-session-id <id>] [--child-session-id <id>] [--task-id <id>] [--from <rfc3339>] [--to <rfc3339>]'',
      ''  hermesctl multiagent-failures --config <file> (--username <user> --password <pass> | --token <jwt>) [--parent-session-id <id>] [--child-session-id <id>] [--task-id <id>] [--from <rfc3339>] [--to <rfc3339>] [--limit <n>] [--offset <n>]'',
      ''  hermesctl multiagent-hotspots --config <file> (--username <user> --password <pass> | --token <jwt>) [--parent-session-id <id>] [--child-session-id <id>] [--task-id <id>] [--from <rfc3339>] [--to <rfc3339>] [--limit <n>] [--offset <n>]'',
      ''  hermesctl multiagent-replay --config <file> (--username <user> --password <pass> | --token <jwt>) --child-session-id <id>'',
      ''  hermesctl multiagent-resume --config <file> (--username <user> --password <pass> | --token <jwt>) --child-session-id <id> [--allowed-tools <a,b>] [--history-window <n>]'']"

definition help_lines :: "string list" where
  "help_lines =
     [''assistant> available commands:'',
      ''  /help'',
      ''  /new'',
      ''  /clear'',
      ''  /login [username] [password]'',
      ''  /whoami'',
      ''  /status'',
      ''  /usage'',
      ''  /insights [days]'',
      ''  /prompt-inspect <prompt>'',
      ''  /prompt-cache-stats'',
      ''  /prompt-cache-clear'',
      ''  /prompt-config'',
      ''  /models'',
      ''  /discover-models'',
      ''  /model <profile-or-alias>'',
      ''  /model-metadata [profile-or-alias]'',
      ''  /auxiliary-info [task]'',
      ''  /auxiliary-chat [task] -- <prompt>'',
      ''  /auxiliary-switch <profile> [default|summary|compression]'',
      ''  /resume [session-id]'',
      ''  /retry'',
      ''  /undo'',
      ''  /context <prompt>'',
      ''  /sessions [limit]'',
      ''  /history [messages-limit]'',
      ''  /search <query>'',
      ''  /audit [limit]'',
      ''  /extensions'',
      ''  /extension-hooks [--kind <kind>] [--name <name>] [--phase <phase>] [--limit n] [--offset n]'',
      ''  /extension-refresh'',
      ''  /extension-state --kind <kind> --name <name> --enabled <true|false>'',
      ''  /extension-validate --kind <kind> --name <name>'',
      ''  /tools'',
      ''  /tool-exec <tool-name> [-- <json-object>]'',
      ''  /execution-audit [--limit n] [--offset n]'',
      ''  /execution-profile-audit [--from <rfc3339>] [--to <rfc3339>]'',
      ''  /multiagent-plan <tasks-file> -- <objective>'',
      ''  /multiagent-run <plan-file>'',
      ''  /multiagent-traces [--parent-session-id n] [--child-session-id n] [--task-id <id>] [--from <rfc3339>] [--to <rfc3339>] [--limit n] [--offset n]'',
      ''  /multiagent-summary [--parent-session-id n] [--child-session-id n] [--task-id <id>] [--from <rfc3339>] [--to <rfc3339>]'',
      ''  /multiagent-verifiers [--parent-session-id n] [--child-session-id n] [--task-id <id>] [--from <rfc3339>] [--to <rfc3339>]'',
      ''  /multiagent-failures [--parent-session-id n] [--child-session-id n] [--task-id <id>] [--from <rfc3339>] [--to <rfc3339>] [--limit n] [--offset n]'',
      ''  /multiagent-hotspots [--parent-session-id n] [--child-session-id n] [--task-id <id>] [--from <rfc3339>] [--to <rfc3339>] [--limit n] [--offset n]'',
      ''  /multiagent-replay <child-session-id>'',
      ''  /multiagent-resume <child-session-id> [--allowed-tools a,b] [--history-window n]'',
      ''  /trajectories [limit] [run-name]'',
      ''  /trajectory-show <trajectory-id>'',
      ''  /trajectory-summary [run-name]'',
      ''  /cron-add <name> <schedule...> -- <prompt>'',
      ''  /cron-list'',
      ''  /cron-show <job-id>'',
      ''  /cron-delete <job-id>'',
      ''  /cron-tick'',
      ''  /exit'']"

end
