(* ===== verification/CliCommands.thy ===== *)
theory CliCommands
  imports Cli CliText
begin

text \<open>
  \<^verbatim>\<open>cmd/hermesctl/main.go\<close>, second part: the commands on models, accounts and prompts (theory \<open>CliOps\<close> has the rest, except \<^verbatim>\<open>chat\<close>, which may open
  the console (theory \<open>Console\<close>).
\<close>

section \<open>Model profiles in the configuration file\<close>

text \<open>Commands that only read the configuration.\<close>

definition config_command :: "flag_set \<Rightarrow> (CliOut \<Rightarrow> flag_set \<Rightarrow> Config \<Rightarrow> Proc \<Rightarrow> (ending, unit, Proc) outcome) \<Rightarrow> command" where
  "config_command defs body co args =
     with_flags defs args (\<lambda>f p.
       finished (bind_res (must ''load config'' (on_w (LoadConfig co (str_flag f ''config'')) p)) (body co f)))"

definition profile_line :: "string \<times> LLMConfig \<Rightarrow> string" where
  "profile_line np =
     (case np of (name, p) \<Rightarrow>
        ''  '' @ name @ '' -> '' @ (if llm_DisplayName p = [] then llm_Model p else llm_DisplayName p)
        @ '' ('' @ llm_BaseURL p @ '')'' @ (if llm_Local p then '' [local]'' else []))"

definition runModels :: command where
  "runModels = config_command [] (\<lambda>co f cfg.
     printed ([''current profile: '' @ cfg_CurrentModelProfile cfg,
               ''current model:   '' @ llm_Model (ResolvedLLM cfg),
               ''current base:    '' @ llm_BaseURL (ResolvedLLM cfg), [], ''available profiles:'']
              @ map profile_line (sort_key fst (ListModelProfiles cfg))))"

definition model_line :: "DiscoveredModel \<Rightarrow> string" where
  "model_line d = ''  '' @ dm_ProfileName d @ '' -> '' @ dm_Model d @ '' ('' @ dm_BaseURL d @ '')''"

definition runDiscoverModels :: command where
  "runDiscoverModels = config_command [] (\<lambda>co f cfg p.
     case DiscoverLocalModels (co_models co) (ListModelProfiles cfg) (pc_urls p) of
       (ds, urls) \<Rightarrow>
         printed (if ds = [] then [''no local models discovered''] else ''discovered local models:'' # map model_line ds)
           (p\<lparr>pc_urls := urls\<rparr>))"

definition save_profile :: "CliOut \<Rightarrow> flag_set \<Rightarrow> string \<Rightarrow> (string + unit) \<times> Config \<Rightarrow> Proc \<Rightarrow> (ending, unit, Proc) outcome" where
  "save_profile co f name r p =
     (case r of
        (Inl e, cfg) \<Rightarrow> (Inl (Fatal (''switch model: '' @ e)), p)
      | (Inr _, cfg) \<Rightarrow>
          bind_res (must ''save config'' (on_w (SaveConfig co (str_flag f ''config'') cfg) p)) (\<lambda>_.
            printed [''switched model profile to '' @ go_quote name, ''model: '' @ llm_Model (ResolvedLLM cfg),
                     ''base:  '' @ llm_BaseURL (ResolvedLLM cfg)]))"

definition direct_name :: "flag_set \<Rightarrow> string" where
  "direct_name f =
     (if trimmed_flag f ''profile'' \<noteq> [] then trimmed_flag f ''profile''
      else ''custom-'' @ map (\<lambda>c. if c = CHR '':'' then CHR ''-'' else c) (to_lower (trimmed_flag f ''model'')))"

definition direct_config :: "flag_set \<Rightarrow> LLMConfig \<Rightarrow> LLMConfig" where
  "direct_config f l =
     l\<lparr>llm_Model := trimmed_flag f ''model'', llm_BaseURL := trimmed_flag f ''base-url'',
       llm_Provider := trimmed_flag f ''provider'', llm_APIKey := trimmed_flag f ''api-key'',
       llm_Local := bool_flag f ''local'', llm_DisplayName := str_flag f ''model''\<rparr>"

definition runSwitchModel :: command where
  "runSwitchModel =
     config_command ([(''profile'', FStr []), (''model'', FStr []), (''base-url'', FStr []),
         (''provider'', FStr ''openai-compatible''), (''api-key'', FStr []), (''local'', FBool False)])
       (\<lambda>co f cfg.
         if str_flag f ''model'' \<noteq> []
         then (if str_flag f ''base-url'' = [] then Pair (Inl (Fatal ''base-url is required when using --model''))
               else save_profile co f (direct_name f)
                      (UpsertModelProfile (direct_name f) (direct_config f (ResolvedLLM cfg)) cfg))
         else if str_flag f ''profile'' = [] then Pair (Inl (Fatal ''profile or model is required''))
         else (let name = (case ResolveProfile DefaultCatalog (ListModelProfiles cfg) (str_flag f ''profile'') of
                             None \<Rightarrow> str_flag f ''profile'' | Some n \<Rightarrow> n)
               in save_profile co f name (UseModelProfile name cfg)))"

definition runPromptConfig :: command where
  "runPromptConfig = config_command [] (\<lambda>co f cfg.
     mustWriteJSON (CvPrompting (cfg_Context cfg) (cfg_Prompting cfg) (cfg_Auxiliary cfg)))"

definition set_auxiliary :: "string \<Rightarrow> string \<Rightarrow> AuxiliaryConfig \<Rightarrow> AuxiliaryConfig option" where
  "set_auxiliary task profile x =
     (if task = ''default'' then Some (x\<lparr>aux_Profile := profile\<rparr>)
      else if task = ''summary'' then Some (x\<lparr>aux_SummaryProfile := profile\<rparr>)
      else if task = ''compression'' then Some (x\<lparr>aux_CompressionProfile := profile\<rparr>) else None)"

definition runAuxiliarySwitch :: command where
  "runAuxiliarySwitch co args =
     with_flags [(''profile'', FStr []), (''task'', FStr ''default'')] args (\<lambda>f p.
       let profile = trimmed_flag f ''profile'' in
       finished (bind_res (require (profile \<noteq> []) ''profile is required'' p) (\<lambda>_ p.
         bind_res (must ''load config'' (on_w (LoadConfig co (str_flag f ''config'')) p)) (\<lambda>cfg p.
         bind_res (require (has_key profile (cfg_ModelProfiles cfg)) (''profile '' @ go_quote profile @ '' is not defined'') p) (\<lambda>_ p.
           case set_auxiliary (to_lower (trimmed_flag f ''task'')) profile (cfg_Auxiliary cfg) of
             None \<Rightarrow> (Inl (Fatal ''task must be one of: default, summary, compression''), p)
           | Some x \<Rightarrow>
               bind_res (must ''save config'' (on_w (SaveConfig co (str_flag f ''config'') (cfg\<lparr>cfg_Auxiliary := x\<rparr>)) p))
                 (\<lambda>_. mustWriteJSON (CvAux x)))))))"

section \<open>Accounts\<close>

definition runInitAdmin :: command where
  "runInitAdmin = app_command (str_flags [''username'', ''password'']) (\<lambda>co f cfg c.
     bind_res (require (str_flag f ''username'' \<noteq> [] \<and> str_flag f ''password'' \<noteq> []) ''username and password are required'' c) (\<lambda>_ c.
     bind_res (must ''init admin'' (on_w (\<lambda>w. on_auth (co_env co)
         (InitAdmin (co_hash co) (ap_Auth c) (w_now w) (str_flag f ''username'') (str_flag f ''password'')) w) c)) (\<lambda>_.
       printed [''admin user '' @ go_quote (str_flag f ''username'') @ '' created in '' @ DBPath cfg])))"

definition runLogin :: command where
  "runLogin = app_command (str_flags [''username'', ''password'']) (\<lambda>co f cfg c.
     bind_res (require (str_flag f ''username'' \<noteq> [] \<and> str_flag f ''password'' \<noteq> []) ''username and password are required'' c) (\<lambda>_ c.
     bind_res (must ''login failed'' (on_w (\<lambda>w. on_auth (co_env co)
         (Login (co_check co) (co_sign co) (ap_Auth c) (w_now w) (str_flag f ''username'') (str_flag f ''password'')) w) c))
       (\<lambda>token. printed [token])))"

section \<open>Prompts and models\<close>

definition runContext :: command where
  "runContext = app_command (user_flags @ str_flags [''prompt'']) (\<lambda>co f cfg c.
     bind_res (must ''context auth'' (authenticateChatUser co (trimmed_flag f ''username'') (str_flag f ''password'')
         (trimmed_flag f ''token'') c)) (\<lambda>u c.
     bind_res (require (trimmed_flag f ''prompt'' \<noteq> []) ''prompt is required'' c) (\<lambda>_ c.
     bind_res (must ''estimate context'' (on_w (EstimateContextBudget (co_env co) (ap_App c) u (trimmed_flag f ''prompt'')) c))
       (\<lambda>b. mustWriteJSON (CvApi (AvBudget b))))))"

definition runPromptInspect :: command where
  "runPromptInspect = user_command (str_flags [''prompt'']) (\<lambda>co f u c.
     bind_res (require (trimmed_flag f ''prompt'' \<noteq> []) ''prompt is required'' c) (\<lambda>_ c.
     bind_res (must ''inspect prompt'' (on_w (InspectPrompt (co_env co) (ap_App c) u (trimmed_flag f ''prompt'')) c))
       (\<lambda>plan. mustWriteJSON (CvPlan plan))))"

definition runPromptCacheStats :: command where
  "runPromptCacheStats = user_command [] (\<lambda>co f u c.
     mustWriteJSON (CvCache (PromptCacheStats (co_env co) (ap_App c) (pc_world c))) c)"

definition runPromptCacheClear :: command where
  "runPromptCacheClear = user_command [] (\<lambda>co f u c.
     let w = snd (audit u ''prompt_cache_cleared'' ''cli'' (ClearPromptCache (pc_world c)))
     in mustWriteJSON (CvCleared (PromptCacheStats (co_env co) (ap_App c) w)) (c\<lparr>pc_world := w\<rparr>))"

definition runAuxiliaryInfo :: command where
  "runAuxiliaryInfo = app_command [(''task'', FStr ''general'')] (\<lambda>co f cfg c.
     bind_res (must ''auxiliary info'' (AuxiliaryInfo (ap_App c) (trimmed_flag f ''task''), c)) (\<lambda>r. mustWriteJSON (CvAuxInfo r)))"

definition runAuxiliaryChat :: command where
  "runAuxiliaryChat = app_command [(''task'', FStr ''general''), (''prompt'', FStr [])] (\<lambda>co f cfg c.
     bind_res (require (trimmed_flag f ''prompt'' \<noteq> []) ''prompt is required'' c) (\<lambda>_ c.
     bind_res (must ''auxiliary chat'' (on_w (AuxiliaryChat (co_env co) (ap_App c) (trimmed_flag f ''task'') (trimmed_flag f ''prompt'')) c))
       (\<lambda>(response, info). mustWriteJSON (CvAuxChat None info response))))"

definition runModelMetadata :: command where
  "runModelMetadata = app_command (str_flags [''profile'']) (\<lambda>co f cfg c.
     if trimmed_flag f ''profile'' = []
     then mustWriteJSON (CvAllMetadata (CurrentModelMetadata (ap_App c)) (ListModelMetadata (ap_App c))) c
     else (let profiles = ListModelProfiles (app_Config (ap_App c));
               name = (case ResolveProfile DefaultCatalog profiles (trimmed_flag f ''profile'') of
                         None \<Rightarrow> trimmed_flag f ''profile'' | Some n \<Rightarrow> n)
           in case get profiles name of
                None \<Rightarrow> (Inl (Fatal (''profile '' @ go_quote name @ '' is not defined'')), c)
              | Some l \<Rightarrow> mustWriteJSON (CvMetadata None (ResolveMetadata l)) c))"

end
