(* ===== verification/CliOps.thy ===== *)
theory CliOps
  imports CliCommands
begin

text \<open>
  \<^verbatim>\<open>cmd/hermesctl/main.go\<close>, third part: the commands on batches, jobs, trajectories, sessions, audit rows,
  extensions, tools and multi-agent runs.
\<close>

section \<open>Batches, jobs and trajectories\<close>

definition runBatchRun :: command where
  "runBatchRun = user_command [(''dataset-file'', FStr []), (''run-name'', FStr ''batch-run''), (''resume'', FBool False)] (\<lambda>co f u c.
     bind_res (require (trimmed_flag f ''dataset-file'' \<noteq> []) ''dataset-file is required'' c) (\<lambda>_ c.
     bind_res (must ''load batch dataset'' (on_w (LoadJSONL (co_env co) (trimmed_flag f ''dataset-file'')) c)) (\<lambda>items c.
       case on_w (RunWithOptions (co_env co) (co_cron co) (NewBatchRunner (ap_App c) (trajectories_of c)) u
              (trimmed_flag f ''run-name'') items
              \<lparr>ro_DatasetFile = trimmed_flag f ''dataset-file'', ro_Resume = bool_flag f ''resume''\<rparr>) c of
         ((results, summary), c) \<Rightarrow> mustWriteJSON (CvBatch summary results) c)))"

definition runCronAdd :: command where
  "runCronAdd = user_command (str_flags [''name'', ''prompt'', ''schedule'', ''run-as'']) (\<lambda>co f u c.
     bind_res (must ''add cron job'' (on_w (AddJob (co_env co) (co_cron co) (jobs_of c)
         \<lparr>ci_Name = trimmed_flag f ''name'',
          ci_Username = (if trimmed_flag f ''run-as'' = [] then u else trimmed_flag f ''run-as''),
          ci_Prompt = trimmed_flag f ''prompt'', ci_Schedule = trimmed_flag f ''schedule''\<rparr>) c))
       (\<lambda>j. mustWriteJSON (CvJob j)))"

definition runCronList :: command where
  "runCronList = user_command [] (\<lambda>co f u c.
     bind_res (must ''list cron jobs'' (on_w (ListJobs (co_env co) (co_cron co) (jobs_of c)) c)) (\<lambda>js. mustWriteJSON (CvJobs js)))"

definition runCronShow :: command where
  "runCronShow = user_command (str_flags [''id'']) (\<lambda>co f u c.
     bind_res (must ''get cron job'' (on_w (GetJob (co_env co) (co_cron co) (jobs_of c) (trimmed_flag f ''id'')) c))
       (\<lambda>j. mustWriteJSON (CvJob j)))"

definition deleted_fields :: "string \<Rightarrow> jmap" where
  "deleted_fields i = [(''ok'', JBool True), (''id'', JStr i)]"

definition runCronDelete :: command where
  "runCronDelete = user_command (str_flags [''id'']) (\<lambda>co f u c.
     bind_res (must ''delete cron job'' (on_w (DeleteJob (co_env co) (co_cron co) (jobs_of c) (trimmed_flag f ''id'')) c))
       (\<lambda>_. mustWriteJSON (CvApi (AvFields (deleted_fields (trimmed_flag f ''id''))))))"

definition runCronTick :: command where
  "runCronTick = user_command [] (\<lambda>co f u c.
     bind_res (must ''tick cron jobs'' (on_w (Tick (co_env co) (ap_App c) (co_cron co) (jobs_of c)) c))
       (\<lambda>rs. mustWriteJSON (CvTicks rs)))"

text \<open>The filters are built, and a bad boolean ends the process, before anything is read.\<close>

definition list_filters :: "int \<Rightarrow> flag_set \<Rightarrow> bool option \<Rightarrow> ListFilters" where
  "list_filters limit f completed =
     \<lparr>lf_Limit = limit, lf_RunName = trimmed_flag f ''run-name'', lf_Model = trimmed_flag f ''model'',
      lf_Source = trimmed_flag f ''source'', lf_Completed = completed\<rparr>"

definition runTrajectories :: command where
  "runTrajectories = user_command ((''limit'', FInt 20) # str_flags [''run-name'', ''model'', ''source'', ''completed'']) (\<lambda>co f u c.
     bind_res (parseOptionalBoolPointer (str_flag f ''completed'') c) (\<lambda>done c.
     bind_res (must ''list trajectories'' (on_w (ListFiltered (co_env co) (co_cron co) (trajectories_of c) u
         (list_filters (int_flag f ''limit'') f done)) c)) (\<lambda>rs. mustWriteJSON (CvRecords rs))))"

definition runTrajectorySummary :: command where
  "runTrajectorySummary = user_command (str_flags [''run-name'', ''model'', ''source'', ''completed'']) (\<lambda>co f u c.
     bind_res (parseOptionalBoolPointer (str_flag f ''completed'') c) (\<lambda>done c.
     bind_res (must ''summarize trajectories'' (on_w (Summarize (co_env co) (co_cron co) (trajectories_of c) u
         (list_filters 0 f done)) c)) (\<lambda>s. mustWriteJSON (CvRecordSummary s))))"

definition runTrajectoryShow :: command where
  "runTrajectoryShow = user_command (str_flags [''id'']) (\<lambda>co f u c.
     bind_res (require (trimmed_flag f ''id'' \<noteq> []) ''id is required'' c) (\<lambda>_ c.
     bind_res (must ''get trajectory'' (on_w (GetRecord (co_env co) (co_cron co) (trajectories_of c) u (trimmed_flag f ''id'')) c))
       (\<lambda>r. mustWriteJSON (CvRecord r))))"

section \<open>Sessions and audit\<close>

definition paging :: "int \<Rightarrow> flag_set" where
  "paging limit = [(''limit'', FInt limit), (''offset'', FInt 0)]"

definition runSessions :: command where
  "runSessions = user_command (paging 20) (\<lambda>co f u c.
     bind_res (must ''list sessions'' (on_w (on_store (ListSessionsPage u (int_flag f ''limit'') (int_flag f ''offset''))) c))
       (\<lambda>ss. mustWriteJSON (CvApi (AvSessions ss))))"

definition runHistory :: command where
  "runHistory = user_command (paging 20 @ [(''messages-limit'', FInt 20), (''messages-offset'', FInt 0)]) (\<lambda>co f u c.
     bind_res (must ''load history'' (on_w (buildHistoryPayload u (int_flag f ''limit'') (int_flag f ''offset'')
         (int_flag f ''messages-limit'') (int_flag f ''messages-offset'')) c))
       (\<lambda>hs. mustWriteJSON (CvApi (AvHistory hs))))"

definition runSearch :: command where
  "runSearch = user_command (str_flags [''q'', ''role''] @ [(''session-id'', FInt 0)] @ str_flags [''from'', ''to''] @ [(''limit'', FInt 20)])
     (\<lambda>co f u c.
     bind_res (require (trimmed_flag f ''q'' \<noteq> []) ''q is required'' c) (\<lambda>_ c.
     bind_res (mustTimes (co_env co) f c) (\<lambda>ts c.
     bind_res (must ''search history'' (on_w (on_store (SearchMessages (env_fts (co_env co)) (env_snippet (co_env co))
         \<lparr>sf_user = u, sf_query = trimmed_flag f ''q'', sf_role = trimmed_flag f ''role'', sf_session = int_flag f ''session-id'',
          sf_from = fst ts, sf_to = snd ts, sf_limit = int_flag f ''limit''\<rparr>)) c))
       (\<lambda>rs. mustWriteJSON (CvApi (AvSearch rs))))))"

definition runAudit :: command where
  "runAudit = user_command (str_flags [''action'', ''from'', ''to''] @ paging 50) (\<lambda>co f u c.
     bind_res (mustTimes (co_env co) f c) (\<lambda>ts c.
     bind_res (must ''list audit'' (on_w (on_store (ListAuditFiltered (audit_filters u (trimmed_flag f ''action'') (fst ts) (snd ts)
         (int_flag f ''limit'') (int_flag f ''offset'')))) c)) (\<lambda>rs. mustWriteJSON (CvApi (AvAudit rs)))))"

definition runExecutionAudit :: command where
  "runExecutionAudit = user_command (paging 50) (\<lambda>co f u c.
     bind_res (must ''list execution audit'' (on_w (on_store (ListAuditFiltered (audit_filters u [] None None
         (int_flag f ''limit'') (int_flag f ''offset'')))) c))
       (\<lambda>rs. mustWriteJSON (CvApi (AvAudit (executions_only rs)))))"

definition runExecutionProfileAudit :: command where
  "runExecutionProfileAudit = user_command (str_flags [''from'', ''to'']) (\<lambda>co f u c.
     bind_res (mustTimes (co_env co) f c) (\<lambda>ts c.
     bind_res (must ''list execution profile audit'' (on_w (buildExecutionProfileAuditPayload u ts) c))
       (\<lambda>v. mustWriteJSON (CvApi v))))"

section \<open>Extensions and tools\<close>

definition runExtensions :: command where
  "runExtensions = user_command [] (\<lambda>co f u c.
     bind_res (must ''list extension states'' (on_w (on_store ListExtensionStates) c))
       (\<lambda>states c. mustWriteJSON (CvStates (ExtensionSummary (ap_Ext c)) states) c))"

definition hook_filters :: "string \<Rightarrow> flag_set \<Rightarrow> ExtensionHookFilters" where
  "hook_filters u f =
     \<lparr>hf_user = u, hf_kind = trimmed_flag f ''kind'', hf_name = trimmed_flag f ''name'', hf_phase = trimmed_flag f ''phase'',
      hf_limit = int_flag f ''limit'', hf_offset = int_flag f ''offset''\<rparr>"

definition runExtensionHooks :: command where
  "runExtensionHooks = user_command (str_flags [''kind'', ''name'', ''phase''] @ paging 50) (\<lambda>co f u c.
     bind_res (must ''list extension hooks'' (on_w (on_store (ListExtensionHookRuns (hook_filters u f))) c))
       (\<lambda>rs. mustWriteJSON (CvApi (AvHooks rs))))"

definition print_summary :: "Cli \<Rightarrow> (ending, unit, Cli) outcome" where
  "print_summary c = mustWriteJSON (CvApi (AvExtensions (ExtensionSummary (ap_Ext c)))) c"

definition runRefreshExtensions :: command where
  "runRefreshExtensions = user_command [] (\<lambda>co f u c.
     bind_res (must ''refresh extensions'' (on_extensions (Discover (co_env co) (co_ext co)) c)) (\<lambda>_ c.
     bind_res (must ''register refreshed extensions'' (register_extensions co c)) (\<lambda>_. print_summary)))"

definition runExtensionState :: command where
  "runExtensionState = user_command (str_flags [''kind'', ''name''] @ [(''enabled'', FBool False)]) (\<lambda>co f u c.
     bind_res (require (trimmed_flag f ''kind'' \<noteq> [] \<and> trimmed_flag f ''name'' \<noteq> []) ''kind and name are required'' c) (\<lambda>_ c.
     bind_res (must ''set extension state'' (on_extensions (SetEnabled (co_env co) (co_ext co) u (trimmed_flag f ''kind'')
         (trimmed_flag f ''name'') (bool_flag f ''enabled'')) c)) (\<lambda>_ c.
     bind_res (must ''register extensions'' (register_extensions co c)) (\<lambda>_. print_summary))))"

text \<open>The report is dropped when there is an error.\<close>

definition report_or_error :: "('a \<times> string option) \<times> 's \<Rightarrow> (string, 'a, 's) outcome" where
  "report_or_error r = (case r of ((report, Some e), s) \<Rightarrow> (Inl e, s) | ((report, None), s) \<Rightarrow> (Inr report, s))"

definition runExtensionValidate :: command where
  "runExtensionValidate = user_command (str_flags [''kind'', ''name'']) (\<lambda>co f u c.
     bind_res (require (trimmed_flag f ''kind'' \<noteq> [] \<and> trimmed_flag f ''name'' \<noteq> []) ''kind and name are required'' c) (\<lambda>_ c.
     bind_res (must ''validate extension'' (report_or_error (on_w (ValidateExtension (co_ext co) (ap_Ext c) u
         (trimmed_flag f ''kind'') (trimmed_flag f ''name'')) c))) (\<lambda>r. mustWriteJSON (CvApi (AvFields r)))))"

definition runTools :: command where
  "runTools = user_command [] (\<lambda>co f u c. mustWriteJSON (CvApi (AvTools (ListTools (app_Tools (ap_App c))))) c)"

text \<open>\<^verbatim>\<open>input["username"] = chatUser\<close> panics on the nil map that \<^verbatim>\<open>null\<close> leaves.\<close>

definition tool_input :: "string \<Rightarrow> string \<Rightarrow> (string + json) \<times> 's \<Rightarrow> (ending, jmap, 's) outcome" where
  "tool_input u label r =
     bind_res (must label r) (\<lambda>j s.
       case unmarshal_into [(''username'', JStr u)] j of
         Inl e \<Rightarrow> (Inl (Fatal (label @ '': '' @ e)), s)
       | Inr None \<Rightarrow> (Inl Panics, s)
       | Inr (Some m) \<Rightarrow> (Inr (put ''username'' (JStr u) m), s))"

definition runExecuteTool :: command where
  "runExecuteTool = user_command (str_flags [''name'', ''input-json'', ''input-file'']) (\<lambda>co f u c.
     bind_res (require (trimmed_flag f ''name'' \<noteq> []) ''name is required'' c) (\<lambda>_ c.
     bind_res (if trimmed_flag f ''input-json'' \<noteq> []
               then tool_input u ''decode input-json'' (env_unmarshal (co_env co) (str_flag f ''input-json''), c)
               else if trimmed_flag f ''input-file'' \<noteq> []
               then tool_input u ''load input file'' (on_w (loadJSONFile (co_env co) (str_flag f ''input-file'')) c)
               else (Inr [(''username'', JStr u)], c)) (\<lambda>input c.
     bind_res (must ''execute tool'' (on_w (ExecuteTool (app_Tools (ap_App c)) (trimmed_flag f ''name'') input) c))
       (\<lambda>m. mustWriteJSON (CvApi (AvFields m))))))"

section \<open>Multi-agent runs\<close>

definition runMultiAgentPlan :: command where
  "runMultiAgentPlan = user_command (str_flags [''objective'', ''tasks-file'']) (\<lambda>co f u c.
     bind_res (require (trimmed_flag f ''objective'' \<noteq> [] \<and> trimmed_flag f ''tasks-file'' \<noteq> [])
       ''objective and tasks-file are required'' c) (\<lambda>_ c.
     bind_res (must ''load tasks'' (on_w (loadTasksFile (co_env co) (str_flag f ''tasks-file'')) c)) (\<lambda>tasks c.
     bind_res (must ''build multiagent plan'' (on_w (BuildMultiAgentPlan (ap_App c) u (trimmed_flag f ''objective'') tasks) c))
       (\<lambda>plan. mustWriteJSON (CvApi (AvPlan plan))))))"

text \<open>A run that panics or blocks (\<open>None\<close>) leaves the process so.\<close>

definition returned :: "'a option \<times> 's \<Rightarrow> (ending, 'a, 's) outcome" where
  "returned r = (case r of (None, s) \<Rightarrow> (Inl Stuck, s) | (Some a, s) \<Rightarrow> (Inr a, s))"

definition run_plan :: "CliOut \<Rightarrow> string \<Rightarrow> Plan \<Rightarrow> 'z Cli_scheme \<Rightarrow> (ending, string + Result list \<times> Aggregate, 'z Cli_scheme) outcome" where
  "run_plan co u plan c =
     returned (on_w (\<lambda>w. RunMultiAgentPlan (co_env co) (ap_App c) (\<lambda>_. False) (co_schedule co w) u plan w) c)"

definition runMultiAgentRun :: command where
  "runMultiAgentRun = user_command (str_flags [''plan-file'']) (\<lambda>co f u c.
     bind_res (require (trimmed_flag f ''plan-file'' \<noteq> []) ''plan-file is required'' c) (\<lambda>_ c.
     bind_res (must ''load plan'' (on_w (loadPlanFile (co_env co) (str_flag f ''plan-file'')) c)) (\<lambda>plan c.
     bind_res (run_plan co u plan c) (\<lambda>r c.
     bind_res (must ''run multiagent plan'' (r, c)) (\<lambda>(results, g). mustWriteJSON (CvApi (AvRun plan results g)))))))"

definition trace_flags :: "int \<Rightarrow> flag_set" where
  "trace_flags limit =
     [(''parent-session-id'', FInt 0), (''child-session-id'', FInt 0), (''task-id'', FStr []), (''from'', FStr []), (''to'', FStr [])]
     @ paging limit"

definition trace_filters :: "string \<Rightarrow> flag_set \<Rightarrow> time option \<times> time option \<Rightarrow> MultiAgentTraceFilters" where
  "trace_filters u f ts =
     \<lparr>tf_user = u, tf_parent = int_flag f ''parent-session-id'', tf_child = int_flag f ''child-session-id'',
      tf_task = trimmed_flag f ''task-id'', tf_from = fst ts, tf_to = snd ts, tf_limit = int_flag f ''limit'',
      tf_offset = int_flag f ''offset''\<rparr>"

text \<open>\<^verbatim>\<open>parseTraceCommand\<close> and \<^verbatim>\<open>mustTraceFiltersAndApp\<close> with the query and the value they serve.\<close>

definition trace_command :: "int \<Rightarrow> string \<Rightarrow> (MultiAgentTraceFilters \<Rightarrow> Store \<Rightarrow> 'a db_result) \<Rightarrow> ('a \<Rightarrow> api_value) \<Rightarrow> command" where
  "trace_command limit label op v = user_command (trace_flags limit) (\<lambda>co f u c.
     bind_res (mustTimes (co_env co) f c) (\<lambda>ts c.
     bind_res (must label (on_w (on_store (op (trace_filters u f ts))) c)) (\<lambda>rs. mustWriteJSON (CvApi (v rs)))))"

definition runMultiAgentTraces :: command where
  "runMultiAgentTraces = trace_command 50 ''list multiagent traces'' ListMultiAgentTraces AvTraces"

definition runMultiAgentTraceSummary :: command where
  "runMultiAgentTraceSummary = trace_command 0 ''summarize multiagent traces'' SummarizeMultiAgentTraces AvTraceSummary"

definition runMultiAgentVerifierSummary :: command where
  "runMultiAgentVerifierSummary = trace_command 0 ''summarize verifier results'' SummarizeMultiAgentVerifierResults AvVerifiers"

definition runMultiAgentTraceFailures :: command where
  "runMultiAgentTraceFailures = trace_command 50 ''list multiagent failures'' ListMultiAgentTraceFailures AvTraces"

definition runMultiAgentTraceHotspots :: command where
  "runMultiAgentTraceHotspots = trace_command 50 ''list multiagent hotspots'' ListMultiAgentTraceHotspots AvHotspots"

definition runMultiAgentReplay :: command where
  "runMultiAgentReplay = user_command [(''child-session-id'', FInt 0)] (\<lambda>co f u c.
     bind_res (require (0 < int_flag f ''child-session-id'') ''child-session-id is required'' c) (\<lambda>_ c.
     bind_res (must ''replay multiagent child'' (on_w (ReplayMultiAgentChild (co_env co) u (int_flag f ''child-session-id'')) c))
       (\<lambda>r. mustWriteJSON (CvApi (AvReplay r)))))"

definition runMultiAgentResume :: command where
  "runMultiAgentResume = user_command [(''child-session-id'', FInt 0), (''allowed-tools'', FStr []), (''history-window'', FInt 0)]
     (\<lambda>co f u c.
     bind_res (require (0 < int_flag f ''child-session-id'') ''child-session-id is required'' c) (\<lambda>_ c.
     bind_res (must ''resume multiagent child'' (on_w (ResumeMultiAgentChild (co_env co) (ap_App c) u (int_flag f ''child-session-id'')
         (parseCommaList (str_flag f ''allowed-tools'')) (int_flag f ''history-window'')) c))
       (\<lambda>r. mustWriteJSON (CvApi (AvResumed r)))))"

end
