(* ===== verification/Console.thy ===== *)
theory Console
  imports CliOps
begin

text \<open>
  \<^verbatim>\<open>cmd/hermesctl/console.go\<close>, first part: the state of the interactive console, its turns, the handlers
  of the workflow (\<^verbatim>\<open>/resume\<close>, \<^verbatim>\<open>/retry\<close>, \<^verbatim>\<open>/undo\<close>, \<^verbatim>\<open>/login\<close>), models and prompts, and the parsing of
  lines.
\<close>

section \<open>State\<close>

record chatTurn =
  turn_SessionID :: int
  turn_Prompt :: string
  turn_Response :: string
  turn_Model :: string
  turn_Managed :: bool

record Console = Cli +
  con_configPath :: string
  con_cfg :: Config
  con_user :: string
  con_turnCount :: int
  con_turns :: "chatTurn list"
  con_lastChat :: ChatResult
  con_active :: int
  con_managed :: bool

definition no_plan :: BuildResult where
  "no_plan =
     \<lparr>br_Model = [], br_Prompt = [], br_SystemBlocks = [], br_History = [], br_MemoryContext = [], br_PersistedSummary = [],
      br_Compression = \<lparr>cr_SystemBlock = [], cr_PersistedSummary = [], cr_History = [], cr_Compressed = False,
        cr_CompressedMessages = 0, cr_SummaryChars = 0, cr_TailMessagesUsed = 0\<rparr>,
      br_PromptChars = 0, br_MaxPromptChars = 0, br_HistoryWindowMessages = 0, br_HistoryMessagesUsed = 0,
      br_SystemBlocksUsed = 0, br_SummaryUpdated = False, br_CacheHit = False, br_CacheKey = [], br_Metadata = []\<rparr>"

definition no_chat :: ChatResult where
  "no_chat = \<lparr>chat_SessionID = 0, chat_Model = [], chat_Prompt = [], chat_Response = [], chat_Plan = no_plan\<rparr>"

text \<open>The last chat as the console restores it from a session or from a turn.\<close>

definition session_chat :: "Session \<Rightarrow> ChatResult" where
  "session_chat s =
     no_chat\<lparr>chat_SessionID := sess_id s, chat_Model := sess_model s, chat_Prompt := sess_prompt s, chat_Response := sess_response s\<rparr>"

definition turn_chat :: "chatTurn \<Rightarrow> ChatResult" where
  "turn_chat t =
     no_chat\<lparr>chat_SessionID := turn_SessionID t, chat_Model := turn_Model t, chat_Prompt := turn_Prompt t,
       chat_Response := turn_Response t\<rparr>"

definition newInteractiveConsole :: "string \<Rightarrow> Config \<Rightarrow> string \<Rightarrow> Cli \<Rightarrow> Console" where
  "newInteractiveConsole path cfg user c =
     Cli.extend c (Console.fields path cfg user 0 [] no_chat 0 False)"

section \<open>Lines\<close>

definition say :: "string \<Rightarrow> 'z Proc_scheme \<Rightarrow> 'z Proc_scheme" where
  "say s = println (''assistant> '' @ s)"

definition console_json :: "cli_value \<Rightarrow> 'z Proc_scheme \<Rightarrow> 'z Proc_scheme" where
  "console_json v = show_value ''assistant> '' v"

text \<open>The two ends of most handlers: a message on an error, the value otherwise.\<close>

definition answer :: "string \<Rightarrow> ('a \<Rightarrow> cli_value) \<Rightarrow> (string + 'a) \<times> 'z Proc_scheme \<Rightarrow> 'z Proc_scheme" where
  "answer label f r = (case r of (Inl e, c) \<Rightarrow> say (label @ '': '' @ e) c | (Inr v, c) \<Rightarrow> console_json (f v) c)"

text \<open>\<^verbatim>\<open>ReadString('\n')\<close>, with whether the input ended before a newline.\<close>

definition stdin_line :: "'z Proc_scheme \<Rightarrow> (string \<times> bool) \<times> 'z Proc_scheme" where
  "stdin_line p =
     (let line = takeWhile (\<lambda>c. c \<noteq> CHR 0x0A) (pc_in p); rest = drop (length line) (pc_in p)
      in if rest = [] then ((line, True), p\<lparr>pc_in := []\<rparr>) else ((line @ newline, False), p\<lparr>pc_in := tl rest\<rparr>))"

definition prompt_for :: "string \<Rightarrow> 'z Proc_scheme \<Rightarrow> string \<times> 'z Proc_scheme" where
  "prompt_for label p = (case stdin_line (words (label @ '': '') p) of ((line, _), p) \<Rightarrow> (trim_space line, p))"

text \<open>\<^verbatim>\<open>strings.Cut\<close>\<close>

definition string_cut :: "string \<Rightarrow> string \<Rightarrow> (string \<times> string) option" where
  "string_cut sep s = map_option (\<lambda>i. (take i s, drop (i + length sep) s)) (index_of sep s)"

definition splitCommandAndRest :: "string \<Rightarrow> string \<times> string" where
  "splitCommandAndRest line0 =
     (let line = trim_space line0 in
      if line = [] then ([], [])
      else (case string_cut '' '' line of None \<Rightarrow> (line, []) | Some (command, rest) \<Rightarrow> (command, trim_space rest)))"

definition splitAroundDoubleDash :: "string \<Rightarrow> (string \<times> string) option" where
  "splitAroundDoubleDash raw =
     (case string_cut '' -- '' raw of
        None \<Rightarrow> None
      | Some (l, r) \<Rightarrow> if trim_space l = [] \<or> trim_space r = [] then None else Some (trim_space l, trim_space r))"

definition parsePositiveIntDefault :: "string \<Rightarrow> int \<Rightarrow> int" where
  "parsePositiveIntDefault raw fallback =
     (if trim_space raw = [] then fallback
      else (case parse_int64 (trim_space raw) of None \<Rightarrow> fallback | Some v \<Rightarrow> if v \<le> 0 then fallback else v))"

definition flag_error_text :: "flag_error \<Rightarrow> string" where
  "flag_error_text e = (case e of HelpWanted \<Rightarrow> ''flag: help requested'' | FlagError t \<Rightarrow> t)"

definition parseConsoleFlagArgs :: "flag_set \<Rightarrow> string \<Rightarrow> string + flag_set \<times> string list" where
  "parseConsoleFlagArgs defs rest =
     (case parse_flags defs (if trim_space rest = [] then [] else Prelude.fields rest) of
        Inl e \<Rightarrow> Inl (flag_error_text e) | Inr r \<Rightarrow> Inr r)"

text \<open>The name is read from the text before \<^verbatim>\<open> -- \<close>, the input, nil after \<^verbatim>\<open>null\<close>, from the text after it.\<close>

definition parseToolExecInput :: "Env \<Rightarrow> string \<Rightarrow> string + string \<times> jmap option" where
  "parseToolExecInput env rest =
     (case splitAroundDoubleDash rest of
        None \<Rightarrow> Inr (trim_space rest, Some [])
      | Some (l, r) \<Rightarrow>
          (case env_unmarshal env r of
             Inl e \<Rightarrow> Inl e
           | Inr j \<Rightarrow> (case unmarshal_into [] j of Inl e \<Rightarrow> Inl e | Inr m \<Rightarrow> Inr (trim_space l, m))))"

definition parseConsoleTraceFilters :: "Env \<Rightarrow> string \<Rightarrow> int \<Rightarrow> string + MultiAgentTraceFilters" where
  "parseConsoleTraceFilters env rest limit =
     (case parseConsoleFlagArgs (trace_flags limit) rest of
        Inl e \<Rightarrow> Inl e
      | Inr (f, _) \<Rightarrow> (case time_flags env f of Inl e \<Rightarrow> Inl e | Inr ts \<Rightarrow> Inr (trace_filters [] f ts)))"

section \<open>Turns\<close>

definition recordChatTurn :: "ChatResult \<Rightarrow> bool \<Rightarrow> Console \<Rightarrow> Console" where
  "recordChatTurn r managed c =
     c\<lparr>con_lastChat := r, con_turnCount := con_turnCount c + 1,
       con_turns := con_turns c @ [\<lparr>turn_SessionID = chat_SessionID r, turn_Prompt = chat_Prompt r,
         turn_Response = chat_Response r, turn_Model = chat_Model r, turn_Managed = managed\<rparr>]\<rparr>"

definition resetTurnState :: "Console \<Rightarrow> Console" where
  "resetTurnState c = c\<lparr>con_turnCount := 0, con_turns := [], con_lastChat := no_chat, con_active := 0, con_managed := False\<rparr>"

definition trackedSessionCount :: "Console \<Rightarrow> int" where
  "trackedSessionCount c =
     (if con_turns c = [] then (if 0 < con_active c then 1 else 0)
      else int (card (set (filter (\<lambda>i. 0 < i) (map turn_SessionID (con_turns c) @ [con_active c])))))"

definition console_chat :: "CliOut \<Rightarrow> string \<Rightarrow> Console \<Rightarrow> Console" where
  "console_chat co text1 c =
     (case (if 0 < con_active c
            then on_w (ChatInSessionDetailed (co_env co) (ap_App c) (con_user c) (con_active c) text1) c
            else on_w (ChatTurn (co_env co) (ap_App c) (con_user c) text1) c) of
        (Inl e, c) \<Rightarrow> say (''error: '' @ e) c
      | (Inr r, c) \<Rightarrow>
          (let c = recordChatTurn r (0 < con_active c \<longrightarrow> con_managed c) c;
               c = (if con_active c = 0 \<and> 0 < chat_SessionID r then c\<lparr>con_active := chat_SessionID r, con_managed := True\<rparr> else c)
           in say (chat_Response r) c))"

definition console_new :: "Console \<Rightarrow> Console" where
  "console_new c = say ''started a fresh console workflow state'' (resetTurnState c)"

definition clear_screen :: string where
  "clear_screen = [CHR 0x1B] @ ''[H'' @ [CHR 0x1B] @ ''[2J''"

definition console_clear :: "Console \<Rightarrow> Console" where
  "console_clear c = say ''cleared screen and reset console workflow state'' (words clear_screen (resetTurnState c))"

definition console_login :: "CliOut \<Rightarrow> string \<Rightarrow> Console \<Rightarrow> Console" where
  "console_login co rest c =
     (let args = Prelude.fields rest;
          (username, c) = (case args of [] \<Rightarrow> prompt_for ''username'' c | u # _ \<Rightarrow> (trim_space u, c));
          (password, c) = (case args of _ # p # _ \<Rightarrow> (trim_space p, c) | _ \<Rightarrow> prompt_for ''password'' c)
      in case authenticateChatUser co username password [] c of
           (Inl e, c) \<Rightarrow> say (''login failed: '' @ e) c
         | (Inr user, c) \<Rightarrow> say (''logged in as '' @ user) (resetTurnState (c\<lparr>con_user := user\<rparr>)))"

definition resume_note :: string where
  "resume_note = ''Subsequent plain-text turns will now continue inside this session using session-scoped recent history. Undo/retry remain limited to sessions created in this console.''"

definition resume_session :: "Session \<Rightarrow> Console \<Rightarrow> Console" where
  "resume_session s c =
     (case on_w (on_store (GetMessagesPage (sess_id s) 10 0)) c of
        (Inl e, c) \<Rightarrow> say (''resume failed: '' @ e) c
      | (Inr ms, c) \<Rightarrow>
          console_json (CvResumed s ms)
            (c\<lparr>con_turnCount := 0, con_turns := [], con_active := sess_id s, con_managed := False,
               con_lastChat := session_chat s\<rparr>))"

definition console_resume :: "CliOut \<Rightarrow> string \<Rightarrow> Console \<Rightarrow> Console" where
  "console_resume co rest c =
     (if trim_space rest = []
      then (case on_w (on_store (ListSessions (con_user c) 1)) c of
              (Inl e, c) \<Rightarrow> say (''resume failed: '' @ e) c
            | (Inr [], c) \<Rightarrow> say ''no sessions available to resume'' c
            | (Inr (s # _), c) \<Rightarrow> resume_session s c)
      else (case parse_int64 (trim_space rest) of
              None \<Rightarrow> say ''usage: /resume [session-id]'' c
            | Some sid \<Rightarrow>
                if sid \<le> 0 then say ''usage: /resume [session-id]'' c
                else (case on_w (on_store (GetSession sid)) c of
                        (Inl e, c) \<Rightarrow> say (''resume failed: '' @ e) c
                      | (Inr s, c) \<Rightarrow>
                          if sess_user s \<noteq> con_user c
                          then say (''resume failed: session '' @ show_int (sess_id s) @ '' does not belong to '' @ con_user c) c
                          else resume_session s c)))"

definition drop_turn :: "Console \<Rightarrow> Console" where
  "drop_turn c =
     c\<lparr>con_turns := butlast (con_turns c), con_turnCount := (if 0 < con_turnCount c then con_turnCount c - 1 else con_turnCount c)\<rparr>"

definition console_retry :: "CliOut \<Rightarrow> string \<Rightarrow> Console \<Rightarrow> Console" where
  "console_retry co rest c =
     (if con_turns c = [] then say ''nothing to retry yet'' c
      else (let t = last (con_turns c) in
        if \<not> turn_Managed t
        then say ''retry only works for turns created in this console; use /new after inspecting a resumed session'' c
        else (case on_w (on_store (DeleteLastTurn (turn_SessionID t))) c of
                (Inl e, c) \<Rightarrow> say (''retry cleanup failed: '' @ e) c
              | (Inr _, c) \<Rightarrow>
                  (case on_w (ChatInSessionDetailed (co_env co) (ap_App c) (con_user c) (turn_SessionID t) (turn_Prompt t)) (drop_turn c) of
                     (Inl e, c) \<Rightarrow> say (''retry failed: '' @ e) c
                   | (Inr r, c) \<Rightarrow> say (chat_Response r) (recordChatTurn r True c)))))"

text \<open>What \<^verbatim>\<open>/undo\<close> does after the turn \<open>t\<close> is gone from the database and from the list.\<close>

definition reread_session :: "int \<Rightarrow> Console \<Rightarrow> Console" where
  "reread_session sid c =
     (if con_turns c = [] \<or> con_active c = sid
      then (case on_w (on_store (GetSession sid)) c of
              (Inl e, c) \<Rightarrow> c
            | (Inr s, c) \<Rightarrow> c\<lparr>con_lastChat := session_chat s, con_active := sess_id s, con_managed := True\<rparr>)
      else c)"

definition undo_anchor :: "chatTurn \<Rightarrow> Console \<Rightarrow> Console" where
  "undo_anchor t c0 =
     (let c = reread_session (turn_SessionID t)
            (c0\<lparr>con_lastChat := (if con_turns c0 = [] then no_chat else turn_chat (last (con_turns c0)))\<rparr>)
      in if con_turns c = [] \<and> chat_SessionID (con_lastChat c) = 0 then c\<lparr>con_active := 0, con_managed := False\<rparr> else c)"

definition console_undo :: "CliOut \<Rightarrow> string \<Rightarrow> Console \<Rightarrow> Console" where
  "console_undo co rest c =
     (if con_turns c = [] then say ''nothing to undo yet'' c
      else (let t = last (con_turns c) in
        if \<not> turn_Managed t
        then say ''undo only works for turns created in this console; resumed sessions remain read-only anchors'' c
        else (case on_w (on_store (DeleteLastTurn (turn_SessionID t))) c of
                (Inl e, c) \<Rightarrow> say (''undo failed: '' @ e) c
              | (Inr _, c) \<Rightarrow>
                  (let c = undo_anchor t (drop_turn c) in
                   console_json (CvApi (AvFields [(''ok'', JBool True), (''session_id'', JInt (turn_SessionID t)),
                     (''remaining_turns'', JInt (con_turnCount c)), (''active_session_id'', JInt (con_active c))])) c))))"

end
