(* ===== verification/ConsoleCommands.thy ===== *)
theory ConsoleCommands
  imports Console
begin

text \<open>
  \<^verbatim>\<open>cmd/hermesctl/console.go\<close>, second part: the handlers that show or change what the application keeps,
  the dispatch of a line, the loop, and with it the command \<^verbatim>\<open>chat\<close> and \<^verbatim>\<open>main\<close>.
\<close>

type_synonym console_handler = "CliOut \<Rightarrow> string \<Rightarrow> Console \<Rightarrow> Console"

definition app_config_of :: "Console \<Rightarrow> Config" where
  "app_config_of c = app_Config (ap_App c)"

definition current_model :: "Console \<Rightarrow> string" where
  "current_model c = llm_Model (ResolvedLLM (app_config_of c))"

section \<open>Status\<close>

definition user_fields :: "Console \<Rightarrow> jmap" where
  "user_fields c =
     [(''username'', JStr (con_user c)), (''model'', JStr (current_model c)),
      (''profile'', JStr (cfg_CurrentModelProfile (app_config_of c)))]"

definition count_fields :: "Console \<Rightarrow> jmap" where
  "count_fields c = [(''console_turns'', JInt (con_turnCount c)), (''tracked_sessions'', JInt (trackedSessionCount c))]"

definition last_session_fields :: "Console \<Rightarrow> jmap" where
  "last_session_fields c =
     (if 0 < chat_SessionID (con_lastChat c) then [(''last_session_id'', JInt (chat_SessionID (con_lastChat c)))] else [])"

definition console_whoami :: console_handler where
  "console_whoami co rest c = console_json (CvApi (AvFields (user_fields c))) c"

definition console_status :: console_handler where
  "console_status co rest c =
     console_json (CvApi (AvFields (user_fields c @ count_fields c
       @ (if 0 < con_active c
          then [(''active_session_id'', JInt (con_active c)), (''active_session_managed'', JBool (con_managed c))] else [])
       @ (if 0 < chat_SessionID (con_lastChat c)
          then last_session_fields c @ [(''last_prompt'', JStr (chat_Prompt (con_lastChat c))),
            (''last_response'', JStr (chat_Response (con_lastChat c))), (''last_model'', JStr (chat_Model (con_lastChat c)))] else [])
       @ (if con_turns c \<noteq> []
          then [(''recent_session_ids'', JArr (map (\<lambda>t. JInt (turn_SessionID t)) (con_turns c)))] else [])))) c"

definition console_usage :: console_handler where
  "console_usage co rest c =
     (let stats = PromptCacheStats (co_env co) (ap_App c) (pc_world c) in
      case on_w (on_store (ListSessions (con_user c) 10)) c of
        (Inl e, c) \<Rightarrow> say (''usage failed: '' @ e) c
      | (Inr ss, c) \<Rightarrow>
          (case on_w (on_store (ListRecentMessagesByUsername (con_user c) 20)) c of
             (Inl e, c) \<Rightarrow> say (''usage failed: '' @ e) c
           | (Inr ms, c) \<Rightarrow>
               console_json (CvUsage (user_fields c @ count_fields c
                 @ [(''recent_sessions_seen'', JInt (int (length ss))), (''recent_messages_seen'', JInt (int (length ms)))]
                 @ last_session_fields c) stats) c))"

text \<open>\<^verbatim>\<open>-time.Duration(days) * 24 * time.Hour\<close> wraps around.\<close>

definition days_before :: "time \<Rightarrow> int \<Rightarrow> time" where
  "days_before now days = now + wrap64 (- days * 24 * 60 * nanos_per_minute)"

definition console_insights :: console_handler where
  "console_insights co rest c =
     (let days = parsePositiveIntDefault (trim_space rest) 30; since = days_before (w_now (pc_world c)) days in
      case on_w (on_store (BuildUserInsights (con_user c) (if since = zero_time then None else Some since))) c of
        (Inl e, c) \<Rightarrow> say (''insights failed: '' @ e) c
      | (Inr i, c) \<Rightarrow> console_json (CvInsights days i (last_session_fields c)) c)"

section \<open>Prompts and models\<close>

definition console_prompt_inspect :: console_handler where
  "console_prompt_inspect co rest c =
     (if trim_space rest = [] then say ''usage: /prompt-inspect <prompt>'' c
      else answer ''prompt inspect failed'' CvPlan (on_w (InspectPrompt (co_env co) (ap_App c) (con_user c) (trim_space rest)) c))"

definition console_cache_stats :: console_handler where
  "console_cache_stats co rest c = console_json (CvCache (PromptCacheStats (co_env co) (ap_App c) (pc_world c))) c"

definition console_cache_clear :: console_handler where
  "console_cache_clear co rest c =
     (let w = ClearPromptCache (pc_world c)
      in console_json (CvCleared (PromptCacheStats (co_env co) (ap_App c) w)) (c\<lparr>pc_world := w\<rparr>))"

definition console_prompt_config :: console_handler where
  "console_prompt_config co rest c =
     console_json (CvPromptModel (cfg_CurrentModelProfile (app_config_of c)) (ResolvedLLM (app_config_of c))
       (cfg_Context (con_cfg c)) (cfg_Prompting (con_cfg c)) (cfg_Auxiliary (con_cfg c))) c"

definition console_models :: console_handler where
  "console_models co rest c =
     console_json (CvApi (AvModels (cfg_CurrentModelProfile (app_config_of c)) (ResolvedLLM (app_config_of c))
       (ListModelProfiles (app_config_of c)))) c"

definition console_discover_models :: console_handler where
  "console_discover_models co rest c =
     (case DiscoverLocalModels (co_models co) (ListModelProfiles (app_config_of c)) (pc_urls c) of
        (ds, urls) \<Rightarrow> console_json (CvApi (AvDiscovered ds)) (c\<lparr>pc_urls := urls\<rparr>))"

text \<open>The console takes over the application's configuration and saves it.\<close>

definition console_save :: "CliOut \<Rightarrow> string \<Rightarrow> (Console \<Rightarrow> cli_value) \<Rightarrow> Console \<Rightarrow> Console" where
  "console_save co label v c0 =
     (let c = c0\<lparr>con_cfg := app_config_of c0\<rparr> in
      case on_w (SaveConfig co (con_configPath c) (con_cfg c)) c of
        (Inl e, c) \<Rightarrow> say (label @ '' switched but config save failed: '' @ e) c
      | (Inr _, c) \<Rightarrow> console_json (v c) c)"

definition console_model :: console_handler where
  "console_model co rest c =
     (if trim_space rest = [] then say ''usage: /model <profile-or-alias>'' c
      else (let name = (case ResolveModelProfile (ap_App c) (trim_space rest) of None \<Rightarrow> trim_space rest | Some n \<Rightarrow> n) in
        case SwitchModelProfile (con_user c) name (ap_App c) (pc_world c) of
          (Inl e, a, w) \<Rightarrow> say (''model switch failed: '' @ e) (c\<lparr>ap_App := a, pc_world := w\<rparr>)
        | (Inr _, a, w) \<Rightarrow>
            console_save co ''model''
              (\<lambda>c. CvApi (AvSwitched (cfg_CurrentModelProfile (app_config_of c)) (ResolvedLLM (app_config_of c))))
              (c\<lparr>ap_App := a, pc_world := w\<rparr>)))"

definition console_model_metadata :: console_handler where
  "console_model_metadata co rest c =
     (let name = trim_space rest; known = ListModelMetadata (ap_App c) in
      if name = [] then console_json (CvAllMetadata (CurrentModelMetadata (ap_App c)) known) c
      else (case get known name of
              Some m \<Rightarrow> console_json (CvMetadata (Some name) m) c
            | None \<Rightarrow>
                (case Option.bind (ResolveModelProfile (ap_App c) name) (\<lambda>n. map_option (Pair n) (get known n)) of
                   Some (n, m) \<Rightarrow> console_json (CvMetadata (Some n) m) c
                 | None \<Rightarrow> say (''unknown model profile '' @ go_quote name) c)))"

definition console_auxiliary_info :: console_handler where
  "console_auxiliary_info co rest c =
     answer ''auxiliary info failed'' CvAuxInfo
       (AuxiliaryInfo (ap_App c) (if trim_space rest = [] then ''general'' else trim_space rest), c)"

definition console_auxiliary_chat :: console_handler where
  "console_auxiliary_chat co rest c =
     (let (task, prompt) = (case splitAroundDoubleDash rest of
            None \<Rightarrow> (''general'', trim_space rest)
          | Some (l, r) \<Rightarrow> (if trim_space l \<noteq> [] then trim_space l else ''general'', trim_space r)) in
      if prompt = [] then say ''usage: /auxiliary-chat [task] -- <prompt>'' c
      else answer ''auxiliary chat failed'' (\<lambda>(response, info). CvAuxChat (Some task) info response)
             (on_w (AuxiliaryChat (co_env co) (ap_App c) task prompt) c))"

definition console_auxiliary_switch :: console_handler where
  "console_auxiliary_switch co rest c =
     (case Prelude.fields rest of
        [] \<Rightarrow> say ''usage: /auxiliary-switch <profile> [default|summary|compression]'' c
      | profile # more1 \<Rightarrow>
          (case SwitchAuxiliaryProfile (con_user c) (case more1 of [] \<Rightarrow> ''default'' | t # _ \<Rightarrow> trim_space t) (trim_space profile)
                  (ap_App c) (pc_world c) of
             (Inl e, a, w) \<Rightarrow> say (''auxiliary switch failed: '' @ e) (c\<lparr>ap_App := a, pc_world := w\<rparr>)
           | (Inr x, a, w) \<Rightarrow> console_save co ''auxiliary'' (\<lambda>_. CvAux x) (c\<lparr>ap_App := a, pc_world := w\<rparr>)))"

section \<open>Sessions and audit\<close>

definition console_context :: console_handler where
  "console_context co rest c =
     (if trim_space rest = [] then say ''usage: /context <prompt>'' c
      else answer ''context failed'' (\<lambda>b. CvApi (AvBudget b))
             (on_w (EstimateContextBudget (co_env co) (ap_App c) (con_user c) (trim_space rest)) c))"

definition console_sessions :: console_handler where
  "console_sessions co rest c =
     answer ''sessions failed'' (\<lambda>ss. CvApi (AvSessions ss))
       (on_w (on_store (ListSessions (con_user c) (parsePositiveIntDefault (trim_space rest) 20))) c)"

definition console_history :: console_handler where
  "console_history co rest c =
     answer ''history failed'' (\<lambda>hs. CvApi (AvHistory hs))
       (on_w (buildHistoryPayload (con_user c) 20 0 (parsePositiveIntDefault (trim_space rest) 10) 0) c)"

definition console_search :: console_handler where
  "console_search co rest c =
     (if trim_space rest = [] then say ''usage: /search <query>'' c
      else answer ''search failed'' (\<lambda>rs. CvApi (AvSearch rs))
             (on_w (on_store (SearchMessages (env_fts (co_env co)) (env_snippet (co_env co))
               \<lparr>sf_user = con_user c, sf_query = trim_space rest, sf_role = [], sf_session = 0, sf_from = None, sf_to = None,
                sf_limit = 20\<rparr>)) c))"

definition console_audit :: console_handler where
  "console_audit co rest c =
     answer ''audit failed'' (\<lambda>rs. CvApi (AvAudit rs))
       (on_w (on_store (ListAuditFiltered (audit_filters (con_user c) [] None None
         (parsePositiveIntDefault (trim_space rest) 50) 0))) c)"

text \<open>Handlers with flags of their own.\<close>

definition flagged :: "flag_set \<Rightarrow> string \<Rightarrow> (flag_set \<Rightarrow> string list \<Rightarrow> Console \<Rightarrow> Console) \<Rightarrow> string \<Rightarrow> Console \<Rightarrow> Console" where
  "flagged defs label k rest c =
     (case parseConsoleFlagArgs defs rest of
        Inl e \<Rightarrow> say (label @ '' parse failed: '' @ e) c | Inr (f, args) \<Rightarrow> k f args c)"

definition console_execution_audit :: console_handler where
  "console_execution_audit co = flagged (paging 50) ''execution audit'' (\<lambda>f _ c.
     answer ''execution audit failed'' (\<lambda>rs. CvApi (AvAudit (executions_only rs)))
       (on_w (on_store (ListAuditFiltered (audit_filters (con_user c) [] None None (int_flag f ''limit'') (int_flag f ''offset'')))) c))"

definition console_profile_audit :: console_handler where
  "console_profile_audit co = flagged (str_flags [''from'', ''to'']) ''execution profile audit'' (\<lambda>f _ c.
     case time_flags (co_env co) f of
       Inl e \<Rightarrow> say (''execution profile audit parse failed: '' @ e) c
     | Inr ts \<Rightarrow>
         answer ''execution profile audit failed'' CvApi (on_w (buildExecutionProfileAuditPayload (con_user c) ts) c))"

section \<open>Extensions\<close>

definition console_extensions :: console_handler where
  "console_extensions co rest c =
     answer ''extensions failed'' (CvStates (ExtensionSummary (ap_Ext c))) (on_w (on_store ListExtensionStates) c)"

definition console_extension_hooks :: console_handler where
  "console_extension_hooks co = flagged (str_flags [''kind'', ''name'', ''phase''] @ paging 50) ''extension hooks'' (\<lambda>f _ c.
     answer ''extension hooks failed'' (\<lambda>rs. CvApi (AvHooks rs))
       (on_w (on_store (ListExtensionHookRuns (hook_filters (con_user c) f))) c))"

definition console_register :: "CliOut \<Rightarrow> Console \<Rightarrow> Console" where
  "console_register co c =
     (case register_extensions co c of
        (Inl e, c) \<Rightarrow> say (''extension register failed: '' @ e) c
      | (Inr _, c) \<Rightarrow> console_json (CvApi (AvExtensions (ExtensionSummary (ap_Ext c)))) c)"

definition console_extension_refresh :: console_handler where
  "console_extension_refresh co rest c =
     (case on_extensions (Discover (co_env co) (co_ext co)) c of
        (Inl e, c) \<Rightarrow> say (''extension refresh failed: '' @ e) c | (Inr _, c) \<Rightarrow> console_register co c)"

definition console_extension_state :: console_handler where
  "console_extension_state co = flagged (str_flags [''kind'', ''name''] @ [(''enabled'', FBool False)]) ''extension state'' (\<lambda>f _ c.
     if trimmed_flag f ''kind'' = [] \<or> trimmed_flag f ''name'' = []
     then say ''usage: /extension-state --kind <kind> --name <name> --enabled <true|false>'' c
     else (case on_extensions (SetEnabled (co_env co) (co_ext co) (con_user c) (trimmed_flag f ''kind'') (trimmed_flag f ''name'')
                  (bool_flag f ''enabled'')) c of
             (Inl e, c) \<Rightarrow> say (''extension state failed: '' @ e) c | (Inr _, c) \<Rightarrow> console_register co c))"

definition console_extension_validate :: console_handler where
  "console_extension_validate co = flagged (str_flags [''kind'', ''name'']) ''extension validate'' (\<lambda>f _ c.
     if trimmed_flag f ''kind'' = [] \<or> trimmed_flag f ''name'' = []
     then say ''usage: /extension-validate --kind <kind> --name <name>'' c
     else answer ''extension validate failed'' (\<lambda>r. CvApi (AvFields r))
            (report_or_error (on_w (ValidateExtension (co_ext co) (ap_Ext c) (con_user c) (trimmed_flag f ''kind'')
              (trimmed_flag f ''name'')) c)))"

definition console_tools :: console_handler where
  "console_tools co rest c = console_json (CvApi (AvTools (ListTools (app_Tools (ap_App c))))) c"

section \<open>Multi-agent runs\<close>

definition console_plan :: console_handler where
  "console_plan co rest c =
     (case splitAroundDoubleDash rest of
        None \<Rightarrow> say ''usage: /multiagent-plan <tasks-file> -- <objective>'' c
      | Some (path, objective) \<Rightarrow>
          (case on_w (loadTasksFile (co_env co) path) c of
             (Inl e, c) \<Rightarrow> say (''load tasks failed: '' @ e) c
           | (Inr tasks, c) \<Rightarrow>
               answer ''multiagent plan failed'' (\<lambda>p. CvApi (AvPlan p))
                 (on_w (BuildMultiAgentPlan (ap_App c) (con_user c) objective tasks) c)))"

definition console_traces :: "int \<Rightarrow> string \<Rightarrow> (MultiAgentTraceFilters \<Rightarrow> Store \<Rightarrow> 'a db_result) \<Rightarrow> ('a \<Rightarrow> api_value) \<Rightarrow> console_handler" where
  "console_traces limit label op v co rest c =
     (case parseConsoleTraceFilters (co_env co) rest limit of
        Inl e \<Rightarrow> say (label @ '' parse failed: '' @ e) c
      | Inr filters \<Rightarrow>
          answer (label @ '' failed'') (\<lambda>rs. CvApi (v rs)) (on_w (on_store (op (filters\<lparr>tf_user := con_user c\<rparr>))) c))"

definition console_multiagent_traces :: console_handler where
  "console_multiagent_traces = console_traces 50 ''multiagent traces'' ListMultiAgentTraces AvTraces"

definition console_multiagent_summary :: console_handler where
  "console_multiagent_summary = console_traces 0 ''multiagent summary'' SummarizeMultiAgentTraces AvTraceSummary"

definition console_multiagent_verifiers :: console_handler where
  "console_multiagent_verifiers = console_traces 0 ''multiagent verifiers'' SummarizeMultiAgentVerifierResults AvVerifiers"

definition console_multiagent_failures :: console_handler where
  "console_multiagent_failures = console_traces 50 ''multiagent failures'' ListMultiAgentTraceFailures AvTraces"

definition console_multiagent_hotspots :: console_handler where
  "console_multiagent_hotspots = console_traces 50 ''multiagent hotspots'' ListMultiAgentTraceHotspots AvHotspots"

definition positive_id :: "string \<Rightarrow> int option" where
  "positive_id raw = (case parse_int64 (trim_space raw) of None \<Rightarrow> None | Some i \<Rightarrow> if i \<le> 0 then None else Some i)"

definition console_multiagent_replay :: console_handler where
  "console_multiagent_replay co rest c =
     (case positive_id rest of
        None \<Rightarrow> say ''usage: /multiagent-replay <child-session-id>'' c
      | Some child \<Rightarrow>
          answer ''replay failed'' (\<lambda>r. CvApi (AvReplay r)) (on_w (ReplayMultiAgentChild (co_env co) (con_user c) child) c))"

definition resume_usage :: string where
  "resume_usage = ''usage: /multiagent-resume <child-session-id> [--allowed-tools a,b] [--history-window n]''"

definition console_multiagent_resume :: console_handler where
  "console_multiagent_resume co =
     flagged [(''allowed-tools'', FStr []), (''history-window'', FInt 0)] ''multiagent resume'' (\<lambda>f args c.
       case args of
         [arg] \<Rightarrow>
           (case positive_id arg of
              None \<Rightarrow> say resume_usage c
            | Some child \<Rightarrow>
                answer ''resume failed'' (\<lambda>r. CvApi (AvResumed r))
                  (on_w (ResumeMultiAgentChild (co_env co) (ap_App c) (con_user c) child (parseCommaList (str_flag f ''allowed-tools''))
                    (int_flag f ''history-window'')) c))
       | _ \<Rightarrow> say resume_usage c)"

section \<open>Trajectories and jobs\<close>

definition trajectory_args :: "string list \<Rightarrow> int \<times> string" where
  "trajectory_args parts =
     (case parts of
        [] \<Rightarrow> (20, [])
      | p # ps \<Rightarrow>
          (case parse_int64 p of
             Some n \<Rightarrow> if 0 < n then (n, case ps of [] \<Rightarrow> [] | run # _ \<Rightarrow> run) else (20, p)
           | None \<Rightarrow> (20, p)))"

definition console_trajectories :: console_handler where
  "console_trajectories co rest c =
     (case trajectory_args (Prelude.fields rest) of
        (limit, run) \<Rightarrow>
          answer ''trajectories failed'' CvRecords (on_w (ListFiltered (co_env co) (co_cron co) (trajectories_of c) (con_user c)
            \<lparr>lf_Limit = limit, lf_RunName = run, lf_Model = [], lf_Source = [], lf_Completed = None\<rparr>) c))"

definition console_trajectory_show :: console_handler where
  "console_trajectory_show co rest c =
     (if trim_space rest = [] then say ''usage: /trajectory-show <trajectory-id>'' c
      else answer ''trajectory show failed'' CvRecord
             (on_w (GetRecord (co_env co) (co_cron co) (trajectories_of c) (con_user c) (trim_space rest)) c))"

definition console_trajectory_summary :: console_handler where
  "console_trajectory_summary co rest c =
     answer ''trajectory summary failed'' CvRecordSummary (on_w (Summarize (co_env co) (co_cron co) (trajectories_of c) (con_user c)
       \<lparr>lf_Limit = 0, lf_RunName = trim_space rest, lf_Model = [], lf_Source = [], lf_Completed = None\<rparr>) c)"

definition cron_usage :: string where
  "cron_usage = ''usage: /cron-add <name> <schedule...> -- <prompt>''"

definition console_cron_add :: console_handler where
  "console_cron_add co rest c =
     (case splitAroundDoubleDash rest of
        None \<Rightarrow> say cron_usage c
      | Some (l, prompt) \<Rightarrow>
          (case Prelude.fields l of
             name # schedule # more1 \<Rightarrow>
               answer ''cron add failed'' CvJob (on_w (AddJob (co_env co) (co_cron co) (jobs_of c)
                 \<lparr>ci_Name = name, ci_Username = con_user c, ci_Prompt = prompt, ci_Schedule = join '' '' (schedule # more1)\<rparr>) c)
           | _ \<Rightarrow> say cron_usage c))"

definition console_cron_list :: console_handler where
  "console_cron_list co rest c = answer ''cron list failed'' CvJobs (on_w (ListJobs (co_env co) (co_cron co) (jobs_of c)) c)"

definition console_cron_show :: console_handler where
  "console_cron_show co rest c =
     (if trim_space rest = [] then say ''usage: /cron-show <job-id>'' c
      else answer ''cron show failed'' CvJob (on_w (GetJob (co_env co) (co_cron co) (jobs_of c) (trim_space rest)) c))"

definition console_cron_delete :: console_handler where
  "console_cron_delete co rest c =
     (if trim_space rest = [] then say ''usage: /cron-delete <job-id>'' c
      else answer ''cron delete failed'' (\<lambda>_. CvApi (AvFields (deleted_fields (trim_space rest))))
             (on_w (DeleteJob (co_env co) (co_cron co) (jobs_of c) (trim_space rest)) c))"

definition console_cron_tick :: console_handler where
  "console_cron_tick co rest c =
     answer ''cron tick failed'' CvTicks (on_w (Tick (co_env co) (ap_App c) (co_cron co) (jobs_of c)) c)"

definition console_help :: console_handler where
  "console_help co rest = fold println help_lines"

end
