(* ===== verification/ConsoleLoop.thy ===== *)
theory ConsoleLoop
  imports ConsoleCommands
begin

text \<open>
  \<^verbatim>\<open>cmd/hermesctl\<close>: the handlers that may end the process, the dispatch of a line, the loop of the console,
  the command \<^verbatim>\<open>chat\<close>, and \<^verbatim>\<open>main\<close>. The loop takes fuel; theory \<open>ConsoleProps\<close> shows how much is enough.
\<close>

section \<open>Lines\<close>

definition console_multiagent_run :: "CliOut \<Rightarrow> string \<Rightarrow> Console \<Rightarrow> (ending, unit, Console) outcome" where
  "console_multiagent_run co rest c =
     (if trim_space rest = [] then (Inr (), say ''usage: /multiagent-run <plan-file>'' c)
      else (case on_w (loadPlanFile (co_env co) (trim_space rest)) c of
              (Inl e, c) \<Rightarrow> (Inr (), say (''load plan failed: '' @ e) c)
            | (Inr plan, c) \<Rightarrow>
                bind_res (run_plan co (con_user c) plan c) (\<lambda>r c.
                  (Inr (), answer ''multiagent run failed'' (\<lambda>(results, g). CvApi (AvRun plan results g)) (r, c)))))"

definition console_tool_exec :: "CliOut \<Rightarrow> string \<Rightarrow> Console \<Rightarrow> (ending, unit, Console) outcome" where
  "console_tool_exec co rest c =
     (case parseToolExecInput (co_env co) rest of
        Inl e \<Rightarrow> (Inr (), say (''tool exec parse failed: '' @ e) c)
      | Inr (name, input) \<Rightarrow>
          if name = [] then (Inr (), say ''usage: /tool-exec <tool-name> [-- <json-object>]'' c)
          else (case input of
                  None \<Rightarrow> (Inl Panics, c)
                | Some m \<Rightarrow>
                    (Inr (), answer ''tool exec failed'' (\<lambda>r. CvApi (AvFields r))
                      (on_w (ExecuteTool (app_Tools (ap_App c)) name (put ''username'' (JStr (con_user c)) m)) c))))"

text \<open>The handlers of the workflow, and those that leave its state alone.\<close>

definition workflow_handlers :: "(string \<times> console_handler) list" where
  "workflow_handlers =
     [(''new'', \<lambda>co rest. console_new), (''clear'', \<lambda>co rest. console_clear), (''login'', console_login),
      (''resume'', console_resume), (''retry'', console_retry), (''undo'', console_undo)]"

definition view_handlers :: "(string \<times> console_handler) list" where
  "view_handlers =
     [(''help'', console_help), (''whoami'', console_whoami), (''status'', console_status), (''usage'', console_usage),
      (''insights'', console_insights), (''prompt-inspect'', console_prompt_inspect),
      (''prompt-cache-stats'', console_cache_stats), (''prompt-cache-clear'', console_cache_clear),
      (''prompt-config'', console_prompt_config), (''models'', console_models), (''discover-models'', console_discover_models),
      (''model'', console_model), (''model-metadata'', console_model_metadata), (''auxiliary-info'', console_auxiliary_info),
      (''auxiliary-chat'', console_auxiliary_chat), (''auxiliary-switch'', console_auxiliary_switch),
      (''context'', console_context), (''sessions'', console_sessions), (''history'', console_history),
      (''search'', console_search), (''audit'', console_audit), (''extensions'', console_extensions),
      (''extension-hooks'', console_extension_hooks), (''extension-refresh'', console_extension_refresh),
      (''extension-state'', console_extension_state), (''extension-validate'', console_extension_validate),
      (''tools'', console_tools), (''multiagent-plan'', console_plan), (''multiagent-traces'', console_multiagent_traces),
      (''multiagent-summary'', console_multiagent_summary), (''multiagent-verifiers'', console_multiagent_verifiers),
      (''multiagent-failures'', console_multiagent_failures), (''multiagent-hotspots'', console_multiagent_hotspots),
      (''multiagent-replay'', console_multiagent_replay), (''multiagent-resume'', console_multiagent_resume),
      (''trajectories'', console_trajectories), (''trajectory-show'', console_trajectory_show),
      (''trajectory-summary'', console_trajectory_summary), (''cron-add'', console_cron_add), (''cron-list'', console_cron_list),
      (''cron-show'', console_cron_show), (''cron-delete'', console_cron_delete), (''cron-tick'', console_cron_tick),
      (''execution-audit'', console_execution_audit), (''execution-profile-audit'', console_profile_audit)]"

text \<open>Whether the console goes on.\<close>

definition handleLine :: "CliOut \<Rightarrow> string \<Rightarrow> Console \<Rightarrow> (ending, bool, Console) outcome" where
  "handleLine co line c =
     (if line = ''/exit'' \<or> line = ''/quit'' then (Inr False, c)
      else if \<not> has_prefix ''/'' line then (Inr True, console_chat co line c)
      else (case splitCommandAndRest (trim_prefix ''/'' line) of
              (command, rest) \<Rightarrow>
                bind_res
                  (if command = ''multiagent-run'' then console_multiagent_run co rest c
                   else if command = ''tool-exec'' then console_tool_exec co rest c
                   else (Inr (), case map_of (workflow_handlers @ view_handlers) command of
                                   Some h \<Rightarrow> h co rest c
                                 | None \<Rightarrow> say (''unknown command '' @ go_quote command @ '', use /help'') c))
                  (\<lambda>_ c. (Inr True, c))))"

section \<open>The loop\<close>

fun console_loop :: "CliOut \<Rightarrow> nat \<Rightarrow> Console \<Rightarrow> ((ending + unit) option) \<times> Console" where
  "console_loop co 0 c = (None, c)"
| "console_loop co (Suc n) c =
     (case stdin_line (words ''you> '' c) of
        ((line, eof), c) \<Rightarrow>
          if trim_space line = [] then (if eof then (Some (Inr ()), words newline c) else console_loop co n c)
          else (case handleLine co (trim_space line) c of
                  (Inl e, c) \<Rightarrow> (Some (Inl e), c)
                | (Inr going, c) \<Rightarrow> if \<not> going \<or> eof then (Some (Inr ()), c) else console_loop co n c))"

text \<open>Every turn of the loop that does not end it reads at least a newline.\<close>

definition greeting :: "Console \<Rightarrow> string" where
  "greeting c = ''console started as '' @ go_quote (con_user c) @ '' with model '' @ go_quote (current_model c)"

text \<open>The ending \<open>Stuck\<close> is the process inside a call that does not return or dies in one of the tasks' goroutines
  (\<open>run_plan\<close>): it is no return of the loop, and no command follows it. The loop itself never runs out of its
  fuel, one turn per character of the input and one more (\<open>loop_ends\<close> in ConsoleProps), so \<open>None\<close> does not occur here.\<close>

definition console_start :: "CliOut \<Rightarrow> Console \<Rightarrow> (ending, unit, Console) outcome" where
  "console_start co c0 =
     (let c = println ''type /help for commands, /exit to leave'' (println (greeting c0) c0)
      in case console_loop co (Suc (length (pc_in c))) c of
           (None, c) \<Rightarrow> (Inl Stuck, c) | (Some r, c) \<Rightarrow> (r, c))"

section \<open>The command chat\<close>

definition readAllFromStdin :: "CliOut \<Rightarrow> 'z Proc_scheme \<Rightarrow> string \<times> 'z Proc_scheme" where
  "readAllFromStdin co p = (case co_stdin co of Piped \<Rightarrow> (pc_in p, p\<lparr>pc_in := []\<rparr>) | _ \<Rightarrow> ([], p))"

definition promptInteractiveCredentials :: "'z Proc_scheme \<Rightarrow> (string \<times> string) \<times> 'z Proc_scheme" where
  "promptInteractiveCredentials p =
     (case prompt_for ''username'' p of (u, p) \<Rightarrow> (case prompt_for ''password'' p of (pw, p) \<Rightarrow> ((u, pw), p)))"

definition ensureConsoleUser :: "CliOut \<Rightarrow> string \<Rightarrow> string \<Rightarrow> string \<Rightarrow> Cli \<Rightarrow> (string, string, Cli) outcome" where
  "ensureConsoleUser co username0 password0 token0 c =
     (let username = trim_space username0; token = trim_space token0;
          ((u, p), c) = (if username = [] \<and> password0 = [] \<and> token = [] then promptInteractiveCredentials c
                         else ((username, password0), c))
      in authenticateChatUser co u p token c)"

text \<open>One prompt, of the flag or of the pipe.\<close>

definition chat_once :: "CliOut \<Rightarrow> flag_set \<Rightarrow> string \<Rightarrow> Cli \<Rightarrow> (ending, unit, Cli) outcome" where
  "chat_once co f prompt c =
     bind_res (must ''chat auth'' (authenticateChatUser co (trimmed_flag f ''username'') (str_flag f ''password'')
         (trimmed_flag f ''token'') c)) (\<lambda>u c.
     bind_res (must ''chat failed'' (on_w (AppChat (co_env co) (ap_App c) u prompt) c)) (\<lambda>reply. printed [reply]))"

definition runChat :: command where
  "runChat = app_command (user_flags @ str_flags [''prompt'']) (\<lambda>co f cfg c.
     if trimmed_flag f ''prompt'' \<noteq> [] then chat_once co f (trimmed_flag f ''prompt'') c
     else (case readAllFromStdin co c of
             (input, c) \<Rightarrow>
               if trim_space input \<noteq> [] then chat_once co f (trim_space input) c
               else bind_res (must ''chat auth'' (ensureConsoleUser co (trimmed_flag f ''username'') (str_flag f ''password'')
                        (trimmed_flag f ''token'') c)) (\<lambda>u c.
                    case console_start co (newInteractiveConsole (str_flag f ''config'') cfg u c) of
                      (r, c) \<Rightarrow> (r, Cli.truncate c))))"

section \<open>Dispatch\<close>

definition user_commands :: "(string \<times> command) list" where
  "user_commands =
     [(''prompt-inspect'', runPromptInspect), (''prompt-cache-stats'', runPromptCacheStats),
      (''prompt-cache-clear'', runPromptCacheClear), (''batch-run'', runBatchRun), (''cron-add'', runCronAdd),
      (''cron-list'', runCronList), (''cron-show'', runCronShow), (''cron-delete'', runCronDelete), (''cron-tick'', runCronTick),
      (''trajectories'', runTrajectories), (''trajectory-summary'', runTrajectorySummary), (''trajectory-show'', runTrajectoryShow),
      (''sessions'', runSessions), (''history'', runHistory), (''search'', runSearch), (''audit'', runAudit),
      (''execution-audit'', runExecutionAudit), (''execution-profile-audit'', runExecutionProfileAudit),
      (''extensions'', runExtensions), (''extension-hooks'', runExtensionHooks), (''extension-refresh'', runRefreshExtensions),
      (''extension-state'', runExtensionState), (''extension-validate'', runExtensionValidate), (''tools'', runTools),
      (''tool-exec'', runExecuteTool), (''multiagent-plan'', runMultiAgentPlan), (''multiagent-run'', runMultiAgentRun),
      (''multiagent-traces'', runMultiAgentTraces), (''multiagent-summary'', runMultiAgentTraceSummary),
      (''multiagent-verifiers'', runMultiAgentVerifierSummary), (''multiagent-failures'', runMultiAgentTraceFailures),
      (''multiagent-hotspots'', runMultiAgentTraceHotspots), (''multiagent-replay'', runMultiAgentReplay),
      (''multiagent-resume'', runMultiAgentResume)]"

definition other_commands :: "(string \<times> command) list" where
  "other_commands =
     [(''models'', runModels), (''discover-models'', runDiscoverModels), (''switch-model'', runSwitchModel),
      (''init-admin'', runInitAdmin), (''login'', runLogin), (''chat'', runChat), (''context'', runContext),
      (''prompt-config'', runPromptConfig), (''auxiliary-info'', runAuxiliaryInfo), (''auxiliary-chat'', runAuxiliaryChat),
      (''auxiliary-switch'', runAuxiliarySwitch), (''model-metadata'', runModelMetadata)]"

definition usage :: "Proc \<Rightarrow> ending \<times> Proc" where
  "usage p = (Exits 1, fold println usage_lines p)"

definition hermesctl :: command where
  "hermesctl co argv p =
     (case argv of
        [] \<Rightarrow> usage p
      | name # args \<Rightarrow>
          if name = ''version'' then (Exits 0, println (AppName @ '' '' @ Version) p)
          else (case map_of (user_commands @ other_commands) name of None \<Rightarrow> usage p | Some cmd \<Rightarrow> cmd co args p))"

end
