(* ===== verification/ConsoleProps.thy ===== *)
theory ConsoleProps
  imports ConsoleLoop "HOL-Library.Sublist"
begin

text \<open>
  What the console promises: the handlers that only show something leave its turns alone, the turns are
  counted right and belong to the one active session, and the loop ends when the input does.
\<close>

section \<open>What a handler leaves alone\<close>

type_synonym workflow_state = "int \<times> chatTurn list \<times> int \<times> bool"

definition workflow :: "Console \<Rightarrow> workflow_state" where
  "workflow c = (con_turnCount c, con_turns c, con_active c, con_managed c)"

definition kept :: "Console \<Rightarrow> Console \<Rightarrow> bool" where
  "kept c c' = (workflow c' = workflow c \<and> pc_in c' = pc_in c)"

lemma kept_refl [simp]: "kept c c"
  by (simp add: kept_def)

lemma kept_trans: "kept c c1 \<Longrightarrow> kept c1 c2 \<Longrightarrow> kept c c2"
  by (simp add: kept_def)

lemma kept_output [simp]:
  "kept c (words s c1) = kept c c1" "kept c (println s c1) = kept c c1" "kept c (say s c1) = kept c c1"
  "kept c (console_json v c1) = kept c c1" "kept c (show_value s v c1) = kept c c1"
  by (simp_all add: kept_def workflow_def words_def println_def say_def console_json_def show_value_def)

lemma kept_update [simp]:
  "kept c (c1\<lparr>pc_world := w\<rparr>) = kept c c1" "kept c (c1\<lparr>ap_App := a\<rparr>) = kept c c1" "kept c (c1\<lparr>ap_Ext := m\<rparr>) = kept c c1"
  "kept c (c1\<lparr>pc_urls := us\<rparr>) = kept c c1" "kept c (c1\<lparr>con_cfg := cfg\<rparr>) = kept c c1"
  by (simp_all add: kept_def workflow_def)

lemma kept_on_w: "on_w f c1 = (r, c2) \<Longrightarrow> kept c c2 = kept c c1"
  by (auto simp: on_w_def kept_def workflow_def split: prod.splits)

lemma kept_snd_on_w [simp]: "kept c (snd (on_w f c1)) = kept c c1"
  using kept_on_w by (metis prod.collapse)

lemma kept_answer [simp]: "kept c (answer label f r) = kept c (snd r)"
  by (cases r; cases "fst r") (simp_all add: answer_def)

lemma kept_on_extensions: "on_extensions f c1 = (r, c2) \<Longrightarrow> kept c c2 = kept c c1"
  by (auto simp: on_extensions_def kept_def workflow_def split: prod.splits)

lemma kept_register: "register_extensions co c1 = (r, c2) \<Longrightarrow> kept c c2 = kept c c1"
  by (auto simp: register_extensions_def kept_def workflow_def split: prod.splits)

lemma kept_report [simp]: "kept c (snd (report_or_error r)) = kept c (snd r)"
  by (cases r; cases "fst r"; cases "snd (fst r)") (auto simp: report_or_error_def)

lemma kept_flagged: "(\<And>f args. kept c (k f args c)) \<Longrightarrow> kept c (flagged defs label k rest c)"
  by (auto simp: flagged_def split: sum.splits)

lemma kept_save: "kept c c1 \<Longrightarrow> kept c (console_save co label v c1)"
  by (auto simp: console_save_def Let_def kept_on_w split: prod.splits sum.splits)

lemma kept_fold: "kept c c1 \<Longrightarrow> kept c (fold println ls c1)"
  by (induction ls arbitrary: c1) simp_all

lemma kept_console_register: "kept c c1 \<Longrightarrow> kept c (console_register co c1)"
  by (auto simp: console_register_def kept_register split: prod.splits sum.splits)

lemmas kept_ends = kept_on_w kept_on_extensions kept_register

lemma views_keep:
  "kept c (console_help co rest c)" "kept c (console_whoami co rest c)" "kept c (console_status co rest c)"
  "kept c (console_usage co rest c)" "kept c (console_insights co rest c)"
  by (auto simp: console_help_def console_whoami_def console_status_def console_usage_def console_insights_def Let_def
      kept_fold kept_ends split: prod.splits sum.splits)

lemma prompts_keep:
  "kept c (console_prompt_inspect co rest c)" "kept c (console_cache_stats co rest c)" "kept c (console_cache_clear co rest c)"
  "kept c (console_prompt_config co rest c)" "kept c (console_models co rest c)" "kept c (console_discover_models co rest c)"
  "kept c (console_model co rest c)" "kept c (console_model_metadata co rest c)" "kept c (console_auxiliary_info co rest c)"
  "kept c (console_auxiliary_chat co rest c)" "kept c (console_auxiliary_switch co rest c)" "kept c (console_context co rest c)"
  by (auto simp: console_prompt_inspect_def console_cache_stats_def console_cache_clear_def console_prompt_config_def
      console_models_def console_discover_models_def console_model_def console_model_metadata_def console_auxiliary_info_def
      console_auxiliary_chat_def console_auxiliary_switch_def console_context_def Let_def kept_ends
      intro!: kept_save split: prod.splits sum.splits list.splits option.splits)

lemma rows_keep:
  "kept c (console_sessions co rest c)" "kept c (console_history co rest c)" "kept c (console_search co rest c)"
  "kept c (console_audit co rest c)" "kept c (console_execution_audit co rest c)" "kept c (console_profile_audit co rest c)"
  by (auto simp: console_sessions_def console_history_def console_search_def console_audit_def console_execution_audit_def
      console_profile_audit_def intro!: kept_flagged split: sum.splits)

lemma extensions_keep:
  "kept c (console_extensions co rest c)" "kept c (console_extension_hooks co rest c)" "kept c (console_extension_refresh co rest c)"
  "kept c (console_extension_state co rest c)" "kept c (console_extension_validate co rest c)" "kept c (console_tools co rest c)"
  by (auto simp: console_extensions_def console_extension_hooks_def console_extension_refresh_def console_extension_state_def
      console_extension_validate_def console_tools_def kept_ends intro!: kept_flagged kept_console_register
      split: prod.splits sum.splits)

lemma kept_traces: "kept c (console_traces limit label op v co rest c)"
  by (auto simp: console_traces_def split: sum.splits)

lemma multiagent_keep:
  "kept c (console_plan co rest c)" "kept c (console_multiagent_traces co rest c)" "kept c (console_multiagent_summary co rest c)"
  "kept c (console_multiagent_verifiers co rest c)" "kept c (console_multiagent_failures co rest c)"
  "kept c (console_multiagent_hotspots co rest c)" "kept c (console_multiagent_replay co rest c)"
  "kept c (console_multiagent_resume co rest c)"
  by (auto simp: console_plan_def console_multiagent_traces_def console_multiagent_summary_def console_multiagent_verifiers_def
      console_multiagent_failures_def console_multiagent_hotspots_def console_multiagent_replay_def console_multiagent_resume_def
      kept_traces kept_ends intro!: kept_flagged split: prod.splits sum.splits option.splits list.splits)

lemma jobs_keep:
  "kept c (console_trajectories co rest c)" "kept c (console_trajectory_show co rest c)"
  "kept c (console_trajectory_summary co rest c)" "kept c (console_cron_add co rest c)" "kept c (console_cron_list co rest c)"
  "kept c (console_cron_show co rest c)" "kept c (console_cron_delete co rest c)" "kept c (console_cron_tick co rest c)"
  by (auto simp: console_trajectories_def console_trajectory_show_def console_trajectory_summary_def console_cron_add_def
      console_cron_list_def console_cron_show_def console_cron_delete_def console_cron_tick_def
      split: prod.splits option.splits list.splits)

lemma view_handlers_keep: "(name, h) \<in> set view_handlers \<Longrightarrow> kept c (h co rest c)"
  unfolding view_handlers_def
  by (auto simp: views_keep prompts_keep rows_keep extensions_keep multiagent_keep jobs_keep)

lemma kept_returned [simp]: "kept c (snd (returned r)) = kept c (snd r)"
  by (cases r; cases "fst r") (auto simp: returned_def)

lemma kept_run_plan: "kept c (snd (run_plan co u plan c1)) = kept c c1"
  by (simp add: run_plan_def)

lemma kept_bind: "kept c (snd m) \<Longrightarrow> (\<And>a c1. kept c c1 \<Longrightarrow> kept c (snd (k a c1))) \<Longrightarrow> kept c (snd (bind_res m k))"
  by (rule bind_res_keeps)

lemma multiagent_run_keeps: "kept c (snd (console_multiagent_run co rest c))"
proof (cases "trim_space rest = []")
  case False
  obtain r c1 where l: "on_w (loadPlanFile (co_env co) (trim_space rest)) c = (r, c1)" by fastforce
  have "kept c (snd (bind_res (run_plan co (con_user c1) plan c1) (\<lambda>r c. (Inr (), answer label (f plan) (r, c)))))" for plan label f
    by (rule kept_bind) (simp_all add: kept_run_plan kept_on_w [OF l])
  then show ?thesis using False l by (cases r) (simp_all add: console_multiagent_run_def kept_on_w)
qed (simp add: console_multiagent_run_def)

lemma tool_exec_keeps: "kept c (snd (console_tool_exec co rest c))"
  by (auto simp: console_tool_exec_def split: sum.splits option.splits)

section \<open>Turns\<close>

text \<open>The count is right; the turns with a session are in the active one, and were made in the way it is
  held. (Row ids are positive, so the active session is never negative.)\<close>

definition turns_of :: "int \<Rightarrow> bool \<Rightarrow> chatTurn list \<Rightarrow> bool" where
  "turns_of active managed ts =
     list_all (\<lambda>t. 0 < turn_SessionID t \<longrightarrow> turn_SessionID t = active \<and> turn_Managed t = managed) ts"

definition console_ok :: "Console \<Rightarrow> bool" where
  "console_ok c =
     (con_turnCount c = int (length (con_turns c))
      \<and> (0 \<le> con_active c \<longrightarrow> turns_of (con_active c) (con_managed c) (con_turns c)))"

lemma console_ok_workflow: "workflow c' = workflow c \<Longrightarrow> console_ok c' = console_ok c"
  by (simp add: workflow_def console_ok_def)

lemma kept_ok: "kept c c' \<Longrightarrow> console_ok c \<Longrightarrow> console_ok c'"
  using console_ok_workflow [of c' c] by (simp add: kept_def)

lemma ok_output [simp]:
  "console_ok (words s c) = console_ok c" "console_ok (println s c) = console_ok c" "console_ok (say s c) = console_ok c"
  "console_ok (console_json v c) = console_ok c"
  by (rule console_ok_workflow; simp add: workflow_def words_def println_def say_def console_json_def show_value_def)+

lemma ok_on_w: "on_w f c = (r, c1) \<Longrightarrow> console_ok c1 = console_ok c"
  by (rule console_ok_workflow) (auto simp: workflow_def on_w_def split: prod.splits)

lemma on_w_fields:
  "on_w f c = (r, c1) \<Longrightarrow> con_turns c1 = con_turns c \<and> con_active c1 = con_active c \<and> con_managed c1 = con_managed c
     \<and> con_user c1 = con_user c \<and> pc_in c1 = pc_in c \<and> con_turnCount c1 = con_turnCount c"
  for c :: Console
  by (auto simp: on_w_def split: prod.splits)

text \<open>A chat in a session answers from that session.\<close>

lemma session_chat_id: "ChatInSessionDetailed env a u sid p w = (Inr r, w') \<Longrightarrow> chat_SessionID r = sid \<and> 0 < sid"
  by (auto simp: ChatInSessionDetailed_def chatDetailed_def chat_target_def Let_def bind_res_eq_Inr
      split: if_splits)

lemma recorded_ok:
  "console_ok c \<Longrightarrow> (0 < chat_SessionID r \<longrightarrow> chat_SessionID r = con_active c \<and> managed = con_managed c)
     \<Longrightarrow> console_ok (recordChatTurn r managed c)"
  by (simp add: console_ok_def recordChatTurn_def turns_of_def)

lemma activated_ok:
  "console_ok c \<Longrightarrow> con_active c = 0 \<Longrightarrow> 0 < chat_SessionID r
     \<Longrightarrow> console_ok ((recordChatTurn r True c)\<lparr>con_active := chat_SessionID r, con_managed := True\<rparr>)"
  by (auto simp: console_ok_def recordChatTurn_def turns_of_def list_all_iff)

lemma recordChatTurn_active [simp]: "con_active (recordChatTurn r m c) = con_active c"
  by (simp add: recordChatTurn_def)

lemma chat_keeps_ok: "console_ok c \<Longrightarrow> console_ok (console_chat co line c)"
proof -
  assume ok: "console_ok c"
  show ?thesis
  proof (cases "0 < con_active c")
    case True
    obtain r c1 where r: "on_w (ChatInSessionDetailed (co_env co) (ap_App c) (con_user c) (con_active c) line) c = (r, c1)"
      by fastforce
    show ?thesis
    proof (cases r)
      case (Inr x)
      then have x: "chat_SessionID x = con_active c"
        using r session_chat_id by (auto simp: on_w_def split: prod.splits)
      have "console_chat co line c = say (chat_Response x) (recordChatTurn x (con_managed c1) c1)"
        using True r Inr on_w_fields [OF r] by (simp add: console_chat_def Let_def)
      moreover have "console_ok (recordChatTurn x (con_managed c1) c1)"
        using ok x on_w_fields [OF r] by (intro recorded_ok) (simp_all add: ok_on_w [OF r])
      ultimately show ?thesis by simp
    qed (use ok True r ok_on_w [OF r] in \<open>simp add: console_chat_def\<close>)
  next
    case False
    obtain r c1 where r: "on_w (ChatTurn (co_env co) (ap_App c) (con_user c) line) c = (r, c1)" by fastforce
    have z: "\<not> 0 < con_active c" "con_active c1 = con_active c" using False on_w_fields [OF r] by simp_all
    have ok1: "console_ok c1" using ok ok_on_w [OF r] by simp
    show ?thesis
    proof (cases r)
      case (Inr x)
      have "con_active c1 < 0 \<Longrightarrow> console_ok (recordChatTurn x True c1)"
        using ok1 by (simp add: console_ok_def recordChatTurn_def)
      then show ?thesis
        using r Inr z recorded_ok [OF ok1, of x True] activated_ok [OF ok1, of x]
        by (cases "con_active c1 < 0"; cases "0 < chat_SessionID x") (simp_all add: console_chat_def Let_def)
    qed (use z r ok1 in \<open>simp add: console_chat_def\<close>)
  qed
qed

lemma stdin_line_suffix: "stdin_line p = ((line, eof), p1) \<Longrightarrow> suffix (pc_in p1) (pc_in p)"
  by (auto simp: stdin_line_def Let_def tl_drop drop_Suc [symmetric] suffix_drop split: if_splits)

lemma prompt_for_workflow: "prompt_for label c = (s, c1) \<Longrightarrow> workflow c1 = workflow c \<and> suffix (pc_in c1) (pc_in c)"
proof -
  assume p: "prompt_for label c = (s, c1)"
  have "workflow c1 = workflow c"
    using p by (auto simp: prompt_for_def stdin_line_def workflow_def words_def Let_def split: prod.splits if_splits)
  moreover have "suffix (pc_in c1) (pc_in c)"
    using p by (auto simp: prompt_for_def words_def Let_def split: prod.splits dest!: stdin_line_suffix)
  ultimately show ?thesis ..
qed

lemma authenticate_workflow:
  "authenticateChatUser co u p t c = (r, c1) \<Longrightarrow> workflow c1 = workflow c \<and> pc_in c1 = pc_in c" for c :: Console
  by (auto simp: authenticateChatUser_def bind_res_def on_w_def workflow_def split: if_splits prod.splits sum.splits)

lemma reset_ok [simp]: "console_ok (resetTurnState c)"
  by (simp add: console_ok_def resetTurnState_def turns_of_def)

text \<open>What is left of the input after a handler is an end of what was left before it.\<close>

definition steps :: "Console \<Rightarrow> Console \<Rightarrow> bool" where
  "steps c c' = ((console_ok c \<longrightarrow> console_ok c') \<and> suffix (pc_in c') (pc_in c))"

lemma steps_trans: "steps c c1 \<Longrightarrow> steps c1 c2 \<Longrightarrow> steps c c2"
  unfolding steps_def using suffix_order.trans by blast

lemma kept_steps: "kept c c' \<Longrightarrow> steps c c'"
  using kept_ok by (simp add: steps_def kept_def)

lemma input_output [simp]:
  "pc_in (words s c) = pc_in c" "pc_in (println s c) = pc_in c" "pc_in (say s c) = pc_in c" "pc_in (console_json v c) = pc_in c"
  "pc_in (recordChatTurn r m c) = pc_in c" "pc_in (resetTurnState c) = pc_in c"
  by (simp_all add: words_def println_def say_def console_json_def show_value_def recordChatTurn_def resetTurnState_def)

lemma steps_output [simp]:
  "steps c (words s c1) = steps c c1" "steps c (println s c1) = steps c c1" "steps c (say s c1) = steps c c1"
  "steps c (console_json v c1) = steps c c1"
  by (simp_all add: steps_def)

lemma steps_on_w: "on_w f c1 = (r, c2) \<Longrightarrow> steps c c2 = steps c c1" for c1 :: Console
  using ok_on_w [of f c1 r c2] on_w_fields [of f c1 r c2] by (simp add: steps_def)

lemma steps_refl [simp]: "steps c c"
  by (simp add: steps_def)

lemma steps_chat: "steps c (console_chat co line c)"
proof -
  have "pc_in (console_chat co line c) = pc_in c"
    by (auto simp: console_chat_def Let_def dest: on_w_fields split: prod.splits sum.splits)
  then show ?thesis using chat_keeps_ok by (simp add: steps_def)
qed

lemma steps_reset [simp]: "steps c (resetTurnState c1) = suffix (pc_in c1) (pc_in c)"
  by (simp add: steps_def)

lemma steps_login: "steps c (console_login co rest c)"
proof -
  obtain u c1 where u: "(case Prelude.fields rest of [] \<Rightarrow> prompt_for ''username'' c | u # _ \<Rightarrow> (trim_space u, c)) = (u, c1)"
    by fastforce
  obtain pw c2 where p: "(case Prelude.fields rest of _ # p # _ \<Rightarrow> (trim_space p, c1) | _ \<Rightarrow> prompt_for ''password'' c1) = (pw, c2)"
    by fastforce
  obtain r c3 where r: "authenticateChatUser co u pw [] c2 = (r, c3)" by fastforce
  have 1: "workflow c1 = workflow c \<and> suffix (pc_in c1) (pc_in c)"
    using u prompt_for_workflow by (auto split: list.splits)
  have 2: "workflow c2 = workflow c1 \<and> suffix (pc_in c2) (pc_in c1)"
    using p prompt_for_workflow by (auto split: list.splits)
  have w: "workflow c3 = workflow c" "suffix (pc_in c3) (pc_in c)"
    using 1 2 authenticate_workflow [OF r] suffix_order.trans [of "pc_in c2" "pc_in c1"] by simp_all
  then show ?thesis
    using u p r console_ok_workflow [OF w(1)] by (cases r) (simp_all add: console_login_def Let_def steps_def)
qed

lemma resumed_ok: "console_ok (c\<lparr>con_turnCount := 0, con_turns := [], con_active := sess_id s,
    con_managed := m, con_lastChat := l\<rparr>)"
  by (simp add: console_ok_def turns_of_def)

lemma steps_resume_session: "steps c (resume_session s c)"
  by (auto simp: resume_session_def steps_on_w split: prod.splits sum.splits)
    (auto simp: steps_def resumed_ok dest: on_w_fields)

lemma steps_resume_after: "on_w f c = (r, c1) \<Longrightarrow> steps c (resume_session s c1)"
  using steps_trans [OF _ steps_resume_session] steps_on_w [of f c r c1 c] by simp

lemma steps_resume: "steps c (console_resume co rest c)"
  by (auto simp: console_resume_def steps_on_w steps_resume_after split: prod.splits sum.splits list.splits option.splits)

lemma dropped_ok: "console_ok c \<Longrightarrow> con_turns c \<noteq> [] \<Longrightarrow> console_ok (drop_turn c)"
  using in_set_butlastD [of _ "con_turns c"]
  by (auto simp: console_ok_def drop_turn_def turns_of_def list_all_iff Suc_le_eq of_nat_diff)

lemma drop_turn_fields [simp]:
  "pc_in (drop_turn c) = pc_in c" "con_active (drop_turn c) = con_active c" "con_managed (drop_turn c) = con_managed c"
  "con_user (drop_turn c) = con_user c" "ap_App (drop_turn c) = ap_App c"
  by (simp_all add: drop_turn_def)

lemma last_turn:
  assumes "console_ok c" "con_turns c \<noteq> []" "0 \<le> con_active c" "0 < turn_SessionID (last (con_turns c))"
  shows "turn_SessionID (last (con_turns c)) = con_active c" "turn_Managed (last (con_turns c)) = con_managed c"
  using assms by (auto simp: console_ok_def turns_of_def list_all_iff)

lemma steps_retry: "steps c (console_retry co rest c)"
proof (cases "con_turns c = [] \<or> \<not> turn_Managed (last (con_turns c))")
  case False
  define t where "t = last (con_turns c)"
  obtain r c1 where d: "on_w (on_store (DeleteLastTurn (turn_SessionID t))) c = (r, c1)" by fastforce
  show ?thesis
  proof (cases r)
    case (Inr _)
    obtain q c2 where h: "on_w (ChatInSessionDetailed (co_env co) (ap_App c1) (con_user c1) (turn_SessionID t) (turn_Prompt t)) (drop_turn c1) = (q, c2)"
      by fastforce
    have i: "pc_in c2 = pc_in c" using on_w_fields [OF h] on_w_fields [OF d] by simp
    have k: "console_ok c2" if "console_ok c"
      using that False ok_on_w [OF h] ok_on_w [OF d] dropped_ok [of c1] on_w_fields [OF d] by simp
    have "console_ok (recordChatTurn x True c2)" if "console_ok c" "q = Inr x" for x
    proof -
      have x: "chat_SessionID x = turn_SessionID t" "0 < turn_SessionID t"
        using h that(2) session_chat_id by (auto simp: on_w_def split: prod.splits)
      have c2: "con_active c2 = con_active c" "con_managed c2 = con_managed c" using on_w_fields [OF h] on_w_fields [OF d] by simp_all
      show ?thesis
      proof (cases "0 \<le> con_active c")
        case True
        then show ?thesis
          using last_turn [OF that(1) _ True] False x c2 k [OF that(1)] by (intro recorded_ok) (auto simp: t_def)
      qed (use k [OF that(1)] c2 in \<open>simp add: console_ok_def recordChatTurn_def\<close>)
    qed
    then show ?thesis
      using False d h Inr i k by (cases q) (auto simp: console_retry_def t_def [symmetric] steps_def)
  qed (use False d steps_on_w [OF d] in \<open>simp add: console_retry_def t_def [symmetric]\<close>)
qed (auto simp: console_retry_def Let_def)

lemma reread_input [simp]: "pc_in (reread_session i c) = pc_in c"
  by (auto simp: reread_session_def on_w_def split: prod.splits sum.splits)

lemma anchor_input: "pc_in (undo_anchor t c) = pc_in c"
  by (simp add: undo_anchor_def Let_def)

text \<open>A session that is found has the id that was asked for.\<close>

lemma found_session: "on_w (on_store (GetSession i)) c = (Inr s, c1) \<Longrightarrow> sess_id s = i" for c :: Console
  by (auto simp: on_w_def on_store_def GetSession_def find_session_def stmt_def find_Some_iff
      split: prod.splits sum.splits option.splits list.splits)

lemma reactivated_ok:
  assumes "console_ok c" "con_turns c = [] \<or> con_active c = i \<and> (0 < i \<longrightarrow> con_managed c)"
  shows "console_ok (c\<lparr>con_lastChat := l, con_active := i, con_managed := True\<rparr>)"
  using assms by (auto simp: console_ok_def turns_of_def list_all_iff)

lemma reread_ok:
  assumes "console_ok c" "0 < i \<and> 0 \<le> con_active c \<longrightarrow> i = con_active c \<and> con_managed c"
  shows "console_ok (reread_session i c)"
proof (cases "con_turns c = [] \<or> con_active c = i")
  case True
  obtain r c3 where r: "on_w (on_store (GetSession i)) c = (r, c3)" by fastforce
  have ok3: "console_ok c3" using assms(1) ok_on_w [OF r] by simp
  show ?thesis
  proof (cases r)
    case (Inr s)
    then have "sess_id s = i" using found_session r by blast
    moreover have "console_ok (c3\<lparr>con_lastChat := session_chat s, con_active := i, con_managed := True\<rparr>)"
      by (rule reactivated_ok [OF ok3]) (use True assms(2) on_w_fields [OF r] in auto)
    ultimately show ?thesis using True r Inr by (simp add: reread_session_def)
  qed (use True r ok3 in \<open>simp add: reread_session_def\<close>)
qed (use assms(1) in \<open>simp add: reread_session_def\<close>)

lemma anchor_ok:
  assumes "console_ok c" "0 < turn_SessionID t \<and> 0 \<le> con_active c \<longrightarrow> turn_SessionID t = con_active c \<and> con_managed c"
  shows "console_ok (undo_anchor t c)"
proof -
  define c1 where "c1 = c\<lparr>con_lastChat := (if con_turns c = [] then no_chat else turn_chat (last (con_turns c)))\<rparr>"
  have "console_ok c1" "con_active c1 = con_active c" "con_managed c1 = con_managed c"
    using assms(1) by (simp_all add: c1_def console_ok_def)
  then have "console_ok (reread_session (turn_SessionID t) c1)" using assms(2) by (intro reread_ok) simp_all
  then show ?thesis
    unfolding undo_anchor_def Let_def c1_def [symmetric] by (simp add: console_ok_def turns_of_def)
qed

lemma steps_undo: "steps c (console_undo co rest c)"
proof (cases "con_turns c = [] \<or> \<not> turn_Managed (last (con_turns c))")
  case False
  define t where "t = last (con_turns c)"
  obtain r c1 where d: "on_w (on_store (DeleteLastTurn (turn_SessionID t))) c = (r, c1)" by fastforce
  note f = on_w_fields [OF d]
  show ?thesis
  proof (cases r)
    case (Inr u)
    have "console_ok (undo_anchor t (drop_turn c1))" if "console_ok c"
      using that False f ok_on_w [OF d] last_turn [OF that]
      by (intro anchor_ok dropped_ok) (auto simp: t_def)
    then show ?thesis
      using False d Inr f by (simp add: console_undo_def t_def [symmetric] Let_def steps_def anchor_input)
  qed (use False d steps_on_w [OF d] in \<open>simp add: console_undo_def t_def [symmetric]\<close>)
qed (auto simp: console_undo_def Let_def)

lemma steps_line: "steps c (snd (handleLine co line c))"
proof (cases "line = ''/exit'' \<or> line = ''/quit'' \<or> \<not> has_prefix ''/'' line")
  case True
  then show ?thesis by (auto simp: handleLine_def steps_chat)
next
  case False
  obtain command rest where cr: "splitCommandAndRest (trim_prefix ''/'' line) = (command, rest)" by fastforce
  have w: "steps c (h co rest c)" if "map_of (workflow_handlers @ view_handlers) command = Some h" for h
    using map_of_SomeD [OF that] view_handlers_keep kept_steps steps_login steps_resume steps_retry steps_undo
    by (auto simp: workflow_handlers_def console_new_def console_clear_def)
  have k: "steps c (snd (bind_res m (\<lambda>_ c. (Inr True, c))))" if "steps c (snd m)" for m :: "(ending, unit, Console) outcome"
    using that by (cases m; cases "fst m") (auto simp: bind_res_def)
  show ?thesis
    using False cr w
    by (auto simp: handleLine_def split: option.split intro!: k kept_steps [OF multiagent_run_keeps] kept_steps [OF tool_exec_keeps])
qed

lemma stdin_line_steps:
  fixes c :: Console
  assumes "stdin_line c = ((line, eof), c1)"
  shows "steps c c1" "\<not> eof \<Longrightarrow> length (pc_in c1) < length (pc_in c)"
proof -
  define l where "l = takeWhile (\<lambda>c. c \<noteq> CHR 0x0A) (pc_in c)"
  have d: "c1 = c\<lparr>pc_in := tl (drop (length l) (pc_in c))\<rparr> \<and> eof = (length (pc_in c) \<le> length l)"
    using assms by (auto simp: stdin_line_def Let_def l_def [symmetric] split: if_splits)
  moreover have "length (tl (drop (length l) (pc_in c))) < length (pc_in c)" if "\<not> length (pc_in c) \<le> length l"
    using that by simp
  ultimately show "steps c c1" "\<not> eof \<Longrightarrow> length (pc_in c1) < length (pc_in c)"
    using console_ok_workflow [of c1 c] stdin_line_suffix [OF assms] by (auto simp: steps_def workflow_def)
qed

lemma loop_ok: "console_ok c \<Longrightarrow> console_ok (snd (console_loop co n c))"
proof (induction n arbitrary: c)
  case (Suc n)
  obtain line eof c1 where r: "stdin_line (words ''you> '' c) = ((line, eof), c1)" by (metis prod.exhaust)
  have ok1: "console_ok c1" using stdin_line_steps(1) [OF r] Suc.prems by (simp add: steps_def)
  obtain x c2 where h: "handleLine co (trim_space line) c1 = (x, c2)" by fastforce
  have "console_ok c2" using steps_line [of c1 co "trim_space line"] ok1 h by (simp add: steps_def)
  then show ?case using r h ok1 Suc.IH [of c1] Suc.IH [of c2] by (auto split: sum.split)
qed simp

lemma loop_ends: "length (pc_in c) < n \<Longrightarrow> fst (console_loop co n c) \<noteq> None"
proof (induction n arbitrary: c)
  case (Suc n)
  obtain line eof c1 where r: "stdin_line (words ''you> '' c) = ((line, eof), c1)" by (metis prod.exhaust)
  note s1 = stdin_line_steps [OF r]
  obtain x c2 where h: "handleLine co (trim_space line) c1 = (x, c2)" by fastforce
  have s2: "length (pc_in c2) \<le> length (pc_in c1)"
    using steps_line [of c1 co "trim_space line"] h by (simp add: steps_def suffix_length_le)
  show ?case
  proof (cases eof)
    case True
    then show ?thesis using r h by (auto split: sum.split)
  next
    case False
    then have "length (pc_in c1) < n" "length (pc_in c2) < n" using s1(2) s2 Suc.prems by simp_all
    then show ?thesis using False r h Suc.IH [of c1] Suc.IH [of c2] by (auto split: sum.split)
  qed
qed simp

lemma more_fuel: "fst (console_loop co n c) \<noteq> None \<Longrightarrow> console_loop co (n + k) c = console_loop co n c"
proof (induction n arbitrary: c)
  case (Suc n)
  obtain line eof c1 where r: "stdin_line (words ''you> '' c) = ((line, eof), c1)" by (metis prod.exhaust)
  obtain x c2 where h: "handleLine co (trim_space line) c1 = (x, c2)" by fastforce
  show ?case using r h Suc.prems Suc.IH [of c1] Suc.IH [of c2] by (auto split: sum.split)
qed simp

section \<open>How the console ends\<close>

text \<open>A line that is handled is part of the input, and so is the command in it.\<close>

lemma trim_sublist: "sublist (trim_space s) s"
  using trim_space_infix [of s] by (auto simp: sublist_def)

lemma command_sublist: "splitCommandAndRest line = (command, rest) \<Longrightarrow> sublist command line"
proof -
  assume "splitCommandAndRest line = (command, rest)"
  then have "command = [] \<or> command = trim_space line \<or> (\<exists>i. command = take i (trim_space line))"
    by (auto simp: splitCommandAndRest_def string_cut_def Let_def split: if_splits option.splits)
  then have "sublist command (trim_space line)"
    using sublist_take [of _ "trim_space line"] by auto
  then show ?thesis using trim_sublist sublist_order.order.trans by blast
qed

lemma trim_prefix_sublist: "sublist (trim_prefix p s) s"
  by (simp add: trim_prefix_def)

lemma line_sublist: "stdin_line p = ((line, eof), p1) \<Longrightarrow> sublist (trim_space line) (pc_in p)"
proof -
  assume l: "stdin_line p = ((line, eof), p1)"
  let ?n = "length (takeWhile (\<lambda>c. c \<noteq> CHR 0x0A) (pc_in p))"
  have "line = take ?n (pc_in p) \<or> line = take (Suc ?n) (pc_in p)"
  proof (cases "?n < length (pc_in p)")
    case True
    then have "pc_in p ! ?n = CHR 0x0A" using nth_length_takeWhile by blast
    then show ?thesis
      using l True by (auto simp: stdin_line_def Let_def newline_def take_Suc_conv_app_nth takeWhile_eq_take [symmetric] split: if_splits)
  next
    case False
    then have "line = takeWhile (\<lambda>c. c \<noteq> CHR 0x0A) (pc_in p)"
      using l by (auto simp: stdin_line_def Let_def split: if_splits)
    then show ?thesis using takeWhile_eq_take by blast
  qed
  then have "sublist line (pc_in p)" using sublist_take by metis
  then show ?thesis using trim_sublist sublist_order.order.trans by blast
qed

lemma handler_ends:
  assumes "handleLine co line c = (Inl e, c')"
  shows "e = Panics \<and> sublist ''tool-exec'' line
    \<or> e = Stuck \<and> sublist ''multiagent-run'' line \<and> (\<exists>rest. console_multiagent_run co rest c = (Inl Stuck, c'))"
proof -
  obtain command rest where cr: "splitCommandAndRest (trim_prefix ''/'' line) = (command, rest)" by fastforce
  have sub: "sublist command line"
    using command_sublist [OF cr] trim_prefix_sublist sublist_order.order.trans by blast
  have run: "e = Stuck" if "console_multiagent_run co rest c = (Inl e, c')"
    using that by (auto simp: console_multiagent_run_def run_plan_def returned_def split: if_splits prod.splits sum.splits option.splits)
  have tool: "e = Panics" if "console_tool_exec co rest c = (Inl e, c')"
    using that by (auto simp: console_tool_exec_def split: sum.splits prod.splits if_splits option.splits)
  have b: "bind_res m (\<lambda>_ c. (Inr True, c)) = (Inl e, c') \<longleftrightarrow> m = (Inl e, c')" for m :: "(ending, unit, Console) outcome"
    by (cases m; cases "fst m") (auto simp: bind_res_def)
  have "(command = ''multiagent-run'' \<and> console_multiagent_run co rest c = (Inl e, c'))
      \<or> (command = ''tool-exec'' \<and> console_tool_exec co rest c = (Inl e, c'))"
    using assms cr by (auto simp: handleLine_def b split: if_split_asm)
  then show ?thesis using sub run tool by blast
qed

text \<open>The loop returns, or a tool call panics, or a run of a plan panics or never returns; the last two need the
  command in the input.\<close>

definition console_end :: "CliOut \<Rightarrow> string \<Rightarrow> ending + unit \<Rightarrow> Console \<Rightarrow> bool" where
  "console_end co input r c \<longleftrightarrow>
     r = Inr () \<or> r = Inl Panics \<and> sublist ''tool-exec'' input
     \<or> r = Inl Stuck \<and> sublist ''multiagent-run'' input \<and> (\<exists>rest c0. console_multiagent_run co rest c0 = (Inl Stuck, c))"

lemma console_end_suffix: "console_end co i r c \<Longrightarrow> suffix i j \<Longrightarrow> console_end co j r c"
  unfolding console_end_def using suffix_imp_sublist sublist_order.order.trans by blast

lemma loop_end: "console_loop co n c = (Some r, c') \<Longrightarrow> console_end co (pc_in c) r c'"
proof (induction n arbitrary: c)
  case (Suc n)
  obtain line eof c1 where r: "stdin_line (words ''you> '' c) = ((line, eof), c1)" by (metis prod.exhaust)
  have s1: "suffix (pc_in c1) (pc_in c)" using stdin_line_suffix [OF r] by simp
  have l: "sublist (trim_space line) (pc_in c)" using line_sublist [OF r] by simp
  obtain x c2 where h: "handleLine co (trim_space line) c1 = (x, c2)" by fastforce
  have s2: "suffix (pc_in c2) (pc_in c)"
    using steps_line [of c1 co "trim_space line"] h s1 suffix_order.trans by (fastforce simp: steps_def)
  show ?case
  proof (cases "trim_space line = []")
    case True
    then show ?thesis
      using Suc.prems r console_end_suffix [OF Suc.IH [of c1] s1] by (auto simp: console_end_def split: if_splits)
  next
    case False
    show ?thesis
    proof (cases x)
      case (Inl e)
      then have "r = Inl e" "c' = c2" using Suc.prems r h False by simp_all
      then show ?thesis
        using handler_ends [OF h [unfolded Inl]] sublist_order.order.trans [OF _ l] unfolding console_end_def by blast
    next
      case (Inr going)
      then show ?thesis
        using Suc.prems r h False console_end_suffix [OF Suc.IH [of c2] s2] by (auto simp: console_end_def split: if_splits)
    qed
  qed
qed simp

text \<open>C35. However much is typed, the loop of the console ends: with one turn more than there are bytes of input it
  has ended, and more turns change nothing. It ends by returning, unless a line runs a tool (with \<^verbatim>\<open>null\<close> as
  its input that panics) or a plan: then a run that panics or never returns (a parallel plan with bound 0)
  may be where the console stays. Without those two commands in the input it returns. The console itself
  ends as its loop does.\<close>

theorem console_terminates:
  "\<exists>r c1 s c2. console_loop co (Suc (length (pc_in c))) c = (Some r, c1)
     \<and> console_loop co (Suc (length (pc_in c)) + k) c = (Some r, c1) \<and> console_end co (pc_in c) r c1
     \<and> console_start co c = (s, c2) \<and> console_end co (pc_in c) s c2
     \<and> console_loop co (Suc (length (pc_in c)))
         (println ''type /help for commands, /exit to leave'' (println (greeting c) c)) = (Some s, c2)"
proof -
  define c0 where "c0 = println ''type /help for commands, /exit to leave'' (println (greeting c) c)"
  have i: "pc_in c0 = pc_in c" by (simp add: c0_def)
  have ends: "\<exists>r d. console_loop co (Suc (length (pc_in c))) b = (Some r, d)" if "pc_in b = pc_in c" for b
    using loop_ends [of b "Suc (length (pc_in c))" co] that by (metis lessI not_None_eq prod.collapse)
  obtain r c1 where l: "console_loop co (Suc (length (pc_in c))) c = (Some r, c1)" using ends by blast
  obtain s c2 where l0: "console_loop co (Suc (length (pc_in c))) c0 = (Some s, c2)" using ends [OF i] by blast
  have "console_start co c = (s, c2)"
    using l0 by (simp add: console_start_def Let_def c0_def [symmetric] i del: console_loop.simps)
  moreover have "console_loop co (Suc (length (pc_in c)) + k) c = (Some r, c1)"
    using more_fuel [of co "Suc (length (pc_in c))" c k] l by (simp del: console_loop.simps)
  ultimately show ?thesis
    using l l0 loop_end [OF l] loop_end [OF l0, unfolded i] unfolding c0_def by blast
qed

text \<open>A console started afresh stays consistent over any input: its counter is the number of its turns, and
  every turn with a session is in the session the console holds active and was made in the way (created
  here or resumed) it is held, so undo and retry never act on a turn of another session.\<close>

lemma console_consistent:
  "console_ok (snd (console_start co (newInteractiveConsole path cfg user c)))"
proof -
  define c1 where "c1 = newInteractiveConsole path cfg user c"
  have ok: "console_ok c1"
    by (simp add: c1_def newInteractiveConsole_def console_ok_def turns_of_def Cli.defs Console.defs)
  define c2 where "c2 = println ''type /help for commands, /exit to leave'' (println (greeting c1) c1)"
  have "console_ok c2" using ok by (simp add: c2_def)
  obtain r c3 where l: "console_loop co (Suc (length (pc_in c2))) c2 = (r, c3)" by fastforce
  have "console_ok c3" using loop_ok [OF \<open>console_ok c2\<close>, of co "Suc (length (pc_in c2))"] l by simp
  then show ?thesis
    using l by (simp add: console_start_def Let_def c1_def [symmetric] c2_def [symmetric] split: option.split)
qed

end
