(* ===== verification/CliProps.thy ===== *)
theory CliProps
  imports ConsoleProps ApiProps CronProps
begin

text \<open>
  What the command line client promises: a command of a user does nothing without credentials that hold,
  and otherwise runs for the user they name.
\<close>

section \<open>What starting up and logging in leave alone\<close>

text \<open>The tables without the accounts and the audit log, which a login writes.\<close>

definition outside_logins :: "Store \<Rightarrow> Store" where
  "outside_logins d = d\<lparr>users := [], audit_log := [], audit_seq := 0, faults := []\<rparr>"

definition but_logins :: "World \<Rightarrow> Store" where
  "but_logins w = outside_logins (w_store w)"

lemma but_logins_store: "w_store w' = w_store w \<Longrightarrow> but_logins w' = but_logins w"
  by (simp add: but_logins_def)

lemma but_logins_faults:
  "(w_store w')\<lparr>faults := []\<rparr> = (w_store w)\<lparr>faults := []\<rparr> \<Longrightarrow> but_logins w' = but_logins w"
  unfolding but_logins_def outside_logins_def
  by (cases "w_store w"; cases "w_store w'") simp

lemma load_config_same: "but_logins (snd (LoadConfig co path w)) = but_logins w"
  by (rule but_logins_store) (simp add: LoadConfig_def on_files_def split_beta split: option.split)

lemma load_secret_same: "w_store (snd (load_secret co path w)) = w_store w"
  by (simp add: load_secret_def on_files_def Let_def split_beta split: sum.split)

lemma states_same:
  assumes "wired m" "applyStoredStates m ps ss w = (res, w')"
  shows "(w_store w')\<lparr>faults := []\<rparr> = (w_store w)\<lparr>faults := []\<rparr>"
  using assms
  by (cases rule: stmt_cases [of "\<lambda>d. (Inr (sort_key (\<lambda>s. (es_kind s, es_name s)) (extension_states d)), d)" "w_store w"])
     (auto simp: applyStoredStates_def wired_def app_extensions_def on_store_def ListExtensionStates_def query_def)

lemma discover_same:
  assumes "wired m" "Discover env xo (m, w) = (res, m', w')"
  shows "but_logins w' = but_logins w"
proof -
  obtain r1 w1 where 1: "discoverPlugins env xo (ext_PluginsDir (cfg_Extensions (em_cfg m))) w = (r1, w1)" by fastforce
  obtain r2 w2 where 2: "discoverSkills env xo (ext_SkillsDirs (cfg_Extensions (em_cfg m))) w1 = (r2, w2)" by fastforce
  obtain svs w3 where 3: "discoverMCPServers env xo (cfg_MCPServers (em_cfg m)) w2 = (svs, w3)" by fastforce
  have st: "w_store w1 = w_store w" "w_store w2 = w_store w" "w_store w3 = w_store w"
    using same_snd [OF 1 discover_plugins_same] same_snd [OF 2 discover_skills_same] 3
      statuses_same [of env xo "sort_key fst (cfg_MCPServers (em_cfg m))" w2]
    by (simp_all add: discoverMCPServers_def)
  show ?thesis
  proof (cases r1)
    case p: (Inr ps)
    show ?thesis
    proof (cases r2)
      case s: (Inr ss)
      obtain r4 w4 where 4: "applyStoredStates m ps ss w3 = (r4, w4)" by fastforce
      have "but_logins w4 = but_logins w" using states_same [OF assms(1) 4] st by (intro but_logins_faults) simp
      then show ?thesis using assms(2) 1 2 3 4 p s by (cases r4) (auto simp: Discover_def Let_def)
    qed (use assms(2) 1 2 p st in \<open>auto simp: Discover_def Let_def but_logins_def\<close>)
  qed (use assms(2) 1 st in \<open>auto simp: Discover_def Let_def but_logins_def\<close>)
qed

lemma wired_app: "wired (app_extensions c)"
  by (simp add: wired_def app_extensions_def NewExtManager_def)

lemma new_application_same: "but_logins (snd (NewApplication co c w)) = but_logins w"
proof -
  obtain secret w1 where s: "load_secret co (JWTSecretPath c) w = (secret, w1)" by fastforce
  then have st: "w_store w1 = w_store w" using load_secret_same [of co "JWTSecretPath c" w] by simp
  obtain r m w2 where d: "Discover (co_env co) (co_ext co) (app_extensions c, w1\<lparr>w_cache := new_prompt_cache c\<rparr>) = (r, m, w2)"
    by (metis prod.exhaust)
  have "but_logins w2 = but_logins w" using discover_same [OF wired_app d] st by (simp add: but_logins_def)
  moreover have "but_logins w1 = but_logins w" using st by (rule but_logins_store)
  ultimately show ?thesis
    using s d by (simp add: NewApplication_def split_beta split: option.split sum.split)
qed

lemma stmt_outside: "(\<And>d. outside_logins (snd (f d)) = outside_logins d) \<Longrightarrow> outside_logins (snd (stmt f d)) = outside_logins d"
  by (rule stmt_obs) (simp_all add: outside_logins_def)

lemma login_statements:
  "outside_logins (snd (GetUser u d)) = outside_logins d" "outside_logins (snd (UpdateLoginFailure u n l d)) = outside_logins d"
  "outside_logins (snd (ResetLoginFailures u d)) = outside_logins d" "outside_logins (snd (WriteAudit now u ac t d)) = outside_logins d"
  unfolding GetUser_def UpdateLoginFailure_def ResetLoginFailures_def WriteAudit_def exec_def query_def
  by (rule stmt_outside; simp add: Let_def outside_logins_def update_user_def split: option.split)+

lemma login_same: "outside_logins (snd (Login check sign s now u p d)) = outside_logins d"
proof -
  obtain r d1 where g: "GetUser u d = (r, d1)" by fastforce
  obtain q d2 where q: "ResetLoginFailures u d1 = (q, d2)" by fastforce
  note ls = login_statements(1) [of u d, unfolded g snd_conv] login_statements(3) [of u d1, unfolded q snd_conv]
  show ?thesis
    using ls by (cases r; cases q) (simp_all add: Login_def g q login_failed_def Let_def login_statements lift_db_def split: sum.split)
qed

section \<open>Authentication of a command\<close>

text \<open>The credentials in the flags hold for a user: a token the service accepts, or a name and a password that
  log in.\<close>

definition credentials_hold :: "CliOut \<Rightarrow> flag_set \<Rightarrow> Cli \<Rightarrow> string \<Rightarrow> bool" where
  "credentials_hold co f c u =
     (if trimmed_flag f ''token'' \<noteq> []
      then (case ParseToken (co_parse co) (ap_Auth c) (trimmed_flag f ''token'') of Inl _ \<Rightarrow> False | Inr cl \<Rightarrow> cl_Username cl = u)
      else u \<noteq> [] \<and> u = trimmed_flag f ''username'' \<and> str_flag f ''password'' \<noteq> []
        \<and> is_ok (Login (co_check co) (co_sign co) (ap_Auth c) (w_now (pc_world c)) u (str_flag f ''password'') (w_store (pc_world c))))"

text \<open>Nothing was printed and nothing stored but what a login stores.\<close>

definition unserved :: "'y Proc_scheme \<Rightarrow> 'z Proc_scheme \<Rightarrow> bool" where
  "unserved p p' \<longleftrightarrow> pc_out p' = pc_out p \<and> but_logins (pc_world p') = but_logins (pc_world p)"

lemma unserved_trans: "unserved p p1 \<Longrightarrow> unserved p1 p2 \<Longrightarrow> unserved p p2"
  by (simp add: unserved_def)

lemma unserved_on_w: "on_w f p = (r, p') \<Longrightarrow> (\<And>w. but_logins (snd (f w)) = but_logins w) \<Longrightarrow> unserved p p'"
  by (auto simp: on_w_def unserved_def split: prod.splits) (metis snd_conv)

lemma unserved_app:
  "mustApp co path p = Inl (e, p') \<Longrightarrow> unserved p p'" "mustApp co path p = Inr (cfg, c) \<Longrightarrow> unserved p c"
proof -
  obtain r p1 where l: "on_w (LoadConfig co path) p = (r, p1)" by fastforce
  then have 1: "unserved p p1" by (rule unserved_on_w) (rule load_config_same)
  obtain q p2 where n: "on_w (NewApplication co (projr r)) p1 = (q, p2)" by fastforce
  then have 2: "unserved p1 p2" by (rule unserved_on_w) (rule new_application_same)
  have "unserved p1 (Proc.extend p2 x)" for x :: "\<lparr>ap_App :: App, ap_Auth :: Service, ap_Ext :: ExtManager\<rparr>"
    using 2 by (simp add: unserved_def Proc.defs)
  with 1 2 l n show "mustApp co path p = Inl (e, p') \<Longrightarrow> unserved p p'" "mustApp co path p = Inr (cfg, c) \<Longrightarrow> unserved p c"
    using unserved_trans by (auto simp: mustApp_def must_def split: sum.splits prod.splits)
qed

lemma on_auth_ok:
  "on_auth env f w = (r, w') \<Longrightarrow> w_store w' = snd (f (w_store w)) \<and> (case r of Inl _ \<Rightarrow> \<not> is_ok (f (w_store w)) | Inr _ \<Rightarrow> is_ok (f (w_store w)))"
  by (auto simp: on_auth_def is_ok_def split: prod.splits sum.splits)

lemma authenticate_spec:
  assumes "mustAuthUser co f c = (r, c1)"
  shows "unserved c c1 \<and> (case r of Inl _ \<Rightarrow> True | Inr u \<Rightarrow> credentials_hold co f c u)"
proof (cases "trimmed_flag f ''token'' \<noteq> [] \<or> trimmed_flag f ''username'' = [] \<or> str_flag f ''password'' = []")
  case True
  then show ?thesis
    using assms
    by (auto simp: mustAuthUser_def authenticateChatUser_def must_def credentials_hold_def unserved_def split: sum.splits if_splits)
next
  case False
  define login where "login = Login (co_check co) (co_sign co) (ap_Auth c) (w_now (pc_world c)) (trimmed_flag f ''username'') (str_flag f ''password'')"
  obtain q w where l: "on_auth (co_env co) login (pc_world c) = (q, w)" by fastforce
  note a = on_auth_ok [OF l]
  have "but_logins w = but_logins (pc_world c)" using a login_same by (simp add: but_logins_def login_def)
  then show ?thesis
    using False assms a l
    by (cases q) (auto simp: mustAuthUser_def authenticateChatUser_def must_def credentials_hold_def unserved_def on_w_def login_def)
qed

lemma user_command_cases:
  "unserved p (snd (user_command defs body co args p))
   \<or> (\<exists>f rest cfg c u c1. parse_flags (config_flag @ user_flags @ defs) args = Inr (f, rest)
        \<and> mustApp co (str_flag f ''config'') p = Inr (cfg, c) \<and> credentials_hold co f c u \<and> unserved p c1
        \<and> user_command defs body co args p = map_prod id Proc.truncate (finished (body co f u c1)))"
proof (cases "parse_flags (config_flag @ user_flags @ defs) args")
  case (Inl e)
  then show ?thesis by (cases e) (simp_all add: user_command_def app_command_def with_flags_def unserved_def)
next
  case (Inr fr)
  obtain f rest where fr: "fr = (f, rest)" by fastforce
  show ?thesis
  proof (cases "mustApp co (str_flag f ''config'') p")
    case app: (Inl ep)
    obtain e p' where "ep = (e, p')" by fastforce
    then show ?thesis
      using Inr fr app unserved_app(1) [of co "str_flag f ''config''" p e p']
      by (simp add: user_command_def app_command_def with_flags_def)
  next
    case app: (Inr cc)
    obtain cfg c where cc: "cc = (cfg, c)" by fastforce
    have 1: "unserved p c" using app cc by (intro unserved_app(2)) simp
    obtain r c1 where r: "mustAuthUser co f c = (r, c1)" by fastforce
    note au = authenticate_spec [OF r]
    have 2: "unserved p c1" using 1 au by (blast intro: unserved_trans)
    have run: "user_command defs body co args p = map_prod id Proc.truncate (finished (bind_res (r, c1) (body co f)))"
      using Inr fr app cc r by (simp add: user_command_def app_command_def with_flags_def)
    show ?thesis
    proof (cases r)
      case (Inl e)
      then have "unserved p (snd (user_command defs body co args p))"
        using run 2 by (simp add: finished_def unserved_def Proc.defs)
      then show ?thesis ..
    next
      case u: (Inr u)
      have "parse_flags (config_flag @ user_flags @ defs) args = Inr (f, rest) \<and> mustApp co (str_flag f ''config'') p = Inr (cfg, c)
         \<and> credentials_hold co f c u \<and> unserved p c1
         \<and> user_command defs body co args p = map_prod id Proc.truncate (finished (body co f u c1))"
        using u au run 2 Inr fr app cc by simp
      then show ?thesis by blast
    qed
  qed
qed

lemmas user_runs =
  runPromptInspect_def runPromptCacheStats_def runPromptCacheClear_def runBatchRun_def runCronAdd_def runCronList_def
  runCronShow_def runCronDelete_def runCronTick_def runTrajectories_def runTrajectorySummary_def runTrajectoryShow_def
  runSessions_def runHistory_def runSearch_def runAudit_def runExecutionAudit_def runExecutionProfileAudit_def
  runExtensions_def runExtensionHooks_def runRefreshExtensions_def runExtensionState_def runExtensionValidate_def
  runTools_def runExecuteTool_def runMultiAgentPlan_def runMultiAgentRun_def runMultiAgentTraces_def
  runMultiAgentTraceSummary_def runMultiAgentVerifierSummary_def runMultiAgentTraceFailures_def
  runMultiAgentTraceHotspots_def runMultiAgentReplay_def runMultiAgentResume_def trace_command_def

definition for_users :: "command \<Rightarrow> bool" where
  "for_users cmd \<longleftrightarrow> (\<exists>defs body. cmd = user_command defs body)"

lemma user_commands_for_users: "list_all (\<lambda>(name, cmd). for_users cmd) user_commands"
proof -
  have "for_users (user_command defs body)" for defs body by (auto simp: for_users_def)
  then show ?thesis by (simp add: user_commands_def user_runs)
qed

text \<open>C33. Every command that takes a user's credentials checks them first: unless its flags parse, the
  application starts, and the flags hold a token the service accepts or a name and a password that log in,
  the command prints nothing and stores nothing but what a login does; otherwise all it does is its body, run for
  exactly the user the credentials name.\<close>

theorem commands_need_users:
  assumes "name \<in> fst ` set user_commands"
  shows "\<exists>defs body. map_of user_commands name = Some (user_command defs body)
    \<and> (\<forall>co args p. unserved p (snd (hermesctl co (name # args) p))
         \<or> (\<exists>f rest cfg c u c1. parse_flags (config_flag @ user_flags @ defs) args = Inr (f, rest)
              \<and> mustApp co (str_flag f ''config'') p = Inr (cfg, c) \<and> credentials_hold co f c u \<and> unserved p c1
              \<and> hermesctl co (name # args) p = map_prod id Proc.truncate (finished (body co f u c1))))"
proof -
  obtain cmd where cmd: "map_of user_commands name = Some cmd"
    using assms by (meson map_of_eq_None_iff option.exhaust)
  then have "for_users cmd" using map_of_SomeD [OF cmd] user_commands_for_users by (auto simp: list_all_iff)
  then obtain defs body where d: "cmd = user_command defs body" by (auto simp: for_users_def)
  have "name \<noteq> ''version''" using assms by (auto simp: user_commands_def)
  then have "hermesctl co (name # args) p = user_command defs body co args p" for co args p
    using cmd d by (simp add: hermesctl_def map_add_Some_iff)
  then show ?thesis using cmd d user_command_cases [of _ defs body] by (intro exI [of _ defs] exI [of _ body]) simp
qed

theorem commands_need_users_witness:
  "\<exists>defs body. map_of user_commands ''cron-delete'' = Some (user_command defs body)
    \<and> (\<forall>co args p. unserved p (snd (hermesctl co (''cron-delete'' # args) p))
         \<or> (\<exists>f rest cfg c u c1. parse_flags (config_flag @ user_flags @ defs) args = Inr (f, rest)
              \<and> mustApp co (str_flag f ''config'') p = Inr (cfg, c) \<and> credentials_hold co f c u \<and> unserved p c1
              \<and> hermesctl co (''cron-delete'' # args) p = map_prod id Proc.truncate (finished (body co f u c1))))"
  by (rule commands_need_users) (simp add: user_commands_def)

section \<open>Undo after a chat\<close>

lemma console_chat_cases:
  assumes "length (con_turns (console_chat co line c)) = Suc (length (con_turns c))"
  obtains r :: ChatResult where "con_turns (console_chat co line c) = con_turns c @
      [\<lparr>turn_SessionID = chat_SessionID r, turn_Prompt = chat_Prompt r, turn_Response = chat_Response r, turn_Model = chat_Model r,
        turn_Managed = (0 < con_active c \<longrightarrow> con_managed c)\<rparr>]"
    "con_turnCount (console_chat co line c) = con_turnCount c + 1"
    "\<And>x. transcript x (pc_world (console_chat co line c)) = transcript x (pc_world c)
       @ (if x = chat_SessionID r then [(''user'', line), (''assistant'', chat_Response r)] else [])"
proof -
  define m where "m = (if 0 < con_active c
            then on_w (ChatInSessionDetailed (co_env co) (ap_App c) (con_user c) (con_active c) line) c
            else on_w (ChatTurn (co_env co) (ap_App c) (con_user c) line) c)"
  obtain x c1 where mc: "m = (x, c1)" by fastforce
  have f: "con_turns c1 = con_turns c" "con_turnCount c1 = con_turnCount c" "con_active c1 = con_active c" "con_managed c1 = con_managed c"
    using mc on_w_fields [of _ c x c1] by (auto simp: m_def split: if_splits)
  have chat: "console_chat co line c = (case m of (Inl e, c) \<Rightarrow> say (''error: '' @ e) c
      | (Inr r, c) \<Rightarrow>
          (let c = recordChatTurn r (0 < con_active c \<longrightarrow> con_managed c) c;
               c = (if con_active c = 0 \<and> 0 < chat_SessionID r then c\<lparr>con_active := chat_SessionID r, con_managed := True\<rparr> else c)
           in say (chat_Response r) c))"
    by (simp add: console_chat_def m_def)
  show thesis
  proof (cases x)
    case (Inl e)
    then show ?thesis using assms chat mc f by (simp add: say_def println_def words_def)
  next
    case (Inr r)
    have "chatDetailed (co_env co) (ap_App c) (con_user c) (if 0 < con_active c then con_active c else 0) line (0 < con_active c) (pc_world c)
        = (Inr r, pc_world c1)"
      using mc Inr by (auto simp: m_def on_w_def ChatTurn_def ChatInSessionDetailed_def split: if_splits prod.splits)
    from chat_turn_effect [OF this]
    have "transcript x (pc_world c1) = transcript x (pc_world c)
        @ (if x = chat_SessionID r then [(''user'', line), (''assistant'', chat_Response r)] else [])" for x
      by simp
    then show ?thesis
      using that [of r] chat mc f Inr by (simp add: say_def println_def words_def recordChatTurn_def Let_def)
  qed
qed

text \<open>A turn that ends a transcript is deleted, unless the engine refuses a statement.\<close>

lemma delete_last_turn_answered:
  assumes "store_wf d" "faults d = []" "log_rows sid d = xs @ [(''user'', p), (''assistant'', r)]"
  shows "is_ok (DeleteLastTurn sid d)"
proof -
  obtain ms m1 m0 where ms: "session_messages sid d = ms @ [m1, m0]" and roles: "msg_role m1 = ''user''" "msg_role m0 = ''assistant''"
    using assms(3) by (auto simp: log_rows_def map_eq_append_conv append_eq_Cons_conv Cons_eq_map_conv)
  have "order_desc msg_id (session_messages sid d) = m0 # m1 # rev ms"
    using order_desc_sorted [OF session_messages_sorted [OF assms(1), of sid]] ms by simp
  then show ?thesis
    using assms(2) roles
    by (simp add: DeleteLastTurn_def in_tx_def exec_no_fault query_no_fault delete_turn_def refresh_snapshot_def is_ok_def bind_res_def
        delete_messages_def update_session_def)
qed

lemma undo_same_world:
  "\<exists>w. pc_world (undo_anchor t c) = w \<and> (\<forall>x. transcript x w = transcript x (pc_world c))"
  "con_turns (undo_anchor t c) = con_turns c" "con_turnCount (undo_anchor t c) = con_turnCount c"
proof -
  have r: "(\<forall>x. transcript x (pc_world (reread_session i c)) = transcript x (pc_world c))
    \<and> con_turns (reread_session i c) = con_turns c \<and> con_turnCount (reread_session i c) = con_turnCount c" for i and c :: Console
  proof -
    obtain q c1 where q: "on_w (on_store (GetSession i)) c = (q, c1)" by fastforce
    have "world_frame (pc_world c) (pc_world c1)"
      using q dep_frames(4) [where w = "pc_world c" and sid = i] by (auto simp: on_w_def split: prod.splits)
    then show ?thesis using q on_w_fields [OF q] transcript_frame by (cases q) (auto simp: reread_session_def)
  qed
  show "\<exists>w. pc_world (undo_anchor t c) = w \<and> (\<forall>x. transcript x w = transcript x (pc_world c))"
    "con_turns (undo_anchor t c) = con_turns c" "con_turnCount (undo_anchor t c) = con_turnCount c"
    using r by (simp_all add: undo_anchor_def Let_def)
qed

text \<open>C34. \<^verbatim>\<open>/undo\<close> takes back the chat before it: after a line that was answered in a session of this console
  (a new one, or one it made), and while the database answers, the undo gives every transcript and the list
  and number of the console's turns back as they were before the line.\<close>

theorem undo_takes_back_chat:
  assumes "0 < con_active c \<longrightarrow> con_managed c" "con_turnCount c = int (length (con_turns c))"
    "length (con_turns (console_chat co line c)) = Suc (length (con_turns c))"
    "store_wf (w_store (pc_world (console_chat co line c)))" "faults (w_store (pc_world (console_chat co line c))) = []"
  shows "con_turns (console_undo co rest (console_chat co line c)) = con_turns c
    \<and> con_turnCount (console_undo co rest (console_chat co line c)) = con_turnCount c
    \<and> transcript x (pc_world (console_undo co rest (console_chat co line c))) = transcript x (pc_world c)"
proof -
  define c1 where "c1 = console_chat co line c"
  have m: "(0 < con_active c \<longrightarrow> con_managed c) = True" using assms(1) by simp
  obtain r :: ChatResult where turns: "con_turns c1 = con_turns c @
      [\<lparr>turn_SessionID = chat_SessionID r, turn_Prompt = chat_Prompt r, turn_Response = chat_Response r, turn_Model = chat_Model r,
        turn_Managed = True\<rparr>]"
    and count: "con_turnCount c1 = con_turnCount c + 1"
    and tr: "\<And>x. transcript x (pc_world c1) = transcript x (pc_world c)
       @ (if x = chat_SessionID r then [(''user'', line), (''assistant'', chat_Response r)] else [])"
    by (rule console_chat_cases [OF assms(3), folded c1_def, unfolded m], rule that)
  let ?d = "w_store (pc_world c1)" and ?sid = "chat_SessionID r"
  have log: "log_rows ?sid ?d = log_rows ?sid (w_store (pc_world c)) @ [(''user'', line), (''assistant'', chat_Response r)]"
    using tr [of ?sid] by (simp add: transcript_def)
  obtain u d' where del: "DeleteLastTurn ?sid ?d = (Inr u, d')"
    using delete_last_turn_answered [OF _ _ log] assms(4,5) unfolding c1_def [symmetric] by (blast elim: is_okE)
  have "turn_undone ?sid ?d d'"
    using delete_last_turn_cases [of ?d ?sid] assms(4) del unfolding c1_def [symmetric] by simp
  then have restored: "log_rows x d' = log_rows x (w_store (pc_world c))" for x
    using log tr [of x] by (cases "x = ?sid") (auto simp: turn_undone_def transcript_def)
  define c2 where "c2 = c1\<lparr>pc_world := (pc_world c1)\<lparr>w_store := d'\<rparr>\<rparr>"
  have "on_w (on_store (DeleteLastTurn ?sid)) c1 = (Inr u, c2)"
    using del by (simp add: on_w_def on_store_def c2_def)
  then have undo: "\<exists>v. console_undo co rest c1 = console_json v (undo_anchor (last (con_turns c1)) (drop_turn c2))"
    using turns by (auto simp: console_undo_def Let_def)
  show ?thesis
    using undo undo_same_world [of "last (con_turns c1)" "drop_turn c2"] turns count restored [of x] assms(2)
    unfolding c1_def [symmetric]
    by (auto simp: console_json_def show_value_def drop_turn_def c2_def transcript_def)
qed

definition demo_cli :: CliOut where
  "demo_cli =
     \<lparr>co_env = demo_env ''fine'', co_ext = demo_out, co_models = \<lparr>md_parse = (\<lambda>_. None), md_at = (\<lambda>s _. s), md_get = (\<lambda>_ _. Inl ''down'')\<rparr>,
      co_cron = demo_cron_text, co_check = (\<lambda>_ _. False),
      co_sign = (\<lambda>_ _. Inl ''none''), co_parse = (\<lambda>_ t. if t = ''bad'' then Inl ''bad'' else Inr (Some (demo_claims t), True)),
      co_hash = Inl, co_schedule = (\<lambda>_. []), co_open = (\<lambda>_. None), co_random = Inr ''s'', co_yaml = (\<lambda>_ c. Inr c),
      co_print = (\<lambda>_. Inr []), co_stdin = Terminal\<rparr>"

definition demo_console :: Console where
  "demo_console =
     \<lparr>pc_world = demo_world, pc_urls = [], pc_in = [], pc_out = [], ap_App = demo_app, ap_Auth = \<lparr>svc_cfg = Default, svc_secret = ''s''\<rparr>,
      ap_Ext = app_extensions Default, con_configPath = [], con_cfg = Default, con_user = ''ann'', con_turnCount = 0, con_turns = [],
      con_lastChat = no_chat, con_active = 1, con_managed = True\<rparr>"

lemma demo_chat_store:
  "faults (w_store (snd (chatDetailed (demo_env ''fine'') demo_app ''ann'' 1 ''how are you'' True demo_world))) = []"
  "store_wf (w_store (snd (chatDetailed (demo_env ''fine'') demo_app ''ann'' 1 ''how are you'' True demo_world)))"
  by code_simp+

lemma demo_console_chat:
  "length (con_turns (console_chat demo_cli ''how are you'' demo_console)) = 1"
  "faults (w_store (pc_world (console_chat demo_cli ''how are you'' demo_console))) = []"
  "store_wf (w_store (pc_world (console_chat demo_cli ''how are you'' demo_console)))"
proof -
  obtain r w' where r: "chatDetailed (demo_env ''fine'') demo_app ''ann'' 1 ''how are you'' True demo_world = (Inr r, w')"
    using demo_chat by (rule is_okE)
  define c1 where "c1 = demo_console\<lparr>pc_world := w'\<rparr>"
  have "on_w (ChatInSessionDetailed (co_env demo_cli) (ap_App demo_console) (con_user demo_console) (con_active demo_console) ''how are you'') demo_console
      = (Inr r, c1)"
    using r by (simp add: on_w_def ChatInSessionDetailed_def demo_cli_def demo_console_def c1_def)
  moreover have "con_active demo_console = 1" by (simp add: demo_console_def)
  moreover have "con_turns c1 = []" "pc_world c1 = w'" "con_active c1 = 1" by (simp_all add: c1_def demo_console_def)
  ultimately have "length (con_turns (console_chat demo_cli ''how are you'' demo_console)) = 1 \<and> pc_world (console_chat demo_cli ''how are you'' demo_console) = w'"
    by (simp add: console_chat_def Let_def say_def println_def words_def recordChatTurn_def)
  then show "length (con_turns (console_chat demo_cli ''how are you'' demo_console)) = 1"
    "faults (w_store (pc_world (console_chat demo_cli ''how are you'' demo_console))) = []"
    "store_wf (w_store (pc_world (console_chat demo_cli ''how are you'' demo_console)))"
    using demo_chat_store r by simp_all
qed

theorem undo_takes_back_chat_witness:
  "con_turns (console_undo demo_cli [] (console_chat demo_cli ''how are you'' demo_console)) = []
    \<and> con_turnCount (console_undo demo_cli [] (console_chat demo_cli ''how are you'' demo_console)) = 0
    \<and> transcript 1 (pc_world (console_undo demo_cli [] (console_chat demo_cli ''how are you'' demo_console))) = transcript 1 demo_world"
proof -
  have "con_turns demo_console = []" "con_turnCount demo_console = 0" "pc_world demo_console = demo_world" "con_managed demo_console"
    by (simp_all add: demo_console_def)
  then show ?thesis
    using undo_takes_back_chat [of demo_console demo_cli "''how are you''" "[]" 1] demo_console_chat by simp
qed

section \<open>Corners of the console\<close>

text \<open>The input \<^verbatim>\<open>null\<close> leaves a nil map, and naming the user in it ends the process with a panic.\<close>

lemma null_input_panics:
  assumes "env_unmarshal (co_env co) ''null'' = Inr JNull"
  shows "handleLine co ''/tool-exec memory.read -- null'' c = (Inl Panics, c)"
proof -
  have "splitCommandAndRest (trim_prefix ''/'' ''/tool-exec memory.read -- null'') = (''tool-exec'', ''memory.read -- null'')"
    "splitAroundDoubleDash ''memory.read -- null'' = Some (''memory.read'', ''null'')"
    "has_prefix ''/'' ''/tool-exec memory.read -- null''" "trim_space ''memory.read'' = ''memory.read''"
    by code_simp+
  then show ?thesis
    using assms by (simp add: handleLine_def console_tool_exec_def parseToolExecInput_def unmarshal_into_def bind_res_def)
qed

text \<open>A prompt after dashes without a task before them keeps the dashes.\<close>

lemma dashes_reach_the_model:
  "console_auxiliary_chat co ''-- hi'' c =
     answer ''auxiliary chat failed'' (\<lambda>(response, info). CvAuxChat (Some ''general'') info response)
       (on_w (AuxiliaryChat (co_env co) (ap_App c) ''general'' ''-- hi'') c)"
proof -
  have "splitAroundDoubleDash ''-- hi'' = None" "trim_space ''-- hi'' = ''-- hi''" by code_simp+
  then show ?thesis by (simp add: console_auxiliary_chat_def)
qed

end
