(* ===== verification/ClientProps.thy ===== *)
theory ClientProps
  imports DaemonProps ConsoleLoop
begin

text \<open>
  The command line client as a client of the store, and the whole system: every command of
  \<^verbatim>\<open>hermesctl\<close>, the console included, changes the database by calls of the store's methods alone, so
  any sequence of daemons and clients on one database keeps its invariant.
\<close>

section \<open>State-valued steps\<close>

context preorder_steps
begin

lemma goes_run: "follows R s m \<Longrightarrow> (\<And>x v. R v (k x v)) \<Longrightarrow> R s (case m of (x, v) \<Rightarrow> k x v)"
  by (cases m) (auto simp: follows_def intro: step_trans)

lemma goes_if: "(b \<Longrightarrow> R s x) \<Longrightarrow> (\<not> b \<Longrightarrow> R s y) \<Longrightarrow> R s (if b then x else y)"
  by simp

lemma goes_sum: "(\<And>e. r = Inl e \<Longrightarrow> R s (f e)) \<Longrightarrow> (\<And>v. r = Inr v \<Longrightarrow> R s (g v)) \<Longrightarrow> R s (case r of Inl e \<Rightarrow> f e | Inr v \<Rightarrow> g v)"
  by (cases r) simp_all

lemma goes_option: "(r = None \<Longrightarrow> R s x) \<Longrightarrow> (\<And>v. r = Some v \<Longrightarrow> R s (g v)) \<Longrightarrow> R s (case r of None \<Rightarrow> x | Some v \<Rightarrow> g v)"
  by (cases r) simp_all

lemma goes_list: "(xs = [] \<Longrightarrow> R s x) \<Longrightarrow> (\<And>y ys. xs = y # ys \<Longrightarrow> R s (g y ys)) \<Longrightarrow> R s (case xs of [] \<Rightarrow> x | y # ys \<Rightarrow> g y ys)"
  by (cases xs) simp_all

lemma goes_prod: "(\<And>a b. p = (a, b) \<Longrightarrow> R s (k a b)) \<Longrightarrow> R s (case p of (a, b) \<Rightarrow> k a b)"
  by (cases p) simp

lemma goes_curried: "(\<And>a b. p = (a, b) \<Longrightarrow> R s (k a b v)) \<Longrightarrow> R s ((case p of (a, b) \<Rightarrow> k a b) v)"
  by (cases p) simp

lemma goes_let: "R s t \<Longrightarrow> (\<And>v. R v (k v)) \<Longrightarrow> R s (let v = t in k v)"
  by (auto intro: step_trans)

lemma goes_let_value: "(\<And>x. x = e \<Longrightarrow> R s (k x)) \<Longrightarrow> R s (let x = e in k x)"
  by simp

lemma goes_pair: "R s t \<Longrightarrow> follows R s (x, t)"
  by (simp add: follows_def)

lemmas goes_state = goes_run goes_if goes_sum goes_option goes_list goes_let
lemmas goes_value = goes_prod goes_curried goes_let_value

end

section \<open>Processes of the client\<close>

text \<open>Beside the served methods the client takes back turns and, to make an administrator (\<open>ai\<close>), accounts.\<close>

inductive client_step :: "bool \<Rightarrow> Store \<Rightarrow> Store \<Rightarrow> bool" where
  cs_served: "served_step d e \<Longrightarrow> client_step ai d e"
| cs_undo: "client_step ai d (snd (DeleteLastTurn sid d))"
| cs_user: "ai \<Longrightarrow> client_step ai d (snd (CreateUser now u h r d))"

definition managed :: "bool \<Rightarrow> World \<Rightarrow> World \<Rightarrow> bool" where
  "managed ai w w' \<longleftrightarrow> (client_step ai)\<^sup>*\<^sup>* (w_store w) (w_store w')"

interpretation man: preorder_steps "managed ai" for ai
  by unfold_locales (auto simp: managed_def intro: rtranclp_trans)

abbreviation manages :: "bool \<Rightarrow> World \<Rightarrow> 'a \<times> World \<Rightarrow> bool" where
  "manages ai \<equiv> follows (managed ai)"

lemma served_managed: "serves w m \<Longrightarrow> manages ai w m"
proof -
  have "served_step\<^sup>*\<^sup>* d e \<Longrightarrow> (client_step ai)\<^sup>*\<^sup>* d e" for d e
    by (induction rule: rtranclp_induct) (auto intro: cs_served rtranclp.rtrancl_into_rtrancl)
  then show "serves w m \<Longrightarrow> manages ai w m" by (simp add: follows_def served_def managed_def)
qed

definition cli_ready :: "'z Cli_scheme \<Rightarrow> bool" where
  "cli_ready c \<longleftrightarrow> wired (ap_Ext c) \<and> sound_tools (ap_App c)"

definition cli_managed :: "bool \<Rightarrow> 'z Cli_scheme \<Rightarrow> 'z Cli_scheme \<Rightarrow> bool" where
  "cli_managed ai c c' \<longleftrightarrow> (cli_ready c \<longrightarrow> cli_ready c' \<and> managed ai (pc_world c) (pc_world c'))"

interpretation cli: preorder_steps "cli_managed ai" for ai
  by unfold_locales (auto simp: cli_managed_def intro: man.step_refl man.step_trans)

abbreviation cli_manages :: "bool \<Rightarrow> 'z Cli_scheme \<Rightarrow> 'a \<times> 'z Cli_scheme \<Rightarrow> bool" where
  "cli_manages ai \<equiv> follows (cli_managed ai)"

lemmas c_steps = cli.state_steps
lemmas cv_steps = cli.value_steps cli.curried_steps

lemma cli_readyD: "cli_ready c \<Longrightarrow> wired (ap_Ext c)" "cli_ready c \<Longrightarrow> sound_tools (ap_App c)"
  by (simp_all add: cli_ready_def)

lemma world_cli: "(cli_ready c \<Longrightarrow> serves (pc_world c) (f (pc_world c))) \<Longrightarrow> cli_manages ai c (on_w f c)"
  using served_managed [of "pc_world c" "f (pc_world c)"]
  by (auto simp: on_w_def follows_def cli_managed_def cli_ready_def split_beta)

lemma wide_cli: "manages ai (pc_world c) (f (pc_world c)) \<Longrightarrow> cli_manages ai c (on_w f c)"
  by (auto simp: on_w_def follows_def cli_managed_def cli_ready_def split_beta)

lemma store_cli: "(\<And>d. served_step\<^sup>*\<^sup>* d (snd (f d))) \<Longrightarrow> cli_manages ai c (on_w (on_store f) c)"
  by (rule world_cli) (rule store_serves)

lemma frame_cli:
  "pc_world c' = pc_world c \<Longrightarrow> ap_App c' = ap_App c \<Longrightarrow> ap_Ext c' = ap_Ext c \<Longrightarrow> cli_managed ai c c'"
  by (simp add: cli_managed_def cli_ready_def man.step_refl)

lemma must_cli: "cli_manages ai c m \<Longrightarrow> cli_manages ai c (must label m)"
  unfolding must_def by (erule cli.run_steps) (rule c_steps)+

lemma require_cli: "cli_manages ai c (require b e c)"
  unfolding require_def by (rule c_steps)

lemma words_cli: "cli_managed ai c t \<Longrightarrow> cli_managed ai c (words s t)" "cli_managed ai c t \<Longrightarrow> cli_managed ai c (println s t)"
  "cli_managed ai c t \<Longrightarrow> cli_managed ai c (show_value s v t)"
  unfolding println_def words_def show_value_def by (erule cli.step_trans, rule frame_cli; simp)+

lemma json_cli: "cli_manages ai c (mustWriteJSON v c)" "cli_manages ai c (printed ls c)"
proof -
  have "cli_managed ai c (fold println ls t)" if "cli_managed ai c t" for t
    using that by (induction ls arbitrary: t) (auto intro: words_cli)
  then show "cli_manages ai c (mustWriteJSON v c)" "cli_manages ai c (printed ls c)"
    by (auto simp: mustWriteJSON_def printed_def intro!: cli.goes_pair words_cli cli.step_refl)
qed

lemma login_cli: "cli_manages ai c (authenticateChatUser co u p t c)"
  unfolding authenticateChatUser_def
  by (((rule world_cli auth_serves c_steps) | (rule cv_steps))+)

lemma extensions_cli:
  assumes "\<And>m w res m' w'. wired m \<Longrightarrow> f (m, w) = (res, m', w') \<Longrightarrow> wired m' \<and> served w w'"
  shows "cli_manages ai c (on_extensions f c)"
proof -
  obtain res m w where r: "f (ap_Ext c, pc_world c) = (res, m, w)" by (metis prod.collapse)
  have "served v w \<Longrightarrow> managed ai v w" for v using served_managed [of v "((), w)"] by (simp add: follows_def)
  then show ?thesis
    using assms [OF _ r] r by (auto simp: on_extensions_def follows_def cli_managed_def cli_ready_def)
qed

lemma change_cli: "cli_manages ai c (on_extensions (Discover env xo) c)"
  "cli_manages ai c (on_extensions (SetEnabled env xo u kind name enabled) c)"
  by (rule extensions_cli, blast dest: discovery_sound change_sound)+

lemma register_cli: "cli_manages ai c (register_extensions co c)"
proof -
  obtain res m reg where r: "RegisterExtensions (co_env co) (co_ext co) (ap_Ext c, app_Tools (ap_App c)) = (res, m, reg)"
    by (metis prod.collapse)
  show ?thesis
    using registration_sound [OF _ _ r] r man.step_refl
    by (auto simp: register_extensions_def follows_def cli_managed_def cli_ready_def)
qed

section \<open>Operations only the client uses\<close>

lemma made_managed: "(\<And>d. (client_step ai)\<^sup>*\<^sup>* d (snd (f d))) \<Longrightarrow> manages ai w (on_store f w)"
  by (simp add: follows_def on_store_snd managed_def)

lemma undo_managed: "manages ai w (on_store (DeleteLastTurn sid) w)"
  by (rule made_managed) (rule r_into_rtranclp, rule cs_undo)

lemma insights_serve: "serves w (on_store (BuildUserInsights u since) w)"
proof (rule store_serves)
  show "served_step\<^sup>*\<^sup>* d (snd (BuildUserInsights u since d))" for d
    unfolding BuildUserInsights_def
    by (rule run_bind, (rule read_run; simp add: Let_def)) (auto split: prod.split intro!: run_bind query_run page_run)
qed

lemma init_managed: "manages True w (on_auth env (InitAdmin hash svc now u p) w)"
proof -
  have "(client_step True)\<^sup>*\<^sup>* d (snd (InitAdmin hash svc now u p d))" for d
  proof (cases "hash p")
    case (Inr h)
    obtain r e where c: "CreateUser now u h ''admin'' d = (r, e)" by fastforce
    have "client_step True d e" using cs_user [of True d now u h "''admin''"] c by simp
    then have "(client_step True)\<^sup>*\<^sup>* d e" "(client_step True)\<^sup>*\<^sup>* d (snd (WriteAudit now u ac tx e))" for ac tx
      by (auto intro: cs_served sv_audit rtranclp.rtrancl_into_rtrancl)
    then show ?thesis using Inr c
      by (cases r) (simp_all add: InitAdmin_def lift_db_def split_beta split: sum.split)
  qed (simp add: InitAdmin_def)
  then show ?thesis by (simp add: on_auth_def follows_def managed_def split_beta split: sum.split)
qed

lemma files_serve:
  "serves w (loadJSONFile env path w)" "serves w (loadTasksFile env path w)" "serves w (loadPlanFile env path w)"
  "serves w (LoadConfig co path w)" "serves w (SaveConfig co path cfg w)" "serves w (AddJob env ct jm i w)"
  "serves w (ListJobs env ct jm w)" "serves w (GetJob env ct jm j w)" "serves w (DeleteJob env ct jm j w)"
  "serves w (ListFiltered env ct dir u f w)" "serves w (GetRecord env ct dir u j w)" "serves w (Summarize env ct dir u f w)"
  "serves w (LoadJSONL env path w)" "serves w (buildHistoryPayload u l1 l2 l3 l4 w)"
  "serves w (buildExecutionProfileAuditPayload u ts w)" "serves w (AuxiliaryChat env a task prompt w)"
  unfolding loadJSONFile_def loadTasksFile_def loadPlanFile_def LoadConfig_def SaveConfig_def AddJob_def ListJobs_def
    GetJob_def DeleteJob_def ensureDirs_def loadJobs_def saveJobs_def GetRecord_def ListRecords_def Summarize_def
    ListFiltered_def LoadJSONL_def buildHistoryPayload_def buildExecutionProfileAuditPayload_def prefixed_def
    AuxiliaryChat_def
  by (((rule op_serves histories_serve w_steps) | (rule v_steps))+)[16]

lemma batch_serves: "serves w (RunWithOptions env ct b u run items opts w)"
proof -
  have n: "serves v (note_done ct b st r s v)" for st r s v
    unfolding note_done_def SaveCheckpoint_def by (((rule op_serves w_steps) | (rule v_steps))+)
  have t: "serves v (save_trajectory env ct b u run i item sid v)" for i item sid v
    unfolding save_trajectory_def BuildFromSession_def SaveRecord_def GetMessages_def Let_def
    by (((rule op_serves w_steps) | (rule v_steps))+)
  have i: "serves v (run_item env ct b u run i item st v)" for i item st v
    unfolding run_item_def Let_def by (((rule turn_serves n t w_steps) | (rule v_steps))+)
  have l: "serves v (run_items env ct b u run i is st v)" for "is" i st v
  proof (induction "is" arbitrary: i st v)
    case (Cons x xs)
    show ?case unfolding run_items.simps by (((rule i Cons.IH w_steps) | (rule v_steps))+)
  qed (simp add: srv.stay)
  show ?thesis
    unfolding RunWithOptions_def start_batch_def LoadCheckpoint_def Let_def
    by (((rule op_serves l w_steps) | (rule v_steps))+)
qed

section \<open>Commands\<close>

definition proc_managed :: "bool \<Rightarrow> Proc \<Rightarrow> Proc \<Rightarrow> bool" where
  "proc_managed ai p p' \<longleftrightarrow> managed ai (pc_world p) (pc_world p')"

interpretation prc: preorder_steps "proc_managed ai" for ai
  by unfold_locales (auto simp: proc_managed_def intro: man.step_refl man.step_trans)

abbreviation proc_manages :: "bool \<Rightarrow> Proc \<Rightarrow> 'a \<times> Proc \<Rightarrow> bool" where
  "proc_manages ai \<equiv> follows (proc_managed ai)"

lemmas p_steps = prc.state_steps
lemmas pv_steps = prc.value_steps prc.curried_steps

lemma world_proc: "serves (pc_world p) (f (pc_world p)) \<Longrightarrow> proc_manages ai p (on_w f p)"
  using served_managed [of "pc_world p" "f (pc_world p)"]
  by (auto simp: on_w_def follows_def proc_managed_def split_beta)

lemma must_proc: "proc_manages ai p m \<Longrightarrow> proc_manages ai p (must label m)"
  unfolding must_def by (erule prc.run_steps) (rule p_steps)+

lemma frame_proc: "pc_world p' = pc_world p \<Longrightarrow> proc_managed ai p p'"
  by (simp add: proc_managed_def man.step_refl)

lemma println_world [simp]: "pc_world (println s p) = pc_world p" "pc_world (fold println ls p) = pc_world p"
proof -
  show p: "pc_world (println s p) = pc_world p" for s p by (simp add: println_def words_def)
  show "pc_world (fold println ls p) = pc_world p" by (induction ls arbitrary: p) (simp_all add: p)
qed

lemma json_proc: "proc_manages ai p (mustWriteJSON v p)" "proc_manages ai p (printed ls p)" "proc_manages ai p (require b e p)"
  by (simp_all add: mustWriteJSON_def printed_def require_def show_value_def follows_def frame_proc)

lemma finished_proc: "proc_manages ai p m \<Longrightarrow> proc_manages ai p (finished m)"
  unfolding finished_def by (erule prc.run_steps) (rule p_steps)+

lemma flags_proc: "(\<And>f. proc_manages ai p (k f p)) \<Longrightarrow> proc_manages ai p (with_flags defs args k p)"
  unfolding with_flags_def by (auto simp: prc.stay split: sum.split prod.split flag_error.split)

lemma start_managed:
  "case mustApp co path p of Inl (e, p') \<Rightarrow> proc_managed ai p p'
   | Inr (cfg, c) \<Rightarrow> managed ai (pc_world p) (pc_world c) \<and> cli_ready c"
proof -
  obtain r p1 where l: "must ''load config'' (on_w (LoadConfig co path) p) = (r, p1)" by fastforce
  have "proc_manages ai p (must ''load config'' (on_w (LoadConfig co path) p))"
    by (rule must_proc world_proc files_serve)+
  then have p1: "proc_managed ai p p1" using l by (simp add: follows_def)
  show ?thesis
  proof (cases r)
    case (Inr cfg)
    obtain q w where n: "NewApplication co cfg (pc_world p1) = (q, w)" by fastforce
    have w: "proc_managed ai p1 (p1\<lparr>pc_world := w\<rparr>)"
      using served_managed [of "pc_world p1" "(q, w)"] container_sound(1) [OF n] by (simp add: follows_def proc_managed_def)
    show ?thesis
    proof (cases q)
      case (Inl e)
      then show ?thesis using l Inr n prc.step_trans [OF p1 w] by (simp add: mustApp_def on_w_def must_def)
    next
      case (Inr x)
      then show ?thesis using l \<open>r = Inr cfg\<close> n prc.step_trans [OF p1 w] container_sound(2) [OF n, of "fst x" "fst (snd x)" "snd (snd x)"]
        by (cases x) (simp add: mustApp_def on_w_def must_def proc_managed_def cli_ready_def Proc.extend_def Cli.fields_def)
    qed
  qed (use l p1 in \<open>simp add: mustApp_def\<close>)
qed

lemma app_proc:
  assumes "\<And>f cfg c. cli_manages ai c (body co f cfg c)"
  shows "proc_manages ai p (app_command defs body co args p)"
  unfolding app_command_def
proof (rule flags_proc)
  fix f
  show "proc_manages ai p (case mustApp co (str_flag f ''config'') p of
      Inl r \<Rightarrow> r | Inr (cfg, c) \<Rightarrow> map_prod id Proc.truncate (finished (body co f cfg c)))"
  proof (cases "mustApp co (str_flag f ''config'') p")
    case (Inl r)
    then show ?thesis using start_managed [where co = co and path = "str_flag f ''config''" and p = p] by (cases r) (simp add: follows_def)
  next
    case (Inr x)
    obtain cfg c where x: "x = (cfg, c)" by fastforce
    obtain e c' where b: "body co f cfg c = (e, c')" by fastforce
    have "managed ai (pc_world p) (pc_world c)" "cli_ready c"
      using start_managed [where co = co and path = "str_flag f ''config''" and p = p] Inr x by simp_all
    moreover have "cli_managed ai c c'" using assms [of c f cfg] b by (simp add: follows_def)
    ultimately have "managed ai (pc_world p) (pc_world c')" by (auto simp: cli_managed_def intro: man.step_trans)
    then show ?thesis
      by (cases e) (simp_all add: Inr x b finished_def follows_def proc_managed_def Proc.truncate_def)
  qed
qed

lemma user_proc:
  assumes "\<And>f u c. cli_manages ai c (body co f u c)"
  shows "proc_manages ai p (user_command defs body co args p)"
  unfolding user_command_def mustAuthUser_def
  by (rule app_proc) (rule must_cli login_cli assms c_steps)+

lemma times_cli: "cli_manages ai c (mustTimes env f c)" "cli_manages ai c (parseOptionalBoolPointer raw c)"
  unfolding mustTimes_def parseOptionalBoolPointer_def by (rule c_steps)+

lemma report_cli: "cli_manages ai c m \<Longrightarrow> cli_manages ai c (report_or_error m)"
  unfolding report_or_error_def by (erule cli.run_steps) (((rule c_steps) | (rule cv_steps))+)

lemma returned_cli: "cli_manages ai c m \<Longrightarrow> cli_manages ai c (returned m)"
  unfolding returned_def by (erule cli.run_steps) (rule c_steps)+

lemma plan_cli: "cli_manages ai c (run_plan co u plan c)"
  unfolding run_plan_def by (rule returned_cli world_cli run_serves | erule cli_readyD)+

lemma input_cli: "cli_manages ai c m \<Longrightarrow> cli_manages ai c (tool_input u label m)"
  unfolding tool_input_def by (rule cli.bind_steps, erule must_cli) (rule c_steps)+

lemma clear_cli:
  "cli_manages ai c (mustWriteJSON v (c\<lparr>pc_world := snd (audit u ac t (ClearPromptCache (pc_world c)))\<rparr>))"
proof -
  have "served (ClearPromptCache (pc_world c)) (snd (audit u ac t (ClearPromptCache (pc_world c))))"
    using op_serves(3) by (simp add: follows_def)
  then have "serves (pc_world c) ((), snd (audit u ac t (ClearPromptCache (pc_world c))))"
    by (simp add: follows_def served_def ClearPromptCache_def)
  then have "managed ai (pc_world c) (snd (audit u ac t (ClearPromptCache (pc_world c))))"
    using served_managed by (fastforce simp: follows_def)
  then have "cli_managed ai c (c\<lparr>pc_world := snd (audit u ac t (ClearPromptCache (pc_world c)))\<rparr>)"
    by (simp add: cli_managed_def cli_ready_def)
  then show ?thesis unfolding mustWriteJSON_def by (intro cli.goes_pair words_cli)
qed

lemmas cli_ops = must_cli require_cli json_cli login_cli times_cli report_cli plan_cli input_cli clear_cli change_cli
  register_cli store_cli read_runs
lemmas serve_ops = turn_serves build_serves plan_serves replay_serves resume_serves lifecycle_serves tool_serves
  files_serve batch_serves tick_serves auth_serves

lemma user_commands_proc:
  assumes "(name, cmd) \<in> set user_commands"
  shows "proc_manages ai p (cmd co args p)"
proof -
  have a: "proc_manages ai p (runPromptInspect co args p)" "proc_manages ai p (runPromptCacheStats co args p)"
    "proc_manages ai p (runPromptCacheClear co args p)" "proc_manages ai p (runBatchRun co args p)"
    "proc_manages ai p (runCronAdd co args p)" "proc_manages ai p (runCronList co args p)" "proc_manages ai p (runCronShow co args p)"
    "proc_manages ai p (runCronDelete co args p)" "proc_manages ai p (runCronTick co args p)"
    unfolding runPromptInspect_def runPromptCacheStats_def runPromptCacheClear_def runBatchRun_def runCronAdd_def
      runCronList_def runCronShow_def runCronDelete_def runCronTick_def InspectPrompt_def Let_def
    by (((rule user_proc cli_ops c_steps) | (rule world_cli, rule serve_ops) | (rule cv_steps))+)[9]
  have b: "proc_manages ai p (runTrajectories co args p)" "proc_manages ai p (runTrajectorySummary co args p)"
    "proc_manages ai p (runTrajectoryShow co args p)" "proc_manages ai p (runSessions co args p)" "proc_manages ai p (runHistory co args p)"
    "proc_manages ai p (runSearch co args p)" "proc_manages ai p (runAudit co args p)" "proc_manages ai p (runExecutionAudit co args p)"
    "proc_manages ai p (runExecutionProfileAudit co args p)" "proc_manages ai p (runExtensions co args p)"
    "proc_manages ai p (runExtensionHooks co args p)" "proc_manages ai p (runRefreshExtensions co args p)"
    unfolding runTrajectories_def runTrajectorySummary_def runTrajectoryShow_def runSessions_def runHistory_def
      runSearch_def runAudit_def runExecutionAudit_def runExecutionProfileAudit_def runExtensions_def runExtensionHooks_def
      runRefreshExtensions_def print_summary_def
    by (((rule user_proc cli_ops c_steps) | (rule world_cli, rule serve_ops) | (rule cv_steps))+)[12]
  have c: "proc_manages ai p (runExtensionState co args p)" "proc_manages ai p (runExtensionValidate co args p)"
    "proc_manages ai p (runTools co args p)" "proc_manages ai p (runExecuteTool co args p)" "proc_manages ai p (runMultiAgentPlan co args p)"
    "proc_manages ai p (runMultiAgentRun co args p)" "proc_manages ai p (runMultiAgentReplay co args p)"
    "proc_manages ai p (runMultiAgentResume co args p)"
    unfolding runExtensionState_def runExtensionValidate_def runTools_def runExecuteTool_def runMultiAgentPlan_def
      runMultiAgentRun_def runMultiAgentReplay_def runMultiAgentResume_def print_summary_def
    by (((rule user_proc cli_ops c_steps) | (rule world_cli, (rule serve_ops; (erule cli_readyD)?)) | (rule cv_steps))+)[8]
  have d: "proc_manages ai p (runMultiAgentTraces co args p)" "proc_manages ai p (runMultiAgentTraceSummary co args p)"
    "proc_manages ai p (runMultiAgentVerifierSummary co args p)" "proc_manages ai p (runMultiAgentTraceFailures co args p)"
    "proc_manages ai p (runMultiAgentTraceHotspots co args p)"
    unfolding runMultiAgentTraces_def runMultiAgentTraceSummary_def runMultiAgentVerifierSummary_def
      runMultiAgentTraceFailures_def runMultiAgentTraceHotspots_def trace_command_def
    by (rule user_proc cli_ops c_steps)+
  show ?thesis using assms a b c d by (auto simp: user_commands_def)
qed

section \<open>The console\<close>

lemma say_cli: "cli_managed ai c t \<Longrightarrow> cli_managed ai c (say l t)" "cli_managed ai c t \<Longrightarrow> cli_managed ai c (console_json v t)"
  unfolding say_def console_json_def by (erule words_cli)+

lemma answer_cli: "cli_manages ai c m \<Longrightarrow> cli_managed ai c (answer label f m)"
  unfolding answer_def by (erule cli.goes_run) (rule cli.goes_state say_cli cli.step_refl)+

lemma line_cli: "cli_manages ai c (stdin_line c)"
  by (simp add: stdin_line_def Let_def follows_def frame_cli)

lemma prompt_cli: "cli_manages ai c (prompt_for label c)"
proof -
  have "cli_manages ai c (stdin_line (words (label @ '': '') c))"
    by (rule cli.later_steps [OF cli.goes_pair [OF words_cli(1) [OF cli.step_refl]] line_cli])
  then show ?thesis
    unfolding prompt_for_def by (rule cli.run_steps) (((rule c_steps) | (rule cv_steps))+)
qed

lemma console_frames:
  fixes c t :: Console
  assumes "cli_managed ai c t"
  shows "cli_managed ai c (t\<lparr>con_lastChat := ch\<rparr>)" "cli_managed ai c (t\<lparr>con_turnCount := n\<rparr>)" "cli_managed ai c (t\<lparr>con_turns := ts\<rparr>)"
    "cli_managed ai c (t\<lparr>con_active := i\<rparr>)" "cli_managed ai c (t\<lparr>con_managed := b\<rparr>)" "cli_managed ai c (t\<lparr>con_user := u\<rparr>)"
    "cli_managed ai c (t\<lparr>con_cfg := cfg\<rparr>)" "cli_managed ai c (t\<lparr>pc_urls := urls\<rparr>)"
    "cli_managed ai c (recordChatTurn r m t)" "cli_managed ai c (resetTurnState t)" "cli_managed ai c (drop_turn t)"
  unfolding recordChatTurn_def resetTurnState_def drop_turn_def
  by (rule cli.step_trans [OF assms frame_cli]; simp)+

lemma switches_cli:
  fixes c :: Console
  shows "SwitchModelProfile u p (ap_App c) (pc_world c) = (r, y) \<Longrightarrow> y = (a, w) \<Longrightarrow> cli_managed ai c (c\<lparr>ap_App := a, pc_world := w\<rparr>)"
    "SwitchAuxiliaryProfile u p q (ap_App c) (pc_world c) = (r', y) \<Longrightarrow> y = (a, w) \<Longrightarrow> cli_managed ai c (c\<lparr>ap_App := a, pc_world := w\<rparr>)"
proof -
  have au: "managed ai v (snd (audit u ac t v))" for v ac t
    using served_managed [OF op_serves(3)] by (simp add: follows_def)
  have k: "app_Tools a = app_Tools (ap_App c) \<and> managed ai (pc_world c) w \<Longrightarrow> cli_managed ai c (c\<lparr>ap_App := a, pc_world := w\<rparr>)"
    by (simp add: cli_managed_def cli_ready_def)
  show "SwitchModelProfile u p (ap_App c) (pc_world c) = (r, y) \<Longrightarrow> y = (a, w) \<Longrightarrow> cli_managed ai c (c\<lparr>ap_App := a, pc_world := w\<rparr>)"
    using au man.step_refl by (intro k) (auto simp: SwitchModelProfile_def split: prod.splits sum.splits)
  show "SwitchAuxiliaryProfile u p q (ap_App c) (pc_world c) = (r', y) \<Longrightarrow> y = (a, w) \<Longrightarrow> cli_managed ai c (c\<lparr>ap_App := a, pc_world := w\<rparr>)"
    using au man.step_refl by (intro k) (auto simp: SwitchAuxiliaryProfile_def Let_def split: if_splits)
qed

lemma save_cli: "cli_managed ai c t \<Longrightarrow> cli_managed ai c (console_save co label v t)"
proof (erule cli.step_trans)
  show "cli_managed ai t (console_save co label v t)"
    unfolding console_save_def
    by (((rule say_cli cli.goes_state console_frames cli.step_refl) | (rule world_cli, rule serve_ops) | (rule cli.goes_value))+)
qed

lemma insights_cli: "cli_manages ai c (on_w (on_store (BuildUserInsights u since)) c)"
  by (rule world_cli) (rule insights_serve)

lemma undo_cli: "cli_manages ai c (on_w (on_store (DeleteLastTurn sid)) c)"
  by (rule wide_cli) (rule undo_managed)

lemma dropped_cli:
  assumes "\<And>w. serves w (f w)"
  shows "cli_manages ai c (on_w f (drop_turn c))"
  by (rule cli.later_steps [OF cli.goes_pair [OF console_frames(11) [OF cli.step_refl]]]) (rule world_cli, rule assms)

lemmas con_steps = say_cli answer_cli cli.goes_state undo_cli insights_cli cli_ops save_cli console_frames line_cli prompt_cli

lemma workflow_cli:
  fixes c :: Console
  shows "cli_managed ai c (console_chat co text1 c)" "cli_managed ai c (console_login co rest c)"
    "cli_managed ai c (console_resume co rest c)" "cli_managed ai c (console_retry co rest c)" "cli_managed ai c (console_undo co rest c)"
proof -
  have s: "serves w (ChatInSessionDetailed env a u sid p w)" for env a u sid p w
    unfolding ChatInSessionDetailed_def by (rule chat_serves w_steps)+
  have r: "cli_managed ai c (resume_session x c)" for x and c :: Console
    unfolding resume_session_def by (((rule con_steps cli.step_refl) | (rule cli.goes_value))+)
  have "cli_managed ai v (reread_session i v)" for i and v :: Console
    unfolding reread_session_def by (((rule con_steps cli.step_refl) | (rule cli.goes_value))+)
  then have rr: "cli_managed ai c t \<Longrightarrow> cli_managed ai c (reread_session i t)" for i and c t :: Console
    by (blast intro: cli.step_trans)
  have "cli_managed ai t (undo_anchor x t)" for x and t :: Console
    unfolding undo_anchor_def by (rule cli.goes_let rr cli.goes_if console_frames cli.step_refl)+
  then have a: "cli_managed ai c t \<Longrightarrow> cli_managed ai c (undo_anchor x t)" for x and c t :: Console
    by (blast intro: cli.step_trans)
  show "cli_managed ai c (console_chat co text1 c)"
    unfolding console_chat_def
    by (((rule con_steps c_steps cli.step_refl) | (rule world_cli, rule serve_ops s) | (rule cli.goes_value))+)
  show "cli_managed ai c (console_login co rest c)"
    unfolding console_login_def Let_def
    by (((rule con_steps c_steps cli.step_refl) | (rule cli.goes_value cv_steps))+)
  show "cli_managed ai c (console_resume co rest c)"
    unfolding console_resume_def
    by (((rule con_steps r c_steps cli.step_refl) | (rule cli.goes_value))+)
  show "cli_managed ai c (console_retry co rest c)"
    unfolding console_retry_def Let_def
    by (((rule con_steps c_steps cli.step_refl) | (rule dropped_cli, rule s) | (rule cli.goes_value))+)
  show "cli_managed ai c (console_undo co rest c)"
    unfolding console_undo_def
    by (((rule con_steps a c_steps cli.step_refl) | (rule cli.goes_value))+)
qed

lemma flagged_cli: "(\<And>f args c. cli_managed ai c (k f args c)) \<Longrightarrow> cli_managed ai c (flagged defs label k rest c)"
  unfolding flagged_def by (rule cli.goes_state say_cli cli.step_refl cli.goes_value | assumption)+

lemma traces_cli: "(\<And>q d. served_step\<^sup>*\<^sup>* d (snd (op q d))) \<Longrightarrow> cli_managed ai c (console_traces limit label op v co rest c)"
  unfolding console_traces_def by (rule cli.goes_sum say_cli answer_cli store_cli cli.step_refl | assumption)+

lemma cache_clear_cli: "cli_managed ai c (console_cache_clear co rest c)"
  unfolding console_cache_clear_def Let_def
  by (rule say_cli) (simp add: cli_managed_def cli_ready_def managed_def ClearPromptCache_def)

lemma status_cli:
  fixes c :: Console
  shows "cli_managed ai c (console_help co rest c)" "cli_managed ai c (console_whoami co rest c)" "cli_managed ai c (console_status co rest c)"
    "cli_managed ai c (console_usage co rest c)" "cli_managed ai c (console_insights co rest c)"
    "cli_managed ai c (console_prompt_inspect co rest c)" "cli_managed ai c (console_cache_stats co rest c)"
    "cli_managed ai c (console_prompt_config co rest c)" "cli_managed ai c (console_models co rest c)"
    "cli_managed ai c (console_discover_models co rest c)" "cli_managed ai c (console_model co rest c)"
    "cli_managed ai c (console_model_metadata co rest c)" "cli_managed ai c (console_auxiliary_info co rest c)"
    "cli_managed ai c (console_auxiliary_chat co rest c)" "cli_managed ai c (console_auxiliary_switch co rest c)"
    "cli_managed ai c (console_context co rest c)"
proof -
  show "cli_managed ai c (console_help co rest c)"
    using json_cli(2) [of ai c help_lines] by (simp add: console_help_def printed_def follows_def)
  show "cli_managed ai c (console_model_metadata co rest c)"
    unfolding console_model_metadata_def Let_def
    by (rule cli.goes_if cli.goes_option cli.goes_prod say_cli cli.step_refl)+
qed (unfold console_whoami_def console_status_def console_usage_def console_insights_def console_prompt_inspect_def
    console_cache_stats_def console_prompt_config_def console_models_def console_discover_models_def console_model_def
    console_auxiliary_info_def console_auxiliary_chat_def console_auxiliary_switch_def console_context_def InspectPrompt_def Let_def,
  (((rule con_steps cli.stay cli.step_refl) | (rule world_cli, rule serve_ops) | (erule (1) switches_cli) | (rule cli.goes_value))+)[14])

lemma rows_cli:
  fixes c :: Console
  shows "cli_managed ai c (console_sessions co rest c)" "cli_managed ai c (console_history co rest c)"
    "cli_managed ai c (console_search co rest c)" "cli_managed ai c (console_audit co rest c)"
    "cli_managed ai c (console_extensions co rest c)" "cli_managed ai c (console_tools co rest c)"
    "cli_managed ai c (console_plan co rest c)" "cli_managed ai c (console_trajectories co rest c)"
    "cli_managed ai c (console_trajectory_show co rest c)" "cli_managed ai c (console_trajectory_summary co rest c)"
    "cli_managed ai c (console_cron_add co rest c)" "cli_managed ai c (console_cron_list co rest c)"
    "cli_managed ai c (console_cron_show co rest c)" "cli_managed ai c (console_cron_delete co rest c)"
    "cli_managed ai c (console_cron_tick co rest c)" "cli_managed ai c (console_multiagent_replay co rest c)"
  unfolding console_sessions_def console_history_def console_search_def console_audit_def console_extensions_def
    console_tools_def console_plan_def console_trajectories_def console_trajectory_show_def console_trajectory_summary_def
    console_cron_add_def console_cron_list_def console_cron_show_def console_cron_delete_def console_cron_tick_def
    console_multiagent_replay_def
  by (((rule con_steps cli.step_refl) | (rule world_cli, rule serve_ops) | (rule cli.goes_value))+)[16]

lemma flags_cli:
  fixes c :: Console
  shows "cli_managed ai c (console_execution_audit co rest c)" "cli_managed ai c (console_profile_audit co rest c)"
    "cli_managed ai c (console_extension_hooks co rest c)" "cli_managed ai c (console_extension_refresh co rest c)"
    "cli_managed ai c (console_extension_state co rest c)" "cli_managed ai c (console_extension_validate co rest c)"
    "cli_managed ai c (console_multiagent_resume co rest c)"
proof -
  have r: "cli_managed ai v (console_register co v)" for v
    unfolding console_register_def by (rule con_steps cli.step_refl)+
  show "cli_managed ai c (console_execution_audit co rest c)" "cli_managed ai c (console_profile_audit co rest c)"
    "cli_managed ai c (console_extension_hooks co rest c)" "cli_managed ai c (console_extension_refresh co rest c)"
    "cli_managed ai c (console_extension_state co rest c)" "cli_managed ai c (console_extension_validate co rest c)"
    "cli_managed ai c (console_multiagent_resume co rest c)"
    unfolding console_execution_audit_def console_profile_audit_def console_extension_hooks_def console_extension_refresh_def
      console_extension_state_def console_extension_validate_def console_multiagent_resume_def
    by (((rule flagged_cli r con_steps cli.step_refl) | (rule world_cli, (rule serve_ops; (erule cli_readyD)?)) | (rule cli.goes_value))+)[7]
qed

lemma fresh_cli:
  fixes c :: Console
  shows "cli_managed ai c (console_new c)" "cli_managed ai c (console_clear c)"
  unfolding console_new_def console_clear_def by (rule say_cli words_cli console_frames cli.step_refl)+

lemma handlers_cli: "(name, h) \<in> set (workflow_handlers @ view_handlers) \<Longrightarrow> cli_managed ai c (h co rest c)"
  by (auto simp: workflow_handlers_def view_handlers_def workflow_cli fresh_cli status_cli rows_cli flags_cli cache_clear_cli
      console_multiagent_traces_def console_multiagent_summary_def console_multiagent_verifiers_def
      console_multiagent_failures_def console_multiagent_hotspots_def traces_cli page_run)

lemma line_handled_cli: "cli_manages ai c (handleLine co line c)"
proof -
  have m: "cli_manages ai v (console_multiagent_run co rest v)" for rest v
    unfolding console_multiagent_run_def
    by (((rule cli.goes_pair say_cli answer_cli plan_cli cli.stay cli.step_refl c_steps) | (rule world_cli, rule serve_ops) | (rule cv_steps))+)
  have t: "cli_manages ai v (console_tool_exec co rest v)" for rest v
    unfolding console_tool_exec_def
    by (((rule c_steps) | (rule cli.goes_pair, rule say_cli answer_cli) | rule cli.step_refl cli.stay
        | (rule world_cli, rule tool_serves, erule cli_readyD) | (rule cv_steps))+)
  have k: "cli_managed ai v (console_chat co x v)" for x v by (rule workflow_cli)
  show ?thesis
    unfolding handleLine_def
    by (((rule c_steps m t) | (rule cli.goes_pair, rule k)
        | (rule cli.goes_pair, rule say_cli, rule cli.step_refl) | (rule cli.goes_pair, rule handlers_cli, erule map_of_SomeD) | (rule cv_steps))+)
qed

lemma loop_cli: "cli_manages ai c (console_loop co n c)"
proof (induction n arbitrary: c)
  case (Suc n)
  have l: "cli_manages ai v (stdin_line (words s v))" for s and v :: Console
    by (rule cli.later_steps [OF cli.goes_pair [OF words_cli(1) [OF cli.step_refl]] line_cli])
  show ?case
    unfolding console_loop.simps
    by (((rule c_steps l Suc.IH line_handled_cli) | (rule cli.goes_pair, rule words_cli, rule cli.step_refl) | (rule cv_steps))+)
qed (simp add: cli.stay)

lemma console_cli: "cli_manages ai c (console_start co c)"
proof -
  have l: "cli_manages ai c (console_loop co n (println s (println t c)))" for n s t
    by (rule cli.later_steps [OF cli.goes_pair [OF words_cli(2) [OF words_cli(2) [OF cli.step_refl]]] loop_cli])
  show ?thesis
    unfolding console_start_def Let_def by (((rule c_steps l) | (rule cv_steps))+)
qed

lemma chat_proc: "proc_manages ai p (runChat co args p)"
proof -
  have r: "cli_manages ai v (readAllFromStdin co v)" for v :: Cli
    by (auto simp: readAllFromStdin_def follows_def split: stdin_kind.split intro: frame_cli)
  have e: "cli_manages ai v (ensureConsoleUser co u pw t v)" for u pw t and v :: Cli
    unfolding ensureConsoleUser_def promptInteractiveCredentials_def Let_def
    by (((rule c_steps prompt_cli login_cli) | (rule cv_steps))+)
  have o: "cli_manages ai v (chat_once co f prompt v)" for f prompt v
    unfolding chat_once_def by (((rule cli_ops c_steps) | (rule world_cli, rule serve_ops) | (rule cv_steps))+)
  have n: "cli_manages ai v (case console_start co (newInteractiveConsole path cfg u v) of (r, c) \<Rightarrow> (r, Cli.truncate c))" for path cfg u v
  proof -
    let ?n = "newInteractiveConsole path cfg u v"
    have "pc_world ?n = pc_world v" "ap_App ?n = ap_App v" "ap_Ext ?n = ap_Ext v"
      by (simp_all add: newInteractiveConsole_def Cli.extend_def Console.fields_def)
    then show ?thesis
      using console_cli [where c = ?n and co = co]
      by (auto simp: follows_def cli_managed_def cli_ready_def Cli.truncate_def split: prod.split)
  qed
  show ?thesis
    unfolding runChat_def
    by (((rule app_proc cli_ops r e o n c_steps) | (rule cv_steps))+)
qed

section \<open>The client and the system\<close>

lemma others_proc: "(name, cmd) \<in> set other_commands \<Longrightarrow> proc_manages (name = ''init-admin'') p (cmd co args p)"
proof -
  have c: "proc_manages ai v (config_command defs body co args v)" if "\<And>f cfg q. proc_manages ai q (body co f cfg q)" for defs body v ai
    unfolding config_command_def by (rule flags_proc finished_proc must_proc that p_steps | (rule world_proc, rule files_serve))+
  have s: "proc_manages ai q (save_profile co f name r q)" for f name r q ai
    unfolding save_profile_def
    by (((rule p_steps must_proc json_proc) | (rule world_proc, rule files_serve) | (rule pv_steps))+)
  have a1: "proc_manages ai p (runModels co args p)" "proc_manages ai p (runPromptConfig co args p)" for ai
    unfolding runModels_def runPromptConfig_def by (rule c, rule json_proc)+
  have "proc_manages ai q (printed ls (q\<lparr>pc_urls := urls\<rparr>))" for q ls urls ai
    by (rule prc.later_steps [OF prc.goes_pair json_proc(2)]) (simp add: frame_proc)
  then have a2: "proc_manages ai p (runDiscoverModels co args p)" for ai
    unfolding runDiscoverModels_def by - (rule c, rule prc.prod_steps)
  have a3: "proc_manages ai p (runSwitchModel co args p)" for ai
    unfolding runSwitchModel_def by (rule c) (auto simp: Let_def prc.stay s)
  have b: "proc_manages ai p (runAuxiliarySwitch co args p)" for ai
    unfolding runAuxiliarySwitch_def Let_def
    by (((rule flags_proc finished_proc p_steps must_proc json_proc) | (rule world_proc, rule files_serve) | (rule pv_steps))+)
  have i: "proc_manages True p (runInitAdmin co args p)"
    unfolding runInitAdmin_def by (((rule app_proc cli_ops c_steps) | (rule wide_cli, rule init_managed) | (rule cv_steps))+)
  have d: "proc_manages ai p (runLogin co args p)" "proc_manages ai p (runContext co args p)"
    "proc_manages ai p (runAuxiliaryInfo co args p)" "proc_manages ai p (runAuxiliaryChat co args p)"
    "proc_manages ai p (runModelMetadata co args p)" for ai
    unfolding runLogin_def runContext_def runAuxiliaryInfo_def runAuxiliaryChat_def runModelMetadata_def Let_def
    by (((rule app_proc cli_ops c_steps) | (rule world_cli, rule serve_ops) | (rule cv_steps))+)[5]
  show "(name, cmd) \<in> set other_commands \<Longrightarrow> proc_manages (name = ''init-admin'') p (cmd co args p)"
    using a1 a2 a3 b i d by (auto simp: other_commands_def chat_proc)
qed

lemma client_proc:
  "proc_manages (case argv of [] \<Rightarrow> False | name # _ \<Rightarrow> name = ''init-admin'') p (hermesctl co argv p)"
proof (cases argv)
  case Nil
  then show ?thesis by (simp add: hermesctl_def usage_def follows_def frame_proc)
next
  case (Cons name args)
  consider "name = ''version'' \<or> map_of (user_commands @ other_commands) name = None" |
    cmd where "name \<noteq> ''version''" "map_of (user_commands @ other_commands) name = Some cmd" by blast
  then show ?thesis
  proof cases
    case 1
    then show ?thesis by (auto simp: hermesctl_def Cons usage_def follows_def frame_proc simp del: map_of_append)
  next
    case 2
    then have "hermesctl co argv p = cmd co args p" by (simp add: hermesctl_def Cons del: map_of_append)
    then show ?thesis
      using map_of_SomeD [OF 2(2)] user_commands_proc others_proc by (fastforce simp: Cons)
  qed
qed

text \<open>Runs of the two programs on one machine, one after the other: a daemon with what happens to it, and
  a client at a time, with its arguments and its input.\<close>

datatype process_run = Daemon string "daemon_event list" | Client time "string list" string

fun run_process :: "ApiOut \<Rightarrow> CliOut \<Rightarrow> process_run \<Rightarrow> World \<Rightarrow> World" where
  "run_process ao co (Daemon path events) w = snd (hermesd ao co path events w)"
| "run_process ao co (Client t argv input) w =
     pc_world (snd (hermesctl co argv \<lparr>pc_world = w\<lparr>w_now := t\<rparr>, pc_urls = [], pc_in = input, pc_out = []\<rparr>))"

fun makes_admin :: "process_run \<Rightarrow> bool" where
  "makes_admin (Client t (name # args) input) = (name = ''init-admin'')"
| "makes_admin _ = False"

lemma process_managed: "managed (makes_admin r) w (run_process ao co r w)"
proof (cases r)
  case (Daemon path events)
  then show ?thesis using served_managed [OF daemon_serves] by (simp add: follows_def)
next
  case (Client t argv input)
  have "managed ai v w \<Longrightarrow> managed ai (v\<lparr>w_now := t\<rparr>) w \<and> managed ai w' w' " for ai v w w'
    by (simp add: managed_def)
  then show ?thesis
    using client_proc [of argv "\<lparr>pc_world = w\<lparr>w_now := t\<rparr>, pc_urls = [], pc_in = input, pc_out = []\<rparr>" co]
    by (cases argv) (simp_all add: Client follows_def proc_managed_def managed_def)
qed

lemma client_is_store: "client_step ai d e \<Longrightarrow> store_step d e"
  by (induction rule: client_step.induct) (auto intro: served_is_store store_step.intros)

lemma client_reaches: "(client_step ai)\<^sup>*\<^sup>* d e \<Longrightarrow> store_reachable d \<Longrightarrow> store_reachable e"
  by (induction rule: rtranclp_induct) (auto intro: sr_step client_is_store)

text \<open>C2. Whatever daemons and clients run on a new database, with any arguments, requests, failures and
  answers from outside, what they leave is a state of the store that its methods reach from the empty
  one, so ids, names and keys stay unique and every row of the search index copies a stored message.\<close>

theorem system_refines_store:
  "store_reachable (w_store (fold (run_process ao co) rs (w\<lparr>w_store := Open\<rparr>)))
   \<and> store_wf (w_store (fold (run_process ao co) rs (w\<lparr>w_store := Open\<rparr>)))"
proof -
  have "store_reachable (w_store v) \<Longrightarrow> store_reachable (w_store (fold (run_process ao co) rs v))" for v
  proof (induction rs arbitrary: v)
    case (Cons r rs)
    have "store_reachable (w_store (run_process ao co r v))"
      using process_managed [of r v ao co] Cons.prems by (auto simp: managed_def intro: client_reaches)
    then show ?case using Cons.IH by simp
  qed simp
  from this [of "w\<lparr>w_store := Open\<rparr>"] show ?thesis
    by (simp add: sr_open reachable_wf)
qed

text \<open>Taking back a turn leaves the accounts.\<close>

interpretation usr: preorder_steps "\<lambda>d e :: Store. users e = users d"
  by unfold_locales simp_all

lemma exec_users: "(\<And>d. users (f d) = users d) \<Longrightarrow> follows (\<lambda>d e. users e = users d) d (exec f d)"
  unfolding follows_def exec_def by (rule stmt_obs) simp_all

lemma undo_users: "users (snd (DeleteLastTurn sid d)) = users d"
proof -
  have q: "follows (\<lambda>d e. users e = users d) d (query f d)" for f :: "Store \<Rightarrow> 'x" and d
    unfolding follows_def query_def by (rule stmt_obs) simp_all
  have t: "follows (\<lambda>d e. users e = users d) d (delete_turn sid rows d)" for rows d
    unfolding delete_turn_def refresh_snapshot_def
    by (((rule usr.state_steps q exec_users) | (rule usr.value_steps usr.curried_steps)
        | simp add: delete_messages_def update_session_def)+)
  define body where "body = (\<lambda>d. bind_res (query (\<lambda>d. take 2 (order_desc msg_id (session_messages sid d))) d) (delete_turn sid))"
  have b: "users (snd (body e)) = users e" for e
    using usr.bind_steps [OF q t] by (simp add: follows_def body_def)
  show ?thesis
    unfolding DeleteLastTurn_def body_def [symmetric]
  proof (cases rule: in_tx_state [of body d])
    case (2 fs gs a d1)
    then show "users (snd (in_tx body d)) = users d" using b [of "d\<lparr>faults := fs\<rparr>"] by simp
  qed simp
qed

text \<open>C4. Accounts are made by \<^verbatim>\<open>hermesctl init-admin\<close> alone: over any run of daemons and other commands
  the accounts stay the same, name, hash and role, and never does one disappear or change.\<close>

theorem accounts_by_init_admin:
  assumes "list_all (\<lambda>r. \<not> makes_admin r) rs"
  shows "map account_row (users (w_store (fold (run_process ao co) rs w))) = map account_row (users (w_store w))"
proof -
  have st: "map account_row (users e) = map account_row (users d)" if "client_step False d e" for d e
    using that by cases (auto simp: undo_users dest!: served_step_appends simp: only_appends_def)
  have "(client_step False)\<^sup>*\<^sup>* d e \<Longrightarrow> map account_row (users e) = map account_row (users d)" for d e
    by (induction rule: rtranclp_induct) (simp_all add: st)
  then have "\<not> makes_admin r \<Longrightarrow>
      map account_row (users (w_store (run_process ao co r v))) = map account_row (users (w_store v))" for r v
    using process_managed [of r v ao co] by (simp add: managed_def)
  then show ?thesis using assms by (induction rs arbitrary: w) simp_all
qed

theorem accounts_by_init_admin_witness:
  "\<forall>ao co r. map account_row (users (w_store (fold (run_process ao co)
     [Daemon ''c.yaml'' [Request 5 ''/auth/login'' r], Client 9 [''login'', ''--username'', ''ann''] []] demo_world))) = []"
proof (intro allI)
  fix ao :: ApiOut and co :: CliOut and r :: HttpRequest
  show "map account_row (users (w_store (fold (run_process ao co)
     [Daemon ''c.yaml'' [Request 5 ''/auth/login'' r], Client 9 [''login'', ''--username'', ''ann''] []] demo_world))) = []"
    using accounts_by_init_admin [of "[Daemon ''c.yaml'' [Request 5 ''/auth/login'' r], Client 9 [''login'', ''--username'', ''ann''] []]"
        ao co demo_world]
    by (simp add: demo_world_def demo_sessions_def CreateSession_def CreateSessionWithOptions_def stmt_def Open_def Let_def
        del: fold_simps)
qed

end
