(* ===== verification/Spec2Isabelle.thy ===== *)
theory Spec2Isabelle
  imports Main StoreReads StoreProps Auth Config ContextEngine Execution MemoryProps MultiAgentLive
    MultiAgentProps Prompting Tools AppCore AppDemo ChatProps ChildAgent ChildResume ChildProps ResumeProps
    CronProps GatewayProps ExtProps Models Trajectory BatchProps ApiProps Wiring ServerSteps
    DaemonProps ConsoleProps CliProps ClientProps
begin

text \<open>
  A verification development for go-hermes-agent, a self-hosted agent written in Go: an HTTP server with chat
  gateways and a scheduler (\<^verbatim>\<open>cmd/hermesd\<close>), and a command line client with an interactive console
  (\<^verbatim>\<open>cmd/hermesctl\<close>), both around one application container (\<^verbatim>\<open>internal/app\<close>).

  \<^bold>\<open>How the program works.\<close> \<^verbatim>\<open>app.New\<close> opens the SQLite store, wires the services and registers the tools. A chat
  turn builds a prompt plan from the memory files, the compressed history of the user and the prompt cache, asks
  the model over HTTP, and appends the user's and the assistant's message to a session. A multi-agent plan is
  checked by a policy and its tasks are run, one after the other or in goroutines, as child agents: each child
  gets a session of its own and at most four rounds of tool calls, is traced, and can be resumed from a stored
  snapshot. Tools are built in or come from extensions (plugins, skills, MCP servers over stdio); commands are run
  by an executor with an allow list and approved profiles. Everything a user did is in the audit log.

  \<^bold>\<open>The state.\<close> A Go function that reads or writes the world is a function on the record \<open>World\<close> of theory
  \<open>AppCore\<close>: the database (\<open>Store\<close>, tables as lists of rows), the file system (\<open>FS\<close>), the processes started, the
  requests sent to the model, the prompt cache and the clock. A fallible call is a sum in a pair with the state
  after it (\<open>outcome\<close>, \<open>app_result\<close>), and \<open>bind_res\<close> is the early return on an error. The engine may refuse any
  statement (\<open>faults\<close>), and the file system any operation or tear a write (\<open>answers\<close>): the theorems hold for all
  such refusals unless they say otherwise. Integers are \<open>int\<close> where only their order matters, and wrapped to 64 bits
  (\<open>wrap64\<close>) where Go's arithmetic on durations or limits can overflow. A nil map is \<open>None\<close>, a Go map in iteration
  over sorted keys an association list (\<open>gomap\<close>).

  \<^bold>\<open>Theories and the code they model\<close>, from the bottom up:

  \<^item> \<open>Prelude\<close>, \<open>GoText\<close>, \<open>FileSys\<close>, \<open>FileOps\<close>, \<open>JsonVal\<close>, \<open>JsonCodec\<close>, \<open>Flags\<close>: the parts of Go's standard
    library that the source uses (\<^verbatim>\<open>strings\<close>, \<^verbatim>\<open>fmt\<close>, \<^verbatim>\<open>strconv\<close>, \<^verbatim>\<open>path/filepath\<close>, \<^verbatim>\<open>os\<close>, \<^verbatim>\<open>encoding/json\<close> on
    values, \<^verbatim>\<open>flag\<close>), with the lemmas the components share.
  \<^item> \<open>Store\<close>, \<open>StoreOps\<close> (\<^verbatim>\<open>internal/store/sqlite.go\<close>): rows, statements, transactions, and every operation of
    \<^verbatim>\<open>*Store\<close>. \<open>StoreInv\<close> has the invariant \<open>store_wf\<close>, \<open>StoreIndex\<close> that the search index mirrors the
    messages, \<open>StoreProps\<close> and \<open>StoreReads\<close> the contracts.
  \<^item> \<open>Config\<close> (\<^verbatim>\<open>internal/config\<close>), \<open>Auth\<close> (\<^verbatim>\<open>internal/auth\<close>, \<^verbatim>\<open>internal/security/token.go\<close>), \<open>Execution\<close>
    (\<^verbatim>\<open>internal/execution\<close>), \<open>Memory\<close> and \<open>MemoryProps\<close> (\<^verbatim>\<open>internal/memory\<close>), \<open>ContextEngine\<close>
    (\<^verbatim>\<open>internal/contextengine\<close>), \<open>Llm\<close> (\<^verbatim>\<open>internal/llm\<close>), \<open>Prompting\<close> (\<^verbatim>\<open>internal/prompting\<close>), \<open>Tools\<close>
    (\<^verbatim>\<open>internal/tools\<close>), \<open>Models\<close> (\<^verbatim>\<open>internal/models\<close>), \<open>Trajectory\<close> (\<^verbatim>\<open>internal/trajectory\<close>).
  \<^item> \<open>MultiAgent\<close> (\<^verbatim>\<open>internal/multiagent\<close>): plans, policy, planner, aggregation, sequential runs, and a parallel run
    as a step relation over the events of its goroutines (\<open>par_step\<close>); \<open>MultiAgentRun\<close>, \<open>MultiAgentProps\<close> and
    \<open>MultiAgentLive\<close> have its invariant and its properties.
  \<^item> \<open>AppCore\<close>, \<open>ChildAgent\<close>, \<open>ChildResume\<close> (\<^verbatim>\<open>internal/app/app.go\<close>): the container and chat, the delegated task as
    a child agent, and plans, replays and resumptions. \<open>ChatProps\<close>, \<open>ChildInvariants\<close>, \<open>ChildProps\<close> and
    \<open>ResumeProps\<close> have the properties; \<open>AppDemo\<close> is a small application for closed instances.
  \<^item> \<open>CommandTool\<close>, \<open>Mcp\<close>, \<open>Extensions\<close> (\<^verbatim>\<open>internal/extensions\<close>) with \<open>ExtProps\<close>; \<open>Cron\<close> (\<^verbatim>\<open>internal/cron\<close>) with
    \<open>CronProps\<close>; \<open>Batch\<close> (\<^verbatim>\<open>internal/batch\<close>) with \<open>BatchProps\<close>; \<open>Gateway\<close> and \<open>SlackWeixin\<close>
    (\<^verbatim>\<open>internal/gateway\<close>) with \<open>GatewayProps\<close>; \<open>Api\<close> and \<open>ApiRoutes\<close> (\<^verbatim>\<open>internal/api/server.go\<close>) with \<open>ApiProps\<close>.
  \<^item> \<open>Wiring\<close>: \<^verbatim>\<open>config.Load\<close> and \<^verbatim>\<open>Save\<close> on files, \<^verbatim>\<open>app.New\<close>, and \<^verbatim>\<open>cmd/hermesd\<close> as a sequence of requests and
    expiries of the scheduler's ticker.
  \<^item> \<open>Cli\<close>, \<open>CliText\<close>, \<open>CliCommands\<close>, \<open>CliOps\<close> (\<^verbatim>\<open>cmd/hermesctl/main.go\<close>): a process with its standard input and
    output, the commands, and how they end. \<open>Console\<close>, \<open>ConsoleCommands\<close>, \<open>ConsoleLoop\<close>
    (\<^verbatim>\<open>cmd/hermesctl/console.go\<close>): the console's turns, its handlers, the dispatch of a line, and its loop.
    \<open>ConsoleProps\<close> and \<open>CliProps\<close> have the properties.
  \<^item> The whole system: \<open>ServerSteps\<close> has the methods of the store that a server uses, as a step relation, and shows
    for chats, agents, gateways, ticks and extensions that they are runs of it; \<open>DaemonProps\<close> adds the HTTP API, the
    start and \<^verbatim>\<open>cmd/hermesd\<close>, and \<open>ClientProps\<close> the commands and the console of \<^verbatim>\<open>cmd/hermesctl\<close>.

  A definition has the name of the Go function it models where that is free, and a constructor or field the name of
  the Go one with a short prefix of its struct.

  \<^bold>\<open>What the lemmas show.\<close>

  \<^item> The store: every operation keeps \<open>store_wf\<close>, and the search index one row per message of a session; searches and pages return the asking user's rows; a session is a
    log that only chat turns extend and only \<open>DeleteLastTurn\<close> shortens, all or nothing.
  \<^item> The system: any runs of daemons and clients, one after another, are runs of the store's methods and so keep
    its invariant; a daemon only adds rows, apart from the locks of accounts, the responses of sessions and the
    tables that hold a state (summaries, extension states); accounts are made by \<^verbatim>\<open>init-admin\<close> alone.
  \<^item> Security: the lock-out of accounts and the soundness of login; the executor starts only what its lists allow;
    tools act for the user they are called for; a child reaches no tool but its own; the server and the client do
    nothing without credentials, and what the server answers with rows of the database it answers from its user's rows alone.
  \<^item> Function: what a chat turn appends, what a plan accepts, how a parallel run orders its results and bounds its
    concurrency, what a profile run reports, what a batch and a tick run (one chat turn for each item that is open, one run of
    each job that is due), how memory refines editing a list.
  \<^item> Round trips: the snapshot of a child's round through the stored trace, the framing of MCP, the job file, and
    a chat in the console followed by an undo.
  \<^item> Where the code falls short, a lemma or theorem shows it on the model: a parallel plan with bound 0 blocks
    (\<open>zero_bound_blocks\<close>), usage statistics fail for a user without sessions (\<open>insights_need_a_session\<close>), a resumed
    child may use tools it was refused (\<open>resume_allows_traced_tools\<close>), a plan may write into a foreign session
    (\<open>foreign_parent_written\<close>), a large interval is due at every tick (\<open>interval_overflow_due\<close>), and \<^verbatim>\<open>null\<close> as
    the input of a tool ends the console (\<open>null_input_panics\<close>).

  \<^bold>\<open>Interfaces.\<close> \<open>session_log\<close> (a transcript per session), \<open>dedup_marks\<close> and \<open>once_only\<close> (an update is handled once),
  \<open>keyed_table\<close> (lookup after write), \<open>memory_provider\<close> (the Go interface of the same name), \<open>preorder_steps\<close>
  (calls follow a relation that composes; \<open>quiet\<close>, the calls of a batch run between its chats, is one), \<open>related\<close> (so do the calls a child makes; \<open>observed\<close>, what no operation of
  a child changes, is the case of an equality) and \<open>child_invariant\<close> (what the rounds of a child preserve) are
  locales, interpreted on the operations of the store, the tools, the file provider, the gateways and the child
  agent, and on the runs of the store's methods made by the server, the gateways, the API and the client.

  \<^bold>\<open>Bounds and fuel.\<close> A child's loop has four rounds, less those its snapshot has done (\<open>iterations_left\<close>), as in the
  source; a busy database is tried four times (\<open>retryBusy\<close>). The parallel run is given a schedule of goroutine
  events: \<open>parallel_run_bounded_and_live\<close> bounds the length of every schedule and shows that some event is possible
  as long as the collector waits. The console's loop has fuel, and one turn more than there are bytes of input is
  enough (\<open>console_terminates\<close>); a line that runs a tool or a plan may end it by a panic or a run that never returns. All other loops are structural or have a measure.

  \<^bold>\<open>Parameters.\<close> Code outside the repository is an argument of the definitions that use it, in the records \<open>Env\<close>,
  \<open>ExtOut\<close>, \<open>McpOut\<close>, \<open>GwEnv\<close>, \<open>ApiOut\<close>, \<open>ModelOut\<close>, \<open>CronText\<close> and \<open>CliOut\<close>: the answer of the network to a request, what a started
  process does, the full-text engine, the texts of times and of JSON, YAML, HMAC and SHA digests, bcrypt, the signing
  and parsing of tokens, the random source, and the opening of the database file.

  \<^bold>\<open>Not modelled.\<close> The SQL engine itself, its migrations of old files and its indexes (a statement is its documented
  meaning); \<^verbatim>\<open>internal/security/password.go\<close>, which only calls bcrypt and the random source; the texts of YAML and of
  printed JSON; the transport under \<^verbatim>\<open>http.Server\<close> and the signals that end it; the mutexes of the container and of the
  registry, since a handled request is one step; errors of the standard input other than its end, and of the
  standard output; the shell scripts for installation.
\<close>

end
